(* ===== verification/Swarm_Prelude.thy ===== *)
theory Swarm_Prelude
  imports Complex_Main "HOL-Library.Sublist" "HOL-Library.Product_Lexorder"
begin

text \<open>
  Shared vocabulary of the development: the lemma collections of the components, the
  JavaScript string and truthiness primitives the sources use, the state-and-exception
  computations in which effectful TypeScript is written, and the insertion-ordered \<open>Map\<close>
  of JavaScript behind the locale \<open>ordered_store\<close>.

  Counts, epochs and millisecond times are \<open>int\<close>; scores are exact rationals (\<open>rat\<close>): every
  finite double is one, and the rounding of double arithmetic is not modelled. Strings are
  lists of 8-bit characters.
\<close>

section \<open>Lemma collections\<close>

named_theorems exec_defs "unfolding of state-and-exception computations"
named_theorems policy_defs "definitions of the policy kernel"
named_theorems gate_defs "definitions of the finality gates"

section \<open>Strings\<close>

definition str_starts_with :: "string \<Rightarrow> string \<Rightarrow> bool" where
  "str_starts_with s p = prefix p s"

definition str_includes :: "string \<Rightarrow> string \<Rightarrow> bool" where
  "str_includes s p = sublist p s"

definition ascii_lower :: "char \<Rightarrow> char" where
  "ascii_lower c = (let n = (of_char c :: nat) in
     if 65 \<le> n \<and> n \<le> 90 then char_of (n + 32) else c)"

definition ascii_upper :: "char \<Rightarrow> char" where
  "ascii_upper c = (let n = (of_char c :: nat) in
     if 97 \<le> n \<and> n \<le> 122 then char_of (n - 32) else c)"

definition str_lower :: "string \<Rightarrow> string" where
  "str_lower = map ascii_lower"

definition str_upper :: "string \<Rightarrow> string" where
  "str_upper = map ascii_upper"

lemma str_starts_with_append [simp]: "str_starts_with (p @ s) p"
  by (simp add: str_starts_with_def)

lemma str_starts_with_Cons [simp]:
  "str_starts_with (c # s) (d # p) \<longleftrightarrow> d = c \<and> str_starts_with s p"
  by (auto simp: str_starts_with_def)

lemma str_starts_with_Nil [simp]: "str_starts_with s []"
  by (simp add: str_starts_with_def)

lemma str_starts_with_empty [simp]: "str_starts_with [] p \<longleftrightarrow> p = []"
  by (auto simp: str_starts_with_def)

text \<open>Decimal digits of a number, as \<open>String(n)\<close> writes a non-negative integer.\<close>

fun nat_digits :: "nat \<Rightarrow> string" where
  "nat_digits n = (if n < 10 then [char_of (48 + n)]
                   else nat_digits (n div 10) @ [char_of (48 + n mod 10)])"

declare nat_digits.simps [simp del]

section \<open>Optional values\<close>

fun coalesce :: "'a option \<Rightarrow> 'a \<Rightarrow> 'a" where
  "coalesce (Some x) d = x"
| "coalesce None d = d"

fun or_else :: "'a option \<Rightarrow> 'a option \<Rightarrow> 'a option" where
  "or_else (Some x) y = Some x"
| "or_else None y = y"

lemma or_else_None [simp]: "or_else x None = x"
  by (cases x) auto

lemma or_else_eq_Some: "or_else x y = Some v \<longleftrightarrow> x = Some v \<or> (x = None \<and> y = Some v)"
  by (cases x) auto

section \<open>State-and-exception computations\<close>

datatype js_error = JsError string

type_synonym ('w, 'a) exec = "'w \<Rightarrow> 'w \<times> (js_error + 'a)"

definition ret :: "'a \<Rightarrow> ('w, 'a) exec" where
  "ret x w = (w, Inr x)"

definition raise :: "js_error \<Rightarrow> ('w, 'a) exec" where
  "raise e w = (w, Inl e)"

definition and_then :: "('w, 'a) exec \<Rightarrow> ('a \<Rightarrow> ('w, 'b) exec) \<Rightarrow> ('w, 'b) exec" where
  "and_then m f w = (case m w of (w', Inl e) \<Rightarrow> (w', Inl e) | (w', Inr x) \<Rightarrow> f x w')"

fun in_order :: "('w, unit) exec list \<Rightarrow> ('w, unit) exec" where
  "in_order [] w = (w, Inr ())"
| "in_order (m # ms) w = (case m w of (w', Inl e) \<Rightarrow> (w', Inl e) | (w', Inr _) \<Rightarrow> in_order ms w')"

text \<open>\<open>try { m } catch { h }\<close>: the handler starts in the state the failed body left.\<close>

definition try_catch :: "('w, 'a) exec \<Rightarrow> (js_error \<Rightarrow> ('w, 'a) exec) \<Rightarrow> ('w, 'a) exec" where
  "try_catch m h w = (case m w of (w', Inl e) \<Rightarrow> h e w' | (w', Inr x) \<Rightarrow> (w', Inr x))"

definition modify :: "('w \<Rightarrow> 'w) \<Rightarrow> ('w, unit) exec" where
  "modify f w = (f w, Inr ())"

lemma ret_simp [simp]: "ret x w = (w, Inr x)"
  by (simp add: ret_def)

lemma raise_simp [simp]: "raise e w = (w, Inl e)"
  by (simp add: raise_def)

lemma modify_simp [simp]: "modify f w = (f w, Inr ())"
  by (simp add: modify_def)

lemmas [exec_defs] = and_then_def try_catch_def

lemma and_then_ok: "m w = (w', Inr x) \<Longrightarrow> and_then m f w = f x w'"
  by (simp add: and_then_def)

lemma and_then_err: "m w = (w', Inl e) \<Longrightarrow> and_then m f w = (w', Inl e)"
  by (simp add: and_then_def)

lemma and_then_eq_Inr:
  "and_then m f w = (w', Inr y) \<longleftrightarrow> (\<exists>w1 x. m w = (w1, Inr x) \<and> f x w1 = (w', Inr y))"
  by (auto simp: and_then_def split: prod.splits sum.splits)

lemma and_then_assoc:
  "and_then (and_then m f) g w = and_then m (\<lambda>x. and_then (f x) g) w"
  by (auto simp: and_then_def split: prod.splits sum.splits)

text \<open>An invariant that every step of a sequence keeps is kept by the sequence, whether it
  ends normally or by an exception.\<close>

lemma in_order_invariant:
  assumes "\<And>m w. m \<in> set ms \<Longrightarrow> I w \<Longrightarrow> I (fst (m w))" and "I w"
  shows "I (fst (in_order ms w))"
  using assms
proof (induction ms arbitrary: w)
  case (Cons m ms)
  show ?case
  proof (cases "m w")
    case (Pair w' r)
    then have "I w'" using Cons.prems by (metis fst_conv list.set_intros(1))
    then show ?thesis using Pair Cons by (cases r) auto
  qed
qed simp

lemma and_then_invariant:
  assumes "I w" "\<And>w. I w \<Longrightarrow> I (fst (m w))" "\<And>x w. I w \<Longrightarrow> I (fst (f x w))"
  shows "I (fst (and_then m f w))"
  using assms(1) assms(2)[of w] assms(3)
  by (auto simp: and_then_def split: prod.splits sum.splits)

section \<open>Lists\<close>

lemma find_None_iff_all: "List.find P xs = None \<longleftrightarrow> (\<forall>x \<in> set xs. \<not> P x)"
  by (auto simp: find_None_iff)

lemma find_Some_mem: "List.find P xs = Some x \<Longrightarrow> x \<in> set xs \<and> P x"
  by (auto simp: find_Some_iff)

lemma sum_list_nonneg_rat: "(\<And>x. x \<in> set xs \<Longrightarrow> 0 \<le> f x) \<Longrightarrow> 0 \<le> sum_list (map f xs :: rat list)"
  by (induction xs) auto

lemma sum_list_filter_le_rat:
  "(\<And>x. x \<in> set xs \<Longrightarrow> 0 \<le> f x) \<Longrightarrow>
   sum_list (map f (filter P xs)) \<le> sum_list (map f xs :: rat list)"
  by (induction xs) (auto intro: add_increasing)

section \<open>Insertion-ordered maps\<close>

type_synonym ('k, 'v) jsmap = "('k \<times> 'v) list"

fun map_get :: "('k, 'v) jsmap \<Rightarrow> 'k \<Rightarrow> 'v option" where
  "map_get [] k = None"
| "map_get ((k', v) # m) k = (if k = k' then Some v else map_get m k)"

fun map_set :: "'k \<Rightarrow> 'v \<Rightarrow> ('k, 'v) jsmap \<Rightarrow> ('k, 'v) jsmap" where
  "map_set k v [] = [(k, v)]"
| "map_set k v ((k', v') # m) = (if k = k' then (k, v) # m else (k', v') # map_set k v m)"

definition map_delete :: "'k \<Rightarrow> ('k, 'v) jsmap \<Rightarrow> ('k, 'v) jsmap" where
  "map_delete k m = filter (\<lambda>e. fst e \<noteq> k) m"

definition map_has :: "('k, 'v) jsmap \<Rightarrow> 'k \<Rightarrow> bool" where
  "map_has m k = (map_get m k \<noteq> None)"

definition map_keys :: "('k, 'v) jsmap \<Rightarrow> 'k list" where
  "map_keys m = map fst m"

definition map_wf :: "('k, 'v) jsmap \<Rightarrow> bool" where
  "map_wf m = distinct (map fst m)"

lemma map_get_iff_map_of: "map_get m k = map_of m k"
  by (induction m) auto

lemma map_get_None_iff: "map_get m k = None \<longleftrightarrow> k \<notin> set (map_keys m)"
  by (simp add: map_get_iff_map_of map_of_eq_None_iff map_keys_def)

lemma map_keys_set: "set (map_keys (map_set k v m)) = insert k (set (map_keys m))"
  by (induction k v m rule: map_set.induct) (auto simp: map_keys_def)

lemma map_wf_set [simp]: "map_wf m \<Longrightarrow> map_wf (map_set k v m)"
proof (induction k v m rule: map_set.induct)
  case (2 k v k' v' m)
  then show ?case using map_keys_set[of k v m] by (auto simp: map_wf_def map_keys_def)
qed (simp add: map_wf_def)

lemma map_get_set: "map_get (map_set k v m) k' = (if k' = k then Some v else map_get m k')"
  by (induction k v m rule: map_set.induct) auto

lemma map_get_delete: "map_get (map_delete k m) k' = (if k' = k then None else map_get m k')"
  by (induction m) (auto simp: map_delete_def)

lemma map_wf_delete [simp]: "map_wf m \<Longrightarrow> map_wf (map_delete k m)"
  unfolding map_wf_def map_delete_def by (induction m) auto

lemma map_wf_Nil [simp]: "map_wf []"
  by (simp add: map_wf_def)

lemma map_set_fresh: "map_get m k = None \<Longrightarrow> map_set k v m = m @ [(k, v)]"
  by (induction k v m rule: map_set.induct) (auto split: if_splits)

lemma map_get_append:
  "map_get (m @ m') k = (case map_get m k of None \<Rightarrow> map_get m' k | Some v \<Rightarrow> Some v)"
  by (induction m) auto

text \<open>
  The contract a keyed store gives its clients (registries, replica stores, agent tables):
  what a lookup returns after each update, and that the updates keep the store well formed.
\<close>

locale ordered_store =
  fixes empty :: 's
    and get :: "'s \<Rightarrow> 'k \<Rightarrow> 'v option"
    and upd :: "'k \<Rightarrow> 'v \<Rightarrow> 's \<Rightarrow> 's"
    and del :: "'k \<Rightarrow> 's \<Rightarrow> 's"
    and wf :: "'s \<Rightarrow> bool"
  assumes get_empty: "get empty k = None"
    and get_upd: "wf s \<Longrightarrow> get (upd k v s) k' = (if k' = k then Some v else get s k')"
    and get_del: "wf s \<Longrightarrow> get (del k s) k' = (if k' = k then None else get s k')"
    and wf_empty: "wf empty"
    and wf_upd: "wf s \<Longrightarrow> wf (upd k v s)"
    and wf_del: "wf s \<Longrightarrow> wf (del k s)"
begin

lemma last_write_wins: "wf s \<Longrightarrow> get (upd k v (upd k u s)) k = Some v"
  by (simp add: get_upd wf_upd)

lemma upd_other: "wf s \<Longrightarrow> k' \<noteq> k \<Longrightarrow> get (upd k v s) k' = get s k'"
  by (simp add: get_upd)

lemma wf_fold_upd: "wf s \<Longrightarrow> wf (fold (\<lambda>(k, v). upd k v) kvs s)"
  by (induction kvs arbitrary: s) (auto simp: wf_upd)

lemma get_fold_upd:
  "wf s \<Longrightarrow> get (fold (\<lambda>(k, v). upd k v) kvs s) k = or_else (map_of (rev kvs) k) (get s k)"
proof (induction kvs arbitrary: s)
  case (Cons kv kvs)
  obtain k0 v0 where kv: "kv = (k0, v0)" by fastforce
  have "get (fold (\<lambda>(k, v). upd k v) kvs (upd k0 v0 s)) k
      = or_else (map_of (rev kvs) k) (get (upd k0 v0 s) k)"
    using Cons by (simp add: wf_upd)
  then show ?case using Cons.prems
    by (cases "map_of (rev kvs) k") (auto simp: kv get_upd map_add_def)
qed simp

lemma del_upd: "wf s \<Longrightarrow> get (del k (upd k v s)) k' = get (del k s) k'"
  by (simp add: get_upd get_del wf_upd)

end

interpretation jsm: ordered_store "[]" map_get map_set map_delete map_wf
  by unfold_locales (auto simp: map_get_set map_get_delete)

end
