(* ===== verification/Governance_Lattice.thy ===== *)
theory Governance_Lattice
  imports Swarm_Prelude
begin

text \<open>
  The product lattice of the reduction kernel (\<open>sgrs-core/src/types/mod.rs\<close> and the drift
  levels of \<open>sgrs-core/src/governance/policy.rs\<close>): governance levels ordered by
  permissiveness, drift levels ordered by severity, the four-dimensional convergence rank and
  the admissibility check of a transition between two lattice points. The two enumerations are
  instances of \<open>linorder\<close>, so that \<open>min\<close> and \<open>max\<close> of the library are the source's meet
  and join.
\<close>

section \<open>Drift levels\<close>

datatype drift_level = DriftNone | DriftLow | DriftMedium | DriftHigh | DriftCritical

fun severity :: "drift_level \<Rightarrow> nat" where
  "severity DriftNone = 0"
| "severity DriftLow = 1"
| "severity DriftMedium = 2"
| "severity DriftHigh = 3"
| "severity DriftCritical = 4"

definition drift_from_str :: "string \<Rightarrow> drift_level" where
  "drift_from_str s = (let l = str_lower s in
     if l = ''low'' then DriftLow
     else if l = ''medium'' then DriftMedium
     else if l = ''high'' then DriftHigh
     else if l = ''critical'' then DriftCritical
     else DriftNone)"

fun drift_as_str :: "drift_level \<Rightarrow> string" where
  "drift_as_str DriftNone = ''none''"
| "drift_as_str DriftLow = ''low''"
| "drift_as_str DriftMedium = ''medium''"
| "drift_as_str DriftHigh = ''high''"
| "drift_as_str DriftCritical = ''critical''"

definition drift_join :: "drift_level \<Rightarrow> drift_level \<Rightarrow> drift_level" where
  "drift_join a b = (if severity a \<ge> severity b then a else b)"

definition drift_meet :: "drift_level \<Rightarrow> drift_level \<Rightarrow> drift_level" where
  "drift_meet a b = (if severity a \<le> severity b then a else b)"

lemma severity_inj [simp]: "severity a = severity b \<longleftrightarrow> a = b"
  by (cases a; cases b) auto

instantiation drift_level :: linorder
begin

definition less_eq_drift_level :: "drift_level \<Rightarrow> drift_level \<Rightarrow> bool" where
  "less_eq_drift_level a b = (severity a \<le> severity b)"

definition less_drift_level :: "drift_level \<Rightarrow> drift_level \<Rightarrow> bool" where
  "less_drift_level a b = (severity a < severity b)"

instance
  by standard (auto simp: less_eq_drift_level_def less_drift_level_def)

end

lemma drift_join_max: "drift_join a b = max a b"
  by (cases "severity a = severity b")
    (auto simp: drift_join_def max_def less_eq_drift_level_def)

lemma drift_meet_min: "drift_meet a b = min a b"
  by (auto simp: drift_meet_def min_def less_eq_drift_level_def)

lemma drift_str_roundtrip [simp]: "drift_from_str (drift_as_str d) = d"
  by (cases d) (simp_all add: drift_from_str_def str_lower_def ascii_lower_def Let_def)

section \<open>Governance levels\<close>

datatype gov_level = Master | Mitl | Yolo

fun permissiveness :: "gov_level \<Rightarrow> nat" where
  "permissiveness Master = 0"
| "permissiveness Mitl = 1"
| "permissiveness Yolo = 2"

definition gov_from_str :: "string \<Rightarrow> gov_level" where
  "gov_from_str s = (let u = str_upper s in
     if u = ''MASTER'' then Master
     else if u = ''MITL'' then Mitl
     else if u = ''YOLO'' then Yolo
     else Master)"

fun gov_as_str :: "gov_level \<Rightarrow> string" where
  "gov_as_str Master = ''MASTER''"
| "gov_as_str Mitl = ''MITL''"
| "gov_as_str Yolo = ''YOLO''"

definition gov_meet :: "gov_level \<Rightarrow> gov_level \<Rightarrow> gov_level" where
  "gov_meet a b = (if permissiveness a \<le> permissiveness b then a else b)"

definition gov_join :: "gov_level \<Rightarrow> gov_level \<Rightarrow> gov_level" where
  "gov_join a b = (if permissiveness a \<ge> permissiveness b then a else b)"

lemma permissiveness_inj [simp]: "permissiveness a = permissiveness b \<longleftrightarrow> a = b"
  by (cases a; cases b) auto

instantiation gov_level :: linorder
begin

definition less_eq_gov_level :: "gov_level \<Rightarrow> gov_level \<Rightarrow> bool" where
  "less_eq_gov_level a b = (permissiveness a \<le> permissiveness b)"

definition less_gov_level :: "gov_level \<Rightarrow> gov_level \<Rightarrow> bool" where
  "less_gov_level a b = (permissiveness a < permissiveness b)"

instance
  by standard (auto simp: less_eq_gov_level_def less_gov_level_def)

end

lemma gov_meet_min: "gov_meet a b = min a b"
  by (auto simp: gov_meet_def min_def less_eq_gov_level_def)

lemma gov_join_max: "gov_join a b = max a b"
  by (cases "permissiveness a = permissiveness b")
    (auto simp: gov_join_def max_def less_eq_gov_level_def)

lemma gov_str_roundtrip [simp]: "gov_from_str (gov_as_str g) = g"
  by (cases g) (simp_all add: gov_from_str_def str_upper_def ascii_upper_def Let_def)

fun required_governance_level :: "drift_level \<Rightarrow> gov_level" where
  "required_governance_level DriftNone = Yolo"
| "required_governance_level DriftLow = Yolo"
| "required_governance_level DriftMedium = Mitl"
| "required_governance_level DriftHigh = Master"
| "required_governance_level DriftCritical = Master"

lemma required_level_antimono: "a \<le> b \<Longrightarrow> required_governance_level b \<le> required_governance_level a"
  by (cases a; cases b) (auto simp: less_eq_drift_level_def less_eq_gov_level_def)

section \<open>Convergence rank\<close>

datatype dimension_id = ClaimConfidence | ContradictionResolution | GoalCompletion | RiskInverse

fun dim_index :: "dimension_id \<Rightarrow> nat" where
  "dim_index ClaimConfidence = 0"
| "dim_index ContradictionResolution = 1"
| "dim_index GoalCompletion = 2"
| "dim_index RiskInverse = 3"

fun v1_name :: "dimension_id \<Rightarrow> string" where
  "v1_name ClaimConfidence = ''claim_confidence''"
| "v1_name ContradictionResolution = ''contradiction_resolution''"
| "v1_name GoalCompletion = ''goal_completion''"
| "v1_name RiskInverse = ''risk_score_inverse''"

definition all_dims :: "dimension_id list" where
  "all_dims = [ClaimConfidence, ContradictionResolution, GoalCompletion, RiskInverse]"

definition rank_epsilon :: rat where
  "rank_epsilon = 1 / 1000"

record convergence_rank =
  rank_dims :: "rat list"
  rank_epoch :: int

definition rank_wf :: "convergence_rank \<Rightarrow> bool" where
  "rank_wf r = (length (rank_dims r) = 4)"

definition rank_dominates :: "convergence_rank \<Rightarrow> convergence_rank \<Rightarrow> bool" where
  "rank_dominates self other =
     list_all (\<lambda>(a, b). a \<ge> b - rank_epsilon) (zip (rank_dims self) (rank_dims other))"

definition dim_delta :: "convergence_rank \<Rightarrow> convergence_rank \<Rightarrow> dimension_id \<Rightarrow> rat" where
  "dim_delta self other d = rank_dims other ! dim_index d - rank_dims self ! dim_index d"

definition compare_dimensions ::
  "convergence_rank \<Rightarrow> convergence_rank \<Rightarrow> dimension_id list \<times> dimension_id list" where
  "compare_dimensions self other =
     (filter (\<lambda>d. dim_delta self other d > rank_epsilon) all_dims,
      filter (\<lambda>d. \<not> dim_delta self other d > rank_epsilon
                 \<and> dim_delta self other d < - rank_epsilon) all_dims)"

definition rank_meet :: "convergence_rank \<Rightarrow> convergence_rank \<Rightarrow> convergence_rank" where
  "rank_meet a b = \<lparr> rank_dims = map2 min (rank_dims a) (rank_dims b),
                     rank_epoch = max (rank_epoch a) (rank_epoch b) \<rparr>"

definition rank_join :: "convergence_rank \<Rightarrow> convergence_rank \<Rightarrow> convergence_rank" where
  "rank_join a b = \<lparr> rank_dims = map2 max (rank_dims a) (rank_dims b),
                     rank_epoch = max (rank_epoch a) (rank_epoch b) \<rparr>"

record lattice_point =
  lp_governance :: gov_level
  lp_rank :: convergence_rank

datatype admissibility =
    Admissible
  | GovernanceViolation
  | ConvergenceViolation "dimension_id list"
  | Incomparable "dimension_id list" "dimension_id list"
  | BothViolated

definition check_transition :: "lattice_point \<Rightarrow> lattice_point \<Rightarrow> bool \<Rightarrow> admissibility" where
  "check_transition self after same_epoch =
    (let gov_ok = lp_governance after \<le> lp_governance self in
     if same_epoch \<and> \<not> rank_dominates (lp_rank after) (lp_rank self) then
       (let (improved, regressed) = compare_dimensions (lp_rank self) (lp_rank after) in
        if \<not> gov_ok then BothViolated
        else if improved = [] then ConvergenceViolation regressed
        else Incomparable improved regressed)
     else if \<not> gov_ok then GovernanceViolation
     else Admissible)"

fun admissibility_to_string :: "admissibility \<Rightarrow> string" where
  "admissibility_to_string Admissible = ''admissible''"
| "admissibility_to_string GovernanceViolation = ''governance_violation''"
| "admissibility_to_string (ConvergenceViolation _) = ''convergence_violation''"
| "admissibility_to_string (Incomparable _ _) = ''incomparable''"
| "admissibility_to_string BothViolated = ''both_violated''"

lemma length_4_conv: "length xs = 4 \<longleftrightarrow> (\<exists>a b c d. xs = [a, b, c, d])"
  by (auto simp: numeral_eq_Suc length_Suc_conv)

lemma rank_dominates_iff:
  assumes "rank_wf r" "rank_wf s"
  shows "rank_dominates s r \<longleftrightarrow> snd (compare_dimensions r s) = []"
proof -
  obtain a b c d where r: "rank_dims r = [a, b, c, d]"
    using assms(1) by (auto simp: rank_wf_def length_4_conv)
  obtain a' b' c' d' where s: "rank_dims s = [a', b', c', d']"
    using assms(2) by (auto simp: rank_wf_def length_4_conv)
  show ?thesis
    by (auto simp: rank_dominates_def compare_dimensions_def dim_delta_def all_dims_def r s
        rank_epsilon_def)
qed

lemma check_transition_admissible_iff:
  "check_transition p q same = Admissible \<longleftrightarrow>
     lp_governance q \<le> lp_governance p
     \<and> (same \<longrightarrow> rank_dominates (lp_rank q) (lp_rank p))"
  by (auto simp: check_transition_def Let_def split: prod.splits)

text \<open>A same-epoch violation always names at least one regressed dimension.\<close>

lemma check_transition_regressed:
  assumes "rank_wf (lp_rank p)" "rank_wf (lp_rank q)"
    and "check_transition p q same = ConvergenceViolation ds
         \<or> check_transition p q same = Incomparable ims ds"
  shows "ds \<noteq> []"
  using assms rank_dominates_iff[OF assms(1,2)]
  by (auto simp: check_transition_def Let_def split: prod.splits if_splits)

lemma rank_meet_dominated:
  assumes "rank_wf a" "rank_wf b"
  shows "rank_dominates a (rank_meet a b)" "rank_dominates b (rank_meet a b)"
  using assms by (auto simp: rank_wf_def length_4_conv rank_dominates_def rank_meet_def
      rank_epsilon_def min_def)

end
