(* ===== verification/Policy_Kernel.thy ===== *)
theory Policy_Kernel
  imports Governance_Lattice
begin

text \<open>
  The policy layer: the configuration types and scope resolution of \<open>src/governance.ts\<close>, the
  policy functions and the reduction kernel of \<open>sgrs-core/src/governance/\<close> with the bridge
  conversions of \<open>src/sgrsAdapter.ts\<close>, the decision record of \<open>src/governanceHelpers.ts\<close>, the
  policy engine of \<open>src/policyEngine.ts\<close>, the combining algorithms and the obligation enforcer.
  The kernel is the function every proposal goes through; the lemmas give its verdict for each
  mode and characterise which proposals it accepts.

  Decision identifiers and timestamps (\<open>randomUUID\<close>, \<open>Date\<close>) are arguments.
\<close>

section \<open>Configuration\<close>

record policy_rule =
  pr_drift_level :: "string list"
  pr_drift_type :: string
  pr_action :: string

record transition_rule =
  tr_from :: string
  tr_to :: string
  tr_drift_level :: "string list"
  tr_reason :: string

record scope_overrides =
  so_mode :: "string option"

record governance_config =
  gc_mode :: "string option"
  gc_rules :: "policy_rule list"
  gc_transition_rules :: "transition_rule list option"
  gc_scopes :: "(string, scope_overrides) jsmap option"

record drift_input =
  di_level :: string
  di_types :: "string list"

record transition_decision =
  td_allowed :: bool
  td_reason :: string

text \<open>The YAML document before validation: \<open>rules\<close> may be missing or not an array.\<close>

record raw_config =
  rc_mode :: "string option"
  rc_rules :: "policy_rule list option"
  rc_transition_rules :: "transition_rule list option"
  rc_scopes :: "(string, scope_overrides) jsmap option"

definition loadPolicies :: "raw_config \<Rightarrow> string option \<Rightarrow> governance_config" where
  "loadPolicies parsed env_mode =
    (case rc_rules parsed of
       None \<Rightarrow> \<lparr> gc_mode = None, gc_rules = [],
                gc_transition_rules = Some (coalesce (rc_transition_rules parsed) []),
                gc_scopes = None \<rparr>
     | Some rs \<Rightarrow>
        \<lparr> gc_mode = (case env_mode of Some m \<Rightarrow> if m \<noteq> [] then Some m else rc_mode parsed
                                 | None \<Rightarrow> rc_mode parsed),
          gc_rules = rs,
          gc_transition_rules = rc_transition_rules parsed,
          gc_scopes = rc_scopes parsed \<rparr>)"

definition getGovernanceForScope :: "string \<Rightarrow> governance_config \<Rightarrow> governance_config" where
  "getGovernanceForScope scopeId config =
    (case (case gc_scopes config of None \<Rightarrow> None | Some m \<Rightarrow> map_get m scopeId) of
       None \<Rightarrow> config
     | Some ov \<Rightarrow> config \<lparr> gc_mode := or_else (so_mode ov) (gc_mode config) \<rparr>)"

section \<open>Kernel-side rules\<close>

record rust_policy_rule =
  when_drift_levels :: "drift_level list"
  when_drift_type :: string
  rule_action :: string

record rust_transition_rule =
  rt_from :: string
  rt_to :: string
  block_when_drift :: "drift_level list"
  rt_reason :: string

definition policy_rules_from_dto :: "policy_rule list \<Rightarrow> rust_policy_rule list" where
  "policy_rules_from_dto = map (\<lambda>r. \<lparr> when_drift_levels = map drift_from_str (pr_drift_level r),
     when_drift_type = pr_drift_type r, rule_action = pr_action r \<rparr>)"

definition transition_rules_from_dto :: "transition_rule list \<Rightarrow> rust_transition_rule list" where
  "transition_rules_from_dto = map (\<lambda>r. \<lparr> rt_from = tr_from r, rt_to = tr_to r,
     block_when_drift = map drift_from_str (tr_drift_level r), rt_reason = tr_reason r \<rparr>)"

definition toGovernanceRulesConfigDto ::
  "governance_config \<Rightarrow> policy_rule list \<times> transition_rule list" where
  "toGovernanceRulesConfigDto config =
     (gc_rules config, coalesce (gc_transition_rules config) [])"

fun evaluate_rules :: "drift_level \<Rightarrow> string list \<Rightarrow> rust_policy_rule list \<Rightarrow> string list" where
  "evaluate_rules dl types [] = []"
| "evaluate_rules dl types (r # rs) =
     (let level_match = dl \<in> set (when_drift_levels r);
          type_match = when_drift_type r \<in> set types in
      (if level_match \<and> type_match then [rule_action r] else []) @ evaluate_rules dl types rs)"

definition blocks :: "string \<Rightarrow> string \<Rightarrow> drift_level \<Rightarrow> rust_transition_rule \<Rightarrow> bool" where
  "blocks from to dl r = (rt_from r = from \<and> rt_to r = to \<and> dl \<in> set (block_when_drift r))"

fun can_transition ::
  "string \<Rightarrow> string \<Rightarrow> drift_level \<Rightarrow> rust_transition_rule list \<Rightarrow> transition_decision" where
  "can_transition from to dl [] = \<lparr> td_allowed = True, td_reason = ''no blocking rule'' \<rparr>"
| "can_transition from to dl (r # rs) =
     (if blocks from to dl r then \<lparr> td_allowed = False, td_reason = rt_reason r \<rparr>
      else can_transition from to dl rs)"

lemma evaluate_rules_filter:
  "evaluate_rules dl types rs =
     map rule_action (filter (\<lambda>r. dl \<in> set (when_drift_levels r)
                                   \<and> when_drift_type r \<in> set types) rs)"
  by (induction rs) auto

lemma can_transition_find:
  "can_transition from to dl rs =
     (case List.find (blocks from to dl) rs of
        None \<Rightarrow> \<lparr> td_allowed = True, td_reason = ''no blocking rule'' \<rparr>
      | Some r \<Rightarrow> \<lparr> td_allowed = False, td_reason = rt_reason r \<rparr>)"
  by (induction rs) auto

lemma can_transition_allowed_iff:
  "td_allowed (can_transition from to dl rs) \<longleftrightarrow> (\<forall>r \<in> set rs. \<not> blocks from to dl r)"
  by (induction rs) auto

lemma can_transition_blocked_reason:
  "\<not> td_allowed (can_transition from to dl rs) \<Longrightarrow>
   \<exists>r \<in> set rs. blocks from to dl r \<and> td_reason (can_transition from to dl rs) = rt_reason r"
  by (induction rs) (auto split: if_splits)

section \<open>The reduction kernel\<close>

datatype verdict = Accept | Reject | Escalate | Eliminate

fun verdict_as_str :: "verdict \<Rightarrow> string" where
  "verdict_as_str Accept = ''accept''"
| "verdict_as_str Reject = ''reject''"
| "verdict_as_str Escalate = ''escalate''"
| "verdict_as_str Eliminate = ''eliminate''"

record kernel_input =
  ki_from :: string
  ki_to :: string
  ki_drift :: drift_level
  ki_types :: "string list"
  ki_mode :: gov_level
  ki_current :: "lattice_point option"
  ki_proposed :: "lattice_point option"

record kernel_result =
  kr_verdict :: verdict
  kr_reason :: string
  kr_actions :: "string list"
  kr_admissibility :: "admissibility option"
  kr_regressed :: "dimension_id list"

fun mode_verdict :: "gov_level \<Rightarrow> verdict" where
  "mode_verdict Master = Reject"
| "mode_verdict Mitl = Escalate"
| "mode_verdict Yolo = Accept"

definition yolo_prefix :: string where
  "yolo_prefix = ''yolo_override: ''"

definition mode_reason :: "gov_level \<Rightarrow> string \<Rightarrow> string" where
  "mode_reason m r = (if m = Yolo then yolo_prefix @ r else r)"

definition kernel_blocked :: "gov_level \<Rightarrow> string \<Rightarrow> string list \<Rightarrow> kernel_result" where
  "kernel_blocked m block_reason actions =
    (let reason = mode_reason m block_reason in
     \<lparr> kr_verdict = mode_verdict m, kr_reason = reason,
       kr_actions = actions @
         (if m = Yolo then [''blocked_transition_overridden: '' @ reason] else []),
       kr_admissibility = None, kr_regressed = [] \<rparr>)"

definition kernel_lattice ::
  "gov_level \<Rightarrow> string list \<Rightarrow> lattice_point option \<Rightarrow> lattice_point option \<Rightarrow> kernel_result option" where
  "kernel_lattice m actions cur prop =
    (case (cur, prop) of
       (Some current, Some proposed) \<Rightarrow>
         (let same_epoch = rank_epoch (lp_rank current) = rank_epoch (lp_rank proposed);
              adm = check_transition current proposed same_epoch in
          case adm of
            Admissible \<Rightarrow> None
          | GovernanceViolation \<Rightarrow> Some \<lparr> kr_verdict = Reject, kr_reason = ''lattice_violation'',
              kr_actions = actions, kr_admissibility = Some adm, kr_regressed = [] \<rparr>
          | BothViolated \<Rightarrow> Some \<lparr> kr_verdict = Reject, kr_reason = ''lattice_violation'',
              kr_actions = actions, kr_admissibility = Some adm, kr_regressed = [] \<rparr>
          | ConvergenceViolation reg \<Rightarrow> Some \<lparr> kr_verdict = mode_verdict m,
              kr_reason = mode_reason m ''convergence_violation'',
              kr_actions = actions, kr_admissibility = Some adm, kr_regressed = reg \<rparr>
          | Incomparable imp reg \<Rightarrow> Some \<lparr> kr_verdict = mode_verdict m,
              kr_reason = mode_reason m ''lattice_incomparable'',
              kr_actions = actions, kr_admissibility = Some adm, kr_regressed = reg \<rparr>)
     | _ \<Rightarrow> None)"

definition kernel_final :: "gov_level \<Rightarrow> string list \<Rightarrow> kernel_result" where
  "kernel_final m actions =
     (case m of
        Mitl \<Rightarrow> \<lparr> kr_verdict = Escalate, kr_reason = ''mitl_required'', kr_actions = actions,
                  kr_admissibility = None, kr_regressed = [] \<rparr>
      | _ \<Rightarrow> \<lparr> kr_verdict = Accept, kr_reason = ''policy_passed'', kr_actions = actions,
               kr_admissibility = None, kr_regressed = [] \<rparr>)"

definition evaluate_kernel ::
  "kernel_input \<Rightarrow> rust_policy_rule list \<Rightarrow> rust_transition_rule list \<Rightarrow> kernel_result" where
  "evaluate_kernel inp rules trules =
    (let transition = can_transition (ki_from inp) (ki_to inp) (ki_drift inp) trules;
         actions = evaluate_rules (ki_drift inp) (ki_types inp) rules in
     if \<not> td_allowed transition then kernel_blocked (ki_mode inp) (td_reason transition) actions
     else case kernel_lattice (ki_mode inp) actions (ki_current inp) (ki_proposed inp) of
            Some out \<Rightarrow> out
          | None \<Rightarrow> kernel_final (ki_mode inp) actions)"

section \<open>The adapter: strings in, strings out\<close>

record lattice_dto =
  ld_governance_level :: string
  ld_dimensions :: "rat list"
  ld_epoch :: int

definition lattice_point_from_dto :: "lattice_dto \<Rightarrow> lattice_point" where
  "lattice_point_from_dto dto =
     \<lparr> lp_governance = gov_from_str (ld_governance_level dto),
       lp_rank = \<lparr> rank_dims = (if length (ld_dimensions dto) \<ge> 4 then take 4 (ld_dimensions dto)
                                else [0, 0, 0, 0]),
                   rank_epoch = ld_epoch dto \<rparr> \<rparr>"

record kernel_request =
  kq_from_state :: string
  kq_to_state :: string
  kq_drift_level :: string
  kq_drift_types :: "string list"
  kq_mode :: string
  kq_current_lattice :: "lattice_dto option"
  kq_proposed_lattice :: "lattice_dto option"

record kernel_output =
  ko_verdict :: string
  ko_reason :: string
  ko_suggested_actions :: "string list"
  ko_admissibility :: "string option"
  ko_regressed_dimensions :: "string list option"

definition evaluateRules :: "drift_input \<Rightarrow> governance_config \<Rightarrow> string list" where
  "evaluateRules drift config =
     evaluate_rules (drift_from_str (di_level drift)) (di_types drift)
       (policy_rules_from_dto (fst (toGovernanceRulesConfigDto config)))"

definition canTransition ::
  "string \<Rightarrow> string \<Rightarrow> drift_input \<Rightarrow> governance_config \<Rightarrow> transition_decision" where
  "canTransition from to drift config =
     can_transition from to (drift_from_str (di_level drift))
       (transition_rules_from_dto (snd (toGovernanceRulesConfigDto config)))"

definition evaluateKernel :: "kernel_request \<Rightarrow> governance_config \<Rightarrow> kernel_output" where
  "evaluateKernel input config =
    (let out = evaluate_kernel
        \<lparr> ki_from = kq_from_state input, ki_to = kq_to_state input,
          ki_drift = drift_from_str (kq_drift_level input), ki_types = kq_drift_types input,
          ki_mode = gov_from_str (kq_mode input),
          ki_current = map_option lattice_point_from_dto (kq_current_lattice input),
          ki_proposed = map_option lattice_point_from_dto (kq_proposed_lattice input) \<rparr>
        (policy_rules_from_dto (fst (toGovernanceRulesConfigDto config)))
        (transition_rules_from_dto (snd (toGovernanceRulesConfigDto config))) in
     \<lparr> ko_verdict = verdict_as_str (kr_verdict out),
       ko_reason = kr_reason out,
       ko_suggested_actions = kr_actions out,
       ko_admissibility = map_option admissibility_to_string (kr_admissibility out),
       ko_regressed_dimensions =
         (if kr_regressed out = [] then None else Some (map v1_name (kr_regressed out))) \<rparr>)"

section \<open>Decision records\<close>

record obligation =
  ob_type :: string

record decision_record =
  dr_decision_id :: string
  dr_timestamp :: string
  dr_policy_version :: string
  dr_result :: string
  dr_reason :: string
  dr_obligations :: "obligation list"
  dr_binding :: string
  dr_suggested_actions :: "string list option"

type_synonym fresh_id = "string \<times> string"

definition buildDecisionRecordFromKernel ::
  "fresh_id \<Rightarrow> kernel_output \<Rightarrow> string \<Rightarrow> bool \<Rightarrow> decision_record" where
  "buildDecisionRecordFromKernel fresh out policyVersion promoteSuggested =
    (let isYoloOverride = str_starts_with (ko_reason out) ''yolo_override:'';
         promote = promoteSuggested \<or> isYoloOverride in
     \<lparr> dr_decision_id = fst fresh, dr_timestamp = snd fresh,
       dr_policy_version = policyVersion,
       dr_result = (if ko_verdict out = ''reject'' then ''deny'' else ''allow''),
       dr_reason = ko_reason out,
       dr_obligations = (if promote then map (\<lambda>a. \<lparr> ob_type = a \<rparr>) (ko_suggested_actions out)
                         else []),
       dr_binding = ''sgrs'',
       dr_suggested_actions = Some (ko_suggested_actions out) \<rparr>)"

record policy_result =
  pres_record :: decision_record
  pres_allowed :: bool

record policy_context =
  pc_scope_id :: string
  pc_from_state :: string
  pc_to_state :: string
  pc_drift_level :: string
  pc_drift_types :: "string list"

definition createYamlPolicyEngine ::
  "governance_config \<Rightarrow> string option \<Rightarrow> fresh_id \<Rightarrow> policy_context \<Rightarrow> policy_result" where
  "createYamlPolicyEngine config policyVersion fresh input =
    (let version = coalesce policyVersion ''yaml'';
         scopeConfig = getGovernanceForScope (pc_scope_id input) config;
         drift = \<lparr> di_level = pc_drift_level input, di_types = pc_drift_types input \<rparr>;
         transition = canTransition (pc_from_state input) (pc_to_state input) drift scopeConfig;
         suggested = evaluateRules drift scopeConfig;
         allowed = td_allowed transition in
     \<lparr> pres_record =
        \<lparr> dr_decision_id = fst fresh, dr_timestamp = snd fresh,
          dr_policy_version = version,
          dr_result = (if allowed then ''allow'' else ''deny''),
          dr_reason = td_reason transition,
          dr_obligations = [], dr_binding = ''yaml'',
          dr_suggested_actions = Some suggested \<rparr>,
       pres_allowed = allowed \<rparr>)"

definition no_policies :: "fresh_id \<Rightarrow> policy_result" where
  "no_policies fresh =
     \<lparr> pres_record =
        \<lparr> dr_decision_id = fst fresh, dr_timestamp = snd fresh, dr_policy_version = ''none'',
          dr_result = ''deny'', dr_reason = ''no_policies'', dr_obligations = [],
          dr_binding = ''combining'', dr_suggested_actions = None \<rparr>,
       pres_allowed = False \<rparr>"

definition denyOverrides :: "fresh_id \<Rightarrow> policy_result list \<Rightarrow> policy_result" where
  "denyOverrides fresh results =
     (if results = [] then no_policies fresh
      else case List.find (\<lambda>r. \<not> pres_allowed r) results of
             Some firstDeny \<Rightarrow> firstDeny
           | None \<Rightarrow> hd results)"

definition firstApplicable :: "fresh_id \<Rightarrow> policy_result list \<Rightarrow> policy_result" where
  "firstApplicable fresh results = (if results = [] then no_policies fresh else hd results)"

text \<open>
  The contract of a policy engine: the boolean a caller branches on and the audited result are
  the same decision. The combining algorithms are proved once for any engine that keeps it.
\<close>

locale policy_engine =
  fixes evaluate :: "'c \<Rightarrow> policy_result"
  assumes coherent: "pres_allowed (evaluate c) \<longleftrightarrow> dr_result (pres_record (evaluate c)) = ''allow''"
begin

lemma deny_overrides_allowed:
  "pres_allowed (denyOverrides f (map evaluate cs)) \<longleftrightarrow>
     cs \<noteq> [] \<and> (\<forall>c \<in> set cs. pres_allowed (evaluate c))"
proof (cases "List.find (\<lambda>r. \<not> pres_allowed r) (map evaluate cs)")
  case None
  then show ?thesis
    by (cases cs) (auto simp: denyOverrides_def no_policies_def find_None_iff)
next
  case (Some r)
  then show ?thesis
    using find_Some_mem[OF Some] by (auto simp: denyOverrides_def)
qed

lemma deny_overrides_coherent:
  "pres_allowed (denyOverrides f (map evaluate cs)) \<longleftrightarrow>
     dr_result (pres_record (denyOverrides f (map evaluate cs))) = ''allow''"
proof (cases "List.find (\<lambda>r. \<not> pres_allowed r) (map evaluate cs)")
  case None
  then show ?thesis by (cases cs) (auto simp: denyOverrides_def no_policies_def coherent)
next
  case (Some r)
  then obtain c where "r = evaluate c" using find_Some_mem[OF Some] by auto
  then show ?thesis using Some by (auto simp: denyOverrides_def coherent no_policies_def)
qed

lemma first_applicable_least_restrictive:
  "pres_allowed (denyOverrides f (map evaluate cs)) \<Longrightarrow>
   pres_allowed (firstApplicable f (map evaluate cs))"
  unfolding deny_overrides_allowed
  by (cases cs) (simp_all add: firstApplicable_def)

end

interpretation yaml_engine: policy_engine "createYamlPolicyEngine config version fresh"
  by unfold_locales (simp add: createYamlPolicyEngine_def Let_def)

section \<open>Obligations\<close>

type_synonym 'w obligation_handler = "obligation \<Rightarrow> ('w, unit) exec"

type_synonym 'w obligation_registry = "(string, 'w obligation_handler) jsmap"

definition registerObligationHandler ::
  "string \<Rightarrow> 'w obligation_handler \<Rightarrow> 'w obligation_registry \<Rightarrow> 'w obligation_registry" where
  "registerObligationHandler type handler registry = map_set type handler registry"

definition executeObligation :: "'w obligation_registry \<Rightarrow> obligation \<Rightarrow> ('w, unit) exec" where
  "executeObligation registry ob =
     (case map_get registry (ob_type ob) of Some handler \<Rightarrow> handler ob | None \<Rightarrow> ret ())"

fun executeObligations :: "'w obligation_registry \<Rightarrow> obligation list \<Rightarrow> ('w, unit) exec" where
  "executeObligations registry [] w = (w, Inr ())"
| "executeObligations registry (ob # obs) w =
     (case try_catch (executeObligation registry ob) (\<lambda>_. ret ()) w of
        (w', Inl e) \<Rightarrow> (w', Inl e)
      | (w', Inr _) \<Rightarrow> executeObligations registry obs w')"

definition getRegisteredObligationTypes :: "'w obligation_registry \<Rightarrow> string list" where
  "getRegisteredObligationTypes registry = map_keys registry"

definition obligation_effect :: "'w obligation_registry \<Rightarrow> obligation \<Rightarrow> 'w \<Rightarrow> 'w" where
  "obligation_effect registry ob w = fst (executeObligation registry ob w)"

lemma executeObligations_fold:
  "executeObligations registry obs w = (fold (obligation_effect registry) obs w, Inr ())"
  by (induction obs arbitrary: w)
    (auto simp: try_catch_def obligation_effect_def split: prod.splits sum.splits)

lemma registered_types_wf:
  "map_wf registry \<Longrightarrow> distinct (getRegisteredObligationTypes (registerObligationHandler t h registry))"
  using map_wf_set[of registry t h]
  by (simp add: map_wf_def getRegisteredObligationTypes_def registerObligationHandler_def map_keys_def)

section \<open>What the kernel decides\<close>

definition request_allowed :: "kernel_request \<Rightarrow> governance_config \<Rightarrow> bool" where
  "request_allowed q cfg = td_allowed (canTransition (kq_from_state q) (kq_to_state q)
      \<lparr> di_level = kq_drift_level q, di_types = kq_drift_types q \<rparr> cfg)"

definition request_admissibility :: "kernel_request \<Rightarrow> admissibility" where
  "request_admissibility q =
    (case (kq_current_lattice q, kq_proposed_lattice q) of
       (Some c, Some p) \<Rightarrow> check_transition (lattice_point_from_dto c) (lattice_point_from_dto p)
                            (ld_epoch c = ld_epoch p)
     | _ \<Rightarrow> Admissible)"

definition hard_violation :: "admissibility \<Rightarrow> bool" where
  "hard_violation a = (a = GovernanceViolation \<or> a = BothViolated)"

lemma verdict_str_eq [simp]:
  "verdict_as_str v = ''accept'' \<longleftrightarrow> v = Accept"
  "verdict_as_str v = ''reject'' \<longleftrightarrow> v = Reject"
  "verdict_as_str v = ''escalate'' \<longleftrightarrow> v = Escalate"
  "verdict_as_str v = ''eliminate'' \<longleftrightarrow> v = Eliminate"
  by (cases v; simp)+

lemma mode_verdict_eq [simp]:
  "mode_verdict m = Accept \<longleftrightarrow> m = Yolo"
  "mode_verdict m = Reject \<longleftrightarrow> m = Master"
  "mode_verdict m = Escalate \<longleftrightarrow> m = Mitl"
  "mode_verdict m \<noteq> Eliminate"
  by (cases m; simp)+

lemma lattice_dto_epoch [simp]: "rank_epoch (lp_rank (lattice_point_from_dto d)) = ld_epoch d"
  by (simp add: lattice_point_from_dto_def)

lemma kernel_blocked_verdict [simp]: "kr_verdict (kernel_blocked m r as) = mode_verdict m"
  by (simp add: kernel_blocked_def Let_def)

lemma kernel_final_verdict [simp]:
  "kr_verdict (kernel_final m as) = (if m = Mitl then Escalate else Accept)"
  by (cases m) (auto simp: kernel_final_def)

lemma kernel_lattice_verdict:
  "kernel_lattice m as (map_option lattice_point_from_dto (kq_current_lattice q))
     (map_option lattice_point_from_dto (kq_proposed_lattice q)) =
   (let a = request_admissibility q in
    case a of
      Admissible \<Rightarrow> None
    | GovernanceViolation \<Rightarrow> Some \<lparr> kr_verdict = Reject, kr_reason = ''lattice_violation'',
        kr_actions = as, kr_admissibility = Some a, kr_regressed = [] \<rparr>
    | BothViolated \<Rightarrow> Some \<lparr> kr_verdict = Reject, kr_reason = ''lattice_violation'',
        kr_actions = as, kr_admissibility = Some a, kr_regressed = [] \<rparr>
    | ConvergenceViolation reg \<Rightarrow> Some \<lparr> kr_verdict = mode_verdict m,
        kr_reason = mode_reason m ''convergence_violation'',
        kr_actions = as, kr_admissibility = Some a, kr_regressed = reg \<rparr>
    | Incomparable imp reg \<Rightarrow> Some \<lparr> kr_verdict = mode_verdict m,
        kr_reason = mode_reason m ''lattice_incomparable'',
        kr_actions = as, kr_admissibility = Some a, kr_regressed = reg \<rparr>)"
  by (auto simp: kernel_lattice_def request_admissibility_def Let_def
      split: option.splits admissibility.splits)

lemma evaluateKernel_cases:
  "evaluateKernel q cfg =
    (let m = gov_from_str (kq_mode q);
         drift = \<lparr> di_level = kq_drift_level q, di_types = kq_drift_types q \<rparr>;
         t = canTransition (kq_from_state q) (kq_to_state q) drift cfg;
         as = evaluateRules drift cfg;
         out = (if \<not> td_allowed t then kernel_blocked m (td_reason t) as
                else case kernel_lattice m as (map_option lattice_point_from_dto (kq_current_lattice q))
                       (map_option lattice_point_from_dto (kq_proposed_lattice q)) of
                       Some out \<Rightarrow> out | None \<Rightarrow> kernel_final m as) in
     \<lparr> ko_verdict = verdict_as_str (kr_verdict out), ko_reason = kr_reason out,
       ko_suggested_actions = kr_actions out,
       ko_admissibility = map_option admissibility_to_string (kr_admissibility out),
       ko_regressed_dimensions =
         (if kr_regressed out = [] then None else Some (map v1_name (kr_regressed out))) \<rparr>)"
  unfolding evaluateKernel_def evaluate_kernel_def canTransition_def evaluateRules_def Let_def
    kernel_input.select_convs drift_input.select_convs
  by (rule refl)

text \<open>The verdict as a function of three facts about the request.\<close>

lemma evaluateKernel_verdict:
  "ko_verdict (evaluateKernel q cfg) = verdict_as_str
    (let m = gov_from_str (kq_mode q); a = request_admissibility q in
     if \<not> request_allowed q cfg then mode_verdict m
     else if a = Admissible then (if m = Mitl then Escalate else Accept)
     else if hard_violation a then Reject
     else mode_verdict m)"
  by (simp add: evaluateKernel_cases kernel_lattice_verdict request_allowed_def hard_violation_def
      Let_def split: admissibility.splits)

lemma evaluateKernel_blocked_reason:
  assumes "\<not> request_allowed q cfg"
  shows "ko_reason (evaluateKernel q cfg) =
    mode_reason (gov_from_str (kq_mode q))
      (td_reason (canTransition (kq_from_state q) (kq_to_state q)
        \<lparr> di_level = kq_drift_level q, di_types = kq_drift_types q \<rparr> cfg))"
  using assms by (simp add: evaluateKernel_cases request_allowed_def kernel_blocked_def Let_def)

lemma request_no_lattice [simp]:
  "kq_current_lattice q = None \<Longrightarrow> request_admissibility q = Admissible"
  by (simp add: request_admissibility_def)

text \<open>
  C1. The kernel accepts a request exactly in YOLO mode when the transition is blocked by a
  policy rule or does not violate the governance order, and in MASTER mode when no policy rule
  blocks it and the lattice move is admissible. It never accepts in MITL mode.
\<close>

theorem kernel_accept_iff:
  "ko_verdict (evaluateKernel q cfg) = ''accept'' \<longleftrightarrow>
     (case gov_from_str (kq_mode q) of
        Yolo \<Rightarrow> \<not> (request_allowed q cfg \<and> hard_violation (request_admissibility q))
      | Mitl \<Rightarrow> False
      | Master \<Rightarrow> request_allowed q cfg \<and> request_admissibility q = Admissible)"
  by (cases "gov_from_str (kq_mode q)")
    (auto simp: evaluateKernel_verdict Let_def hard_violation_def)

text \<open>
  Whatever the mode, a request that no rule blocks but that raises the governance level is
  rejected; and in every mode but YOLO no blocked request is accepted: MASTER rejects it and MITL
  escalates it, with the reason of a rule of the configuration that matches the transition and
  the drift level.
\<close>

theorem kernel_blocks_safely:
  "(request_allowed q cfg \<and> hard_violation (request_admissibility q) \<longrightarrow>
      ko_verdict (evaluateKernel q cfg) = ''reject'')
   \<and> (\<not> request_allowed q cfg \<and> gov_from_str (kq_mode q) \<noteq> Yolo \<longrightarrow>
      ko_verdict (evaluateKernel q cfg) =
        (if gov_from_str (kq_mode q) = Master then ''reject'' else ''escalate'')
      \<and> (\<exists>r \<in> set (coalesce (gc_transition_rules cfg) []).
           tr_from r = kq_from_state q \<and> tr_to r = kq_to_state q
           \<and> drift_from_str (kq_drift_level q) \<in> set (map drift_from_str (tr_drift_level r))
           \<and> ko_reason (evaluateKernel q cfg) = tr_reason r))"
proof (intro conjI impI)
  assume "request_allowed q cfg \<and> hard_violation (request_admissibility q)"
  then show "ko_verdict (evaluateKernel q cfg) = ''reject''"
    by (auto simp: evaluateKernel_verdict hard_violation_def)
next
  assume b: "\<not> request_allowed q cfg \<and> gov_from_str (kq_mode q) \<noteq> Yolo"
  then show "ko_verdict (evaluateKernel q cfg) =
      (if gov_from_str (kq_mode q) = Master then ''reject'' else ''escalate'')"
    by (cases "gov_from_str (kq_mode q)") (auto simp: evaluateKernel_verdict)
  let ?t = "canTransition (kq_from_state q) (kq_to_state q)
    \<lparr> di_level = kq_drift_level q, di_types = kq_drift_types q \<rparr> cfg"
  have "ko_reason (evaluateKernel q cfg) = td_reason ?t"
    using b by (simp add: evaluateKernel_blocked_reason mode_reason_def)
  moreover have "\<not> td_allowed ?t"
    using b by (simp add: request_allowed_def)
  ultimately show "\<exists>r \<in> set (coalesce (gc_transition_rules cfg) []).
      tr_from r = kq_from_state q \<and> tr_to r = kq_to_state q
      \<and> drift_from_str (kq_drift_level q) \<in> set (map drift_from_str (tr_drift_level r))
      \<and> ko_reason (evaluateKernel q cfg) = tr_reason r"
    using can_transition_blocked_reason
    by (fastforce simp: canTransition_def toGovernanceRulesConfigDto_def
        transition_rules_from_dto_def blocks_def)
qed

section \<open>The shipped configuration, and witnesses\<close>

text \<open>The policy file of the repository (\<open>governance.yaml\<close>).\<close>

definition governance_yaml :: raw_config where
  "governance_yaml =
     \<lparr> rc_mode = Some ''YOLO'',
       rc_rules = Some
         [\<lparr> pr_drift_level = [''medium'', ''high''], pr_drift_type = ''contradiction'',
            pr_action = ''open_investigation'' \<rparr>,
          \<lparr> pr_drift_level = [''medium'', ''high''], pr_drift_type = ''goal'',
            pr_action = ''request_goal_refresh'' \<rparr>,
          \<lparr> pr_drift_level = [''high''], pr_drift_type = ''factual'',
            pr_action = ''request_source_refresh'' \<rparr>,
          \<lparr> pr_drift_level = [''high''], pr_drift_type = ''entropy'',
            pr_action = ''halt_and_review'' \<rparr>],
       rc_transition_rules = Some
         [\<lparr> tr_from = ''DriftChecked'', tr_to = ''EvidencePropagated'',
            tr_drift_level = [''high'', ''critical''],
            tr_reason = ''High/critical drift blocks leaving DriftChecked'' \<rparr>,
          \<lparr> tr_from = ''EvidencePropagated'', tr_to = ''DeltasExtracted'',
            tr_drift_level = [''high'', ''critical''],
            tr_reason = ''High/critical drift blocks evidence propagation advancement'' \<rparr>,
          \<lparr> tr_from = ''DriftChecked'', tr_to = ''ContextIngested'',
            tr_drift_level = [''high'', ''critical''],
            tr_reason = ''High/critical drift blocks cycle reset'' \<rparr>],
       rc_scopes = None \<rparr>"

definition shipped_policy :: governance_config where
  "shipped_policy = loadPolicies governance_yaml None"

definition plain_request :: "string \<Rightarrow> string \<Rightarrow> string \<Rightarrow> string list \<Rightarrow> string \<Rightarrow> kernel_request" where
  "plain_request from to level types mode =
     \<lparr> kq_from_state = from, kq_to_state = to, kq_drift_level = level, kq_drift_types = types,
       kq_mode = mode, kq_current_lattice = None, kq_proposed_lattice = None \<rparr>"

lemmas policy_eval =
  shipped_policy_def governance_yaml_def loadPolicies_def plain_request_def
  request_allowed_def canTransition_def toGovernanceRulesConfigDto_def
  transition_rules_from_dto_def policy_rules_from_dto_def evaluateRules_def blocks_def
  drift_from_str_def gov_from_str_def str_lower_def str_upper_def ascii_lower_def ascii_upper_def

lemma plain_request_admissible [simp]: "request_admissibility (plain_request f t l ts m) = Admissible"
  by (simp add: request_admissibility_def plain_request_def)

lemma plain_request_mode [simp]: "kq_mode (plain_request f t l ts m) = m"
  by (simp add: plain_request_def)

lemma shipped_blocks_high:
  "\<not> request_allowed (plain_request ''DriftChecked'' ''EvidencePropagated'' ''high'' ts m) shipped_policy"
  by (simp add: policy_eval Let_def)

theorem kernel_blocks_safely_witness:
  "ko_verdict (evaluateKernel
     (plain_request ''DriftChecked'' ''EvidencePropagated'' ''high'' [] ''MASTER'') shipped_policy)
   = ''reject''"
proof -
  let ?q = "plain_request ''DriftChecked'' ''EvidencePropagated'' ''high'' [] ''MASTER''"
  have "gov_from_str (kq_mode ?q) = Master"
    by (simp add: gov_from_str_def str_upper_def ascii_upper_def Let_def)
  then show ?thesis
    using kernel_blocks_safely[of ?q shipped_policy] shipped_blocks_high by simp
qed

text \<open>
  A YOLO override is never silent: for a blocked request in YOLO mode, the decision record
  built from the kernel's output is an \<open>allow\<close> whose reason starts with \<open>yolo_override:\<close> and ends
  with the reason of the blocking rule, and whose obligations are the triggered policy actions
  followed by one \<open>blocked_transition_overridden\<close> entry, whether or not the caller asked for the
  suggested actions to be promoted.
\<close>

theorem yolo_override_recorded:
  assumes "gov_from_str (kq_mode q) = Yolo" "\<not> request_allowed q cfg"
  shows "let drift = \<lparr> di_level = kq_drift_level q, di_types = kq_drift_types q \<rparr>;
             block = td_reason (canTransition (kq_from_state q) (kq_to_state q) drift cfg);
             r = buildDecisionRecordFromKernel fresh (evaluateKernel q cfg) version promote in
         dr_result r = ''allow'' \<and> dr_reason r = ''yolo_override: '' @ block
         \<and> map ob_type (dr_obligations r) =
             evaluateRules drift cfg @ [''blocked_transition_overridden: yolo_override: '' @ block]"
proof -
  have "evaluateKernel q cfg =
    (let drift = \<lparr> di_level = kq_drift_level q, di_types = kq_drift_types q \<rparr>;
         block = td_reason (canTransition (kq_from_state q) (kq_to_state q) drift cfg) in
     \<lparr> ko_verdict = ''accept'', ko_reason = yolo_prefix @ block,
       ko_suggested_actions = evaluateRules drift cfg @
         [''blocked_transition_overridden: '' @ yolo_prefix @ block],
       ko_admissibility = None, ko_regressed_dimensions = None \<rparr>)"
    using assms
    by (simp add: evaluateKernel_cases request_allowed_def kernel_blocked_def mode_reason_def Let_def)
  then show ?thesis
    by (simp add: buildDecisionRecordFromKernel_def yolo_prefix_def Let_def comp_def)
qed

theorem yolo_override_recorded_witness:
  "dr_result (buildDecisionRecordFromKernel (''id'', ''t'')
     (evaluateKernel (plain_request ''DriftChecked'' ''EvidencePropagated'' ''high''
        [''contradiction''] ''YOLO'') shipped_policy) ''v1'' False) = ''allow''"
proof -
  let ?q = "plain_request ''DriftChecked'' ''EvidencePropagated'' ''high'' [''contradiction''] ''YOLO''"
  have "gov_from_str (kq_mode ?q) = Yolo"
    by (simp add: gov_from_str_def str_upper_def ascii_upper_def Let_def)
  then show ?thesis
    using yolo_override_recorded[of ?q shipped_policy "(''id'', ''t'')" "''v1''" False]
      shipped_blocks_high by (simp add: Let_def)
qed

text \<open>
  The effective mode of a scope. With a rule list, the scope override wins over the
  environment variable, which wins over the file. Without one, every configured mode is
  discarded - the file's, the environment's and the scope's - and the callers' default applies.
\<close>

theorem effective_mode:
  "gc_mode (getGovernanceForScope scope (loadPolicies raw env)) =
     (if rc_rules raw = None then None
      else or_else (case rc_scopes raw of None \<Rightarrow> None
                      | Some m \<Rightarrow> (case map_get m scope of None \<Rightarrow> None | Some ov \<Rightarrow> so_mode ov))
             (if env = None \<or> env = Some [] then rc_mode raw else env))"
  by (auto simp: getGovernanceForScope_def loadPolicies_def split: option.splits)

text \<open>
  Denying takes precedence: for the YAML engine, the deny-overrides combination of any list
  of evaluations is allowed exactly when there is an evaluation and every one of them is allowed;
  its audit record says the same.
\<close>

theorem yaml_deny_overrides:
  "let rs = map (createYamlPolicyEngine config version fresh) ctxs; d = denyOverrides f rs in
   (pres_allowed d \<longleftrightarrow> ctxs \<noteq> []
      \<and> list_all (\<lambda>c. pres_allowed (createYamlPolicyEngine config version fresh c)) ctxs)
   \<and> (pres_allowed d \<longleftrightarrow> dr_result (pres_record d) = ''allow'')"
  unfolding Let_def list_all_iff
  by (intro conjI yaml_engine.deny_overrides_allowed yaml_engine.deny_overrides_coherent)

text \<open>
  Obligations run to the end: executing a list of obligations never raises, whatever the
  handlers do, and its effect is that of every registered handler run once, in order, each from
  the state the previous one left; an unregistered obligation has no effect.
\<close>

theorem obligations_run_to_end:
  "executeObligations registry obs w =
     (fold (\<lambda>ob w. case map_get registry (ob_type ob) of
              None \<Rightarrow> w | Some handler \<Rightarrow> fst (handler ob w)) obs w, Inr ())"
proof -
  have "obligation_effect registry =
    (\<lambda>ob w. case map_get registry (ob_type ob) of None \<Rightarrow> w | Some handler \<Rightarrow> fst (handler ob w))"
    by (auto simp: fun_eq_iff obligation_effect_def executeObligation_def split: option.splits)
  then show ?thesis by (simp add: executeObligations_fold)
qed

end
