(* ===== verification/Swarm_World.thy ===== *)
theory Swarm_World
  imports Policy_Kernel
begin

text \<open>
  The state the orchestration processes share and the effects they have on it: the pipeline
  state rows, the context WAL, the MITL table, the decision records, the finality decisions, the
  processed-message table, the nodes and edges of the semantic graph, the
  convergence, evidence, propagation, certificate, catalog and causal tables, the messages published
  on the bus and the recorded metrics, with the messages of \<open>src/events.ts\<close>.

  Every call to an external service (database, bus, object store) is one \<open>external\<close> step. The
  field \<open>w_faults\<close> says which of them fail, by their position in the run; a failing call changes
  nothing and raises, except the look-up of a stored object, which the program takes for a missing one
  (\<open>s3_get\<close>). A theorem that does not constrain \<open>w_faults\<close> holds for every pattern of
  failures. The records keep the columns and the message fields the code reads or decides on;
  log lines are not modelled.
\<close>

section \<open>Values on the wire\<close>

datatype json =
    JNull
  | JBool bool
  | JNum rat
  | JStr string
  | JArr "json list"
  | JObj "(string \<times> json) list"

type_synonym json_obj = "(string \<times> json) list"

fun json_str :: "json option \<Rightarrow> string option" where
  "json_str (Some (JStr s)) = Some s"
| "json_str _ = None"

record swarm_event =
  se_id :: string
  se_type :: string
  se_ts :: string
  se_source :: string
  se_correlation_id :: string
  se_payload :: json_obj
  se_tenant_id :: "string option"
  se_scope_id :: "string option"

record event_opts =
  eo_source :: "string option"
  eo_correlation_id :: "string option"
  eo_id :: "string option"
  eo_ts :: "string option"
  eo_tenant_id :: "string option"
  eo_scope_id :: "string option"

definition no_opts :: event_opts where
  "no_opts = \<lparr> eo_source = None, eo_correlation_id = None, eo_id = None, eo_ts = None,
               eo_tenant_id = None, eo_scope_id = None \<rparr>"

text \<open>The arguments after the options are the active tenant and scope of
  \<open>src/billingContext.ts\<close> and the generated identifier and time.\<close>

definition createSwarmEvent ::
  "string \<Rightarrow> json_obj \<Rightarrow> event_opts \<Rightarrow> string option \<Rightarrow> string \<Rightarrow> fresh_id \<Rightarrow> swarm_event" where
  "createSwarmEvent type payload opts active_tenant active_scope fresh =
    (let tenantId = or_else (eo_tenant_id opts) active_tenant;
         scopeId = coalesce (or_else (eo_scope_id opts) (json_str (map_get payload ''scope_id'')))
                     active_scope in
     \<lparr> se_id = coalesce (eo_id opts) (fst fresh), se_type = type,
       se_ts = coalesce (eo_ts opts) (snd fresh),
       se_source = coalesce (eo_source opts) ''system'',
       se_correlation_id = coalesce (eo_correlation_id opts) [],
       se_payload =
         (if map_get payload ''scope_id'' \<in> {None, Some JNull} \<and> scopeId \<noteq> []
          then map_set ''scope_id'' (JStr scopeId) payload else payload),
       se_tenant_id = (case tenantId of Some t \<Rightarrow> if t = [] then None else Some t | None \<Rightarrow> None),
       se_scope_id = (if scopeId = [] then None else Some scopeId) \<rparr>)"

text \<open>\<open>isSwarmEvent\<close> on a decoded object; a JSON array or object is \<open>typeof "object"\<close>.\<close>

definition isSwarmEvent :: "json_obj \<Rightarrow> bool" where
  "isSwarmEvent data =
    ((\<forall>f \<in> set [''id'', ''type'', ''ts'', ''source'']. json_str (map_get data f) \<noteq> None)
     \<and> map_has data ''correlation_id''
     \<and> (case map_get data ''payload'' of
          Some (JObj _) \<Rightarrow> True | Some (JArr _) \<Rightarrow> True | _ \<Rightarrow> False))"

definition event_to_json :: "swarm_event \<Rightarrow> json_obj" where
  "event_to_json e =
    [(''id'', JStr (se_id e)), (''type'', JStr (se_type e)), (''ts'', JStr (se_ts e)),
     (''source'', JStr (se_source e)), (''correlation_id'', JStr (se_correlation_id e)),
     (''payload'', JObj (se_payload e))]
    @ (case se_tenant_id e of Some t \<Rightarrow> [(''tenant_id'', JStr t)] | None \<Rightarrow> [])
    @ (case se_scope_id e of Some s \<Rightarrow> [(''scope_id'', JStr s)] | None \<Rightarrow> [])"

lemma created_event_is_swarm_event:
  "isSwarmEvent (event_to_json (createSwarmEvent type payload opts tenant scope fresh))"
  by (simp add: isSwarmEvent_def event_to_json_def createSwarmEvent_def map_has_def Let_def)

lemma created_event_scope:
  "scope \<noteq> [] \<Longrightarrow> eo_scope_id opts = None \<Longrightarrow> map_get payload ''scope_id'' = None \<Longrightarrow>
   map_get (se_payload (createSwarmEvent type payload opts tenant scope fresh)) ''scope_id''
     = Some (JStr scope)"
  by (simp add: createSwarmEvent_def map_get_set Let_def)

section \<open>Proposals, actions and bus messages\<close>

text \<open>The fields that the readers of a proposal or action payload ask for. Every one is optional,
  as in a JavaScript object.\<close>

record payload =
  p_expectedEpoch :: "int option"
  p_runId :: "string option"
  p_from :: "string option"
  p_to :: "string option"
  p_type :: "string option"
  p_drift_level :: "string option"
  p_drift_types :: "string list option"
  p_block_reason :: "string option"
  p_scope_id :: "string option"
  p_node_type :: "string option"
  p_existing_node_id :: "string option"
  p_a :: "string option"
  p_b :: "string option"
  p_nli_label :: "string option"
  p_nli_confidence :: "rat option"
  p_dimension :: "string option"
  p_prefilter :: "string option"
  p_decision_id :: "string option"
  p_policy_version :: "string option"
  p_goal_score :: "rat option"
  p_suggested_actions :: "string list option"

definition empty_payload :: payload where
  "empty_payload = \<lparr> p_expectedEpoch = None, p_runId = None, p_from = None, p_to = None,
     p_type = None, p_drift_level = None, p_drift_types = None, p_block_reason = None,
     p_scope_id = None, p_node_type = None, p_existing_node_id = None, p_a = None, p_b = None,
     p_nli_label = None, p_nli_confidence = None, p_dimension = None, p_prefilter = None,
     p_decision_id = None, p_policy_version = None, p_goal_score = None,
     p_suggested_actions = None \<rparr>"

record proposal =
  pp_id :: string
  pp_agent :: string
  pp_action :: string
  pp_target_node :: string
  pp_payload :: payload
  pp_mode :: "string option"

record action =
  ac_proposal_id :: string
  ac_approved_by :: string
  ac_result :: string
  ac_reason :: string
  ac_action_type :: "string option"
  ac_payload :: "payload option"
  ac_option :: "string option"
  ac_days :: "int option"

record evidence_object =
  eo_role :: string
  eo_dimension :: string
  eo_support :: rat
  eo_refutation :: rat

datatype message =
    ActionMsg action
  | RejectionMsg string string string
  | PendingMsg string string
  | JobMsg string string
  | EventMsg swarm_event
  | ProposalMsg proposal
  | EvaluateMsg string
  | EvidenceMsg evidence_object string string
  | NoticeMsg json_obj

section \<open>The shared state\<close>

datatype graph_node =
    ContextIngested | FactsExtracted | DriftChecked | EvidencePropagated | DeltasExtracted

record graph_state =
  gs_runId :: string
  gs_lastNode :: graph_node
  gs_updatedAt :: int
  gs_epoch :: int

datatype pending_status = StatusPending | StatusOther string

record pending_row =
  pr_proposal :: proposal
  pr_payload :: "payload option"
  pr_status :: pending_status
  pr_created :: int

record decision_row =
  drow_record :: decision_record
  drow_path :: "string option"
  drow_scope :: "string option"
  drow_mode :: "string option"

record finality_row =
  fr_scope_id :: string
  fr_option :: string
  fr_days :: "int option"
  fr_created_at :: int

text \<open>The tables of the semantic graph, \<open>migrations/005\<close> and \<open>011\<close>: a time is in milliseconds, an
  absent one is NULL, and the JSON columns are the objects the code writes.\<close>

record node_row =
  nd_id :: string
  nd_scope :: string
  nd_type :: string
  nd_content :: string
  nd_confidence :: rat
  nd_status :: string
  nd_source :: json_obj
  nd_meta :: json_obj
  nd_created :: int
  nd_updated :: int
  nd_by :: "string option"
  nd_version :: int
  nd_valid_from :: "int option"
  nd_valid_to :: "int option"
  nd_recorded :: int
  nd_superseded :: "int option"
  nd_embedding :: "rat list option"

record edge_row =
  eg_id :: string
  eg_scope :: string
  eg_source :: string
  eg_target :: string
  eg_type :: string
  eg_weight :: rat
  eg_meta :: json_obj
  eg_created :: int
  eg_by :: "string option"
  eg_valid_from :: "int option"
  eg_valid_to :: "int option"
  eg_recorded :: int
  eg_superseded :: "int option"

text \<open>The tables of the finality, evidence and causal layers. An \<open>xnum\<close> is a double with its infinities
  and NaN; a \<open>BIGSERIAL\<close> identifier is the position of its row.\<close>

datatype xnum = Fin rat | PInf | NInf | NaN

record convergence_point =
  cp_epoch :: int
  cp_goal :: rat
  cp_v :: rat
  cp_dims :: "(string \<times> rat) list"
  cp_pressure :: "(string \<times> rat) list"
  cp_seq :: "int option"

record gate_state =
  ga_monotonic :: "bool option"
  ga_evidence :: "bool option"
  ga_trajectory :: "bool option"
  ga_quiescent :: "bool option"
  ga_has_content :: "bool option"
  ga_finality_state :: "string option"
  ga_unresolved :: "int option"
  ga_quality :: "rat option"

record convergence_row =
  cv_scope :: string
  cv_created :: int
  cv_point :: convergence_point
  cv_gates :: gate_state

record evidence_row =
  ev_scope :: string
  ev_epoch :: int
  ev_role :: string
  ev_support :: "rat list"
  ev_refutation :: "rat list"

record propagation_metrics =
  pm_before :: rat
  pm_after :: rat
  pm_ratio :: rat
  pm_norm :: rat
  pm_gap :: "rat option"
  pm_rho :: "rat option"
  pm_bound :: "xnum option"
  pm_small_gain :: "bool option"
  pm_kappa :: "rat option"
  pm_dirichlet_before :: "rat option"
  pm_dirichlet_after :: "rat option"

record propagation_row =
  ph_scope :: string
  ph_epoch :: int
  ph_metrics :: propagation_metrics

record certificate_row =
  ct_scope :: string
  ct_jws :: string
  ct_payload :: string
  ct_created :: int

record causal_row =
  cs_rid :: string
  cs_scope :: string
  cs_parents :: "string list"
  cs_payload :: string
  cs_kind :: string
  cs_role :: string
  cs_tier :: int
  cs_mode :: string
  cs_created :: int

text \<open>A stored object that is read: a drift report with the flag \<open>recommend_hitl\<close> of the report.\<close>

datatype s3_doc = S3Empty | S3Malformed | S3Drift drift_input bool

datatype http_response = HttpOk "bool option" | HttpError nat string | HttpDown string

record acl_config =
  acl_store_id :: string
  acl_allow_if_unavailable :: bool
  acl_check :: "string \<Rightarrow> string \<Rightarrow> string \<Rightarrow> http_response"

record world =
  w_tick :: nat
  w_faults :: "nat \<Rightarrow> bool"
  w_now :: int
  w_uuid :: "nat \<Rightarrow> string"
  w_uuids :: nat
  w_scope :: string
  w_tenant :: "string option"
  w_env_scope :: "string option"
  w_env_mode :: "string option"
  w_policy_file :: "raw_config option"
  w_policy_version :: string
  w_acl :: acl_config
  w_s3 :: "(string, s3_doc) jsmap"
  w_states :: "(string, graph_state) jsmap"
  w_wal :: "json_obj list"
  w_pending :: "(string, pending_row) jsmap"
  w_records :: "decision_row list"
  w_finality :: "finality_row list"
  w_processed :: "(string \<times> string) list"
  w_nodes :: "node_row list"
  w_edges :: "edge_row list"
  w_bus :: "(string \<times> message) list"
  w_metrics :: "(string \<times> string) list"
  w_convergence :: "convergence_row list"
  w_certificates :: "certificate_row list"
  w_catalog :: "(string, string \<times> rat) jsmap"
  w_evidence :: "evidence_row list"
  w_propagation :: "propagation_row list"
  w_causal :: "causal_row list"

definition io_error :: js_error where
  "io_error = JsError ''external call failed''"

definition tick :: "world \<Rightarrow> world" where
  "tick w = w \<lparr> w_tick := w_tick w + 1 \<rparr>"

definition external :: "(world, 'a) exec \<Rightarrow> (world, 'a) exec" where
  "external op w = (if w_faults w (w_tick w) then (tick w, Inl io_error) else op (tick w))"

definition fresh_uuid :: "(world, string) exec" where
  "fresh_uuid w = (w \<lparr> w_uuids := w_uuids w + 1 \<rparr>, Inr (w_uuid w (w_uuids w)))"

definition next_fresh :: "world \<Rightarrow> fresh_id" where
  "next_fresh w = (w_uuid w (w_uuids w), [])"

definition publish :: "string \<Rightarrow> message \<Rightarrow> (world, unit) exec" where
  "publish subject msg = external (\<lambda>w. (w \<lparr> w_bus := w_bus w @ [(subject, msg)] \<rparr>, Inr ()))"

definition appendEvent :: "json_obj \<Rightarrow> (world, unit) exec" where
  "appendEvent data = external (\<lambda>w. (w \<lparr> w_wal := w_wal w @ [data] \<rparr>, Inr ()))"

definition metric :: "string \<Rightarrow> string \<Rightarrow> (world, unit) exec" where
  "metric name label = modify (\<lambda>w. w \<lparr> w_metrics := w_metrics w @ [(name, label)] \<rparr>)"

definition load_policy_config :: "(world, governance_config) exec" where
  "load_policy_config w =
     (case w_policy_file w of
        None \<Rightarrow> (w, Inl (JsError ''ENOENT''))
      | Some raw \<Rightarrow> (w, Inr (loadPolicies raw (w_env_mode w))))"

text \<open>\<open>runInTransaction\<close> of \<open>src/db.ts\<close>: a body that raises leaves the state it started from, apart
  from the calls already made, and so does a failing COMMIT.\<close>

definition runInTransaction :: "(world, 'a) exec \<Rightarrow> (world, 'a) exec" where
  "runInTransaction body w =
    (case body w of
       (w', Inl (JsError e)) \<Rightarrow> (w \<lparr> w_tick := w_tick w' \<rparr>, Inl (JsError (''runInTransaction: '' @ e)))
     | (w', Inr x) \<Rightarrow>
        (if w_faults w' (w_tick w')
         then (w \<lparr> w_tick := w_tick w' + 1 \<rparr>, Inl (JsError ''runInTransaction: commit''))
         else (tick w', Inr x)))"

lemma external_ok: "\<not> w_faults w (w_tick w) \<Longrightarrow> external op w = op (tick w)"
  by (simp add: external_def)

lemma external_fault: "w_faults w (w_tick w) \<Longrightarrow> external op w = (tick w, Inl io_error)"
  by (simp add: external_def)

lemma tick_select [simp]:
  "w_faults (tick w) = w_faults w" "w_now (tick w) = w_now w" "w_scope (tick w) = w_scope w"
  "w_tenant (tick w) = w_tenant w" "w_env_scope (tick w) = w_env_scope w"
  "w_policy_file (tick w) = w_policy_file w" "w_policy_version (tick w) = w_policy_version w"
  "w_env_mode (tick w) = w_env_mode w" "w_acl (tick w) = w_acl w" "w_s3 (tick w) = w_s3 w"
  "w_states (tick w) = w_states w" "w_wal (tick w) = w_wal w" "w_pending (tick w) = w_pending w"
  "w_records (tick w) = w_records w" "w_finality (tick w) = w_finality w"
  "w_processed (tick w) = w_processed w" "w_nodes (tick w) = w_nodes w" "w_edges (tick w) = w_edges w" "w_bus (tick w) = w_bus w"
  "w_metrics (tick w) = w_metrics w" "w_uuid (tick w) = w_uuid w" "w_uuids (tick w) = w_uuids w"
  "w_convergence (tick w) = w_convergence w" "w_certificates (tick w) = w_certificates w"
  "w_catalog (tick w) = w_catalog w" "w_evidence (tick w) = w_evidence w"
  "w_propagation (tick w) = w_propagation w" "w_causal (tick w) = w_causal w"
  "w_tick (tick w) = Suc (w_tick w)"
  by (simp_all add: tick_def)

text \<open>A world with no rows and no failures, for evaluations.\<close>

definition empty_world :: world where
  "empty_world = \<lparr> w_tick = 0, w_faults = (\<lambda>_. False), w_now = 0, w_uuid = (\<lambda>_. ''u''),
     w_uuids = 0, w_scope = ''default'', w_tenant = None, w_env_scope = None, w_env_mode = None,
     w_policy_file = Some governance_yaml, w_policy_version = ''v1'',
     w_acl = \<lparr> acl_store_id = [], acl_allow_if_unavailable = False,
               acl_check = (\<lambda>_ _ _. HttpOk None) \<rparr>,
     w_s3 = [], w_states = [], w_wal = [], w_pending = [], w_records = [], w_finality = [],
     w_processed = [], w_nodes = [], w_edges = [], w_bus = [], w_metrics = [],
     w_convergence = [], w_certificates = [], w_catalog = [], w_evidence = [], w_propagation = [],
     w_causal = [] \<rparr>"

definition row_at :: "graph_node \<Rightarrow> int \<Rightarrow> graph_state" where
  "row_at node epoch = \<lparr> gs_runId = ''run'', gs_lastNode = node, gs_updatedAt = 0, gs_epoch = epoch \<rparr>"

definition world_at :: "string \<Rightarrow> graph_node \<Rightarrow> int \<Rightarrow> world" where
  "world_at scope node epoch = empty_world \<lparr> w_states := [(scope, row_at node epoch)] \<rparr>"

lemma world_at_select [simp]:
  "w_faults (world_at sc n e) = (\<lambda>_. False)" "w_now (world_at sc n e) = 0"
  "w_states (world_at sc n e) = [(sc, row_at n e)]" "w_wal (world_at sc n e) = []"
  "w_scope (world_at sc n e) = ''default''" "w_s3 (world_at sc n e) = []"
  "w_bus (world_at sc n e) = []" "w_pending (world_at sc n e) = []"
  "w_policy_file (world_at sc n e) = Some governance_yaml" "w_env_mode (world_at sc n e) = None"
  "w_env_scope (world_at sc n e) = None"
  by (simp_all add: world_at_def empty_world_def)

lemma row_at_select [simp]:
  "gs_runId (row_at n e) = ''run''" "gs_lastNode (row_at n e) = n" "gs_epoch (row_at n e) = e"
  by (simp_all add: row_at_def)

end
