(* ===== verification/Access_Control.thy ===== *)
theory Access_Control
  imports Swarm_World
begin

text \<open>
  The permission check of \<open>src/policy.ts\<close>. OpenFGA is a parameter: \<open>acl_check\<close> maps user, relation
  and object to the HTTP response or the failure of the call.
\<close>

record check_result =
  cr_allowed :: bool
  cr_error :: "string option"

definition with_prefix :: "string \<Rightarrow> string \<Rightarrow> string" where
  "with_prefix p s = (if str_starts_with s p then s else p @ s)"

definition checkPermission :: "acl_config \<Rightarrow> string \<Rightarrow> string \<Rightarrow> string \<Rightarrow> check_result" where
  "checkPermission cfg agent relation target =
    (if acl_store_id cfg = []
     then \<lparr> cr_allowed = True, cr_error = Some ''OPENFGA_STORE_ID not set (allow by default)'' \<rparr>
     else
       (let user = with_prefix ''agent:'' agent;
            object = with_prefix ''node:'' target in
        case acl_check cfg user relation object of
          HttpOk answer \<Rightarrow> \<lparr> cr_allowed = (answer = Some True), cr_error = None \<rparr>
        | HttpError status text \<Rightarrow>
            if acl_allow_if_unavailable cfg then \<lparr> cr_allowed = True, cr_error = None \<rparr>
            else \<lparr> cr_allowed = False,
                   cr_error = Some (''OpenFGA '' @ nat_digits status @ '': '' @ text) \<rparr>
        | HttpDown msg \<Rightarrow>
            if acl_allow_if_unavailable cfg then \<lparr> cr_allowed = True, cr_error = None \<rparr>
            else \<lparr> cr_allowed = False, cr_error = Some msg \<rparr>))"

lemma with_prefix_starts [simp]: "str_starts_with (with_prefix p s) p"
  by (simp add: with_prefix_def)

lemma with_prefix_idem [simp]: "with_prefix p (with_prefix p s) = with_prefix p s"
  by (simp add: with_prefix_def)

text \<open>With a store configured and no fail-open flag, permission is exactly an affirmative answer.\<close>

lemma checkPermission_closed:
  "acl_store_id cfg \<noteq> [] \<Longrightarrow> \<not> acl_allow_if_unavailable cfg \<Longrightarrow>
   cr_allowed (checkPermission cfg agent rel target) \<longleftrightarrow>
     acl_check cfg (with_prefix ''agent:'' agent) rel (with_prefix ''node:'' target)
       = HttpOk (Some True)"
  by (auto simp: checkPermission_def Let_def split: http_response.splits)

text \<open>The literal error \<open>policy_denied\<close> of the callers appears exactly when OpenFGA answered.\<close>

lemma checkPermission_denied_silently:
  "\<not> cr_allowed (checkPermission cfg agent rel target) \<Longrightarrow>
   cr_error (checkPermission cfg agent rel target) = None \<Longrightarrow>
   \<exists>a. acl_check cfg (with_prefix ''agent:'' agent) rel (with_prefix ''node:'' target)
       = HttpOk a \<and> a \<noteq> Some True"
  by (auto simp: checkPermission_def Let_def split: http_response.splits if_splits)

end
