(* ===== verification/Scope_Storage.thy ===== *)
theory Scope_Storage
  imports Swarm_World
begin

text \<open>
  The scope-partitioned object keys of \<open>src/scopeStorage.ts\<close> and the active scope of
  \<open>src/billingContext.ts\<close>. The lemmas say when two scopes share a key: exactly when their
  sanitised identifiers are equal, so scopes made of safe characters are separated and others
  need not be.
\<close>

definition safe_char :: "char \<Rightarrow> bool" where
  "safe_char c = (let n = (of_char c :: nat) in
     (97 \<le> n \<and> n \<le> 122) \<or> (65 \<le> n \<and> n \<le> 90) \<or> (48 \<le> n \<and> n \<le> 57)
     \<or> c = CHR ''.'' \<or> c = CHR ''_'' \<or> c = CHR ''-'')"

definition sanitizeScopeIdForStorage :: "string \<Rightarrow> string" where
  "sanitizeScopeIdForStorage scopeId = map (\<lambda>c. if safe_char c then c else CHR ''_'') scopeId"

definition scopeStoragePrefix :: "string \<Rightarrow> string" where
  "scopeStoragePrefix scopeId = ''scopes/'' @ sanitizeScopeIdForStorage scopeId"

definition scopeStorageKey :: "string \<Rightarrow> string \<Rightarrow> string" where
  "scopeStorageKey scopeId relativePath =
     (let rel = dropWhile (\<lambda>c. c = CHR ''/'') relativePath in
      scopeStoragePrefix scopeId @ ''/'' @ rel)"

definition scopeFactsKey :: "string \<Rightarrow> string" where
  "scopeFactsKey scopeId = scopeStorageKey scopeId ''facts/latest.json''"

definition scopeDriftKey :: "string \<Rightarrow> string" where
  "scopeDriftKey scopeId = scopeStorageKey scopeId ''drift/latest.json''"

definition scopeResolutionsKey :: "string \<Rightarrow> string" where
  "scopeResolutionsKey scopeId = scopeStorageKey scopeId ''resolutions/latest.json''"

definition scopeDeltasKey :: "string \<Rightarrow> string" where
  "scopeDeltasKey scopeId = scopeStorageKey scopeId ''deltas/latest.json''"

definition scopeFactsHistoryPrefix :: "string \<Rightarrow> string" where
  "scopeFactsHistoryPrefix scopeId = scopeStorageKey scopeId ''facts/history/''"

definition scopeDriftHistoryPrefix :: "string \<Rightarrow> string" where
  "scopeDriftHistoryPrefix scopeId = scopeStorageKey scopeId ''drift/history/''"

definition dash_timestamp :: "string \<Rightarrow> string" where
  "dash_timestamp ts = map (\<lambda>c. if c = CHR '':'' \<or> c = CHR ''.'' then CHR ''-'' else c) ts"

definition scopeFactsHistoryKey :: "string \<Rightarrow> string \<Rightarrow> string" where
  "scopeFactsHistoryKey scopeId ts =
     scopeStorageKey scopeId (''facts/history/'' @ dash_timestamp ts @ ''.json'')"

definition scopeDriftHistoryKey :: "string \<Rightarrow> string \<Rightarrow> string" where
  "scopeDriftHistoryKey scopeId ts =
     scopeStorageKey scopeId (''drift/history/'' @ dash_timestamp ts @ ''.json'')"

definition js_space :: "char \<Rightarrow> bool" where
  "js_space c = (let n = (of_char c :: nat) in (9 \<le> n \<and> n \<le> 13) \<or> n = 32 \<or> n = 160)"

definition str_trim :: "string \<Rightarrow> string" where
  "str_trim s = rev (dropWhile js_space (rev (dropWhile js_space s)))"

definition resolveStorageScopeId :: "string option \<Rightarrow> world \<Rightarrow> string" where
  "resolveStorageScopeId explicit w =
    (let trimmed = map_option str_trim explicit in
     if trimmed \<noteq> None \<and> trimmed \<noteq> Some [] then the trimmed
     else if w_scope w \<noteq> [] then w_scope w
     else case w_env_scope w of Some s \<Rightarrow> if s \<noteq> [] then s else ''default'' | None \<Rightarrow> ''default'')"

definition resolveScopedFieldKey :: "string \<Rightarrow> string \<Rightarrow> string" where
  "resolveScopedFieldKey scopeId field =
     (if str_starts_with field ''scopes/'' \<or> str_starts_with field ''tenants/'' then field
      else scopeStorageKey scopeId field)"

definition setActiveBillingContext :: "string option \<Rightarrow> string \<Rightarrow> world \<Rightarrow> world" where
  "setActiveBillingContext tenantId scopeId w =
     w \<lparr> w_tenant := tenantId, w_scope := scopeId, w_env_scope := Some scopeId \<rparr>"

definition storage_safe :: "string \<Rightarrow> bool" where
  "storage_safe s = list_all safe_char s"

lemma sanitize_safe [simp]: "storage_safe s \<Longrightarrow> sanitizeScopeIdForStorage s = s"
  by (induction s) (simp_all add: storage_safe_def sanitizeScopeIdForStorage_def)

lemma sanitize_idempotent [simp]:
  "sanitizeScopeIdForStorage (sanitizeScopeIdForStorage s) = sanitizeScopeIdForStorage s"
proof -
  have "storage_safe (sanitizeScopeIdForStorage s)"
    by (auto simp: storage_safe_def sanitizeScopeIdForStorage_def list_all_iff safe_char_def Let_def)
  then show ?thesis by simp
qed

lemma sanitize_no_slash: "CHR ''/'' \<notin> set (sanitizeScopeIdForStorage s)"
proof -
  have "\<not> safe_char (CHR ''/'')" by (simp add: safe_char_def)
  then show ?thesis by (auto simp: sanitizeScopeIdForStorage_def split: if_splits)
qed

lemma append_slash_eq:
  "c \<notin> set a \<Longrightarrow> c \<notin> set b \<Longrightarrow> a @ c # x = b @ c # y \<longleftrightarrow> a = b \<and> x = y"
proof (induction a arbitrary: b)
  case Nil
  then show ?case by (cases b) auto
next
  case (Cons d a)
  then show ?case by (cases b) auto
qed

lemma scopeStorageKey_eq:
  "scopeStorageKey a r = scopeStorageKey b r' \<longleftrightarrow>
     sanitizeScopeIdForStorage a = sanitizeScopeIdForStorage b
     \<and> dropWhile (\<lambda>c. c = CHR ''/'') r = dropWhile (\<lambda>c. c = CHR ''/'') r'"
  using append_slash_eq[OF sanitize_no_slash[of a] sanitize_no_slash[of b]]
  by (simp add: scopeStorageKey_def scopeStoragePrefix_def)

text \<open>
  Two scopes share an artifact key exactly when their identifiers sanitise to the same
  string: scopes written with safe characters never do, whatever the artifact, and an unsafe
  identifier shares every key with the safe one it is rewritten to.
\<close>

theorem scope_keys_shared_iff:
  "(scopeStorageKey a r = scopeStorageKey b r
      \<longleftrightarrow> sanitizeScopeIdForStorage a = sanitizeScopeIdForStorage b)
   \<and> scopeDriftKey a = scopeDriftKey (sanitizeScopeIdForStorage a)
   \<and> scopeFactsKey a = scopeFactsKey (sanitizeScopeIdForStorage a)"
  by (simp add: scopeStorageKey_eq scopeDriftKey_def scopeFactsKey_def)

text \<open>
  A key of one safe scope is never below the prefix of another: no listing or read under
  one scope's prefix sees an artifact of another scope.
\<close>

theorem safe_scopes_disjoint:
  assumes "storage_safe a" "storage_safe b" "a \<noteq> b"
  shows "\<not> str_starts_with (scopeStorageKey b r) (scopeStoragePrefix a @ ''/'')"
proof
  assume "str_starts_with (scopeStorageKey b r) (scopeStoragePrefix a @ ''/'')"
  then obtain y where
    "sanitizeScopeIdForStorage b @ CHR ''/'' # dropWhile (\<lambda>c. c = CHR ''/'') r
      = sanitizeScopeIdForStorage a @ CHR ''/'' # y"
    by (auto simp: str_starts_with_def prefix_def scopeStorageKey_def scopeStoragePrefix_def)
  then show False using assms append_slash_eq[OF sanitize_no_slash[of b] sanitize_no_slash[of a]]
    by simp
qed

theorem safe_scopes_disjoint_witness:
  "\<not> str_starts_with (scopeStorageKey ''b'' ''facts/latest.json'') (scopeStoragePrefix ''a'' @ ''/'')"
  using safe_scopes_disjoint[of "''a''" "''b''" "''facts/latest.json''"]
  by (simp add: storage_safe_def safe_char_def)

end
