(* ===== verification/Mitl_Server.thy ===== *)
theory Mitl_Server
  imports Access_Control Scope_Storage
begin

text \<open>
  The human-in-the-loop queue of \<open>src/mitlServer.ts\<close>: the table of pending proposals and the
  three human decisions (approve, reject, answer a finality review), each of which publishes its
  outcome and then removes the row. The locale \<open>approval_queue\<close> states what a queue of decisions
  promises and shows that no entry is decided twice.

  The HTTP layer above these operations is not modelled. The one-time creation of the table is
  not a step of the model; \<open>ORDER BY created_at\<close> is a stable sort.
\<close>

section \<open>The table\<close>

definition addPending :: "string \<Rightarrow> proposal \<Rightarrow> payload \<Rightarrow> (world, unit) exec" where
  "addPending proposalId prop actionPayload =
     external (\<lambda>w. (w \<lparr> w_pending := map_set proposalId
        \<lparr> pr_proposal = prop, pr_payload = Some actionPayload, pr_status = StatusPending,
          pr_created = w_now w \<rparr> (w_pending w) \<rparr>, Inr ()))"

definition is_pending :: "pending_row \<Rightarrow> bool" where
  "is_pending r = (pr_status r = StatusPending)"

definition getPending :: "string option \<Rightarrow> (world, (string \<times> proposal) list) exec" where
  "getPending scopeId =
     external (\<lambda>w.
       (let rows = filter (\<lambda>(_, r). is_pending r) (w_pending w);
            rows' = (case scopeId of
                       Some s \<Rightarrow> if s = [] then rows
                                 else filter (\<lambda>(_, r). p_scope_id (pp_payload (pr_proposal r)) = Some s) rows
                     | None \<Rightarrow> rows)
        in (w, Inr (map (\<lambda>(k, r). (k, pr_proposal r)) (sort_key (\<lambda>(_, r). pr_created r) rows')))))"

text \<open>The SQL pattern match: \<open>%\<close> stands for any string, \<open>_\<close> for any character, a backslash
  escapes the next character.\<close>

fun like_match :: "string \<Rightarrow> string \<Rightarrow> bool" where
  "like_match [] t = (t = [])"
| "like_match (p # ps) t =
    (if p = CHR ''%'' then like_match ps t \<or> (case t of [] \<Rightarrow> False | _ # t' \<Rightarrow> like_match (p # ps) t')
     else case t of
       [] \<Rightarrow> False
     | c # t' \<Rightarrow>
        if p = CHR ''_'' then like_match ps t'
        else if p = CHR 0x5C then (case ps of [] \<Rightarrow> False | q # qs \<Rightarrow> c = q \<and> like_match qs t')
        else c = p \<and> like_match ps t')"

definition finality_prefix :: "string \<Rightarrow> string" where
  "finality_prefix scopeId = ''finality-'' @ scopeId @ ''-''"

definition hasPendingFinalityReviewForScope :: "string \<Rightarrow> (world, bool) exec" where
  "hasPendingFinalityReviewForScope scopeId =
     external (\<lambda>w. (w, Inr (list_ex (\<lambda>(k, r). is_pending r
        \<and> like_match (finality_prefix scopeId @ ''%'') k) (w_pending w))))"

definition getPendingItem :: "string \<Rightarrow> (world, (proposal \<times> payload) option) exec" where
  "getPendingItem proposalId =
     external (\<lambda>w. (w, Inr (case map_get (w_pending w) proposalId of
        None \<Rightarrow> None
      | Some r \<Rightarrow> if is_pending r then Some (pr_proposal r, coalesce (pr_payload r) empty_payload)
                  else None)))"

definition removePending :: "string \<Rightarrow> (world, unit) exec" where
  "removePending proposalId =
     external (\<lambda>w. (w \<lparr> w_pending := map_delete proposalId (w_pending w) \<rparr>, Inr ()))"

section \<open>Human decisions\<close>

record mitl_result =
  mr_ok :: bool
  mr_error :: "string option"

definition mitl_done :: mitl_result where
  "mitl_done = \<lparr> mr_ok = True, mr_error = None \<rparr>"

definition mitl_error :: "string \<Rightarrow> mitl_result" where
  "mitl_error e = \<lparr> mr_ok = False, mr_error = Some e \<rparr>"

definition human_approval :: "string \<Rightarrow> payload \<Rightarrow> action" where
  "human_approval proposalId p =
     \<lparr> ac_proposal_id = proposalId, ac_approved_by = ''human'', ac_result = ''approved'',
       ac_reason = ''mitl_approved'', ac_action_type = Some ''advance_state'',
       ac_payload = Some p, ac_option = None, ac_days = None \<rparr>"

definition publish_and_remove :: "string \<Rightarrow> string \<Rightarrow> message \<Rightarrow> (world, mitl_result) exec" where
  "publish_and_remove proposalId subject msg =
     and_then (publish subject msg)
       (\<lambda>_. and_then (removePending proposalId) (\<lambda>_. ret mitl_done))"

definition approvePending :: "string \<Rightarrow> (world, mitl_result) exec" where
  "approvePending proposalId =
     and_then (getPendingItem proposalId)
       (\<lambda>item. case item of
          None \<Rightarrow> ret (mitl_error ''not_found'')
        | Some (_, p) \<Rightarrow>
            if p_type p = Some ''finality_review'' then ret (mitl_error ''use_finality_response'')
            else publish_and_remove proposalId ''swarm.actions.advance_state''
                   (ActionMsg (human_approval proposalId p)))"

definition finality_answer :: "string \<Rightarrow> string \<Rightarrow> int option \<Rightarrow> payload \<Rightarrow> action" where
  "finality_answer proposalId option days p =
     \<lparr> ac_proposal_id = proposalId, ac_approved_by = ''human'', ac_result = ''finality_response'',
       ac_reason = [], ac_action_type = Some ''finality'', ac_payload = Some p,
       ac_option = Some option, ac_days = days \<rparr>"

definition resolveFinalityPending ::
  "string \<Rightarrow> string \<Rightarrow> int option \<Rightarrow> string option \<Rightarrow> (world, mitl_result) exec" where
  "resolveFinalityPending proposalId option days scopeId =
     and_then (getPendingItem proposalId)
       (\<lambda>item. case item of
          None \<Rightarrow> ret (mitl_error ''not_found'')
        | Some (prop, p) \<Rightarrow>
            if p_type p \<noteq> Some ''finality_review'' then ret (mitl_error ''not_finality_review'')
            else
              (let proposalScopeId = coalesce (p_scope_id (pp_payload prop)) [] in
               if coalesce scopeId [] \<noteq> [] \<and> proposalScopeId \<noteq> []
                  \<and> Some proposalScopeId \<noteq> scopeId
               then ret (mitl_error ''scope_mismatch'')
               else publish_and_remove proposalId ''swarm.actions.finality''
                      (ActionMsg (finality_answer proposalId option days p))))"

definition rejectPending :: "string \<Rightarrow> string option \<Rightarrow> (world, mitl_result) exec" where
  "rejectPending proposalId reason =
     and_then (getPendingItem proposalId)
       (\<lambda>item. case item of
          None \<Rightarrow> ret (mitl_error ''not_found'')
        | Some _ \<Rightarrow> publish_and_remove proposalId ''swarm.rejections.advance_state''
            (RejectionMsg proposalId (coalesce reason ''mitl_rejected'') ''rejected''))"

section \<open>Decided once\<close>

locale approval_queue =
  fixes waiting :: "'s \<Rightarrow> 'k \<Rightarrow> bool"
    and decide :: "'d \<Rightarrow> 'k \<Rightarrow> 's \<Rightarrow> 's \<times> bool"
  assumes accepted: "decide d k s = (s', True) \<Longrightarrow>
      waiting s k \<and> \<not> waiting s' k \<and> (\<forall>k'. k' \<noteq> k \<longrightarrow> waiting s' k' = waiting s k')"
    and refused: "decide d k s = (s', False) \<Longrightarrow> waiting s' = waiting s"
begin

fun decisions :: "('d \<times> 'k) list \<Rightarrow> 's \<Rightarrow> 's \<times> 'k list" where
  "decisions [] s = (s, [])"
| "decisions ((d, k) # ds) s =
     (case decide d k s of
        (s', ok) \<Rightarrow> (case decisions ds s' of (s'', ks) \<Rightarrow> (s'', (if ok then [k] else []) @ ks)))"

lemma decisions_once:
  "decisions ds s = (s', ks) \<Longrightarrow>
   distinct ks \<and> (\<forall>k. waiting s' k \<longleftrightarrow> waiting s k \<and> k \<notin> set ks) \<and> (\<forall>k \<in> set ks. waiting s k)"
proof (induction ds s arbitrary: s' ks rule: decisions.induct)
  case (2 d k ds s)
  obtain s1 ok where c: "decide d k s = (s1, ok)" by fastforce
  obtain s2 ks2 where a: "decisions ds s1 = (s2, ks2)" by fastforce
  note IH = "2.IH"[OF c[symmetric] a]
  have res: "s' = s2" "ks = (if ok then [k] else []) @ ks2" using "2.prems" c a by auto
  show ?case
  proof (cases ok)
    case True
    then show ?thesis using IH res accepted[of d k s s1] c by auto
  next
    case False
    then show ?thesis using IH res refused[of d k s s1] c by auto
  qed
qed auto

end

datatype human_decision =
    Approve
  | RejectWith "string option"
  | AnswerFinality string "int option" "string option"

fun human_decide :: "human_decision \<Rightarrow> string \<Rightarrow> (world, mitl_result) exec" where
  "human_decide Approve k = approvePending k"
| "human_decide (RejectWith reason) k = rejectPending k reason"
| "human_decide (AnswerFinality option days scope) k = resolveFinalityPending k option days scope"

definition is_waiting :: "world \<Rightarrow> string \<Rightarrow> bool" where
  "is_waiting w k = (case map_get (w_pending w) k of Some r \<Rightarrow> is_pending r | None \<Rightarrow> False)"

definition decide_ok :: "human_decision \<Rightarrow> string \<Rightarrow> world \<Rightarrow> world \<times> bool" where
  "decide_ok d k w = (case human_decide d k w of
      (w', r) \<Rightarrow> (w', case r of Inr res \<Rightarrow> mr_ok res | Inl _ \<Rightarrow> False))"

lemma publish_and_remove_cases:
  "publish_and_remove k subject msg w = (w', r) \<Longrightarrow>
     (r = Inr mitl_done \<and> w_pending w' = map_delete k (w_pending w)
        \<and> w_bus w' = w_bus w @ [(subject, msg)])
   \<or> (r = Inl io_error \<and> w_pending w' = w_pending w
        \<and> (w_bus w' = w_bus w \<or> w_bus w' = w_bus w @ [(subject, msg)]))"
  by (auto simp: publish_and_remove_def and_then_def publish_def removePending_def external_def
      split: if_splits)

lemma getPendingItem_cases:
  "getPendingItem k w = (w', r) \<Longrightarrow> w' = tick w \<and>
     (r = Inl io_error
      \<or> r = Inr (if is_waiting w k then map_option (\<lambda>row. (pr_proposal row,
                    coalesce (pr_payload row) empty_payload)) (map_get (w_pending w) k) else None))"
  by (auto simp: getPendingItem_def external_def is_waiting_def is_pending_def
      split: if_splits option.splits)

text \<open>Every decision either leaves table and bus alone, or publishes one message; it is \<open>ok\<close> only
  when the row was waiting and has been removed.\<close>

lemma human_decide_cases:
  assumes "human_decide d k w = (w', r)"
  shows "(w_pending w' = w_pending w \<and> w_bus w' = w_bus w \<and> (\<forall>res. r = Inr res \<longrightarrow> \<not> mr_ok res))
    \<or> (is_waiting w k \<and> (\<exists>m. w_bus w' = w_bus w @ [m])
        \<and> (r = Inr mitl_done \<and> w_pending w' = map_delete k (w_pending w)
           \<or> r = Inl io_error \<and> w_pending w' = w_pending w))"
proof -
  obtain w1 r1 where g: "getPendingItem k w = (w1, r1)" by fastforce
  note item = getPendingItem_cases[OF g]
  have pub: "publish_and_remove k s m w1 = (w', r) \<Longrightarrow> is_waiting w k \<Longrightarrow> ?thesis" for s m
    using publish_and_remove_cases[of k s m w1 w' r] item by auto
  show ?thesis
    using assms g item pub
    by (cases d)
      (auto simp: approvePending_def rejectPending_def resolveFinalityPending_def and_then_def
        mitl_error_def Let_def split: if_splits option.splits sum.splits prod.splits)
qed

interpretation mitl_queue: approval_queue is_waiting decide_ok
proof
  fix d k s s' assume "decide_ok d k s = (s', True)"
  then obtain res where "human_decide d k s = (s', Inr res)" "mr_ok res"
    by (auto simp: decide_ok_def split: prod.splits sum.splits)
  then show "is_waiting s k \<and> \<not> is_waiting s' k \<and> (\<forall>k'. k' \<noteq> k \<longrightarrow> is_waiting s' k' = is_waiting s k')"
    using human_decide_cases[of d k s s' "Inr res"]
    by (auto simp: is_waiting_def map_get_delete)
next
  fix d k s s' assume "decide_ok d k s = (s', False)"
  then obtain r where r: "human_decide d k s = (s', r)" "\<forall>res. r = Inr res \<longrightarrow> \<not> mr_ok res"
    by (auto simp: decide_ok_def split: prod.splits sum.splits)
  then have "w_pending s' = w_pending s"
    using human_decide_cases[OF r(1)] by (auto simp: mitl_done_def)
  then show "is_waiting s' = is_waiting s" by (simp add: is_waiting_def fun_eq_iff)
qed

definition run_decisions :: "(human_decision \<times> string) list \<Rightarrow> world \<Rightarrow> world \<times> string list" where
  "run_decisions = mitl_queue.decisions"


end
