(* ===== verification/Dimension_Schema.thy ===== *)
theory Dimension_Schema
  imports Scope_Storage
begin

text \<open>
  Typed dimensions and their semantic equivalence, from
  \<open>src/baselines/scenario/dimension-schema.ts\<close>: the schema of a dimension, the canonical values,
  the English number parser, the text normaliser, the integer parser and the comparison of two
  values with its tolerances. The regular-expression parsers of amounts, percentages and ranges are
  the argument \<open>parsers\<close>; nothing is assumed of them. The JavaScript \<open>in\<close> operator also finds
  inherited properties, so the word \<open>constructor\<close> counts as a number word in the source and makes
  the sum a string; texts with that word are outside this model.
\<close>

datatype dimension_type = CurrencyAmount | Percentage | CurrencyRange | IntegerCount | FreeText

record dimension_schema =
  ds_type :: dimension_type
  ds_tolerance :: "rat option"

type_synonym schema_map = "(string, dimension_schema) jsmap"

datatype canonical_value =
    CAmount rat string bool
  | CPercentage rat
  | CRange rat rat string
  | CInteger int
  | CText string

record value_parsers =
  vp_amount :: "string \<Rightarrow> canonical_value option"
  vp_percentage :: "string \<Rightarrow> canonical_value option"
  vp_range :: "string \<Rightarrow> canonical_value option"

section \<open>Number words\<close>

definition number_words_small :: "(string \<times> int) list" where
  "number_words_small =
    [(''zero'', 0), (''one'', 1), (''two'', 2), (''three'', 3), (''four'', 4), (''five'', 5),
     (''six'', 6), (''seven'', 7), (''eight'', 8), (''nine'', 9), (''ten'', 10), (''eleven'', 11),
     (''twelve'', 12), (''thirteen'', 13), (''fourteen'', 14), (''fifteen'', 15),
     (''sixteen'', 16), (''seventeen'', 17), (''eighteen'', 18), (''nineteen'', 19),
     (''twenty'', 20), (''thirty'', 30), (''forty'', 40), (''fifty'', 50), (''sixty'', 60),
     (''seventy'', 70), (''eighty'', 80), (''ninety'', 90)]"

definition number_words_magnitude :: "(string \<times> int) list" where
  "number_words_magnitude =
    [(''hundred'', 100), (''thousand'', 1000), (''million'', 1000000), (''billion'', 1000000000)]"

fun split_words :: "(char \<Rightarrow> bool) \<Rightarrow> string \<Rightarrow> string \<Rightarrow> string list" where
  "split_words keep acc [] = (if acc = [] then [] else [rev acc])"
| "split_words keep acc (c # cs) =
     (if keep c then split_words keep (c # acc) cs
      else (if acc = [] then [] else [rev acc]) @ split_words keep [] cs)"

definition is_lower_letter :: "char \<Rightarrow> bool" where
  "is_lower_letter c = (let n = (of_char c :: nat) in 97 \<le> n \<and> n \<le> 122)"

fun words_step :: "int \<times> int \<times> bool \<Rightarrow> string \<Rightarrow> int \<times> int \<times> bool" where
  "words_step (tot, current, found) t =
    (case map_get number_words_small t of
       Some n \<Rightarrow> (tot, current + n, True)
     | None \<Rightarrow>
        if t = ''hundred'' then (tot, (if current = 0 then 1 else current) * 100, True)
        else (case map_get number_words_magnitude t of
                Some m \<Rightarrow> (tot + (if current = 0 then 1 else current) * m, 0, True)
              | None \<Rightarrow> (tot, current, found)))"

definition wordsToNumber :: "string \<Rightarrow> int option" where
  "wordsToNumber text =
    (case foldl words_step (0, 0, False) (split_words is_lower_letter [] (str_lower text)) of
       (tot, current, found) \<Rightarrow> if found then Some (tot + current) else None)"

lemma words_step_nonneg:
  "0 \<le> tot \<Longrightarrow> 0 \<le> current \<Longrightarrow> words_step (tot, current, found) t = (tot', current', found')
   \<Longrightarrow> 0 \<le> tot' \<and> 0 \<le> current'"
  by (auto simp: number_words_small_def number_words_magnitude_def split: if_splits option.splits)

lemma words_fold_nonneg:
  "0 \<le> tot \<Longrightarrow> 0 \<le> current \<Longrightarrow> foldl words_step (tot, current, found) ts = (tot', current', found')
   \<Longrightarrow> 0 \<le> tot' \<and> 0 \<le> current'"
proof (induction ts arbitrary: tot current found)
  case (Cons t ts)
  obtain a b c where s: "words_step (tot, current, found) t = (a, b, c)"
    by (cases "words_step (tot, current, found) t") auto
  then show ?case using Cons.IH[of a b c] Cons.prems words_step_nonneg[OF _ _ s] by simp
qed simp

lemma wordsToNumber_nonneg: "wordsToNumber text = Some n \<Longrightarrow> 0 \<le> n"
  using words_fold_nonneg[of 0 0 False]
  by (auto simp: wordsToNumber_def split: prod.splits if_splits)

section \<open>Text and integers\<close>

fun collapse_spaces :: "bool \<Rightarrow> string \<Rightarrow> string" where
  "collapse_spaces in_space [] = []"
| "collapse_spaces in_space (c # cs) =
     (if js_space c then (if in_space then [] else '' '') @ collapse_spaces True cs
      else c # collapse_spaces False cs)"

definition strip_punctuation :: "string \<Rightarrow> string" where
  "strip_punctuation s = rev (dropWhile (\<lambda>c. c \<in> {CHR ''.'', CHR '';'', CHR '',''}) (rev s))"

definition normaliseText :: "string \<Rightarrow> string" where
  "normaliseText raw = str_trim (strip_punctuation (str_lower (collapse_spaces False (str_trim raw))))"

definition is_digit :: "char \<Rightarrow> bool" where
  "is_digit c = (let n = (of_char c :: nat) in 48 \<le> n \<and> n \<le> 57)"

definition digits_value :: "string \<Rightarrow> int" where
  "digits_value ds = foldl (\<lambda>n c. 10 * n + (int (of_char c) - 48)) 0 ds"

definition parseIntegerCount :: "string \<Rightarrow> canonical_value option" where
  "parseIntegerCount raw =
    (let ds = takeWhile is_digit (dropWhile (\<lambda>c. \<not> is_digit c) raw) in
     if ds = [] then None else Some (CInteger (digits_value ds)))"

section \<open>Canonical values and their equivalence\<close>

definition canonicalise :: "value_parsers \<Rightarrow> string \<Rightarrow> dimension_schema \<Rightarrow> canonical_value" where
  "canonicalise ps raw schema =
    (case ds_type schema of
       CurrencyAmount \<Rightarrow> coalesce (vp_amount ps raw) (CText (normaliseText raw))
     | Percentage \<Rightarrow> coalesce (vp_percentage ps raw) (CText (normaliseText raw))
     | CurrencyRange \<Rightarrow> coalesce (vp_range ps raw) (CText (normaliseText raw))
     | IntegerCount \<Rightarrow> coalesce (parseIntegerCount raw) (CText (normaliseText raw))
     | FreeText \<Rightarrow> CText (normaliseText raw))"

definition within_tolerance :: "rat \<Rightarrow> rat \<Rightarrow> rat \<Rightarrow> bool" where
  "within_tolerance tol old new = (\<bar>old - new\<bar> / max old 1 \<le> tol)"

fun canonical_equivalent :: "rat option \<Rightarrow> canonical_value \<Rightarrow> canonical_value \<Rightarrow> bool" where
  "canonical_equivalent tol (CAmount o_amt o_cur _) (CAmount n_amt n_cur _) =
     (o_cur = n_cur \<and> within_tolerance (coalesce tol (2 / 100)) o_amt n_amt)"
| "canonical_equivalent tol (CPercentage ov) (CPercentage nv) = (\<bar>ov - nv\<bar> \<le> 1)"
| "canonical_equivalent tol (CRange omin omax ocur) (CRange nmin nmax ncur) =
     (ocur = ncur \<and> within_tolerance (coalesce tol (2 / 100)) omin nmin
      \<and> within_tolerance (coalesce tol (2 / 100)) omax nmax)"
| "canonical_equivalent tol (CInteger ov) (CInteger nv) = (ov = nv)"
| "canonical_equivalent tol (CText ov) (CText nv) = (ov = nv)"
| "canonical_equivalent tol _ _ = False"

definition isSemanticallyEquivalent ::
  "value_parsers \<Rightarrow> string \<Rightarrow> string \<Rightarrow> dimension_schema \<Rightarrow> bool" where
  "isSemanticallyEquivalent ps oldRaw newRaw schema =
    (oldRaw = newRaw \<or>
     canonical_equivalent (ds_tolerance schema) (canonicalise ps oldRaw schema)
       (canonicalise ps newRaw schema))"

definition dimensionValuesEquivalent ::
  "value_parsers \<Rightarrow> string \<Rightarrow> string \<Rightarrow> string \<Rightarrow> schema_map \<Rightarrow> bool" where
  "dimensionValuesEquivalent ps dimension oldRaw newRaw schemaMap =
    (case map_get schemaMap dimension of
       None \<Rightarrow> normaliseText oldRaw = normaliseText newRaw
     | Some schema \<Rightarrow> isSemanticallyEquivalent ps oldRaw newRaw schema)"

text \<open>\<open>countEpochSemanticReversions\<close> without embeddings: \<open>prior\<close> and \<open>final\<close> look up the contents;
  an empty content counts as missing.\<close>

fun countEpochSemanticReversions ::
  "value_parsers \<Rightarrow> (string \<Rightarrow> string option) \<Rightarrow> (string \<Rightarrow> string option) \<Rightarrow> schema_map
   \<Rightarrow> string list \<Rightarrow> nat" where
  "countEpochSemanticReversions ps prior final m [] = 0"
| "countEpochSemanticReversions ps prior final m (d # ds) =
    (case (prior d, final d) of
       (Some p, Some f) \<Rightarrow>
         (if p \<noteq> [] \<and> f \<noteq> [] \<and> \<not> dimensionValuesEquivalent ps d p f m then 1 else 0)
     | _ \<Rightarrow> 0) + countEpochSemanticReversions ps prior final m ds"

lemma isSemanticallyEquivalent_refl [simp]: "isSemanticallyEquivalent ps s s schema"
  by (simp add: isSemanticallyEquivalent_def)

lemma dimensionValuesEquivalent_refl [simp]: "dimensionValuesEquivalent ps d s s m"
  by (simp add: dimensionValuesEquivalent_def split: option.splits)

lemma reversions_bounded: "countEpochSemanticReversions ps prior final m ds \<le> length ds"
  by (induction ds) (auto split: option.splits)

lemma reversions_unchanged: "countEpochSemanticReversions ps prior prior m ds = 0"
  by (induction ds) (auto split: option.splits)

lemma within_tolerance_bounds:
  assumes "1 \<le> old"
  shows "within_tolerance tol old new \<longleftrightarrow> old * (1 - tol) \<le> new \<and> new \<le> old * (1 + tol)"
  using assms by (auto simp: within_tolerance_def divide_le_eq abs_le_iff algebra_simps)

text \<open>
  The tolerance of an amount is taken relative to the older value and its boundary belongs
  to it: from an amount of at least one unit, exactly the amounts of the same currency within
  \<open>tol\<close> times the old amount are the same fact.
\<close>

theorem amount_equivalence_band:
  assumes "ds_type schema = CurrencyAmount" "ds_tolerance schema = Some tol"
    and "vp_amount ps a = Some (CAmount x cur ap)" "vp_amount ps b = Some (CAmount y cur' ap')"
    and "1 \<le> x" "a \<noteq> b"
  shows "isSemanticallyEquivalent ps a b schema
    \<longleftrightarrow> cur = cur' \<and> x * (1 - tol) \<le> y \<and> y \<le> x * (1 + tol)"
  using assms by (simp add: isSemanticallyEquivalent_def canonicalise_def within_tolerance_bounds)

text \<open>Fifty and fifty-one million at two percent are on the boundary, hence equivalent.\<close>

theorem amount_equivalence_band_witness:
  "isSemanticallyEquivalent
     \<lparr> vp_amount = (\<lambda>s. Some (CAmount (if s = ''50M'' then 50000000 else 51000000) ''EUR'' False)),
       vp_percentage = (\<lambda>_. None), vp_range = (\<lambda>_. None) \<rparr>
     ''50M'' ''51M'' \<lparr> ds_type = CurrencyAmount, ds_tolerance = Some (2 / 100) \<rparr>"
  using amount_equivalence_band[of "\<lparr> ds_type = CurrencyAmount, ds_tolerance = Some (2 / 100) \<rparr>"
      "2 / 100" "\<lparr> vp_amount = (\<lambda>s. Some (CAmount (if s = ''50M'' then 50000000 else 51000000) ''EUR'' False)),
       vp_percentage = (\<lambda>_. None), vp_range = (\<lambda>_. None) \<rparr>" "''50M''" 50000000 "''EUR''" False
      "''51M''" 51000000 "''EUR''" False]
  by simp

end
