(* ===== verification/Equivalence.thy ===== *)
theory Equivalence
  imports Dimension_Schema
begin

text \<open>
  The equivalence gate: the accrual pre-filter of \<open>src/accrualPrefilter.ts\<close>, the routing of
  \<open>src/equivalenceRoutingPolicy.ts\<close>, the decision, decision record and proposal of
  \<open>src/equivalenceGate.ts\<close>, and the per-candidate emission of the agent loop. The NLI worker is
  the argument \<open>nli\<close>. The lemmas follow a candidate pair to the decision: what is approved was
  confirmed by the worker, and a typed difference never is.
\<close>

section \<open>Accrual pre-filter\<close>

definition is_token_char :: "char \<Rightarrow> bool" where
  "is_token_char c = (is_lower_letter c \<or> is_digit c)"

definition tokenSet :: "string \<Rightarrow> string list" where
  "tokenSet s = remdups (split_words is_token_char [] (str_lower s))"

definition isTokenSubset :: "string list \<Rightarrow> string list \<Rightarrow> bool" where
  "isTokenSubset smaller larger = list_all (\<lambda>t. t \<in> set larger) smaller"

definition detectContentAccrual :: "string \<Rightarrow> string \<Rightarrow> bool" where
  "detectContentAccrual prior next =
    (if str_trim prior = [] \<or> str_trim next = [] then False
     else isTokenSubset (tokenSet prior) (tokenSet next)
          \<and> length (tokenSet next) > length (tokenSet prior))"

definition accrualPrefilterEnabled :: "string option \<Rightarrow> bool" where
  "accrualPrefilterEnabled env =
    (case env of None \<Rightarrow> False
     | Some v \<Rightarrow> str_lower (str_trim v) \<in> {''1'', ''true'', ''yes''})"

definition classifyAccrualPrefilter :: "string option \<Rightarrow> string \<Rightarrow> string \<Rightarrow> string option" where
  "classifyAccrualPrefilter env prior next =
    (if \<not> accrualPrefilterEnabled env then None
     else if detectContentAccrual prior next then Some ''accrual'' else None)"

lemma accrual_strict: "detectContentAccrual prior next \<Longrightarrow> set (tokenSet prior) \<subset> set (tokenSet next)"
proof -
  assume a: "detectContentAccrual prior next"
  have "card (set (tokenSet prior)) = length (tokenSet prior)"
    "card (set (tokenSet next)) = length (tokenSet next)"
    by (metis distinct_card distinct_remdups tokenSet_def)+
  then show ?thesis using a
    by (auto simp: detectContentAccrual_def isTokenSubset_def list_all_iff split: if_splits)
qed

lemma accrual_asym: "detectContentAccrual a b \<Longrightarrow> \<not> detectContentAccrual b a"
  using accrual_strict[of a b] accrual_strict[of b a] by blast

section \<open>Routing\<close>

datatype nli_label = Equivalent | Contradiction | Neutral

fun nli_name :: "nli_label \<Rightarrow> string" where
  "nli_name Equivalent = ''equivalent''"
| "nli_name Contradiction = ''contradiction''"
| "nli_name Neutral = ''neutral''"

lemma nli_name_eq [simp]: "nli_name a = nli_name b \<longleftrightarrow> a = b"
  by (cases a; cases b) auto

record nli_verdict =
  nv_label :: nli_label
  nv_confidence :: rat
  nv_available :: bool

definition hitl_verdict :: nli_verdict where
  "hitl_verdict = \<lparr> nv_label = Neutral, nv_confidence = 0, nv_available = True \<rparr>"

definition unavailable_verdict :: nli_verdict where
  "unavailable_verdict = \<lparr> nv_label = Neutral, nv_confidence = 0, nv_available = False \<rparr>"

definition shouldProposeEquivalence :: "nli_verdict \<Rightarrow> bool" where
  "shouldProposeEquivalence v = (nv_available v \<and> nv_label v \<noteq> Contradiction)"

datatype routing_reason =
    CanonicalEqualSkip | TypedDiffHitl | NliContradictionBlock | NliEquivPropose | FreeTextHitl
  | AccrualPrefilterHitl

record routing =
  ro_propose :: bool
  ro_verdict :: nli_verdict
  ro_prefilter :: "string option"
  ro_reason :: routing_reason
  ro_skipNli :: bool

definition mk_routing :: "bool \<Rightarrow> nli_verdict \<Rightarrow> routing_reason \<Rightarrow> bool \<Rightarrow> routing" where
  "mk_routing propose v reason skip =
     \<lparr> ro_propose = propose, ro_verdict = v, ro_prefilter = None, ro_reason = reason,
       ro_skipNli = skip \<rparr>"

record routing_env =
  re_parsers :: value_parsers
  re_accrual_env :: "string option"

definition schemaFor :: "string option \<Rightarrow> schema_map option \<Rightarrow> dimension_schema option" where
  "schemaFor dimension schemaMap =
    (case (dimension, schemaMap) of
       (Some d, Some m) \<Rightarrow> if str_trim d = [] then None else map_get m d
     | _ \<Rightarrow> None)"

definition isTypedDimension :: "dimension_schema option \<Rightarrow> bool" where
  "isTypedDimension def = (case def of None \<Rightarrow> False | Some d \<Rightarrow> ds_type d \<noteq> FreeText)"

definition route_untyped :: "nli_verdict option \<Rightarrow> routing" where
  "route_untyped verdict =
    (case verdict of
       None \<Rightarrow> mk_routing False unavailable_verdict FreeTextHitl False
     | Some v \<Rightarrow>
        if shouldProposeEquivalence v
        then mk_routing True v (if nv_label v = Equivalent then NliEquivPropose else FreeTextHitl) False
        else mk_routing False v NliContradictionBlock False)"

definition route_typed ::
  "routing_env \<Rightarrow> string \<Rightarrow> string \<Rightarrow> nli_verdict option \<Rightarrow> string \<Rightarrow> schema_map \<Rightarrow> routing" where
  "route_typed env prior next verdict dimension schemaMap =
    (case verdict of
       None \<Rightarrow> mk_routing False unavailable_verdict TypedDiffHitl False
     | Some v \<Rightarrow>
        if nv_label v = Equivalent
           \<and> dimensionValuesEquivalent (re_parsers env) dimension prior next schemaMap
        then mk_routing True v NliEquivPropose False
        else mk_routing True hitl_verdict TypedDiffHitl False)"

definition route_by_dimension ::
  "routing_env \<Rightarrow> string \<Rightarrow> string \<Rightarrow> nli_verdict option \<Rightarrow> string option \<Rightarrow> schema_map option
   \<Rightarrow> routing" where
  "route_by_dimension env prior next verdict dimension schemaMap =
    (case (dimension, schemaMap) of
       (Some d, Some m) \<Rightarrow>
         if d = [] then route_untyped verdict
         else if dimensionValuesEquivalent (re_parsers env) d prior next m
         then mk_routing False (coalesce verdict hitl_verdict) CanonicalEqualSkip True
         else if isTypedDimension (schemaFor dimension schemaMap)
         then route_typed env prior next verdict d m
         else route_untyped verdict
     | _ \<Rightarrow> route_untyped verdict)"

definition resolveGenericEquivalenceRouting ::
  "routing_env \<Rightarrow> string \<Rightarrow> string \<Rightarrow> nli_verdict option \<Rightarrow> string option \<Rightarrow> schema_map option
   \<Rightarrow> routing" where
  "resolveGenericEquivalenceRouting env prior next verdict ctx_dimension schemaMap =
    (case classifyAccrualPrefilter (re_accrual_env env) prior next of
       Some k \<Rightarrow> \<lparr> ro_propose = True, ro_verdict = hitl_verdict, ro_prefilter = Some k,
                   ro_reason = AccrualPrefilterHitl, ro_skipNli = True \<rparr>
     | None \<Rightarrow>
        if map_option nv_label verdict = Some Contradiction
        then mk_routing False (the verdict) NliContradictionBlock False
        else route_by_dimension env prior next verdict (map_option str_trim ctx_dimension) schemaMap)"

definition resolveEquivalenceRouting ::
  "routing_env \<Rightarrow> string \<Rightarrow> string \<Rightarrow> nli_verdict \<Rightarrow> string option \<Rightarrow> schema_map option
   \<Rightarrow> bool \<times> nli_verdict \<times> string option" where
  "resolveEquivalenceRouting env prior next verdict ctx_dimension schemaMap =
    (let r = resolveGenericEquivalenceRouting env prior next (Some verdict) ctx_dimension schemaMap in
     (ro_propose r, ro_verdict r, ro_prefilter r))"

section \<open>Decision\<close>

text \<open>\<open>Number.prototype.toFixed(2)\<close>: the closest number of hundredths, the larger one on a tie.\<close>

definition to_fixed2 :: "rat \<Rightarrow> string" where
  "to_fixed2 x =
    (let n = nat \<lfloor>\<bar>x\<bar> * 100 + 1 / 2\<rfloor> in
     (if x < 0 then ''-'' else []) @ nat_digits (n div 100) @ ''.''
       @ [char_of (48 + (n mod 100) div 10), char_of (48 + n mod 10)])"

record equivalence_decision =
  ed_outcome :: string
  ed_result :: string
  ed_reason :: string

text \<open>\<open>env_min\<close> is the finite number in \<open>EQUIV_MIN_CONFIDENCE\<close>, if there is one.\<close>

definition resolveMinConfidence :: "rat option \<Rightarrow> rat option \<Rightarrow> rat" where
  "resolveMinConfidence explicit env_min =
    (case explicit of
       Some m \<Rightarrow> m
     | None \<Rightarrow> (case env_min of Some e \<Rightarrow> if e > 0 then e else 7 / 10 | None \<Rightarrow> 7 / 10))"

definition decideEquivalence :: "rat \<Rightarrow> payload \<Rightarrow> js_error + equivalence_decision" where
  "decideEquivalence min_conf p =
    (case p_nli_confidence p of
       None \<Rightarrow> Inl (JsError ''toFixed of undefined'')
     | Some c \<Rightarrow>
        (let conf = to_fixed2 c; label = coalesce (p_nli_label p) ''undefined'' in
         Inr (if label = ''equivalent'' \<and> c \<ge> min_conf
              then \<lparr> ed_outcome = ''approve'', ed_result = ''allow'',
                     ed_reason = ''nli_equivalent:'' @ conf \<rparr>
              else if p_prefilter p = Some ''accrual''
              then \<lparr> ed_outcome = ''reject'', ed_result = ''deny'',
                     ed_reason = ''accrual_prefilter:hitl'' \<rparr>
              else \<lparr> ed_outcome = ''reject'', ed_result = ''deny'',
                     ed_reason = (if label = ''equivalent''
                                  then ''nli_equivalent_low_confidence:'' @ conf
                                  else ''nli_'' @ label @ '':'' @ conf) \<rparr>)))"

definition buildEquivalenceDecisionRecord ::
  "fresh_id \<Rightarrow> equivalence_decision \<Rightarrow> string \<Rightarrow> decision_record" where
  "buildEquivalenceDecisionRecord fresh decision policyVersion =
     \<lparr> dr_decision_id = fst fresh, dr_timestamp = snd fresh, dr_policy_version = policyVersion,
       dr_result = ed_result decision, dr_reason = ed_reason decision,
       dr_obligations = (if ed_outcome decision = ''approve''
                         then [\<lparr> ob_type = ''record_equivalence_edge'' \<rparr>] else []),
       dr_binding = ''nli-gate'', dr_suggested_actions = Some [] \<rparr>"

record equivalence_candidate =
  ec_node_type :: string
  ec_existing_node_id :: string
  ec_existing_content :: string
  ec_new_content :: string
  ec_dimension :: "string option"

definition nonempty :: "string option \<Rightarrow> string option" where
  "nonempty s = (if s = Some [] then None else s)"

definition equivalence_action :: string where
  "equivalence_action = ''assert_equivalence''"

definition buildEquivalenceProposal ::
  "string \<Rightarrow> equivalence_candidate \<Rightarrow> nli_verdict \<Rightarrow> string \<Rightarrow> string \<Rightarrow> string option \<Rightarrow> string option
   \<Rightarrow> proposal" where
  "buildEquivalenceProposal uuid cand verdict scopeId agent mode prefilter =
     \<lparr> pp_id = uuid, pp_agent = agent, pp_action = equivalence_action,
       pp_target_node = ec_existing_node_id cand,
       pp_payload = empty_payload
         \<lparr> p_scope_id := Some scopeId, p_node_type := Some (ec_node_type cand),
           p_existing_node_id := Some (ec_existing_node_id cand),
           p_a := Some (ec_existing_content cand), p_b := Some (ec_new_content cand),
           p_nli_label := Some (nli_name (nv_label verdict)),
           p_nli_confidence := Some (nv_confidence verdict),
           p_dimension := nonempty (ec_dimension cand), p_prefilter := nonempty prefilter \<rparr>,
       pp_mode = mode \<rparr>"

text \<open>One candidate in the agent loop: the routing before the worker, the worker's verdict unless it
  is skipped, the routing with it, and the proposal.\<close>

definition emit_candidate ::
  "routing_env \<Rightarrow> (string \<Rightarrow> string \<Rightarrow> nli_verdict) \<Rightarrow> schema_map \<Rightarrow> string \<Rightarrow> string \<Rightarrow> string
   \<Rightarrow> string option \<Rightarrow> equivalence_candidate \<Rightarrow> proposal option" where
  "emit_candidate env nli schemaMap uuid scopeId agent mode cand =
    (let prior = ec_existing_content cand; next = ec_new_content cand;
         pre = resolveGenericEquivalenceRouting env prior next None (ec_dimension cand) (Some schemaMap) in
     if \<not> ro_propose pre \<and> ro_reason pre = CanonicalEqualSkip then None
     else
       (let verdict = (if ro_skipNli pre then ro_verdict pre else nli prior next);
            r = resolveGenericEquivalenceRouting env prior next (Some verdict) (ec_dimension cand)
                  (Some schemaMap) in
        if \<not> ro_propose r then None
        else Some (buildEquivalenceProposal uuid cand (ro_verdict r) scopeId agent mode (ro_prefilter r))))"

section \<open>What is approved\<close>

lemma dropWhile_idem [simp]: "dropWhile P (dropWhile P xs) = dropWhile P xs"
  by (induction xs) auto

lemma dropWhile_rev_stable:
  "dropWhile P xs = xs \<Longrightarrow> dropWhile P (rev (dropWhile P (rev xs))) = rev (dropWhile P (rev xs))"
proof -
  assume a: "dropWhile P xs = xs"
  have "\<exists>ys. xs = rev (dropWhile P (rev xs)) @ ys"
    by (metis rev_append rev_rev_ident takeWhile_dropWhile_id)
  then obtain ys where ys: "xs = rev (dropWhile P (rev xs)) @ ys" by blast
  show ?thesis
  proof (cases "rev (dropWhile P (rev xs))")
    case (Cons z zs)
    then have "hd xs = z" "xs \<noteq> []" using ys by (metis append_Cons list.sel(1), force)
    then have "\<not> P z" using a by (metis dropWhile_eq_self_iff)
    then show ?thesis using Cons by simp
  next
    case Nil
    then have "dropWhile P xs = []" by (simp add: dropWhile_eq_Nil_conv)
    then show ?thesis using a by simp
  qed
qed

lemma str_trim_Nil [simp]: "str_trim [] = []"
  by (simp add: str_trim_def)

lemma str_trim_idem [simp]: "str_trim (str_trim s) = str_trim s"
  using dropWhile_rev_stable[of js_space "dropWhile js_space s"] by (simp add: str_trim_def)

definition typed_in :: "schema_map \<Rightarrow> string option \<Rightarrow> bool" where
  "typed_in m d = isTypedDimension (schemaFor (map_option str_trim d) (Some m))"

lemma decideEquivalence_approve:
  assumes "decideEquivalence min_conf p = Inr d"
  shows "ed_outcome d = ''approve'' \<longleftrightarrow>
     p_nli_label p = Some ''equivalent'' \<and> (\<exists>c. p_nli_confidence p = Some c \<and> c \<ge> min_conf)"
proof (cases "p_nli_confidence p")
  case None
  then show ?thesis using assms by (simp add: decideEquivalence_def)
next
  case (Some c)
  let ?ok = "coalesce (p_nli_label p) ''undefined'' = ''equivalent'' \<and> c \<ge> min_conf"
  have "ed_outcome d = (if ?ok then ''approve'' else ''reject'')"
    using assms Some unfolding decideEquivalence_def Let_def by (clarsimp split: if_splits)
  then show ?thesis using Some by (cases "p_nli_label p") auto
qed

lemma decideEquivalence_outcome:
  "decideEquivalence min_conf p = Inr d \<Longrightarrow>
   (ed_outcome d = ''approve'' \<and> ed_result d = ''allow'') \<or> (ed_outcome d = ''reject'' \<and> ed_result d = ''deny'')"
  unfolding decideEquivalence_def Let_def by (clarsimp split: option.splits if_splits)

lemma mk_routing_select [simp]:
  "ro_propose (mk_routing p v r s) = p" "ro_verdict (mk_routing p v r s) = v"
  "ro_reason (mk_routing p v r s) = r" "ro_skipNli (mk_routing p v r s) = s"
  "ro_prefilter (mk_routing p v r s) = None"
  by (simp_all add: mk_routing_def)

lemma hitl_verdict_select [simp]:
  "nv_label hitl_verdict = Neutral" "nv_confidence hitl_verdict = 0" "nv_available hitl_verdict"
  by (simp_all add: hitl_verdict_def)

lemma route_untyped_proposes:
  "ro_propose (route_untyped (Some v)) \<Longrightarrow>
   ro_verdict (route_untyped (Some v)) = v \<and> nv_available v \<and> nv_label v \<noteq> Contradiction"
  by (simp add: route_untyped_def shouldProposeEquivalence_def split: if_splits)

lemma route_typed_unequal:
  "\<not> dimensionValuesEquivalent (re_parsers env) d prior next m \<Longrightarrow>
   ro_verdict (route_typed env prior next (Some v) d m) = hitl_verdict
   \<and> ro_reason (route_typed env prior next verdict d m) = TypedDiffHitl"
  by (simp add: route_typed_def split: option.splits)

text \<open>A routing that proposes with the label \<open>equivalent\<close> passes the worker's own verdict on.\<close>

lemma route_by_dimension_equivalent:
  assumes "ro_propose (route_by_dimension env prior next (Some v) d (Some m))"
    and "nv_label (ro_verdict (route_by_dimension env prior next (Some v) d (Some m))) = Equivalent"
  shows "ro_verdict (route_by_dimension env prior next (Some v) d (Some m)) = v \<and> nv_available v
    \<and> (\<not> isTypedDimension (schemaFor d (Some m)) \<or> d = Some [])"
proof (cases d)
  case None
  then show ?thesis using assms route_untyped_proposes[of v]
    by (simp add: route_by_dimension_def schemaFor_def isTypedDimension_def)
next
  case (Some d')
  show ?thesis
  proof (cases "d' = []")
    case True
    then show ?thesis using assms Some route_untyped_proposes[of v]
      by (simp add: route_by_dimension_def)
  next
    case False
    then show ?thesis using assms Some route_untyped_proposes[of v] route_typed_unequal
      by (simp add: route_by_dimension_def split: if_splits)
  qed
qed

lemma routing_equivalent:
  assumes "ro_propose (resolveGenericEquivalenceRouting env prior next (Some v) dm (Some m))"
    and "nv_label (ro_verdict (resolveGenericEquivalenceRouting env prior next (Some v) dm (Some m)))
           = Equivalent"
  shows "ro_verdict (resolveGenericEquivalenceRouting env prior next (Some v) dm (Some m)) = v
     \<and> nv_available v \<and> \<not> typed_in m dm
     \<and> classifyAccrualPrefilter (re_accrual_env env) prior next = None"
proof -
  let ?d = "map_option str_trim dm"
  have n: "classifyAccrualPrefilter (re_accrual_env env) prior next = None" "nv_label v \<noteq> Contradiction"
    using assms by (auto simp: resolveGenericEquivalenceRouting_def split: option.splits if_splits)
  then have eq: "resolveGenericEquivalenceRouting env prior next (Some v) dm (Some m)
      = route_by_dimension env prior next (Some v) ?d (Some m)"
    by (simp add: resolveGenericEquivalenceRouting_def)
  have "\<not> typed_in m dm" if "?d = Some []"
    using that by (auto simp: typed_in_def schemaFor_def isTypedDimension_def split: if_splits)
  then show ?thesis
    using route_by_dimension_equivalent[of env prior "next" v ?d m] assms n
    unfolding eq by (auto simp: typed_in_def)
qed

text \<open>
  End to end, an equivalence is approved only on the worker's word: if the proposal emitted
  for a candidate is approved by the gate, then the worker was available and answered
  \<open>equivalent\<close> with at least the minimum confidence, the pair is not an accrual, and the
  candidate's dimension is not a typed one. In particular no difference between typed values, and
  nothing the pre-filter sent to a human, is ever merged automatically.
\<close>

theorem equivalence_approval_sound:
  assumes "emit_candidate env nli m uuid scope agent mode cand = Some prop"
    and "decideEquivalence min_conf (pp_payload prop) = Inr d" "ed_outcome d = ''approve''"
  shows "nv_available (nli (ec_existing_content cand) (ec_new_content cand))
    \<and> nv_label (nli (ec_existing_content cand) (ec_new_content cand)) = Equivalent
    \<and> nv_confidence (nli (ec_existing_content cand) (ec_new_content cand)) \<ge> min_conf
    \<and> \<not> typed_in m (ec_dimension cand)
    \<and> classifyAccrualPrefilter (re_accrual_env env) (ec_existing_content cand) (ec_new_content cand) = None"
proof -
  let ?p = "ec_existing_content cand" and ?n = "ec_new_content cand" and ?dm = "ec_dimension cand"
  let ?pre = "resolveGenericEquivalenceRouting env ?p ?n None ?dm (Some m)"
  define v where "v = (if ro_skipNli ?pre then ro_verdict ?pre else nli ?p ?n)"
  let ?r = "resolveGenericEquivalenceRouting env ?p ?n (Some v) ?dm (Some m)"
  have e: "ro_propose ?r" "prop = buildEquivalenceProposal uuid cand (ro_verdict ?r) scope agent mode
      (ro_prefilter ?r)" and noskip: "\<not> (\<not> ro_propose ?pre \<and> ro_reason ?pre = CanonicalEqualSkip)"
    using assms(1) by (auto simp: emit_candidate_def Let_def v_def split: if_splits)
  have "nli_name (nv_label (ro_verdict ?r)) = nli_name Equivalent"
    and conf: "nv_confidence (ro_verdict ?r) \<ge> min_conf"
    using assms(2,3) decideEquivalence_approve[OF assms(2)]
    by (auto simp: e(2) buildEquivalenceProposal_def)
  then have "nv_label (ro_verdict ?r) = Equivalent" by (simp only: nli_name_eq)
  then have r: "ro_verdict ?r = v" "nv_available v" "nv_label v = Equivalent" "\<not> typed_in m ?dm"
    and cls: "classifyAccrualPrefilter (re_accrual_env env) ?p ?n = None"
    using routing_equivalent[OF e(1)] by auto
  have "\<not> ro_skipNli ?pre"
    using cls noskip
    by (auto simp: resolveGenericEquivalenceRouting_def route_by_dimension_def route_typed_def
        route_untyped_def split: option.splits if_splits)
  then have "v = nli ?p ?n" by (simp add: v_def)
  then show ?thesis using r cls conf by simp
qed

definition no_parsers :: value_parsers where
  "no_parsers = \<lparr> vp_amount = (\<lambda>_. None), vp_percentage = (\<lambda>_. None), vp_range = (\<lambda>_. None) \<rparr>"

definition sure_nli :: "string \<Rightarrow> string \<Rightarrow> nli_verdict" where
  "sure_nli a b = \<lparr> nv_label = Equivalent, nv_confidence = 9 / 10, nv_available = True \<rparr>"

definition claim_pair :: equivalence_candidate where
  "claim_pair = \<lparr> ec_node_type = ''claim'', ec_existing_node_id = ''n1'',
     ec_existing_content = ''a'', ec_new_content = ''b'', ec_dimension = None \<rparr>"

theorem equivalence_approval_sound_witness:
  "\<exists>q d. emit_candidate \<lparr> re_parsers = no_parsers, re_accrual_env = None \<rparr> sure_nli [] ''u'' ''s''
       ''facts-1'' None claim_pair = Some q
     \<and> decideEquivalence (7 / 10) (pp_payload q) = Inr d \<and> ed_outcome d = ''approve''
     \<and> nv_label (sure_nli ''a'' ''b'') = Equivalent \<and> \<not> typed_in [] (ec_dimension claim_pair)"
proof -
  let ?env = "\<lparr> re_parsers = no_parsers, re_accrual_env = None \<rparr>"
  let ?q = "buildEquivalenceProposal ''u'' claim_pair (sure_nli ''a'' ''b'') ''s'' ''facts-1'' None None"
  have e: "emit_candidate ?env sure_nli [] ''u'' ''s'' ''facts-1'' None claim_pair = Some ?q"
    by (simp add: emit_candidate_def resolveGenericEquivalenceRouting_def route_by_dimension_def
        classifyAccrualPrefilter_def accrualPrefilterEnabled_def route_untyped_def
        shouldProposeEquivalence_def claim_pair_def sure_nli_def)
  obtain d where d: "decideEquivalence (7 / 10) (pp_payload ?q) = Inr d" "ed_outcome d = ''approve''"
    by (simp add: decideEquivalence_def buildEquivalenceProposal_def sure_nli_def Let_def)
  show ?thesis using equivalence_approval_sound[OF e d] e d by (auto simp: claim_pair_def)
qed

text \<open>
  The branch of the routing that would propose a typed pair on the worker's word never runs:
  in a typed dimension the reason is never \<open>nli_equiv_propose\<close>, because values that compare equal
  were skipped before. A typed pair that is proposed carries the neutral verdict of confidence 0,
  which the gate rejects at any positive threshold or label.
\<close>

theorem typed_routing_never_proposes_equivalence:
  assumes "typed_in m (Some d)"
  shows "let r = resolveGenericEquivalenceRouting env prior next verdict (Some d) (Some m) in
    ro_reason r \<noteq> NliEquivPropose
    \<and> (ro_propose r \<longrightarrow> ro_verdict r = hitl_verdict
         \<and> (\<forall>dec. decideEquivalence min_conf (pp_payload (buildEquivalenceProposal uuid cand
              (ro_verdict r) scope agent mode (ro_prefilter r))) = Inr dec
              \<longrightarrow> ed_outcome dec \<noteq> ''approve''))"
proof -
  let ?d = "str_trim d"
  let ?r = "resolveGenericEquivalenceRouting env prior next verdict (Some d) (Some m)"
  have typed: "?d \<noteq> []" "isTypedDimension (schemaFor (Some ?d) (Some m))"
    using assms by (auto simp: typed_in_def schemaFor_def isTypedDimension_def split: if_splits)
  have "ro_reason ?r \<noteq> NliEquivPropose \<and> (ro_propose ?r \<longrightarrow> ro_verdict ?r = hitl_verdict)"
    using typed
    by (simp add: resolveGenericEquivalenceRouting_def route_by_dimension_def route_typed_def
        split: option.split)
  moreover have "nli_name (nv_label hitl_verdict) \<noteq> ''equivalent''" by simp
  ultimately show ?thesis
    using decideEquivalence_approve unfolding Let_def
    by (fastforce simp: buildEquivalenceProposal_def)
qed

theorem typed_routing_never_proposes_equivalence_witness:
  "ro_reason (resolveGenericEquivalenceRouting \<lparr> re_parsers = no_parsers, re_accrual_env = None \<rparr>
     ''10'' ''12'' (Some \<lparr> nv_label = Equivalent, nv_confidence = 1, nv_available = True \<rparr>)
     (Some ''clients'') (Some [(''clients'', \<lparr> ds_type = IntegerCount, ds_tolerance = None \<rparr>)]))
   \<noteq> NliEquivPropose"
proof -
  have "typed_in [(''clients'', \<lparr> ds_type = IntegerCount, ds_tolerance = None \<rparr>)] (Some ''clients'')"
    by (simp add: typed_in_def schemaFor_def isTypedDimension_def str_trim_def js_space_def Let_def)
  from typed_routing_never_proposes_equivalence[OF this] show ?thesis
    by (simp add: Let_def)
qed

end
