(* ===== verification/Governance_Decision.thy ===== *)
theory Governance_Decision
  imports Mitl_Server Equivalence State_Graph
begin

text \<open>
  The rule-based half of \<open>src/agents/governanceAgent.ts\<close>: \<open>evaluateProposalDeterministic\<close>, which
  decides a proposal without side effects, and \<open>commitDeterministicResult\<close>, which publishes the
  decision, records it and queues it for a human. The lemmas say what an approval presupposes and
  that a commit publishes at most one outcome, whatever calls fail.

  Causal contributions (\<open>emitContribution\<close> never raises) and log lines have no effect here.
\<close>

section \<open>Reading the context of a decision\<close>

definition no_drift :: drift_input where
  "no_drift = \<lparr> di_level = ''none'', di_types = [] \<rparr>"

text \<open>\<open>s3GetText\<close>: any failure of the HEAD request counts as a missing object, and so does an empty
  one; a failing GET raises.\<close>

definition s3_get :: "string \<Rightarrow> (world, s3_doc) exec" where
  "s3_get key w =
    (if w_faults w (w_tick w) then (tick w, Inr S3Empty)
     else case map_get (w_s3 w) key of
            None \<Rightarrow> (tick w, Inr S3Empty)
          | Some doc \<Rightarrow> external (\<lambda>w. (w, Inr doc)) (tick w))"

text \<open>Reading and parsing the drift report: a missing one means no drift, a malformed one raises.\<close>

definition read_drift :: "string \<Rightarrow> (world, drift_input) exec" where
  "read_drift scopeId =
     and_then (s3_get (scopeDriftKey scopeId))
       (\<lambda>doc. case doc of
          S3Empty \<Rightarrow> ret no_drift
        | S3Malformed \<Rightarrow> raise (JsError ''SyntaxError'')
        | S3Drift d _ \<Rightarrow> ret d)"

definition scope_config :: "string \<Rightarrow> (world, governance_config) exec" where
  "scope_config scopeId =
     and_then load_policy_config (\<lambda>cfg. ret (getGovernanceForScope scopeId cfg))"

definition check_permission :: "string \<Rightarrow> string \<Rightarrow> (world, check_result) exec" where
  "check_permission agent target w = (tick w, Inr (checkPermission (w_acl w) agent ''writer'' target))"

section \<open>The deterministic decision\<close>

datatype outcome = OApprove | OReject | OPending | OIgnore

record deterministic_result =
  de_outcome :: outcome
  de_reason :: string
  de_record :: "decision_record option"
  de_payload :: "payload option"

definition bare_result :: "outcome \<Rightarrow> string \<Rightarrow> deterministic_result" where
  "bare_result oc reason =
     \<lparr> de_outcome = oc, de_reason = reason, de_record = None, de_payload = None \<rparr>"

definition proposal_request :: "payload \<Rightarrow> drift_input \<Rightarrow> string \<Rightarrow> kernel_request" where
  "proposal_request p drift mode =
     \<lparr> kq_from_state = coalesce (p_from p) [], kq_to_state = coalesce (p_to p) [],
       kq_drift_level = di_level drift, kq_drift_types = di_types drift,
       kq_mode = mode, kq_current_lattice = None, kq_proposed_lattice = None \<rparr>"

definition advance_payload :: "payload \<Rightarrow> graph_state \<Rightarrow> payload" where
  "advance_payload p state =
     empty_payload \<lparr> p_expectedEpoch := p_expectedEpoch p, p_runId := Some (gs_runId state),
                     p_from := p_from p, p_to := p_to p \<rparr>"

definition review_payload :: "payload \<Rightarrow> graph_state \<Rightarrow> drift_input \<Rightarrow> string \<Rightarrow> payload" where
  "review_payload p state drift reason =
     (advance_payload p state) \<lparr> p_type := Some ''governance_review'',
        p_drift_level := Some (di_level drift), p_drift_types := Some (di_types drift),
        p_block_reason := Some reason \<rparr>"

text \<open>Without an ACL check: what the kernel output alone decides.\<close>

definition kernel_decision ::
  "payload \<Rightarrow> graph_state \<Rightarrow> drift_input \<Rightarrow> kernel_output \<Rightarrow> decision_record
   \<Rightarrow> deterministic_result option" where
  "kernel_decision p state drift out record =
    (if ko_verdict out = ''reject'' then
       Some \<lparr> de_outcome = OReject, de_reason = ko_reason out, de_record = Some record,
              de_payload = Some (advance_payload p state) \<rparr>
     else if ko_verdict out = ''escalate'' then
       (if ko_reason out = ''mitl_required'' then
          Some \<lparr> de_outcome = OPending, de_reason = ''mitl_required'', de_record = Some record,
                 de_payload = Some (advance_payload p state) \<rparr>
        else
          Some \<lparr> de_outcome = OPending, de_reason = ko_reason out, de_record = Some record,
                 de_payload = Some (review_payload p state drift (ko_reason out)) \<rparr>)
     else None)"

definition permission_decision ::
  "payload \<Rightarrow> graph_state \<Rightarrow> kernel_output \<Rightarrow> decision_record \<Rightarrow> check_result
   \<Rightarrow> deterministic_result" where
  "permission_decision p state out record perm =
    (if \<not> cr_allowed perm then
       \<lparr> de_outcome = OReject, de_reason = coalesce (cr_error perm) ''policy_denied'',
         de_record = Some record, de_payload = Some (advance_payload p state) \<rparr>
     else
       \<lparr> de_outcome = OApprove, de_reason = ko_reason out,
         de_record = Some record, de_payload = Some (advance_payload p state) \<rparr>)"

definition proposal_mode :: "proposal \<Rightarrow> string" where
  "proposal_mode prop = coalesce (pp_mode prop) ''YOLO''"

definition kernel_output_for :: "proposal \<Rightarrow> drift_input \<Rightarrow> governance_config \<Rightarrow> kernel_output" where
  "kernel_output_for prop drift cfg =
     evaluateKernel (proposal_request (pp_payload prop) drift (proposal_mode prop)) cfg"

definition decide_with_context ::
  "proposal \<Rightarrow> graph_state \<Rightarrow> drift_input \<Rightarrow> governance_config \<Rightarrow> (world, deterministic_result) exec" where
  "decide_with_context prop state drift cfg w =
    (let p = pp_payload prop;
         out = kernel_output_for prop drift cfg;
         record = buildDecisionRecordFromKernel (next_fresh w) out (w_policy_version w) True in
     case kernel_decision p state drift out record of
       Some r \<Rightarrow> (w \<lparr> w_uuids := w_uuids w + 1 \<rparr>, Inr r)
     | None \<Rightarrow> and_then (check_permission (pp_agent prop) (pp_target_node prop))
                (\<lambda>perm. ret (permission_decision p state out record perm))
                (w \<lparr> w_uuids := w_uuids w + 1 \<rparr>))"

definition evaluateProposalDeterministic :: "proposal \<Rightarrow> (world, deterministic_result) exec" where
  "evaluateProposalDeterministic prop w =
    (if pp_action prop \<noteq> ''advance_state'' then
       (w, Inr (bare_result OIgnore ''non advance_state proposal''))
     else
       and_then (loadState (w_scope w))
         (\<lambda>st. case st of
            None \<Rightarrow> ret (bare_result OReject ''state_epoch_mismatch'')
          | Some state \<Rightarrow>
             if Some (gs_epoch state) \<noteq> p_expectedEpoch (pp_payload prop)
             then ret (bare_result OReject ''state_epoch_mismatch'')
             else and_then (read_drift (w_scope w))
                (\<lambda>drift. and_then (scope_config (w_scope w))
                   (\<lambda>cfg. decide_with_context prop state drift cfg))) w)"

section \<open>Committing a decision\<close>

definition recordProposal :: "string \<Rightarrow> string \<Rightarrow> (world, unit) exec" where
  "recordProposal act status = metric ''proposal'' (act @ '':'' @ status)"

definition recordPolicyViolation :: "(world, unit) exec" where
  "recordPolicyViolation = metric ''policy_violation'' []"

definition denial_metric :: "string \<Rightarrow> (world, unit) exec" where
  "denial_metric reason = (if reason = ''policy_denied'' then recordPolicyViolation else ret ())"

definition persistDecisionRecord ::
  "decision_record \<Rightarrow> string \<Rightarrow> string \<Rightarrow> string \<Rightarrow> (world, unit) exec" where
  "persistDecisionRecord record path scope mode =
     external (\<lambda>w. (w \<lparr> w_records := w_records w @
        [\<lparr> drow_record = record, drow_path = Some path, drow_scope = Some scope,
           drow_mode = Some mode \<rparr>] \<rparr>, Inr ()))"

definition governance_event :: "string \<Rightarrow> string \<Rightarrow> string option \<Rightarrow> string \<Rightarrow> string \<Rightarrow> json_obj" where
  "governance_event type proposalId reason path scope =
     [(''type'', JStr type), (''proposal_id'', JStr proposalId)]
     @ (case reason of Some r \<Rightarrow> [(''reason'', JStr r)] | None \<Rightarrow> [])
     @ [(''governance_path'', JStr path), (''scope_id'', JStr scope)]"

definition commit_audit ::
  "deterministic_result \<Rightarrow> string \<Rightarrow> (world, unit) exec" where
  "commit_audit result path w =
     and_then (scope_config (w_scope w))
       (\<lambda>cfg. let scopeMode = coalesce (gc_mode cfg) ''YOLO'' in
          in_order
            [metric ''governance_mode'' (w_scope w @ '':'' @ scopeMode),
             metric ''governance_path'' path,
             (case de_record result of
                None \<Rightarrow> ret ()
              | Some r \<Rightarrow> try_catch (persistDecisionRecord r path (w_scope w) scopeMode) (\<lambda>_. ret ()))]) w"

definition commit_reject :: "proposal \<Rightarrow> deterministic_result \<Rightarrow> string \<Rightarrow> (world, unit) exec" where
  "commit_reject prop result path w =
     in_order
       [denial_metric (de_reason result),
        recordProposal (pp_action prop) ''rejected'',
        publish (''swarm.rejections.'' @ pp_action prop)
          (RejectionMsg (pp_id prop) (de_reason result) ''rejected''),
        appendEvent (governance_event ''proposal_rejected'' (pp_id prop)
          (Some (de_reason result)) path (w_scope w))] w"

definition commit_pending :: "proposal \<Rightarrow> payload \<Rightarrow> string \<Rightarrow> (world, unit) exec" where
  "commit_pending prop p path w =
     in_order
       [recordProposal (pp_action prop) ''pending'',
        addPending (pp_id prop) prop p,
        publish (''swarm.pending_approval.'' @ pp_id prop) (PendingMsg (pp_id prop) ''pending''),
        appendEvent (governance_event ''proposal_pending_approval'' (pp_id prop) None path (w_scope w))] w"

definition approved_action :: "string \<Rightarrow> string \<Rightarrow> string \<Rightarrow> payload \<Rightarrow> string \<Rightarrow> action" where
  "approved_action proposalId by reason p scope =
     \<lparr> ac_proposal_id = proposalId, ac_approved_by = by, ac_result = ''approved'',
       ac_reason = reason, ac_action_type = Some ''advance_state'',
       ac_payload = Some (p \<lparr> p_scope_id := Some scope \<rparr>), ac_option = None, ac_days = None \<rparr>"

definition commit_approve ::
  "string \<Rightarrow> proposal \<Rightarrow> deterministic_result \<Rightarrow> payload \<Rightarrow> string \<Rightarrow> (world, unit) exec" where
  "commit_approve agentId prop result p path w =
     in_order
       [recordProposal (pp_action prop) ''approved'',
        publish ''swarm.actions.advance_state''
          (ActionMsg (approved_action (pp_id prop)
             (if pp_mode prop = Some ''MASTER'' then agentId else ''auto'')
             (de_reason result) p (w_scope w))),
        appendEvent (governance_event ''proposal_approved'' (pp_id prop)
          (Some (de_reason result)) path (w_scope w))] w"

definition commitDeterministicResult ::
  "string \<Rightarrow> proposal \<Rightarrow> deterministic_result \<Rightarrow> string \<Rightarrow> (world, unit) exec" where
  "commitDeterministicResult agentId prop result path =
    (if de_outcome result = OIgnore then ret ()
     else and_then (commit_audit result path)
       (\<lambda>_. case (de_outcome result, de_payload result) of
          (OReject, _) \<Rightarrow> commit_reject prop result path
        | (OPending, Some p) \<Rightarrow> commit_pending prop p path
        | (OApprove, Some p) \<Rightarrow> commit_approve agentId prop result p path
        | _ \<Rightarrow> ret ()))"

definition governance_path :: "proposal \<Rightarrow> deterministic_result \<Rightarrow> string" where
  "governance_path prop result =
    (if str_starts_with (de_reason result) ''yolo_override:'' then ''processProposal_yoloOverride''
     else if de_outcome result = OPending \<and> de_reason result = ''mitl_required''
     then ''processProposal_mitlEscalation''
     else if de_outcome result = OReject \<and> pp_mode prop = Some ''MASTER''
     then ''processProposal_masterReject''
     else ''processProposal'')"

definition processProposal :: "string \<Rightarrow> proposal \<Rightarrow> (world, unit) exec" where
  "processProposal agentId prop =
     and_then (evaluateProposalDeterministic prop)
       (\<lambda>result. commitDeterministicResult agentId prop result (governance_path prop result))"

end
