(* ===== verification/Effect_Logs.thy ===== *)
theory Effect_Logs
  imports Swarm_World
begin

text \<open>
  A small calculus for the effects of a computation. \<open>keeps f m\<close> says that \<open>m\<close> never changes the
  component \<open>f\<close> of the world; \<open>logs f ls m\<close> says that \<open>m\<close> appends a prefix of \<open>ls\<close> to the log \<open>f\<close>,
  and all of it when it ends normally. Both compose along sequences, so the effect of a handler is
  read off its steps, for every pattern of failing calls.
\<close>

named_theorems effect_intros "composition rules for keeps and logs"

definition keeps :: "(world \<Rightarrow> 'b) \<Rightarrow> (world, 'a) exec \<Rightarrow> bool" where
  "keeps f m = (\<forall>w. f (fst (m w)) = f w)"

definition logs :: "(world \<Rightarrow> 'l list) \<Rightarrow> 'l list \<Rightarrow> (world, 'a) exec \<Rightarrow> bool" where
  "logs f ls m = (\<forall>w. \<exists>k. f (fst (m w)) = f w @ take k ls
                     \<and> ((\<exists>x. snd (m w) = Inr x) \<longrightarrow> length ls \<le> k))"

definition succeeds :: "(world, 'a) exec \<Rightarrow> world \<Rightarrow> bool" where
  "succeeds m w = (\<exists>x. snd (m w) = Inr x)"

definition faultless :: "world \<Rightarrow> bool" where
  "faultless w = (\<forall>k. \<not> w_faults w k)"

lemma keepsD: "keeps f m \<Longrightarrow> m w = (w', r) \<Longrightarrow> f w' = f w"
  unfolding keeps_def by (metis fst_conv)

lemma logsD:
  "logs f ls m \<Longrightarrow> m w = (w', r) \<Longrightarrow>
   \<exists>k. f w' = f w @ take k ls \<and> (\<forall>x. r = Inr x \<longrightarrow> length ls \<le> k)"
  unfolding logs_def by (metis fst_conv snd_conv)

lemma logs_complete: "logs f ls m \<Longrightarrow> m w = (w', Inr x) \<Longrightarrow> f w' = f w @ ls"
  by (drule logsD, assumption) auto

lemma logs_single:
  "logs f [l] m \<Longrightarrow> m w = (w', r) \<Longrightarrow> f w' = f w \<or> f w' = f w @ [l]"
proof -
  assume "logs f [l] m" "m w = (w', r)"
  then obtain k where "f w' = f w @ take k [l]" using logsD by blast
  then show ?thesis by (cases k) auto
qed

lemma logs_keeps [effect_intros]: "keeps f m \<Longrightarrow> logs f [] m"
  by (auto simp: logs_def keeps_def)

lemma keeps_ret [effect_intros, simp]: "keeps f (ret x)"
  by (simp add: keeps_def)

lemma keeps_raise [effect_intros, simp]: "keeps f (raise e)"
  by (simp add: keeps_def)

lemma keeps_and_then [effect_intros]:
  "keeps f m \<Longrightarrow> (\<And>x. keeps f (g x)) \<Longrightarrow> keeps f (and_then m g)"
  by (auto simp: keeps_def and_then_def split: prod.splits sum.splits) (metis fst_conv)+

lemma keeps_try_catch [effect_intros]:
  "keeps f m \<Longrightarrow> (\<And>e. keeps f (h e)) \<Longrightarrow> keeps f (try_catch m h)"
  by (auto simp: keeps_def try_catch_def split: prod.splits sum.splits) (metis fst_conv)+

lemma keeps_in_order [effect_intros]: "list_all (keeps f) ms \<Longrightarrow> keeps f (in_order ms)"
proof (induction ms)
  case (Cons m ms)
  then have m: "keeps f m" and ms: "keeps f (in_order ms)" by simp_all
  show ?case unfolding keeps_def
  proof
    fix w
    show "f (fst (in_order (m # ms) w)) = f w"
      using keepsD[OF m, of w] ms
      by (cases "m w") (auto simp: keeps_def split: sum.split)
  qed
qed (simp add: keeps_def)

lemma keeps_case_option [effect_intros]:
  "keeps f a \<Longrightarrow> (\<And>x. keeps f (b x)) \<Longrightarrow> keeps f (case y of None \<Rightarrow> a | Some x \<Rightarrow> b x)"
  by (simp split: option.split)

lemma keeps_if [effect_intros]: "keeps f a \<Longrightarrow> keeps f b \<Longrightarrow> keeps f (if c then a else b)"
  by simp

lemma keeps_external: "(\<And>w. f (tick w) = f w) \<Longrightarrow> keeps f m \<Longrightarrow> keeps f (external m)"
  by (simp add: keeps_def external_def)

lemma logs_and_then [effect_intros]:
  assumes m: "logs f as m" and g: "\<And>x. logs f bs (g x)"
  shows "logs f (as @ bs) (and_then m g)"
  unfolding logs_def
proof
  fix w
  obtain w1 r1 where e: "m w = (w1, r1)" by fastforce
  obtain k where k: "f w1 = f w @ take k as" "\<forall>x. r1 = Inr x \<longrightarrow> length as \<le> k"
    using logsD[OF m e] by blast
  show "\<exists>k. f (fst (and_then m g w)) = f w @ take k (as @ bs)
      \<and> ((\<exists>x. snd (and_then m g w) = Inr x) \<longrightarrow> length (as @ bs) \<le> k)"
  proof (cases r1)
    case (Inl er)
    have "take k as = take (min k (length as)) (as @ bs)" by (simp add: min_def)
    then have "f w1 = f w @ take (min k (length as)) (as @ bs)" using k(1) by simp
    moreover have "and_then m g w = (w1, Inl er)" using e Inl by (simp add: and_then_def)
    ultimately show ?thesis by (intro exI[of _ "min k (length as)"]) (simp only: fst_conv snd_conv, simp)
  next
    case (Inr x)
    obtain w2 r2 where e2: "g x w1 = (w2, r2)" by fastforce
    obtain j where "f w2 = f w1 @ take j bs" "\<forall>y. r2 = Inr y \<longrightarrow> length bs \<le> j"
      using logsD[OF g e2] by blast
    then show ?thesis using e e2 k Inr
      by (auto simp: and_then_def intro!: exI[of _ "length as + j"])
  qed
qed

lemma logs_in_order_Cons [effect_intros]:
  assumes m: "logs f as m" and ms: "logs f bs (in_order ms)"
  shows "logs f (as @ bs) (in_order (m # ms))"
proof -
  have "in_order (m # ms) = and_then m (\<lambda>_. in_order ms)"
    by (rule ext) (simp add: and_then_def)
  then show ?thesis using logs_and_then[OF m, of bs "\<lambda>_. in_order ms"] ms by simp
qed

lemma logs_in_order_Nil [effect_intros]: "logs f [] (in_order [])"
  by (simp add: logs_def)

lemma keeps_metric [effect_intros]:
  "(\<And>w l. f (w \<lparr> w_metrics := l \<rparr>) = f w) \<Longrightarrow> keeps f (metric n l)"
  by (simp add: keeps_def metric_def)

lemma logs_publish [effect_intros]: "logs w_bus [(s, m)] (publish s m)"
proof -
  have "\<exists>k. w_bus (fst (publish s m w)) = w_bus w @ take k [(s, m)]
      \<and> ((\<exists>x. snd (publish s m w) = Inr x) \<longrightarrow> length [(s, m)] \<le> k)" for w
    by (cases "w_faults w (w_tick w)") (auto simp: publish_def external_def intro: exI[of _ 0] exI[of _ 1])
  then show ?thesis by (simp add: logs_def)
qed

lemma logs_appendEvent [effect_intros]: "logs w_wal [e] (appendEvent e)"
proof -
  have "\<exists>k. w_wal (fst (appendEvent e w)) = w_wal w @ take k [e]
      \<and> ((\<exists>x. snd (appendEvent e w) = Inr x) \<longrightarrow> length [e] \<le> k)" for w
    by (cases "w_faults w (w_tick w)") (auto simp: appendEvent_def external_def intro: exI[of _ 0] exI[of _ 1])
  then show ?thesis by (simp add: logs_def)
qed

lemma keeps_publish [effect_intros]:
  "(\<And>w. f (tick w) = f w) \<Longrightarrow> (\<And>w l. f (w \<lparr> w_bus := l \<rparr>) = f w) \<Longrightarrow> keeps f (publish s m)"
  by (simp add: publish_def keeps_def external_def)

lemma keeps_appendEvent [effect_intros]:
  "(\<And>w. f (tick w) = f w) \<Longrightarrow> (\<And>w l. f (w \<lparr> w_wal := l \<rparr>) = f w) \<Longrightarrow> keeps f (appendEvent e)"
  by (simp add: appendEvent_def keeps_def external_def)

lemma keeps_load_policy [effect_intros]: "keeps f load_policy_config"
  by (simp add: keeps_def load_policy_config_def split: option.split)

section \<open>Success without failures\<close>

lemma succeeds_in_order:
  "faultless w \<Longrightarrow> list_all (\<lambda>m. keeps w_faults m \<and> (\<forall>w. faultless w \<longrightarrow> succeeds m w)) ms \<Longrightarrow>
   succeeds (in_order ms) w"
proof (induction ms arbitrary: w)
  case (Cons m ms)
  obtain w1 r where e: "m w = (w1, r)" by fastforce
  then obtain x where r: "r = Inr x" using Cons.prems by (auto simp: succeeds_def)
  have "w_faults w1 = w_faults w" using Cons.prems keepsD e by auto
  then have "faultless w1" using Cons.prems(1) by (simp add: faultless_def)
  then show ?case using Cons e r by (simp add: succeeds_def)
qed (simp add: succeeds_def)

lemma succeeds_publish: "faultless w \<Longrightarrow> succeeds (publish s m) w"
  by (simp add: succeeds_def publish_def external_def faultless_def)

lemma succeeds_appendEvent: "faultless w \<Longrightarrow> succeeds (appendEvent e) w"
  by (simp add: succeeds_def appendEvent_def external_def faultless_def)

lemma succeeds_metric: "succeeds (metric n l) w"
  by (simp add: succeeds_def metric_def)

lemma succeeds_ret: "succeeds (ret x) w"
  by (simp add: succeeds_def)

end
