(* ===== verification/Governance_Safety.thy ===== *)
theory Governance_Safety
  imports Governance_Decision Effect_Logs
begin

text \<open>
  What the rule-based governance path guarantees. The context of a decision (row, drift, policy,
  permission) is read off the world; an approval is characterised by it, and the effects of a
  commit by the one message its outcome stands for. The properties hold for every pattern of
  failing calls.
\<close>

section \<open>The context of a decision\<close>

definition current_drift :: "world \<Rightarrow> drift_input option" where
  "current_drift w =
    (case map_get (w_s3 w) (scopeDriftKey (w_scope w)) of
       None \<Rightarrow> Some no_drift
     | Some S3Empty \<Rightarrow> Some no_drift
     | Some S3Malformed \<Rightarrow> None
     | Some (S3Drift d _) \<Rightarrow> Some d)"

definition current_config :: "world \<Rightarrow> governance_config option" where
  "current_config w =
     map_option (\<lambda>raw. getGovernanceForScope (w_scope w) (loadPolicies raw (w_env_mode w)))
       (w_policy_file w)"

definition permitted :: "world \<Rightarrow> proposal \<Rightarrow> bool" where
  "permitted w prop = cr_allowed (checkPermission (w_acl w) (pp_agent prop) ''writer'' (pp_target_node prop))"

definition epoch_current :: "world \<Rightarrow> proposal \<Rightarrow> bool" where
  "epoch_current w prop =
    (case map_get (w_states w) (w_scope w) of
       None \<Rightarrow> False
     | Some state \<Rightarrow> p_expectedEpoch (pp_payload prop) = Some (gs_epoch state))"

text \<open>The kernel's verdict on a proposal in the present context.\<close>

definition present_verdict :: "world \<Rightarrow> proposal \<Rightarrow> string option" where
  "present_verdict w prop =
    (case (current_drift w, current_config w) of
       (Some d, Some c) \<Rightarrow> Some (ko_verdict (kernel_output_for prop d c))
     | _ \<Rightarrow> None)"

text \<open>Some call of the run fails.\<close>

definition some_call_fails :: "world \<Rightarrow> bool" where
  "some_call_fails w = (\<exists>i. w_faults w i)"

text \<open>The verdict for a drift report that is taken for missing.\<close>

definition unread_verdict :: "world \<Rightarrow> proposal \<Rightarrow> string option" where
  "unread_verdict w prop = map_option (\<lambda>c. ko_verdict (kernel_output_for prop no_drift c)) (current_config w)"

text \<open>What a reader can take for the present drift: the stored report, or none when a call fails.\<close>

definition sees_drift :: "world \<Rightarrow> drift_input \<Rightarrow> bool" where
  "sees_drift w d = (current_drift w = Some d \<or> (some_call_fails w \<and> d = no_drift))"

lemma current_at_tick [simp]:
  "current_drift (w \<lparr> w_tick := k \<rparr>) = current_drift w" "current_config (w \<lparr> w_tick := k \<rparr>) = current_config w"
  "sees_drift (w \<lparr> w_tick := k \<rparr>) d = sees_drift w d"
  by (simp_all add: current_drift_def current_config_def sees_drift_def some_call_fails_def)

lemma read_drift_sees:
  assumes "read_drift sc w = (w', r)"
  shows "w' = w \<lparr> w_tick := w_tick w' \<rparr> \<and> w_tick w \<le> w_tick w'
    \<and> (\<forall>d. r = Inr d \<longrightarrow> sees_drift (w \<lparr> w_scope := sc \<rparr>) d)"
  using assms
  by (auto simp: read_drift_def s3_get_def and_then_def external_def tick_def sees_drift_def current_drift_def
      some_call_fails_def split: if_splits option.splits s3_doc.splits)

lemma read_drift_ok:
  assumes "\<not> w_faults w (w_tick w)" "\<not> w_faults w (Suc (w_tick w))"
  shows "\<exists>k \<in> {Suc (w_tick w), Suc (Suc (w_tick w))}. read_drift sc w = (w \<lparr> w_tick := k \<rparr>,
     case current_drift (w \<lparr> w_scope := sc \<rparr>) of None \<Rightarrow> Inl (JsError ''SyntaxError'') | Some d \<Rightarrow> Inr d)"
  using assms
  by (auto simp: read_drift_def s3_get_def and_then_def external_def tick_def current_drift_def
      split: option.splits s3_doc.splits)

lemma scope_config_cases:
  "scope_config (w_scope w) w = (w, case current_config w of
     None \<Rightarrow> Inl (JsError ''ENOENT'') | Some c \<Rightarrow> Inr c)"
  by (auto simp: scope_config_def load_policy_config_def current_config_def and_then_def
      split: option.splits)

lemma current_tick [simp]:
  "current_drift (tick w) = current_drift w" "current_config (tick w) = current_config w"
  by (simp_all add: current_drift_def current_config_def)

definition decided_result ::
  "proposal \<Rightarrow> graph_state \<Rightarrow> drift_input \<Rightarrow> kernel_output \<Rightarrow> decision_record \<Rightarrow> check_result
   \<Rightarrow> deterministic_result" where
  "decided_result prop state drift out record perm =
    (case kernel_decision (pp_payload prop) state drift out record of
       Some r \<Rightarrow> r
     | None \<Rightarrow> permission_decision (pp_payload prop) state out record perm)"

lemma decide_with_context_result:
  "\<exists>w'. decide_with_context prop state drift cfg w = (w', Inr (decided_result prop state drift
     (kernel_output_for prop drift cfg)
     (buildDecisionRecordFromKernel (next_fresh w) (kernel_output_for prop drift cfg)
        (w_policy_version w) True)
     (checkPermission (w_acl w) (pp_agent prop) ''writer'' (pp_target_node prop))))"
  by (simp add: decide_with_context_def decided_result_def check_permission_def and_then_def Let_def
      split: option.split)

text \<open>Every way a proposal can be decided.\<close>

lemma evaluate_cases:
  assumes "evaluateProposalDeterministic prop w = (w', Inr res)"
  shows "(pp_action prop \<noteq> ''advance_state'' \<and> de_outcome res = OIgnore)
    \<or> (res = bare_result OReject ''state_epoch_mismatch'' \<and> \<not> epoch_current w prop)
    \<or> (\<exists>state drift cfg rec. pp_action prop = ''advance_state''
         \<and> map_get (w_states w) (w_scope w) = Some state \<and> epoch_current w prop
         \<and> sees_drift w drift \<and> current_config w = Some cfg
         \<and> rec = buildDecisionRecordFromKernel (next_fresh w) (kernel_output_for prop drift cfg)
                   (w_policy_version w) True
         \<and> res = decided_result prop state drift (kernel_output_for prop drift cfg) rec
              (checkPermission (w_acl w) (pp_agent prop) ''writer'' (pp_target_node prop)))"
proof (cases "pp_action prop = ''advance_state''")
  case False
  then show ?thesis using assms
    by (auto simp: evaluateProposalDeterministic_def bare_result_def)
next
  case True
  show ?thesis
  proof (cases "w_faults w (w_tick w) \<or> \<not> epoch_current w prop")
    case True
    then show ?thesis using assms \<open>pp_action prop = _\<close>
      by (auto simp: evaluateProposalDeterministic_def and_then_def loadState_cases epoch_current_def
          split: option.splits if_splits)
  next
    case False
    then obtain state where st: "map_get (w_states w) (w_scope w) = Some state"
      "p_expectedEpoch (pp_payload prop) = Some (gs_epoch state)"
      by (auto simp: epoch_current_def split: option.splits)
    have "and_then (read_drift (w_scope w)) (\<lambda>drift. and_then (scope_config (w_scope w))
        (\<lambda>cfg. decide_with_context prop state drift cfg)) (tick w) = (w', Inr res)"
      using assms True False st
      by (simp add: evaluateProposalDeterministic_def and_then_def loadState_cases)
    then obtain w1 drift where rd: "read_drift (w_scope w) (tick w) = (w1, Inr drift)"
      and rest: "and_then (scope_config (w_scope w)) (\<lambda>cfg. decide_with_context prop state drift cfg) w1 = (w', Inr res)"
      unfolding and_then_eq_Inr[of "read_drift (w_scope w)"] by blast
    obtain k where k: "w1 = w \<lparr> w_tick := k \<rparr>" and d: "sees_drift w drift"
      using read_drift_sees[OF rd] by (auto simp: tick_def)
    obtain cfg where c: "current_config w = Some cfg" "decide_with_context prop state drift cfg w1 = (w', Inr res)"
      using rest scope_config_cases[of w1] k by (auto simp: and_then_def split: option.splits)
    have "next_fresh w1 = next_fresh w" by (simp add: next_fresh_def k)
    then have "res = decided_result prop state drift (kernel_output_for prop drift cfg)
        (buildDecisionRecordFromKernel (next_fresh w) (kernel_output_for prop drift cfg)
          (w_policy_version w) True)
        (checkPermission (w_acl w) (pp_agent prop) ''writer'' (pp_target_node prop))"
      using decide_with_context_result[of "prop" state drift cfg w1] c(2) k by simp
    then show ?thesis using True False st d c(1) by blast
  qed
qed

lemma kernel_verdict_cases:
  "ko_verdict (kernel_output_for prop d c) \<in> {''accept'', ''reject'', ''escalate''}"
  by (cases "gov_from_str (kq_mode (proposal_request (pp_payload prop) d (proposal_mode prop)))")
    (auto simp: kernel_output_for_def evaluateKernel_verdict Let_def)

lemma decided_result_approve:
  assumes "de_outcome (decided_result prop state drift (kernel_output_for prop drift cfg) rec perm) = OApprove"
  shows "ko_verdict (kernel_output_for prop drift cfg) = ''accept'' \<and> cr_allowed perm
    \<and> de_payload (decided_result prop state drift (kernel_output_for prop drift cfg) rec perm)
        = Some (advance_payload (pp_payload prop) state)
    \<and> de_reason (decided_result prop state drift (kernel_output_for prop drift cfg) rec perm)
        = ko_reason (kernel_output_for prop drift cfg)"
  using assms kernel_verdict_cases[of "prop" drift cfg]
  by (auto simp: decided_result_def kernel_decision_def permission_decision_def split: if_splits)

lemma evaluate_approve:
  assumes "evaluateProposalDeterministic prop w = (w', Inr res)" "de_outcome res = OApprove"
  shows "epoch_current w prop \<and> permitted w prop
    \<and> (present_verdict w prop = Some ''accept'' \<or> (some_call_fails w \<and> unread_verdict w prop = Some ''accept''))
    \<and> (\<exists>state. map_get (w_states w) (w_scope w) = Some state
          \<and> de_payload res = Some (advance_payload (pp_payload prop) state))"
  using evaluate_cases[OF assms(1)] assms(2) decided_result_approve
  by (auto simp: bare_result_def present_verdict_def unread_verdict_def permitted_def sees_drift_def)

section \<open>What evaluation and commit touch\<close>

lemma keeps_s3_get: "(\<And>w. f (tick w) = f w) \<Longrightarrow> keeps f (s3_get key)"
  by (auto simp: keeps_def s3_get_def external_def split: option.split)

lemma keeps_read_drift: "(\<And>w. f (tick w) = f w) \<Longrightarrow> keeps f (read_drift s)"
  unfolding read_drift_def
  by (intro keeps_and_then keeps_s3_get) (auto intro: keeps_ret keeps_raise split: s3_doc.split)

lemma keeps_evaluate:
  assumes "\<And>w. f (tick w) = f w" "\<And>w n. f (w \<lparr> w_uuids := n \<rparr>) = f w"
  shows "keeps f (evaluateProposalDeterministic prop)"
proof -
  have l: "keeps f (loadState s)" for s
    using assms(1) by (simp add: keeps_def loadState_def external_def)
  have d: "keeps f (read_drift s)" for s
    by (rule keeps_read_drift) (rule assms(1))
  have c: "keeps f (scope_config s)" for s
    unfolding scope_config_def by (intro effect_intros)
  have x: "keeps f (decide_with_context prop st dr cf)" for st dr cf
    using assms
    by (simp add: keeps_def decide_with_context_def check_permission_def and_then_def Let_def
        split: option.split)
  have "keeps f (and_then (loadState s) (\<lambda>st. case st of
            None \<Rightarrow> ret (bare_result OReject ''state_epoch_mismatch'')
          | Some state \<Rightarrow>
             if Some (gs_epoch state) \<noteq> p_expectedEpoch (pp_payload prop)
             then ret (bare_result OReject ''state_epoch_mismatch'')
             else and_then (read_drift s) (\<lambda>drift. and_then (scope_config s)
                   (\<lambda>cfg. decide_with_context prop state drift cfg))))" for s
    by (intro effect_intros l d c x)
  then show ?thesis by (simp add: keeps_def evaluateProposalDeterministic_def)
qed

lemma keeps_record [effect_intros]:
  "(\<And>w l. f (w \<lparr> w_metrics := l \<rparr>) = f w) \<Longrightarrow> keeps f (recordProposal a s)"
  "(\<And>w l. f (w \<lparr> w_metrics := l \<rparr>) = f w) \<Longrightarrow> keeps f recordPolicyViolation"
  by (simp_all add: recordProposal_def recordPolicyViolation_def keeps_metric)

lemma keeps_persist [effect_intros]:
  "(\<And>w. f (tick w) = f w) \<Longrightarrow> (\<And>w l. f (w \<lparr> w_records := l \<rparr>) = f w) \<Longrightarrow>
   keeps f (persistDecisionRecord r p s m)"
  by (simp add: persistDecisionRecord_def keeps_def external_def)

lemma keeps_scope_config [effect_intros]: "keeps f (scope_config s)"
  unfolding scope_config_def by (intro effect_intros)

lemma keeps_addPending [effect_intros]:
  "(\<And>w. f (tick w) = f w) \<Longrightarrow> (\<And>w l. f (w \<lparr> w_pending := l \<rparr>) = f w) \<Longrightarrow>
   keeps f (addPending k p q)"
  by (simp add: addPending_def keeps_def external_def)

lemma keeps_commit_audit:
  assumes "\<And>w. f (tick w) = f w" "\<And>w l. f (w \<lparr> w_metrics := l \<rparr>) = f w"
    "\<And>w l. f (w \<lparr> w_records := l \<rparr>) = f w"
  shows "keeps f (commit_audit res path)"
proof -
  have "keeps f (and_then (scope_config s)
       (\<lambda>cfg. let scopeMode = coalesce (gc_mode cfg) ''YOLO'' in
          in_order
            [metric ''governance_mode'' (s @ '':'' @ scopeMode),
             metric ''governance_path'' path,
             (case de_record res of
                None \<Rightarrow> ret ()
              | Some r \<Rightarrow> try_catch (persistDecisionRecord r path s scopeMode) (\<lambda>_. ret ()))]))" for s
    unfolding Let_def
    by (intro effect_intros) (auto intro!: effect_intros simp: assms)
  then show ?thesis by (simp add: keeps_def commit_audit_def)
qed

definition outcome_messages ::
  "string \<Rightarrow> string \<Rightarrow> proposal \<Rightarrow> deterministic_result \<Rightarrow> (string \<times> message) list" where
  "outcome_messages agentId scope prop res =
    (case (de_outcome res, de_payload res) of
       (OReject, _) \<Rightarrow> [(''swarm.rejections.'' @ pp_action prop,
                        RejectionMsg (pp_id prop) (de_reason res) ''rejected'')]
     | (OPending, Some p) \<Rightarrow> [(''swarm.pending_approval.'' @ pp_id prop,
                        PendingMsg (pp_id prop) ''pending'')]
     | (OApprove, Some p) \<Rightarrow> [(''swarm.actions.advance_state'',
                        ActionMsg (approved_action (pp_id prop)
                          (if pp_mode prop = Some ''MASTER'' then agentId else ''auto'')
                          (de_reason res) p scope))]
     | _ \<Rightarrow> [])"

definition outcome_events ::
  "string \<Rightarrow> proposal \<Rightarrow> deterministic_result \<Rightarrow> string \<Rightarrow> json_obj list" where
  "outcome_events scope prop res path =
    (case (de_outcome res, de_payload res) of
       (OReject, _) \<Rightarrow> [governance_event ''proposal_rejected'' (pp_id prop) (Some (de_reason res)) path scope]
     | (OPending, Some p) \<Rightarrow> [governance_event ''proposal_pending_approval'' (pp_id prop) None path scope]
     | (OApprove, Some p) \<Rightarrow> [governance_event ''proposal_approved'' (pp_id prop) (Some (de_reason res)) path scope]
     | _ \<Rightarrow> [])"

lemma logs_four:
  assumes "logs f [] a" "logs f xs b" "logs f ys c" "logs f zs d"
  shows "logs f (xs @ ys @ zs) (in_order [a, b, c, d])"
  using logs_in_order_Cons[OF assms(1) logs_in_order_Cons[OF assms(2)
      logs_in_order_Cons[OF assms(3) logs_in_order_Cons[OF assms(4) logs_in_order_Nil]]]]
  by simp

lemma logs_three:
  assumes "logs f xs a" "logs f ys b" "logs f zs c"
  shows "logs f (xs @ ys @ zs) (in_order [a, b, c])"
  using logs_in_order_Cons[OF assms(1) logs_in_order_Cons[OF assms(2)
      logs_in_order_Cons[OF assms(3) logs_in_order_Nil]]]
  by simp

definition commit_step ::
  "string \<Rightarrow> string \<Rightarrow> proposal \<Rightarrow> deterministic_result \<Rightarrow> string \<Rightarrow> (world, unit) exec" where
  "commit_step scope agentId prop res path =
    (case (de_outcome res, de_payload res) of
       (OReject, _) \<Rightarrow> in_order
         [denial_metric (de_reason res),
          recordProposal (pp_action prop) ''rejected'',
          publish (''swarm.rejections.'' @ pp_action prop)
            (RejectionMsg (pp_id prop) (de_reason res) ''rejected''),
          appendEvent (governance_event ''proposal_rejected'' (pp_id prop)
            (Some (de_reason res)) path scope)]
     | (OPending, Some p) \<Rightarrow> in_order
         [recordProposal (pp_action prop) ''pending'',
          addPending (pp_id prop) prop p,
          publish (''swarm.pending_approval.'' @ pp_id prop) (PendingMsg (pp_id prop) ''pending''),
          appendEvent (governance_event ''proposal_pending_approval'' (pp_id prop) None path scope)]
     | (OApprove, Some p) \<Rightarrow> in_order
         [recordProposal (pp_action prop) ''approved'',
          publish ''swarm.actions.advance_state''
            (ActionMsg (approved_action (pp_id prop)
               (if pp_mode prop = Some ''MASTER'' then agentId else ''auto'')
               (de_reason res) p scope)),
          appendEvent (governance_event ''proposal_approved'' (pp_id prop)
            (Some (de_reason res)) path scope)]
     | _ \<Rightarrow> ret ())"

lemma commit_as_step:
  "commitDeterministicResult agentId prop res path w =
    (if de_outcome res = OIgnore then (w, Inr ())
     else and_then (commit_audit res path) (\<lambda>_. commit_step (w_scope w) agentId prop res path) w)"
proof -
  obtain w1 r1 where a: "commit_audit res path w = (w1, r1)" by fastforce
  have "w_scope w1 = w_scope w"
    using keepsD[OF keeps_commit_audit[of w_scope] a] by simp
  then show ?thesis using a
    by (auto simp: commitDeterministicResult_def and_then_def commit_step_def commit_reject_def
        commit_pending_def commit_approve_def split: sum.split outcome.split option.split)
qed

lemma logs_commit_step:
  "logs w_bus (outcome_messages agentId scope prop res) (commit_step scope agentId prop res path)"
  "logs w_wal (outcome_events scope prop res path) (commit_step scope agentId prop res path)"
proof -
  have q: "logs w_bus [] (recordProposal x y)" "logs w_bus [] recordPolicyViolation"
      "logs w_bus [] (addPending k p2 q2)" "logs w_bus [] (appendEvent e)"
      "logs w_wal [] (recordProposal x y)" "logs w_wal [] recordPolicyViolation"
      "logs w_wal [] (addPending k p2 q2)" "logs w_wal [] (publish su me)" for x y k p2 q2 e su me
    by (rule logs_keeps, intro effect_intros; simp)+
  have r: "logs f [] (ret ())" for f :: "world \<Rightarrow> 'z list" by (intro effect_intros)
  have i: "logs w_bus [] (denial_metric c)" "logs w_wal [] (denial_metric c)" for c
    using q r by (auto simp: denial_metric_def)
  show "logs w_bus (outcome_messages agentId scope prop res) (commit_step scope agentId prop res path)"
    using logs_four[OF i(1) q(1) logs_publish q(4)] logs_four[OF q(1) q(3) logs_publish q(4)]
      logs_three[OF q(1) logs_publish q(4)] r
    by (auto simp: commit_step_def outcome_messages_def split: outcome.split option.split)
  show "logs w_wal (outcome_events scope prop res path) (commit_step scope agentId prop res path)"
    using logs_four[OF i(2) q(5) q(8) logs_appendEvent] logs_four[OF q(5) q(7) q(8) logs_appendEvent]
      logs_three[OF q(5) q(8) logs_appendEvent] r
    by (auto simp: commit_step_def outcome_events_def split: outcome.split option.split)
qed

lemma commit_effects:
  assumes "commitDeterministicResult agentId prop res path w = (w', r)"
  shows "\<exists>k j. w_bus w' = w_bus w @ take k (outcome_messages agentId (w_scope w) prop res)
    \<and> w_wal w' = w_wal w @ take j (outcome_events (w_scope w) prop res path)
    \<and> (r = Inr () \<longrightarrow> length (outcome_messages agentId (w_scope w) prop res) \<le> k
                    \<and> length (outcome_events (w_scope w) prop res path) \<le> j)"
proof (cases "de_outcome res = OIgnore")
  case True
  then show ?thesis using assms
    by (auto simp: commit_as_step outcome_messages_def outcome_events_def)
next
  case False
  have a: "logs w_bus [] (commit_audit res path)" "logs w_wal [] (commit_audit res path)"
    by (rule logs_keeps, rule keeps_commit_audit; simp)+
  have e: "and_then (commit_audit res path) (\<lambda>_. commit_step (w_scope w) agentId prop res path) w = (w', r)"
    using assms False by (simp add: commit_as_step)
  show ?thesis
    using logsD[OF logs_and_then[OF a(1) logs_commit_step(1)[of agentId "w_scope w" "prop" res path]] e]
      logsD[OF logs_and_then[OF a(2) logs_commit_step(2)[of "w_scope w" "prop" res path agentId]] e]
    by auto
qed

lemma keeps_commit_step:
  assumes "\<And>w. f (tick w) = f w" "\<And>w l. f (w \<lparr> w_metrics := l \<rparr>) = f w"
    "\<And>w l. f (w \<lparr> w_bus := l \<rparr>) = f w" "\<And>w l. f (w \<lparr> w_wal := l \<rparr>) = f w"
    "\<And>w l. f (w \<lparr> w_pending := l \<rparr>) = f w"
  shows "keeps f (commit_step scope agentId prop res path)"
  by (auto simp: commit_step_def denial_metric_def assms intro!: effect_intros
      split: outcome.split option.split)

lemma keeps_commit:
  assumes "\<And>w. f (tick w) = f w" "\<And>w l. f (w \<lparr> w_metrics := l \<rparr>) = f w"
    "\<And>w l. f (w \<lparr> w_bus := l \<rparr>) = f w" "\<And>w l. f (w \<lparr> w_wal := l \<rparr>) = f w"
    "\<And>w l. f (w \<lparr> w_pending := l \<rparr>) = f w" "\<And>w l. f (w \<lparr> w_records := l \<rparr>) = f w"
  shows "keeps f (commitDeterministicResult agentId prop res path)"
proof -
  have "keeps f (and_then (commit_audit res path) (\<lambda>_. commit_step s agentId prop res path))" for s
    by (intro keeps_and_then keeps_commit_audit keeps_commit_step) (simp_all add: assms)
  then show ?thesis by (simp add: keeps_def commit_as_step)
qed

text \<open>The run of \<open>processProposal\<close>: an evaluation that leaves the logs alone, then a commit.\<close>

lemma processProposal_effects:
  assumes "processProposal agentId prop w = (w', r)"
  shows "(w_bus w' = w_bus w \<and> w_wal w' = w_wal w \<and> r \<noteq> Inr ())
    \<or> (\<exists>w1 res k j. evaluateProposalDeterministic prop w = (w1, Inr res)
        \<and> w_bus w' = w_bus w @ take k (outcome_messages agentId (w_scope w) prop res)
        \<and> w_wal w' = w_wal w @ take j (outcome_events (w_scope w) prop res (governance_path prop res))
        \<and> (r = Inr () \<longrightarrow> length (outcome_messages agentId (w_scope w) prop res) \<le> k
            \<and> length (outcome_events (w_scope w) prop res (governance_path prop res)) \<le> j))"
proof -
  obtain w1 r1 where e: "evaluateProposalDeterministic prop w = (w1, r1)" by fastforce
  have fr: "w_bus w1 = w_bus w" "w_wal w1 = w_wal w" "w_scope w1 = w_scope w"
    using keepsD[OF keeps_evaluate[of w_bus] e] keepsD[OF keeps_evaluate[of w_wal] e]
      keepsD[OF keeps_evaluate[of w_scope] e] by simp_all
  show ?thesis
  proof (cases r1)
    case (Inl er)
    then show ?thesis using assms e fr by (auto simp: processProposal_def and_then_def)
  next
    case (Inr res)
    then have "commitDeterministicResult agentId prop res (governance_path prop res) w1 = (w', r)"
      using assms e by (simp add: processProposal_def and_then_def)
    then show ?thesis using commit_effects[of agentId "prop" res "governance_path prop res" w1 w' r]
        fr e Inr by auto
  qed
qed

definition new_messages :: "world \<Rightarrow> world \<Rightarrow> (string \<times> message) list" where
  "new_messages w w' = drop (length (w_bus w)) (w_bus w')"

definition new_events :: "world \<Rightarrow> world \<Rightarrow> json_obj list" where
  "new_events w w' = drop (length (w_wal w)) (w_wal w')"

lemma outcome_messages_action:
  "ActionMsg a \<in> snd ` set (outcome_messages agentId scope prop res) \<Longrightarrow>
   de_outcome res = OApprove \<and> (\<exists>p by. de_payload res = Some p
     \<and> a = approved_action (pp_id prop) by (de_reason res) p scope)"
  by (cases "de_outcome res"; cases "de_payload res") (auto simp: outcome_messages_def)

lemma outcome_lengths:
  "length (outcome_messages agentId scope prop res) \<le> 1"
  "length (outcome_events scope prop res path) = length (outcome_messages agentId scope prop res)"
  by (auto simp: outcome_messages_def outcome_events_def split: outcome.splits option.splits)

lemma processProposal_action:
  assumes "processProposal agentId prop w = (w', r)"
    and "(subject, ActionMsg a) \<in> set (new_messages w w')"
  shows "\<exists>w1 res. evaluateProposalDeterministic prop w = (w1, Inr res)
     \<and> ActionMsg a \<in> snd ` set (outcome_messages agentId (w_scope w) prop res)"
proof -
  obtain w1 res k where e: "evaluateProposalDeterministic prop w = (w1, Inr res)"
    and b: "w_bus w' = w_bus w @ take k (outcome_messages agentId (w_scope w) prop res)"
    using processProposal_effects[OF assms(1)] assms(2) by (auto simp: new_messages_def)
  have "ActionMsg a \<in> snd ` set (outcome_messages agentId (w_scope w) prop res)"
    using assms(2) b by (force simp: new_messages_def dest: in_set_takeD)
  then show ?thesis using e by blast
qed

text \<open>
  C2. No approval without its conditions. Whatever calls fail, an approved action that
  \<open>processProposal\<close> publishes is for a proposal whose expected epoch is that of the scope's row, whose
  transition the kernel accepts under the present policy and the stored drift - or, when a call fails,
  under no drift at all - and whose agent is permitted to write the target node; the action is an \<open>advance_state\<close> of the active scope and carries
  exactly the proposal's epoch and transition and the run of the row.
\<close>

theorem approval_sound:
  assumes "processProposal agentId prop w = (w', r)"
    and "(subject, ActionMsg a) \<in> set (new_messages w w')"
  shows "epoch_current w prop \<and> permitted w prop
    \<and> (present_verdict w prop = Some ''accept'' \<or> (some_call_fails w \<and> unread_verdict w prop = Some ''accept''))
    \<and> (\<exists>state by reason. map_get (w_states w) (w_scope w) = Some state
         \<and> a = approved_action (pp_id prop) by reason (advance_payload (pp_payload prop) state) (w_scope w))"
proof -
  obtain w1 res where e: "evaluateProposalDeterministic prop w = (w1, Inr res)"
    and "ActionMsg a \<in> snd ` set (outcome_messages agentId (w_scope w) prop res)"
    using processProposal_action[OF assms] by blast
  then show ?thesis using outcome_messages_action[of a] evaluate_approve[OF e] by fastforce
qed

text \<open>
  C4. One outcome per run. Whatever calls fail, processing a proposal publishes at most one
  message and appends at most one WAL event; a run for an \<open>advance_state\<close> proposal that ends
  normally publishes exactly one of each. The state rows and the finality decisions are never
  touched.
\<close>

theorem one_outcome_per_run:
  assumes "processProposal agentId prop w = (w', r)"
  shows "length (new_messages w w') \<le> 1 \<and> length (new_events w w') \<le> 1
    \<and> w_states w' = w_states w \<and> w_finality w' = w_finality w
    \<and> (r = Inr () \<and> pp_action prop = ''advance_state''
        \<longrightarrow> length (new_messages w w') = 1 \<and> length (new_events w w') = 1)"
proof -
  have "keeps w_states (processProposal agentId prop)" "keeps w_finality (processProposal agentId prop)"
    unfolding processProposal_def by (intro keeps_and_then keeps_evaluate keeps_commit; simp)+
  then have k: "w_states w' = w_states w" "w_finality w' = w_finality w"
    using keepsD assms by metis+
  have one: "length (outcome_messages agentId s prop res) = 1"
    if "evaluateProposalDeterministic prop w = (w1, Inr res)" "pp_action prop = ''advance_state''" for s w1 res
    using evaluate_cases[OF that(1)] that(2)
    by (auto simp: outcome_messages_def bare_result_def decided_result_def kernel_decision_def
        permission_decision_def split: if_splits)
  show ?thesis
    using processProposal_effects[OF assms] k one
      outcome_lengths(1)[of agentId "w_scope w" "prop"]
      outcome_lengths(2)[of "w_scope w" "prop" _ _ agentId]
    by (auto simp: new_messages_def new_events_def min_le_iff_disj)
qed

text \<open>A sample proposal, the first move of a fresh scope.\<close>

definition sample_proposal :: "string option \<Rightarrow> proposal" where
  "sample_proposal mode =
     \<lparr> pp_id = ''p1'', pp_agent = ''facts-1'', pp_action = ''advance_state'',
       pp_target_node = ''FactsExtracted'',
       pp_payload = empty_payload \<lparr> p_expectedEpoch := Some 0, p_runId := Some ''run'',
         p_from := Some ''ContextIngested'', p_to := Some ''FactsExtracted'' \<rparr>,
       pp_mode = mode \<rparr>"

definition fresh_world :: world where
  "fresh_world = world_at ''default'' ContextIngested 0"

lemma pair_eta: "f x = (fst (f x), snd (f x))"
  by simp

theorem approval_sound_witness:
  "permitted fresh_world (sample_proposal (Some ''MASTER''))"
proof -
  let ?p = "sample_proposal (Some ''MASTER'')"
  let ?a = "approved_action ''p1'' ''g1'' ''policy_passed''
     (advance_payload (pp_payload ?p) (row_at ContextIngested 0)) ''default''"
  have "new_messages fresh_world (fst (processProposal ''g1'' ?p fresh_world))
      = [(''swarm.actions.advance_state'', ActionMsg ?a)]"
    by code_simp
  then show ?thesis
    using approval_sound[OF pair_eta[of "processProposal ''g1'' ?p" fresh_world],
        of "''swarm.actions.advance_state''" ?a] by simp
qed

theorem one_outcome_per_run_witness:
  "length (new_messages fresh_world (fst (processProposal ''g1'' (sample_proposal None) fresh_world))) = 1"
proof -
  have "snd (processProposal ''g1'' (sample_proposal None) fresh_world) = Inr ()"
    by code_simp
  moreover have "pp_action (sample_proposal None) = ''advance_state''"
    by (simp add: sample_proposal_def)
  ultimately show ?thesis
    using one_outcome_per_run[OF pair_eta[of "processProposal ''g1'' (sample_proposal None)" fresh_world]]
    by simp
qed

lemma evaluate_mitl:
  assumes "evaluateProposalDeterministic prop w = (w1, Inr res)"
    and "gov_from_str (proposal_mode prop) = Mitl" "epoch_current w prop" "pp_action prop = ''advance_state''"
  shows "de_outcome res = OPending \<and> de_payload res \<noteq> None"
proof -
  have acc: "ko_verdict (kernel_output_for prop d c) = ''escalate''" for d c
    using assms(2)
    by (simp add: kernel_output_for_def proposal_request_def evaluateKernel_verdict Let_def)
  show ?thesis
    using evaluate_cases[OF assms(1)] assms(3,4) acc
    by (auto simp: decided_result_def kernel_decision_def)
qed

text \<open>
  A MITL proposal reaches a human and nobody else decides it: processing it never publishes
  an approved action, and a run that ends normally for a current \<open>advance_state\<close> proposal leaves it
  waiting in the MITL queue.
\<close>

theorem mitl_goes_to_human:
  assumes "processProposal agentId prop w = (w', r)" "gov_from_str (proposal_mode prop) = Mitl"
  shows "(\<forall>m \<in> set (new_messages w w'). \<nexists>a. snd m = ActionMsg a)
    \<and> (r = Inr () \<and> epoch_current w prop \<and> pp_action prop = ''advance_state''
        \<longrightarrow> is_waiting w' (pp_id prop))"
proof (intro conjI ballI impI)
  fix m assume m: "m \<in> set (new_messages w w')"
  show "\<nexists>a. snd m = ActionMsg a"
  proof
    assume "\<exists>a. snd m = ActionMsg a"
    then obtain a where "(fst m, ActionMsg a) \<in> set (new_messages w w')" using m by (metis prod.collapse)
    from processProposal_action[OF assms(1) this] obtain w1 res where
      e: "evaluateProposalDeterministic prop w = (w1, Inr res)"
      and "ActionMsg a \<in> snd ` set (outcome_messages agentId (w_scope w) prop res)"
      by blast
    then have ap: "de_outcome res = OApprove" using outcome_messages_action by blast
    have "ko_verdict (kernel_output_for prop d c) = ''escalate''" for d c
      using assms(2)
      by (simp add: kernel_output_for_def proposal_request_def evaluateKernel_verdict Let_def)
    then show False using evaluate_approve[OF e ap]
      by (auto simp: present_verdict_def unread_verdict_def split: option.splits)
  qed
next
  assume c: "r = Inr () \<and> epoch_current w prop \<and> pp_action prop = ''advance_state''"
  obtain w1 r1 where e: "evaluateProposalDeterministic prop w = (w1, r1)" by fastforce
  then obtain res where r1: "r1 = Inr res"
    using assms(1) c by (cases r1) (auto simp: processProposal_def and_then_def)
  obtain p where res: "de_outcome res = OPending" "de_payload res = Some p"
    using evaluate_mitl[of "prop" w w1 res] e r1 assms(2) c by auto
  have "and_then (commit_audit res (governance_path prop res))
      (\<lambda>_. commit_step (w_scope w1) agentId prop res (governance_path prop res)) w1 = (w', Inr ())"
    using assms(1) e r1 res c by (simp add: processProposal_def and_then_def commit_as_step)
  then obtain w2 where "commit_step (w_scope w1) agentId prop res (governance_path prop res) w2
      = (w', Inr ())"
    by (auto simp: and_then_eq_Inr)
  then show "is_waiting w' (pp_id prop)"
    using res
    by (auto simp: commit_step_def recordProposal_def metric_def addPending_def publish_def
        appendEvent_def external_def is_waiting_def is_pending_def map_get_set split: if_splits)
qed

theorem mitl_goes_to_human_witness:
  "is_waiting (fst (processProposal ''g1'' (sample_proposal (Some ''MITL'')) fresh_world)) ''p1''"
proof -
  let ?p = "sample_proposal (Some ''MITL'')"
  have "snd (processProposal ''g1'' ?p fresh_world) = Inr ()" "epoch_current fresh_world ?p"
    "gov_from_str (proposal_mode ?p) = Mitl"
    by code_simp+
  moreover have "pp_action ?p = ''advance_state''" "pp_id ?p = ''p1''" by (simp_all add: sample_proposal_def)
  ultimately show ?thesis
    using mitl_goes_to_human[OF pair_eta[of "processProposal ''g1'' ?p" fresh_world]] by simp
qed

lemma transition_rules_of_scope:
  "coalesce (gc_transition_rules (getGovernanceForScope s (loadPolicies raw env))) []
     = coalesce (rc_transition_rules raw) []"
  "gc_rules (getGovernanceForScope s (loadPolicies raw env)) = coalesce (rc_rules raw) []"
  by (auto simp: getGovernanceForScope_def loadPolicies_def split: option.splits)

lemma kernel_output_config:
  "coalesce (gc_transition_rules c) [] = coalesce (gc_transition_rules c') [] \<Longrightarrow> gc_rules c = gc_rules c'
   \<Longrightarrow> kernel_output_for prop d c = kernel_output_for prop d c'"
  by (simp add: kernel_output_for_def evaluateKernel_def toGovernanceRulesConfigDto_def)

text \<open>
  The deterministic decision takes its mode from the proposal alone: whatever mode the policy
  file gives the deployment and whatever override it gives the scope, the decision on a proposal is
  the one that any other choice of modes gives. The configured mode only labels the audit row.
\<close>

theorem configured_mode_ignored:
  assumes "w_policy_file w = Some raw"
  shows "snd (evaluateProposalDeterministic prop
           (w \<lparr> w_policy_file := Some (raw \<lparr> rc_mode := mode, rc_scopes := scopes \<rparr>) \<rparr>))
       = snd (evaluateProposalDeterministic prop w)"
proof -
  let ?w = "w \<lparr> w_policy_file := Some (raw \<lparr> rc_mode := mode, rc_scopes := scopes \<rparr>) \<rparr>"
  have ko: "kernel_output_for prop d (getGovernanceForScope s (loadPolicies
        (raw \<lparr> rc_mode := mode, rc_scopes := scopes \<rparr>) env))
      = kernel_output_for prop d (getGovernanceForScope s (loadPolicies raw env))" for d s env
    by (rule kernel_output_config) (simp_all add: transition_rules_of_scope)
  have y: "snd (decide_with_context prop st d c (v \<lparr> w_tick := n \<rparr>)) = snd (decide_with_context prop st d c v)"
    "snd (decide_with_context prop st d c (v \<lparr> w_policy_file := f \<rparr>))
      = snd (decide_with_context prop st d c v)" for st d c v f n
    by (simp_all add: decide_with_context_def next_fresh_def check_permission_def and_then_def
        Let_def split: option.split)
  have x: "snd (decide_with_context prop st d (getGovernanceForScope s (loadPolicies
        (raw \<lparr> rc_mode := mode, rc_scopes := scopes \<rparr>) env)) v)
      = snd (decide_with_context prop st d (getGovernanceForScope s (loadPolicies raw env)) v)"
    for st d s env v
    by (simp add: decide_with_context_def ko check_permission_def and_then_def Let_def
        split: option.split)
  show ?thesis
    using assms x y
    by (auto simp: evaluateProposalDeterministic_def and_then_def loadState_def read_drift_def s3_get_def
        scope_config_def load_policy_config_def external_def tick_def
        split: option.splits s3_doc.splits if_splits)
qed

theorem configured_mode_ignored_witness:
  "snd (evaluateProposalDeterministic (sample_proposal (Some ''YOLO''))
     (fresh_world \<lparr> w_policy_file := Some (governance_yaml \<lparr> rc_mode := Some ''MASTER'', rc_scopes := None \<rparr>) \<rparr>))
   = snd (evaluateProposalDeterministic (sample_proposal (Some ''YOLO'')) fresh_world)"
  by (rule configured_mode_ignored) (simp add: fresh_world_def)

section \<open>When the drift report cannot be looked up\<close>

text \<open>
  C14. The drift gate fails open. When the one failing call is the request that looks up the drift
  report, a proposal that the policy accepts without drift is approved, whatever report is stored -
  also one the policy blocks the transition for.
\<close>

theorem drift_gate_fails_open:
  assumes "w_faults w = (\<lambda>i. i = Suc (w_tick w))" "pp_action prop = ''advance_state''"
    "epoch_current w prop" "unread_verdict w prop = Some ''accept''" "permitted w prop"
  shows "\<exists>w' res. evaluateProposalDeterministic prop (w \<lparr> w_s3 := anything \<rparr>) = (w', Inr res)
     \<and> de_outcome res = OApprove"
proof -
  let ?w = "w \<lparr> w_s3 := anything \<rparr>"
  obtain state where st: "map_get (w_states w) (w_scope w) = Some state"
    "p_expectedEpoch (pp_payload prop) = Some (gs_epoch state)"
    using assms(3) by (auto simp: epoch_current_def split: option.splits)
  obtain cfg where cfg: "current_config w = Some cfg" "ko_verdict (kernel_output_for prop no_drift cfg) = ''accept''"
    using assms(4) by (auto simp: unread_verdict_def)
  have rd: "read_drift sc (tick ?w) = (tick (tick ?w), Inr no_drift)" for sc
    using assms(1) by (simp add: read_drift_def s3_get_def and_then_def)
  have sc: "scope_config (w_scope w) (tick (tick ?w)) = (tick (tick ?w), Inr cfg)"
    using scope_config_cases[of "tick (tick ?w)"] cfg(1) by (auto simp: current_config_def)
  obtain w' where d: "decide_with_context prop state no_drift cfg (tick (tick ?w)) = (w', Inr
      (decided_result prop state no_drift (kernel_output_for prop no_drift cfg)
        (buildDecisionRecordFromKernel (next_fresh (tick (tick ?w))) (kernel_output_for prop no_drift cfg)
           (w_policy_version w) True)
        (checkPermission (w_acl w) (pp_agent prop) ''writer'' (pp_target_node prop))))"
    using decide_with_context_result[of "prop" state no_drift cfg "tick (tick ?w)"] by auto
  have "de_outcome (decided_result prop state no_drift (kernel_output_for prop no_drift cfg) rec
      (checkPermission (w_acl w) (pp_agent prop) ''writer'' (pp_target_node prop))) = OApprove" for rec
    using cfg(2) assms(5) by (simp add: decided_result_def kernel_decision_def permission_decision_def permitted_def)
  moreover have "loadState (w_scope w) ?w = (tick ?w, Inr (Some state))"
    using st assms(1) by (simp add: loadState_def external_def)
  ultimately show ?thesis using d assms(2) st(2) rd sc
    by (simp add: evaluateProposalDeterministic_def and_then_def)
qed

definition drift_checked_world :: world where
  "drift_checked_world = (world_at ''default'' DriftChecked 2) \<lparr> w_faults := (\<lambda>i. i = 1) \<rparr>"

definition blocked_proposal :: proposal where
  "blocked_proposal = (sample_proposal (Some ''MASTER'')) \<lparr> pp_payload := empty_payload \<lparr> p_expectedEpoch := Some 2,
     p_runId := Some ''run'', p_from := Some ''DriftChecked'', p_to := Some ''EvidencePropagated'' \<rparr> \<rparr>"

definition high_drift :: "(string, s3_doc) jsmap" where
  "high_drift = [(scopeDriftKey ''default'', S3Drift \<lparr> di_level = ''high'', di_types = [''contradiction''] \<rparr> False)]"

theorem drift_gate_fails_open_witness:
  "present_verdict (drift_checked_world \<lparr> w_s3 := high_drift \<rparr>) blocked_proposal = Some ''reject''
   \<and> (\<exists>w' res. evaluateProposalDeterministic blocked_proposal (drift_checked_world \<lparr> w_s3 := high_drift \<rparr>)
          = (w', Inr res) \<and> de_outcome res = OApprove)"
proof
  show "present_verdict (drift_checked_world \<lparr> w_s3 := high_drift \<rparr>) blocked_proposal = Some ''reject''"
    by code_simp
  have "w_faults drift_checked_world = (\<lambda>i. i = Suc (w_tick drift_checked_world))"
    by (simp add: drift_checked_world_def world_at_def empty_world_def)
  moreover have "pp_action blocked_proposal = ''advance_state''" by (simp add: blocked_proposal_def sample_proposal_def)
  moreover have "epoch_current drift_checked_world blocked_proposal"
    "unread_verdict drift_checked_world blocked_proposal = Some ''accept''"
    "permitted drift_checked_world blocked_proposal" by code_simp+
  ultimately show "\<exists>w' res. evaluateProposalDeterministic blocked_proposal (drift_checked_world \<lparr> w_s3 := high_drift \<rparr>)
          = (w', Inr res) \<and> de_outcome res = OApprove"
    by (rule drift_gate_fails_open)
qed

end
