(* ===== verification/Governance_Agent.thy ===== *)
theory Governance_Agent
  imports Governance_Safety
begin

text \<open>
  The model-driven half of \<open>src/agents/governanceAgent.ts\<close>: the tools the governance LLM may call,
  the oversight agent, the equivalence proposals and the message handler of the governance loop.

  The LLM is a parameter: a run of an agent is any list of tool calls followed by a normal or a
  failing end (an open circuit breaker, a timeout or a provider error is a failing end). The
  lemmas therefore hold for an adversarial model. A tool that raises ends the run. No module
  registers an obligation handler, so the registry is empty.
\<close>

section \<open>The tools of the governance agent\<close>

text \<open>A session is the shared world and the flag \<open>decided\<close> of the tool closure.\<close>

type_synonym session = "world \<times> bool"

definition lift_world :: "(world, 'a) exec \<Rightarrow> (session, 'a) exec" where
  "lift_world m = (\<lambda>(w, d). case m w of (w', r) \<Rightarrow> ((w', d), r))"

definition set_decided :: "(session, unit) exec" where
  "set_decided = (\<lambda>(w, d). ((w, True), Inr ()))"

datatype tool_result = ToolOk | ToolError string

definition agent_path :: string where
  "agent_path = ''processProposalWithAgent''"

definition config_mode :: "governance_config \<Rightarrow> string" where
  "config_mode cfg = coalesce (gc_mode cfg) ''YOLO''"

definition tool_kernel :: "proposal \<Rightarrow> drift_input \<Rightarrow> governance_config \<Rightarrow> kernel_output" where
  "tool_kernel prop drift cfg =
     evaluateKernel (proposal_request (pp_payload prop) drift (config_mode cfg)) cfg"

text \<open>The kernel check shared by \<open>checkTransition\<close> and \<open>publishApproval\<close>: evaluate, persist the record
  (a failure is logged only), run the obligations.\<close>

definition record_check ::
  "proposal \<Rightarrow> drift_input \<Rightarrow> governance_config \<Rightarrow> (world, kernel_output) exec" where
  "record_check prop drift cfg w =
    (let out = tool_kernel prop drift cfg;
         record = buildDecisionRecordFromKernel (next_fresh w) out (w_policy_version w) False in
     and_then
       (in_order
         [modify (\<lambda>w. w \<lparr> w_uuids := w_uuids w + 1 \<rparr>),
          try_catch (persistDecisionRecord record agent_path (w_scope w) (config_mode cfg)) (\<lambda>_. ret ()),
          executeObligations [] (dr_obligations record)])
       (\<lambda>_. ret out) w)"

definition checkTransition_tool :: "proposal \<Rightarrow> (world, bool \<times> string) exec" where
  "checkTransition_tool prop w =
     and_then (read_drift (w_scope w))
       (\<lambda>drift. and_then (scope_config (w_scope w))
         (\<lambda>cfg.
            if p_from (pp_payload prop) = None \<or> p_to (pp_payload prop) = None
            then ret (False, ''missing_from_or_to'')
            else and_then (record_check prop drift cfg)
                   (\<lambda>out. ret (ko_verdict out \<noteq> ''reject'', ko_reason out)))) w"

definition checkPolicy_tool :: "proposal \<Rightarrow> (world, check_result) exec" where
  "checkPolicy_tool prop = check_permission (pp_agent prop) (pp_target_node prop)"

text \<open>The guards of \<open>publishApproval\<close>, in the code's order.\<close>

definition approval_guards :: "proposal \<Rightarrow> (world, string + graph_state) exec" where
  "approval_guards prop w =
     and_then (loadState (w_scope w))
       (\<lambda>st. case st of
          None \<Rightarrow> ret (Inl ''state_epoch_mismatch'')
        | Some state \<Rightarrow>
           if Some (gs_epoch state) \<noteq> p_expectedEpoch (pp_payload prop)
           then ret (Inl ''state_epoch_mismatch'')
           else and_then (read_drift (w_scope w))
             (\<lambda>drift. and_then (scope_config (w_scope w))
               (\<lambda>cfg.
                  if p_from (pp_payload prop) = None \<or> p_to (pp_payload prop) = None
                  then ret (Inl ''missing_from_or_to'')
                  else and_then (record_check prop drift cfg)
                    (\<lambda>out.
                       if ko_verdict out = ''reject'' then ret (Inl (ko_reason out))
                       else and_then (check_permission (pp_agent prop) (pp_target_node prop))
                         (\<lambda>perm.
                            if \<not> cr_allowed perm
                            then and_then recordPolicyViolation
                                   (\<lambda>_. ret (Inl (coalesce (cr_error perm) ''policy_denied'')))
                            else ret (Inr state)))))) w"

definition publish_approval ::
  "string \<Rightarrow> proposal \<Rightarrow> string \<Rightarrow> graph_state \<Rightarrow> (world, unit) exec" where
  "publish_approval agentId prop reason state w =
     in_order
       [recordProposal (pp_action prop) ''approved'',
        publish ''swarm.actions.advance_state''
          (ActionMsg (approved_action (pp_id prop) agentId reason
             (advance_payload (pp_payload prop) state) (w_scope w))),
        appendEvent (governance_event ''proposal_approved'' (pp_id prop) (Some reason)
          agent_path (w_scope w))] w"

definition publishApproval_tool ::
  "string \<Rightarrow> proposal \<Rightarrow> string option \<Rightarrow> (session, tool_result) exec" where
  "publishApproval_tool agentId prop reason = (\<lambda>(w, decided).
     if decided then ((w, decided), Inr (ToolError ''already_decided''))
     else and_then (lift_world (approval_guards prop))
       (\<lambda>g. case g of
          Inl e \<Rightarrow> ret (ToolError e)
        | Inr state \<Rightarrow>
            and_then set_decided
              (\<lambda>_. and_then (lift_world
                     (publish_approval agentId prop (coalesce reason ''policy_passed'') state))
                (\<lambda>_. ret ToolOk))) (w, decided))"

definition publish_rejection :: "proposal \<Rightarrow> string \<Rightarrow> (world, unit) exec" where
  "publish_rejection prop reason w =
     in_order
       [recordProposal (pp_action prop) ''rejected'',
        publish (''swarm.rejections.'' @ pp_action prop) (RejectionMsg (pp_id prop) reason ''rejected''),
        appendEvent (governance_event ''proposal_rejected'' (pp_id prop) (Some reason)
          agent_path (w_scope w))] w"

definition publishRejection_tool ::
  "proposal \<Rightarrow> string option \<Rightarrow> (session, tool_result) exec" where
  "publishRejection_tool prop reason = (\<lambda>(w, decided).
     if decided then ((w, decided), Inr ToolOk)
     else and_then set_decided
       (\<lambda>_. and_then (lift_world (publish_rejection prop (coalesce reason ''rejected'')))
          (\<lambda>_. ret ToolOk)) (w, decided))"

datatype gov_call =
    CallReadState
  | CallReadDrift
  | CallReadRules
  | CallCheckTransition
  | CallCheckPolicy
  | CallPublishApproval "string option"
  | CallPublishRejection "string option"

text \<open>\<open>readGovernanceRules\<close> reads the policy file.\<close>

fun governance_tool :: "string \<Rightarrow> proposal \<Rightarrow> gov_call \<Rightarrow> (session, unit) exec" where
  "governance_tool agentId prop CallReadState =
     lift_world (\<lambda>w. and_then (loadState (w_scope w)) (\<lambda>_. ret ()) w)"
| "governance_tool agentId prop CallReadDrift =
     lift_world (\<lambda>w. and_then (read_drift (w_scope w)) (\<lambda>_. ret ()) w)"
| "governance_tool agentId prop CallReadRules =
     lift_world (and_then load_policy_config (\<lambda>_. ret ()))"
| "governance_tool agentId prop CallCheckTransition =
     lift_world (and_then (checkTransition_tool prop) (\<lambda>_. ret ()))"
| "governance_tool agentId prop CallCheckPolicy =
     lift_world (and_then (checkPolicy_tool prop) (\<lambda>_. ret ()))"
| "governance_tool agentId prop (CallPublishApproval reason) =
     and_then (publishApproval_tool agentId prop reason) (\<lambda>_. ret ())"
| "governance_tool agentId prop (CallPublishRejection reason) =
     and_then (publishRejection_tool prop reason) (\<lambda>_. ret ())"

section \<open>Running the agents\<close>

record 'c llm_run =
  lr_calls :: "'c list"
  lr_failure :: "js_error option"

definition run_tools :: "('c \<Rightarrow> ('s, unit) exec) \<Rightarrow> 'c llm_run \<Rightarrow> ('s, unit) exec" where
  "run_tools tool run =
     and_then (in_order (map tool (lr_calls run)))
       (\<lambda>_. case lr_failure run of None \<Rightarrow> ret () | Some e \<Rightarrow> raise e)"

text \<open>\<open>llm = None\<close>: no model is configured.\<close>

definition processProposalWithAgent ::
  "string \<Rightarrow> proposal \<Rightarrow> gov_call llm_run option \<Rightarrow> (world, unit) exec" where
  "processProposalWithAgent agentId prop llm w =
    (case llm of
       None \<Rightarrow> processProposal agentId prop w
     | Some run \<Rightarrow>
        (case run_tools (governance_tool agentId prop) run (w, False) of
           ((w', decided), Inl e) \<Rightarrow>
             if decided then (w', Inl e) else processProposal agentId prop w'
         | ((w', decided), Inr _) \<Rightarrow>
             if decided then (w', Inr ()) else processProposal agentId prop w'))"

datatype oversight_call = CallAccept | CallEscalateLLM "gov_call llm_run option" | CallEscalateHuman

definition chosen_session :: "(world, unit) exec \<Rightarrow> (session, unit) exec" where
  "chosen_session m = and_then set_decided (\<lambda>_. lift_world m)"

definition escalate_to_human :: "string \<Rightarrow> proposal \<Rightarrow> deterministic_result \<Rightarrow> (world, unit) exec" where
  "escalate_to_human agentId prop result =
    (case de_payload result of
       Some p \<Rightarrow> commit_pending prop p ''oversight_escalateToHuman''
     | None \<Rightarrow> commitDeterministicResult agentId prop result ''processProposal'')"

text \<open>Here the flag of the session is \<open>chosen.value !== null\<close>; nothing stops a second tool call.\<close>

fun oversight_tool ::
  "string \<Rightarrow> proposal \<Rightarrow> deterministic_result \<Rightarrow> oversight_call \<Rightarrow> (session, unit) exec" where
  "oversight_tool agentId prop result CallAccept =
     chosen_session (commitDeterministicResult agentId prop result ''oversight_acceptDeterministic'')"
| "oversight_tool agentId prop result (CallEscalateLLM llm) =
     chosen_session (processProposalWithAgent agentId prop llm)"
| "oversight_tool agentId prop result CallEscalateHuman =
     chosen_session (escalate_to_human agentId prop result)"

definition runOversightAgent ::
  "string \<Rightarrow> proposal \<Rightarrow> deterministic_result \<Rightarrow> oversight_call llm_run option \<Rightarrow> (world, unit) exec" where
  "runOversightAgent agentId prop result llm w =
    (case llm of
       None \<Rightarrow> commitDeterministicResult agentId prop result ''processProposal'' w
     | Some run \<Rightarrow>
        (case run_tools (oversight_tool agentId prop result) run (w, False) of
           ((w', chosen), Inl e) \<Rightarrow>
             if chosen then (w', Inl e)
             else commitDeterministicResult agentId prop result ''oversight_acceptDeterministic'' w'
         | ((w', chosen), Inr _) \<Rightarrow>
             if chosen then (w', Inr ())
             else commitDeterministicResult agentId prop result ''oversight_acceptDeterministic'' w'))"

section \<open>Equivalence proposals\<close>

definition equivalence_event :: "string \<Rightarrow> string \<Rightarrow> decision_record \<Rightarrow> string \<Rightarrow> json_obj" where
  "equivalence_event type proposalId record scope =
     [(''type'', JStr type), (''proposal_id'', JStr proposalId),
      (''decision_id'', JStr (dr_decision_id record)), (''reason'', JStr (dr_reason record)),
      (''scope_id'', JStr scope)]"

definition equivalence_approved_action :: "proposal \<Rightarrow> decision_record \<Rightarrow> string \<Rightarrow> action" where
  "equivalence_approved_action prop record scope =
     \<lparr> ac_proposal_id = pp_id prop, ac_approved_by = ''auto'', ac_result = ''approved'',
       ac_reason = dr_reason record, ac_action_type = Some equivalence_action,
       ac_payload = Some ((pp_payload prop) \<lparr> p_decision_id := Some (dr_decision_id record),
          p_policy_version := Some (dr_policy_version record), p_scope_id := Some scope \<rparr>),
       ac_option = None, ac_days = None \<rparr>"

definition commit_equivalence ::
  "proposal \<Rightarrow> equivalence_decision \<Rightarrow> decision_record \<Rightarrow> string \<Rightarrow> (world, unit) exec" where
  "commit_equivalence prop d record scope =
    (if ed_outcome d = ''approve'' then
       in_order
         [recordProposal equivalence_action ''approved'',
          publish (''swarm.actions.'' @ equivalence_action)
            (ActionMsg (equivalence_approved_action prop record scope)),
          appendEvent (equivalence_event ''equivalence_approved'' (pp_id prop) record scope)]
     else
       in_order
         [recordProposal equivalence_action ''rejected'',
          appendEvent (equivalence_event ''equivalence_rejected'' (pp_id prop) record scope)])"

definition processEquivalenceProposal :: "rat \<Rightarrow> proposal \<Rightarrow> (world, unit) exec" where
  "processEquivalenceProposal min_conf prop w =
     and_then (scope_config (w_scope w))
       (\<lambda>cfg. case decideEquivalence min_conf (pp_payload prop) of
          Inl e \<Rightarrow> raise e
        | Inr d \<Rightarrow>
           (let record = buildEquivalenceDecisionRecord (next_fresh w) d (w_policy_version w) in
            in_order
              [modify (\<lambda>w. w \<lparr> w_uuids := w_uuids w + 1 \<rparr>),
               metric ''governance_mode'' (w_scope w @ '':'' @ config_mode cfg),
               try_catch (persistDecisionRecord record ''processProposal'' (w_scope w) (config_mode cfg))
                 (\<lambda>_. ret ()),
               commit_equivalence prop d record (w_scope w)])) w"

section \<open>The message handler\<close>

record governance_env =
  ge_agent_id :: string
  ge_consumer :: string
  ge_min_confidence :: rat

text \<open>\<open>oversight = None\<close>: no chat model is configured.\<close>

definition isProcessed :: "string \<Rightarrow> string \<Rightarrow> (world, bool) exec" where
  "isProcessed consumer msgId = external (\<lambda>w. (w, Inr ((consumer, msgId) \<in> set (w_processed w))))"

definition markProcessed :: "string \<Rightarrow> string \<Rightarrow> (world, unit) exec" where
  "markProcessed consumer msgId =
     external (\<lambda>w. (if (consumer, msgId) \<in> set (w_processed w) then w
                    else w \<lparr> w_processed := w_processed w @ [(consumer, msgId)] \<rparr>, Inr ()))"

definition tryMarkProcessed :: "string \<Rightarrow> string \<Rightarrow> (world, bool) exec" where
  "tryMarkProcessed consumer msgId =
     external (\<lambda>w. if (consumer, msgId) \<in> set (w_processed w) then (w, Inr False)
                   else (w \<lparr> w_processed := w_processed w @ [(consumer, msgId)] \<rparr>, Inr True))"

definition decide_proposal ::
  "governance_env \<Rightarrow> oversight_call llm_run option \<Rightarrow> proposal \<Rightarrow> (world, unit) exec" where
  "decide_proposal env oversight prop =
    (if pp_action prop = equivalence_action
     then processEquivalenceProposal (ge_min_confidence env) prop
     else if pp_mode prop = Some ''MASTER'' \<or> pp_mode prop = Some ''MITL''
     then processProposal (ge_agent_id env) prop
     else and_then (evaluateProposalDeterministic prop)
       (\<lambda>result. case oversight of
          None \<Rightarrow> commitDeterministicResult (ge_agent_id env) prop result ''processProposal''
        | Some _ \<Rightarrow> runOversightAgent (ge_agent_id env) prop result oversight))"

definition handle_proposal ::
  "governance_env \<Rightarrow> oversight_call llm_run option \<Rightarrow> string \<Rightarrow> proposal \<Rightarrow> (world, unit) exec" where
  "handle_proposal env oversight msgId prop =
     and_then (isProcessed (ge_consumer env) msgId)
       (\<lambda>seen. if seen then ret ()
         else in_order
           [decide_proposal env oversight (prop \<lparr> pp_mode := Some (coalesce (pp_mode prop) ''YOLO'') \<rparr>),
            (\<lambda>w. publish ''swarm.finality.evaluate'' (EvaluateMsg (w_scope w)) w),
            markProcessed (ge_consumer env) msgId])"

end
