(* ===== verification/Governance_Agent_Safety.thy ===== *)
theory Governance_Agent_Safety
  imports Governance_Agent
begin

text \<open>
  What holds of the model-driven governance path for every behaviour of the model. The session
  invariant says that the context of the decision does not change, that every approved action on
  the bus was cleared by the guards, and that the flag \<open>decided\<close> bounds the number of outcomes. The
  last properties show where the guards are weaker than those of the rule-based path.
\<close>

section \<open>Cleared actions\<close>

definition same_context :: "world \<Rightarrow> world \<Rightarrow> bool" where
  "same_context w w' =
    (w_states w' = w_states w \<and> w_s3 w' = w_s3 w \<and> w_scope w' = w_scope w
     \<and> w_policy_file w' = w_policy_file w \<and> w_env_mode w' = w_env_mode w \<and> w_acl w' = w_acl w
     \<and> w_faults w' = w_faults w)"

definition tool_verdict :: "world \<Rightarrow> proposal \<Rightarrow> string option" where
  "tool_verdict w prop =
    (case (current_drift w, current_config w) of
       (Some d, Some c) \<Rightarrow> Some (ko_verdict (tool_kernel prop d c))
     | _ \<Rightarrow> None)"

definition unread_tool_verdict :: "world \<Rightarrow> proposal \<Rightarrow> string option" where
  "unread_tool_verdict w prop = map_option (\<lambda>c. ko_verdict (tool_kernel prop no_drift c)) (current_config w)"

definition cleared :: "world \<Rightarrow> proposal \<Rightarrow> bool" where
  "cleared w prop =
    (epoch_current w prop \<and> permitted w prop
     \<and> (present_verdict w prop = Some ''accept''
        \<or> tool_verdict w prop \<in> {Some ''accept'', Some ''escalate''}
        \<or> (some_call_fails w \<and> (unread_verdict w prop = Some ''accept''
             \<or> unread_tool_verdict w prop \<in> {Some ''accept'', Some ''escalate''}))))"

lemma same_context_refl [simp]: "same_context w w"
  by (simp add: same_context_def)

lemma same_context_trans: "same_context w w' \<Longrightarrow> same_context w' w'' \<Longrightarrow> same_context w w''"
  by (simp add: same_context_def)

lemma context_lookups:
  assumes "same_context w w'"
  shows "epoch_current w' p = epoch_current w p" "permitted w' p = permitted w p"
    "present_verdict w' p = present_verdict w p" "tool_verdict w' p = tool_verdict w p"
    "cleared w' p = cleared w p" "current_drift w' = current_drift w"
    "current_config w' = current_config w"
  using assms
  by (simp_all add: same_context_def epoch_current_def permitted_def present_verdict_def
      tool_verdict_def unread_verdict_def unread_tool_verdict_def some_call_fails_def cleared_def
      current_drift_def current_config_def)

lemma keeps_context:
  assumes "keeps w_states m" "keeps w_s3 m" "keeps w_scope m" "keeps w_policy_file m"
    "keeps w_env_mode m" "keeps w_acl m" "keeps w_faults m" "m w = (w', r)"
  shows "same_context w w'"
  using assms keepsD[of w_states m w w' r] keepsD[of w_s3 m w w' r] keepsD[of w_scope m w w' r]
    keepsD[of w_policy_file m w w' r] keepsD[of w_env_mode m w w' r] keepsD[of w_acl m w w' r]
    keepsD[of w_faults m w w' r]
  by (simp add: same_context_def)

lemma processProposal_context: "processProposal agentId prop w = (w', r) \<Longrightarrow> same_context w w'"
  by (rule keeps_context[rotated -1], assumption)
    (unfold processProposal_def, (intro keeps_and_then keeps_evaluate keeps_commit; simp)+)

lemma keeps_record_check:
  assumes "\<And>w. f (tick w) = f w" "\<And>w l. f (w \<lparr> w_uuids := l \<rparr>) = f w"
    "\<And>w l. f (w \<lparr> w_records := l \<rparr>) = f w"
  shows "keeps f (record_check prop d c)"
proof -
  have "keeps f (modify (\<lambda>w. w \<lparr> w_uuids := w_uuids w + 1 \<rparr>))" by (simp add: keeps_def assms)
  moreover have "keeps f (executeObligations [] obs)" for obs
  proof -
    have "obligation_effect [] o' = id" for o' :: obligation
      by (auto simp: obligation_effect_def executeObligation_def)
    then have "obligation_effect ([] :: world obligation_registry) = (\<lambda>_. id)" by (rule ext)
    then have "fold (obligation_effect []) obs w = w" for w :: world by (induction obs) auto
    then show ?thesis by (simp add: keeps_def executeObligations_fold)
  qed
  moreover have "keeps f (try_catch (persistDecisionRecord a b s e) (\<lambda>_. ret ()))" for a b s e
    by (intro effect_intros assms)
  ultimately have "keeps f (and_then (in_order
       [modify (\<lambda>w. w \<lparr> w_uuids := w_uuids w + 1 \<rparr>),
        try_catch (persistDecisionRecord r agent_path s (config_mode c)) (\<lambda>_. ret ()),
        executeObligations [] (dr_obligations r)]) (\<lambda>_. ret (tool_kernel prop d c)))" for r s
    by (intro keeps_and_then keeps_in_order keeps_ret) simp
  then show ?thesis by (simp add: keeps_def record_check_def Let_def)
qed

lemma keeps_guards:
  assumes "\<And>w. f (tick w) = f w" "\<And>w l. f (w \<lparr> w_uuids := l \<rparr>) = f w"
    "\<And>w l. f (w \<lparr> w_records := l \<rparr>) = f w" "\<And>w l. f (w \<lparr> w_metrics := l \<rparr>) = f w"
  shows "keeps f (approval_guards prop)"
proof -
  have l: "keeps f (loadState s)" for s
    using assms(1) by (simp add: keeps_def loadState_def external_def)
  have d: "keeps f (read_drift s)" for s by (rule keeps_read_drift) (rule assms(1))
  have p: "keeps f (check_permission a t)" for a t
    using assms(1) by (simp add: keeps_def check_permission_def)
  have "keeps f (and_then (loadState s) (\<lambda>st. case st of
          None \<Rightarrow> ret (Inl ''state_epoch_mismatch'')
        | Some state \<Rightarrow>
           if Some (gs_epoch state) \<noteq> p_expectedEpoch (pp_payload prop)
           then ret (Inl ''state_epoch_mismatch'')
           else and_then (read_drift s) (\<lambda>drift. and_then (scope_config s) (\<lambda>cfg.
                  if p_from (pp_payload prop) = None \<or> p_to (pp_payload prop) = None
                  then ret (Inl ''missing_from_or_to'')
                  else and_then (record_check prop drift cfg)
                    (\<lambda>out. if ko_verdict out = ''reject'' then ret (Inl (ko_reason out))
                       else and_then (check_permission (pp_agent prop) (pp_target_node prop))
                         (\<lambda>perm. if \<not> cr_allowed perm
                            then and_then recordPolicyViolation
                                   (\<lambda>_. ret (Inl (coalesce (cr_error perm) ''policy_denied'')))
                            else ret (Inr state)))))))" for s
    by (intro keeps_and_then keeps_case_option keeps_if keeps_ret l d p keeps_scope_config
        keeps_record_check keeps_record assms)
  then show ?thesis by (simp add: keeps_def approval_guards_def)
qed

lemma guards_context: "approval_guards prop w = (w', r) \<Longrightarrow> same_context w w'"
  by (rule keeps_context[rotated -1], assumption) (intro keeps_guards; simp)+

lemma tool_kernel_verdict: "ko_verdict (tool_kernel prop d c) \<in> {''accept'', ''reject'', ''escalate''}"
  by (cases "gov_from_str (kq_mode (proposal_request (pp_payload prop) d (config_mode c)))")
    (auto simp: tool_kernel_def evaluateKernel_verdict Let_def)

lemma record_check_value: "record_check prop d c w = (w', Inr out) \<Longrightarrow> out = tool_kernel prop d c"
  by (auto simp: record_check_def Let_def and_then_eq_Inr)

text \<open>The guards let through exactly what is current, not rejected and permitted.\<close>

lemma guards_cleared:
  assumes "approval_guards prop w = (w', Inr (Inr state))"
  shows "map_get (w_states w) (w_scope w) = Some state \<and> epoch_current w prop \<and> permitted w prop
    \<and> (tool_verdict w prop \<in> {Some ''accept'', Some ''escalate''}
         \<or> (some_call_fails w \<and> unread_tool_verdict w prop \<in> {Some ''accept'', Some ''escalate''}))"
proof -
  obtain st where st: "map_get (w_states w) (w_scope w) = Some st"
    "Some (gs_epoch st) = p_expectedEpoch (pp_payload prop)"
    and m: "and_then (read_drift (w_scope w))
             (\<lambda>drift. and_then (scope_config (w_scope w))
               (\<lambda>cfg. if p_from (pp_payload prop) = None \<or> p_to (pp_payload prop) = None
                  then ret (Inl ''missing_from_or_to'')
                  else and_then (record_check prop drift cfg)
                    (\<lambda>out. if ko_verdict out = ''reject'' then ret (Inl (ko_reason out))
                       else and_then (check_permission (pp_agent prop) (pp_target_node prop))
                         (\<lambda>perm. if \<not> cr_allowed perm
                            then and_then recordPolicyViolation
                                   (\<lambda>_. ret (Inl (coalesce (cr_error perm) ''policy_denied'')))
                            else ret (Inr st))))) (tick w) = (w', Inr (Inr state))"
    using assms
    by (auto simp: approval_guards_def and_then_eq_Inr loadState_cases split: option.splits if_splits)
  then obtain d w1 where d: "read_drift (w_scope w) (tick w) = (w1, Inr d)"
    and m1: "and_then (scope_config (w_scope w))
               (\<lambda>cfg. if p_from (pp_payload prop) = None \<or> p_to (pp_payload prop) = None
                  then ret (Inl ''missing_from_or_to'')
                  else and_then (record_check prop d cfg)
                    (\<lambda>out. if ko_verdict out = ''reject'' then ret (Inl (ko_reason out))
                       else and_then (check_permission (pp_agent prop) (pp_target_node prop))
                         (\<lambda>perm. if \<not> cr_allowed perm
                            then and_then recordPolicyViolation
                                   (\<lambda>_. ret (Inl (coalesce (cr_error perm) ''policy_denied'')))
                            else ret (Inr st)))) w1 = (w', Inr (Inr state))"
    unfolding and_then_eq_Inr[of "read_drift (w_scope w)"] by blast
  obtain k where cd: "sees_drift w d" "w1 = w \<lparr> w_tick := k \<rparr>"
    using read_drift_sees[OF d] by (auto simp: tick_def)
  obtain cfg w2 where c: "scope_config (w_scope w) w1 = (w2, Inr cfg)"
    and m2: "(if p_from (pp_payload prop) = None \<or> p_to (pp_payload prop) = None
                  then ret (Inl ''missing_from_or_to'')
                  else and_then (record_check prop d cfg)
                    (\<lambda>out. if ko_verdict out = ''reject'' then ret (Inl (ko_reason out))
                       else and_then (check_permission (pp_agent prop) (pp_target_node prop))
                         (\<lambda>perm. if \<not> cr_allowed perm
                            then and_then recordPolicyViolation
                                   (\<lambda>_. ret (Inl (coalesce (cr_error perm) ''policy_denied'')))
                            else ret (Inr st)))) w2 = (w', Inr (Inr state))"
    using m1 unfolding and_then_eq_Inr[of "scope_config (w_scope w)"] by blast
  have cc: "current_config w = Some cfg" "w2 = w1"
    using c cd scope_config_cases[of w1] by (auto split: option.splits)
  obtain out w3 where o: "record_check prop d cfg w2 = (w3, Inr out)" "ko_verdict out \<noteq> ''reject''"
    and m3: "cr_allowed (checkPermission (w_acl w3) (pp_agent prop) ''writer'' (pp_target_node prop))"
      "st = state"
    using m2
    by (auto simp: and_then_eq_Inr check_permission_def split: if_splits)
  have "w_acl w3 = w_acl w"
    using keepsD[OF keeps_record_check[of w_acl] o(1)] cc(2) cd(2) by simp
  then show ?thesis
    using st m3 cd cc o(2) record_check_value[OF o(1)] tool_kernel_verdict[of "prop" d cfg]
    by (auto simp: epoch_current_def permitted_def tool_verdict_def unread_tool_verdict_def sees_drift_def)
qed

section \<open>The session invariant\<close>

definition actions_cleared :: "world \<Rightarrow> proposal \<Rightarrow> (string \<times> message) list \<Rightarrow> bool" where
  "actions_cleared w0 prop ms =
     (\<forall>m \<in> set ms. (\<exists>a. snd m = ActionMsg a) \<longrightarrow> cleared w0 prop)"

definition session_inv :: "world \<Rightarrow> proposal \<Rightarrow> session \<Rightarrow> bool" where
  "session_inv w0 prop s =
    (same_context w0 (fst s)
     \<and> (\<exists>ms. w_bus (fst s) = w_bus w0 @ ms \<and> length ms \<le> (if snd s then 1 else 0)
          \<and> actions_cleared w0 prop ms))"

lemma session_inv_start: "session_inv w (prop) (w, False)"
  by (simp add: session_inv_def actions_cleared_def)

text \<open>Computations that only read.\<close>

definition reads_only :: "(world, 'a) exec \<Rightarrow> bool" where
  "reads_only m = (\<forall>w. same_context w (fst (m w)) \<and> w_bus (fst (m w)) = w_bus w)"

lemma reads_onlyI:
  assumes "keeps w_states m" "keeps w_s3 m" "keeps w_scope m" "keeps w_policy_file m"
    "keeps w_env_mode m" "keeps w_acl m" "keeps w_faults m" "keeps w_bus m"
  shows "reads_only m"
  using assms by (simp add: reads_only_def same_context_def keeps_def)

lemma reads_only_session:
  "reads_only m \<Longrightarrow> session_inv w0 p s \<Longrightarrow> session_inv w0 p (fst (lift_world m s))"
proof -
  assume "reads_only m" and i: "session_inv w0 p s"
  then have "same_context (fst s) (fst (m (fst s)))" "w_bus (fst (m (fst s))) = w_bus (fst s)"
    by (simp_all add: reads_only_def)
  moreover have "fst (lift_world m s) = (fst (m (fst s)), snd s)"
    by (simp add: lift_world_def split_beta)
  ultimately show ?thesis
    using i same_context_trans[of w0 "fst s" "fst (m (fst s))"] by (simp add: session_inv_def)
qed

lemma keeps_reads:
  assumes "\<And>w. f (tick w) = f w"
  shows "keeps f (loadState sc)" "keeps f (read_drift sc)" "keeps f (check_permission a t)"
  using assms by (simp_all add: keeps_def loadState_def check_permission_def external_def keeps_read_drift[unfolded keeps_def])

lemma keeps_check_transition:
  assumes "\<And>w. f (tick w) = f w" "\<And>w l. f (w \<lparr> w_uuids := l \<rparr>) = f w"
    "\<And>w l. f (w \<lparr> w_records := l \<rparr>) = f w"
  shows "keeps f (checkTransition_tool prop)"
proof -
  have "keeps f (and_then (read_drift s)
       (\<lambda>drift. and_then (scope_config s)
         (\<lambda>cfg. if p_from (pp_payload prop) = None \<or> p_to (pp_payload prop) = None
            then ret (False, ''missing_from_or_to'')
            else and_then (record_check prop drift cfg)
                   (\<lambda>out. ret (ko_verdict out \<noteq> ''reject'', ko_reason out)))))" for s
    by (intro keeps_and_then keeps_if keeps_ret keeps_reads keeps_scope_config keeps_record_check assms)
  then show ?thesis by (simp add: keeps_def checkTransition_tool_def)
qed

lemma reads_only_tools:
  "reads_only (\<lambda>w. and_then (loadState (w_scope w)) (\<lambda>_. ret ()) w)"
  "reads_only (\<lambda>w. and_then (read_drift (w_scope w)) (\<lambda>_. ret ()) w)"
  "reads_only (and_then load_policy_config (\<lambda>_. ret ()))"
  "reads_only (and_then (checkTransition_tool prop) (\<lambda>_. ret ()))"
  "reads_only (and_then (checkPolicy_tool prop) (\<lambda>_. ret ()))"
proof -
  have a: "keeps f (\<lambda>w. and_then (loadState (w_scope w)) (\<lambda>_. ret ()) w)"
    "keeps f (\<lambda>w. and_then (read_drift (w_scope w)) (\<lambda>_. ret ()) w)"
    if "\<And>w. f (tick w) = f w" for f :: "world \<Rightarrow> 'z"
  proof -
    have "keeps f (and_then (loadState sc) (\<lambda>_. ret ()))"
      "keeps f (and_then (read_drift sc) (\<lambda>_. ret ()))" for sc
      by (rule keeps_and_then[OF keeps_reads(1)[where f = f, OF that] keeps_ret],
          rule keeps_and_then[OF keeps_reads(2)[where f = f, OF that] keeps_ret])
    then show "keeps f (\<lambda>w. and_then (loadState (w_scope w)) (\<lambda>_. ret ()) w)"
      "keeps f (\<lambda>w. and_then (read_drift (w_scope w)) (\<lambda>_. ret ()) w)"
      by (simp_all add: keeps_def)
  qed
  show "reads_only (\<lambda>w. and_then (loadState (w_scope w)) (\<lambda>_. ret ()) w)"
    "reads_only (\<lambda>w. and_then (read_drift (w_scope w)) (\<lambda>_. ret ()) w)"
    by (intro reads_onlyI a; simp)+
  show "reads_only (and_then load_policy_config (\<lambda>_. ret ()))"
    by (intro reads_onlyI effect_intros)
  show "reads_only (and_then (checkTransition_tool prop) (\<lambda>_. ret ()))"
    by (intro reads_onlyI keeps_and_then keeps_ret keeps_check_transition; simp)
  show "reads_only (and_then (checkPolicy_tool prop) (\<lambda>_. ret ()))"
    unfolding checkPolicy_tool_def
    by (intro reads_onlyI keeps_and_then keeps_ret keeps_reads; simp)
qed

text \<open>A sequence that publishes at most one message, from an undecided session.\<close>

lemma session_inv_publish:
  assumes "session_inv w0 prop (w, False)" "same_context w w'"
    "w_bus w' = w_bus w \<or> w_bus w' = w_bus w @ [m]"
    "(\<exists>a. snd m = ActionMsg a) \<Longrightarrow> cleared w0 prop"
  shows "session_inv w0 prop (w', True)"
  using assms same_context_trans[of w0 w w']
  by (auto simp: session_inv_def actions_cleared_def)

lemma quiet_bus:
  "logs w_bus [] (recordProposal a b)" "logs w_bus [] (appendEvent e)"
  by (rule logs_keeps, intro effect_intros; simp)+

lemma three_context:
  "same_context v (fst (in_order [recordProposal a b, publish s m, appendEvent e] v))"
proof -
  have k: "keeps f (in_order [recordProposal a b, publish s m, appendEvent e])"
    if "\<And>w. f (tick w) = f w" "\<And>w l. f (w \<lparr> w_metrics := l \<rparr>) = f w"
      "\<And>w l. f (w \<lparr> w_bus := l \<rparr>) = f w" "\<And>w l. f (w \<lparr> w_wal := l \<rparr>) = f w"
    for f :: "world \<Rightarrow> 'z"
    by (intro keeps_in_order) (simp add: keeps_record keeps_publish keeps_appendEvent that)
  obtain v' r where e: "in_order [recordProposal a b, publish s m, appendEvent e] v = (v', r)" by fastforce
  have "same_context v v'"
    by (rule keeps_context[where m = "in_order [recordProposal a b, publish s m, appendEvent e]"])
      (use e in \<open>simp_all add: k\<close>)
  then show ?thesis using e by simp
qed

lemma three_bus:
  assumes "in_order [recordProposal a b, publish s m, appendEvent e] v = (v', r)"
  shows "same_context v v' \<and> (w_bus v' = w_bus v \<or> w_bus v' = w_bus v @ [(s, m)])"
proof -
  have "logs w_bus [(s, m)] (in_order [recordProposal a b, publish s m, appendEvent e])"
    using logs_three[OF quiet_bus(1) logs_publish quiet_bus(2)] by simp
  then show ?thesis using logs_single assms three_context[of v a b s m e] by (metis fst_conv)
qed

lemma publish_approval_effect:
  "publish_approval agentId prop reason state w = (w', r) \<Longrightarrow>
   same_context w w' \<and> (w_bus w' = w_bus w \<or> w_bus w' = w_bus w @
    [(''swarm.actions.advance_state'', ActionMsg (approved_action (pp_id prop) agentId reason
       (advance_payload (pp_payload prop) state) (w_scope w)))])"
  unfolding publish_approval_def by (rule three_bus)

lemma publish_rejection_effect:
  "publish_rejection prop reason w = (w', r) \<Longrightarrow>
   same_context w w' \<and> (w_bus w' = w_bus w \<or> w_bus w' = w_bus w @
    [(''swarm.rejections.'' @ pp_action prop, RejectionMsg (pp_id prop) reason ''rejected'')])"
  unfolding publish_rejection_def by (rule three_bus)

lemma publishApproval_inv:
  assumes "session_inv w0 prop s"
  shows "session_inv w0 prop (fst (publishApproval_tool agentId prop reason s))"
proof (cases s)
  case (Pair w d)
  show ?thesis
  proof (cases d)
    case True
    then show ?thesis using assms Pair by (simp add: publishApproval_tool_def)
  next
    case False
    obtain w1 g where g: "approval_guards prop w = (w1, g)" by fastforce
    have c1: "same_context w w1" and b1: "w_bus w1 = w_bus w"
      using guards_context[OF g] keepsD[OF keeps_guards[of w_bus] g] by simp_all
    have i1: "session_inv w0 prop (w1, False)"
      using assms Pair False c1 b1 same_context_trans[of w0 w w1] by (auto simp: session_inv_def)
    show ?thesis
    proof (cases "\<exists>state. g = Inr (Inr state)")
      case True
      then obtain state where st: "g = Inr (Inr state)" by blast
      have "cleared w prop" using guards_cleared[of "prop" w w1 state] g st unfolding cleared_def by blast
      then have cl: "cleared w0 prop"
        using assms Pair context_lookups(5)[of w0 w "prop"] by (simp add: session_inv_def)
      obtain w2 r2 where p: "publish_approval agentId prop (coalesce reason ''policy_passed'') state w1
          = (w2, r2)" by fastforce
      have "session_inv w0 prop (w2, True)"
        using publish_approval_effect[OF p] by (blast intro: session_inv_publish[OF i1] cl)
      then show ?thesis
        using Pair False g st p
        by (cases r2) (simp_all add: publishApproval_tool_def and_then_def lift_world_def set_decided_def)
    next
      case False2: False
      then show ?thesis
        using Pair False g i1
        by (cases g) (auto simp: publishApproval_tool_def and_then_def lift_world_def split: sum.split)
    qed
  qed
qed

lemma publishRejection_inv:
  assumes "session_inv w0 prop s"
  shows "session_inv w0 prop (fst (publishRejection_tool prop reason s))"
proof (cases s)
  case (Pair w d)
  show ?thesis
  proof (cases d)
    case True
    then show ?thesis using assms Pair by (simp add: publishRejection_tool_def)
  next
    case False
    obtain w2 r2 where p: "publish_rejection prop (coalesce reason ''rejected'') w = (w2, r2)" by fastforce
    have "session_inv w0 prop (w2, True)"
      using publish_rejection_effect[OF p] assms Pair False
        session_inv_publish[of w0 "prop" w w2 "(''swarm.rejections.'' @ pp_action prop,
          RejectionMsg (pp_id prop) (coalesce reason ''rejected'') ''rejected'')"] by auto
    then show ?thesis
      using Pair False p
      by (cases r2) (simp_all add: publishRejection_tool_def and_then_def lift_world_def set_decided_def)
  qed
qed

lemma fst_and_then_ret: "fst (and_then m (\<lambda>_. ret ()) s) = fst (m s)"
  by (cases "m s"; cases "snd (m s)") (auto simp: and_then_def)

lemma governance_tool_inv:
  "session_inv w0 prop s \<Longrightarrow> session_inv w0 prop (fst (governance_tool agentId prop c s))"
  by (cases c) (simp_all add: fst_and_then_ret reads_only_session reads_only_tools
      publishApproval_inv publishRejection_inv)

lemma fst_run_tools: "fst (run_tools t run s) = fst (in_order (map t (lr_calls run)) s)"
  by (cases "in_order (map t (lr_calls run)) s"; cases "snd (in_order (map t (lr_calls run)) s)";
      cases "lr_failure run") (simp_all add: run_tools_def and_then_def)

lemma run_tools_inv:
  assumes "session_inv w0 prop s"
  shows "session_inv w0 prop (fst (run_tools (governance_tool agentId prop) run s))"
proof -
  have "session_inv w0 prop (fst (in_order (map (governance_tool agentId prop) (lr_calls run)) s))"
  proof (rule in_order_invariant[where I = "session_inv w0 prop"])
    fix m s' assume "m \<in> set (map (governance_tool agentId prop) (lr_calls run))" "session_inv w0 prop s'"
    then show "session_inv w0 prop (fst (m s'))" using governance_tool_inv by fastforce
  qed (rule assms)
  then show ?thesis by (simp add: fst_run_tools)
qed

lemma accept_cleared:
  "epoch_current w p \<Longrightarrow> permitted w p
   \<Longrightarrow> present_verdict w p = Some ''accept'' \<or> (some_call_fails w \<and> unread_verdict w p = Some ''accept'') \<Longrightarrow> cleared w p"
  by (auto simp: cleared_def)

text \<open>The rule-based path, as a continuation of an undecided session.\<close>

lemma processProposal_session:
  assumes "session_inv w0 prop (w, False)" "processProposal agentId prop w = (w', r)"
  shows "session_inv w0 prop (w', True)"
proof -
  have b: "w_bus w = w_bus w0" and c: "same_context w0 w" using assms(1) by (auto simp: session_inv_def)
  have c': "same_context w0 w'"
    using same_context_trans[OF c processProposal_context[OF assms(2)]] .
  have len: "length (new_messages w w') \<le> 1" using one_outcome_per_run[OF assms(2)] by blast
  obtain ms where ms: "w_bus w' = w_bus w @ ms"
    using processProposal_effects[OF assms(2)] by auto
  have "cleared w0 prop" if "(s, ActionMsg a) \<in> set ms" for s a
    using approval_sound[OF assms(2), of s a] that ms context_lookups(5)[OF c]
    by (auto simp: new_messages_def intro: accept_cleared)
  then have "actions_cleared w0 prop ms"
    by (auto simp: actions_cleared_def)
  then show ?thesis using ms len b c' by (auto simp: session_inv_def new_messages_def)
qed



section \<open>Where the guards are weaker\<close>

definition transition_named :: "proposal \<Rightarrow> bool" where
  "transition_named prop = (p_from (pp_payload prop) \<noteq> None \<and> p_to (pp_payload prop) \<noteq> None)"

lemma faultless_keeps: "keeps w_faults m \<Longrightarrow> faultless w \<Longrightarrow> m w = (w', r) \<Longrightarrow> faultless w'"
  using keepsD[of w_faults m w w' r] by (simp add: faultless_def)

lemma record_check_ok:
  assumes "faultless w"
  shows "\<exists>w'. record_check prop d c w = (w', Inr (tool_kernel prop d c))"
proof -
  have o: "executeObligations [] obs v = (v, Inr ())" for obs v
    by (induction obs) (simp_all add: executeObligation_def try_catch_def)
  show ?thesis using assms
    by (simp add: record_check_def and_then_def try_catch_def persistDecisionRecord_def external_def
        faultless_def o Let_def)
qed

lemma guards_pass:
  assumes f: "faultless w" and st: "map_get (w_states w) (w_scope w) = Some state"
    and ep: "p_expectedEpoch (pp_payload prop) = Some (gs_epoch state)"
    and nm: "transition_named prop" and v: "tool_verdict w prop = Some v" "v \<noteq> ''reject''"
    and p: "permitted w prop"
  shows "\<exists>w'. approval_guards prop w = (w', Inr (Inr state))"
proof -
  obtain d c where dc: "current_drift w = Some d" "current_config w = Some c"
    "ko_verdict (tool_kernel prop d c) = v"
    using v by (auto simp: tool_verdict_def split: option.splits)
  obtain w2 where rd: "read_drift (w_scope w) (tick w) = (w2, Inr d)" and w2: "\<exists>k. w2 = w \<lparr> w_tick := k \<rparr>"
    using read_drift_ok[of "tick w" "w_scope w"] f dc by (auto simp: faultless_def tick_def)
  have f2: "faultless w2" using f w2 by (auto simp: faultless_def)
  obtain w3 where r: "record_check prop d c w2 = (w3, Inr (tool_kernel prop d c))"
    using record_check_ok[OF f2] by blast
  have a3: "w_acl w3 = w_acl w" using keepsD[OF keeps_record_check[of w_acl] r] w2 by auto
  have sc: "scope_config (w_scope w) w2 = (w2, Inr c)"
    using scope_config_cases[of w2] dc w2 by auto
  show ?thesis
    using f st ep nm v p dc
    by (simp add: approval_guards_def and_then_def loadState_cases faultless_def rd sc r
        check_permission_def a3 permitted_def transition_named_def)
qed

lemma publish_approval_ok:
  assumes "faultless w" "publish_approval agentId prop reason state w = (w', r)"
  shows "r = Inr ()"
  using assms by (auto simp: publish_approval_def recordProposal_def metric_def publish_def
      appendEvent_def external_def faultless_def)

text \<open>
  In the tools a transition that the kernel escalates counts as allowed: when the mode of the
  scope is MITL - or a rule blocks the transition in MITL mode - and the calls succeed, one call of
  \<open>publishApproval\<close> publishes the approved action, and no human is asked.
\<close>

theorem tool_approves_escalated:
  assumes "faultless w" "epoch_current w prop" "permitted w prop" "transition_named prop"
    and "tool_verdict w prop = Some ''escalate''"
  shows "\<exists>w' a. processProposalWithAgent agentId prop
      (Some \<lparr> lr_calls = [CallPublishApproval reason], lr_failure = None \<rparr>) w = (w', Inr ())
    \<and> new_messages w w' = [(''swarm.actions.advance_state'', ActionMsg a)]
    \<and> ac_result a = ''approved'' \<and> w_pending w' = w_pending w"
proof -
  obtain state where st: "map_get (w_states w) (w_scope w) = Some state"
    "p_expectedEpoch (pp_payload prop) = Some (gs_epoch state)"
    using assms(2) by (auto simp: epoch_current_def split: option.splits)
  obtain w1 where g: "approval_guards prop w = (w1, Inr (Inr state))"
    using guards_pass[OF assms(1) st assms(4,5)] assms(3) by auto
  have q1: "w_bus w1 = w_bus w" "w_pending w1 = w_pending w" and f1: "faultless w1"
    using keepsD[OF keeps_guards[of w_bus] g] keepsD[OF keeps_guards[of w_pending] g]
      faultless_keeps[OF keeps_guards[of w_faults] assms(1) g] by simp_all
  let ?r = "coalesce reason ''policy_passed''"
  obtain w2 r2 where p: "publish_approval agentId prop ?r state w1 = (w2, r2)" by fastforce
  have r2: "r2 = Inr ()" by (rule publish_approval_ok[OF f1 p])
  let ?a = "approved_action (pp_id prop) agentId ?r (advance_payload (pp_payload prop) state) (w_scope w1)"
  have "w_bus w2 = w_bus w1 @ [(''swarm.actions.advance_state'', ActionMsg ?a)] \<and> w_pending w2 = w_pending w1"
    using p r2 f1
    by (auto simp: publish_approval_def recordProposal_def metric_def publish_def appendEvent_def
        external_def faultless_def)
  moreover have "processProposalWithAgent agentId prop
      (Some \<lparr> lr_calls = [CallPublishApproval reason], lr_failure = None \<rparr>) w = (w2, Inr ())"
    using g p r2
    by (simp add: processProposalWithAgent_def run_tools_def publishApproval_tool_def lift_world_def
        set_decided_def and_then_def)
  ultimately show ?thesis using q1
    by (intro exI[of _ w2] exI[of _ ?a]) (simp add: new_messages_def approved_action_def)
qed

definition mitl_world :: world where
  "mitl_world = fresh_world \<lparr> w_env_mode := Some ''MITL'' \<rparr>"

lemma mitl_world_tool: "tool_verdict mitl_world (sample_proposal None) = Some ''escalate''"
proof -
  have "current_drift mitl_world = Some no_drift"
    by (simp add: current_drift_def mitl_world_def fresh_world_def)
  moreover have "current_config mitl_world
      = Some (getGovernanceForScope ''default'' (loadPolicies governance_yaml (Some ''MITL'')))"
    by (simp add: current_config_def mitl_world_def fresh_world_def)
  moreover have "gov_from_str (kq_mode (proposal_request p d
      (config_mode (getGovernanceForScope ''default'' (loadPolicies governance_yaml (Some ''MITL'')))))) = Mitl"
    for p d
    by (simp add: proposal_request_def config_mode_def getGovernanceForScope_def loadPolicies_def
        governance_yaml_def gov_from_str_def str_upper_def ascii_upper_def Let_def)
  ultimately show ?thesis
    by (simp add: tool_verdict_def tool_kernel_def evaluateKernel_verdict Let_def
        request_admissibility_def proposal_request_def)
qed

theorem tool_approves_escalated_witness:
  "\<exists>w'. processProposalWithAgent ''g1'' (sample_proposal None)
      (Some \<lparr> lr_calls = [CallPublishApproval None], lr_failure = None \<rparr>) mitl_world = (w', Inr ())"
proof -
  have "faultless mitl_world" "epoch_current mitl_world (sample_proposal None)"
    "permitted mitl_world (sample_proposal None)" "transition_named (sample_proposal None)"
    by (simp_all add: faultless_def mitl_world_def fresh_world_def epoch_current_def permitted_def
        sample_proposal_def transition_named_def checkPermission_def world_at_def empty_world_def
        row_at_def)
  from tool_approves_escalated[OF this mitl_world_tool, of "''g1''" None] show ?thesis by blast
qed

section \<open>The oversight agent commits as often as it is told\<close>

lemma commit_succeeds:
  assumes "faultless w" "w_policy_file w \<noteq> None"
    and "commitDeterministicResult agentId prop res path w = (w', r)"
  shows "r = Inr ()"
proof (cases "de_outcome res = OIgnore")
  case True
  then show ?thesis using assms(3) by (simp add: commit_as_step)
next
  case False
  obtain w1 r1 where a: "commit_audit res path w = (w1, r1)" by fastforce
  have r1: "r1 = Inr ()"
    using a assms(1,2) scope_config_cases[of w]
    by (auto simp: commit_audit_def current_config_def and_then_def metric_def try_catch_def
        persistDecisionRecord_def external_def Let_def split: option.splits if_splits)
  have f1: "faultless w1"
    using faultless_keeps[OF keeps_commit_audit[of w_faults] assms(1) a] by simp
  have "succeeds (commit_step (w_scope w) agentId prop res path) w1"
    using f1
    by (auto simp: succeeds_def commit_step_def denial_metric_def recordPolicyViolation_def
        recordProposal_def metric_def publish_def appendEvent_def addPending_def external_def
        faultless_def split: outcome.split option.split)
  then show ?thesis using assms(3) False a r1
    by (auto simp: commit_as_step and_then_def succeeds_def)
qed

lemma oversight_accepts:
  assumes "faultless w" "w_policy_file w \<noteq> None" "de_outcome res = OApprove" "de_payload res = Some p"
  shows "\<exists>w' ms. in_order (map (oversight_tool agentId prop res) (replicate n CallAccept)) (w, d)
       = ((w', d \<or> 0 < n), Inr ()) \<and> w_bus w' = w_bus w @ ms \<and> length ms = n
       \<and> (\<forall>m \<in> set ms. \<exists>a. snd m = ActionMsg a)"
  using assms(1,2)
proof (induction n arbitrary: w d)
  case (Suc n)
  obtain w1 r1 where c: "commitDeterministicResult agentId prop res ''oversight_acceptDeterministic'' w
      = (w1, r1)" by fastforce
  have r1: "r1 = Inr ()" by (rule commit_succeeds[OF Suc.prems c])
  have b: "w_bus w1 = w_bus w @ outcome_messages agentId (w_scope w) prop res"
    using commit_effects[OF c] r1 by auto
  have k: "faultless w1" "w_policy_file w1 \<noteq> None"
    using faultless_keeps[OF keeps_commit[of w_faults] Suc.prems(1) c]
      keepsD[OF keeps_commit[of w_policy_file] c] Suc.prems(2) by simp_all
  obtain w' ms where ih: "in_order (map (oversight_tool agentId prop res) (replicate n CallAccept)) (w1, True)
      = ((w', True), Inr ())" "w_bus w' = w_bus w1 @ ms" "length ms = n"
      "\<forall>m \<in> set ms. \<exists>a. snd m = ActionMsg a"
    using Suc.IH[OF k, of True] by auto
  have "in_order (map (oversight_tool agentId prop res) (replicate (Suc n) CallAccept)) (w, d)
      = ((w', True), Inr ())"
    using c r1 ih(1) by (simp add: chosen_session_def and_then_def set_decided_def lift_world_def)
  then show ?case using ih b assms(3,4)
    by (intro exI[of _ w'] exI[of _ "outcome_messages agentId (w_scope w) prop res @ ms"])
      (auto simp: outcome_messages_def)
qed simp

text \<open>
  The oversight agent's tools have no guard against being called again: when the calls
  succeed and the deterministic result is an approval, a run in which the model accepts it \<open>n\<close>
  times publishes the approved action \<open>n\<close> times.
\<close>

theorem oversight_repeats:
  assumes "faultless w" "w_policy_file w \<noteq> None" "de_outcome res = OApprove" "de_payload res = Some p"
    and "0 < n"
  shows "\<exists>w'. runOversightAgent agentId prop res
      (Some \<lparr> lr_calls = replicate n CallAccept, lr_failure = None \<rparr>) w = (w', Inr ())
    \<and> length (filter (\<lambda>m. case snd m of ActionMsg _ \<Rightarrow> True | _ \<Rightarrow> False) (new_messages w w')) = n"
proof -
  obtain w' ms where o: "in_order (map (oversight_tool agentId prop res) (replicate n CallAccept)) (w, False)
       = ((w', True), Inr ())" "w_bus w' = w_bus w @ ms" "length ms = n"
      "\<forall>m \<in> set ms. \<exists>a. snd m = ActionMsg a"
    using oversight_accepts[OF assms(1-4), of agentId "prop" n False] assms(5) by auto
  have "filter (\<lambda>m. case snd m of ActionMsg _ \<Rightarrow> True | _ \<Rightarrow> False) ms = ms"
    using o(4) by (auto simp: filter_id_conv)
  then show ?thesis using o
    by (intro exI[of _ w']) (simp add: runOversightAgent_def run_tools_def and_then_def new_messages_def)
qed

theorem oversight_repeats_witness:
  "\<exists>w'. runOversightAgent ''g1'' (sample_proposal None)
      \<lparr> de_outcome = OApprove, de_reason = ''policy_passed'', de_record = None,
        de_payload = Some empty_payload \<rparr>
      (Some \<lparr> lr_calls = replicate 2 CallAccept, lr_failure = None \<rparr>) fresh_world = (w', Inr ())
    \<and> length (filter (\<lambda>m. case snd m of ActionMsg _ \<Rightarrow> True | _ \<Rightarrow> False) (new_messages fresh_world w')) = 2"
  by (rule oversight_repeats) (simp_all add: faultless_def fresh_world_def)

end
