(* ===== verification/Governance_Messages.thy ===== *)
theory Governance_Messages
  imports Governance_Agent_Safety
begin

text \<open>
  The message handler of the governance loop under redelivery, the deduplication table of
  \<open>src/messageDedup.ts\<close>, and the fate of rejected equivalence proposals. The locale
  \<open>redelivery\<close> is the contract between an at-least-once bus and a handler; it is interpreted on
  the governance handler and on the atomic \<open>tryMarkProcessed\<close>.
\<close>

section \<open>At-least-once delivery\<close>

locale redelivery =
  fixes seen :: "'s \<Rightarrow> 'm \<Rightarrow> bool"
    and deliver :: "'m \<Rightarrow> 's \<Rightarrow> 's \<times> bool"
    and view :: "'s \<Rightarrow> 'o"
  assumes acked: "deliver m s = (s', True) \<Longrightarrow> seen s' m"
    and ignored: "seen s m \<Longrightarrow> view (fst (deliver m s)) = view s"
    and remembered: "seen s m \<Longrightarrow> seen (fst (deliver m' s)) m"
begin

fun deliveries :: "'m list \<Rightarrow> 's \<Rightarrow> 's" where
  "deliveries [] s = s"
| "deliveries (m # ms) s = deliveries ms (fst (deliver m s))"

lemma seen_deliveries: "seen s m \<Longrightarrow> seen (deliveries ms s) m"
  by (induction ms arbitrary: s) (auto simp: remembered)

lemma redelivered_ignored:
  "seen s m \<Longrightarrow> view (deliveries (replicate n m) s) = view s"
  by (induction n arbitrary: s) (auto simp: ignored remembered)

lemma after_ack:
  "deliver m s = (s', True) \<Longrightarrow> view (deliveries (replicate n m) s') = view s'"
  by (rule redelivered_ignored, rule acked)

end

text \<open>What a redelivery could change: the bus, the WAL, the queue, the records and the metrics.\<close>

definition durable :: "world \<Rightarrow> (string \<times> message) list \<times> json_obj list
    \<times> (string, pending_row) jsmap \<times> decision_row list \<times> (string \<times> string) list" where
  "durable w = (w_bus w, w_wal w, w_pending w, w_records w, w_metrics w)"

definition gov_seen :: "string \<Rightarrow> world \<Rightarrow> string \<times> 'p \<Rightarrow> bool" where
  "gov_seen consumer w m = ((consumer, fst m) \<in> set (w_processed w))"

definition gov_deliver ::
  "governance_env \<Rightarrow> oversight_call llm_run option \<Rightarrow> string \<times> proposal \<Rightarrow> world \<Rightarrow> world \<times> bool" where
  "gov_deliver env oversight m w =
     (case handle_proposal env oversight (fst m) (snd m) w of (w', r) \<Rightarrow> (w', r = Inr ()))"

lemma keeps_processed_tool: "w_processed (fst (fst (governance_tool agentId prop c s))) = w_processed (fst s)"
proof (cases s)
  case (Pair w d)
  have lift: "w_processed (fst (fst (lift_world m (v, e)))) = w_processed v"
    if "keeps w_processed m" for m :: "(world, 'z) exec" and v e
    using keepsD[OF that] by (cases "m v") (simp add: lift_world_def)
  have pa: "keeps w_processed (publish_approval agentId prop reason st)" for reason st
    by (auto simp: keeps_def publish_approval_def recordProposal_def metric_def publish_def
        appendEvent_def external_def)
  have pr: "keeps w_processed (publish_rejection prop reason)" for reason
    by (auto simp: keeps_def publish_rejection_def recordProposal_def metric_def publish_def
        appendEvent_def external_def)
  have g: "w_processed (fst (approval_guards prop w)) = w_processed w"
    using keeps_guards[of w_processed "prop"] by (simp add: keeps_def)
  have a: "w_processed (fst (fst (publishApproval_tool agentId prop reason (w, d)))) = w_processed w" for reason
    using g pa
    by (cases "approval_guards prop w"; cases "snd (approval_guards prop w)")
      (auto simp: publishApproval_tool_def and_then_def lift_world_def set_decided_def keeps_def
        split: sum.split prod.split, (metis fst_conv)+)
  have b: "w_processed (fst (fst (publishRejection_tool prop reason (w, d)))) = w_processed w" for reason
    using pr
    by (auto simp: publishRejection_tool_def and_then_def lift_world_def set_decided_def keeps_def
        split: sum.split prod.split) (metis fst_conv)+
  have r: "keeps w_processed (\<lambda>w. and_then (loadState (w_scope w)) (\<lambda>_. ret ()) w)"
    "keeps w_processed (\<lambda>w. and_then (read_drift (w_scope w)) (\<lambda>_. ret ()) w)"
    "keeps w_processed (and_then load_policy_config (\<lambda>_. ret ()))"
    "keeps w_processed (and_then (checkTransition_tool prop) (\<lambda>_. ret ()))"
    "keeps w_processed (and_then (checkPolicy_tool prop) (\<lambda>_. ret ()))"
    by (simp_all add: keeps_def fst_and_then_ret loadState_def keeps_read_drift[unfolded keeps_def] external_def
        load_policy_config_def checkPolicy_tool_def check_permission_def split: option.split)
      (use keeps_check_transition[of w_processed "prop"] in \<open>simp add: keeps_def\<close>)
  show ?thesis using Pair a b lift[OF r(1)] lift[OF r(2)] lift[OF r(3)] lift[OF r(4)] lift[OF r(5)]
    by (cases c) (simp_all add: fst_and_then_ret)
qed

lemma keeps_processed_process: "keeps w_processed (processProposal agentId prop)"
  unfolding processProposal_def by (intro keeps_and_then keeps_evaluate keeps_commit) simp_all

lemma run_tools_processed:
  assumes "\<And>c s. w_processed (fst (fst (tool c s))) = w_processed (fst s)"
  shows "w_processed (fst (fst (run_tools tool run s))) = w_processed (fst s)"
proof -
  have "w_processed (fst (fst (in_order (map tool (lr_calls run)) s))) = w_processed (fst s)"
    by (rule in_order_invariant[where I = "\<lambda>t. w_processed (fst t) = w_processed (fst s)"])
      (auto simp: assms)
  then show ?thesis
    by (auto simp: run_tools_def and_then_def split: prod.splits sum.splits option.splits)
qed

lemma keeps_processed_agent: "keeps w_processed (processProposalWithAgent agentId prop llm)"
proof (cases llm)
  case (Some run)
  have p: "w_processed (fst (processProposal agentId prop w)) = w_processed w" for w
    using keeps_processed_process by (simp add: keeps_def)
  have "w_processed (fst (fst (run_tools (governance_tool agentId prop) run (w, False)))) = w_processed w" for w
    by (simp add: run_tools_processed[OF keeps_processed_tool])
  then show ?thesis
    by (auto simp: keeps_def processProposalWithAgent_def Some p split: prod.splits sum.splits)
      (metis fst_conv)+
qed (simp add: processProposalWithAgent_def keeps_def keeps_processed_process[unfolded keeps_def])

lemma keeps_processed_commit: "keeps w_processed (commitDeterministicResult agentId prop res path)"
  by (rule keeps_commit) simp_all

lemma oversight_tool_processed:
  "w_processed (fst (fst (oversight_tool agentId prop res c s))) = w_processed (fst s)"
proof -
  have lift: "w_processed (fst (fst (chosen_session m (v, e)))) = w_processed v"
    if "keeps w_processed m" for m v e
    using keepsD[OF that]
    by (cases "m v") (simp add: chosen_session_def and_then_def set_decided_def lift_world_def)
  have p: "keeps w_processed (commit_pending prop p path)" for p path
  proof -
    have "keeps w_processed (in_order
       [recordProposal (pp_action prop) ''pending'', addPending (pp_id prop) prop p,
        publish (''swarm.pending_approval.'' @ pp_id prop) (PendingMsg (pp_id prop) ''pending''),
        appendEvent (governance_event ''proposal_pending_approval'' (pp_id prop) None path sc)])" for sc
      by (intro keeps_in_order) (simp add: keeps_record keeps_addPending keeps_publish keeps_appendEvent)
    then show ?thesis by (simp add: keeps_def commit_pending_def)
  qed
  have h: "keeps w_processed (escalate_to_human agentId prop res)"
    unfolding escalate_to_human_def by (intro keeps_case_option keeps_processed_commit p)
  show ?thesis
    by (cases s; cases c)
      (simp_all add: lift[OF keeps_processed_commit] lift[OF keeps_processed_agent] lift[OF h])
qed

lemma keeps_processed_oversight: "keeps w_processed (runOversightAgent agentId prop res llm)"
proof (cases llm)
  case (Some run)
  have p: "w_processed (fst (commitDeterministicResult agentId prop res path w)) = w_processed w" for w path
    using keeps_processed_commit by (simp add: keeps_def)
  have "w_processed (fst (fst (run_tools (oversight_tool agentId prop res) run (w, False)))) = w_processed w" for w
    by (simp add: run_tools_processed[OF oversight_tool_processed])
  then show ?thesis
    by (auto simp: keeps_def runOversightAgent_def Some p split: prod.splits sum.splits)
      (metis fst_conv)+
qed (simp add: runOversightAgent_def keeps_def keeps_processed_commit[unfolded keeps_def])

text \<open>The steps of an equivalence proposal, for any component the code does not write there.\<close>

lemma keeps_equivalence:
  assumes "\<And>w. f (tick w) = f w" "\<And>w l. f (w \<lparr> w_uuids := l \<rparr>) = f w"
    "\<And>w l. f (w \<lparr> w_metrics := l \<rparr>) = f w" "\<And>w l. f (w \<lparr> w_records := l \<rparr>) = f w"
    "\<And>w l. f (w \<lparr> w_wal := l \<rparr>) = f w"
    and bus: "(\<forall>w l. f (w \<lparr> w_bus := l \<rparr>) = f w)
      \<or> (\<forall>d. decideEquivalence min_conf (pp_payload prop) = Inr d \<longrightarrow> ed_outcome d \<noteq> ''approve'')"
  shows "keeps f (processEquivalenceProposal min_conf prop)"
proof -
  have c: "keeps f (commit_equivalence prop d rec scope)"
    if "decideEquivalence min_conf (pp_payload prop) = Inr d" for d rec scope
    using bus that
    by (auto intro!: keeps_in_order simp: commit_equivalence_def keeps_record keeps_publish keeps_appendEvent assms)
  have "keeps f (and_then (scope_config sc)
       (\<lambda>cfg. case decideEquivalence min_conf (pp_payload prop) of
          Inl e \<Rightarrow> raise e
        | Inr d \<Rightarrow>
           (let record = buildEquivalenceDecisionRecord fr d ver in
            in_order
              [modify (\<lambda>w. w \<lparr> w_uuids := w_uuids w + 1 \<rparr>),
               metric ''governance_mode'' (sc @ '':'' @ config_mode cfg),
               try_catch (persistDecisionRecord record ''processProposal'' sc (config_mode cfg))
                 (\<lambda>_. ret ()),
               commit_equivalence prop d record sc])))" for sc fr ver
  proof (intro keeps_and_then keeps_scope_config)
    fix cfg
    have m: "keeps f (modify (\<lambda>w. w \<lparr> w_uuids := Suc (w_uuids w) \<rparr>))" by (simp add: keeps_def assms)
    show "keeps f (case decideEquivalence min_conf (pp_payload prop) of
          Inl e \<Rightarrow> raise e
        | Inr d \<Rightarrow>
           (let record = buildEquivalenceDecisionRecord fr d ver in
            in_order
              [modify (\<lambda>w. w \<lparr> w_uuids := w_uuids w + 1 \<rparr>),
               metric ''governance_mode'' (sc @ '':'' @ config_mode cfg),
               try_catch (persistDecisionRecord record ''processProposal'' sc (config_mode cfg))
                 (\<lambda>_. ret ()),
               commit_equivalence prop d record sc]))"
      by (auto split: sum.split intro!: keeps_in_order simp: m c keeps_metric keeps_try_catch keeps_persist assms Let_def)
  qed
  then show ?thesis by (simp add: keeps_def processEquivalenceProposal_def)
qed

lemma keeps_processed_decide: "keeps w_processed (decide_proposal env oversight prop)"
proof -
  have "keeps w_processed (processEquivalenceProposal (ge_min_confidence env) prop)"
    by (rule keeps_equivalence) simp_all
  then show ?thesis unfolding decide_proposal_def
    by (intro keeps_if keeps_processed_process keeps_and_then keeps_evaluate keeps_case_option
        keeps_processed_commit keeps_processed_oversight) simp_all
qed

section \<open>The handlers as instances\<close>

lemma isProcessed_cases:
  "isProcessed c m w = (if w_faults w (w_tick w) then (tick w, Inl io_error)
                        else (tick w, Inr ((c, m) \<in> set (w_processed w))))"
  by (simp add: isProcessed_def external_def)

lemma markProcessed_grows: "set (w_processed w) \<subseteq> set (w_processed (fst (markProcessed c m w)))"
  by (auto simp: markProcessed_def external_def)

lemma markProcessed_marks: "markProcessed c m w = (w', Inr ()) \<Longrightarrow> (c, m) \<in> set (w_processed w')"
  by (auto simp: markProcessed_def external_def split: if_splits)

definition handler_body ::
  "governance_env \<Rightarrow> oversight_call llm_run option \<Rightarrow> string \<Rightarrow> proposal \<Rightarrow> (world, unit) exec" where
  "handler_body env oversight msgId prop = in_order
     [decide_proposal env oversight (prop \<lparr> pp_mode := Some (coalesce (pp_mode prop) ''YOLO'') \<rparr>),
      (\<lambda>w. publish ''swarm.finality.evaluate'' (EvaluateMsg (w_scope w)) w),
      markProcessed (ge_consumer env) msgId]"

lemma handle_proposal_cases:
  "handle_proposal env oversight msgId prop w =
     (if w_faults w (w_tick w) then (tick w, Inl io_error)
      else if (ge_consumer env, msgId) \<in> set (w_processed w) then (tick w, Inr ())
      else handler_body env oversight msgId prop (tick w))"
  by (simp add: handle_proposal_def handler_body_def and_then_def isProcessed_cases)

lemma handler_body_grows:
  "set (w_processed w) \<subseteq> set (w_processed (fst (handler_body env oversight msgId prop w)))"
  unfolding handler_body_def
proof (rule in_order_invariant[where I = "\<lambda>v. set (w_processed w) \<subseteq> set (w_processed v)"])
  fix m and v :: world
  assume m: "m \<in> set [decide_proposal env oversight (prop \<lparr> pp_mode := Some (coalesce (pp_mode prop) ''YOLO'') \<rparr>),
      (\<lambda>w. publish ''swarm.finality.evaluate'' (EvaluateMsg (w_scope w)) w),
      markProcessed (ge_consumer env) msgId]" and v: "set (w_processed w) \<subseteq> set (w_processed v)"
  have "w_processed (fst (decide_proposal env oversight p v)) = w_processed v" for p
    using keeps_processed_decide by (simp add: keeps_def)
  moreover have "w_processed (fst (publish s e v)) = w_processed v" for s e
    by (simp add: publish_def external_def)
  ultimately show "set (w_processed w) \<subseteq> set (w_processed (fst (m v)))"
    using m v markProcessed_grows[of v] by (auto simp: subset_iff)
qed simp

lemma handler_body_marks:
  "handler_body env oversight msgId prop w = (w', Inr ()) \<Longrightarrow> (ge_consumer env, msgId) \<in> set (w_processed w')"
  by (auto simp: handler_body_def markProcessed_marks split: prod.splits sum.splits)

lemma durable_tick [simp]: "durable (tick w) = durable w"
  by (simp add: durable_def)

interpretation gov_bus: redelivery "gov_seen (ge_consumer env)" "gov_deliver env oversight" durable
  for env oversight
proof
  fix w :: world and m :: "string \<times> proposal" and w'
  assume "gov_deliver env oversight m w = (w', True)"
  then show "gov_seen (ge_consumer env) w' m"
    by (auto simp: gov_deliver_def gov_seen_def handle_proposal_cases handler_body_marks
        split: prod.splits if_splits)
next
  fix w :: world and m :: "string \<times> proposal"
  assume "gov_seen (ge_consumer env) w m"
  then show "durable (fst (gov_deliver env oversight m w)) = durable w"
    by (simp add: gov_deliver_def gov_seen_def handle_proposal_cases)
next
  fix w :: world and m m' :: "string \<times> proposal"
  assume "gov_seen (ge_consumer env) w m"
  then show "gov_seen (ge_consumer env) (fst (gov_deliver env oversight m' w)) m"
    using handler_body_grows[of "tick w" env oversight "fst m'" "snd m'"]
    by (auto simp: gov_deliver_def gov_seen_def handle_proposal_cases split_beta)
qed

text \<open>
  C5. A proposal that the governance loop has acknowledged is not decided twice: once its handler
  has returned normally, any number of redeliveries of the message, with any model behind the
  loop and any failing calls, leave the bus, the WAL, the MITL table, the decision records and the
  metrics as they are.
\<close>

theorem governance_redelivery_harmless:
  assumes "handle_proposal env oversight msgId prop w = (w', Inr ())"
  shows "durable (((\<lambda>v. fst (handle_proposal env oversight msgId prop v)) ^^ n) w') = durable w'"
proof -
  let ?d = "gov_deliver env oversight (msgId, prop)"
  have d: "?d v = (fst (handle_proposal env oversight msgId prop v),
                   snd (handle_proposal env oversight msgId prop v) = Inr ())" for v
    by (simp add: gov_deliver_def split_beta)
  have e: "gov_bus.deliveries env oversight (replicate n (msgId, prop)) v
      = ((\<lambda>v. fst (handle_proposal env oversight msgId prop v)) ^^ n) v" for v
    by (induction n arbitrary: v)
      (simp_all add: d gov_bus.deliveries.simps funpow_Suc_right del: funpow.simps(2))
  have "?d w = (w', True)" using assms by (simp add: d)
  from gov_bus.after_ack[OF this, of n] show ?thesis by (simp add: e)
qed

definition plain_env :: governance_env where
  "plain_env = \<lparr> ge_agent_id = ''g1'', ge_consumer = ''c'', ge_min_confidence = 1 / 2 \<rparr>"

theorem governance_redelivery_harmless_witness:
  "let p = (sample_proposal None) \<lparr> pp_action := ''other'' \<rparr>;
       v = fst (handle_proposal plain_env None ''7'' p fresh_world)
   in durable (fst (handle_proposal plain_env None ''7'' p v)) = durable v"
proof -
  let ?p = "(sample_proposal None) \<lparr> pp_action := ''other'' \<rparr>"
  have "snd (handle_proposal plain_env None ''7'' ?p fresh_world) = Inr ()"
    by (simp add: handle_proposal_cases handler_body_def decide_proposal_def equivalence_action_def
        evaluateProposalDeterministic_def and_then_def bare_result_def commitDeterministicResult_def
        publish_def markProcessed_def external_def fresh_world_def plain_env_def sample_proposal_def)
  then have "handle_proposal plain_env None ''7'' ?p fresh_world
      = (fst (handle_proposal plain_env None ''7'' ?p fresh_world), Inr ())"
    by (metis prod.collapse)
  from governance_redelivery_harmless[OF this, of 1] show ?thesis by (simp add: Let_def)
qed

text \<open>
  A rejected equivalence proposal goes nowhere. When the equivalence rule does not approve,
  handling the proposal publishes nothing about it and never writes the MITL table, so no
  human sees it: the only traces are a metric, a decision record and an audit event.
\<close>

theorem rejected_equivalence_reaches_nobody:
  assumes "decideEquivalence min_conf (pp_payload prop) = Inr d" and "ed_outcome d \<noteq> ''approve''"
    and "processEquivalenceProposal min_conf prop w = (w', r)"
  shows "w_bus w' = w_bus w \<and> w_pending w' = w_pending w \<and> w_edges w' = w_edges w
    \<and> w_states w' = w_states w"
proof -
  have n: "\<forall>d. decideEquivalence min_conf (pp_payload prop) = Inr d \<longrightarrow> ed_outcome d \<noteq> ''approve''"
    using assms(1,2) by simp
  have "keeps w_bus (processEquivalenceProposal min_conf prop)"
    "keeps w_pending (processEquivalenceProposal min_conf prop)"
    "keeps w_edges (processEquivalenceProposal min_conf prop)"
    "keeps w_states (processEquivalenceProposal min_conf prop)"
    by (rule keeps_equivalence; simp add: n)+
  then show ?thesis using assms(3) by (metis keepsD)
qed

theorem rejected_equivalence_reaches_nobody_witness:
  "let p = (sample_proposal None)
         \<lparr> pp_payload := empty_payload \<lparr> p_nli_confidence := Some 0, p_nli_label := Some ''neutral'' \<rparr> \<rparr>
   in w_pending (fst (processEquivalenceProposal (1 / 2) p fresh_world)) = []"
proof -
  let ?p = "(sample_proposal None)
         \<lparr> pp_payload := empty_payload \<lparr> p_nli_confidence := Some 0, p_nli_label := Some ''neutral'' \<rparr> \<rparr>"
  obtain d where d: "decideEquivalence (1 / 2) (pp_payload ?p) = Inr d" "ed_outcome d \<noteq> ''approve''"
    by (simp add: decideEquivalence_def Let_def)
  show ?thesis
    using rejected_equivalence_reaches_nobody[OF d, of fresh_world] unfolding Let_def
    by (metis (no_types, lifting) fresh_world_def prod.collapse world_at_select(8))
qed

end
