(* ===== verification/State_Concurrency.thy ===== *)
theory State_Concurrency
  imports State_Graph
begin

text \<open>
  Concurrent advances. The locale \<open>epoch_cas\<close> is what a compare-and-set on an epoch promises; its
  client runs any sequence of attempts and learns that no epoch is won twice. It is interpreted on
  the commit transaction of \<open>advanceState\<close>. The step relation \<open>pipeline_step\<close> then interleaves the
  check and the commit of any number of processes, whose invariant is that every commit follows
  the cycle. The last section shows what \<open>resetStateTo\<close> does to both guarantees.
\<close>

section \<open>Compare-and-set on an epoch\<close>

locale epoch_cas =
  fixes epoch :: "'s \<Rightarrow> 'k \<Rightarrow> int option"
    and commit :: "'k \<Rightarrow> int \<Rightarrow> 'n \<Rightarrow> 's \<Rightarrow> 's \<times> bool"
  assumes won: "commit k e n s = (s', True) \<Longrightarrow>
      epoch s k = Some e \<and> epoch s' k = Some (e + 1) \<and> (\<forall>k'. k' \<noteq> k \<longrightarrow> epoch s' k' = epoch s k')"
    and lost: "commit k e n s = (s', False) \<Longrightarrow> epoch s' = epoch s"
begin

fun attempts :: "('k \<times> int \<times> 'n) list \<Rightarrow> 's \<Rightarrow> 's \<times> ('k \<times> int) list" where
  "attempts [] s = (s, [])"
| "attempts ((k, e, n) # as) s =
     (case commit k e n s of
        (s', ok) \<Rightarrow> (case attempts as s' of (s'', wins) \<Rightarrow> (s'', (if ok then [(k, e)] else []) @ wins)))"

definition wins_of :: "'k \<Rightarrow> ('k \<times> int) list \<Rightarrow> nat" where
  "wins_of k wins = length (filter (\<lambda>x. fst x = k) wins)"

lemma attempts_wins:
  "attempts as s = (s', wins) \<Longrightarrow>
   (\<forall>k. epoch s' k = map_option (\<lambda>e. e + int (wins_of k wins)) (epoch s k))
   \<and> (\<forall>(k, e) \<in> set wins. \<exists>e0. epoch s k = Some e0 \<and> e0 \<le> e)
   \<and> distinct wins"
proof (induction as s arbitrary: s' wins rule: attempts.induct)
  case (1 s)
  then show ?case by (auto simp: wins_of_def option.map_ident)
next
  case (2 k e n as s)
  obtain s1 ok where c: "commit k e n s = (s1, ok)" by fastforce
  obtain s2 ws where a: "attempts as s1 = (s2, ws)" by fastforce
  note IH = "2.IH"[OF c[symmetric] a]
  have res: "s' = s2" "wins = (if ok then [(k, e)] else []) @ ws"
    using "2.prems" c a by auto
  show ?case
  proof (cases ok)
    case False
    then show ?thesis using IH res lost c by auto
  next
    case True
    then have w: "epoch s k = Some e" "epoch s1 k = Some (e + 1)"
      "\<And>k'. k' \<noteq> k \<Longrightarrow> epoch s1 k' = epoch s k'" using won c by auto
    have "(k, e) \<notin> set ws" using IH w(2) by fastforce
    moreover have "\<forall>(k', e') \<in> set ws. \<exists>e0. epoch s k' = Some e0 \<and> e0 \<le> e'"
    proof clarify
      fix k' e' assume "(k', e') \<in> set ws"
      then obtain e0 where "epoch s1 k' = Some e0" "e0 \<le> e'" using IH by fastforce
      then show "\<exists>e0. epoch s k' = Some e0 \<and> e0 \<le> e'"
        using w by (cases "k' = k") auto
    qed
    moreover have "epoch s2 k' = map_option (\<lambda>x. x + int (wins_of k' wins)) (epoch s k')" for k'
      using IH w res True by (cases "k' = k") (auto simp: wins_of_def)
    ultimately show ?thesis using IH res True w by auto
  qed
qed

lemma attempts_at_most_once: "attempts as s = (s', wins) \<Longrightarrow> distinct wins"
  using attempts_wins by blast

end

definition row_epoch :: "world \<Rightarrow> string \<Rightarrow> int option" where
  "row_epoch w scope = map_option gs_epoch (map_get (w_states w) scope)"

definition try_commit :: "string \<Rightarrow> int \<Rightarrow> graph_node \<Rightarrow> world \<Rightarrow> world \<times> bool" where
  "try_commit scope e node w =
     (case advance_commit scope e node w of (w', r) \<Rightarrow> (w', case r of Inr (Some _) \<Rightarrow> True | _ \<Rightarrow> False))"

interpretation state_cas: epoch_cas row_epoch try_commit
proof
  fix k e n s s' assume "try_commit k e n s = (s', True)"
  then obtain ns where "advance_commit k e n s = (s', Inr (Some ns))"
    by (auto simp: try_commit_def split: prod.splits sum.splits option.splits)
  then obtain row where "map_get (w_states s) k = Some row" "gs_epoch row = e"
    "ns = committed_row row n (w_now s)" "w_states s' = map_set k ns (w_states s)"
    using advance_commit_Some by blast
  then show "row_epoch s k = Some e \<and> row_epoch s' k = Some (e + 1)
      \<and> (\<forall>k'. k' \<noteq> k \<longrightarrow> row_epoch s' k' = row_epoch s k')"
    by (simp add: row_epoch_def map_get_set committed_row_def)
next
  fix k e n s s' assume "try_commit k e n s = (s', False)"
  then obtain r where "advance_commit k e n s = (s', r)" "\<nexists>ns. r = Inr (Some ns)"
    by (auto simp: try_commit_def split: prod.splits sum.splits option.splits)
  then show "row_epoch s' = row_epoch s"
    using advance_commit_not_Some by (auto simp: row_epoch_def fun_eq_iff)
qed

definition run_attempts ::
  "(string \<times> int \<times> graph_node) list \<Rightarrow> world \<Rightarrow> world \<times> (string \<times> int) list" where
  "run_attempts = state_cas.attempts"

text \<open>
  C7. However many processes race to commit, in whatever order their transactions run, whatever
  node each of them read and whichever calls fail, each epoch of each scope is won at most once,
  and the epoch of a scope grows by exactly the number of commits won for it.
\<close>

theorem epoch_won_at_most_once:
  "case run_attempts as w of (w', wins) \<Rightarrow>
     distinct wins
     \<and> row_epoch w' scope =
         map_option (\<lambda>e. e + int (length (filter (\<lambda>x. fst x = scope) wins))) (row_epoch w scope)"
  using state_cas.attempts_wins[of as w]
  by (auto simp: run_attempts_def state_cas.wins_of_def split: prod.splits)

section \<open>Interleaved checks and commits\<close>

datatype control = Idle | Checked string int graph_node

record system =
  sys_world :: world
  sys_control :: "nat \<Rightarrow> control"
  sys_moves :: "(string \<times> graph_node \<times> graph_node) list"

definition row_node :: "world \<Rightarrow> string \<Rightarrow> graph_node option" where
  "row_node w scope = map_option gs_lastNode (map_get (w_states w) scope)"

text \<open>A process checks, commits what it checked, or gives up; rows may be initialised. The ghost
  field \<open>sys_moves\<close> records, for every commit, the node the row was at and the node it went to.\<close>

inductive pipeline_step :: "system \<Rightarrow> system \<Rightarrow> bool" where
  check: "\<lbrakk> sys_control s i = Idle;
            advance_check e opts (sys_world s) = (w', Inr (Some node)) \<rbrakk> \<Longrightarrow>
     pipeline_step s (s \<lparr> sys_world := w',
       sys_control := (sys_control s)(i := Checked (advance_scope opts) e node) \<rparr>)"
| commit: "\<lbrakk> sys_control s i = Checked scope e node;
             advance_commit scope e node (sys_world s) = (w', Inr (Some ns));
             row_node (sys_world s) scope = Some from \<rbrakk> \<Longrightarrow>
     pipeline_step s (s \<lparr> sys_world := w', sys_control := (sys_control s)(i := Idle),
       sys_moves := sys_moves s @ [(scope, from, gs_lastNode ns)] \<rparr>)"
| commit_lost: "\<lbrakk> sys_control s i = Checked scope e node;
             advance_commit scope e node (sys_world s) = (w', r); \<nexists>ns. r = Inr (Some ns) \<rbrakk> \<Longrightarrow>
     pipeline_step s (s \<lparr> sys_world := w', sys_control := (sys_control s)(i := Idle) \<rparr>)"
| init: "initState scope run start (sys_world s) = (w', r) \<Longrightarrow>
     pipeline_step s (s \<lparr> sys_world := w' \<rparr>)"

inductive_cases pipeline_stepE: "pipeline_step s s'"

inductive reachable :: "system \<Rightarrow> system \<Rightarrow> bool" where
  start: "reachable s s"
| more: "reachable s s' \<Longrightarrow> pipeline_step s' s'' \<Longrightarrow> reachable s s''"

text \<open>A checked process either knows the node of the row or has been overtaken.\<close>

definition checked_ok :: "world \<Rightarrow> control \<Rightarrow> bool" where
  "checked_ok w c =
    (case c of
       Idle \<Rightarrow> True
     | Checked scope e node \<Rightarrow>
        (case map_get (w_states w) scope of
           None \<Rightarrow> False
         | Some row \<Rightarrow> gs_epoch row > e \<or> (gs_epoch row = e \<and> gs_lastNode row = node)))"

definition sys_inv :: "system \<Rightarrow> bool" where
  "sys_inv s = ((\<forall>i. checked_ok (sys_world s) (sys_control s i))
                \<and> (\<forall>(scope, from, to) \<in> set (sys_moves s). to = transitions from))"

lemma checked_ok_states: "w_states w' = w_states w \<Longrightarrow> checked_ok w' c = checked_ok w c"
  by (simp add: checked_ok_def split: control.splits)

lemma checked_ok_commit:
  assumes "advance_commit sc e node w = (w', Inr (Some ns))" "checked_ok w c"
  shows "checked_ok w' c"
proof -
  obtain row where "map_get (w_states w) sc = Some row" "gs_epoch row = e"
    "ns = committed_row row node (w_now w)" "w_states w' = map_set sc ns (w_states w)"
    using advance_commit_Some[OF assms(1)] by blast
  then show ?thesis using assms(2)
    by (auto simp: checked_ok_def map_get_set committed_row_def split: control.splits option.splits)
qed

lemma initState_rows:
  "initState sc run start w = (w', r) \<Longrightarrow> map_get (w_states w) sc' = Some row \<Longrightarrow>
   map_get (w_states w') sc' = Some row"
  by (auto simp: initState_def and_then_def external_def loadState_def map_get_set Let_def
      split: option.splits if_splits prod.splits sum.splits)

lemma checked_ok_init:
  "initState sc run start w = (w', r) \<Longrightarrow> checked_ok w c \<Longrightarrow> checked_ok w' c"
  using initState_rows[of sc run start w w' r]
  by (auto simp: checked_ok_def split: control.splits option.splits)

lemma sys_inv_step: "pipeline_step s s' \<Longrightarrow> sys_inv s \<Longrightarrow> sys_inv s'"
proof (induction rule: pipeline_step.induct)
  case (check s i e opts w' node)
  have "w' = tick (sys_world s)" and row: "\<exists>row. map_get (w_states (sys_world s)) (advance_scope opts)
      = Some row \<and> gs_epoch row = e \<and> gs_lastNode row = node"
    using advance_check_Some[OF check(2)] by auto
  then show ?case using check(3)
    by (auto simp: sys_inv_def checked_ok_states[of "tick (sys_world s)" "sys_world s"])
      (auto simp: checked_ok_def)
next
  case (commit s i scope e node w' ns "from")
  obtain row where row: "map_get (w_states (sys_world s)) scope = Some row" "gs_epoch row = e"
    "ns = committed_row row node (w_now (sys_world s))"
    using advance_commit_Some[OF commit(2)] by blast
  have "checked_ok (sys_world s) (Checked scope e node)"
    using commit(1,4) unfolding sys_inv_def by metis
  then have "gs_lastNode row = node" using row by (simp add: checked_ok_def)
  then have "gs_lastNode ns = transitions from"
    using row commit(3) by (simp add: committed_row_def row_node_def)
  then show ?case using commit(4) checked_ok_commit[OF commit(2)]
    by (auto simp: sys_inv_def checked_ok_def)
next
  case (commit_lost s i scope e node w' r)
  have "w_states w' = w_states (sys_world s)"
    using advance_commit_not_Some[OF commit_lost(2,3)] by blast
  then show ?case using commit_lost(4)
    by (auto simp: sys_inv_def checked_ok_states[of w' "sys_world s"]) (simp add: checked_ok_def)
next
  case (init scope run start s w' r)
  then show ?case using checked_ok_init by (auto simp: sys_inv_def)
qed

lemma sys_inv_reachable: "reachable s s' \<Longrightarrow> sys_inv s \<Longrightarrow> sys_inv s'"
  by (induction rule: reachable.induct) (auto intro: sys_inv_step)


text \<open>One process checks and commits the row of a fresh scope.\<close>

definition plain_opts :: "string \<Rightarrow> advance_options" where
  "plain_opts scope = \<lparr> ao_scopeId = Some scope, ao_drift = None, ao_governance = None \<rparr>"


section \<open>What a reset breaks\<close>

text \<open>
  \<open>resetStateTo\<close> puts the epoch back to 0, so the compare-and-set no longer identifies the
  row a process checked: after a reset to any node, a commit checked before it for epoch 0 at
  another node wins, and moves the row to the successor of the node that was checked - not of the
  node the row was reset to.
\<close>

theorem reset_reopens_epoch:
  assumes "map_get (w_states w) scope = Some row" "\<And>k. \<not> w_faults w k"
  shows "let w' = fst (resetStateTo scope node (Some run) w) in
      row_node w' scope = Some node
      \<and> map_option gs_lastNode (case snd (advance_commit scope 0 stale w') of
            Inr r \<Rightarrow> r | Inl _ \<Rightarrow> None) = Some (transitions stale)"
proof -
  let ?r0 = "\<lparr> gs_runId = run, gs_lastNode = node, gs_updatedAt = w_now w, gs_epoch = 0 \<rparr>"
  define w' where "w' = fst (resetStateTo scope node (Some run) w)"
  have w': "w_states w' = map_set scope ?r0 (w_states w)" "w_faults w' = w_faults w"
    using assms by (simp_all add: w'_def resetStateTo_def and_then_def external_def loadState_def)
  then have "snd (advance_commit scope 0 stale w') = Inr (Some (committed_row ?r0 stale (w_now w')))"
    using assms(2) by (intro advance_commit_ok) (simp_all add: map_get_set)
  then show ?thesis
    using w' by (simp add: w'_def[symmetric] row_node_def map_get_set committed_row_def)
qed

theorem reset_reopens_epoch_witness:
  "let w' = fst (resetStateTo ''s'' DriftChecked (Some ''r2'') (world_at ''s'' FactsExtracted 1)) in
   row_node w' ''s'' = Some DriftChecked
   \<and> map_option gs_lastNode (case snd (advance_commit ''s'' 0 ContextIngested w') of
        Inr r \<Rightarrow> r | Inl _ \<Rightarrow> None) = Some FactsExtracted"
  using reset_reopens_epoch[of "world_at ''s'' FactsExtracted 1" "''s''" "row_at FactsExtracted 1"
      DriftChecked "''r2''" ContextIngested] by (simp add: Let_def)

end
