(* ===== verification/Claim_Text.thy ===== *)
theory Claim_Text
  imports Dimension_Schema "HOL-Library.List_Lexorder" "HOL-Library.Char_ord"
begin

text \<open>
  The text comparisons behind the semantic graph: the canonical key of a claim
  (\<open>src/canonicalValue.ts\<close>), the two sides of a contradiction and its order-independent key
  (\<open>src/contradictionPair.ts\<close>, \<open>src/semantic-graph/contradictions.ts\<close>), and the significant-word
  overlaps by which the sync of facts, the resolutions and the studio recognise rephrasings.

  Regular expressions are sequences of runs and literals, matched with the backtracking order of
  JavaScript. Texts are ASCII, so the non-ASCII letters of some character classes do not occur.
  The rewriting of amounts inside \<open>canonicalizeClaimText\<close> is the parameter \<open>canon\<close>.
\<close>

section \<open>Claim keys\<close>

definition canonicalizeClaimText :: "(string \<Rightarrow> string) \<Rightarrow> string \<Rightarrow> string" where
  "canonicalizeClaimText canon raw = (if raw = [] then raw else canon raw)"

definition claim_key :: "(string \<Rightarrow> string) \<Rightarrow> string \<Rightarrow> string" where
  "claim_key canon raw = str_trim (collapse_spaces False (str_lower (canonicalizeClaimText canon raw)))"

lemma claim_key_Nil [simp]: "claim_key canon [] = []"
  by (simp add: claim_key_def canonicalizeClaimText_def str_lower_def str_trim_def)

section \<open>Regular expressions\<close>

text \<open>\<open>Run cap n lazy p\<close>: at least \<open>n\<close> characters in \<open>p\<close>, as a group when \<open>cap\<close>; \<open>Lits\<close>: one of the words,
  in this order; \<open>Eos\<close>: the end of the text. The words are in lower case when \<open>ic\<close>.\<close>

datatype rx = Run bool nat bool "char \<Rightarrow> bool" | Lits "string list" | Eos

fun try_each :: "('a \<Rightarrow> 'b option) \<Rightarrow> 'a list \<Rightarrow> 'b option" where
  "try_each f [] = None"
| "try_each f (x # xs) = (case f x of Some y \<Rightarrow> Some y | None \<Rightarrow> try_each f xs)"

fun rx_match :: "bool \<Rightarrow> rx list \<Rightarrow> string \<Rightarrow> string list option" where
  "rx_match ic [] s = Some []"
| "rx_match ic (Eos # rs) s = (if s = [] then rx_match ic rs s else None)"
| "rx_match ic (Lits ws # rs) s =
     try_each (\<lambda>w. if str_starts_with (if ic then str_lower s else s) w
                   then rx_match ic rs (drop (length w) s) else None) ws"
| "rx_match ic (Run cap n lazy p # rs) s =
     (let m = length (takeWhile p s); ks = (if lazy then [n..<Suc m] else rev [n..<Suc m]) in
      try_each (\<lambda>k. map_option (\<lambda>gs. if cap then take k s # gs else gs) (rx_match ic rs (drop k s))) ks)"

fun rx_search :: "bool \<Rightarrow> rx list \<Rightarrow> string \<Rightarrow> string list option" where
  "rx_search ic rs [] = rx_match ic rs []"
| "rx_search ic rs (c # cs) =
     (case rx_match ic rs (c # cs) of Some gs \<Rightarrow> Some gs | None \<Rightarrow> rx_search ic rs cs)"

definition any_char :: "char \<Rightarrow> bool" where
  "any_char c = True"

definition rx_dot :: "char \<Rightarrow> bool" where
  "rx_dot c = (c \<noteq> CHR 0x0A \<and> c \<noteq> CHR 0x0D)"

definition spaces :: "nat \<Rightarrow> rx" where
  "spaces n = Run False n False js_space"

definition groups2 :: "string list option \<Rightarrow> (string \<times> string) option" where
  "groups2 gs = (case gs of Some [a, b] \<Rightarrow> Some (a, b) | _ \<Rightarrow> None)"

definition quote_mark :: string where
  "quote_mark = [CHR 0x22]"

definition nli_rx :: "rx list" where
  "nli_rx = [Lits [''NLI:''], spaces 0, Lits [quote_mark], Run True 0 True any_char, Lits [quote_mark],
     spaces 1, Lits [''vs''], spaces 1, Lits [quote_mark], Run True 0 True any_char, Lits [quote_mark]]"

definition contradicts_rx :: "rx list" where
  "contradicts_rx = [Run True 0 True rx_dot, spaces 1, Lits [''contradicts'', ''contradict''], spaces 1,
     Run True 0 False rx_dot, Eos]"

definition which_rx :: "rx list" where
  "which_rx = [Run True 1 True rx_dot, Lits ['','', []], spaces 1, Lits [''which''], spaces 1,
     Lits [''contradicts'', ''contradict''], spaces 1, Run True 1 False rx_dot]"

definition versus_rx :: "rx list" where
  "versus_rx = [Run True 1 True rx_dot, spaces 1, Lits [''versus'', ''vs.'', ''vs''], spaces 1,
     Run True 1 False rx_dot]"

definition but_rx :: "rx list" where
  "but_rx = [Run True 1 True rx_dot, Lits ['','', []], spaces 1,
     Lits [''but'', ''while'', ''whereas'', ''however''], spaces 1, Run True 1 False rx_dot]"

definition trim2 :: "string \<times> string \<Rightarrow> string \<times> string" where
  "trim2 ab = (str_trim (fst ab), str_trim (snd ab))"

definition strip_suffix :: "string \<Rightarrow> string \<Rightarrow> string" where
  "strip_suffix p s = (if str_starts_with (rev s) (rev p) then take (length s - length p) s else s)"

section \<open>The sides of a contradiction\<close>

definition parseContradictionSides :: "string \<Rightarrow> (string \<times> string) option" where
  "parseContradictionSides content =
    (let s = str_trim content; clean = (\<lambda>x. str_trim (strip_suffix ''...'' x)) in
     case groups2 (rx_match False nli_rx s) of
       Some (a, b) \<Rightarrow> Some (clean a, clean b)
     | None \<Rightarrow>
        map_option trim2
          (or_else (groups2 (rx_match True contradicts_rx s))
            (or_else (groups2 (rx_search True versus_rx s)) (groups2 (rx_search True but_rx s)))))"

text \<open>Replacing first two or more trailing dots and then one or more strips all of them.\<close>

definition strip_dots :: "string \<Rightarrow> string" where
  "strip_dots x = str_trim (rev (dropWhile (\<lambda>c. c = CHR ''.'') (rev x)))"

definition parseContradictionPair :: "string \<Rightarrow> (string \<times> string) option" where
  "parseContradictionPair content =
    (let s = str_trim content;
         nli = (case groups2 (rx_match False nli_rx s) of
                  Some (a, b) \<Rightarrow> (if strip_dots a \<noteq> [] \<and> strip_dots b \<noteq> []
                                  then Some (strip_dots a, strip_dots b) else None)
                | None \<Rightarrow> None) in
     or_else nli
       (map_option trim2
          (or_else (groups2 (rx_match True contradicts_rx s))
            (or_else (groups2 (rx_search True which_rx s))
              (or_else (groups2 (rx_search True versus_rx s)) (groups2 (rx_search True but_rx s)))))))"

definition contradictionPairKey :: "(string \<Rightarrow> string) \<Rightarrow> string \<Rightarrow> string option" where
  "contradictionPairKey canon content =
    (case parseContradictionPair content of
       None \<Rightarrow> None
     | Some (x, y) \<Rightarrow>
        (let a = claim_key canon x; b = claim_key canon y in
         if a = [] \<or> b = [] then None
         else Some (if a \<le> b then a @ ''::'' @ b else b @ ''::'' @ a)))"

section \<open>Significant words\<close>

definition small_alnum :: "char \<Rightarrow> bool" where
  "small_alnum c = (is_lower_letter c \<or> is_digit c)"

definition sync_stop :: "string list" where
  "sync_stop = [''the'', ''and'', ''for'', ''are'', ''was'', ''were'', ''has'', ''have'', ''had'', ''not'',
     ''but'', ''its'', ''that'', ''this'', ''from'', ''with'', ''they'', ''been'', ''which'', ''into'',
     ''also'', ''than'', ''will'', ''can'', ''may'', ''who'', ''how'', ''all'', ''any'', ''each'',
     ''some'', ''such'', ''very'']"

definition studio_stop :: "string list" where
  "studio_stop = sync_stop @ [''now'', ''previously'', ''before'', ''after'']"

text \<open>The sync drops the other characters, the studio puts a blank in their place.\<close>

definition words_of :: "string \<Rightarrow> string list" where
  "words_of s = split_words (\<lambda>c. \<not> js_space c) [] s"

definition significant :: "string list \<Rightarrow> string list \<Rightarrow> string list" where
  "significant stop ws =
     remdups (map (take 6) (filter (\<lambda>w. 2 < length w \<and> w \<notin> set stop) ws))"

definition sigWords :: "string \<Rightarrow> string list" where
  "sigWords s = significant sync_stop
     (words_of (filter (\<lambda>c. small_alnum c \<or> js_space c) (str_lower s)))"

definition blank_other :: "(char \<Rightarrow> bool) \<Rightarrow> string \<Rightarrow> string" where
  "blank_other ok s = map (\<lambda>c. if ok c \<or> js_space c then c else CHR '' '') s"

definition studio_words :: "string \<Rightarrow> string list" where
  "studio_words s = significant studio_stop (words_of (blank_other small_alnum (str_lower s)))"

definition shared_words :: "string list \<Rightarrow> string list \<Rightarrow> nat" where
  "shared_words wa wb = length (filter (\<lambda>w. w \<in> set wb) wa)"

definition word_overlap :: "string list \<Rightarrow> string list \<Rightarrow> rat" where
  "word_overlap wa wb =
     (if wa = [] \<or> wb = [] then 0
      else of_nat (shared_words wa wb) / of_nat (max (length wa) (length wb)))"

definition tokenOverlap :: "string \<Rightarrow> string \<Rightarrow> rat" where
  "tokenOverlap a b = word_overlap (sigWords a) (sigWords b)"

definition studio_overlap :: "string \<Rightarrow> string \<Rightarrow> rat" where
  "studio_overlap a b = word_overlap (studio_words a) (studio_words b)"

definition long_words :: "string \<Rightarrow> string list" where
  "long_words s = remdups (filter (\<lambda>w. 3 < length w)
     (words_of (blank_other (\<lambda>c. small_alnum c \<or> c = CHR ''$'') (str_lower s))))"

definition contradictionContentOverlap :: "string \<Rightarrow> string \<Rightarrow> rat" where
  "contradictionContentOverlap a b = word_overlap (long_words a) (long_words b)"

text \<open>\<open>findRelatedNodeIds\<close> of \<open>src/studio/graphEdges.ts\<close>: the best matches first, each once.\<close>

definition findRelatedNodeIds :: "(string \<times> string) list \<Rightarrow> string \<Rightarrow> nat \<Rightarrow> rat \<Rightarrow> string list" where
  "findRelatedNodeIds candidates txt limit minScore =
    (let scored = filter (\<lambda>(i, s). minScore \<le> s) (map (\<lambda>(i, c). (i, studio_overlap txt c)) candidates);
         ranked = map fst (sort_key (\<lambda>(i, s). - s) scored) in
     take limit (rev (remdups (rev ranked))))"

section \<open>Facts\<close>

lemma shared_words_le: "shared_words wa wb \<le> length wa"
  by (simp add: shared_words_def)

lemma word_overlap_bounds: "0 \<le> word_overlap wa wb \<and> word_overlap wa wb \<le> 1"
proof (cases "wa = [] \<or> wb = []")
  case False
  have "of_nat (shared_words wa wb) \<le> (of_nat (max (length wa) (length wb)) :: rat)"
    using shared_words_le[of wa wb] by (simp only: of_nat_le_iff max_def split: if_split) arith
  then show ?thesis using False by (simp add: word_overlap_def divide_le_eq_1 less_max_iff_disj)
qed (auto simp: word_overlap_def)

lemma word_overlap_self: "wa \<noteq> [] \<Longrightarrow> word_overlap wa wa = 1"
  by (simp add: word_overlap_def shared_words_def)

lemma pair_key_symmetric:
  assumes "parseContradictionPair x = Some (a, b)" "parseContradictionPair y = Some (b, a)"
  shows "contradictionPairKey canon x = contradictionPairKey canon y"
  using assms by (auto simp: contradictionPairKey_def Let_def)

end
