(* ===== verification/Semantic_Graph.thy ===== *)
theory Semantic_Graph
  imports Claim_Text
begin

text \<open>
  The semantic graph of a scope, \<open>src/semantic-graph\<close>: the bitemporal views, the statements on the
  tables \<open>nodes\<close> and \<open>edges\<close>, the snapshot the finality check reads, and the details of the
  unresolved contradictions, whose query writes the nodes it misses. A node identifier is drawn by
  the database; an insert whose identifier exists fails on the primary key, and an edge needs the
  two nodes it joins. Rows of one time keep the order of their insertion in every sorted query.
\<close>

section \<open>Loops\<close>

fun for_each :: "('a \<Rightarrow> 's \<Rightarrow> ('w, 's) exec) \<Rightarrow> 'a list \<Rightarrow> 's \<Rightarrow> ('w, 's) exec" where
  "for_each f [] s = ret s"
| "for_each f (x # xs) s = and_then (f x s) (for_each f xs)"

section \<open>Views\<close>

text \<open>\<open>CURRENT_VIEW_NODES\<close> and \<open>CURRENT_VIEW_EDGES\<close>: not superseded, and valid now or open-ended.\<close>

definition current_view :: "int \<Rightarrow> int option \<Rightarrow> int option \<Rightarrow> bool" where
  "current_view now superseded valid_to =
     (superseded = None \<and> (case valid_to of None \<Rightarrow> True | Some t \<Rightarrow> now < t))"

definition node_current :: "int \<Rightarrow> node_row \<Rightarrow> bool" where
  "node_current now n = current_view now (nd_superseded n) (nd_valid_to n)"

definition edge_current :: "int \<Rightarrow> edge_row \<Rightarrow> bool" where
  "edge_current now e = current_view now (eg_superseded e) (eg_valid_to e)"

text \<open>The time-travel conditions. A comparison with NULL is not true, so a row without \<open>valid_from\<close> is in
  no view of a valid time.\<close>

definition valid_at :: "int \<Rightarrow> int option \<Rightarrow> int option \<Rightarrow> bool" where
  "valid_at t since ending = ((case since of None \<Rightarrow> False | Some f \<Rightarrow> f \<le> t) \<and> (case ending of None \<Rightarrow> True | Some u \<Rightarrow> t < u))"

definition recorded_at :: "int \<Rightarrow> int \<Rightarrow> int option \<Rightarrow> bool" where
  "recorded_at t recorded superseded = (recorded \<le> t \<and> (case superseded of None \<Rightarrow> True | Some s \<Rightarrow> t < s))"

record view_options =
  vo_valid_time :: "int option"
  vo_recorded_at :: "int option"

definition in_view ::
  "view_options \<Rightarrow> int \<Rightarrow> int option \<Rightarrow> int option \<Rightarrow> int \<Rightarrow> int option \<Rightarrow> bool" where
  "in_view vw now since ending recorded superseded =
    (if vo_valid_time vw = None \<and> vo_recorded_at vw = None then current_view now superseded ending
     else (case vo_valid_time vw of None \<Rightarrow> True | Some t \<Rightarrow> valid_at t since ending)
       \<and> (case vo_recorded_at vw of None \<Rightarrow> True | Some t \<Rightarrow> recorded_at t recorded superseded))"

definition buildNodeViewCondition :: "view_options \<Rightarrow> int \<Rightarrow> node_row \<Rightarrow> bool" where
  "buildNodeViewCondition vw now n =
     in_view vw now (nd_valid_from n) (nd_valid_to n) (nd_recorded n) (nd_superseded n)"

definition buildEdgeViewCondition :: "view_options \<Rightarrow> int \<Rightarrow> edge_row \<Rightarrow> bool" where
  "buildEdgeViewCondition vw now e =
     in_view vw now (eg_valid_from e) (eg_valid_to e) (eg_recorded e) (eg_superseded e)"

section \<open>Statements on nodes\<close>

definition update_nodes :: "(node_row \<Rightarrow> bool) \<Rightarrow> (node_row \<Rightarrow> node_row) \<Rightarrow> world \<Rightarrow> world" where
  "update_nodes P f w = w \<lparr> w_nodes := map (\<lambda>n. if P n then f n else n) (w_nodes w) \<rparr>"

definition update_statement :: "(node_row \<Rightarrow> bool) \<Rightarrow> (world \<Rightarrow> node_row \<Rightarrow> node_row) \<Rightarrow> (world, unit) exec" where
  "update_statement P f = external (\<lambda>w. (update_nodes P (f w) w, Inr ()))"

definition node_ids :: "world \<Rightarrow> string list" where
  "node_ids w = map nd_id (w_nodes w)"

record node_input =
  ni_scope :: string
  ni_type :: string
  ni_content :: string
  ni_confidence :: "rat option"
  ni_status :: "string option"
  ni_source :: json_obj
  ni_meta :: json_obj
  ni_by :: "string option"
  ni_embedding :: "rat list option"
  ni_valid_from :: "int option"
  ni_valid_to :: "int option"

definition new_node :: "node_input \<Rightarrow> string \<Rightarrow> int \<Rightarrow> node_row" where
  "new_node i nodeId now =
     \<lparr> nd_id = nodeId, nd_scope = ni_scope i, nd_type = ni_type i, nd_content = ni_content i,
       nd_confidence = coalesce (ni_confidence i) 1, nd_status = coalesce (ni_status i) ''active'',
       nd_source = ni_source i, nd_meta = ni_meta i, nd_created = now, nd_updated = now,
       nd_by = ni_by i, nd_version = 1, nd_valid_from = ni_valid_from i, nd_valid_to = ni_valid_to i,
       nd_recorded = now, nd_superseded = None,
       nd_embedding = (case ni_embedding i of Some [] \<Rightarrow> None | x \<Rightarrow> x) \<rparr>"

definition appendNode :: "node_input \<Rightarrow> (world, string) exec" where
  "appendNode i = external (\<lambda>w.
     let nodeId = w_uuid w (w_uuids w) in
     if nodeId \<in> set (node_ids w) then (w, Inl (JsError ''primary key''))
     else (w \<lparr> w_uuids := w_uuids w + 1, w_nodes := w_nodes w @ [new_node i nodeId (w_now w)] \<rparr>, Inr nodeId))"

definition created_in :: "string \<Rightarrow> string \<Rightarrow> node_row \<Rightarrow> bool" where
  "created_in scopeId createdBy n = (nd_scope n = scopeId \<and> nd_by n = Some createdBy)"

text \<open>The foreign keys of \<open>edges\<close> are \<open>ON DELETE CASCADE\<close>.\<close>

definition deleteNodesBySource :: "string \<Rightarrow> string \<Rightarrow> (world, nat) exec" where
  "deleteNodesBySource scopeId createdBy = external (\<lambda>w.
     let gone = filter (created_in scopeId createdBy) (w_nodes w); ids = nd_id ` set gone in
     (w \<lparr> w_nodes := filter (\<lambda>n. \<not> created_in scopeId createdBy n) (w_nodes w),
          w_edges := filter (\<lambda>e. eg_source e \<notin> ids \<and> eg_target e \<notin> ids) (w_edges w) \<rparr>,
      Inr (length gone)))"

definition supersedeNode :: "string \<Rightarrow> string \<Rightarrow> (world, nat) exec" where
  "supersedeNode scopeId nodeId = external (\<lambda>w.
     let P = (\<lambda>n. nd_scope n = scopeId \<and> nd_id n = nodeId \<and> nd_superseded n = None) in
     (update_nodes P (\<lambda>n. n \<lparr> nd_superseded := Some (w_now w) \<rparr>) w, Inr (length (filter P (w_nodes w)))))"

definition touch :: "world \<Rightarrow> node_row \<Rightarrow> node_row" where
  "touch w n = n \<lparr> nd_updated := w_now w, nd_version := nd_version n + 1 \<rparr>"

definition updateNodeContent :: "string \<Rightarrow> string \<Rightarrow> (world, unit) exec" where
  "updateNodeContent nodeId content =
     update_statement (\<lambda>n. nd_id n = nodeId) (\<lambda>w n. touch w n \<lparr> nd_content := content \<rparr>)"

definition updateNodeConfidence :: "string \<Rightarrow> rat \<Rightarrow> (world, unit) exec" where
  "updateNodeConfidence nodeId confidence =
     update_statement (\<lambda>n. nd_id n = nodeId \<and> nd_confidence n \<le> confidence)
       (\<lambda>w n. touch w n \<lparr> nd_confidence := confidence \<rparr>)"

definition updateNodeStatus :: "string \<Rightarrow> string \<Rightarrow> (world, unit) exec" where
  "updateNodeStatus nodeId status =
     update_statement (\<lambda>n. nd_id n = nodeId) (\<lambda>w n. touch w n \<lparr> nd_status := status \<rparr>)"

text \<open>\<open>source_ref || patch\<close> of two JSON objects: the keys of the patch win.\<close>

definition json_merge :: "json_obj \<Rightarrow> json_obj \<Rightarrow> json_obj" where
  "json_merge old patch = foldl (\<lambda>m (k, v). map_set k v m) old patch"

definition patch_source :: "string \<Rightarrow> json_obj \<Rightarrow> (world, unit) exec" where
  "patch_source nodeId patch =
     update_statement (\<lambda>n. nd_id n = nodeId) (\<lambda>w n. touch w n \<lparr> nd_source := json_merge (nd_source n) patch \<rparr>)"

record node_query =
  nq_scope :: string
  nq_type :: "string option"
  nq_status :: "string option"
  nq_limit :: "nat option"
  nq_view :: view_options

definition opt_is :: "string option \<Rightarrow> string \<Rightarrow> bool" where
  "opt_is want x = (case want of None \<Rightarrow> True | Some y \<Rightarrow> y = [] \<or> x = y)"

definition newest_first :: "('a \<Rightarrow> int) \<Rightarrow> 'a list \<Rightarrow> 'a list" where
  "newest_first f xs = sort_key (\<lambda>x. - f x) xs"

definition query_nodes :: "node_query \<Rightarrow> world \<Rightarrow> node_row list" where
  "query_nodes q w =
     take (min (coalesce (nq_limit q) 500) 5000)
       (newest_first nd_created
         (filter (\<lambda>n. nd_scope n = nq_scope q \<and> opt_is (nq_type q) (nd_type n)
            \<and> opt_is (nq_status q) (nd_status n) \<and> buildNodeViewCondition (nq_view q) (w_now w) n)
           (w_nodes w)))"

definition queryNodes :: "node_query \<Rightarrow> (world, node_row list) exec" where
  "queryNodes q = external (\<lambda>w. (w, Inr (query_nodes q w)))"

definition nodes_by_creator :: "string \<Rightarrow> string \<Rightarrow> string option \<Rightarrow> world \<Rightarrow> node_row list" where
  "nodes_by_creator scopeId createdBy type w =
     sort_key nd_created
       (filter (\<lambda>n. created_in scopeId createdBy n \<and> opt_is type (nd_type n) \<and> node_current (w_now w) n)
         (w_nodes w))"

definition queryNodesByCreator :: "string \<Rightarrow> string \<Rightarrow> string option \<Rightarrow> (world, node_row list) exec" where
  "queryNodesByCreator scopeId createdBy type =
     external (\<lambda>w. (w, Inr (nodes_by_creator scopeId createdBy type w)))"

section \<open>Statements on edges\<close>

record edge_input =
  ei_scope :: string
  ei_source :: string
  ei_target :: string
  ei_type :: string
  ei_weight :: "rat option"
  ei_meta :: json_obj
  ei_by :: "string option"
  ei_valid_from :: "int option"
  ei_valid_to :: "int option"

definition new_edge :: "edge_input \<Rightarrow> string \<Rightarrow> int \<Rightarrow> edge_row" where
  "new_edge i edgeId now =
     \<lparr> eg_id = edgeId, eg_scope = ei_scope i, eg_source = ei_source i, eg_target = ei_target i,
       eg_type = ei_type i, eg_weight = coalesce (ei_weight i) 1, eg_meta = ei_meta i, eg_created = now,
       eg_by = ei_by i, eg_valid_from = ei_valid_from i, eg_valid_to = ei_valid_to i,
       eg_recorded = now, eg_superseded = None \<rparr>"

definition appendEdge :: "edge_input \<Rightarrow> (world, string) exec" where
  "appendEdge i = external (\<lambda>w.
     let edgeId = w_uuid w (w_uuids w) in
     if edgeId \<in> eg_id ` set (w_edges w) then (w, Inl (JsError ''primary key''))
     else if ei_source i \<notin> set (node_ids w) \<or> ei_target i \<notin> set (node_ids w)
     then (w, Inl (JsError ''foreign key''))
     else (w \<lparr> w_uuids := w_uuids w + 1, w_edges := w_edges w @ [new_edge i edgeId (w_now w)] \<rparr>, Inr edgeId))"

definition supersedeEdge :: "string \<Rightarrow> string \<Rightarrow> (world, nat) exec" where
  "supersedeEdge scopeId edgeId = external (\<lambda>w.
     let P = (\<lambda>e. eg_scope e = scopeId \<and> eg_id e = edgeId \<and> eg_superseded e = None) in
     (w \<lparr> w_edges := map (\<lambda>e. if P e then e \<lparr> eg_superseded := Some (w_now w) \<rparr> else e) (w_edges w) \<rparr>,
      Inr (length (filter P (w_edges w)))))"

record edge_query =
  eq_scope :: string
  eq_type :: "string option"
  eq_source :: "string option"
  eq_target :: "string option"
  eq_limit :: "nat option"
  eq_view :: view_options

definition query_edges :: "edge_query \<Rightarrow> world \<Rightarrow> edge_row list" where
  "query_edges q w =
     take (min (coalesce (eq_limit q) 500) 5000)
       (newest_first eg_created
         (filter (\<lambda>e. eg_scope e = eq_scope q \<and> opt_is (eq_type q) (eg_type e)
            \<and> opt_is (eq_source q) (eg_source e) \<and> opt_is (eq_target q) (eg_target e)
            \<and> buildEdgeViewCondition (eq_view q) (w_now w) e) (w_edges w)))"

definition queryEdges :: "edge_query \<Rightarrow> (world, edge_row list) exec" where
  "queryEdges q = external (\<lambda>w. (w, Inr (query_edges q w)))"

definition resolving :: "string \<Rightarrow> string \<Rightarrow> string \<Rightarrow> int \<Rightarrow> edge_row \<Rightarrow> bool" where
  "resolving scopeId a b now e =
     (eg_scope e = scopeId \<and> eg_type e = ''resolves'' \<and> edge_current now e
      \<and> (eg_target e = a \<or> eg_target e = b))"

definition hasResolvingEdge :: "string \<Rightarrow> string \<Rightarrow> string \<Rightarrow> (world, bool) exec" where
  "hasResolvingEdge scopeId sourceId targetId =
     external (\<lambda>w. (w, Inr (list_ex (resolving scopeId sourceId targetId (w_now w)) (w_edges w))))"

end
