(* ===== verification/Equivalence_Trace.thy ===== *)
theory Equivalence_Trace
  imports Semantic_Graph
begin

text \<open>
  The trace of an approved equivalence, \<open>src/equivalenceTrace.ts\<close>: the surviving node takes the new
  text, and an \<open>entailment\<close> node is linked to it by an \<open>equivalent_to\<close> edge, once for each pair of claim
  keys. The caller is the executor of approved actions; the sync of facts asks which pairs are
  already merged.
\<close>

record equivalence_trace =
  et_scope_id :: string
  et_node :: string
  et_node_type :: string
  et_a :: string
  et_b :: string
  et_label :: string
  et_confidence :: rat
  et_decision_id :: string
  et_policy_version :: string

text \<open>The live equivalence edges of a scope with the entailment nodes they lead to.\<close>

definition trace_rows :: "string \<Rightarrow> world \<Rightarrow> (edge_row \<times> node_row) list" where
  "trace_rows scopeId w =
     filter (\<lambda>(e, n). nd_id n = eg_target e \<and> nd_type n = ''entailment'' \<and> nd_superseded n = None)
       (List.product (filter (\<lambda>e. eg_scope e = scopeId \<and> eg_type e = ''equivalent_to'' \<and> eg_superseded e = None)
          (w_edges w)) (w_nodes w))"

definition meta_text :: "string \<Rightarrow> node_row \<Rightarrow> string" where
  "meta_text k n = coalesce (json_str (map_get (nd_meta n) k)) []"

definition loadResolvedEquivalenceKeys :: "(string \<Rightarrow> string) \<Rightarrow> string \<Rightarrow> (world, string list) exec" where
  "loadResolvedEquivalenceKeys canon scopeId =
     external (\<lambda>w. (w, Inr (List.map_filter (\<lambda>(e, n).
        if meta_text ''b'' n = [] then None
        else Some (eg_source e @ '':'' @ claim_key canon (meta_text ''b'' n))) (trace_rows scopeId w))))"

definition same_claims :: "(string \<Rightarrow> string) \<Rightarrow> string \<Rightarrow> string \<Rightarrow> node_row \<Rightarrow> bool" where
  "same_claims canon a b n =
     (let k = claim_key canon; metaA = k (meta_text ''a'' n); metaB = k (meta_text ''b'' n) in
      (metaA = k a \<and> metaB = k b) \<or> (metaA = k b \<and> metaB = k a))"

definition findExistingTrace ::
  "(string \<Rightarrow> string) \<Rightarrow> string \<Rightarrow> string \<Rightarrow> string \<Rightarrow> string \<Rightarrow> (world, (string \<times> string) option) exec" where
  "findExistingTrace canon scopeId nodeId a b =
     external (\<lambda>w. (w, Inr (map_option (\<lambda>(e, n). (nd_id n, eg_id e))
        (List.find (\<lambda>(e, n). eg_source e = nodeId \<and> same_claims canon a b n) (trace_rows scopeId w)))))"

definition truncate_text :: "string \<Rightarrow> string" where
  "truncate_text s = (if length s > 160 then take 160 s @ map char_of [226, 128, 166 :: nat] else s)"

definition entailment_meta :: "equivalence_trace \<Rightarrow> json_obj" where
  "entailment_meta t =
    [(''nli_label'', JStr (et_label t)), (''nli_confidence'', JNum (et_confidence t)),
     (''decision_id'', JStr (et_decision_id t)), (''policy_version'', JStr (et_policy_version t)),
     (''node_type'', JStr (et_node_type t)), (''existing_node_id'', JStr (et_node t)),
     (''a'', JStr (et_a t)), (''b'', JStr (et_b t))]"

definition entailment_node :: "equivalence_trace \<Rightarrow> node_input" where
  "entailment_node t =
     \<lparr> ni_scope = et_scope_id t, ni_type = ''entailment'',
       ni_content = truncate_text (et_a t) @ '' '' @ map char_of [226, 137, 161 :: nat] @ '' '' @ truncate_text (et_b t),
       ni_confidence = Some (et_confidence t), ni_status = Some ''active'',
       ni_source = [(''source'', JStr ''nli-gate''), (''decision_id'', JStr (et_decision_id t))],
       ni_meta = entailment_meta t, ni_by = Some ''equivalence-gate'', ni_embedding = None,
       ni_valid_from = None, ni_valid_to = None \<rparr>"

definition equivalence_edge :: "equivalence_trace \<Rightarrow> string \<Rightarrow> edge_input" where
  "equivalence_edge t nodeId =
     \<lparr> ei_scope = et_scope_id t, ei_source = et_node t, ei_target = nodeId, ei_type = ''equivalent_to'',
       ei_weight = Some (et_confidence t),
       ei_meta = [(''decision_id'', JStr (et_decision_id t)), (''policy_version'', JStr (et_policy_version t)),
                  (''nli_confidence'', JNum (et_confidence t))],
       ei_by = Some ''equivalence-gate'', ei_valid_from = None, ei_valid_to = None \<rparr>"

definition append_trace :: "equivalence_trace \<Rightarrow> (world, string \<times> string) exec" where
  "append_trace t =
     and_then (appendNode (entailment_node t))
       (\<lambda>nodeId. and_then (appendEdge (equivalence_edge t nodeId)) (\<lambda>edgeId. ret (nodeId, edgeId)))"

definition trace_body :: "(string \<Rightarrow> string) \<Rightarrow> equivalence_trace \<Rightarrow> (world, string \<times> string) exec" where
  "trace_body canon t =
     and_then (updateNodeContent (et_node t) (canonicalizeClaimText canon (et_b t)))
       (\<lambda>_. and_then (findExistingTrace canon (et_scope_id t) (et_node t) (et_a t) (et_b t))
         (\<lambda>existing. case existing of Some x \<Rightarrow> ret x | None \<Rightarrow> append_trace t))"

definition recordEquivalenceInGraph :: "(string \<Rightarrow> string) \<Rightarrow> equivalence_trace \<Rightarrow> (world, string \<times> string) exec" where
  "recordEquivalenceInGraph canon t = runInTransaction (trace_body canon t)"

section \<open>A merge is traced once\<close>

definition traced :: "(string \<Rightarrow> string) \<Rightarrow> equivalence_trace \<Rightarrow> world \<Rightarrow> bool" where
  "traced canon t w = list_ex (\<lambda>(e, n). eg_source e = et_node t \<and> same_claims canon (et_a t) (et_b t) n)
     (trace_rows (et_scope_id t) w)"

definition same_pair :: "(string \<Rightarrow> string) \<Rightarrow> equivalence_trace \<Rightarrow> equivalence_trace \<Rightarrow> bool" where
  "same_pair canon t u =
     (et_scope_id u = et_scope_id t \<and> et_node u = et_node t
      \<and> (let k = claim_key canon in
          (k (et_a u) = k (et_a t) \<and> k (et_b u) = k (et_b t))
          \<or> (k (et_a u) = k (et_b t) \<and> k (et_b u) = k (et_a t))))"

lemma traced_same_pair: "same_pair canon t u \<Longrightarrow> traced canon u w = traced canon t w"
  by (auto simp: traced_def same_pair_def same_claims_def Let_def list_ex_iff)

lemma trace_rows_mem:
  "(e, n) \<in> set (trace_rows sc w) \<longleftrightarrow>
     e \<in> set (w_edges w) \<and> n \<in> set (w_nodes w) \<and> eg_scope e = sc \<and> eg_type e = ''equivalent_to''
     \<and> eg_superseded e = None \<and> nd_id n = eg_target e \<and> nd_type n = ''entailment'' \<and> nd_superseded n = None"
  by (auto simp: trace_rows_def)

lemma traced_iff:
  "traced canon t w \<longleftrightarrow> (\<exists>e n. (e, n) \<in> set (trace_rows (et_scope_id t) w) \<and> eg_source e = et_node t
     \<and> same_claims canon (et_a t) (et_b t) n)"
  by (force simp: traced_def list_ex_iff)

lemma find_list_ex: "(List.find P xs \<noteq> None) = list_ex P xs"
  by (induction xs) auto

lemma findExistingTrace_cases:
  "\<exists>r. findExistingTrace canon (et_scope_id t) (et_node t) (et_a t) (et_b t) w = (tick w, r)
     \<and> (\<forall>x. r = Inr x \<longrightarrow> (x \<noteq> None) = traced canon t w)"
proof -
  have "trace_rows (et_scope_id t) (tick w) = trace_rows (et_scope_id t) w" by (simp add: trace_rows_def)
  then show ?thesis
    using find_list_ex[of "\<lambda>(e, n). eg_source e = et_node t \<and> same_claims canon (et_a t) (et_b t) n"
        "trace_rows (et_scope_id t) w"]
    by (auto simp: findExistingTrace_def external_def traced_def)
qed

lemma update_statement_ok:
  "update_statement P f w = (w', Inr ()) \<Longrightarrow>
   w_nodes w' = map (\<lambda>n. if P n then f (tick w) n else n) (w_nodes w) \<and> w_edges w' = w_edges w"
  by (auto simp: update_statement_def external_def update_nodes_def split: if_splits)

lemma same_claims_content:
  "nd_meta n = nd_meta m \<Longrightarrow> same_claims canon a b n = same_claims canon a b m"
  by (simp add: same_claims_def meta_text_def)

lemma traced_after_content:
  assumes "updateNodeContent i c w = (w1, Inr ())"
  shows "traced canon t w1 = traced canon t w"
proof -
  have u: "w_nodes w1 = map (\<lambda>n. if nd_id n = i then touch (tick w) n \<lparr> nd_content := c \<rparr> else n) (w_nodes w)"
    "w_edges w1 = w_edges w"
    using update_statement_ok assms unfolding updateNodeContent_def by blast+
  let ?f = "\<lambda>n. if nd_id n = i then touch (tick w) n \<lparr> nd_content := c \<rparr> else n"
  have f: "nd_id (?f n) = nd_id n" "nd_type (?f n) = nd_type n" "nd_superseded (?f n) = nd_superseded n"
    "nd_meta (?f n) = nd_meta n" for n by (simp_all add: touch_def)
  show ?thesis
    unfolding traced_iff trace_rows_mem u
    using f same_claims_content[OF f(4), of canon] by (auto simp del: if_image_distrib)
qed

lemma append_trace_traces:
  assumes "append_trace t w = (w', Inr x)"
  shows "traced canon t w' \<and> w_nodes w' = w_nodes w @ [new_node (entailment_node t) (fst x) (w_now w)]"
proof -
  obtain w1 where n: "appendNode (entailment_node t) w = (w1, Inr (fst x))"
    and e: "appendEdge (equivalence_edge t (fst x)) w1 = (w', Inr (snd x))"
    using assms by (auto simp: append_trace_def and_then_eq_Inr)
  have w1: "w_nodes w1 = w_nodes w @ [new_node (entailment_node t) (fst x) (w_now w)]"
    using n by (auto simp: appendNode_def external_def Let_def split: if_splits)
  have w': "w_nodes w' = w_nodes w1" "new_edge (equivalence_edge t (fst x)) (snd x) (w_now w1) \<in> set (w_edges w')"
    using e by (auto simp: appendEdge_def external_def Let_def split: if_splits)
  have "(new_edge (equivalence_edge t (fst x)) (snd x) (w_now w1), new_node (entailment_node t) (fst x) (w_now w))
      \<in> set (trace_rows (et_scope_id t) w')"
    unfolding trace_rows_mem using w' w1
    by (simp add: new_edge_def equivalence_edge_def new_node_def entailment_node_def)
  moreover have "same_claims canon (et_a t) (et_b t) (new_node (entailment_node t) (fst x) (w_now w))"
    by (simp add: same_claims_def meta_text_def new_node_def entailment_node_def entailment_meta_def)
  moreover have "eg_source (new_edge (equivalence_edge t (fst x)) (snd x) (w_now w1)) = et_node t"
    by (simp add: new_edge_def equivalence_edge_def)
  ultimately have "traced canon t w'" unfolding traced_iff by blast
  then show ?thesis using w' w1 by simp
qed

lemma append_trace_edges:
  "append_trace t w = (w', r) \<Longrightarrow> length (w_edges w') \<le> length (w_edges w) + 1"
  by (auto simp: append_trace_def and_then_def appendNode_def appendEdge_def external_def Let_def
      split: if_splits sum.splits prod.splits)

lemma trace_body_cases:
  assumes "trace_body canon t w = (w', Inr x)"
  shows "traced canon t w' \<and> (traced canon t w \<longrightarrow> w_edges w' = w_edges w \<and> length (w_nodes w') = length (w_nodes w)
      \<and> (\<forall>n \<in> set (w_nodes w'). nd_id n = et_node t \<longrightarrow> nd_content n = canonicalizeClaimText canon (et_b t)))"
proof -
  let ?c = "canonicalizeClaimText canon (et_b t)"
  obtain w1 w2 y where u: "updateNodeContent (et_node t) ?c w = (w1, Inr ())"
    and f: "findExistingTrace canon (et_scope_id t) (et_node t) (et_a t) (et_b t) w1 = (w2, Inr y)"
    and b: "(case y of Some z \<Rightarrow> ret z | None \<Rightarrow> append_trace t) w2 = (w', Inr x)"
    using assms by (auto simp: trace_body_def and_then_eq_Inr)
  have w2: "w2 = tick w1" and y: "(y \<noteq> None) = traced canon t w1"
    using f findExistingTrace_cases[of canon t w1] by auto
  have u': "w_nodes w1 = map (\<lambda>n. if nd_id n = et_node t then touch (tick w) n \<lparr> nd_content := ?c \<rparr> else n) (w_nodes w)"
    "w_edges w1 = w_edges w"
    using update_statement_ok u unfolding updateNodeContent_def by blast+
  have t: "traced canon t w1 = traced canon t w" by (rule traced_after_content[OF u])
  have c: "\<forall>n \<in> set (w_nodes w1). nd_id n = et_node t \<longrightarrow> nd_content n = ?c"
    by (auto simp: u' touch_def)
  show ?thesis
  proof (cases y)
    case None
    then have a: "append_trace t (tick w1) = (w', Inr x)" using b w2 by simp
    show ?thesis using append_trace_traces[OF a, of canon] y t None by auto
  next
    case (Some z)
    then have "w' = tick w1" using b w2 by simp
    moreover have "traced canon t (tick w1) = traced canon t w1" by (simp add: traced_def trace_rows_def)
    ultimately show ?thesis using Some y t u' c by auto
  qed
qed

lemma record_equivalence_cases:
  assumes "recordEquivalenceInGraph canon t w = (w', Inr x)"
  shows "traced canon t w' \<and> (traced canon t w \<longrightarrow> w_edges w' = w_edges w \<and> length (w_nodes w') = length (w_nodes w)
      \<and> (\<forall>n \<in> set (w_nodes w'). nd_id n = et_node t \<longrightarrow> nd_content n = canonicalizeClaimText canon (et_b t)))"
proof (cases "trace_body canon t w")
  case (Pair w1 r1)
  then have r: "r1 = Inr x" "w' = tick w1"
    using assms by (auto simp: recordEquivalenceInGraph_def runInTransaction_def
        split: sum.splits js_error.splits if_splits)
  have "traced canon t (tick w1) = traced canon t w1" by (simp add: traced_def trace_rows_def)
  then show ?thesis using trace_body_cases[of canon t w w1 x] Pair r by simp
qed

lemma record_equivalence_fails:
  "recordEquivalenceInGraph canon t w = (w', Inl e) \<Longrightarrow> w_edges w' = w_edges w \<and> w_nodes w' = w_nodes w"
  by (auto simp: recordEquivalenceInGraph_def runInTransaction_def
      split: prod.splits sum.splits js_error.splits if_splits)

end
