(* ===== verification/Action_Executor.thy ===== *)
theory Action_Executor
  imports Governance_Messages State_Concurrency Equivalence_Trace
begin

text \<open>
  The executor of approved actions, \<open>src/actionExecutor.ts\<close>, with the finality decisions of
  \<open>src/finality/decisions.ts\<close>: the inline
  execution of an approved transition, the tools of the LLM variant, and the handler of the
  \<open>swarm.actions\<close> messages. The executor keeps no table of processed messages; the epoch of the
  row stands in for one, which the second interpretation of \<open>redelivery\<close> makes precise.

  The rewriting of amounts by regular expressions in \<open>canonicalizeClaimText\<close> is the parameter
  \<open>canon\<close>.
\<close>

section \<open>Finality decisions\<close>

definition recordFinalityDecision :: "string \<Rightarrow> string \<Rightarrow> int option \<Rightarrow> (world, unit) exec" where
  "recordFinalityDecision scopeId option days =
     external (\<lambda>w. (w \<lparr> w_finality := w_finality w @
        [\<lparr> fr_scope_id = scopeId, fr_option = option, fr_days = days,
           fr_created_at = w_now w \<rparr>] \<rparr>, Inr ()))"

text \<open>The rows of a scope in the order of their creation times; rows of one time keep the order of
  their insertion, and the latest of them is the last inserted.\<close>

definition getAllFinalityDecisions :: "string \<Rightarrow> (world, finality_row list) exec" where
  "getAllFinalityDecisions scopeId =
     external (\<lambda>w. (w, Inr (sort_key fr_created_at
        (filter (\<lambda>r. fr_scope_id r = scopeId) (w_finality w)))))"

definition latest_decision :: "string \<Rightarrow> world \<Rightarrow> finality_row option" where
  "latest_decision scopeId w =
     (case rev (sort_key fr_created_at (filter (\<lambda>r. fr_scope_id r = scopeId) (w_finality w))) of
        [] \<Rightarrow> None | r # _ \<Rightarrow> Some r)"

definition getLatestFinalityDecision :: "string \<Rightarrow> (world, finality_row option) exec" where
  "getLatestFinalityDecision scopeId = external (\<lambda>w. (w, Inr (latest_decision scopeId w)))"

section \<open>Executing an approved transition\<close>

definition action_scope :: "payload option \<Rightarrow> world \<Rightarrow> string" where
  "action_scope p w =
     coalesce (or_else (case p of None \<Rightarrow> None | Some q \<Rightarrow> p_scope_id q) (w_env_scope w)) ''default''"

text \<open>An \<open>undefined\<close> epoch equals no row's epoch.\<close>

definition advance_expected :: "int option \<Rightarrow> advance_options \<Rightarrow> (world, graph_state option) exec" where
  "advance_expected e opts =
     (case e of
        Some n \<Rightarrow> advanceState n opts
      | None \<Rightarrow> and_then (loadState (advance_scope opts)) (\<lambda>_. ret None))"

definition scope_only :: "string \<Rightarrow> advance_options" where
  "scope_only scope = \<lparr> ao_scopeId = Some scope, ao_drift = None, ao_governance = None \<rparr>"

definition advance_checked :: "string \<Rightarrow> int option \<Rightarrow> (world, graph_state option) exec" where
  "advance_checked scope e =
     and_then (scope_config scope)
       (\<lambda>governance. and_then (read_drift scope)
         (\<lambda>drift. advance_expected e
            \<lparr> ao_scopeId = Some scope, ao_drift = Some drift, ao_governance = Some governance \<rparr>))"

definition previous_node :: "graph_node \<Rightarrow> graph_node option" where
  "previous_node n = List.find (\<lambda>m. transitions m = n) all_nodes"

definition publish_transition :: "graph_node \<Rightarrow> graph_state \<Rightarrow> (world, unit) exec" where
  "publish_transition from ns w =
     publish ''swarm.events.state_transition'' (EventMsg (transition_event from ns ''executor'' w))
       (w \<lparr> w_uuids := w_uuids w + 1 \<rparr>)"

definition publish_next_job :: "graph_state \<Rightarrow> (world, unit) exec" where
  "publish_next_job ns =
     (case getNextJobForNode (gs_lastNode ns) of
        None \<Rightarrow> ret ()
      | Some job \<Rightarrow> publish (''swarm.jobs.'' @ job_name job) (JobMsg (job_name job) ''after_advance''))"

definition announce_advance :: "graph_state \<Rightarrow> (world, unit) exec" where
  "announce_advance ns =
     in_order
       [publish_next_job ns,
        (case previous_node (gs_lastNode ns) of
           None \<Rightarrow> ret ()
         | Some from \<Rightarrow> in_order
            [metric ''state_transition'' (node_name from @ '':'' @ node_name (gs_lastNode ns)),
             publish_transition from ns])]"

definition advance_for :: "action \<Rightarrow> payload \<Rightarrow> (world, graph_state option) exec" where
  "advance_for a p w =
     (if ac_approved_by a = ''human''
      then advance_expected (p_expectedEpoch p) (scope_only (action_scope (Some p) w)) w
      else advance_checked (action_scope (Some p) w) (p_expectedEpoch p) w)"

definition after_advance :: "string \<Rightarrow> graph_state option \<Rightarrow> (world, unit) exec" where
  "after_advance scope r =
     (case r of
        None \<Rightarrow> and_then (loadState scope) (\<lambda>_. ret ())
      | Some ns \<Rightarrow> announce_advance ns)"

definition executeActionInline :: "action \<Rightarrow> (world, unit) exec" where
  "executeActionInline a w =
     (case ac_payload a of
        None \<Rightarrow> (w, Inr ())
      | Some p \<Rightarrow>
         if ac_result a \<noteq> ''approved'' \<or> ac_action_type a \<noteq> Some ''advance_state'' then (w, Inr ())
         else and_then (advance_for a p) (after_advance (action_scope (Some p) w)) w)"

section \<open>The tools of the executor agent\<close>

record execute_result =
  xr_ok :: bool
  xr_error :: "string option"

definition executeAdvance_tool :: "action \<Rightarrow> (world, execute_result) exec" where
  "executeAdvance_tool a w =
     (case ac_payload a of
        None \<Rightarrow> (w, Inr \<lparr> xr_ok = False, xr_error = Some ''missing_payload'' \<rparr>)
      | Some p \<Rightarrow>
         (case p_expectedEpoch p of
            None \<Rightarrow> (w, Inr \<lparr> xr_ok = False, xr_error = Some ''missing_payload'' \<rparr>)
          | Some e \<Rightarrow>
             if e = 0 then (w, Inr \<lparr> xr_ok = False, xr_error = Some ''missing_payload'' \<rparr>)
             else and_then (advance_checked (action_scope (Some p) w) (Some e))
               (\<lambda>r. case r of
                  Some ns \<Rightarrow> and_then (announce_advance ns)
                    (\<lambda>_. ret \<lparr> xr_ok = True, xr_error = None \<rparr>)
                | None \<Rightarrow> and_then (loadState (action_scope (Some p) w))
                    (\<lambda>current. case current of
                       Some row \<Rightarrow>
                         if gs_epoch row > e then ret \<lparr> xr_ok = True, xr_error = None \<rparr>
                         else ret \<lparr> xr_ok = False, xr_error = Some ''advance_failed'' \<rparr>
                     | None \<Rightarrow> ret \<lparr> xr_ok = False, xr_error = Some ''advance_failed'' \<rparr>)) w))"

datatype executor_call = CallReadAction | CallReadRow | CallReadDriftOf | CallExecute | CallDecline string

fun executor_tool :: "action \<Rightarrow> executor_call \<Rightarrow> (world, unit) exec" where
  "executor_tool a CallReadAction = ret ()"
| "executor_tool a CallReadRow =
     (\<lambda>w. and_then (loadState (action_scope (ac_payload a) w)) (\<lambda>_. ret ()) w)"
| "executor_tool a CallReadDriftOf =
     (\<lambda>w. and_then (read_drift (action_scope (ac_payload a) w)) (\<lambda>_. ret ()) w)"
| "executor_tool a CallExecute = and_then (executeAdvance_tool a) (\<lambda>_. ret ())"
| "executor_tool a (CallDecline reason) = ret ()"

definition processActionWithAgent ::
  "action \<Rightarrow> executor_call llm_run option \<Rightarrow> (world, unit) exec" where
  "processActionWithAgent a llm =
     (case llm of
        None \<Rightarrow> executeActionInline a
      | Some run \<Rightarrow> try_catch (run_tools (executor_tool a) run) (\<lambda>_. executeActionInline a))"

section \<open>The message handler\<close>

definition finality_options :: "string list" where
  "finality_options = [''approve_finality'', ''provide_resolution'', ''escalate'', ''defer'']"

definition handle_finality_action :: "action \<Rightarrow> (world, unit) exec" where
  "handle_finality_action a w =
     (case ac_option a of
        None \<Rightarrow> (w, Inr ())
      | Some option \<Rightarrow>
         if option \<in> set finality_options
         then try_catch (recordFinalityDecision (action_scope (ac_payload a) w) option (ac_days a))
                (\<lambda>_. ret ()) w
         else (w, Inr ()))"

definition trace_of :: "payload \<Rightarrow> world \<Rightarrow> equivalence_trace" where
  "trace_of p w =
     \<lparr> et_scope_id = action_scope (Some p) w, et_node = coalesce (p_existing_node_id p) [],
       et_node_type = coalesce (p_node_type p) ''claim'',
       et_a = coalesce (p_a p) [], et_b = coalesce (p_b p) [],
       et_label = coalesce (p_nli_label p) ''neutral'',
       et_confidence = coalesce (p_nli_confidence p) 0,
       et_decision_id = coalesce (p_decision_id p) [],
       et_policy_version = coalesce (p_policy_version p) [] \<rparr>"

definition handle_equivalence_action :: "(string \<Rightarrow> string) \<Rightarrow> action \<Rightarrow> (world, unit) exec" where
  "handle_equivalence_action canon a w =
     (case ac_payload a of
        None \<Rightarrow> (w, Inr ())
      | Some p \<Rightarrow>
         if ac_result a = ''approved''
         then try_catch (and_then (recordEquivalenceInGraph canon (trace_of p w)) (\<lambda>_. ret ())) (\<lambda>_. ret ()) w
         else (w, Inr ()))"

definition handle_action :: "(string \<Rightarrow> string) \<Rightarrow> action \<Rightarrow> (world, unit) exec" where
  "handle_action canon a =
     (if ac_action_type a = Some ''finality'' then handle_finality_action a
      else if ac_action_type a = Some equivalence_action then handle_equivalence_action canon a
      else executeActionInline a)"

end
