(* ===== verification/Executor_Safety.thy ===== *)
theory Executor_Safety
  imports Action_Executor
begin

text \<open>
  What the executor of approved actions guarantees for every pattern of failing calls: it moves at
  most one row by one step, an executed action is not executed again, and what is lost when a call
  fails between the commit and the announcement. Then the human decisions end to end - the scope
  of an approved transition and the fate of a finality answer - and the equivalence trace.
\<close>

section \<open>Effects of an execution\<close>

definition rules_allow_under :: "drift_input \<Rightarrow> world \<Rightarrow> string \<Rightarrow> graph_node \<Rightarrow> bool" where
  "rules_allow_under d w scope node =
    (case current_config (w \<lparr> w_scope := scope \<rparr>) of
       Some c \<Rightarrow> td_allowed (canTransition (node_name node) (node_name (transitions node)) d c)
     | None \<Rightarrow> False)"

text \<open>Under the stored drift - or under none, when some call fails.\<close>

definition rules_allow :: "world \<Rightarrow> string \<Rightarrow> graph_node \<Rightarrow> bool" where
  "rules_allow w scope node =
    ((case current_drift (w \<lparr> w_scope := scope \<rparr>) of
        Some d \<Rightarrow> rules_allow_under d w scope node | None \<Rightarrow> False)
     \<or> (some_call_fails w \<and> rules_allow_under no_drift w scope node))"

definition announced :: "graph_node \<Rightarrow> graph_state \<Rightarrow> world \<Rightarrow> (string \<times> message) list" where
  "announced from ns w =
    (case getNextJobForNode (gs_lastNode ns) of
       None \<Rightarrow> []
     | Some job \<Rightarrow> [(''swarm.jobs.'' @ job_name job, JobMsg (job_name job) ''after_advance'')])
    @ [(''swarm.events.state_transition'', EventMsg (transition_event from ns ''executor'' w))]"

lemma previous_node_transitions [simp]: "previous_node (transitions n) = Some n"
  by (cases n) (simp_all add: previous_node_def all_nodes_def)

lemma keeps_announce:
  assumes "\<And>w. f (tick w) = f w" "\<And>w l. f (w \<lparr> w_bus := l \<rparr>) = f w"
    "\<And>w l. f (w \<lparr> w_metrics := l \<rparr>) = f w" "\<And>w l. f (w \<lparr> w_uuids := l \<rparr>) = f w"
  shows "keeps f (announce_advance ns)"
proof -
  have t: "keeps f (publish_transition from ns)" for "from"
    using assms by (simp add: publish_transition_def keeps_def publish_def external_def)
  have j: "keeps f (publish_next_job ns)"
    unfolding publish_next_job_def using assms by (intro keeps_case_option keeps_ret keeps_publish)
  have m: "keeps f (case previous_node (gs_lastNode ns) of None \<Rightarrow> ret ()
      | Some from \<Rightarrow> in_order
         [metric ''state_transition'' (node_name from @ '':'' @ node_name (gs_lastNode ns)),
          publish_transition from ns])"
    by (intro keeps_case_option keeps_ret keeps_in_order) (simp add: t keeps_metric assms)
  show ?thesis unfolding announce_advance_def by (intro keeps_in_order) (simp add: j m)
qed

lemma announce_bus:
  assumes "announce_advance ns w = (w', r)" "gs_lastNode ns = transitions from"
  shows "\<exists>k. w_bus w' = w_bus w @ take k (announced from ns w) \<and> (r = Inr () \<longrightarrow> 2 \<le> k)"
proof -
  have e: "transition_event from ns s (v \<lparr> w_bus := b \<rparr>) = transition_event from ns s v"
    "transition_event from ns s (v \<lparr> w_metrics := l \<rparr>) = transition_event from ns s v" for s v b l
    by (simp_all add: transition_event_def next_fresh_def)
  obtain job where j: "getNextJobForNode (gs_lastNode ns) = Some job"
    by (cases "gs_lastNode ns") auto
  have "\<exists>k \<in> {0, 1, 2}. w_bus w' = w_bus w @ take k (announced from ns w) \<and> (r = Inr () \<longrightarrow> 2 \<le> k)"
    using assms j
    by (auto simp: announce_advance_def publish_next_job_def publish_def external_def metric_def
        publish_transition_def announced_def e transition_event_tick split: if_splits)
  then show ?thesis by blast
qed

lemma advance_expected_Some:
  "advance_expected e opts w = (w', Inr (Some ns)) \<Longrightarrow>
   \<exists>n. e = Some n \<and> advanceState n opts w = (w', Inr (Some ns))"
  by (auto simp: advance_expected_def and_then_eq_Inr split: option.splits)

lemma advance_expected_frame:
  assumes "advance_expected e opts w = (w', r)"
  shows "only_state_changed w w' \<and> ((\<nexists>ns. r = Inr (Some ns)) \<longrightarrow> w_states w' = w_states w \<and> w_wal w' = w_wal w)"
proof (cases e)
  case None
  then show ?thesis using assms
    by (cases "w_faults w (w_tick w)")
      (auto simp: advance_expected_def and_then_def loadState_cases)
next
  case (Some n)
  then have a: "advanceState n opts w = (w', r)" using assms by (simp add: advance_expected_def)
  show ?thesis using advanceState_frame[OF a] advanceState_not_Some[OF a] by blast
qed

lemma scope_config_at:
  "scope_config sc w = (w, case current_config (w \<lparr> w_scope := sc \<rparr>) of
     None \<Rightarrow> Inl (JsError ''ENOENT'') | Some c \<Rightarrow> Inr c)"
  by (auto simp: scope_config_def load_policy_config_def current_config_def and_then_def
      split: option.splits)

lemma advance_checked_cases:
  assumes "advance_checked sc e w = (w', r)"
  shows "(\<exists>k err. w' = w \<lparr> w_tick := k \<rparr> \<and> r = Inl err)
    \<or> (\<exists>k d c. sees_drift (w \<lparr> w_scope := sc \<rparr>) d \<and> current_config (w \<lparr> w_scope := sc \<rparr>) = Some c
         \<and> advance_expected e \<lparr> ao_scopeId = Some sc, ao_drift = Some d, ao_governance = Some c \<rparr>
             (w \<lparr> w_tick := k \<rparr>) = (w', r))"
proof (cases "current_config (w \<lparr> w_scope := sc \<rparr>)")
  case None
  then have "w' = w \<lparr> w_tick := w_tick w \<rparr> \<and> (\<exists>err. r = Inl err)"
    using assms by (auto simp: advance_checked_def and_then_def scope_config_at)
  then show ?thesis by blast
next
  case (Some c)
  obtain w1 x where rd: "read_drift sc w = (w1, x)" by fastforce
  have w1: "w1 = w \<lparr> w_tick := w_tick w1 \<rparr>" and d: "\<And>d. x = Inr d \<Longrightarrow> sees_drift (w \<lparr> w_scope := sc \<rparr>) d"
    using read_drift_sees[OF rd] by auto
  show ?thesis
  proof (cases x)
    case (Inl err)
    then have "w' = w1 \<and> r = Inl err"
      using assms Some rd by (simp add: advance_checked_def and_then_def scope_config_at)
    then show ?thesis using w1 by blast
  next
    case (Inr dr)
    then have "advance_expected e \<lparr> ao_scopeId = Some sc, ao_drift = Some dr, ao_governance = Some c \<rparr> w1 = (w', r)"
      using assms Some rd by (simp add: advance_checked_def and_then_def scope_config_at)
    then show ?thesis using w1 d[OF Inr] Some by metis
  qed
qed

lemma only_state_changed_at_tick [simp]:
  "only_state_changed w (w \<lparr> w_tick := k \<rparr>)"
  by (simp add: only_state_changed_def)

text \<open>An advance for an action: the row of its scope, at the expected epoch, over a transition that
  a human approved or that no rule of the scope blocks.\<close>

lemma advance_for_Some:
  assumes "advance_for a p w = (w', Inr (Some ns))"
  shows "\<exists>row. map_get (w_states w) (action_scope (Some p) w) = Some row
     \<and> p_expectedEpoch p = Some (gs_epoch row) \<and> ns = nextState (w_now w) row
     \<and> (ac_approved_by a = ''human'' \<or> rules_allow w (action_scope (Some p) w) (gs_lastNode row))
     \<and> w_states w' = map_set (action_scope (Some p) w) ns (w_states w)"
proof (cases "ac_approved_by a = ''human''")
  case True
  then obtain n where "p_expectedEpoch p = Some n"
    "advanceState n (scope_only (action_scope (Some p) w)) w = (w', Inr (Some ns))"
    using assms advance_expected_Some[of "p_expectedEpoch p" "scope_only (action_scope (Some p) w)" w w' ns]
    by (auto simp: advance_for_def)
  then show ?thesis using True advanceState_Some[of n "scope_only (action_scope (Some p) w)" w w' ns]
    by (auto simp: advance_scope_def scope_only_def)
next
  case False
  let ?sc = "action_scope (Some p) w"
  let ?opts = "\<lambda>d c. \<lparr> ao_scopeId = Some ?sc, ao_drift = Some d, ao_governance = Some c \<rparr>"
  have "advance_checked ?sc (p_expectedEpoch p) w = (w', Inr (Some ns))"
    using assms False by (simp add: advance_for_def)
  from advance_checked_cases[OF this] obtain k d c where dc: "sees_drift (w \<lparr> w_scope := ?sc \<rparr>) d"
    "current_config (w \<lparr> w_scope := ?sc \<rparr>) = Some c"
    and adv: "advance_expected (p_expectedEpoch p) (?opts d c) (w \<lparr> w_tick := k \<rparr>) = (w', Inr (Some ns))"
    by blast
  obtain n where n: "p_expectedEpoch p = Some n"
    and a: "advanceState n (?opts d c) (w \<lparr> w_tick := k \<rparr>) = (w', Inr (Some ns))"
    using advance_expected_Some[OF adv] by blast
  obtain row where "map_get (w_states w) ?sc = Some row" "gs_epoch row = n" "ns = nextState (w_now w) row"
    "w_states w' = map_set ?sc ns (w_states w)" "\<not> transition_blocked (gs_lastNode row) (?opts d c)"
    using advanceState_Some[OF a] by (auto simp: advance_scope_def)
  moreover from this have "rules_allow_under d w ?sc (gs_lastNode row)"
    using dc(2) by (simp add: rules_allow_under_def transition_blocked_def)
  then have "rules_allow w ?sc (gs_lastNode row)"
    using dc(1) by (auto simp: rules_allow_def sees_drift_def some_call_fails_def)
  ultimately show ?thesis using n by blast
qed

lemma advance_for_frame:
  assumes "advance_for a p w = (w', r)"
  shows "only_state_changed w w' \<and> ((\<nexists>ns. r = Inr (Some ns)) \<longrightarrow> w_states w' = w_states w \<and> w_wal w' = w_wal w)"
proof (cases "ac_approved_by a = ''human''")
  case True
  then show ?thesis using assms advance_expected_frame by (simp add: advance_for_def)
next
  case False
  then have "advance_checked (action_scope (Some p) w) (p_expectedEpoch p) w = (w', r)"
    using assms by (simp add: advance_for_def)
  from advance_checked_cases[OF this] show ?thesis
    using advance_expected_frame[of "p_expectedEpoch p" _ _ w' r]
      only_state_changed_trans[OF only_state_changed_at_tick[of w], of _ w'] by fastforce
qed

definition executable :: "action \<Rightarrow> payload \<Rightarrow> bool" where
  "executable a p = (ac_payload a = Some p \<and> ac_result a = ''approved''
     \<and> ac_action_type a = Some ''advance_state'')"

definition executed_step :: "action \<Rightarrow> payload \<Rightarrow> world \<Rightarrow> graph_state \<Rightarrow> bool" where
  "executed_step a p w row =
     (map_get (w_states w) (action_scope (Some p) w) = Some row
      \<and> p_expectedEpoch p = Some (gs_epoch row)
      \<and> (ac_approved_by a = ''human'' \<or> rules_allow w (action_scope (Some p) w) (gs_lastNode row)))"

text \<open>Either nothing moved and nothing was said, or the row moved and a prefix of its announcement
  was published - all of it when the execution ended normally.\<close>

lemma execute_cases:
  assumes "executeActionInline a w = (w', r)"
  shows "(w_states w' = w_states w \<and> w_wal w' = w_wal w \<and> w_bus w' = w_bus w
      \<and> w_finality w' = w_finality w \<and> w_env_scope w' = w_env_scope w)
   \<or> (\<exists>p row w1 k. executable a p \<and> executed_step a p w row
      \<and> w_states w' = map_set (action_scope (Some p) w) (nextState (w_now w) row) (w_states w)
      \<and> w_bus w' = w_bus w @ take k (announced (gs_lastNode row) (nextState (w_now w) row) w1)
      \<and> (r = Inr () \<longrightarrow> 2 \<le> k) \<and> w_env_scope w' = w_env_scope w)"
proof (cases "\<exists>p. executable a p")
  case False
  then show ?thesis using assms
    by (auto simp: executeActionInline_def executable_def split: option.splits if_splits)
next
  case True
  then obtain p where p: "executable a p" by blast
  obtain w1 r1 where adv: "advance_for a p w = (w1, r1)" by fastforce
  have fr: "only_state_changed w w1" using advance_for_frame[OF adv] by blast
  then have b1: "w_bus w1 = w_bus w" "w_env_scope w1 = w_env_scope w" "w_finality w1 = w_finality w"
    by (simp_all add: only_state_changed_def)
  have eq: "(w', r) = (case r1 of Inl e \<Rightarrow> (w1, Inl e) | Inr x \<Rightarrow> after_advance (action_scope (Some p) w) x w1)"
    using assms p adv by (simp add: executeActionInline_def executable_def and_then_def)
  show ?thesis
  proof (cases "\<exists>ns. r1 = Inr (Some ns)")
    case False
    then have "w_states w1 = w_states w \<and> w_wal w1 = w_wal w" using advance_for_frame[OF adv] by blast
    moreover have "w' = w1 \<or> w' = tick w1" using eq False
      by (auto simp: after_advance_def and_then_def loadState_cases split: sum.splits option.splits if_splits)
    ultimately show ?thesis using b1 by auto
  next
    case True
    then obtain ns where r1: "r1 = Inr (Some ns)" by blast
    obtain row where row: "executed_step a p w row" "ns = nextState (w_now w) row"
      "w_states w1 = map_set (action_scope (Some p) w) ns (w_states w)"
      using advance_for_Some[of a p w w1 ns] adv r1 by (auto simp: executed_step_def)
    have an: "announce_advance ns w1 = (w', r)" using eq r1 by (simp add: after_advance_def)
    have k: "w_states w' = w_states w1" "w_env_scope w' = w_env_scope w1"
      using keepsD[OF keeps_announce[of w_states] an] keepsD[OF keeps_announce[of w_env_scope] an]
      by simp_all
    have "gs_lastNode ns = transitions (gs_lastNode row)" using row(2) by (simp add: nextState_def)
    from announce_bus[OF an this] obtain k where
      "w_bus w' = w_bus w1 @ take k (announced (gs_lastNode row) ns w1)" "r = Inr () \<longrightarrow> 2 \<le> k" by blast
    then show ?thesis using p row k b1 by auto
  qed
qed

section \<open>Executed once\<close>

definition exec_seen :: "world \<Rightarrow> action \<Rightarrow> bool" where
  "exec_seen w a =
     (\<exists>p e row. ac_payload a = Some p \<and> p_expectedEpoch p = Some e
        \<and> map_get (w_states w) (action_scope (Some p) w) = Some row \<and> gs_epoch row > e)"

definition exec_deliver :: "action \<Rightarrow> world \<Rightarrow> world \<times> bool" where
  "exec_deliver a w = (case executeActionInline a w of (w', _) \<Rightarrow> (w', w_states w' \<noteq> w_states w))"

definition moved_view :: "world \<Rightarrow> (string, graph_state) jsmap \<times> json_obj list \<times> (string \<times> message) list" where
  "moved_view w = (w_states w, w_wal w, w_bus w)"

lemma action_scope_env:
  "w_env_scope w' = w_env_scope w \<Longrightarrow> action_scope p w' = action_scope p w"
  by (simp add: action_scope_def)

lemma seen_not_executable:
  "exec_seen w a \<Longrightarrow> executable a p \<Longrightarrow> \<not> executed_step a p w row"
  by (auto simp: exec_seen_def executable_def executed_step_def)

text \<open>What an executed step leaves behind: its own action is seen, and no seen action is forgotten.\<close>

lemma executed_step_seen:
  assumes "executable a p" "executed_step a p w row" "w_env_scope w' = w_env_scope w"
    and "w_states w' = map_set (action_scope (Some p) w) (nextState now row) (w_states w)"
  shows "exec_seen w' a"
proof -
  have "map_get (w_states w') (action_scope (Some p) w') = Some (nextState now row)"
    using assms(4) action_scope_env[OF assms(3)] by (simp add: map_get_set)
  then show ?thesis using assms(1,2)
    unfolding exec_seen_def executable_def executed_step_def
    by (intro exI[of _ p] exI[of _ "gs_epoch row"] exI[of _ "nextState now row"])
      (simp add: nextState_def)
qed

lemma executed_step_remembers:
  assumes "exec_seen w a" "executed_step b p w row" "w_env_scope w' = w_env_scope w"
    and "w_states w' = map_set (action_scope (Some p) w) (nextState now row) (w_states w)"
  shows "exec_seen w' a"
proof -
  obtain q e old where q: "ac_payload a = Some q" "p_expectedEpoch q = Some e"
    "map_get (w_states w) (action_scope (Some q) w) = Some old" "gs_epoch old > e"
    using assms(1) by (auto simp: exec_seen_def)
  show ?thesis
  proof (cases "action_scope (Some q) w = action_scope (Some p) w")
    case True
    then have "old = row" using q(3) assms(2) by (simp add: executed_step_def)
    then show ?thesis using q True assms(4) action_scope_env[OF assms(3)]
      unfolding exec_seen_def
      by (intro exI[of _ q] exI[of _ e] exI[of _ "nextState now row"])
        (simp add: map_get_set nextState_def)
  next
    case False
    then show ?thesis using q assms(4) action_scope_env[OF assms(3)]
      unfolding exec_seen_def
      by (intro exI[of _ q] exI[of _ e] exI[of _ old]) (simp add: map_get_set)
  qed
qed

interpretation exec_bus: redelivery exec_seen exec_deliver moved_view
proof
  fix a w w' assume "exec_deliver a w = (w', True)"
  then obtain r where e: "executeActionInline a w = (w', r)" and m: "w_states w' \<noteq> w_states w"
    by (auto simp: exec_deliver_def split: prod.splits)
  obtain p row where "executable a p" "executed_step a p w row" "w_env_scope w' = w_env_scope w"
    "w_states w' = map_set (action_scope (Some p) w) (nextState (w_now w) row) (w_states w)"
    using execute_cases[OF e] m by blast
  then show "exec_seen w' a" by (rule executed_step_seen)
next
  fix a w assume s: "exec_seen w a"
  obtain w' r where e: "executeActionInline a w = (w', r)" by fastforce
  from execute_cases[OF e] seen_not_executable[OF s]
  have "w_states w' = w_states w \<and> w_wal w' = w_wal w \<and> w_bus w' = w_bus w" by blast
  then show "moved_view (fst (exec_deliver a w)) = moved_view w"
    by (simp add: exec_deliver_def e moved_view_def)
next
  fix a b w assume s: "exec_seen w a"
  obtain w' r where e: "executeActionInline b w = (w', r)" by fastforce
  have "exec_seen w' a"
  proof (cases "w_states w' = w_states w")
    case True
    then have "w_env_scope w' = w_env_scope w" using execute_cases[OF e] by blast
    from action_scope_env[OF this] show ?thesis using s True by (simp add: exec_seen_def)
  next
    case False
    then show ?thesis using execute_cases[OF e] executed_step_remembers[OF s] by blast
  qed
  then show "exec_seen (fst (exec_deliver b w)) a" by (simp add: exec_deliver_def e)
qed

text \<open>
  C10. The executor moves at most one row by one step. Whatever calls fail, executing an action
  either leaves the rows, the WAL and the bus alone, or it is an approved \<open>advance_state\<close> action,
  the row of its scope was at the epoch it expects, a human approved it or no rule of that scope
  blocks the transition, exactly that row moves to its next state, and what is published is a
  prefix of the job and the event of that move - both, when the execution ends normally.
\<close>

theorem executor_moves_one_row:
  assumes "executeActionInline a w = (w', r)"
  shows "(w_states w' = w_states w \<and> w_wal w' = w_wal w \<and> w_bus w' = w_bus w)
   \<or> (\<exists>p row w1 k. executable a p \<and> executed_step a p w row
      \<and> w_states w' = map_set (action_scope (Some p) w) (nextState (w_now w) row) (w_states w)
      \<and> w_bus w' = w_bus w @ take k (announced (gs_lastNode row) (nextState (w_now w) row) w1)
      \<and> (r = Inr () \<longrightarrow> 2 \<le> k))"
  using execute_cases[OF assms] by blast

definition human_action :: action where
  "human_action = human_approval ''p1'' (empty_payload \<lparr> p_expectedEpoch := Some 0 \<rparr>)"

definition failing_at :: "nat \<Rightarrow> world \<Rightarrow> world" where
  "failing_at n w = w \<lparr> w_faults := (\<lambda>k. k = n) \<rparr>"

text \<open>Four calls: the load, the update, the audit insert, the commit.\<close>

lemma advance_runs:
  assumes row: "map_get (w_states w) sc = Some row" "gs_epoch row = e"
    and ok: "\<And>k. k < 4 \<Longrightarrow> \<not> w_faults w (w_tick w + k)"
  shows "\<exists>w'. advanceState e (scope_only sc) w = (w', Inr (Some (nextState (w_now w) row)))
     \<and> w_tick w' = w_tick w + 4"
proof -
  have ok': "\<not> w_faults w (w_tick w)" "\<not> w_faults w (Suc (w_tick w))"
    "\<not> w_faults w (Suc (Suc (w_tick w)))" "\<not> w_faults w (Suc (Suc (Suc (w_tick w))))"
    using ok[of 0] ok[of 1] ok[of 2] ok[of 3] by (simp_all add: numeral_eq_Suc)
  let ?node = "gs_lastNode row"
  have chk: "snd (advance_check e (scope_only sc) w) = Inr (Some ?node)"
    using row ok' by (simp add: advance_check_cases advance_scope_def scope_only_def transition_blocked_def)
  let ?ns = "committed_row row ?node (w_now w)"
  let ?w1 = "tick (tick w) \<lparr> w_states := map_set sc ?ns (w_states w) \<rparr>"
  have upd: "external (cas_update sc e (transitions ?node)) (tick w) = (?w1, Inr (Some ?ns))"
    using row ok' by (simp add: external_ok cas_update_def committed_row_def Let_def)
  have ins: "append_audit ?node ?ns ?w1 =
      (tick (?w1 \<lparr> w_uuids := w_uuids ?w1 + 1 \<rparr>) \<lparr> w_wal := w_wal w @
         [event_to_json (transition_event ?node ?ns ''state_graph'' ?w1)] \<rparr>, Inr (Some ?ns))"
    using ok' by (simp add: append_audit_def and_then_def fresh_uuid_def appendEvent_def external_ok)
  have "\<exists>w'. advance_commit sc e ?node (tick w) = (w', Inr (Some ?ns)) \<and> w_tick w' = w_tick w + 4"
    using ok' by (simp add: advance_commit_def runInTransaction_def and_then_def upd ins)
  moreover have "?ns = nextState (w_now w) row" by (simp add: committed_row_def nextState_def)
  ultimately show ?thesis using chk by (simp add: advanceState_cases advance_scope_def scope_only_def)
qed

lemma human_action_advances:
  assumes "map_get (w_states w) ''default'' = Some (row_at ContextIngested 0)" "w_env_scope w = None"
    and ok: "\<And>k. k < 4 \<Longrightarrow> \<not> w_faults w (w_tick w + k)"
  shows "w_states (fst (executeActionInline human_action w)) \<noteq> w_states w"
    "w_faults w (w_tick w + 4) \<Longrightarrow> w_bus (fst (executeActionInline human_action w)) = w_bus w"
proof -
  let ?ns = "nextState (w_now w) (row_at ContextIngested 0)"
  obtain w1 where a: "advanceState 0 (scope_only ''default'') w = (w1, Inr (Some ?ns))"
    "w_tick w1 = w_tick w + 4"
    using advance_runs[OF assms(1) _ ok, of 0] by auto
  have f1: "w_faults w1 = w_faults w" "w_bus w1 = w_bus w"
    using advanceState_frame[OF a(1)] by (simp_all add: only_state_changed_def)
  have e: "executeActionInline human_action w = announce_advance ?ns w1"
    using a assms(2)
    by (simp add: executeActionInline_def human_action_def human_approval_def advance_for_def
        action_scope_def advance_expected_def and_then_def after_advance_def empty_payload_def)
  obtain w2 r2 where an: "announce_advance ?ns w1 = (w2, r2)" by fastforce
  have "w_states w2 = w_states w1" using keepsD[OF keeps_announce[of w_states] an] by simp
  moreover have "map_get (w_states w1) ''default'' = Some ?ns"
    using advanceState_Some[OF a(1)] by (auto simp: advance_scope_def scope_only_def map_get_set)
  moreover have "?ns \<noteq> row_at ContextIngested 0" by (simp add: nextState_def row_at_def)
  ultimately show "w_states (fst (executeActionInline human_action w)) \<noteq> w_states w"
    using assms(1) by (auto simp: e an)
  assume "w_faults w (w_tick w + 4)"
  then show "w_bus (fst (executeActionInline human_action w)) = w_bus w"
    using a(2) f1
    by (simp add: e announce_advance_def publish_next_job_def nextState_def publish_def external_def)
qed

lemma human_action_moves:
  "w_states (fst (executeActionInline human_action fresh_world)) \<noteq> w_states fresh_world"
  "w_states (fst (executeActionInline human_action (failing_at 4 fresh_world)))
     \<noteq> w_states (failing_at 4 fresh_world)"
  "w_bus (fst (executeActionInline human_action (failing_at 4 fresh_world)))
     = w_bus (failing_at 4 fresh_world)"
proof -
  have t: "w_tick fresh_world = 0" by (simp add: fresh_world_def world_at_def empty_world_def)
  show "w_states (fst (executeActionInline human_action fresh_world)) \<noteq> w_states fresh_world"
    by (rule human_action_advances) (simp_all add: fresh_world_def)
  show "w_states (fst (executeActionInline human_action (failing_at 4 fresh_world)))
     \<noteq> w_states (failing_at 4 fresh_world)"
    by (rule human_action_advances) (simp_all add: fresh_world_def failing_at_def t[unfolded fresh_world_def])
  show "w_bus (fst (executeActionInline human_action (failing_at 4 fresh_world)))
     = w_bus (failing_at 4 fresh_world)"
    by (rule human_action_advances) (simp_all add: fresh_world_def failing_at_def t[unfolded fresh_world_def])
qed

theorem executor_moves_one_row_witness:
  "\<exists>row. executed_step human_action (empty_payload \<lparr> p_expectedEpoch := Some 0 \<rparr>) fresh_world row"
proof -
  have "\<not> w_states (fst (executeActionInline human_action fresh_world)) = w_states fresh_world"
    by (rule human_action_moves(1))
  with executor_moves_one_row[OF pair_eta[of "executeActionInline human_action" fresh_world]]
  show ?thesis by (auto simp: executable_def human_action_def human_approval_def)
qed

text \<open>
  C11. An action that moved a row is never executed again: after any interleaving with other
  actions and any failing calls, delivering it once more changes neither the rows nor the WAL nor
  the bus. The executor keeps no table of processed messages; the epoch of the row protects it.
\<close>

theorem executed_once:
  assumes "executeActionInline a w = (w', r)" and "w_states w' \<noteq> w_states w"
  shows "let w'' = fold (\<lambda>b v. fst (executeActionInline b v)) others w' in
     moved_view (fst (executeActionInline a w'')) = moved_view w''"
proof -
  let ?run = "fold (\<lambda>b v. fst (executeActionInline b v))"
  have f: "fst (exec_deliver b v) = fst (executeActionInline b v)" for b v
    by (simp add: exec_deliver_def split_beta)
  have d: "exec_bus.deliveries bs v = ?run bs v" for bs v
    by (induction bs arbitrary: v) (simp_all add: exec_bus.deliveries.simps f)
  have "exec_seen w' a"
    using exec_bus.acked[of a w w'] assms by (simp add: exec_deliver_def)
  then have "exec_seen (?run others w') a" using exec_bus.seen_deliveries[of w' a others] by (simp add: d)
  from exec_bus.ignored[OF this] show ?thesis by (simp add: Let_def f)
qed

theorem executed_once_witness:
  "moved_view (fst (executeActionInline human_action (fst (executeActionInline human_action fresh_world))))
     = moved_view (fst (executeActionInline human_action fresh_world))"
  using executed_once[OF pair_eta[of "executeActionInline human_action" fresh_world]
      human_action_moves(1), of "[]"] by (simp add: Let_def)



section \<open>Human decisions, end to end\<close>

lemma decided_payload:
  assumes "evaluateProposalDeterministic prop w = (w', Inr res)" "de_payload res = Some q"
  shows "p_scope_id q = None \<and> p_type q \<noteq> Some ''finality_review''"
  using evaluate_cases[OF assms(1)] assms(2)
  by (auto simp: decided_result_def kernel_decision_def permission_decision_def bare_result_def
      advance_payload_def review_payload_def empty_payload_def
      evaluateProposalDeterministic_def split: if_splits option.splits)
    (use assms in \<open>auto simp: evaluateProposalDeterministic_def bare_result_def\<close>)

lemma pending_row_of_commit:
  assumes "commitDeterministicResult agentId prop res path w = (w', Inr ())"
    and "de_outcome res = OPending" "de_payload res = Some q"
  shows "\<exists>row. map_get (w_pending w') (pp_id prop) = Some row \<and> is_pending row
    \<and> pr_proposal row = prop \<and> pr_payload row = Some q"
proof -
  obtain w1 where "commit_step (w_scope w) agentId prop res path w1 = (w', Inr ())"
    using assms by (auto simp: commit_as_step and_then_eq_Inr)
  then show ?thesis using assms(2,3)
    by (auto simp: commit_step_def recordProposal_def metric_def addPending_def publish_def
        appendEvent_def external_def is_pending_def map_get_set split: if_splits)
qed

lemma approve_publishes:
  assumes "approvePending k w = (w', Inr mitl_done)" "map_get (w_pending w) k = Some row"
    and "is_pending row" "pr_payload row = Some q"
  shows "w_bus w' = w_bus w @ [(''swarm.actions.advance_state'', ActionMsg (human_approval k q))]"
  using assms
  by (auto simp: approvePending_def getPendingItem_def publish_and_remove_def publish_def
      removePending_def external_def and_then_def mitl_error_def mitl_done_def split: if_splits)

text \<open>
  C13. A human approval forgets its scope. When the rule-based path sends a proposal of scope
  \<open>w_scope w0\<close> to a human and the human approves it, the published action names no scope: whoever
  executes it, in whatever state, moves no row but that of the scope in its own environment
  (\<open>SCOPE_ID\<close>, or \<open>default\<close>). The row of the proposal's scope stays where it is unless the two agree.
\<close>

theorem human_approval_forgets_scope:
  assumes "evaluateProposalDeterministic prop w0 = (w1, Inr res)" "de_outcome res = OPending"
    and "de_payload res \<noteq> None"
    and "commitDeterministicResult agentId prop res path w1 = (w2, Inr ())"
    and "approvePending (pp_id prop) w2 = (w3, Inr mitl_done)"
  shows "\<exists>act. w_bus w3 = w_bus w2 @ [(''swarm.actions.advance_state'', ActionMsg act)]
    \<and> ac_approved_by act = ''human''
    \<and> (\<forall>v v' r sc. executeActionInline act v = (v', r) \<and> sc \<noteq> coalesce (w_env_scope v) ''default''
         \<longrightarrow> map_get (w_states v') sc = map_get (w_states v) sc)"
proof -
  obtain q where q: "de_payload res = Some q" using assms(3) by blast
  have sc: "p_scope_id q = None" using decided_payload[OF assms(1) q] by blast
  obtain row where row: "map_get (w_pending w2) (pp_id prop) = Some row" "is_pending row"
    "pr_payload row = Some q"
    using pending_row_of_commit[OF assms(4,2) q] by blast
  let ?a = "human_approval (pp_id prop) q"
  have "map_get (w_states v') s = map_get (w_states v) s"
    if e: "executeActionInline ?a v = (v', r)" and s: "s \<noteq> coalesce (w_env_scope v) ''default''" for v v' r s
  proof -
    have "action_scope (Some q) v \<noteq> s" using s by (simp add: action_scope_def sc)
    then show ?thesis
      using execute_cases[OF e] by (auto simp: executable_def human_approval_def map_get_set)
  qed
  then show ?thesis using approve_publishes[OF assms(5) row]
    by (intro exI[of _ ?a]) (simp add: human_approval_def)
qed

lemma approve_succeeds:
  assumes "faultless w" "map_get (w_pending w) k = Some row" "is_pending row"
    and "pr_payload row = Some q" "p_type q \<noteq> Some ''finality_review''"
  shows "\<exists>w'. approvePending k w = (w', Inr mitl_done)"
  using assms
  by (simp add: approvePending_def getPendingItem_def publish_and_remove_def publish_def
      removePending_def external_def and_then_def faultless_def)

theorem human_approval_forgets_scope_witness:
  "\<exists>w1 res w2 w3 act. evaluateProposalDeterministic (sample_proposal (Some ''MITL'')) fresh_world = (w1, Inr res)
     \<and> commitDeterministicResult ''g1'' (sample_proposal (Some ''MITL'')) res ''p'' w1 = (w2, Inr ())
     \<and> approvePending ''p1'' w2 = (w3, Inr mitl_done)
     \<and> w_bus w3 = w_bus w2 @ [(''swarm.actions.advance_state'', ActionMsg act)]"
proof -
  let ?p = "sample_proposal (Some ''MITL'')"
  have "case evaluateProposalDeterministic ?p fresh_world of
      (_, Inr r) \<Rightarrow> de_outcome r = OPending \<and> de_payload r \<noteq> None | _ \<Rightarrow> False"
    by code_simp
  then obtain w1 res q where e: "evaluateProposalDeterministic ?p fresh_world = (w1, Inr res)"
    "de_outcome res = OPending" "de_payload res = Some q"
    by (auto split: prod.splits sum.splits)
  have f: "faultless w1" "w_policy_file w1 \<noteq> None"
    using faultless_keeps[OF keeps_evaluate[of w_faults] _ e(1)]
      keepsD[OF keeps_evaluate[of w_policy_file] e(1)]
    by (simp_all add: faultless_def fresh_world_def)
  obtain w2 r where c: "commitDeterministicResult ''g1'' ?p res ''p'' w1 = (w2, r)" by fastforce
  then have c: "commitDeterministicResult ''g1'' ?p res ''p'' w1 = (w2, Inr ())"
    using commit_succeeds[OF f c] by simp
  have f2: "faultless w2" using faultless_keeps[OF keeps_commit[of w_faults] f(1) c] by simp
  obtain row where row: "map_get (w_pending w2) (pp_id ?p) = Some row" "is_pending row"
    "pr_payload row = Some q"
    using pending_row_of_commit[OF c e(2,3)] by blast
  obtain w3 where a: "approvePending (pp_id ?p) w2 = (w3, Inr mitl_done)"
    using approve_succeeds[OF f2 row] decided_payload[OF e(1,3)] by blast
  from human_approval_forgets_scope[OF e(1,2) _ c a] e c a show ?thesis
    by (auto simp: sample_proposal_def)
qed

text \<open>
  A human's answer to a finality review is recorded or lost, and the message is acknowledged
  in either case: the executor ends normally whatever happens, so a failing insert is not retried,
  and the row of the question is gone from the MITL table by then.
\<close>

theorem finality_answer_recorded_or_lost:
  "case handle_action canon (finality_answer k opt days p) w of (w', r) \<Rightarrow>
     r = Inr () \<and> w_bus w' = w_bus w \<and> w_pending w' = w_pending w
     \<and> w_finality w' = (if opt \<in> set finality_options \<and> \<not> w_faults w (w_tick w)
          then w_finality w @ [\<lparr> fr_scope_id = action_scope (Some p) w, fr_option = opt,
                 fr_days = days, fr_created_at = w_now w \<rparr>]
          else w_finality w)"
  by (simp add: handle_action_def finality_answer_def handle_finality_action_def try_catch_def
      recordFinalityDecision_def external_def)

section \<open>The equivalence trace\<close>

text \<open>
  A merge is traced once: after an equivalence was recorded, recording the same pair again -
  in either order, under any phrasing with the same canonical key - adds no edge and no node. The
  content of the surviving node is overwritten all the same: it takes the text of the last action.
\<close>

theorem equivalence_traced_once:
  assumes "recordEquivalenceInGraph canon t w = (w1, Inr x)" "same_pair canon t u"
    and "recordEquivalenceInGraph canon u w1 = (w2, Inr y)"
  shows "traced canon t w1 \<and> w_edges w2 = w_edges w1 \<and> length (w_nodes w2) = length (w_nodes w1)
    \<and> (\<forall>n \<in> set (w_nodes w2). nd_id n = et_node t \<longrightarrow> nd_content n = canonicalizeClaimText canon (et_b u))"
proof -
  have n: "et_node u = et_node t" using assms(2) by (simp add: same_pair_def)
  have t: "traced canon t w1" using record_equivalence_cases[OF assms(1)] by blast
  then have "traced canon u w1" using traced_same_pair[OF assms(2)] by simp
  then show ?thesis using t n record_equivalence_cases[OF assms(3)] by simp
qed

definition sample_trace :: "string \<Rightarrow> string \<Rightarrow> equivalence_trace" where
  "sample_trace a b = \<lparr> et_scope_id = ''s'', et_node = ''n'', et_node_type = ''claim'', et_a = a, et_b = b,
     et_label = ''equivalent'', et_confidence = 1, et_decision_id = ''d'', et_policy_version = ''v'' \<rparr>"

definition sample_claim :: "string \<Rightarrow> string \<Rightarrow> node_row" where
  "sample_claim i c = new_node \<lparr> ni_scope = ''s'', ni_type = ''claim'', ni_content = c, ni_confidence = None,
     ni_status = None, ni_source = [], ni_meta = [], ni_by = None, ni_embedding = None,
     ni_valid_from = None, ni_valid_to = None \<rparr> i 0"

theorem equivalence_traced_once_witness:
  "\<exists>w1 x w2 y. recordEquivalenceInGraph id (sample_trace ''a'' ''b'')
       (fresh_world \<lparr> w_nodes := [sample_claim ''n'' ''a''] \<rparr>) = (w1, Inr x)
     \<and> recordEquivalenceInGraph id (sample_trace ''b'' ''a'') w1 = (w2, Inr y)
     \<and> length (w_edges w1) = 1 \<and> w_edges w2 = w_edges w1"
proof -
  let ?w = "fresh_world \<lparr> w_nodes := [sample_claim ''n'' ''a''] \<rparr>"
  have w1: "\<exists>w1 x. recordEquivalenceInGraph id (sample_trace ''a'' ''b'') ?w = (w1, Inr x)
      \<and> length (w_edges w1) = 1 \<and> (\<exists>y w2. recordEquivalenceInGraph id (sample_trace ''b'' ''a'') w1 = (w2, Inr y))"
    by (simp add: recordEquivalenceInGraph_def trace_body_def runInTransaction_def and_then_def
        updateNodeContent_def update_statement_def update_nodes_def findExistingTrace_def append_trace_def
        appendNode_def appendEdge_def node_ids_def trace_rows_def external_def sample_trace_def
        sample_claim_def new_node_def entailment_node_def entailment_meta_def new_edge_def equivalence_edge_def
        same_claims_def meta_text_def touch_def fresh_world_def world_at_def empty_world_def tick_def Let_def)
  have "same_pair id (sample_trace ''a'' ''b'') (sample_trace ''b'' ''a'')"
    by (simp add: same_pair_def sample_trace_def Let_def)
  with w1 equivalence_traced_once[OF _ this] show ?thesis by blast
qed

end
