(* ===== verification/Sheaf_Diffusion.thy ===== *)
theory Sheaf_Diffusion
  imports Swarm_World
begin

text \<open>
  One step of evidence propagation, \<open>sgrs-core/src/propagation\<close>, behind \<open>src/propagationEngine.ts\<close>
  and \<open>src/issBridge.ts\<close>: the sheaf of a configuration, its coboundary and Laplacian, the Dirichlet
  energy, the disagreement, the projection on the admissible box, and the input-to-state analysis.

  A state is the flat vector of the source: for each role its support channels, then its refutation
  channels. The matrix products of the source are written out as the sums they are. The eigenvalues
  of the Laplacian, which an external library computes, come as \<open>spectral\<close>; square root and
  logarithm are the arguments \<open>sq\<close> and \<open>lnf\<close>; \<open>rnd\<close> draws the random regular graphs. Edges join two
  different roles.
\<close>

section \<open>The sheaf\<close>

type_synonym flat = "rat list"

record sheaf =
  sh_roles :: nat
  sh_dims :: nat
  sh_observed :: "nat list list"
  sh_edges :: "(nat \<times> nat) list"

definition stalk_at :: "nat \<Rightarrow> flat \<Rightarrow> nat \<Rightarrow> nat \<Rightarrow> rat" where
  "stalk_at D x i c = x ! (i * (2 * D) + c)"

definition shared_dims :: "sheaf \<Rightarrow> nat \<Rightarrow> nat \<Rightarrow> nat list" where
  "shared_dims S u v =
     filter (\<lambda>d. d \<in> set (sh_observed S ! u) \<and> d \<in> set (sh_observed S ! v)) [0..<sh_dims S]"

definition edge_channels :: "sheaf \<Rightarrow> nat \<times> nat \<Rightarrow> nat list" where
  "edge_channels S e =
     (let ds = shared_dims S (fst e) (snd e) in ds @ map (\<lambda>d. sh_dims S + d) ds)"

definition coboundary :: "sheaf \<Rightarrow> flat \<Rightarrow> nat \<times> nat \<Rightarrow> rat list" where
  "coboundary S x e =
     map (\<lambda>c. stalk_at (sh_dims S) x (fst e) c - stalk_at (sh_dims S) x (snd e) c) (edge_channels S e)"

definition edge_pull :: "sheaf \<Rightarrow> flat \<Rightarrow> nat \<Rightarrow> nat \<Rightarrow> nat \<times> nat \<Rightarrow> rat" where
  "edge_pull S x i c e =
    (let gap = stalk_at (sh_dims S) x (fst e) c - stalk_at (sh_dims S) x (snd e) c in
     if c \<in> set (edge_channels S e)
     then (if fst e = i then gap else 0) - (if snd e = i then gap else 0) else 0)"

definition laplacian_at :: "sheaf \<Rightarrow> flat \<Rightarrow> nat \<Rightarrow> nat \<Rightarrow> rat" where
  "laplacian_at S x i c = sum_list (map (edge_pull S x i c) (sh_edges S))"

definition positions :: "nat \<Rightarrow> nat \<Rightarrow> (nat \<times> nat) list" where
  "positions n D = concat (map (\<lambda>i. map (\<lambda>c. (i, c)) [0..<2 * D]) [0..<n])"

definition diffuse :: "sheaf \<Rightarrow> rat \<Rightarrow> flat \<Rightarrow> flat" where
  "diffuse S alpha x =
     map (\<lambda>(i, c). stalk_at (sh_dims S) x i c - alpha * laplacian_at S x i c)
       (positions (sh_roles S) (sh_dims S))"

definition dirichlet_energy_by_edge :: "sheaf \<Rightarrow> flat \<Rightarrow> rat list" where
  "dirichlet_energy_by_edge S x =
     map (\<lambda>e. sum_list (map (\<lambda>y. y * y) (coboundary S x e))) (sh_edges S)"

definition dirichlet_energy :: "sheaf \<Rightarrow> flat \<Rightarrow> rat" where
  "dirichlet_energy S x = max 0 (sum_list (dirichlet_energy_by_edge S x))"

definition channel_mean :: "nat \<Rightarrow> nat \<Rightarrow> flat \<Rightarrow> nat \<Rightarrow> rat" where
  "channel_mean n D x c = sum_list (map (\<lambda>i. stalk_at D x i c / of_nat n) [0..<n])"

definition channel_spread :: "nat \<Rightarrow> nat \<Rightarrow> flat \<Rightarrow> nat \<Rightarrow> rat" where
  "channel_spread n D x c =
     sum_list (map (\<lambda>i. (stalk_at D x i c - channel_mean n D x c) ^ 2) [0..<n])"

definition compute_disagreement :: "nat \<Rightarrow> nat \<Rightarrow> flat \<Rightarrow> rat" where
  "compute_disagreement n D x =
     (if n = 0 then 0 else sum_list (map (channel_spread n D x) [0..<2 * D]))"

definition per_dimension_disagreement :: "nat \<Rightarrow> nat \<Rightarrow> flat \<Rightarrow> rat list" where
  "per_dimension_disagreement n D x =
     (if n = 0 then replicate D 0
      else map (\<lambda>d. channel_spread n D x d + channel_spread n D x (D + d)) [0..<D])"

section \<open>The step\<close>

definition clamp :: "rat \<times> rat \<Rightarrow> rat \<Rightarrow> rat" where
  "clamp lh x = (if x < fst lh then fst lh else if x > snd lh then snd lh else x)"

definition channel_range :: "nat \<Rightarrow> (rat \<times> rat) list \<Rightarrow> (rat \<times> rat) list \<Rightarrow> nat \<Rightarrow> rat \<times> rat" where
  "channel_range D sb rb c = (if c < D then sb ! c else rb ! (c - D))"

definition project :: "nat \<Rightarrow> nat \<Rightarrow> (rat \<times> rat) list \<Rightarrow> (rat \<times> rat) list \<Rightarrow> flat \<Rightarrow> flat" where
  "project n D sb rb z =
     map (\<lambda>(i, c). clamp (channel_range D sb rb c) (stalk_at D z i c)) (positions n D)"

record step_result =
  st_new :: flat
  st_before :: rat
  st_after :: rat
  st_ratio :: rat
  st_norm :: rat
  st_achieved :: bool
  st_dirichlet_before :: rat
  st_dirichlet_after :: rat

text \<open>The native code panics on a vector of the wrong length.\<close>

definition propagation_step ::
  "(rat \<Rightarrow> rat) \<Rightarrow> sheaf \<Rightarrow> (rat \<times> rat) list \<Rightarrow> (rat \<times> rat) list \<Rightarrow> rat \<Rightarrow> flat \<Rightarrow> flat
   \<Rightarrow> step_result option" where
  "propagation_step sq S sb rb alpha x eps =
    (let n = sh_roles S; D = sh_dims S in
     if length x \<noteq> n * (2 * D) \<or> length eps \<noteq> n * (2 * D) then None
     else
       (let before = compute_disagreement n D x;
            new = project n D sb rb (map2 (+) (diffuse S alpha x) eps);
            after = compute_disagreement n D new in
        Some \<lparr> st_new = new, st_before = before, st_after = after,
          st_ratio = (if before > 1 / 10 ^ 15 then after / before else 0),
          st_norm = sq (sum_list (map (\<lambda>e. e * e) eps)),
          st_achieved = (after \<le> before + 1 / 10 ^ 12),
          st_dirichlet_before = dirichlet_energy S x,
          st_dirichlet_after = dirichlet_energy S new \<rparr>))"

section \<open>Input-to-state analysis\<close>

record iss_analysis =
  is_rho :: rat
  is_rho_sq :: rat
  is_gain :: xnum
  is_kappa :: rat
  is_small_gain :: bool
  is_margin :: xnum
  is_bound :: xnum
  is_contradictions :: xnum
  is_time :: xnum

definition scale_xnum :: "rat \<Rightarrow> xnum \<Rightarrow> xnum" where
  "scale_xnum k x =
    (case x of
       Fin r \<Rightarrow> Fin (k * r)
     | PInf \<Rightarrow> (if k > 0 then PInf else if k < 0 then NInf else NaN)
     | NInf \<Rightarrow> (if k > 0 then NInf else if k < 0 then PInf else NaN)
     | NaN \<Rightarrow> NaN)"

definition iss_time :: "(rat \<Rightarrow> rat) \<Rightarrow> rat \<Rightarrow> xnum \<Rightarrow> rat \<Rightarrow> xnum" where
  "iss_time lnf rho bound initial =
    (case bound of
       Fin b \<Rightarrow>
         if rho > 0 \<and> rho < 1 \<and> b > 0 \<and> initial > b
         then (if lnf (1 / rho) > 0 then Fin (lnf (initial / b) / (2 * lnf (1 / rho))) else PInf)
         else Fin 0
     | _ \<Rightarrow> Fin 0)"

definition analyze_iss :: "(rat \<Rightarrow> rat) \<Rightarrow> rat \<Rightarrow> rat \<Rightarrow> rat \<Rightarrow> rat \<Rightarrow> rat \<Rightarrow> iss_analysis" where
  "analyze_iss lnf spectral_gap alpha noise_bound contradiction_rate initial =
    (let rho = 1 - alpha * spectral_gap; rho_sq = rho * rho; rest = 1 - rho_sq;
         ratio = (if rest > 0 then Fin (contradiction_rate / rest) else PInf);
         bound = (if rest > 0 then Fin (noise_bound * noise_bound / rest) else PInf) in
     \<lparr> is_rho = rho, is_rho_sq = rho_sq,
       is_gain = (if rho_sq < 1 then Fin (1 / rest) else PInf),
       is_kappa = contradiction_rate,
       is_small_gain = (case ratio of Fin r \<Rightarrow> r < 1 | _ \<Rightarrow> False),
       is_margin = (case ratio of Fin r \<Rightarrow> Fin (1 - r) | _ \<Rightarrow> NInf),
       is_bound = bound,
       is_contradictions = scale_xnum contradiction_rate bound,
       is_time = iss_time lnf rho bound initial \<rparr>)"

record iss_cascade =
  ic_within_bound :: bool
  ic_bounded :: bool
  ic_stable :: bool
  ic_reachable :: bool
  ic_eta :: "int option"

definition at_most :: "rat \<Rightarrow> xnum \<Rightarrow> bool" where
  "at_most x b = (case b of Fin r \<Rightarrow> x \<le> r + 1 / 10 ^ 12 | _ \<Rightarrow> False)"

definition computeISSCascadeResult :: "rat option \<Rightarrow> rat \<Rightarrow> iss_analysis \<Rightarrow> int option \<Rightarrow> iss_cascade" where
  "computeISSCascadeResult psi omega iss burden =
    (let withinBound = at_most omega (is_bound iss) in
     \<lparr> ic_within_bound = withinBound,
       ic_bounded = at_most (of_int (coalesce burden 0)) (is_contradictions iss),
       ic_stable = is_small_gain iss,
       ic_reachable = (withinBound \<and> coalesce psi 0 \<le> 1 / 10),
       ic_eta = (case is_time iss of Fin t \<Rightarrow> Some \<lceil>t\<rceil> | _ \<Rightarrow> None) \<rparr>)"

section \<open>The engine\<close>

record prop_role =
  ro_name :: string
  ro_dims :: "string list option"

record topology =
  tp_preset :: string
  tp_degree :: "nat option"
  tp_seed :: "int option"

record spectral =
  sp_gap :: rat
  sp_alpha :: rat

record engine =
  en_roles :: "prop_role list"
  en_dimensions :: "string list"
  en_edges :: "(string \<times> string) list"
  en_projection :: bool
  en_topology :: "topology option"
  en_support :: "rat \<times> rat"
  en_refutation :: "rat \<times> rat"
  en_alpha_ratio :: rat
  en_spectrum :: spectral
  en_random :: "nat \<Rightarrow> nat \<Rightarrow> int \<Rightarrow> (nat \<times> nat) list option"

definition num_roles :: "engine \<Rightarrow> nat" where
  "num_roles g = (if en_roles g = [] then 7 else length (en_roles g))"

definition num_dims :: "engine \<Rightarrow> nat" where
  "num_dims g = (if en_dimensions g = [] then 4 else length (en_dimensions g))"

fun index_of :: "'a list \<Rightarrow> 'a \<Rightarrow> nat option" where
  "index_of [] y = None"
| "index_of (x # xs) y = (if x = y then Some 0 else map_option Suc (index_of xs y))"

definition usesTopologyBridge :: "engine \<Rightarrow> bool" where
  "usesTopologyBridge g =
     (case en_topology g of None \<Rightarrow> False | Some t \<Rightarrow> tp_preset t \<noteq> ''complete'')"

definition buildObservedDims :: "engine \<Rightarrow> nat list list" where
  "buildObservedDims g =
     map (\<lambda>r. case ro_dims r of
            None \<Rightarrow> [0..<length (en_dimensions g)]
          | Some names \<Rightarrow> List.map_filter (index_of (en_dimensions g)) names) (en_roles g)"

definition complete_graph :: "nat \<Rightarrow> (nat \<times> nat) list" where
  "complete_graph n = concat (map (\<lambda>i. map (\<lambda>j. (i, j)) [Suc i..<n]) [0..<n])"

text \<open>The \<open>Map\<close> from role names to indices keeps the last index of a repeated name.\<close>

definition role_index :: "engine \<Rightarrow> string \<Rightarrow> nat option" where
  "role_index g name =
     map_option (\<lambda>k. length (en_roles g) - 1 - k) (index_of (rev (map ro_name (en_roles g))) name)"

definition buildEdgeList :: "engine \<Rightarrow> (nat \<times> nat) list" where
  "buildEdgeList g =
    (let edges = List.map_filter (\<lambda>(a, b). case (role_index g a, role_index g b) of
                    (Some u, Some v) \<Rightarrow> Some (u, v) | _ \<Rightarrow> None) (en_edges g) in
     if edges = [] then complete_graph (num_roles g) else edges)"

definition build_topology :: "engine \<Rightarrow> topology \<Rightarrow> (nat \<times> nat) list" where
  "build_topology g t =
    (let n = num_roles g in
     if tp_preset t = ''star'' then map (\<lambda>i. (0, i)) [1..<n]
     else if tp_preset t = ''ring'' then map (\<lambda>i. (i, i + 1)) [0..<n - 1] @ [(n - 1, 0)]
     else if tp_preset t = ''chain'' then map (\<lambda>i. (i, i + 1)) [0..<n - 1]
     else if tp_preset t = ''random_regular''
     then coalesce (en_random g n (coalesce (tp_degree t) 3) (coalesce (tp_seed t) 42)) (complete_graph n)
     else complete_graph n)"

definition all_observed :: "engine \<Rightarrow> nat list list" where
  "all_observed g = replicate (num_roles g) [0..<num_dims g]"

text \<open>The sheaf a step runs on, and the box it projects to: the configured ranges reach the native
  code only on the complete graph.\<close>

definition engine_sheaf :: "engine \<Rightarrow> sheaf" where
  "engine_sheaf g =
     \<lparr> sh_roles = num_roles g, sh_dims = num_dims g,
       sh_observed = (if en_projection g then buildObservedDims g else all_observed g),
       sh_edges = (if en_projection g then buildEdgeList g
                   else case en_topology g of
                     Some t \<Rightarrow> (if usesTopologyBridge g then build_topology g t else complete_graph (num_roles g))
                   | None \<Rightarrow> complete_graph (num_roles g)) \<rparr>"

definition engine_ranges :: "engine \<Rightarrow> (rat \<times> rat) list \<times> (rat \<times> rat) list" where
  "engine_ranges g =
    (let D = num_dims g in
     if en_projection g \<or> usesTopologyBridge g then (replicate D (0, 1), replicate D (0, 1))
     else (replicate D (en_support g), replicate D (en_refutation g)))"

definition getAlpha :: "engine \<Rightarrow> rat" where
  "getAlpha g = sp_alpha (en_spectrum g) * en_alpha_ratio g"

definition engine_step :: "(rat \<Rightarrow> rat) \<Rightarrow> engine \<Rightarrow> flat \<Rightarrow> flat \<Rightarrow> step_result option" where
  "engine_step sq g x eps =
     propagation_step sq (engine_sheaf g) (fst (engine_ranges g)) (snd (engine_ranges g)) (getAlpha g) x eps"

definition getDisagreement :: "engine \<Rightarrow> flat \<Rightarrow> rat" where
  "getDisagreement g x = compute_disagreement (num_roles g) (num_dims g) x"

definition observer_count :: "engine \<Rightarrow> nat \<Rightarrow> nat" where
  "observer_count g d = sum_list (map (\<lambda>obs. count_list obs d) (buildObservedDims g))"

definition getSharedDisagreement :: "engine \<Rightarrow> flat \<Rightarrow> rat" where
  "getSharedDisagreement g x =
    (let perDim = per_dimension_disagreement (num_roles g) (num_dims g) x in
     if \<not> en_projection g then sum_list perDim
     else sum_list (map (\<lambda>d. if observer_count g d \<ge> 2 then perDim ! d else 0) [0..<num_dims g]))"

definition getModeAwareDisagreement :: "engine \<Rightarrow> flat \<Rightarrow> rat" where
  "getModeAwareDisagreement g x =
     (if en_projection g then getSharedDisagreement g x else getDisagreement g x)"

definition maximum :: "rat list \<Rightarrow> rat" where
  "maximum xs = (if xs = [] then 0 else foldr max (tl xs) (hd xs))"

definition mean_of :: "rat list \<Rightarrow> rat" where
  "mean_of xs = (if xs = [] then 0 else sum_list xs / of_nat (length xs))"

definition engine_analyzeISS :: "(rat \<Rightarrow> rat) \<Rightarrow> engine \<Rightarrow> rat list \<Rightarrow> rat list \<Rightarrow> rat \<Rightarrow> iss_analysis" where
  "engine_analyzeISS lnf g noise contradictions initial =
     analyze_iss lnf (sp_gap (en_spectrum g)) (getAlpha g) (maximum noise) (mean_of contradictions) initial"

section \<open>Facts\<close>

lemma positions_set [simp]: "set (positions n D) = {(i, c). i < n \<and> c < 2 * D}"
  by (auto simp: positions_def)

lemma positions_length [simp]: "length (positions n D) = n * (2 * D)"
  by (simp add: positions_def length_concat sum_list_triv comp_def)

lemma stalk_index: "i < n \<Longrightarrow> c < 2 * D \<Longrightarrow> i * (2 * D) + c < n * (2 * (D::nat))"
proof -
  assume i: "i < n" and c: "c < 2 * D"
  have "i * (2 * D) + c < Suc i * (2 * D)" using c by simp
  also have "\<dots> \<le> n * (2 * D)" using i by (intro mult_le_mono) simp_all
  finally show ?thesis .
qed

lemma positions_nth:
  assumes "i < n" "c < 2 * D"
  shows "positions n D ! (i * (2 * D) + c) = (i, c)"
  using assms
proof (induction n)
  case (Suc n)
  have step: "positions (Suc n) D = positions n D @ map (\<lambda>c. (n, c)) [0..<2 * D]"
    by (simp add: positions_def)
  show ?case
  proof (cases "i = n")
    case True
    then show ?thesis using Suc.prems by (simp add: step nth_append)
  next
    case False
    then have i: "i < n" using Suc.prems by simp
    then have "i * (2 * D) + c < n * (2 * D)" using Suc.prems(2) by (rule stalk_index)
    then show ?thesis using Suc.IH[OF i Suc.prems(2)] by (simp add: step nth_append)
  qed
qed simp

lemma stalk_at_map_positions:
  "i < n \<Longrightarrow> c < 2 * D \<Longrightarrow> stalk_at D (map f (positions n D)) i c = f (i, c)"
  by (simp add: stalk_at_def stalk_index positions_nth)

lemma clamp_in_range: "fst r \<le> snd r \<Longrightarrow> fst r \<le> clamp r x \<and> clamp r x \<le> snd r"
  by (simp add: clamp_def)

lemma clamp_id: "fst r \<le> x \<Longrightarrow> x \<le> snd r \<Longrightarrow> clamp r x = x"
  by (simp add: clamp_def)

text \<open>What one edge takes from a role it gives to the other: the pulls of a channel cancel.\<close>

lemma edge_pull_cancels:
  assumes "fst e < n" "snd e < n"
  shows "(\<Sum>i<n. edge_pull S x i c e) = 0"
  using assms
  by (cases "c \<in> set (edge_channels S e)") (simp_all add: edge_pull_def Let_def sum_subtractf)

lemma laplacian_conserves:
  assumes "\<And>e. e \<in> set (sh_edges S) \<Longrightarrow> fst e < n \<and> snd e < n"
  shows "(\<Sum>i<n. laplacian_at S x i c) = 0"
proof -
  have "(\<Sum>i<n. sum_list (map (edge_pull S x i c) es)) = 0" if "set es \<subseteq> set (sh_edges S)" for es
    using that assms by (induction es) (simp_all add: sum.distrib edge_pull_cancels)
  then show ?thesis by (simp add: laplacian_at_def)
qed

lemma square_sum_zero: "sum_list (map (\<lambda>y. y * y) ys) = 0 \<longleftrightarrow> (\<forall>y \<in> set ys. y = (0 :: rat))"
proof -
  have nn: "0 \<le> sum_list (map (\<lambda>y. y * y) ys)" for ys :: "rat list" by (rule sum_list_nonneg) auto
  show ?thesis by (induction ys) (simp_all add: add_nonneg_eq_0_iff nn)
qed

lemma energy_by_edge_nonneg: "e \<in> set (dirichlet_energy_by_edge S x) \<Longrightarrow> 0 \<le> e"
  by (auto simp: dirichlet_energy_by_edge_def intro!: sum_list_nonneg)

text \<open>A state of energy zero is one on which every edge agrees, and diffusion leaves it alone.\<close>

lemma energy_zero_iff:
  "dirichlet_energy S x = 0 \<longleftrightarrow> (\<forall>e \<in> set (sh_edges S). \<forall>c \<in> set (edge_channels S e).
      stalk_at (sh_dims S) x (fst e) c = stalk_at (sh_dims S) x (snd e) c)"
proof -
  have nn: "0 \<le> sum_list (dirichlet_energy_by_edge S x)"
    by (rule sum_list_nonneg) (rule energy_by_edge_nonneg)
  have "dirichlet_energy S x = 0 \<longleftrightarrow> (\<forall>q \<in> set (dirichlet_energy_by_edge S x). q = 0)"
    using nn energy_by_edge_nonneg by (simp add: dirichlet_energy_def max_def sum_list_nonneg_eq_0_iff)
  also have "\<dots> \<longleftrightarrow> (\<forall>e \<in> set (sh_edges S). sum_list (map (\<lambda>y. y * y) (coboundary S x e)) = 0)"
    by (simp add: dirichlet_energy_by_edge_def)
  also have "\<dots> \<longleftrightarrow> (\<forall>e \<in> set (sh_edges S). \<forall>c \<in> set (edge_channels S e).
      stalk_at (sh_dims S) x (fst e) c = stalk_at (sh_dims S) x (snd e) c)"
    by (simp only: square_sum_zero) (simp add: coboundary_def)
  finally show ?thesis .
qed

lemma energy_zero_fixed:
  assumes "dirichlet_energy S x = 0" "length x = sh_roles S * (2 * sh_dims S)"
  shows "diffuse S alpha x = x"
proof -
  have "edge_pull S x i c e = 0" if "e \<in> set (sh_edges S)" for i c e
    using assms(1) that by (auto simp: energy_zero_iff edge_pull_def Let_def)
  then have l: "laplacian_at S x i c = 0" for i c
    by (simp add: laplacian_at_def cong: map_cong)
  show ?thesis
  proof (rule nth_equalityI)
    fix k assume "k < length (diffuse S alpha x)"
    then have k: "k < sh_roles S * (2 * sh_dims S)" by (simp add: diffuse_def)
    then have D: "0 < 2 * sh_dims S" by (metis mult_0_right not_gr0 not_less0)
    let ?i = "k div (2 * sh_dims S)" and ?c = "k mod (2 * sh_dims S)"
    have ic: "?i < sh_roles S" "?c < 2 * sh_dims S" "?i * (2 * sh_dims S) + ?c = k"
      using k D div_mult_mod_eq[of k "2 * sh_dims S"] by (simp_all add: less_mult_imp_div_less del: div_mult_mod_eq)
    show "diffuse S alpha x ! k = x ! k"
      using k positions_nth[OF ic(1,2)] ic(3) by (simp add: diffuse_def l stalk_at_def split: prod.splits)
  qed (use assms(2) in \<open>simp add: diffuse_def\<close>)
qed

end
