(* ===== verification/Causal_Dag.thy ===== *)
theory Causal_Dag
  imports Swarm_World "HOL-Library.List_Lexorder"
begin

text \<open>
  The causal contribution layer, \<open>src/causalContributions.ts\<close> and \<open>src/causalEmit.ts\<close>: the
  content address of a contribution (with the checks of \<open>sgrs-core/src/causal\<close>), its insertion,
  the frontier of a scope and the causal cone of a contribution. SHA-256 over the CBOR of the
  sorted parents, the canonical payload and the kind is the parameter \<open>sha\<close>; a payload is its JSON
  text, which always parses, being the output of \<open>JSON.stringify\<close>.
\<close>

section \<open>Content addresses\<close>

definition hex_value :: "char \<Rightarrow> int option" where
  "hex_value c =
    (let n = (of_char c :: int) in
     if 48 \<le> n \<and> n \<le> 57 then Some (n - 48)
     else if 97 \<le> n \<and> n \<le> 102 then Some (n - 87)
     else if 65 \<le> n \<and> n \<le> 70 then Some (n - 55) else None)"

text \<open>\<open>u8::from_str_radix\<close> on two characters also accepts a leading plus sign.\<close>

fun hex_bytes :: "string \<Rightarrow> int list option" where
  "hex_bytes [] = Some []"
| "hex_bytes [c] = None"
| "hex_bytes (c # d # cs) =
     (case (if c = CHR ''+'' then Some 0 else hex_value c, hex_value d, hex_bytes cs) of
        (Some h, Some l, Some bs) \<Rightarrow> Some ((16 * h + l) # bs)
      | _ \<Rightarrow> None)"

definition from_hex :: "string \<Rightarrow> int list option" where
  "from_hex s = (if length s = 64 then hex_bytes s else None)"

fun all_some :: "'a option list \<Rightarrow> 'a list option" where
  "all_some [] = Some []"
| "all_some (x # xs) = (case (x, all_some xs) of (Some y, Some ys) \<Rightarrow> Some (y # ys) | _ \<Rightarrow> None)"

definition contribution_kinds :: "string list" where
  "contribution_kinds =
    [''claim'', ''contradiction'', ''resolution'', ''assessment'', ''goal'', ''evidence'']"

definition isContributionKind :: "string \<Rightarrow> bool" where
  "isContributionKind s = (s \<in> set contribution_kinds)"

type_synonym content_sha = "int list list \<Rightarrow> string \<Rightarrow> string \<Rightarrow> string"

record hash_result =
  hr_hash :: string
  hr_valid :: bool

definition computeContentHash :: "content_sha \<Rightarrow> string list \<Rightarrow> string \<Rightarrow> string \<Rightarrow> hash_result" where
  "computeContentHash sha parents payload kind =
    (case all_some (map from_hex parents) of
       None \<Rightarrow> \<lparr> hr_hash = [], hr_valid = False \<rparr>
     | Some ps \<Rightarrow>
        if isContributionKind kind
        then \<lparr> hr_hash = sha (sort ps) payload kind, hr_valid = True \<rparr>
        else \<lparr> hr_hash = [], hr_valid = False \<rparr>)"

record causal_validation =
  va_valid :: bool
  va_rid_matches :: bool
  va_missing :: "string list"

definition invalid_contribution :: causal_validation where
  "invalid_contribution = \<lparr> va_valid = False, va_rid_matches = False, va_missing = [] \<rparr>"

definition validateContribution ::
  "content_sha \<Rightarrow> string \<Rightarrow> string list \<Rightarrow> string \<Rightarrow> string \<Rightarrow> string list \<Rightarrow> causal_validation" where
  "validateContribution sha rid parents payload kind known =
    (case (from_hex rid, all_some (map from_hex parents)) of
       (Some r, Some ps) \<Rightarrow>
         if \<not> isContributionKind kind then invalid_contribution
         else
           (let matches = (from_hex (sha (sort ps) payload kind) = Some r);
                missing = filter (\<lambda>p. p \<notin> set known) parents in
            \<lparr> va_valid = (matches \<and> missing = []), va_rid_matches = matches, va_missing = missing \<rparr>)
     | _ \<Rightarrow> invalid_contribution)"

section \<open>Insertion\<close>

record contribution_input =
  ci_scope :: string
  ci_parents :: "string list"
  ci_payload :: string
  ci_kind :: string
  ci_role :: string
  ci_tier :: "int option"
  ci_mode :: "string option"
  ci_validate :: "bool option"

definition rid_of :: "content_sha \<Rightarrow> contribution_input \<Rightarrow> string" where
  "rid_of sha inp = hr_hash (computeContentHash sha (ci_parents inp) (ci_payload inp) (ci_kind inp))"

definition has_rid :: "causal_row list \<Rightarrow> string \<Rightarrow> bool" where
  "has_rid rows rid = (rid \<in> cs_rid ` set rows)"

definition getKnownRids :: "string \<Rightarrow> string list \<Rightarrow> (world, string list) exec" where
  "getKnownRids scopeId parents =
    (if parents = [] then ret []
     else external (\<lambda>w. (w, Inr (map cs_rid
            (filter (\<lambda>c. cs_scope c = scopeId \<and> cs_rid c \<in> set parents) (w_causal w))))))"

definition contribution_row :: "string \<Rightarrow> contribution_input \<Rightarrow> int \<Rightarrow> causal_row" where
  "contribution_row rid inp now =
     \<lparr> cs_rid = rid, cs_scope = ci_scope inp, cs_parents = ci_parents inp,
       cs_payload = ci_payload inp, cs_kind = ci_kind inp, cs_role = ci_role inp,
       cs_tier = coalesce (ci_tier inp) 0, cs_mode = coalesce (ci_mode inp) ''SYSTEM'',
       cs_created = now \<rparr>"

text \<open>\<open>INSERT ... ON CONFLICT (rid) DO NOTHING\<close>.\<close>

definition insert_contribution :: "string \<Rightarrow> contribution_input \<Rightarrow> (world, unit) exec" where
  "insert_contribution rid inp =
     external (\<lambda>w. (if has_rid (w_causal w) rid then w
                    else w \<lparr> w_causal := w_causal w @ [contribution_row rid inp (w_now w)] \<rparr>, Inr ()))"

definition check_parents :: "content_sha \<Rightarrow> string \<Rightarrow> contribution_input \<Rightarrow> (world, unit) exec" where
  "check_parents sha rid inp =
    (if coalesce (ci_validate inp) True \<and> ci_parents inp \<noteq> []
     then and_then (getKnownRids (ci_scope inp) (ci_parents inp))
       (\<lambda>known.
          (let v = validateContribution sha rid (ci_parents inp) (ci_payload inp) (ci_kind inp) known in
           if va_valid v then ret ()
           else if va_missing v \<noteq> [] then raise (JsError ''Missing parents'')
           else raise (JsError ''Validation failed'')))
     else ret ())"

definition createContribution :: "content_sha \<Rightarrow> contribution_input \<Rightarrow> (world, string) exec" where
  "createContribution sha inp =
    (let h = computeContentHash sha (ci_parents inp) (ci_payload inp) (ci_kind inp) in
     if \<not> hr_valid h then raise (JsError ''Invalid contribution'')
     else and_then (check_parents sha (hr_hash h) inp)
       (\<lambda>_. and_then (insert_contribution (hr_hash h) inp) (\<lambda>_. ret (hr_hash h))))"

section \<open>Queries\<close>

definition getContribution :: "string \<Rightarrow> (world, causal_row option) exec" where
  "getContribution rid = external (\<lambda>w. (w, Inr (List.find (\<lambda>c. cs_rid c = rid) (w_causal w))))"

definition getChildren :: "string \<Rightarrow> (world, causal_row list) exec" where
  "getChildren rid =
     external (\<lambda>w. (w, Inr (sort_key cs_created (filter (\<lambda>c. rid \<in> set (cs_parents c)) (w_causal w)))))"

text \<open>The rows of a scope that no row of that scope names as a parent.\<close>

definition frontier :: "string \<Rightarrow> causal_row list \<Rightarrow> string list" where
  "frontier scopeId rows =
     map cs_rid (filter (\<lambda>c. cs_scope c = scopeId
       \<and> \<not> list_ex (\<lambda>c2. cs_scope c2 = scopeId \<and> cs_rid c \<in> set (cs_parents c2)) rows) rows)"

definition getFrontier :: "string \<Rightarrow> (world, string list) exec" where
  "getFrontier scopeId = external (\<lambda>w. (w, Inr (frontier scopeId (w_causal w))))"

definition lookup_row :: "causal_row list \<Rightarrow> string \<Rightarrow> causal_row option" where
  "lookup_row rows rid = List.find (\<lambda>c. cs_rid c = rid) rows"

text \<open>The depth-first \<open>collect\<close>: the first list is the work that the \<open>for\<close> loop of the current call
  still has to do, the state is the set \<open>seen\<close> and the output so far.\<close>

lemma lookup_row_mem: "lookup_row rows i = Some c \<Longrightarrow> c \<in> set rows \<and> cs_rid c = i"
  unfolding lookup_row_def by (drule find_Some_mem) simp

definition unseen :: "causal_row list \<Rightarrow> string list \<Rightarrow> nat" where
  "unseen rows seen = length (filter (\<lambda>c. cs_rid c \<notin> set seen) rows)"

lemma unseen_mono: "set seen \<subseteq> set seen' \<Longrightarrow> unseen rows seen' \<le> unseen rows seen"
  unfolding unseen_def by (induction rows) auto

lemma unseen_less:
  "lookup_row rows i = Some c \<Longrightarrow> i \<notin> set seen \<Longrightarrow> i \<in> set seen' \<Longrightarrow> set seen \<subseteq> set seen' \<Longrightarrow>
   unseen rows seen' < unseen rows seen"
proof -
  assume l: "lookup_row rows i = Some c" and n: "i \<notin> set seen" "i \<in> set seen'" "set seen \<subseteq> set seen'"
  have c: "c \<in> set rows" "cs_rid c = i" using lookup_row_mem[OF l] by auto
  have "length (filter (\<lambda>c. cs_rid c \<notin> set seen') (filter (\<lambda>c. cs_rid c \<notin> set seen) rows))
      < length (filter (\<lambda>c. cs_rid c \<notin> set seen) rows)"
    by (rule length_filter_less[of c]) (use c n in auto)
  moreover have "filter (\<lambda>c. cs_rid c \<notin> set seen') (filter (\<lambda>c. cs_rid c \<notin> set seen) rows)
      = filter (\<lambda>c. cs_rid c \<notin> set seen') rows"
    using n(3) by (auto simp: filter_filter intro: filter_cong)
  ultimately show ?thesis by (simp add: unseen_def)
qed

function collect :: "causal_row list \<Rightarrow> string list \<Rightarrow> string list \<times> causal_row list
    \<Rightarrow> string list \<times> causal_row list" where
  "collect rows [] st = st"
| "collect rows (i # ids) (seen, out) =
     (if i \<in> set seen then collect rows ids (seen, out)
      else case lookup_row rows i of
        None \<Rightarrow> collect rows ids (i # seen, out)
      | Some c \<Rightarrow>
          (case collect rows (cs_parents c) (i # seen, out) of
             (seen', out') \<Rightarrow> collect rows ids (seen', out' @ [c])))"
  by pat_completeness auto

lemma collect_seen_grows:
  "collect_dom (rows, ids, st) \<Longrightarrow> set (fst st) \<subseteq> set (fst (collect rows ids st))"
proof (induction rows ids st rule: collect.pinduct)
  case (2 rows i ids seen out)
  show ?case
  proof (cases "i \<in> set seen")
    case True
    then show ?thesis using 2 by (simp add: collect.psimps)
  next
    case new: False
    show ?thesis
    proof (cases "lookup_row rows i")
      case None
      then show ?thesis using 2(1) 2(3)[OF new None] new by (auto simp: collect.psimps)
    next
      case (Some c)
      obtain s o' where p: "collect rows (cs_parents c) (i # seen, out) = (s, o')" by fastforce
      then show ?thesis using 2(1) 2(4)[OF new Some] 2(5)[OF new Some p[symmetric]] new Some
        by (auto simp: collect.psimps)
    qed
  qed
qed (simp add: collect.psimps)

termination collect
proof (relation "measures [\<lambda>(rows, ids, st). unseen rows (fst st), \<lambda>(rows, ids, st). length ids]", goal_cases)
  case (3 rows i ids seen out)
  have "unseen rows (i # seen) \<le> unseen rows seen" by (rule unseen_mono) auto
  then show ?case by auto
next
  case (4 rows i ids seen out c)
  have "unseen rows (i # seen) < unseen rows seen" by (rule unseen_less[OF 4(2) 4(1)]) auto
  then show ?case by simp
next
  case (5 rows i ids seen out c s o')
  then have "set (i # seen) \<subseteq> set s"
    using collect_seen_grows[of rows "cs_parents c" "(i # seen, out)"] by (metis fst_conv)
  then show ?case using 5 unseen_less[of rows i c seen s] by simp
qed simp_all

definition scope_rows :: "string \<Rightarrow> causal_row list \<Rightarrow> causal_row list" where
  "scope_rows rid rows =
    (case lookup_row rows rid of
       None \<Rightarrow> [] | Some c \<Rightarrow> filter (\<lambda>d. cs_scope d = cs_scope c) rows)"

definition causal_cone :: "string \<Rightarrow> causal_row list \<Rightarrow> causal_row list" where
  "causal_cone rid rows =
    (let inScope = scope_rows rid rows in
     case lookup_row inScope rid of
       None \<Rightarrow> [] | Some _ \<Rightarrow> snd (collect inScope [rid] ([], [])))"

definition getCausalCone :: "string \<Rightarrow> (world, causal_row list) exec" where
  "getCausalCone rid = external (\<lambda>w. (w, Inr (causal_cone rid (w_causal w))))"

section \<open>Emission by the agents\<close>

definition emit_input ::
  "string \<Rightarrow> string \<Rightarrow> string \<Rightarrow> int option \<Rightarrow> string option \<Rightarrow> string \<Rightarrow> string list \<Rightarrow> contribution_input" where
  "emit_input roleId kind payload tier mode scopeId parents =
     \<lparr> ci_scope = scopeId, ci_parents = parents, ci_payload = payload, ci_kind = kind,
       ci_role = roleId, ci_tier = Some (coalesce tier 0), ci_mode = Some (coalesce mode ''SYSTEM''),
       ci_validate = Some False \<rparr>"

definition emit_parents :: "string \<Rightarrow> string list \<Rightarrow> (world, string list) exec" where
  "emit_parents scopeId parents =
    (if parents = [] then try_catch (getFrontier scopeId) (\<lambda>_. ret []) else ret parents)"

definition emitContribution ::
  "content_sha \<Rightarrow> string \<Rightarrow> string \<Rightarrow> string \<Rightarrow> int option \<Rightarrow> string option \<Rightarrow> string \<Rightarrow> string list
   \<Rightarrow> (world, string) exec" where
  "emitContribution sha roleId kind payload tier mode scopeId parents =
     try_catch
       (and_then (emit_parents scopeId parents)
          (\<lambda>ps. createContribution sha (emit_input roleId kind payload tier mode scopeId ps)))
       (\<lambda>_. ret [])"

end
