(* ===== verification/Causal_Safety.thy ===== *)
theory Causal_Safety
  imports Causal_Dag
begin

text \<open>
  The causal layer stays a graph without cycles whose cones list causes before effects, and the
  price of a content address that does not contain the scope.
\<close>

section \<open>The depth-first collection\<close>

definition names_parent :: "causal_row list \<Rightarrow> string \<Rightarrow> string \<Rightarrow> bool" where
  "names_parent rows a b = (\<exists>c. lookup_row rows a = Some c \<and> b \<in> set (cs_parents c))"

definition stored :: "causal_row list \<Rightarrow> string \<Rightarrow> bool" where
  "stored rows i = (lookup_row rows i \<noteq> None)"

lemma stored_iff: "stored rows i \<longleftrightarrow> i \<in> cs_rid ` set rows"
  unfolding stored_def lookup_row_def by (auto simp: find_None_iff image_iff)

text \<open>What one run of \<open>collect\<close> adds to the set and to the output.\<close>

definition collect_spec ::
  "causal_row list \<Rightarrow> string list \<Rightarrow> string list \<times> causal_row list
   \<Rightarrow> string list \<times> causal_row list \<Rightarrow> causal_row list \<Rightarrow> bool" where
  "collect_spec rows ids st st' new =
    (snd st' = snd st @ new \<and> set (fst st) \<subseteq> set (fst st') \<and> set ids \<subseteq> set (fst st')
     \<and> (\<forall>i \<in> set (fst st') - set (fst st). \<exists>k \<in> set ids. (names_parent rows)\<^sup>*\<^sup>* k i)
     \<and> (\<forall>i \<in> set (fst st') - set (fst st). \<forall>p. names_parent rows i p \<longrightarrow> p \<in> set (fst st'))
     \<and> distinct (map cs_rid new)
     \<and> cs_rid ` set new = {i \<in> set (fst st') - set (fst st). stored rows i}
     \<and> (\<forall>c \<in> set new. lookup_row rows (cs_rid c) = Some c))"

lemma collect_specD:
  assumes "collect_spec rows ids (seen, out) (seen', out') new"
  shows "out' = out @ new" "set seen \<subseteq> set seen'" "set ids \<subseteq> set seen'"
    "\<And>i. i \<in> set seen' \<Longrightarrow> i \<notin> set seen \<Longrightarrow> \<exists>k \<in> set ids. (names_parent rows)\<^sup>*\<^sup>* k i"
    "\<And>i p. i \<in> set seen' \<Longrightarrow> i \<notin> set seen \<Longrightarrow> names_parent rows i p \<Longrightarrow> p \<in> set seen'"
    "distinct (map cs_rid new)"
    "cs_rid ` set new = {i \<in> set seen' - set seen. stored rows i}"
    "\<And>c. c \<in> set new \<Longrightarrow> lookup_row rows (cs_rid c) = Some c"
  using assms unfolding collect_spec_def by (simp_all del: not_None_eq)

lemma collect_spec_skip:
  assumes fresh: "i \<notin> set seen" and l: "lookup_row rows i = None"
    and n: "collect_spec rows ids (i # seen, out) r new"
  shows "collect_spec rows (i # ids) (seen, out) r new"
proof -
  obtain s o' where r: "r = (s, o')" by fastforce
  note d = collect_specD[OF n[unfolded r]]
  have no: "\<not> names_parent rows i p" "\<not> stored rows i" for p
    using l by (simp_all add: names_parent_def stored_def)
  have "\<exists>k \<in> set (i # ids). (names_parent rows)\<^sup>*\<^sup>* k j" if "j \<in> set s" "j \<notin> set seen" for j
    using d(4)[of j] that by (cases "j = i") auto
  then have reach: "\<forall>j \<in> set s - set seen. \<exists>k \<in> set (i # ids). (names_parent rows)\<^sup>*\<^sup>* k j" by blast
  have "p \<in> set s" if "j \<in> set s" "j \<notin> set seen" "names_parent rows j p" for j p
    using d(5)[of j p] that no by (cases "j = i") auto
  then have closed: "\<forall>j \<in> set s - set seen. \<forall>p. names_parent rows j p \<longrightarrow> p \<in> set s" by blast
  have eq: "{j \<in> set s - set (i # seen). stored rows j} = {j \<in> set s - set seen. stored rows j}"
    using no(2) by auto
  have sub: "set seen \<subseteq> set s" "set (i # ids) \<subseteq> set s" using d(2,3) by auto
  show ?thesis unfolding collect_spec_def r fst_conv snd_conv
    by (intro conjI) (use d(1,6,7,8) eq sub reach closed in \<open>blast | simp\<close>)+
qed

lemma collect_spec_step:
  assumes fresh: "i \<notin> set seen" and l: "lookup_row rows i = Some c"
    and n1: "collect_spec rows (cs_parents c) (i # seen, out) (s, o') n1"
    and n2: "collect_spec rows ids (s, o' @ [c]) r n2"
  shows "collect_spec rows (i # ids) (seen, out) r (n1 @ c # n2)"
proof -
  obtain s2 o2 where r: "r = (s2, o2)" by fastforce
  note d1 = collect_specD[OF n1] and d2 = collect_specD[OF n2[unfolded r]]
  have c: "cs_rid c = i" using lookup_row_mem[OF l] by simp
  have par: "names_parent rows i p \<longleftrightarrow> p \<in> set (cs_parents c)" for p
    using l by (simp add: names_parent_def)
  have st: "stored rows i" using l by (simp add: stored_def)
  have i: "i \<in> set s" using d1(2) by simp
  have cases: "j = i \<or> (j \<in> set s \<and> j \<notin> set (i # seen)) \<or> (j \<in> set s2 \<and> j \<notin> set s)"
    if "j \<in> set s2" "j \<notin> set seen" for j
    using that by auto
  have reach: "\<exists>k \<in> set (i # ids). (names_parent rows)\<^sup>*\<^sup>* k j" if j: "j \<in> set s2" "j \<notin> set seen" for j
    using cases[OF j]
  proof (elim disjE conjE)
    assume "j = i" then show ?thesis by auto
  next
    assume "j \<in> set s" "j \<notin> set (i # seen)"
    then obtain k where "k \<in> set (cs_parents c)" "(names_parent rows)\<^sup>*\<^sup>* k j" using d1(4) by blast
    then have "(names_parent rows)\<^sup>*\<^sup>* i j" using par by (meson converse_rtranclp_into_rtranclp)
    then show ?thesis by auto
  next
    assume "j \<in> set s2" "j \<notin> set s"
    then show ?thesis using d2(4)[of j] by auto
  qed
  have closed: "p \<in> set s2" if j: "j \<in> set s2" "j \<notin> set seen" and p: "names_parent rows j p" for j p
    using cases[OF j]
  proof (elim disjE conjE)
    assume "j = i" then show ?thesis using p par d1(3) d2(2) by blast
  next
    assume "j \<in> set s" "j \<notin> set (i # seen)"
    then show ?thesis using d1(5)[OF _ _ p] d2(2) by blast
  next
    assume "j \<in> set s2" "j \<notin> set s"
    then show ?thesis using d2(5)[OF _ _ p] by blast
  qed
  have disj: "i \<notin> cs_rid ` set n1" "i \<notin> cs_rid ` set n2" "cs_rid ` set n1 \<inter> cs_rid ` set n2 = {}"
    using d1(7) d2(7) i by auto
  have dist: "distinct (map cs_rid (n1 @ c # n2))" using d1(6) d2(6) disj c by auto
  have out: "cs_rid ` set (n1 @ c # n2) = {j \<in> set s2 - set seen. stored rows j}"
  proof -
    have "cs_rid ` set (n1 @ c # n2) = insert i ({j \<in> set s - set (i # seen). stored rows j}
        \<union> {j \<in> set s2 - set s. stored rows j})"
      using d1(7) d2(7) c by auto
    also have "\<dots> = {j \<in> set s2 - set seen. stored rows j}"
      using st i d1(2) d2(2) fresh by auto
    finally show ?thesis .
  qed
  have look: "lookup_row rows (cs_rid d) = Some d" if "d \<in> set (n1 @ c # n2)" for d
    using that d1(8) d2(8) l c by auto
  have sub: "set seen \<subseteq> set s2" "set (i # ids) \<subseteq> set s2" "o2 = out @ n1 @ c # n2"
    using d1(1,2) d2(1,2,3) i by auto
  have all_closed: "\<forall>j \<in> set s2 - set seen. \<forall>p. names_parent rows j p \<longrightarrow> p \<in> set s2"
    using closed by blast
  have all_reach: "\<forall>j \<in> set s2 - set seen. \<exists>k \<in> set (i # ids). (names_parent rows)\<^sup>*\<^sup>* k j"
    using reach by blast
  show ?thesis unfolding collect_spec_def r fst_conv snd_conv
    by (intro conjI) (use sub all_reach all_closed dist out look in blast)+
qed

lemma collect_correct: "\<exists>new. collect_spec rows ids st (collect rows ids st) new"
proof (induction rows ids st rule: collect.induct)
  case (1 rows st)
  have "collect_spec rows [] st (collect rows [] st) []" by (simp add: collect_spec_def)
  then show ?case ..
next
  case (2 rows i ids seen out)
  show ?case
  proof (cases "i \<in> set seen")
    case True
    then obtain new where "collect_spec rows ids (seen, out) (collect rows ids (seen, out)) new"
      using 2(1) by blast
    then have "collect_spec rows (i # ids) (seen, out) (collect rows ids (seen, out)) new"
      using True by (auto simp: collect_spec_def)
    then show ?thesis using True by auto
  next
    case fresh: False
    show ?thesis
    proof (cases "lookup_row rows i")
      case None
      then obtain new where n: "collect_spec rows ids (i # seen, out) (collect rows ids (i # seen, out)) new"
        using 2(2)[OF fresh None] by blast
      have "collect rows (i # ids) (seen, out) = collect rows ids (i # seen, out)"
        using fresh None by simp
      then show ?thesis using collect_spec_skip[OF fresh None n] by metis
    next
      case (Some c)
      obtain s o' where inner: "collect rows (cs_parents c) (i # seen, out) = (s, o')" by fastforce
      obtain n1 where n1: "collect_spec rows (cs_parents c) (i # seen, out) (s, o') n1"
        using 2(3)[OF fresh Some] inner by auto
      obtain n2 where n2: "collect_spec rows ids (s, o' @ [c]) (collect rows ids (s, o' @ [c])) n2"
        using 2(4)[OF fresh Some inner[symmetric]] by blast
      have "collect rows (i # ids) (seen, out) = collect rows ids (s, o' @ [c])"
        using fresh Some inner by simp
      then show ?thesis using collect_spec_step[OF fresh Some n1 n2] by metis
    qed
  qed
qed

text \<open>Order: when a rank decreases from every row to its stored parents, a row comes after them.\<close>

definition parents_first :: "causal_row list \<Rightarrow> causal_row list \<Rightarrow> bool" where
  "parents_first rows out =
    (\<forall>xs c ys. out = xs @ c # ys \<longrightarrow> (\<forall>p \<in> set (cs_parents c). stored rows p \<longrightarrow> p \<in> cs_rid ` set xs))"

definition open_ids :: "causal_row list \<Rightarrow> string list \<times> causal_row list \<Rightarrow> string set" where
  "open_ids rows st = {i \<in> set (fst st). stored rows i \<and> i \<notin> cs_rid ` set (snd st)}"

lemma all_splits_snoc:
  "(\<forall>xs d ys. zs @ [c] = xs @ d # ys \<longrightarrow> P xs d) \<longleftrightarrow> (\<forall>xs d ys. zs = xs @ d # ys \<longrightarrow> P xs d) \<and> P zs c"
  (is "?l \<longleftrightarrow> ?r \<and> _")
proof (intro iffI conjI allI impI)
  fix xs d ys assume "?r \<and> P zs c" and e: "zs @ [c] = xs @ d # ys"
  then show "P xs d" by (cases ys rule: rev_cases) auto
next
  fix xs d ys assume ?l "zs = xs @ d # ys"
  then have "zs @ [c] = xs @ d # (ys @ [c])" by simp
  with \<open>?l\<close> show "P xs d" by blast
qed simp

lemma parents_first_snoc:
  "parents_first rows (out @ [c]) \<longleftrightarrow> parents_first rows out
     \<and> (\<forall>p \<in> set (cs_parents c). stored rows p \<longrightarrow> p \<in> cs_rid ` set out)"
  unfolding parents_first_def by (rule all_splits_snoc)

lemma collect_open:
  assumes "collect_spec rows ids st st' new"
  shows "open_ids rows st' = open_ids rows st"
proof -
  obtain seen out seen' out' where e: "st = (seen, out)" "st' = (seen', out')" by fastforce
  note d = collect_specD[OF assms[unfolded e]]
  have a: "x \<in> cs_rid ` set new \<longleftrightarrow> x \<in> set seen' \<and> x \<notin> set seen \<and> stored rows x" for x
    unfolding d(7) by blast
  have "x \<in> open_ids rows st' \<longleftrightarrow> x \<in> open_ids rows st" for x
    using a[of x] d(1,2) by (auto simp: open_ids_def e image_Un)
  then show ?thesis by blast
qed

lemma collect_ordered:
  assumes rank: "\<And>a b. names_parent rows a b \<Longrightarrow> stored rows b \<Longrightarrow> r b < (r a :: nat)"
  shows "parents_first rows (snd st) \<Longrightarrow> \<forall>o' \<in> open_ids rows st. \<forall>i \<in> set ids. stored rows i \<longrightarrow> r i < r o'
    \<Longrightarrow> parents_first rows (snd (collect rows ids st))"
  using rank
proof (induction rows ids st rule: collect.induct)
  case (2 rows i ids seen out)
  note ord = 2(5) and op = 2(6) and rk = 2(7)
  show ?case
  proof (cases "i \<in> set seen")
    case True
    then show ?thesis using 2(1) ord op rk by simp
  next
    case fresh: False
    show ?thesis
    proof (cases "lookup_row rows i")
      case None
      then have "open_ids rows (i # seen, out) = open_ids rows (seen, out)"
        by (auto simp: open_ids_def stored_def)
      then show ?thesis using 2(2)[OF fresh None] ord op rk fresh None by simp
    next
      case (Some c)
      obtain s o' where inner: "collect rows (cs_parents c) (i # seen, out) = (s, o')" by fastforce
      obtain n1 where n1: "collect_spec rows (cs_parents c) (i # seen, out) (s, o') n1"
        using collect_correct[of rows "cs_parents c" "(i # seen, out)"] inner by auto
      have c: "cs_rid c = i" "stored rows i" using lookup_row_mem[OF Some] Some by (auto simp: stored_def)
      have par: "\<And>p. p \<in> set (cs_parents c) \<Longrightarrow> stored rows p \<Longrightarrow> r p < r i"
        using rk Some by (auto simp: names_parent_def)
      have op1: "open_ids rows (i # seen, out) \<subseteq> insert i (open_ids rows (seen, out))"
        by (auto simp: open_ids_def)
      have less: "\<forall>x \<in> open_ids rows (i # seen, out). \<forall>p \<in> set (cs_parents c). stored rows p \<longrightarrow> r p < r x"
      proof (intro ballI impI)
        fix x p assume x: "x \<in> open_ids rows (i # seen, out)" and p: "p \<in> set (cs_parents c)" "stored rows p"
        have "x = i \<or> x \<in> open_ids rows (seen, out)" using x op1 by blast
        then show "r p < r x" using par[OF p] op c(2) by (auto intro: less_trans)
      qed
      have o1: "parents_first rows o'" using 2(3)[OF fresh Some _ less] ord rk inner by simp
      have eq: "open_ids rows (s, o') = open_ids rows (i # seen, out)" by (rule collect_open[OF n1])
      have placed: "p \<in> cs_rid ` set o'" if p: "p \<in> set (cs_parents c)" "stored rows p" for p
      proof (rule ccontr)
        assume "p \<notin> cs_rid ` set o'"
        moreover have "p \<in> set s" using n1 p by (auto simp: collect_spec_def)
        ultimately have "p \<in> open_ids rows (i # seen, out)"
          using p eq by (auto simp: open_ids_def)
        then show False using less p by blast
      qed
      have o2: "parents_first rows (o' @ [c])" using o1 placed by (simp add: parents_first_snoc)
      have "open_ids rows (s, o' @ [c]) \<subseteq> open_ids rows (seen, out)"
        using eq op1 c by (auto simp: open_ids_def)
      then have "\<forall>x \<in> open_ids rows (s, o' @ [c]). \<forall>j \<in> set ids. stored rows j \<longrightarrow> r j < r x"
        using op by auto
      then have "parents_first rows (snd (collect rows ids (s, o' @ [c])))"
        using 2(4)[OF fresh Some inner[symmetric]] o2 rk by simp
      then show ?thesis using fresh Some inner by simp
    qed
  qed
qed simp


section \<open>The table\<close>

text \<open>Every row names rows of its own scope that were stored before it.\<close>

definition causal_ok :: "causal_row list \<Rightarrow> bool" where
  "causal_ok rows = (distinct (map cs_rid rows) \<and>
    (\<forall>xs c ys. rows = xs @ c # ys \<longrightarrow>
      (\<forall>p \<in> set (cs_parents c). \<exists>d \<in> set xs. cs_rid d = p \<and> cs_scope d = cs_scope c)))"

lemma causal_ok_snoc:
  assumes "causal_ok rows" "\<not> has_rid rows (cs_rid c)"
    and "\<And>p. p \<in> set (cs_parents c) \<Longrightarrow> \<exists>d \<in> set rows. cs_rid d = p \<and> cs_scope d = cs_scope c"
  shows "causal_ok (rows @ [c])"
  using assms unfolding causal_ok_def has_rid_def all_splits_snoc by simp

definition known_parents :: "contribution_input \<Rightarrow> causal_row list \<Rightarrow> bool" where
  "known_parents inp rows =
    (\<forall>p \<in> set (ci_parents inp). \<exists>d \<in> set rows. cs_rid d = p \<and> cs_scope d = ci_scope inp)"

lemma insert_contribution_cases:
  assumes "insert_contribution rid inp w = (w', r)"
  shows "w_causal w' = w_causal w \<or>
    (\<not> has_rid (w_causal w) rid \<and> w_causal w' = w_causal w @ [contribution_row rid inp (w_now w)])"
  using assms by (auto simp: insert_contribution_def external_def split: if_splits)

lemma check_parents_frame: "check_parents sha rid inp w = (w', r) \<Longrightarrow> w_causal w' = w_causal w"
  by (auto simp: check_parents_def and_then_def getKnownRids_def external_def Let_def split: if_splits)

lemma check_parents_known:
  assumes "check_parents sha rid inp w = (w', Inr ())" "coalesce (ci_validate inp) True"
  shows "known_parents inp (w_causal w)"
proof (cases "ci_parents inp = []")
  case False
  let ?known = "map cs_rid (filter (\<lambda>c. cs_scope c = ci_scope inp \<and> cs_rid c \<in> set (ci_parents inp)) (w_causal w))"
  let ?v = "validateContribution sha rid (ci_parents inp) (ci_payload inp) (ci_kind inp) ?known"
  have "va_valid ?v"
    using assms False
    by (auto simp: check_parents_def and_then_def getKnownRids_def external_def Let_def split: if_splits)
  then have "filter (\<lambda>p. p \<notin> set ?known) (ci_parents inp) = []"
    by (auto simp: validateContribution_def invalid_contribution_def Let_def split: option.splits if_splits)
  then have "\<forall>p \<in> set (ci_parents inp). p \<in> set ?known" by (simp add: filter_empty_conv)
  then show ?thesis unfolding known_parents_def by fastforce
qed (simp add: known_parents_def)

lemma create_cases:
  assumes "createContribution sha inp w = (w', r)"
  shows "w_causal w' = w_causal w \<or>
    (\<not> has_rid (w_causal w) (rid_of sha inp)
     \<and> w_causal w' = w_causal w @ [contribution_row (rid_of sha inp) inp (w_now w)]
     \<and> (coalesce (ci_validate inp) True \<longrightarrow> known_parents inp (w_causal w)))"
proof (cases "hr_valid (computeContentHash sha (ci_parents inp) (ci_payload inp) (ci_kind inp))")
  case True
  obtain w1 r1 where c: "check_parents sha (rid_of sha inp) inp w = (w1, r1)" by fastforce
  note f = check_parents_frame[OF c]
  show ?thesis
  proof (cases r1)
    case (Inl e)
    then show ?thesis using assms True c f
      by (auto simp: createContribution_def and_then_def Let_def rid_of_def)
  next
    case (Inr u)
    obtain w2 r2 where i: "insert_contribution (rid_of sha inp) inp w1 = (w2, r2)" by fastforce
    have w': "w_causal w' = w_causal w2"
      using assms True c Inr i
      by (auto simp: createContribution_def and_then_def Let_def rid_of_def split: sum.splits)
    have now: "w_now w1 = w_now w"
      using c by (auto simp: check_parents_def and_then_def getKnownRids_def external_def Let_def split: if_splits)
    show ?thesis using insert_contribution_cases[OF i] w' f now check_parents_known[of sha "rid_of sha inp" inp w w1]
        c Inr by auto
  qed
qed (use assms in \<open>auto simp: createContribution_def Let_def\<close>)

lemma contribution_row_select [simp]:
  "cs_rid (contribution_row rid inp now) = rid" "cs_scope (contribution_row rid inp now) = ci_scope inp"
  "cs_parents (contribution_row rid inp now) = ci_parents inp"
  by (simp_all add: contribution_row_def)

lemma create_ok:
  assumes ok: "causal_ok (w_causal w)" and run: "createContribution sha inp w = (w', r)"
    and known: "coalesce (ci_validate inp) True \<or> known_parents inp (w_causal w)"
  shows "causal_ok (w_causal w')"
proof (cases "w_causal w' = w_causal w")
  case False
  let ?row = "contribution_row (rid_of sha inp) inp (w_now w)"
  have n: "\<not> has_rid (w_causal w) (cs_rid ?row)" "w_causal w' = w_causal w @ [?row]"
    "known_parents inp (w_causal w)"
    using create_cases[OF run] False known by auto
  have "causal_ok (w_causal w @ [?row])"
    by (rule causal_ok_snoc[OF ok n(1)]) (use n(3) in \<open>simp add: known_parents_def\<close>)
  then show ?thesis using n(2) by simp
qed (use ok in simp)

lemma frontier_known: "p \<in> set (frontier sc rows) \<Longrightarrow> \<exists>d \<in> set rows. cs_rid d = p \<and> cs_scope d = sc"
  by (auto simp: frontier_def)

lemma emit_input_select [simp]:
  "ci_scope (emit_input roleId kind payload tier mode sc ps) = sc"
  "ci_parents (emit_input roleId kind payload tier mode sc ps) = ps"
  "ci_payload (emit_input roleId kind payload tier mode sc ps) = payload"
  "ci_kind (emit_input roleId kind payload tier mode sc ps) = kind"
  "ci_validate (emit_input roleId kind payload tier mode sc ps) = Some False"
  by (simp_all add: emit_input_def)

lemma emit_ok:
  assumes "causal_ok (w_causal w)" "emitContribution sha roleId kind payload tier mode sc [] w = (w', r)"
  shows "causal_ok (w_causal w')"
proof -
  obtain w1 ps where p: "emit_parents sc [] w = (w1, Inr ps)" "w_causal w1 = w_causal w"
    "ps = [] \<or> ps = frontier sc (w_causal w)"
    by (cases "w_faults w (w_tick w)")
      (auto simp: emit_parents_def try_catch_def getFrontier_def external_def)
  let ?inp = "emit_input roleId kind payload tier mode sc ps"
  obtain w2 r2 where c: "createContribution sha ?inp w1 = (w2, r2)" by fastforce
  have "known_parents ?inp (w_causal w1)"
    using p frontier_known by (auto simp: known_parents_def)
  then have "causal_ok (w_causal w2)" using create_ok[OF _ c] assms(1) p by simp
  moreover have "w' = w2"
    using assms(2) p c by (auto simp: emitContribution_def try_catch_def and_then_def split: sum.splits)
  ultimately show ?thesis by simp
qed

datatype causal_op =
    CreateOp contribution_input
  | EmitOp string string string "int option" "string option" string

definition causal_step :: "content_sha \<Rightarrow> causal_op \<Rightarrow> world \<Rightarrow> world" where
  "causal_step sha c w = fst (case c of
     CreateOp inp \<Rightarrow> createContribution sha (inp \<lparr> ci_validate := None \<rparr>) w
   | EmitOp roleId kind payload tier mode sc \<Rightarrow> emitContribution sha roleId kind payload tier mode sc [] w)"

lemma causal_step_ok: "causal_ok (w_causal w) \<Longrightarrow> causal_ok (w_causal (causal_step sha c w))"
  by (cases c) (auto simp: causal_step_def intro!: create_ok[OF _ prod.collapse[symmetric]]
      emit_ok[OF _ prod.collapse[symmetric]])

lemma causal_steps_ok:
  "causal_ok (w_causal w) \<Longrightarrow> causal_ok (w_causal (fold (causal_step sha) ops w))"
  by (induction ops arbitrary: w) (auto simp: causal_step_ok)

lemma causal_ok_Nil [simp]: "causal_ok []"
  by (simp add: causal_ok_def)


lemma causal_ok_before:
  assumes "causal_ok rows" "c \<in> set rows"
  obtains xs ys where "rows = xs @ c # ys" "cs_rid c \<notin> cs_rid ` set xs"
    "\<And>p. p \<in> set (cs_parents c) \<Longrightarrow> \<exists>d \<in> set xs. cs_rid d = p \<and> cs_scope d = cs_scope c"
proof -
  obtain xs ys where s: "rows = xs @ c # ys" using split_list[OF assms(2)] by blast
  show ?thesis
    by (rule that[OF s]) (use assms(1) s in \<open>auto simp: causal_ok_def\<close>)
qed

lemma lookup_distinct:
  assumes "distinct (map cs_rid rows)" "c \<in> set rows"
  shows "lookup_row rows (cs_rid c) = Some c"
proof -
  obtain d where d: "lookup_row rows (cs_rid c) = Some d"
    using assms(2) by (cases "lookup_row rows (cs_rid c)") (auto simp: lookup_row_def find_None_iff)
  then have "d \<in> set rows" "cs_rid d = cs_rid c" using lookup_row_mem by blast+
  then have "d = c" using assms by (auto simp: distinct_map inj_on_def)
  then show ?thesis using d by simp
qed

definition rank_in :: "causal_row list \<Rightarrow> string \<Rightarrow> nat" where
  "rank_in rows i = length (takeWhile (\<lambda>c. cs_rid c \<noteq> i) rows)"

lemma takeWhile_shorter: "\<exists>x \<in> set xs. \<not> P x \<Longrightarrow> length (takeWhile P xs) < length xs"
  by (induction xs) auto

lemma rank_decreases:
  assumes "causal_ok rows" "c \<in> set rows" "p \<in> set (cs_parents c)"
  shows "rank_in rows p < rank_in rows (cs_rid c)"
proof -
  obtain xs ys where s: "rows = xs @ c # ys" "cs_rid c \<notin> cs_rid ` set xs"
    and d: "\<exists>d \<in> set xs. cs_rid d = p"
    using causal_ok_before[OF assms(1,2)] assms(3) by metis
  have "takeWhile (\<lambda>d. cs_rid d \<noteq> cs_rid c) rows = xs"
    using s by (subst s(1), subst takeWhile_append2) (auto simp: image_iff)
  moreover have "length (takeWhile (\<lambda>d. cs_rid d \<noteq> p) rows) < length xs"
  proof -
    have "takeWhile (\<lambda>d. cs_rid d \<noteq> p) rows = takeWhile (\<lambda>d. cs_rid d \<noteq> p) xs"
      using d s(1) by (auto simp: takeWhile_append1)
    then show ?thesis using takeWhile_shorter[of xs "\<lambda>d. cs_rid d \<noteq> p"] d by simp
  qed
  ultimately show ?thesis by (simp add: rank_in_def)
qed

definition same_scope :: "string \<Rightarrow> causal_row list \<Rightarrow> causal_row list" where
  "same_scope sc rows = filter (\<lambda>d. cs_scope d = sc) rows"

lemma same_scope_parents:
  assumes "causal_ok rows" "c \<in> set (same_scope sc rows)" "p \<in> set (cs_parents c)"
  shows "stored (same_scope sc rows) p"
proof -
  have c: "c \<in> set rows" "cs_scope c = sc" using assms(2) by (simp_all add: same_scope_def)
  obtain xs ys where "rows = xs @ c # ys" "\<exists>d \<in> set xs. cs_rid d = p \<and> cs_scope d = cs_scope c"
    using causal_ok_before[OF assms(1) c(1)] assms(3) by metis
  then show ?thesis using c by (auto simp: stored_iff same_scope_def image_iff)
qed

lemma same_scope_lookup:
  assumes "causal_ok rows" "c \<in> set (same_scope sc rows)"
  shows "lookup_row (same_scope sc rows) (cs_rid c) = Some c" "lookup_row rows (cs_rid c) = Some c"
proof -
  have "distinct (map cs_rid rows)" using assms(1) by (simp add: causal_ok_def)
  moreover then have "distinct (map cs_rid (same_scope sc rows))"
    by (simp add: same_scope_def distinct_map_filter)
  ultimately show "lookup_row (same_scope sc rows) (cs_rid c) = Some c" "lookup_row rows (cs_rid c) = Some c"
    using assms(2) lookup_distinct by (auto simp: same_scope_def)
qed

text \<open>Inside a scope the parents are the same as in the whole table.\<close>

lemma names_parent_scope:
  assumes "causal_ok rows" "stored (same_scope sc rows) a"
  shows "names_parent (same_scope sc rows) a b \<longleftrightarrow> names_parent rows a b"
    and "names_parent rows a b \<Longrightarrow> stored (same_scope sc rows) b"
proof -
  obtain c where c: "c \<in> set (same_scope sc rows)" "cs_rid c = a"
    using assms(2) by (auto simp: stored_iff)
  show *: "names_parent (same_scope sc rows) a b \<longleftrightarrow> names_parent rows a b"
    using same_scope_lookup[OF assms(1) c(1)] c(2) by (simp add: names_parent_def)
  show "names_parent rows a b \<Longrightarrow> stored (same_scope sc rows) b"
    using same_scope_lookup[OF assms(1) c(1)] c same_scope_parents[OF assms(1) c(1)]
    by (auto simp: names_parent_def)
qed

lemma ancestors_scope:
  assumes ok: "causal_ok rows" and a: "stored (same_scope sc rows) a"
  shows "(names_parent (same_scope sc rows))\<^sup>*\<^sup>* a b \<longleftrightarrow> (names_parent rows)\<^sup>*\<^sup>* a b"
proof
  assume "(names_parent (same_scope sc rows))\<^sup>*\<^sup>* a b"
  then show "(names_parent rows)\<^sup>*\<^sup>* a b"
  proof (induction rule: rtranclp_induct)
    case (step b c)
    then have "stored (same_scope sc rows) b" by (auto simp: names_parent_def stored_def)
    then show ?case using step names_parent_scope(1)[OF ok] by (meson rtranclp.rtrancl_into_rtrancl)
  qed simp
next
  assume "(names_parent rows)\<^sup>*\<^sup>* a b"
  then have "(names_parent (same_scope sc rows))\<^sup>*\<^sup>* a b \<and> stored (same_scope sc rows) b"
  proof (induction rule: rtranclp_induct)
    case (step b c)
    then show ?case using names_parent_scope[OF ok, of sc b c] by (meson rtranclp.rtrancl_into_rtrancl)
  qed (use a in simp)
  then show "(names_parent (same_scope sc rows))\<^sup>*\<^sup>* a b" ..
qed

lemma cone_correct:
  assumes ok: "causal_ok rows" and c: "c \<in> set rows"
  defines "cone \<equiv> causal_cone (cs_rid c) rows"
  shows "distinct (map cs_rid cone)"
    and "\<And>d. d \<in> set cone \<longleftrightarrow> d \<in> set rows \<and> (names_parent rows)\<^sup>*\<^sup>* (cs_rid c) (cs_rid d)"
    and "\<And>xs d ys p. cone = xs @ d # ys \<Longrightarrow> p \<in> set (cs_parents d) \<Longrightarrow> p \<in> cs_rid ` set xs"
proof -
  let ?R = "same_scope (cs_scope c) rows"
  have cR: "c \<in> set ?R" using c by (simp add: same_scope_def)
  have l: "lookup_row rows (cs_rid c) = Some c" "lookup_row ?R (cs_rid c) = Some c"
    using same_scope_lookup[OF ok cR] by simp_all
  have eq: "cone = snd (collect ?R [cs_rid c] ([], []))"
    using l by (simp add: cone_def causal_cone_def scope_rows_def same_scope_def)
  obtain seen where res: "collect ?R [cs_rid c] ([], []) = (seen, cone)"
    using eq by (cases "collect ?R [cs_rid c] ([], [])") simp
  obtain new where "collect_spec ?R [cs_rid c] ([], []) (seen, cone) new"
    using collect_correct[of ?R "[cs_rid c]" "([], [])"] res by auto
  then have spec: "collect_spec ?R [cs_rid c] ([], []) (seen, cone) cone"
    by (simp add: collect_spec_def)
  note d = collect_specD[OF spec]
  show "distinct (map cs_rid cone)" by (rule d(6))
  have st: "stored ?R (cs_rid c)" using l by (simp add: stored_def)
  have seen: "i \<in> set seen \<longleftrightarrow> (names_parent ?R)\<^sup>*\<^sup>* (cs_rid c) i" for i
  proof
    assume "i \<in> set seen" then show "(names_parent ?R)\<^sup>*\<^sup>* (cs_rid c) i" using d(4)[of i] by auto
  next
    assume "(names_parent ?R)\<^sup>*\<^sup>* (cs_rid c) i"
    then show "i \<in> set seen"
    proof (induction rule: rtranclp_induct)
      case (step b e) then show ?case using d(5)[of b e] by simp
    qed (use d(3) in simp)
  qed
  have coneR: "x \<in> set ?R" if "x \<in> set cone" for x
    using d(8)[OF that] lookup_row_mem by blast
  show "x \<in> set cone \<longleftrightarrow> x \<in> set rows \<and> (names_parent rows)\<^sup>*\<^sup>* (cs_rid c) (cs_rid x)" for x
  proof
    assume x: "x \<in> set cone"
    then have "cs_rid x \<in> set seen" using d(7) by (auto dest!: imageI[of x "set cone" cs_rid])
    then show "x \<in> set rows \<and> (names_parent rows)\<^sup>*\<^sup>* (cs_rid c) (cs_rid x)"
      using coneR[OF x] seen ancestors_scope[OF ok st] by (simp add: same_scope_def)
  next
    assume x: "x \<in> set rows \<and> (names_parent rows)\<^sup>*\<^sup>* (cs_rid c) (cs_rid x)"
    then have r: "(names_parent ?R)\<^sup>*\<^sup>* (cs_rid c) (cs_rid x)" using ancestors_scope[OF ok st] by simp
    then have "stored ?R (cs_rid x)"
    proof (cases rule: rtranclp.cases)
      case (rtrancl_into_rtrancl b)
      then have "stored ?R b" by (auto simp: names_parent_def stored_def)
      then show ?thesis using rtrancl_into_rtrancl names_parent_scope[OF ok] by blast
    qed (use st in simp)
    then obtain y where y: "y \<in> set ?R" "cs_rid y = cs_rid x" by (auto simp: stored_iff)
    then have "y = x" using x ok by (auto simp: same_scope_def causal_ok_def distinct_map inj_on_def)
    have "cs_rid x \<in> cs_rid ` set cone" unfolding d(7) using seen r \<open>stored ?R (cs_rid x)\<close> by simp
    then obtain z where z: "z \<in> set cone" "cs_rid z = cs_rid x" by auto
    then have "z = x" using coneR[OF z(1)] x ok by (auto simp: same_scope_def causal_ok_def distinct_map inj_on_def)
    then show "x \<in> set cone" using z(1) by simp
  qed
  have rank: "names_parent ?R a b \<Longrightarrow> stored ?R b \<Longrightarrow> rank_in rows b < rank_in rows a" for a b
  proof -
    assume "names_parent ?R a b"
    then obtain e where e: "lookup_row ?R a = Some e" "b \<in> set (cs_parents e)" by (auto simp: names_parent_def)
    then have "e \<in> set rows" "cs_rid e = a" using lookup_row_mem[OF e(1)] by (auto simp: same_scope_def)
    then show "rank_in rows b < rank_in rows a" using rank_decreases[OF ok _ e(2)] by auto
  qed
  have po: "parents_first ?R cone"
    using collect_ordered[where rows = ?R and r = "rank_in rows" and st = "([], [])" and ids = "[cs_rid c]"]
      rank res by (simp add: parents_first_def open_ids_def)
  show "p \<in> cs_rid ` set xs" if s: "cone = xs @ e # ys" and p: "p \<in> set (cs_parents e)" for xs e ys p
  proof -
    have "e \<in> set ?R" using coneR s by simp
    then show ?thesis using po s p same_scope_parents[OF ok _ p] by (auto simp: parents_first_def)
  qed
qed


section \<open>The properties\<close>

text \<open>
  C26. A cone lists causes before effects. Whatever contributions are created with validated
  parents or emitted by the agents, with any calls failing, the cone of a stored contribution
  consists of exactly that contribution and its ancestors, each once and each after all of its
  parents; the depth-first search behind it always ends.
\<close>

theorem causal_cone_ordered:
  assumes "rows = w_causal (fold (causal_step sha) ops (w \<lparr> w_causal := [] \<rparr>))"
    and "c \<in> set rows" and "cone = causal_cone (cs_rid c) rows"
  shows "distinct (map cs_rid cone)
    \<and> set cone = {d \<in> set rows. (names_parent rows)\<^sup>*\<^sup>* (cs_rid c) (cs_rid d)}
    \<and> (\<forall>xs d ys. cone = xs @ d # ys \<longrightarrow> set (cs_parents d) \<subseteq> cs_rid ` set xs)"
proof -
  have ok: "causal_ok rows" using causal_steps_ok assms(1) by simp
  show ?thesis
  proof (intro conjI allI impI)
    show "distinct (map cs_rid cone)" using cone_correct(1)[OF ok assms(2)] assms(3) by simp
    show "set cone = {d \<in> set rows. (names_parent rows)\<^sup>*\<^sup>* (cs_rid c) (cs_rid d)}"
      using cone_correct(2)[OF ok assms(2)] assms(3) by blast
    fix xs d ys assume "cone = xs @ d # ys"
    then have "causal_cone (cs_rid c) rows = xs @ d # ys" using assms(3) by simp
    then show "set (cs_parents d) \<subseteq> cs_rid ` set xs"
      using cone_correct(3)[OF ok assms(2)] by auto
  qed
qed

text \<open>Two emissions in one scope: the second names the first as its parent. The hash of the example
  repeats the first character of the payload.\<close>

definition toy_sha :: content_sha where
  "toy_sha ps payload kind = replicate 64 (hd payload)"

definition two_emissions :: "causal_op list" where
  "two_emissions = [EmitOp ''facts-agent'' ''claim'' ''a'' None None ''s'',
                    EmitOp ''drift-agent'' ''evidence'' ''b'' None None ''s'']"

definition two_rows :: "causal_row list" where
  "two_rows = [contribution_row (replicate 64 CHR ''a'') (emit_input ''facts-agent'' ''claim'' ''a'' None None ''s'' []) 0,
     contribution_row (replicate 64 CHR ''b'')
       (emit_input ''drift-agent'' ''evidence'' ''b'' None None ''s'' [replicate 64 CHR ''a'']) 0]"

lemma two_emissions_rows: "w_causal (fold (causal_step toy_sha) two_emissions (empty_world \<lparr> w_causal := [] \<rparr>)) = two_rows"
  by code_simp

theorem causal_cone_ordered_witness:
  "two_rows ! 0 \<in> set (causal_cone (replicate 64 CHR ''b'') two_rows)"
proof -
  let ?b = "two_rows ! 1"
  have b: "?b \<in> set two_rows" "cs_rid ?b = replicate 64 CHR ''b''" "cs_parents ?b = [replicate 64 CHR ''a'']"
    by (simp_all add: two_rows_def)
  note c = causal_cone_ordered[OF two_emissions_rows[symmetric] b(1) refl]
  have "?b \<in> set (causal_cone (cs_rid ?b) two_rows)" using c b(1) by simp
  then obtain xs ys where s: "causal_cone (cs_rid ?b) two_rows = xs @ ?b # ys" using split_list by metis
  then have "set (cs_parents ?b) \<subseteq> cs_rid ` set xs" using c by blast
  then obtain d where d: "d \<in> set xs" "cs_rid d = replicate 64 CHR ''a''" using b(3) by auto
  then have "d \<in> set two_rows" using c s by auto
  then have "d = two_rows ! 0" using d(2) by (auto simp: two_rows_def)
  then show ?thesis using d(1) s b(2) by simp
qed

text \<open>
  A content address without the scope loses contributions: creating the same content (parents,
  payload and kind) in a second scope returns the same identifier as if it had been stored, but the
  table does not change and the second scope holds no row with that identifier.
\<close>

theorem contribution_lost_across_scopes:
  assumes "createContribution sha inp w = (w1, Inr rid)" and "\<not> has_rid (w_causal w) rid"
    and "createContribution sha (inp \<lparr> ci_scope := other \<rparr>) w1 = (w2, Inr rid2)"
    and "other \<noteq> ci_scope inp"
  shows "rid2 = rid \<and> w_causal w2 = w_causal w1
    \<and> \<not> (\<exists>c \<in> set (w_causal w2). cs_rid c = rid \<and> cs_scope c = other)"
proof -
  have r: "rid = rid_of sha inp" "rid2 = rid_of sha inp"
    using assms(1,3) by (auto simp: createContribution_def and_then_def rid_of_def Let_def
        split: if_splits prod.splits sum.splits)
  have i: "has_rid (w_causal w1) rid"
    using assms(1) by (auto simp: createContribution_def and_then_def Let_def insert_contribution_def
        external_def has_rid_def r(1) rid_of_def split: if_splits prod.splits sum.splits)
  then have w1: "w_causal w1 = w_causal w @ [contribution_row rid inp (w_now w)]"
    using create_cases[OF assms(1)] assms(2) r by auto
  have "w_causal w2 = w_causal w1"
    using create_cases[OF assms(3)] i r by (auto simp: rid_of_def)
  then show ?thesis using w1 assms(2,4) r by (auto simp: has_rid_def image_iff)
qed

definition root_input :: contribution_input where
  "root_input = emit_input ''finality-evaluator'' ''assessment'' ''RESOLVED'' None None ''a'' []"

theorem contribution_lost_across_scopes_witness:
  "\<exists>w2. createContribution toy_sha (root_input \<lparr> ci_scope := ''b'' \<rparr>)
          (fst (createContribution toy_sha root_input empty_world)) = (w2, Inr (replicate 64 CHR ''R''))
      \<and> \<not> (\<exists>c \<in> set (w_causal w2). cs_rid c = replicate 64 CHR ''R'' \<and> cs_scope c = ''b'')"
proof -
  let ?r1 = "createContribution toy_sha root_input empty_world"
  let ?r2 = "createContribution toy_sha (root_input \<lparr> ci_scope := ''b'' \<rparr>) (fst ?r1)"
  have run: "?r1 = (fst ?r1, Inr (replicate 64 CHR ''R''))" "?r2 = (fst ?r2, Inr (replicate 64 CHR ''R''))"
    by (simp_all add: createContribution_def and_then_def check_parents_def insert_contribution_def external_def
        root_input_def emit_input_def computeContentHash_def isContributionKind_def contribution_kinds_def
        toy_sha_def empty_world_def Let_def)
  have n: "\<not> has_rid (w_causal empty_world) (replicate 64 CHR ''R'')" "''b'' \<noteq> ci_scope root_input"
    by (simp_all add: has_rid_def empty_world_def root_input_def)
  show ?thesis using contribution_lost_across_scopes[OF run(1) n(1) run(2) n(2)] run(2) by metis
qed

text \<open>
  Emissions join the branches: an agent's emission, when no call fails and its content is new,
  becomes the only tip of its scope.
\<close>

theorem emission_joins_frontier:
  assumes "emitContribution sha roleId kind payload tier mode sc [] w = (w', Inr rid)"
    and "rid \<noteq> []" "\<not> has_rid (w_causal w) rid" "causal_ok (w_causal w)" "\<And>k. \<not> w_faults w k"
  shows "frontier sc (w_causal w') = [rid]"
proof -
  let ?ps = "frontier sc (w_causal w)"
  let ?inp = "emit_input roleId kind payload tier mode sc ?ps"
  let ?w1 = "tick w"
  have p: "emit_parents sc [] w = (?w1, Inr ?ps)"
    using assms(5) by (simp add: emit_parents_def try_catch_def getFrontier_def external_def)
  obtain w2 r2 where c: "createContribution sha ?inp ?w1 = (w2, r2)" by fastforce
  have res: "w' = w2" "r2 = Inr rid"
    using assms(1,2) p c by (auto simp: emitContribution_def try_catch_def and_then_def split: sum.splits)
  have rid: "rid = rid_of sha ?inp"
    using c res by (auto simp: createContribution_def and_then_def rid_of_def Let_def
        split: if_splits prod.splits sum.splits)
  have "has_rid (w_causal w2) rid"
    using c res by (auto simp: createContribution_def and_then_def Let_def insert_contribution_def
        external_def has_rid_def rid rid_of_def split: if_splits prod.splits sum.splits)
  then have w2: "w_causal w2 = w_causal w @ [contribution_row rid ?inp (w_now w)]"
    using create_cases[OF c] assms(3) rid by auto
  have unnamed: "rid \<notin> set (cs_parents d)" if d: "d \<in> set (w_causal w)" for d
  proof
    assume p: "rid \<in> set (cs_parents d)"
    obtain xs ys where "w_causal w = xs @ d # ys" "\<exists>e \<in> set xs. cs_rid e = rid"
      using causal_ok_before[OF assms(4) d] p by metis
    then show False using assms(3) by (auto simp: has_rid_def)
  qed
  have self: "rid \<notin> set ?ps" using assms(3) by (auto simp: frontier_def has_rid_def)
  have old: "\<not> (cs_scope d = sc \<and> \<not> list_ex (\<lambda>e. cs_scope e = sc \<and> cs_rid d \<in> set (cs_parents e)) (w_causal w2))"
    if d: "d \<in> set (w_causal w)" for d
  proof
    assume a: "cs_scope d = sc \<and> \<not> list_ex (\<lambda>e. cs_scope e = sc \<and> cs_rid d \<in> set (cs_parents e)) (w_causal w2)"
    then have "cs_rid d \<in> set ?ps" using d w2 by (auto simp: frontier_def list_ex_iff)
    then show False using a w2 by simp
  qed
  have "filter (\<lambda>d. cs_scope d = sc \<and> \<not> list_ex (\<lambda>e. cs_scope e = sc \<and> cs_rid d \<in> set (cs_parents e)) (w_causal w2))
      (w_causal w) = []"
    using old by (simp add: filter_empty_conv)
  then have "frontier sc (w_causal w2) = [rid]"
    using w2 unnamed self by (auto simp: frontier_def list_ex_iff)
  then show ?thesis using res by simp
qed

theorem emission_joins_frontier_witness:
  "frontier ''s'' (w_causal (fst (emitContribution toy_sha ''a'' ''claim'' ''a'' None None ''s'' [] empty_world)))
     = [replicate 64 CHR ''a'']"
proof -
  let ?r = "emitContribution toy_sha ''a'' ''claim'' ''a'' None None ''s'' [] empty_world"
  have run: "?r = (fst ?r, Inr (replicate 64 CHR ''a''))"
    by (simp add: emitContribution_def emit_parents_def getFrontier_def frontier_def try_catch_def
        createContribution_def and_then_def check_parents_def insert_contribution_def external_def
        emit_input_def computeContentHash_def isContributionKind_def contribution_kinds_def
        toy_sha_def empty_world_def Let_def)
  show ?thesis
    by (rule emission_joins_frontier[OF run]) (simp_all add: has_rid_def empty_world_def)
qed

end
