(* ===== verification/Evidence_State.thy ===== *)
theory Evidence_State
  imports Sheaf_Diffusion Causal_Safety "HOL-Library.Char_ord"
begin

text \<open>
  The evidence layer around the diffusion step: the tables of \<open>src/evidenceStateManager.ts\<close>, the
  evidence bus of \<open>src/evidenceBus.ts\<close> and the propagation agent of
  \<open>src/agents/propagationAgent.ts\<close>. The profiling sample of an experiment is an external call
  that may fail and changes nothing modelled here; role names contain no colon.
\<close>

section \<open>Flat vectors and rows\<close>

record role_evidence =
  pe_role :: string
  pe_support :: "rat list"
  pe_refutation :: "rat list"

definition padded :: "nat \<Rightarrow> rat list \<Rightarrow> rat list" where
  "padded n xs = map (\<lambda>d. if d < length xs then xs ! d else 0) [0..<n]"

definition buildFlatState :: "role_evidence list \<Rightarrow> nat \<Rightarrow> flat" where
  "buildFlatState perRole numDims =
     concat (map (\<lambda>r. padded numDims (pe_support r) @ padded numDims (pe_refutation r)) perRole)"

definition flatToPerRole :: "flat \<Rightarrow> string list \<Rightarrow> nat \<Rightarrow> role_evidence list" where
  "flatToPerRole x roleIds numDims =
     map (\<lambda>(roleId, i). \<lparr> pe_role = roleId,
            pe_support = take numDims (drop (i * (2 * numDims)) x),
            pe_refutation = take numDims (drop (i * (2 * numDims) + numDims) x) \<rparr>)
       (zip roleIds [0..<length roleIds])"

section \<open>The tables\<close>

definition evidence_row_of :: "string \<Rightarrow> int \<Rightarrow> role_evidence \<Rightarrow> evidence_row" where
  "evidence_row_of scopeId epoch r =
     \<lparr> ev_scope = scopeId, ev_epoch = epoch, ev_role = pe_role r, ev_support = pe_support r,
       ev_refutation = pe_refutation r \<rparr>"

definition insert_evidence :: "string \<Rightarrow> int \<Rightarrow> role_evidence \<Rightarrow> (world, unit) exec" where
  "insert_evidence scopeId epoch r =
     external (\<lambda>w. (w \<lparr> w_evidence := w_evidence w @ [evidence_row_of scopeId epoch r] \<rparr>, Inr ()))"

definition saveEvidenceStates :: "string \<Rightarrow> int \<Rightarrow> role_evidence list \<Rightarrow> (world, unit) exec" where
  "saveEvidenceStates scopeId epoch perRole = in_order (map (insert_evidence scopeId epoch) perRole)"

definition max_epoch :: "string \<Rightarrow> evidence_row list \<Rightarrow> int option" where
  "max_epoch scopeId rows =
    (case map ev_epoch (filter (\<lambda>r. ev_scope r = scopeId) rows) of
       [] \<Rightarrow> None | e # es \<Rightarrow> Some (foldr max es e))"

definition role_of_row :: "evidence_row \<Rightarrow> role_evidence" where
  "role_of_row r = \<lparr> pe_role = ev_role r, pe_support = ev_support r, pe_refutation = ev_refutation r \<rparr>"

text \<open>\<open>ORDER BY role_id ASC\<close>: the rows come back in the order of the role names.\<close>

definition rows_at :: "string \<Rightarrow> int \<Rightarrow> evidence_row list \<Rightarrow> role_evidence list" where
  "rows_at scopeId epoch rows =
     sort_key pe_role (map role_of_row (filter (\<lambda>r. ev_scope r = scopeId \<and> ev_epoch r = epoch) rows))"

definition loadLatestEvidenceStates ::
  "string \<Rightarrow> (world, (int \<times> role_evidence list) option) exec" where
  "loadLatestEvidenceStates scopeId =
     and_then (external (\<lambda>w. (w, Inr (max_epoch scopeId (w_evidence w)))))
       (\<lambda>m. case m of
          None \<Rightarrow> ret None
        | Some epoch \<Rightarrow>
            external (\<lambda>w. (w, Inr (case rows_at scopeId epoch (w_evidence w) of
               [] \<Rightarrow> None | rs \<Rightarrow> Some (epoch, rs)))))"

definition savePropagationHistory :: "string \<Rightarrow> int \<Rightarrow> propagation_metrics \<Rightarrow> (world, unit) exec" where
  "savePropagationHistory scopeId epoch metrics =
     external (\<lambda>w. (w \<lparr> w_propagation := w_propagation w @
        [\<lparr> ph_scope = scopeId, ph_epoch = epoch, ph_metrics = metrics \<rparr>] \<rparr>, Inr ()))"

record history_row =
  hr_norm :: rat
  hr_kappa :: rat
  hr_after :: rat
  hr_dirichlet :: rat

definition history_of :: "propagation_row \<Rightarrow> history_row" where
  "history_of r =
    (let m = ph_metrics r in
     \<lparr> hr_norm = pm_norm m, hr_kappa = coalesce (pm_kappa m) 0, hr_after = pm_after m,
       hr_dirichlet = coalesce (pm_dirichlet_after m) (pm_after m) \<rparr>)"

text \<open>\<open>ORDER BY epoch ASC LIMIT $2\<close>.\<close>

definition history_rows :: "string \<Rightarrow> nat \<Rightarrow> propagation_row list \<Rightarrow> history_row list" where
  "history_rows scopeId limit rows =
     map history_of (take limit (sort_key ph_epoch (filter (\<lambda>r. ph_scope r = scopeId) rows)))"

definition loadPropagationHistory :: "string \<Rightarrow> nat \<Rightarrow> (world, history_row list) exec" where
  "loadPropagationHistory scopeId limit =
     external (\<lambda>w. (w, Inr (history_rows scopeId limit (w_propagation w))))"

text \<open>\<open>ORDER BY epoch DESC LIMIT 1\<close>.\<close>

definition latest_energy :: "string \<Rightarrow> propagation_row list \<Rightarrow> rat option" where
  "latest_energy scopeId rows =
    (case rev (sort_key ph_epoch (filter (\<lambda>r. ph_scope r = scopeId) rows)) of
       [] \<Rightarrow> None | r # _ \<Rightarrow> Some (hr_dirichlet (history_of r)))"

definition loadLatestDirichletEnergy :: "string \<Rightarrow> (world, rat option) exec" where
  "loadLatestDirichletEnergy scopeId =
     external (\<lambda>w. (w, Inr (latest_energy scopeId (w_propagation w))))"

section \<open>The perturbation of a run\<close>

type_synonym evidence_deltas = "(string, rat list \<times> rat list) jsmap"

definition latest_dimension_scores :: "string \<Rightarrow> (world, (string \<times> rat) list option) exec" where
  "latest_dimension_scores scopeId =
     external (\<lambda>w. (w, Inr (case rev (filter (\<lambda>r. cv_scope r = scopeId) (w_convergence w)) of
        [] \<Rightarrow> None | r # _ \<Rightarrow> Some (cp_dims (cv_point r)))))"

definition role_delta :: "string list \<Rightarrow> (string \<times> rat) list \<Rightarrow> prop_role \<Rightarrow> rat list \<times> rat list" where
  "role_delta dims scores role =
     foldl (\<lambda>(sup, refu) dim.
        case index_of dims dim of
          None \<Rightarrow> (sup, refu)
        | Some i \<Rightarrow>
            (let s = coalesce (map_get scores dim) 0 in
             (sup[i := clamp (0, 1) s], refu[i := clamp (0, 1) (1 - s)])))
       (replicate (length dims) 0, replicate (length dims) 0)
       (coalesce (ro_dims role) dims)"

definition buildEvidenceDeltas ::
  "prop_role list \<Rightarrow> string list \<Rightarrow> (string \<times> rat) list option \<Rightarrow> evidence_deltas" where
  "buildEvidenceDeltas roles dims scores =
    (case scores of
       None \<Rightarrow> []
     | Some sc \<Rightarrow> foldl (\<lambda>m r. map_set (ro_name r) (role_delta dims sc r) m) [] roles)"

definition overwrite :: "nat \<Rightarrow> nat \<Rightarrow> rat list \<Rightarrow> flat \<Rightarrow> flat" where
  "overwrite numDims offset vs x =
     foldl (\<lambda>y d. y[offset + d := vs ! d]) x [0..<min (length vs) numDims]"

definition buildPerturbationFromPayload :: "evidence_deltas \<Rightarrow> string list \<Rightarrow> nat \<Rightarrow> flat" where
  "buildPerturbationFromPayload deltas roleIds numDims =
     foldl (\<lambda>x (roleId, sup, refu).
        case index_of roleIds roleId of
          None \<Rightarrow> x
        | Some i \<Rightarrow>
            overwrite numDims (i * (2 * numDims) + numDims) refu
              (overwrite numDims (i * (2 * numDims)) sup x))
       (replicate (length roleIds * (2 * numDims)) 0) deltas"

section \<open>The evidence bus\<close>

definition allowedEvidenceEdges :: "(string \<times> string) list \<Rightarrow> (string \<times> string) list" where
  "allowedEvidenceEdges edges = rev (remdups (rev edges))"

definition evidence_objects :: "string list \<Rightarrow> nat \<Rightarrow> role_evidence \<Rightarrow> evidence_object list" where
  "evidence_objects dims numDims r =
     List.map_filter (\<lambda>d.
       let s = (if d < length (pe_support r) then pe_support r ! d else 0);
           q = (if d < length (pe_refutation r) then pe_refutation r ! d else 0) in
       if \<bar>s\<bar> > 1 / 10 ^ 9 \<or> \<bar>q\<bar> > 1 / 10 ^ 9
       then Some \<lparr> eo_role = pe_role r, eo_dimension = dims ! d, eo_support = s, eo_refutation = q \<rparr>
       else None) [0..<numDims]"

definition evidence_subject :: "string \<Rightarrow> string \<Rightarrow> string" where
  "evidence_subject a b = ''swarm.evidence.'' @ a @ ''.'' @ b"

definition publishEvidence ::
  "(string \<times> evidence_object list) list \<Rightarrow> (string \<times> string) list \<Rightarrow> (world, unit) exec" where
  "publishEvidence byRole edges =
    (let sends = concat (map (\<lambda>(role, objs).
           concat (map (\<lambda>(a, b). if a = role
              then map (\<lambda>ev. publish (evidence_subject a b) (EvidenceMsg ev a b)) objs else []) edges)) byRole) in
     and_then (if list_ex (\<lambda>(role, objs). list_ex (\<lambda>(a, b). a = role) edges) byRole
               then external (\<lambda>w. (w, Inr ())) else ret ())
       (\<lambda>_. in_order sends))"

section \<open>The agent\<close>

record prop_env =
  en_engine :: engine
  en_sqrt :: "rat \<Rightarrow> rat"
  en_ln :: "rat \<Rightarrow> rat"
  en_sha :: content_sha
  en_json :: "int \<times> nat \<times> rat \<times> rat \<times> bool \<Rightarrow> string"

record prop_report =
  rp_epoch :: int
  rp_depth :: nat
  rp_disagreement :: rat
  rp_ratio :: rat
  rp_cascade :: iss_cascade

definition role_ids :: "engine \<Rightarrow> string list" where
  "role_ids g = map ro_name (en_roles g)"

definition previous_state :: "engine \<Rightarrow> (int \<times> role_evidence list) option \<Rightarrow> flat \<times> int" where
  "previous_state g prev =
    (let D = length (en_dimensions g); n = length (en_roles g); zeros = replicate (n * (2 * D)) 0 in
     case prev of
       None \<Rightarrow> (zeros, 0)
     | Some (e, rs) \<Rightarrow> (if length rs = n then buildFlatState rs D else zeros, e + 1))"

definition perturbation_of :: "engine \<Rightarrow> (string \<times> rat) list option \<Rightarrow> flat" where
  "perturbation_of g scores =
     buildPerturbationFromPayload (buildEvidenceDeltas (en_roles g) (en_dimensions g) scores)
       (role_ids g) (length (en_dimensions g))"

definition publish_step :: "engine \<Rightarrow> role_evidence list \<Rightarrow> (world, unit) exec" where
  "publish_step g perRole =
    (let D = length (en_dimensions g);
         byRole = foldl (\<lambda>m r. let objs = evidence_objects (en_dimensions g) D r in
                     if objs = [] then m else map_set (pe_role r) objs m) [] perRole in
     if en_edges g = [] \<or> byRole = [] then ret ()
     else try_catch (publishEvidence byRole (allowedEvidenceEdges (en_edges g))) (\<lambda>_. ret ()))"

definition step_analysis ::
  "prop_env \<Rightarrow> history_row list \<Rightarrow> rat \<Rightarrow> iss_analysis" where
  "step_analysis env hist before =
     engine_analyzeISS (en_ln env) (en_engine env) (map hr_norm hist) (map hr_kappa hist)
       (case hist of [] \<Rightarrow> before | h # _ \<Rightarrow> hr_after h)"

definition step_metrics :: "engine \<Rightarrow> step_result \<Rightarrow> rat \<Rightarrow> rat \<Rightarrow> iss_analysis \<Rightarrow> propagation_metrics" where
  "step_metrics g st before after iss =
     \<lparr> pm_before = before, pm_after = after, pm_ratio = st_ratio st, pm_norm = st_norm st,
       pm_gap = Some (sp_gap (en_spectrum g)), pm_rho = Some (is_rho iss),
       pm_bound = Some (is_bound iss), pm_small_gain = Some (is_small_gain iss),
       pm_kappa = Some (is_kappa iss), pm_dirichlet_before = Some (st_dirichlet_before st),
       pm_dirichlet_after = Some (st_dirichlet_after st) \<rparr>"

definition audit_step ::
  "prop_env \<Rightarrow> string \<Rightarrow> int option \<Rightarrow> flat \<Rightarrow> int \<Rightarrow> step_result \<Rightarrow> (world, prop_report) exec" where
  "audit_step env scopeId burden x epoch st =
    (let g = en_engine env; before = getModeAwareDisagreement g x;
         after = getModeAwareDisagreement g (st_new st) in
     and_then (loadPropagationHistory scopeId 20)
       (\<lambda>hist.
          (let iss = step_analysis env hist before;
               cascade = computeISSCascadeResult None after iss burden;
               depth = length hist + 1 in
           and_then (savePropagationHistory scopeId epoch (step_metrics g st before after iss))
             (\<lambda>_. and_then (try_catch (external (\<lambda>w. (w, Inr ()))) (\<lambda>_. ret ()))
             (\<lambda>_. and_then (emitContribution (en_sha env) ''propagation-agent'' ''evidence''
                     (en_json env (epoch, depth, after, st_ratio st, ic_stable cascade)) None None scopeId [])
             (\<lambda>_. ret \<lparr> rp_epoch = epoch, rp_depth = depth, rp_disagreement = after,
                        rp_ratio = st_ratio st, rp_cascade = cascade \<rparr>))))))"

definition store_step :: "prop_env \<Rightarrow> string \<Rightarrow> int \<Rightarrow> step_result \<Rightarrow> (world, unit) exec" where
  "store_step env scopeId epoch st =
    (let g = en_engine env;
         perRole = flatToPerRole (st_new st) (role_ids g) (length (en_dimensions g)) in
     and_then (saveEvidenceStates scopeId epoch perRole) (\<lambda>_. publish_step g perRole))"

definition runPropagationAgent ::
  "prop_env \<Rightarrow> string \<Rightarrow> int option \<Rightarrow> (world, prop_report) exec" where
  "runPropagationAgent env scopeId burden =
     and_then (loadLatestEvidenceStates scopeId)
       (\<lambda>prev. case previous_state (en_engine env) prev of (x, epoch) \<Rightarrow>
          and_then (latest_dimension_scores scopeId)
            (\<lambda>scores.
               case engine_step (en_sqrt env) (en_engine env) x (perturbation_of (en_engine env) scores) of
                 None \<Rightarrow> raise (JsError ''propagation step panicked'')
               | Some st \<Rightarrow>
                   and_then (store_step env scopeId epoch st)
                     (\<lambda>_. audit_step env scopeId burden x epoch st)))"

end
