(* ===== verification/Evidence_Safety.thy ===== *)
theory Evidence_Safety
  imports Evidence_State Effect_Logs
begin

text \<open>
  What the evidence layer keeps and what it loses: the round trip between flat vectors and roles,
  the box that every stored value lies in, the totals the diffusion conserves, the roles that
  trade places on reload, the contradiction rate that stays zero and the history that stops moving.
\<close>

section \<open>Round trips\<close>

definition role_sized :: "nat \<Rightarrow> role_evidence \<Rightarrow> bool" where
  "role_sized D r = (length (pe_support r) = D \<and> length (pe_refutation r) = D)"

lemma padded_id: "length xs = n \<Longrightarrow> padded n xs = xs"
  by (rule nth_equalityI) (simp_all add: padded_def)

lemma padded_length [simp]: "length (padded n xs) = n"
  by (simp add: padded_def)

lemma flat_length: "length (buildFlatState rs D) = length rs * (2 * D)"
  by (induction rs) (simp_all add: buildFlatState_def)

lemma flat_Cons: "buildFlatState (r # rs) D = padded D (pe_support r) @ padded D (pe_refutation r) @ buildFlatState rs D"
  by (simp add: buildFlatState_def)

lemma flatToPerRole_Cons:
  "flatToPerRole x (i # ids) D =
     \<lparr> pe_role = i, pe_support = take D x, pe_refutation = take D (drop D x) \<rparr>
     # flatToPerRole (drop (2 * D) x) ids D"
proof -
  have "zip (i # ids) [0..<length (i # ids)] = (i, 0) # map (\<lambda>(a, k). (a, Suc k)) (zip ids [0..<length ids])"
    by (rule nth_equalityI) (auto simp: nth_Cons' simp del: upt_Suc)
  then show ?thesis
    by (simp add: flatToPerRole_def case_prod_beta' comp_def add.commute algebra_simps)
qed

lemma flatToPerRole_Nil [simp]: "flatToPerRole x [] D = []"
  by (simp add: flatToPerRole_def)

lemma flatToPerRole_length [simp]: "length (flatToPerRole x ids D) = length ids"
  by (simp add: flatToPerRole_def)

lemma flatToPerRole_roles [simp]: "map pe_role (flatToPerRole x ids D) = ids"
  by (rule nth_equalityI) (simp_all add: flatToPerRole_def)

lemma per_role_of_flat:
  "list_all (role_sized D) rs \<Longrightarrow> flatToPerRole (buildFlatState rs D) (map pe_role rs) D = rs"
proof (induction rs)
  case (Cons r rs)
  then have "length (pe_support r) = D" "length (pe_refutation r) = D" by (simp_all add: role_sized_def)
  then show ?case using Cons by (simp add: flatToPerRole_Cons flat_Cons padded_id)
qed simp

lemma flat_of_per_role:
  "length x = length ids * (2 * D) \<Longrightarrow> buildFlatState (flatToPerRole x ids D) D = x"
proof (induction ids arbitrary: x)
  case Nil
  then show ?case by (simp add: buildFlatState_def)
next
  case (Cons i ids)
  then have "length (take D x) = D" "length (take D (drop D x)) = D"
    "length (drop (2 * D) x) = length ids * (2 * D)" by simp_all
  moreover have "take D x @ take D (drop D x) @ drop (2 * D) x = x"
    by (metis append_take_drop_id drop_drop mult_2)
  ultimately show ?case using Cons.IH[of "drop (2 * D) x"]
    by (simp add: flatToPerRole_Cons flat_Cons padded_id)
qed

text \<open>
  The flat vector and the per-role evidence carry the same information: building the vector
  and reading it back gives the same roles, and reading and building gives the same vector.
\<close>

theorem evidence_round_trip:
  "(list_all (role_sized D) rs \<longrightarrow> flatToPerRole (buildFlatState rs D) (map pe_role rs) D = rs)
   \<and> (length x = length ids * (2 * D) \<longrightarrow> buildFlatState (flatToPerRole x ids D) D = x)"
  by (simp add: per_role_of_flat flat_of_per_role)


section \<open>Effects of a run\<close>

lemma logs_insert_evidence:
  "logs w_evidence [evidence_row_of sc e r] (insert_evidence sc e r)"
proof -
  have "\<exists>k. w_evidence (fst (insert_evidence sc e r w)) = w_evidence w @ take k [evidence_row_of sc e r]
      \<and> ((\<exists>x. snd (insert_evidence sc e r w) = Inr x) \<longrightarrow> length [evidence_row_of sc e r] \<le> k)" for w
    by (cases "w_faults w (w_tick w)")
      (auto simp: insert_evidence_def external_def intro: exI[of _ 0] exI[of _ 1])
  then show ?thesis by (simp add: logs_def)
qed

lemma logs_save_evidence:
  "logs w_evidence (map (evidence_row_of sc e) rs) (saveEvidenceStates sc e rs)"
proof (induction rs)
  case Nil
  show ?case unfolding saveEvidenceStates_def list.map by (rule logs_in_order_Nil)
next
  case (Cons r rs)
  have "logs w_evidence ([evidence_row_of sc e r] @ map (evidence_row_of sc e) rs)
      (in_order (insert_evidence sc e r # map (insert_evidence sc e) rs))"
    by (rule logs_in_order_Cons[OF logs_insert_evidence Cons[unfolded saveEvidenceStates_def]])
  then show ?case by (simp only: saveEvidenceStates_def list.map append.simps)
qed

lemma keeps_insert_evidence:
  "(\<And>w. f (tick w) = f w) \<Longrightarrow> (\<And>w l. f (w \<lparr> w_evidence := l \<rparr>) = f w) \<Longrightarrow> keeps f (insert_evidence sc e r)"
  by (simp add: insert_evidence_def keeps_def external_def)

lemma keeps_save_evidence:
  "(\<And>w. f (tick w) = f w) \<Longrightarrow> (\<And>w l. f (w \<lparr> w_evidence := l \<rparr>) = f w) \<Longrightarrow>
   keeps f (saveEvidenceStates sc e rs)"
  unfolding saveEvidenceStates_def
  by (intro keeps_in_order) (simp add: list_all_iff keeps_insert_evidence)

lemma keeps_query: "(\<And>w. f (tick w) = f w) \<Longrightarrow> keeps f (external (\<lambda>w. (w, Inr (q w))))"
  by (simp add: keeps_def external_def)

lemma keeps_load_evidence: "(\<And>w. f (tick w) = f w) \<Longrightarrow> keeps f (loadLatestEvidenceStates sc)"
  unfolding loadLatestEvidenceStates_def
  by (intro keeps_and_then keeps_case_option keeps_query keeps_ret)

lemma keeps_publish_step:
  "(\<And>w. f (tick w) = f w) \<Longrightarrow> (\<And>w l. f (w \<lparr> w_bus := l \<rparr>) = f w) \<Longrightarrow> keeps f (publish_step g rs)"
proof -
  assume f: "\<And>w. f (tick w) = f w" "\<And>w l. f (w \<lparr> w_bus := l \<rparr>) = f w"
  have "keeps f (publishEvidence byRole edges)" for byRole edges
    unfolding publishEvidence_def Let_def
    by (intro keeps_and_then keeps_if keeps_query keeps_ret keeps_in_order)
      (auto simp: f list_all_iff intro!: keeps_publish split: if_splits)
  then show ?thesis by (simp add: publish_step_def Let_def keeps_try_catch)
qed

lemma keeps_emit:
  assumes "\<And>w. f (tick w) = f w" "\<And>w l. f (w \<lparr> w_causal := l \<rparr>) = f w"
  shows "keeps f (emitContribution sha roleId kind payload tier mode sc ps)"
proof -
  have i: "keeps f (insert_contribution rid inp)" for rid inp
    by (simp add: insert_contribution_def keeps_def external_def assms)
  have k: "keeps f (getKnownRids s p)" for s p
    by (simp add: getKnownRids_def keeps_def external_def assms)
  have c: "keeps f (check_parents sha rid inp)" for rid inp
    unfolding check_parents_def Let_def by (intro keeps_if keeps_and_then keeps_ret keeps_raise k)
  have "keeps f (createContribution sha inp)" for inp
    unfolding createContribution_def Let_def by (intro keeps_if keeps_and_then keeps_ret keeps_raise c i)
  moreover have "keeps f (emit_parents sc ps)"
    unfolding emit_parents_def getFrontier_def
    by (intro keeps_if keeps_try_catch keeps_ret keeps_query assms)
  ultimately show ?thesis unfolding emitContribution_def
    by (intro keeps_try_catch keeps_and_then keeps_ret)
qed

definition audit_row :: "prop_env \<Rightarrow> string \<Rightarrow> flat \<Rightarrow> int \<Rightarrow> step_result \<Rightarrow> propagation_row list \<Rightarrow> propagation_row" where
  "audit_row env sc x epoch st rows =
    (let g = en_engine env; before = getModeAwareDisagreement g x in
     \<lparr> ph_scope = sc, ph_epoch = epoch,
       ph_metrics = step_metrics g st before (getModeAwareDisagreement g (st_new st))
          (step_analysis env (history_rows sc 20 rows) before) \<rparr>)"

lemma audit_step_rows:
  assumes "audit_step env sc burden x epoch st w = (w', r)"
  shows "w_propagation w' = w_propagation w
    \<or> w_propagation w' = w_propagation w @ [audit_row env sc x epoch st (w_propagation w)]"
proof (cases "w_faults w (w_tick w)")
  case True
  then show ?thesis using assms
    by (simp add: audit_step_def and_then_def loadPropagationHistory_def external_def Let_def)
      (auto simp: io_error_def)
next
  case ok: False
  let ?hist = "history_rows sc 20 (w_propagation w)"
  let ?g = "en_engine env"
  let ?before = "getModeAwareDisagreement ?g x" and ?after = "getModeAwareDisagreement ?g (st_new st)"
  let ?iss = "step_analysis env ?hist ?before"
  let ?save = "savePropagationHistory sc epoch (step_metrics ?g st ?before ?after ?iss)"
  have hist: "loadPropagationHistory sc 20 w = (tick w, Inr ?hist)"
    using ok by (simp add: loadPropagationHistory_def external_def)
  obtain rest where run: "audit_step env sc burden x epoch st w = and_then ?save (\<lambda>_. rest) (tick w)"
    and rest: "keeps w_propagation rest"
  proof -
    let ?cascade = "computeISSCascadeResult None ?after ?iss burden"
    let ?rest = "and_then (try_catch (external (\<lambda>w. (w, Inr ()))) (\<lambda>_. ret ()))
             (\<lambda>_. and_then (emitContribution (en_sha env) ''propagation-agent'' ''evidence''
                     (en_json env (epoch, length ?hist + 1, ?after, st_ratio st, ic_stable ?cascade)) None None sc [])
             (\<lambda>_. ret \<lparr> rp_epoch = epoch, rp_depth = length ?hist + 1, rp_disagreement = ?after,
                        rp_ratio = st_ratio st, rp_cascade = ?cascade \<rparr>))"
    have "keeps w_propagation ?rest"
      by (intro keeps_and_then keeps_try_catch keeps_query keeps_ret keeps_emit) simp_all
    moreover have "audit_step env sc burden x epoch st w = and_then ?save (\<lambda>_. ?rest) (tick w)"
      by (simp only: audit_step_def Let_def
          and_then_ok[of "loadPropagationHistory sc 20" w "tick w" ?hist, OF hist])
    ultimately show ?thesis using that by blast
  qed
  obtain w1 r1 where s: "?save (tick w) = (w1, r1)" by fastforce
  have w1: "w_propagation w1 = w_propagation w
     \<or> (w_propagation w1 = w_propagation w @ [audit_row env sc x epoch st (w_propagation w)] \<and> r1 = Inr ())"
    using s by (auto simp: savePropagationHistory_def external_def audit_row_def Let_def split: if_splits)
  show ?thesis
  proof (cases r1)
    case (Inl e)
    then show ?thesis using assms run s w1 by (auto simp: and_then_def)
  next
    case (Inr u)
    then have "rest w1 = (w', r)" using assms run s by (simp add: and_then_def)
    then show ?thesis using keepsD[OF rest] w1 by auto
  qed
qed

lemma keeps_evidence_audit: "keeps w_evidence (audit_step env sc burden x epoch st)"
  unfolding audit_step_def loadPropagationHistory_def savePropagationHistory_def Let_def
  by (intro keeps_and_then keeps_query keeps_try_catch keeps_ret keeps_emit)
    (simp_all add: keeps_def external_def)

lemma keeps_propagation_store: "keeps w_propagation (store_step env sc epoch st)"
  unfolding store_step_def Let_def
  by (intro keeps_and_then keeps_save_evidence keeps_publish_step) simp_all

text \<open>One run: which step it took and what it left in the two tables.\<close>

definition run_step :: "prop_env \<Rightarrow> string \<Rightarrow> world \<Rightarrow> flat \<Rightarrow> int \<Rightarrow> step_result \<Rightarrow> bool" where
  "run_step env sc w x epoch st =
    (\<exists>prev scores. previous_state (en_engine env) prev = (x, epoch)
       \<and> engine_step (en_sqrt env) (en_engine env) x (perturbation_of (en_engine env) scores) = Some st)"

lemma run_cases:
  assumes "runPropagationAgent env sc burden w = (w', r)"
  shows "(w_evidence w' = w_evidence w \<and> w_propagation w' = w_propagation w)
    \<or> (\<exists>x epoch st k. run_step env sc w x epoch st
        \<and> w_evidence w' = w_evidence w @ take k (map (evidence_row_of sc epoch)
             (flatToPerRole (st_new st) (role_ids (en_engine env)) (length (en_dimensions (en_engine env)))))
        \<and> (w_propagation w' = w_propagation w
           \<or> w_propagation w' = w_propagation w @ [audit_row env sc x epoch st (w_propagation w)]))"
proof -
  let ?g = "en_engine env"
  obtain w1 r1 where l: "loadLatestEvidenceStates sc w = (w1, r1)" by fastforce
  have k1: "w_evidence w1 = w_evidence w" "w_propagation w1 = w_propagation w"
    using keepsD[OF keeps_load_evidence[of w_evidence] l] keepsD[OF keeps_load_evidence[of w_propagation] l]
    by simp_all
  show ?thesis
  proof (cases r1)
    case (Inl e)
    then show ?thesis using assms l k1 by (auto simp: runPropagationAgent_def and_then_def)
  next
    case (Inr prev)
    obtain x epoch where p: "previous_state ?g prev = (x, epoch)" by fastforce
    obtain w2 r2 where s: "latest_dimension_scores sc w1 = (w2, r2)" by fastforce
    have k2: "w_evidence w2 = w_evidence w" "w_propagation w2 = w_propagation w"
      using s k1 by (auto simp: latest_dimension_scores_def external_def split: if_splits)
    show ?thesis
    proof (cases r2)
      case (Inl e)
      then show ?thesis using assms l Inr p s k2 by (auto simp: runPropagationAgent_def and_then_def)
    next
      case scores: (Inr scores)
      show ?thesis
      proof (cases "engine_step (en_sqrt env) ?g x (perturbation_of ?g scores)")
        case None
        then show ?thesis using assms l Inr p s scores k2
          by (auto simp: runPropagationAgent_def and_then_def)
      next
        case (Some st)
        have rs: "run_step env sc w x epoch st" using p Some by (auto simp: run_step_def)
        let ?rows = "flatToPerRole (st_new st) (role_ids ?g) (length (en_dimensions ?g))"
        obtain w3 r3 where t: "store_step env sc epoch st w2 = (w3, r3)" by fastforce
        have p3: "w_propagation w3 = w_propagation w" using keepsD[OF keeps_propagation_store t] k2 by simp
        have lg: "logs w_evidence (map (evidence_row_of sc epoch) ?rows @ []) (store_step env sc epoch st)"
          unfolding store_step_def Let_def
          by (intro logs_and_then logs_save_evidence logs_keeps keeps_publish_step) simp_all
        then obtain k where e3: "w_evidence w3 = w_evidence w @ take k (map (evidence_row_of sc epoch) ?rows)"
          using logsD[OF lg t] k2 by auto
        show ?thesis
        proof (cases r3)
          case (Inl e)
          then have "w' = w3" using assms l Inr p s scores Some t
            by (auto simp: runPropagationAgent_def and_then_def)
          then show ?thesis using rs e3 p3 by blast
        next
          case r3: (Inr u)
          then have a: "audit_step env sc burden x epoch st w3 = (w', r)"
            using assms l Inr p s scores Some t by (simp add: runPropagationAgent_def and_then_def)
          have "w_evidence w' = w_evidence w3" by (rule keepsD[OF keeps_evidence_audit a])
          then show ?thesis using rs e3 audit_step_rows[OF a] p3 by auto
        qed
      qed
    qed
  qed
qed


section \<open>The unit box\<close>

definition in_unit :: "rat \<Rightarrow> bool" where
  "in_unit x = (0 \<le> x \<and> x \<le> 1)"

definition unit_row :: "evidence_row \<Rightarrow> bool" where
  "unit_row r = (list_all in_unit (ev_support r) \<and> list_all in_unit (ev_refutation r))"

definition unit_engine :: "engine \<Rightarrow> bool" where
  "unit_engine g = (en_projection g \<or> usesTopologyBridge g
     \<or> (en_support g = (0, 1) \<and> en_refutation g = (0, 1)))"

lemma unit_ranges: "unit_engine g \<Longrightarrow> c < 2 * num_dims g \<Longrightarrow>
   channel_range (num_dims g) (fst (engine_ranges g)) (snd (engine_ranges g)) c = (0, 1)"
  by (auto simp: unit_engine_def engine_ranges_def channel_range_def Let_def)

lemma step_in_unit:
  assumes "unit_engine g" "engine_step sq g x eps = Some st"
  shows "list_all in_unit (st_new st)"
proof -
  have "st_new st = project (num_roles g) (num_dims g) (fst (engine_ranges g)) (snd (engine_ranges g))
      (map2 (+) (diffuse (engine_sheaf g) (getAlpha g) x) eps)"
    using assms(2) by (auto simp: engine_step_def propagation_step_def engine_sheaf_def Let_def split: if_splits)
  moreover have "in_unit (clamp (0, 1) y)" for y by (simp add: in_unit_def clamp_def)
  ultimately show ?thesis using unit_ranges[OF assms(1)]
    by (auto simp: list_all_iff project_def)
qed

lemma per_role_in_unit:
  "list_all in_unit x \<Longrightarrow> r \<in> set (flatToPerRole x ids D) \<Longrightarrow> unit_row (evidence_row_of sc e r)"
  by (auto simp: flatToPerRole_def unit_row_def evidence_row_of_def list_all_iff
      dest!: in_set_takeD in_set_dropD)

lemma run_keeps_unit:
  assumes "unit_engine (en_engine env)" "list_all unit_row (w_evidence w)"
  shows "list_all unit_row (w_evidence (fst (runPropagationAgent env sc burden w)))"
proof -
  let ?w' = "fst (runPropagationAgent env sc burden w)"
  have "w_evidence ?w' = w_evidence w \<or> (\<exists>x epoch st k. run_step env sc w x epoch st
     \<and> w_evidence ?w' = w_evidence w @ take k (map (evidence_row_of sc epoch)
          (flatToPerRole (st_new st) (role_ids (en_engine env)) (length (en_dimensions (en_engine env))))))"
    using run_cases[OF prod.collapse[symmetric], of env sc burden w] by blast
  then show ?thesis
  proof (elim disjE exE conjE)
    fix x epoch st k
    assume st: "run_step env sc w x epoch st"
      and e: "w_evidence ?w' = w_evidence w @ take k (map (evidence_row_of sc epoch)
          (flatToPerRole (st_new st) (role_ids (en_engine env)) (length (en_dimensions (en_engine env)))))"
    have "list_all in_unit (st_new st)" using st step_in_unit[OF assms(1)] by (auto simp: run_step_def)
    then show ?thesis using assms(2) per_role_in_unit by (auto simp: e list_all_iff dest!: in_set_takeD)
  qed (use assms in simp)
qed

type_synonym agent_run = "prop_env \<times> string \<times> int option"

definition agent_run :: "agent_run \<Rightarrow> world \<Rightarrow> world" where
  "agent_run a w = (case a of (env, sc, burden) \<Rightarrow> fst (runPropagationAgent env sc burden w))"


section \<open>The contradiction rate\<close>

definition kappa_zero :: "propagation_row \<Rightarrow> bool" where
  "kappa_zero r = (pm_kappa (ph_metrics r) = Some 0
     \<and> pm_small_gain (ph_metrics r) = Some (coalesce (pm_rho (ph_metrics r)) 0 ^ 2 < 1))"

lemma mean_of_zeros: "(\<And>x. x \<in> set xs \<Longrightarrow> x = 0) \<Longrightarrow> mean_of xs = 0"
proof -
  assume z: "\<And>x. x \<in> set xs \<Longrightarrow> x = 0"
  then have "sum_list xs = 0" by (induction xs) auto
  then show ?thesis by (simp add: mean_of_def)
qed

lemma audit_kappa_zero:
  assumes "list_all kappa_zero rows"
  shows "kappa_zero (audit_row env sc x epoch st rows)"
proof -
  have "hr_kappa h = 0" if "h \<in> set (history_rows sc 20 rows)" for h
    using that assms
    by (auto simp: history_rows_def history_of_def list_all_iff kappa_zero_def Let_def dest!: in_set_takeD)
  then have "mean_of (map hr_kappa (history_rows sc 20 rows)) = 0" by (intro mean_of_zeros) auto
  then show ?thesis
    by (simp add: audit_row_def kappa_zero_def step_metrics_def step_analysis_def engine_analyzeISS_def
        analyze_iss_def Let_def power2_eq_square)
qed

text \<open>
  The contradiction rate is never measured. The agent averages the rates of its own earlier
  rows and stores the average as the next rate: from an empty table it is zero for ever, after any
  runs, in every scope and with any failing calls, so the stored small-gain verdict says no more
  than that the diffusion contracts.
\<close>

theorem contradiction_rate_stays_zero:
  assumes "w_propagation w = []"
  shows "list_all kappa_zero (w_propagation (fold agent_run runs w))"
proof -
  have "list_all kappa_zero (w_propagation v) \<Longrightarrow> list_all kappa_zero (w_propagation (fold agent_run rs v))" for rs v
  proof (induction rs arbitrary: v)
    case (Cons a rs)
    obtain env sc b where a: "a = (env, sc, b)" using prod_cases3 by blast
    have "list_all kappa_zero (w_propagation (agent_run a v))"
      using run_cases[OF prod.collapse[symmetric], of env sc b v] Cons.prems audit_kappa_zero
      by (auto simp: a agent_run_def)
    then show ?case using Cons.IH by simp
  qed simp
  then show ?thesis using assms by simp
qed

section \<open>The history\<close>

lemma insort_key_snoc: "f a \<le> f x \<Longrightarrow> insort_key f a (ys @ [x]) = insort_key f a ys @ [x]"
  by (induction ys) auto

lemma sort_key_snoc:
  "(\<And>y. y \<in> set xs \<Longrightarrow> f y \<le> f x) \<Longrightarrow> sort_key f (xs @ [x]) = sort_key f xs @ [x]"
  by (induction xs) (simp_all add: insort_key_snoc)

text \<open>
  The window does not move. Once a scope has as many rows as the window holds, a row of a
  later epoch changes nothing in what is loaded as its recent history: the stability analysis of
  the finality check and of the agent sees the first rows of the scope for ever.
\<close>

theorem history_window_frozen:
  assumes "limit \<le> length (filter (\<lambda>r. ph_scope r = sc) rows)"
    and "\<And>r. r \<in> set rows \<Longrightarrow> ph_scope r = sc \<Longrightarrow> ph_epoch r \<le> ph_epoch new"
  shows "history_rows sc limit (rows @ [new]) = history_rows sc limit rows"
proof (cases "ph_scope new = sc")
  case True
  have "sort_key ph_epoch (filter (\<lambda>r. ph_scope r = sc) rows @ [new])
      = sort_key ph_epoch (filter (\<lambda>r. ph_scope r = sc) rows) @ [new]"
    by (rule sort_key_snoc) (use assms(2) in auto)
  then show ?thesis using True assms(1) by (simp add: history_rows_def)
qed (simp add: history_rows_def)

definition window_row :: "int \<Rightarrow> rat \<Rightarrow> propagation_row" where
  "window_row e noise = \<lparr> ph_scope = ''s'', ph_epoch = e, ph_metrics =
     \<lparr> pm_before = 0, pm_after = 0, pm_ratio = 0, pm_norm = noise, pm_gap = None, pm_rho = None,
       pm_bound = None, pm_small_gain = None, pm_kappa = None, pm_dirichlet_before = None,
       pm_dirichlet_after = None \<rparr> \<rparr>"

text \<open>A burst of noise in the third epoch is invisible to a window of two.\<close>

theorem history_window_frozen_witness:
  "map hr_norm (history_rows ''s'' 2 [window_row 0 0, window_row 1 0, window_row 2 5]) = [0, 0]"
proof -
  have "history_rows ''s'' 2 ([window_row 0 0, window_row 1 0] @ [window_row 2 5])
      = history_rows ''s'' 2 [window_row 0 0, window_row 1 0]"
    by (rule history_window_frozen) (auto simp: window_row_def)
  then show ?thesis by (simp add: history_rows_def window_row_def history_of_def Let_def)
qed

section \<open>Reload\<close>

lemma max_epoch_new:
  assumes "\<forall>r \<in> set rows. ev_scope r = sc \<longrightarrow> ev_epoch r < e" "rs \<noteq> []"
  shows "max_epoch sc (rows @ map (evidence_row_of sc e) rs) = Some e"
proof -
  have m: "foldr max es (k::int) = Max (set (k # es))" for es k
    by (induction es) (simp_all add: insert_commute max.commute flip: Max_insert)
  let ?es = "map ev_epoch (filter (\<lambda>r. ev_scope r = sc) (rows @ map (evidence_row_of sc e) rs))"
  have ne: "e \<in> set ?es" using assms(2) by (cases rs) (auto simp: evidence_row_of_def)
  have le: "\<forall>k \<in> set ?es. k \<le> e" using assms(1) by (auto simp: evidence_row_of_def dest: less_imp_le)
  have "?es \<noteq> []" using ne by (metis empty_iff list.set(1))
  then obtain k es where es: "?es = k # es" using list.exhaust by blast
  have "Max (set ?es) = e"
  proof (rule Max_eqI)
    show "y \<le> e" if "y \<in> set ?es" for y using le that by blast
  qed (rule finite_set, rule ne)
  then have "Max (set (k # es)) = e" by (simp only: es)
  then show ?thesis unfolding max_epoch_def es by (simp only: list.case m)
qed

lemma role_of_evidence_row [simp]: "role_of_row (evidence_row_of sc e r) = r"
  by (simp add: role_of_row_def evidence_row_of_def)

lemma rows_at_new:
  assumes "\<forall>r \<in> set rows. ev_scope r = sc \<longrightarrow> ev_epoch r < e"
  shows "rows_at sc e (rows @ map (evidence_row_of sc e) rs) = sort_key pe_role rs"
proof -
  have "filter (\<lambda>r. ev_scope r = sc \<and> ev_epoch r = e) rows = []" using assms by (auto simp: filter_empty_conv)
  moreover have "filter (\<lambda>r. ev_scope r = sc \<and> ev_epoch r = e) (map (evidence_row_of sc e) rs)
      = map (evidence_row_of sc e) rs"
    by (simp add: filter_map comp_def evidence_row_of_def)
  ultimately show ?thesis by (simp add: rows_at_def comp_def)
qed

lemma load_after_save:
  assumes old: "\<forall>r \<in> set (w_evidence w). ev_scope r = sc \<longrightarrow> ev_epoch r < e"
    and w1: "w_evidence w1 = w_evidence w @ map (evidence_row_of sc e) rs" "rs \<noteq> []"
    and l: "loadLatestEvidenceStates sc w1 = (w2, Inr loaded)"
  shows "loaded = Some (e, sort_key pe_role rs)"
proof -
  have m: "max_epoch sc (w_evidence w1) = Some e" using max_epoch_new[OF old w1(2)] w1(1) by simp
  have "rows_at sc e (w_evidence w1) = sort_key pe_role rs" using rows_at_new[OF old] w1(1) by simp
  moreover have "sort_key pe_role rs \<noteq> []" using w1(2) by (metis length_0_conv length_sort)
  ultimately show ?thesis using l m
    by (auto simp: loadLatestEvidenceStates_def and_then_def external_def split: if_splits list.splits)
qed

lemma distinct_map_sort_roles:
  "distinct ids \<Longrightarrow> distinct (map pe_role (sort_key pe_role (flatToPerRole x ids D)))"
proof -
  assume "distinct ids"
  then have "distinct (map pe_role (flatToPerRole x ids D))" by simp
  then show ?thesis by (simp add: distinct_map del: flatToPerRole_roles)
qed

lemma stalk_of_flat:
  "i < length rs \<Longrightarrow> c < 2 * D \<Longrightarrow>
   stalk_at D (buildFlatState rs D) i c = (padded D (pe_support (rs ! i)) @ padded D (pe_refutation (rs ! i))) ! c"
proof (induction rs arbitrary: i)
  case (Cons r rs)
  show ?case
  proof (cases i)
    case 0
    let ?a = "padded D (pe_support r) @ padded D (pe_refutation r)"
    have "buildFlatState (r # rs) D = ?a @ buildFlatState rs D" by (simp add: flat_Cons)
    then have "stalk_at D (buildFlatState (r # rs) D) i c = (?a @ buildFlatState rs D) ! c"
      by (simp only: stalk_at_def 0 mult_0 add_0)
    also have "\<dots> = ?a ! c" using Cons.prems by (subst nth_append_left) simp_all
    finally show ?thesis by (simp add: 0)
  next
    case (Suc j)
    have "stalk_at D (buildFlatState (r # rs) D) i c = stalk_at D (buildFlatState rs D) j c"
      by (simp add: stalk_at_def flat_Cons nth_append Suc)
    then show ?thesis using Cons Suc by simp
  qed
qed simp

text \<open>
  Evidence changes its owner on reload. The rows of an epoch come back ordered by the name of
  the role, but the vector they are put into is read in the order of the configuration: slot \<open>i\<close> of
  the reloaded vector holds what was stored for the role that is alphabetically the \<open>i\<close>-th.
\<close>

theorem evidence_changes_owner:
  assumes "saveEvidenceStates sc e (flatToPerRole x ids D) w = (w1, Inr ())"
    and "\<forall>r \<in> set (w_evidence w). ev_scope r = sc \<longrightarrow> ev_epoch r < e"
    and "loadLatestEvidenceStates sc w1 = (w2, Inr loaded)"
    and "distinct ids" "length x = length ids * (2 * D)"
    and "i < length ids" "j < length ids" "ids ! j = sort ids ! i" "c < 2 * D"
  shows "\<exists>rs. loaded = Some (e, rs) \<and> stalk_at D (buildFlatState rs D) i c = stalk_at D x j c"
proof -
  let ?rs = "flatToPerRole x ids D"
  have ne: "?rs \<noteq> []" using assms(6) by (metis flatToPerRole_length length_0_conv less_zeroE)
  have w1: "w_evidence w1 = w_evidence w @ map (evidence_row_of sc e) ?rs"
    by (rule logs_complete[OF logs_save_evidence assms(1)])
  have l: "loaded = Some (e, sort_key pe_role ?rs)" by (rule load_after_save[OF assms(2) w1 ne assms(3)])
  have roles_set: "pe_role ` set ?rs = set ids" by (metis flatToPerRole_roles set_map)
  have "map pe_role (sort_key pe_role ?rs) = sort ids"
    by (rule sorted_distinct_set_unique)
      (use assms(4) roles_set in \<open>simp_all add: distinct_map_sort_roles\<close>)
  then have si: "pe_role (sort_key pe_role ?rs ! i) = ids ! j"
    using assms(6,8) by (metis flatToPerRole_length length_sort nth_map)
  have "sort_key pe_role ?rs ! i \<in> set ?rs" using assms(6) by (metis flatToPerRole_length length_sort nth_mem set_sort)
  then obtain k where k: "k < length ids" "sort_key pe_role ?rs ! i = ?rs ! k" by (metis flatToPerRole_length in_set_conv_nth)
  have "pe_role (?rs ! k) = ids ! k" using k(1) flatToPerRole_roles[of x ids D] by (metis flatToPerRole_length nth_map)
  then have "k = j" using si k assms(4,7) by (simp add: nth_eq_iff_index_eq)
  then have "stalk_at D (buildFlatState (sort_key pe_role ?rs) D) i c = stalk_at D (buildFlatState ?rs D) j c"
    using k assms(6,7,9) by (simp add: stalk_of_flat)
  then show ?thesis using l flat_of_per_role[OF assms(5)] by simp
qed


text \<open>The seven roles as configured: the slot of \<open>facts\<close> is reloaded with the evidence of
  \<open>drift\<close>. One dimension, and values that name the position they were stored at.\<close>

definition shipped_roles :: "string list" where
  "shipped_roles = [''facts'', ''drift'', ''resolver'', ''planner'', ''status'', ''governance'', ''tuner'']"

lemma sorted_shipped: "sort shipped_roles ! 0 = ''drift''"
  by code_simp

definition shipped_state :: flat where
  "shipped_state = map of_nat [0..<14]"

lemma save_succeeds:
  "faultless w \<Longrightarrow> \<exists>w1. saveEvidenceStates sc e rs w = (w1, Inr ()) \<and> faultless w1"
proof (induction rs arbitrary: w)
  case (Cons r rs)
  have i: "insert_evidence sc e r w = (tick w \<lparr> w_evidence := w_evidence w @ [evidence_row_of sc e r] \<rparr>, Inr ())"
    using Cons.prems by (simp add: insert_evidence_def external_def faultless_def)
  then show ?case using Cons.IH[of "tick w \<lparr> w_evidence := w_evidence w @ [evidence_row_of sc e r] \<rparr>"] Cons.prems
    by (simp add: saveEvidenceStates_def faultless_def)
qed (simp add: saveEvidenceStates_def)

lemma load_succeeds: "faultless w \<Longrightarrow> \<exists>w2 l. loadLatestEvidenceStates sc w = (w2, Inr l)"
  by (cases "max_epoch sc (w_evidence w)")
    (auto simp: loadLatestEvidenceStates_def and_then_def external_def faultless_def)

theorem evidence_changes_owner_witness:
  "\<exists>w1 w2 rs. saveEvidenceStates ''s'' 0 (flatToPerRole shipped_state shipped_roles 1) empty_world = (w1, Inr ())
     \<and> loadLatestEvidenceStates ''s'' w1 = (w2, Inr (Some (0, rs)))
     \<and> shipped_roles ! 0 = ''facts'' \<and> shipped_roles ! 1 = ''drift''
     \<and> stalk_at 1 (buildFlatState rs 1) 0 0 = stalk_at 1 shipped_state 1 0
     \<and> stalk_at 1 shipped_state 0 0 \<noteq> stalk_at 1 shipped_state 1 0"
proof -
  have f: "faultless empty_world" by (simp add: faultless_def empty_world_def)
  obtain w1 where w1: "saveEvidenceStates ''s'' 0 (flatToPerRole shipped_state shipped_roles 1) empty_world = (w1, Inr ())"
    "faultless w1" using save_succeeds[OF f] by blast
  obtain w2 l where w2: "loadLatestEvidenceStates ''s'' w1 = (w2, Inr l)" using load_succeeds[OF w1(2)] by blast
  have h: "\<forall>r \<in> set (w_evidence empty_world). ev_scope r = ''s'' \<longrightarrow> ev_epoch r < 0" "distinct shipped_roles"
    "length shipped_state = length shipped_roles * (2 * 1)" "0 < length shipped_roles" "1 < length shipped_roles"
    "shipped_roles ! 1 = sort shipped_roles ! 0" "(0::nat) < 2 * 1"
    using sorted_shipped by (simp_all add: empty_world_def shipped_state_def shipped_roles_def)
  obtain rs where "l = Some (0, rs)" "stalk_at 1 (buildFlatState rs 1) 0 0 = stalk_at 1 shipped_state 1 0"
    using evidence_changes_owner[OF w1(1) h(1) w2 h(2-7)] by blast
  moreover have "stalk_at 1 shipped_state 0 0 \<noteq> stalk_at 1 shipped_state 1 0"
    by (simp add: stalk_at_def shipped_state_def)
  ultimately show ?thesis using w1(1) w2 by (auto simp: shipped_roles_def)
qed

text \<open>
  A partly saved epoch forgets everything. When the save of an epoch fails after at least one
  of its rows, the next run finds the wrong number of roles and starts from the zero vector.
\<close>

theorem partial_save_forgets:
  assumes "saveEvidenceStates sc e rs w = (w1, Inl er)" and "w_evidence w1 \<noteq> w_evidence w"
    and "\<forall>r \<in> set (w_evidence w). ev_scope r = sc \<longrightarrow> ev_epoch r < e"
    and "length rs = length (en_roles g)"
    and "loadLatestEvidenceStates sc w1 = (w2, Inr loaded)"
  shows "previous_state g loaded
    = (replicate (length (en_roles g) * (2 * length (en_dimensions g))) 0, e + 1)"
proof -
  obtain k where k: "w_evidence w1 = w_evidence w @ map (evidence_row_of sc e) (take k rs)"
    using logsD[OF logs_save_evidence assms(1)] by (auto simp: take_map)
  have "k < length rs"
  proof (rule ccontr)
    assume "\<not> k < length rs"
    then have full: "w_evidence w1 = w_evidence w @ map (evidence_row_of sc e) rs" using k by simp
    have "saveEvidenceStates sc e rs w = (w1, Inl er) \<Longrightarrow>
        length (w_evidence w1) < length (w_evidence w) + length rs" for rs w
    proof (induction rs arbitrary: w)
      case (Cons r rs)
      then show ?case
        by (cases "w_faults w (w_tick w)")
          (force simp: saveEvidenceStates_def insert_evidence_def external_def)+
    qed (simp add: saveEvidenceStates_def)
    from this[OF assms(1)] full show False by simp
  qed
  moreover have ne: "take k rs \<noteq> []" using k assms(2) by auto
  moreover have l: "loaded = Some (e, sort_key pe_role (take k rs))"
    by (rule load_after_save[OF assms(3) k ne assms(5)])
  ultimately show ?thesis using assms(4) by (simp add: previous_state_def Let_def min_def)
qed

definition two_roles :: engine where
  "two_roles = \<lparr> en_roles = [\<lparr> ro_name = ''a'', ro_dims = None \<rparr>, \<lparr> ro_name = ''b'', ro_dims = None \<rparr>],
     en_dimensions = [''d''], en_edges = [], en_projection = False, en_topology = None,
     en_support = (0, 1), en_refutation = (0, 1), en_alpha_ratio = 1 / 2,
     en_spectrum = \<lparr> sp_gap = 2, sp_alpha = 1 / 2 \<rparr>, en_random = (\<lambda>_ _ _. None) \<rparr>"

definition two_role_rows :: "role_evidence list" where
  "two_role_rows = [\<lparr> pe_role = ''a'', pe_support = [1], pe_refutation = [0] \<rparr>,
                    \<lparr> pe_role = ''b'', pe_support = [1], pe_refutation = [0] \<rparr>]"

definition second_insert_fails :: world where
  "second_insert_fails = empty_world \<lparr> w_faults := (\<lambda>k. k = 1) \<rparr>"

theorem partial_save_forgets_witness:
  "\<exists>w1 w2 loaded. saveEvidenceStates ''s'' 3 two_role_rows second_insert_fails = (w1, Inl io_error)
     \<and> loadLatestEvidenceStates ''s'' w1 = (w2, Inr loaded)
     \<and> previous_state two_roles loaded = ([0, 0, 0, 0], 4)"
proof -
  obtain w1 where w1: "saveEvidenceStates ''s'' 3 two_role_rows second_insert_fails = (w1, Inl io_error)"
    "w_evidence w1 \<noteq> w_evidence second_insert_fails" "w_faults w1 = (\<lambda>k. k = 1)" "w_tick w1 = 2"
    by (simp add: saveEvidenceStates_def two_role_rows_def insert_evidence_def external_def
        second_insert_fails_def empty_world_def tick_def)
  obtain w2 loaded where w2: "loadLatestEvidenceStates ''s'' w1 = (w2, Inr loaded)"
    using w1(3,4) by (cases "max_epoch ''s'' (w_evidence w1)")
      (auto simp: loadLatestEvidenceStates_def and_then_def external_def)
  have h: "\<forall>r \<in> set (w_evidence second_insert_fails). ev_scope r = ''s'' \<longrightarrow> ev_epoch r < 3"
    "length two_role_rows = length (en_roles two_roles)"
    by (simp_all add: second_insert_fails_def empty_world_def two_role_rows_def two_roles_def)
  show ?thesis using partial_save_forgets[OF w1(1,2) h w2] w1(1) w2
    by (auto simp: two_roles_def numeral_eq_Suc)
qed


definition two_role_env :: prop_env where
  "two_role_env = \<lparr> en_engine = two_roles, en_sqrt = (\<lambda>x. x), en_ln = (\<lambda>x. x - 1), en_sha = toy_sha,
     en_json = (\<lambda>_. ''e'') \<rparr>"

lemma two_role_run:
  "length (w_evidence (fold agent_run [(two_role_env, ''s'', None)] empty_world)) = 2"
  by code_simp

lemma two_role_audit:
  "length (w_propagation (fold agent_run [(two_role_env, ''s'', None)] empty_world)) = 1"
  by code_simp



theorem contradiction_rate_stays_zero_witness:
  "list_all kappa_zero (w_propagation (fold agent_run [(two_role_env, ''s'', None)] empty_world))
   \<and> length (w_propagation (fold agent_run [(two_role_env, ''s'', None)] empty_world)) = 1"
  by (intro conjI contradiction_rate_stays_zero two_role_audit) (simp add: empty_world_def)

theorem evidence_round_trip_witness:
  "flatToPerRole (buildFlatState two_role_rows 1) [''a'', ''b''] 1 = two_role_rows
   \<and> buildFlatState (flatToPerRole [1, 2, 3, 4] [''a'', ''b''] 1) 1 = [1, 2, 3, 4]"
proof -
  have "list_all (role_sized 1) two_role_rows" "map pe_role two_role_rows = [''a'', ''b'']"
    "length [1, 2, 3, 4 :: rat] = length [''a'', ''b''] * (2 * 1)"
    by (simp_all add: two_role_rows_def role_sized_def)
  then show ?thesis
    using evidence_round_trip[of 1 two_role_rows "[1, 2, 3, 4]" "[''a'', ''b'']"] by simp
qed

text \<open>
  Diffusion moves evidence and makes none: before the projection, every channel keeps its
  total over the roles, whatever the rate; and a state on which all edges agree on their shared
  channels, one of Dirichlet energy zero, is left as it is.
\<close>

theorem diffusion_conserves:
  assumes "\<And>e. e \<in> set (sh_edges S) \<Longrightarrow> fst e < sh_roles S \<and> snd e < sh_roles S"
    and "length x = sh_roles S * (2 * sh_dims S)" "c < 2 * sh_dims S"
  shows "(\<Sum>i<sh_roles S. stalk_at (sh_dims S) (diffuse S alpha x) i c)
      = (\<Sum>i<sh_roles S. stalk_at (sh_dims S) x i c)
    \<and> (dirichlet_energy S x = 0 \<longrightarrow> diffuse S alpha x = x)"
proof (intro conjI impI)
  have "(\<Sum>i<sh_roles S. stalk_at (sh_dims S) (diffuse S alpha x) i c)
      = (\<Sum>i<sh_roles S. stalk_at (sh_dims S) x i c - alpha * laplacian_at S x i c)"
    by (rule sum.cong) (simp_all add: diffuse_def stalk_at_map_positions assms(3))
  also have "\<dots> = (\<Sum>i<sh_roles S. stalk_at (sh_dims S) x i c) - alpha * (\<Sum>i<sh_roles S. laplacian_at S x i c)"
    by (simp add: sum_subtractf sum_distrib_left)
  finally show "(\<Sum>i<sh_roles S. stalk_at (sh_dims S) (diffuse S alpha x) i c)
      = (\<Sum>i<sh_roles S. stalk_at (sh_dims S) x i c)"
    using laplacian_conserves[OF assms(1)] by simp
qed (rule energy_zero_fixed[OF _ assms(2)])

theorem diffusion_conserves_witness:
  "(\<Sum>i<2. stalk_at 1 (diffuse (engine_sheaf two_roles) (1 / 4) [1, 0, 1 / 2, 0]) i 0) = 3 / 2"
proof -
  have S: "sh_edges (engine_sheaf two_roles) = [(0, 1)]" "sh_roles (engine_sheaf two_roles) = 2"
    "sh_dims (engine_sheaf two_roles) = 1"
    by (simp_all add: engine_sheaf_def two_roles_def complete_graph_def num_roles_def num_dims_def)
  have "(\<Sum>i<2. stalk_at 1 (diffuse (engine_sheaf two_roles) (1 / 4) [1, 0, 1 / 2, 0]) i 0)
      = (\<Sum>i<2. stalk_at 1 [1, 0, 1 / 2, 0] i 0)"
    using diffusion_conserves[of "engine_sheaf two_roles" "[1, 0, 1 / 2, 0]" 0 "1 / 4"] by (simp add: S)
  also have "\<dots> = 3 / 2" by (simp add: stalk_at_def numeral_2_eq_2)
  finally show ?thesis .
qed

end
