(* ===== verification/Finality_Gates.thy ===== *)
theory Finality_Gates
  imports Dimension_Schema
begin

text \<open>
  The arithmetic of finality: the snapshot of a scope, the conditions of \<open>finality.yaml\<close>, the
  dimension scores with the goal score, and the vector predicate, as the native core computes them
  (\<open>sgrs-core/src/finality\<close>, \<open>sgrs-core/src/convergence/scores.rs\<close>) behind the adapter
  \<open>src/sgrsAdapter.ts\<close>. Numbers are exact rationals; a number in a condition is a plain decimal.
\<close>

section \<open>Snapshots\<close>

record finality_snapshot =
  fs_claims_min :: rat
  fs_claims_count :: int
  fs_claims_avg :: rat
  fs_contra_unresolved :: int
  fs_contra_total :: int
  fs_risks_critical :: int
  fs_goals_ratio :: rat
  fs_risk :: rat
  fs_idle_cycles :: "int option"
  fs_delta_age :: "int option"
  fs_active_age :: "int option"
  fs_unaddressed :: "int option"
  fs_contra_mass :: "rat option"
  fs_coverage :: "rat option"

definition default_snapshot :: finality_snapshot where
  "default_snapshot = \<lparr> fs_claims_min = 0, fs_claims_count = 0, fs_claims_avg = 0,
     fs_contra_unresolved = 0, fs_contra_total = 0, fs_risks_critical = 0, fs_goals_ratio = 0,
     fs_risk = 0, fs_idle_cycles = None, fs_delta_age = None, fs_active_age = None,
     fs_unaddressed = None, fs_contra_mass = None, fs_coverage = None \<rparr>"

section \<open>Conditions\<close>

datatype comparison_op = Gte | Lte | Gt | Lt | EqOp

record condition =
  co_key :: string
  co_op :: comparison_op
  co_value :: rat

fun split_first :: "char \<Rightarrow> string \<Rightarrow> (string \<times> string) option" where
  "split_first c [] = None"
| "split_first c (d # ds) =
     (if d = c then Some ([], ds)
      else case split_first c ds of None \<Rightarrow> None | Some (a, b) \<Rightarrow> Some (d # a, b))"

definition strip_prefix :: "string \<Rightarrow> string \<Rightarrow> string option" where
  "strip_prefix p s = (if str_starts_with s p then Some (drop (length p) s) else None)"

definition strip_last :: "char \<Rightarrow> string \<Rightarrow> string option" where
  "strip_last c s = (if s \<noteq> [] \<and> last s = c then Some (butlast s) else None)"

text \<open>A sign, digits and a fraction.\<close>

definition unsigned_decimal :: "string \<Rightarrow> rat option" where
  "unsigned_decimal s =
    (let (ip, fp) = (case split_first CHR ''.'' s of None \<Rightarrow> (s, []) | Some (a, b) \<Rightarrow> (a, b)) in
     if ip @ fp \<noteq> [] \<and> list_all is_digit (ip @ fp)
     then Some (of_int (digits_value (ip @ fp)) / 10 ^ length fp) else None)"

definition parse_decimal :: "string \<Rightarrow> rat option" where
  "parse_decimal s =
    (case s of
       [] \<Rightarrow> None
     | c # cs \<Rightarrow> if c = CHR ''-'' then map_option uminus (unsigned_decimal cs)
                 else if c = CHR ''+'' then unsigned_decimal cs else unsigned_decimal s)"

definition try_parse_op_value :: "string \<Rightarrow> (comparison_op \<times> string) option" where
  "try_parse_op_value s =
    (case List.find (\<lambda>(p, _). str_starts_with s p)
            [(''>='', Gte), (''<='', Lte), (''=='', EqOp), (''>'', Gt), (''<'', Lt)] of
       None \<Rightarrow> None
     | Some (p, op) \<Rightarrow> Some (op, str_trim (drop (length p) s)))"

definition strip_quotes :: "string \<Rightarrow> string" where
  "strip_quotes s =
    (case or_else (strip_prefix [CHR 0x22] s) (strip_prefix [CHR 0x27] s) of
       None \<Rightarrow> s
     | Some t \<Rightarrow> coalesce (or_else (strip_last (CHR 0x22) t) (strip_last (CHR 0x27) t)) t)"

definition plain_condition :: "string \<Rightarrow> string \<Rightarrow> condition" where
  "plain_condition key rest =
    (let value = coalesce (parse_decimal rest) 0 in
     \<lparr> co_key = key,
       co_op = (if value = 0 \<and> (str_includes key ''count'' \<or> str_includes key ''_count'') then EqOp else Gte),
       co_value = value \<rparr>)"

definition parse_condition :: "string \<Rightarrow> condition" where
  "parse_condition s =
    (case split_first CHR '':'' s of
       None \<Rightarrow> \<lparr> co_key = [], co_op = EqOp, co_value = 0 \<rparr>
     | Some (k, r) \<Rightarrow>
        (let key = str_trim k; rest = str_trim (strip_quotes (str_trim r)) in
         case try_parse_op_value rest of
           None \<Rightarrow> plain_condition key rest
         | Some (op, num) \<Rightarrow>
            (case parse_decimal num of
               None \<Rightarrow> plain_condition key rest
             | Some v \<Rightarrow> \<lparr> co_key = key, co_op = op, co_value = v \<rparr>)))"

definition resolve_key :: "string \<Rightarrow> finality_snapshot \<Rightarrow> rat option" where
  "resolve_key k s = map_of
     [(''claims.active.avg_confidence'', fs_claims_avg s),
      (''claims.active.min_confidence'', fs_claims_min s),
      (''claims.active.count'', of_int (fs_claims_count s)),
      (''contradictions.unresolved_count'', of_int (fs_contra_unresolved s)),
      (''contradictions.total_count'', of_int (fs_contra_total s)),
      (''contradictions.total.count'', of_int (fs_contra_total s)),
      (''risks.critical.active_count'', of_int (fs_risks_critical s)),
      (''goals.completion_ratio'', fs_goals_ratio s),
      (''goals.completion'', fs_goals_ratio s),
      (''scope.risk_score'', fs_risk s),
      (''scope.idle_cycles'', of_int (coalesce (fs_idle_cycles s) 0)),
      (''scope.last_delta_age_ms'', of_int (coalesce (fs_delta_age s) 0)),
      (''scope.last_active_age_ms'', of_int (coalesce (fs_active_age s) 0)),
      (''assessments.critical_unaddressed_count'', of_int (coalesce (fs_unaddressed s) 0)),
      (''assessments.critical_unaddressed.count'', of_int (coalesce (fs_unaddressed s) 0))] k"

fun compare_op :: "rat \<Rightarrow> comparison_op \<Rightarrow> rat \<Rightarrow> bool" where
  "compare_op a Gte t = (a \<ge> t)"
| "compare_op a Lte t = (a \<le> t)"
| "compare_op a Gt t = (a > t)"
| "compare_op a Lt t = (a < t)"
| "compare_op a EqOp t = (\<bar>a - t\<bar> < 1 / 2 ^ 52)"

definition evaluateOne :: "string \<Rightarrow> finality_snapshot \<Rightarrow> bool" where
  "evaluateOne s snap =
    (let c = parse_condition s in
     case resolve_key (co_key c) snap of
       None \<Rightarrow> False | Some actual \<Rightarrow> compare_op actual (co_op c) (co_value c))"

section \<open>Dimension scores and the goal score\<close>

record weights =
  we_claim :: rat
  we_contra :: rat
  we_goal :: rat
  we_risk :: rat

definition default_weights :: weights where
  "default_weights = \<lparr> we_claim = 3 / 10, we_contra = 3 / 10, we_goal = 1 / 4, we_risk = 3 / 20 \<rparr>"

text \<open>What crosses the boundary to the native core.\<close>

record snapshot_dto =
  sd_claims_avg :: rat
  sd_contra_unresolved :: int
  sd_contra_total :: int
  sd_goals_ratio :: rat
  sd_risk :: rat

definition toSnapshotDto :: "finality_snapshot \<Rightarrow> snapshot_dto" where
  "toSnapshotDto s = \<lparr> sd_claims_avg = fs_claims_avg s, sd_contra_unresolved = fs_contra_unresolved s,
     sd_contra_total = fs_contra_total s, sd_goals_ratio = fs_goals_ratio s, sd_risk = fs_risk s \<rparr>"

text \<open>The scores of the four dimensions, in the order of their names.\<close>

definition compute_dimension_scores :: "snapshot_dto \<Rightarrow> rat list" where
  "compute_dimension_scores s =
     [min (sd_claims_avg s / (85 / 100)) 1,
      (if sd_contra_total s = 0 then 1
       else 1 - of_int (sd_contra_unresolved s) / of_int (sd_contra_total s)),
      sd_goals_ratio s,
      1 - min (sd_risk s) 1]"

definition clamp01 :: "rat \<Rightarrow> rat" where
  "clamp01 x = (if x < 0 then 0 else if x > 1 then 1 else x)"

definition weight_list :: "weights option \<Rightarrow> rat list" where
  "weight_list w = (let v = coalesce w default_weights in [we_claim v, we_contra v, we_goal v, we_risk v])"

definition compute_goal_score :: "snapshot_dto \<Rightarrow> rat list \<Rightarrow> rat" where
  "compute_goal_score s ws = clamp01 (sum_list (map2 (*) (compute_dimension_scores s) ws))"

definition scalar_lyapunov_v :: "rat list \<Rightarrow> rat list \<Rightarrow> rat" where
  "scalar_lyapunov_v scores ws = max 0 (sum_list (map2 (\<lambda>w s. w * (1 - s) ^ 2) ws scores))"

definition compute_pressure :: "rat list \<Rightarrow> rat list \<Rightarrow> rat list" where
  "compute_pressure scores ws = map2 (\<lambda>w s. w * max 0 (1 - s)) ws scores"

definition dim_names :: "string list" where
  "dim_names = [''claim_confidence'', ''contradiction_resolution'', ''goal_completion'',
                ''risk_score_inverse'']"

definition fromDimensionScoresDto :: "rat list \<Rightarrow> (string \<times> rat) list" where
  "fromDimensionScoresDto xs = zip dim_names xs"

definition computeDimensionScores :: "finality_snapshot \<Rightarrow> (string \<times> rat) list" where
  "computeDimensionScores s = fromDimensionScoresDto (compute_dimension_scores (toSnapshotDto s))"

definition computeGoalScore :: "finality_snapshot \<Rightarrow> weights option \<Rightarrow> rat" where
  "computeGoalScore s w = compute_goal_score (toSnapshotDto s) (weight_list w)"

text \<open>The adapter drops the targets it is given; the native core uses one for every dimension.\<close>

definition computeLyapunovV :: "finality_snapshot \<Rightarrow> weights option \<Rightarrow> rat" where
  "computeLyapunovV s w = scalar_lyapunov_v (compute_dimension_scores (toSnapshotDto s)) (weight_list w)"

definition computePressure :: "finality_snapshot \<Rightarrow> weights option \<Rightarrow> (string \<times> rat) list" where
  "computePressure s w =
     fromDimensionScoresDto (compute_pressure (compute_dimension_scores (toSnapshotDto s)) (weight_list w))"

section \<open>The vector predicate\<close>

record vector_config =
  vc_enabled :: bool
  vc_required :: "string list"
  vc_thresholds :: "(string \<times> rat) list"
  vc_veto :: "string list"
  vc_epsilon :: "(string \<times> rat) list"

record dimension_result =
  dr_dimension :: dimension_id
  dr_score :: rat
  dr_threshold :: rat
  dr_gap :: rat
  dr_eps :: rat
  dr_passed :: bool
  dr_is_veto :: bool
  dr_is_required :: bool
  dr_gate_a :: bool
  dr_gate_c :: bool

record global_gates =
  gg_a_monotonic :: bool
  gg_b_evidence :: bool
  gg_c_trajectory :: bool
  gg_d_quiescent :: bool
  gg_e_has_content :: bool
  gg_f_elimination :: bool

record vector_result =
  vr_dimensions :: "dimension_result list"
  vr_required_passed :: bool
  vr_veto :: bool
  vr_veto_causes :: "dimension_id list"
  vr_global :: bool

definition dimension_gap :: "rat \<Rightarrow> rat \<Rightarrow> rat" where
  "dimension_gap score threshold = max (threshold - score) 0"

definition config_at :: "(string \<times> rat) list \<Rightarrow> rat \<Rightarrow> string \<Rightarrow> rat" where
  "config_at m d n = coalesce (map_get m n) d"

definition dimension_outcome ::
  "vector_config \<Rightarrow> rat list \<Rightarrow> bool list \<Rightarrow> rat list \<Rightarrow> dimension_id \<Rightarrow> dimension_result" where
  "dimension_outcome cfg scores monos traj d =
    (let n = v1_name d; i = dim_index d; score = scores ! i;
         threshold = config_at (vc_thresholds cfg) (85 / 100) n;
         eps = config_at (vc_epsilon cfg) (2 / 100) n;
         gap = dimension_gap score threshold;
         gate_c = (traj ! i \<ge> 7 / 10) in
     \<lparr> dr_dimension = d, dr_score = score, dr_threshold = threshold, dr_gap = gap, dr_eps = eps,
       dr_passed = (gap \<le> eps \<and> monos ! i \<and> gate_c),
       dr_is_veto = (n \<in> set (vc_veto cfg)), dr_is_required = (n \<in> set (vc_required cfg)),
       dr_gate_a = monos ! i, dr_gate_c = gate_c \<rparr>)"

text \<open>Lists shorter than four fall back to the defaults of the native boundary.\<close>

definition four_or :: "'a \<Rightarrow> 'a list \<Rightarrow> 'a list" where
  "four_or d xs = (if 4 \<le> length xs then take 4 xs else replicate 4 d)"

definition evaluate_vector_finality ::
  "vector_config \<Rightarrow> rat list \<Rightarrow> bool list \<Rightarrow> rat list \<Rightarrow> global_gates \<Rightarrow> vector_result" where
  "evaluate_vector_finality cfg scores monos traj gates =
    (let rs = map (dimension_outcome cfg (four_or 0 scores) (four_or False monos) (four_or 1 traj)) all_dims in
     \<lparr> vr_dimensions = rs,
       vr_required_passed = list_all (\<lambda>r. dr_is_required r \<longrightarrow> dr_passed r) rs,
       vr_veto = list_ex (\<lambda>r. dr_is_veto r \<and> \<not> dr_passed r) rs,
       vr_veto_causes = map dr_dimension (filter (\<lambda>r. dr_is_veto r \<and> \<not> dr_passed r) rs),
       vr_global = (gg_b_evidence gates \<and> gg_d_quiescent gates \<and> gg_e_has_content gates) \<rparr>)"

definition evaluateVectorFinality ::
  "(string \<times> rat) list \<Rightarrow> vector_config \<Rightarrow> bool list \<Rightarrow> rat list \<Rightarrow> global_gates \<Rightarrow> vector_result" where
  "evaluateVectorFinality dimensionScores cfg monos traj gates =
     evaluate_vector_finality cfg (map (\<lambda>n. coalesce (map_get dimensionScores n) 0) dim_names) monos traj gates"

section \<open>Bounds\<close>

definition snapshot_wf :: "finality_snapshot \<Rightarrow> bool" where
  "snapshot_wf s = (0 \<le> fs_claims_avg s \<and> 0 \<le> fs_contra_unresolved s
     \<and> fs_contra_unresolved s \<le> fs_contra_total s
     \<and> 0 \<le> fs_goals_ratio s \<and> fs_goals_ratio s \<le> 1 \<and> 0 \<le> fs_risk s)"

lemma scores_length [simp]: "length (compute_dimension_scores s) = 4"
  by (simp add: compute_dimension_scores_def)

lemma scores_bounded:
  "snapshot_wf s \<Longrightarrow> list_all (\<lambda>x. 0 \<le> x \<and> x \<le> 1) (compute_dimension_scores (toSnapshotDto s))"
  by (auto simp: snapshot_wf_def compute_dimension_scores_def toSnapshotDto_def divide_le_eq le_divide_eq)

lemma goal_score_bounded: "0 \<le> computeGoalScore s w \<and> computeGoalScore s w \<le> 1"
  by (simp add: computeGoalScore_def compute_goal_score_def clamp01_def)

text \<open>The record of scores, read back by name, is the list.\<close>

lemma scores_by_name:
  "length xs = 4 \<Longrightarrow> map (\<lambda>n. coalesce (map_get (fromDimensionScoresDto xs) n) 0) dim_names = xs"
  by (auto simp: fromDimensionScoresDto_def dim_names_def numeral_eq_Suc length_Suc_conv)

lemma vector_of_snapshot:
  "evaluateVectorFinality (computeDimensionScores s) cfg monos traj gates
     = evaluate_vector_finality cfg (compute_dimension_scores (toSnapshotDto s)) monos traj gates"
  by (simp add: evaluateVectorFinality_def computeDimensionScores_def scores_by_name)

text \<open>With the default weights the score is the weighted mean, with no clamping.\<close>

lemma goal_score_default:
  assumes "snapshot_wf s"
  shows "computeGoalScore s None
    = sum_list (map2 (*) (compute_dimension_scores (toSnapshotDto s)) [3 / 10, 3 / 10, 1 / 4, 3 / 20])"
proof -
  obtain a b c d where e: "compute_dimension_scores (toSnapshotDto s) = [a, b, c, d]"
    by (simp add: compute_dimension_scores_def)
  then have "0 \<le> a" "a \<le> 1" "0 \<le> b" "b \<le> 1" "0 \<le> c" "c \<le> 1" "0 \<le> d" "d \<le> 1"
    using scores_bounded[OF assms] by simp_all
  then show ?thesis
    by (simp add: computeGoalScore_def compute_goal_score_def e clamp01_def weight_list_def
        default_weights_def Let_def)
qed

lemma vector_passes_iff:
  "vr_required_passed (evaluate_vector_finality cfg scores monos traj gates)
     \<and> \<not> vr_veto (evaluate_vector_finality cfg scores monos traj gates)
   \<longleftrightarrow> (\<forall>d. v1_name d \<in> set (vc_required cfg) \<union> set (vc_veto cfg) \<longrightarrow>
        dr_passed (dimension_outcome cfg (four_or 0 scores) (four_or False monos) (four_or 1 traj) d))"
proof -
  have all: "set all_dims = UNIV" using dimension_id.exhaust by (auto simp: all_dims_def)
  have "dr_is_required (dimension_outcome cfg s m t d) = (v1_name d \<in> set (vc_required cfg))"
    "dr_is_veto (dimension_outcome cfg s m t d) = (v1_name d \<in> set (vc_veto cfg))" for s m t d
    by (simp_all add: dimension_outcome_def Let_def)
  then show ?thesis using all
    by (auto simp: evaluate_vector_finality_def list_all_iff list_ex_iff Let_def)
qed

lemma dimension_passes_iff:
  "dr_passed (dimension_outcome cfg scores monos traj d)
   \<longleftrightarrow> config_at (vc_thresholds cfg) (85 / 100) (v1_name d) - scores ! dim_index d
         \<le> config_at (vc_epsilon cfg) (2 / 100) (v1_name d)
     \<and> 0 \<le> config_at (vc_epsilon cfg) (2 / 100) (v1_name d)
     \<and> monos ! dim_index d \<and> 7 / 10 \<le> traj ! dim_index d"
  by (auto simp: dimension_outcome_def dimension_gap_def Let_def)

lemma computePressure_fst: "map fst (computePressure s w) = dim_names"
  by (simp add: computePressure_def fromDimensionScoresDto_def compute_pressure_def weight_list_def
      compute_dimension_scores_def dim_names_def Let_def)

end
