(* ===== verification/Convergence.thy ===== *)
theory Convergence
  imports Finality_Gates
begin

text \<open>
  The convergence tracker of \<open>src/convergenceTracker.ts\<close>: its table, and the analysis of a history
  of scores as the native core computes it (\<open>sgrs-core/src/convergence\<close>) behind the adapter. The
  logarithm and the square root are the argument \<open>fns\<close>; nothing is assumed of them. An estimate of
  rounds is a saturating cast, so a negative one is zero. Log lines are not modelled; the query that
  feeds only a log line is one external call whose failure is swallowed.
\<close>

section \<open>Trajectory quality\<close>

record numeric_fns =
  nf_ln :: "rat \<Rightarrow> rat"
  nf_sqrt :: "rat \<Rightarrow> rat"

record convergence_config =
  cf_beta :: nat
  cf_tau :: nat
  cf_ema_alpha :: rat
  cf_plateau :: rat
  cf_depth :: nat
  cf_divergence :: rat
  cf_penalty :: rat
  cf_max_directions :: nat
  cf_autocorr :: rat
  cf_oscillation_cap :: rat
  cf_spike_cap :: rat

definition DEFAULT_CONVERGENCE_CONFIG :: convergence_config where
  "DEFAULT_CONVERGENCE_CONFIG = \<lparr> cf_beta = 3, cf_tau = 3, cf_ema_alpha = 3 / 10, cf_plateau = 1 / 100,
     cf_depth = 20, cf_divergence = - (5 / 100), cf_penalty = 12 / 100, cf_max_directions = 5,
     cf_autocorr = - (3 / 10), cf_oscillation_cap = 65 / 100, cf_spike_cap = 85 / 100 \<rparr>"

definition pearson_correlation :: "(rat \<Rightarrow> rat) \<Rightarrow> rat list \<Rightarrow> rat list \<Rightarrow> rat option" where
  "pearson_correlation sq x y =
    (let n = min (length x) (length y); xs = take n x; ys = take n y;
         mx = sum_list xs / of_nat n; my = sum_list ys / of_nat n;
         xy = sum_list (map2 (\<lambda>a b. (a - mx) * (b - my)) xs ys);
         denom = sq (sum_list (map (\<lambda>a. (a - mx) * (a - mx)) xs)
                     * sum_list (map (\<lambda>b. (b - my) * (b - my)) ys)) in
     if n < 2 \<or> denom < 1 / 10 ^ 15 then None else Some (xy / denom))"

definition autocorrelation_lag1 :: "(rat \<Rightarrow> rat) \<Rightarrow> rat list \<Rightarrow> rat option" where
  "autocorrelation_lag1 sq scores =
     (if length scores < 4 then None else pearson_correlation sq (butlast scores) (tl scores))"

definition reverses :: "rat \<Rightarrow> rat \<Rightarrow> bool" where
  "reverses d_prev d_curr =
     ((d_curr > 1 / 1000 \<and> d_prev < - (1 / 1000)) \<or> (d_curr < - (1 / 1000) \<and> d_prev > 1 / 1000))"

fun count_direction_changes :: "rat list \<Rightarrow> nat" where
  "count_direction_changes (a # b # c # xs) =
     (if reverses (b - a) (c - b) then 1 else 0) + count_direction_changes (b # c # xs)"
| "count_direction_changes _ = 0"

record trajectory =
  tr_quality :: rat
  tr_oscillation :: bool
  tr_autocorr :: "rat option"

definition low_autocorr :: "convergence_config \<Rightarrow> rat option \<Rightarrow> bool" where
  "low_autocorr cfg a = (case a of None \<Rightarrow> False | Some r \<Rightarrow> r < cf_autocorr cfg)"

definition spike_drop :: "rat list \<Rightarrow> bool" where
  "spike_drop scores = (length scores \<ge> 3 \<and> foldr max scores (last scores) - last scores > 5 / 100)"

definition compute_trajectory_quality ::
  "(rat \<Rightarrow> rat) \<Rightarrow> convergence_config \<Rightarrow> rat list \<Rightarrow> trajectory" where
  "compute_trajectory_quality sq cfg scores =
    (if length scores < 2 then \<lparr> tr_quality = 1, tr_oscillation = False, tr_autocorr = None \<rparr>
     else
       (let changes = count_direction_changes scores; auto = autocorrelation_lag1 sq scores;
            osc = (changes \<ge> 2 \<or> low_autocorr cfg auto);
            q0 = 1 - cf_penalty cfg * of_nat (min changes (cf_max_directions cfg));
            q1 = (if osc \<and> low_autocorr cfg auto then min q0 (cf_oscillation_cap cfg) else q0);
            q2 = (if spike_drop scores then min q1 (cf_spike_cap cfg) else q1) in
        \<lparr> tr_quality = clamp01 q2, tr_oscillation = osc, tr_autocorr = auto \<rparr>))"

section \<open>The analysis\<close>

record point =
  pt_goal :: rat
  pt_v :: rat
  pt_dims :: "rat list"
  pt_pressure :: "rat list"
  pt_seq :: "int option"

definition named :: "(string \<times> rat) list \<Rightarrow> rat list" where
  "named m = map (\<lambda>n. coalesce (map_get m n) 0) dim_names"

definition toConvergencePointDto :: "convergence_point \<Rightarrow> point" where
  "toConvergencePointDto p =
     \<lparr> pt_goal = cp_goal p, pt_v = cp_v p, pt_dims = named (cp_dims p),
       pt_pressure = named (cp_pressure p), pt_seq = cp_seq p \<rparr>"

record analysis =
  an_rate :: rat
  an_alpha_intra :: rat
  an_cross_count :: nat
  an_cross_avg :: rat
  an_stalled :: "dimension_id list"
  an_rounds :: "nat option"
  an_monotonic :: bool
  an_plateaued :: bool
  an_plateau_rounds :: nat
  an_highest :: dimension_id
  an_oscillation :: bool
  an_quality :: rat
  an_autocorr :: "rat option"
  an_dim_monotonic :: "bool list"
  an_dim_quality :: "rat list"

definition last_n :: "nat \<Rightarrow> 'a list \<Rightarrow> 'a list" where
  "last_n n xs = drop (length xs - n) xs"

definition mean :: "rat list \<Rightarrow> rat" where
  "mean xs = (if xs = [] then 0 else sum_list xs / of_nat (length xs))"

fun argmax_dim :: "rat list \<Rightarrow> dimension_id list \<Rightarrow> dimension_id \<Rightarrow> dimension_id" where
  "argmax_dim p [] best = best"
| "argmax_dim p (d # ds) best =
     argmax_dim p ds (if p ! dim_index d > p ! dim_index best then d else best)"

definition find_highest_pressure :: "rat list \<Rightarrow> dimension_id" where
  "find_highest_pressure p = argmax_dim p (tl all_dims) ClaimConfidence"

fun adjacent :: "('a \<Rightarrow> 'a \<Rightarrow> bool) \<Rightarrow> 'a list \<Rightarrow> bool list" where
  "adjacent r (a # b # xs) = r a b # adjacent r (b # xs)"
| "adjacent r _ = []"

definition find_stalled_dimensions :: "point list \<Rightarrow> dimension_id list" where
  "find_stalled_dimensions hist =
    (if length hist < 2 then []
     else filter (\<lambda>d. \<not> list_ex id (adjacent (\<lambda>a b. b > a + 1 / 1000)
            (map (\<lambda>p. pt_dims p ! dim_index d) (last_n 5 hist)))) all_dims)"

definition non_decreasing :: "rat list \<Rightarrow> bool" where
  "non_decreasing xs = list_all id (adjacent (\<lambda>a b. \<not> b < a - 1 / 1000) xs)"

definition check_monotonicity :: "point list \<Rightarrow> nat \<Rightarrow> bool" where
  "check_monotonicity hist beta =
     (length hist \<ge> beta \<and> non_decreasing (map pt_goal (last_n beta hist)))"

definition check_per_dimension_monotonicity :: "point list \<Rightarrow> nat \<Rightarrow> bool list" where
  "check_per_dimension_monotonicity hist beta =
     (if length hist < beta then replicate 4 False
      else map (\<lambda>d. non_decreasing (map (\<lambda>p. pt_dims p ! dim_index d) (last_n beta hist))) all_dims)"

definition per_dimension_quality ::
  "(rat \<Rightarrow> rat) \<Rightarrow> convergence_config \<Rightarrow> point list \<Rightarrow> rat list" where
  "per_dimension_quality sq cfg hist =
     (if length hist < 2 then replicate 4 1
      else map (\<lambda>d. tr_quality (compute_trajectory_quality sq cfg
             (map (\<lambda>p. pt_dims p ! dim_index d) (last_n 10 hist)))) all_dims)"

fun plateau_loop :: "convergence_config \<Rightarrow> rat \<Rightarrow> point list \<Rightarrow> rat \<Rightarrow> nat \<Rightarrow> nat" where
  "plateau_loop cfg target (a # b # xs) ema consecutive =
    (let delta = max (pt_goal b - pt_goal a) 0;
         gap = max (target - pt_goal b) (1 / 1000);
         ema' = cf_ema_alpha cfg * (delta / gap) + (1 - cf_ema_alpha cfg) * ema in
     plateau_loop cfg target (b # xs) ema' (if ema' < cf_plateau cfg then Suc consecutive else 0))"
| "plateau_loop cfg target _ ema consecutive = consecutive"

definition compute_plateau_rounds :: "convergence_config \<Rightarrow> rat \<Rightarrow> point list \<Rightarrow> nat" where
  "compute_plateau_rounds cfg target hist = plateau_loop cfg target hist 0 0"

definition alpha_between :: "(rat \<Rightarrow> rat) \<Rightarrow> point \<Rightarrow> point \<Rightarrow> rat option" where
  "alpha_between lnf a b =
     (if pt_v a > 1 / 10 ^ 10 then Some (- lnf (max (pt_v b / pt_v a) (1 / 10 ^ 10))) else None)"

definition same_context :: "point \<Rightarrow> point \<Rightarrow> bool" where
  "same_context a b =
     (case (pt_seq a, pt_seq b) of (Some m, Some n) \<Rightarrow> m = n | _ \<Rightarrow> True)"

fun steps_of :: "point list \<Rightarrow> (point \<times> point) list" where
  "steps_of (a # b # xs) = (a, b) # steps_of (b # xs)"
| "steps_of _ = []"

definition estimate_rounds :: "(rat \<Rightarrow> rat) \<Rightarrow> rat \<Rightarrow> rat \<Rightarrow> nat option" where
  "estimate_rounds lnf alpha_intra current_v =
    (if alpha_intra > 1 / 1000 \<and> current_v > 5 / 1000
     then (let rounds = nat \<lceil>- lnf (5 / 1000 / current_v) / alpha_intra\<rceil> in
           if rounds > 1000 then None else Some rounds)
     else if current_v \<le> 5 / 1000 then Some 0 else None)"

definition default_analysis :: "dimension_id \<Rightarrow> analysis" where
  "default_analysis highest = \<lparr> an_rate = 0, an_alpha_intra = 0, an_cross_count = 0, an_cross_avg = 0,
     an_stalled = [], an_rounds = None, an_monotonic = False, an_plateaued = False,
     an_plateau_rounds = 0, an_highest = highest, an_oscillation = False, an_quality = 1,
     an_autocorr = None, an_dim_monotonic = replicate 4 False, an_dim_quality = replicate 4 1 \<rparr>"

definition analyze_convergence ::
  "numeric_fns \<Rightarrow> point list \<Rightarrow> convergence_config \<Rightarrow> rat \<Rightarrow> analysis" where
  "analyze_convergence fns hist cfg target =
    (if hist = [] then default_analysis ClaimConfidence
     else
       (let highest = find_highest_pressure (pt_pressure (last hist)) in
        if length hist = 1 then default_analysis highest
        else
          (let traj = compute_trajectory_quality (nf_sqrt fns) cfg (map pt_goal (last_n 10 hist));
               recent = steps_of (last_n 6 hist);
               alphas = List.map_filter (\<lambda>(a, b). alpha_between (nf_ln fns) a b) recent;
               intra = List.map_filter (\<lambda>(a, b). if same_context a b then alpha_between (nf_ln fns) a b else None) recent;
               crosses = List.map_filter (\<lambda>(a, b). if \<not> same_context a b \<and> alpha_between (nf_ln fns) a b \<noteq> None
                            then Some (pt_v b - pt_v a) else None) recent;
               plateau = compute_plateau_rounds cfg target hist in
           \<lparr> an_rate = mean alphas, an_alpha_intra = mean intra, an_cross_count = length crosses,
             an_cross_avg = mean crosses, an_stalled = find_stalled_dimensions hist,
             an_rounds = estimate_rounds (nf_ln fns) (mean intra) (pt_v (last hist)),
             an_monotonic = check_monotonicity hist (cf_beta cfg),
             an_plateaued = (plateau \<ge> cf_tau cfg), an_plateau_rounds = plateau,
             an_highest = highest, an_oscillation = tr_oscillation traj, an_quality = tr_quality traj,
             an_autocorr = tr_autocorr traj,
             an_dim_monotonic = check_per_dimension_monotonicity hist (cf_beta cfg),
             an_dim_quality = per_dimension_quality (nf_sqrt fns) cfg hist \<rparr>)))"

record convergence_state =
  cn_history :: "convergence_point list"
  cn_analysis :: analysis
  cn_highest_name :: string

definition analyzeConvergence ::
  "numeric_fns \<Rightarrow> convergence_point list \<Rightarrow> convergence_config \<Rightarrow> rat \<Rightarrow> convergence_state" where
  "analyzeConvergence fns hist cfg target =
    (let a = analyze_convergence fns (map toConvergencePointDto hist) cfg target in
     \<lparr> cn_history = hist, cn_analysis = a,
       cn_highest_name = (if hist = [] then [] else v1_name (an_highest a)) \<rparr>)"

section \<open>The table\<close>

definition no_gates :: gate_state where
  "no_gates = \<lparr> ga_monotonic = None, ga_evidence = None, ga_trajectory = None, ga_quiescent = None,
     ga_has_content = None, ga_finality_state = None, ga_unresolved = None, ga_quality = None \<rparr>"

definition recordConvergencePoint :: "string \<Rightarrow> convergence_point \<Rightarrow> (world, unit) exec" where
  "recordConvergencePoint scopeId pt =
     and_then (external (\<lambda>w. (w \<lparr> w_convergence := w_convergence w @
        [\<lparr> cv_scope = scopeId, cv_created = w_now w, cv_point = pt, cv_gates = no_gates \<rparr>] \<rparr>, Inr ())))
       (\<lambda>_. try_catch (external (\<lambda>w. (w, Inr ()))) (\<lambda>_. ret ()))"

definition merge_gates :: "gate_state \<Rightarrow> gate_state \<Rightarrow> gate_state" where
  "merge_gates new old =
     \<lparr> ga_monotonic = or_else (ga_monotonic new) (ga_monotonic old),
       ga_evidence = or_else (ga_evidence new) (ga_evidence old),
       ga_trajectory = or_else (ga_trajectory new) (ga_trajectory old),
       ga_quiescent = or_else (ga_quiescent new) (ga_quiescent old),
       ga_has_content = or_else (ga_has_content new) (ga_has_content old),
       ga_finality_state = or_else (ga_finality_state new) (ga_finality_state old),
       ga_unresolved = or_else (ga_unresolved new) (ga_unresolved old),
       ga_quality = or_else (ga_quality new) (ga_quality old) \<rparr>"

text \<open>The row to update is the newest of the scope and epoch; of rows of one time, the last inserted.\<close>

definition latest_index :: "string \<Rightarrow> int \<Rightarrow> convergence_row list \<Rightarrow> nat option" where
  "latest_index scopeId epoch rows =
    (case rev (sort_key (\<lambda>i. cv_created (rows ! i))
            (filter (\<lambda>i. cv_scope (rows ! i) = scopeId \<and> cp_epoch (cv_point (rows ! i)) = epoch)
               [0..<length rows])) of
       [] \<Rightarrow> None | i # _ \<Rightarrow> Some i)"

definition updateConvergenceGateState :: "string \<Rightarrow> int \<Rightarrow> gate_state \<Rightarrow> (world, unit) exec" where
  "updateConvergenceGateState scopeId epoch gates =
     external (\<lambda>w. (case latest_index scopeId epoch (w_convergence w) of
        None \<Rightarrow> w
      | Some i \<Rightarrow>
          (let r = w_convergence w ! i in
           w \<lparr> w_convergence := (w_convergence w)
             [i := r \<lparr> cv_gates := merge_gates gates (cv_gates r) \<rparr>] \<rparr>), Inr ()))"

definition convergence_history :: "string \<Rightarrow> nat \<Rightarrow> convergence_row list \<Rightarrow> convergence_point list" where
  "convergence_history scopeId depth rows =
     map cv_point (last_n depth (sort_key cv_created (filter (\<lambda>r. cv_scope r = scopeId) rows)))"

definition loadConvergenceHistory :: "string \<Rightarrow> nat \<Rightarrow> (world, convergence_point list) exec" where
  "loadConvergenceHistory scopeId depth =
     external (\<lambda>w. (w, Inr (convergence_history scopeId depth (w_convergence w))))"

definition getConvergenceState ::
  "numeric_fns \<Rightarrow> string \<Rightarrow> convergence_config \<Rightarrow> rat \<Rightarrow> (world, convergence_state) exec" where
  "getConvergenceState fns scopeId cfg target =
     and_then (loadConvergenceHistory scopeId (cf_depth cfg))
       (\<lambda>hist. ret (analyzeConvergence fns hist cfg target))"

section \<open>Facts\<close>

lemma clamp01_bounds: "0 \<le> clamp01 y \<and> clamp01 y \<le> 1"
  by (simp add: clamp01_def)

lemma clamp01_ge: "0 < t \<Longrightarrow> t \<le> 1 \<Longrightarrow> t \<le> clamp01 y \<longleftrightarrow> t \<le> y"
  by (auto simp: clamp01_def)

lemma trajectory_quality_bounded:
  "0 \<le> tr_quality (compute_trajectory_quality sq cfg xs) \<and> tr_quality (compute_trajectory_quality sq cfg xs) \<le> 1"
  by (simp add: compute_trajectory_quality_def clamp01_bounds Let_def)

lemma adjacent_all_iff:
  "list_all id (adjacent r xs) \<longleftrightarrow> (\<forall>i. Suc i < length xs \<longrightarrow> r (xs ! i) (xs ! Suc i))"
proof (induction r xs rule: adjacent.induct)
  case (1 r a b xs)
  then show ?case
    by (auto simp: nth_Cons' less_Suc_eq_0_disj split: if_splits)
qed auto

text \<open>The monotonicity gate forgives a fall of one thousandth a round.\<close>

lemma non_decreasing_slack:
  assumes "non_decreasing xs" "i < length xs"
  shows "xs ! 0 - of_nat i / 1000 \<le> xs ! i"
  using assms(2)
proof (induction i)
  case (Suc i)
  then have "xs ! i - 1 / 1000 \<le> xs ! Suc i"
    using assms(1) unfolding non_decreasing_def adjacent_all_iff by auto
  then show ?case using Suc by (simp add: field_simps)
qed simp

text \<open>Under the default configuration the trajectory gate at 0.7 fails exactly when the direction
  changed at least three times or the autocorrelation is low; a spike that drops does not fail it.\<close>

lemma trajectory_gate_default:
  assumes "2 \<le> length xs"
  shows "7 / 10 \<le> tr_quality (compute_trajectory_quality sq DEFAULT_CONVERGENCE_CONFIG xs)
    \<longleftrightarrow> count_direction_changes xs \<le> 2
       \<and> \<not> low_autocorr DEFAULT_CONVERGENCE_CONFIG (autocorrelation_lag1 sq xs)"
proof -
  let ?cfg = DEFAULT_CONVERGENCE_CONFIG and ?n = "count_direction_changes xs"
  let ?lo = "low_autocorr ?cfg (autocorrelation_lag1 sq xs)"
  let ?q0 = "(1 :: rat) - 12 / 100 * of_nat (min ?n 5)"
  let ?q1 = "if ?lo then min ?q0 (65 / 100) else ?q0"
  have q0: "7 / 10 \<le> ?q0 \<longleftrightarrow> ?n \<le> 2"
  proof -
    have "?n = 0 \<or> ?n = 1 \<or> ?n = 2 \<or> ?n = 3 \<or> ?n = 4 \<or> ?n \<ge> 5" by linarith
    then show ?thesis by (elim disjE) (simp_all add: min_def)
  qed
  have a: "7 / 10 \<le> min y (85 / 100) \<longleftrightarrow> 7 / 10 \<le> y" for y :: rat by (auto simp: min_def)
  have b: "7 / 10 \<le> min y (65 / 100) \<longleftrightarrow> False" for y :: rat by (auto simp: min_def)
  have "tr_quality (compute_trajectory_quality sq ?cfg xs)
      = clamp01 (if spike_drop xs then min ?q1 (85 / 100) else ?q1)"
    using assms by (simp add: compute_trajectory_quality_def Let_def DEFAULT_CONVERGENCE_CONFIG_def)
  moreover have "7 / 10 \<le> clamp01 (if spike_drop xs then min ?q1 (85 / 100) else ?q1) \<longleftrightarrow> 7 / 10 \<le> ?q1"
    by (subst clamp01_ge) (simp, simp, cases "spike_drop xs", simp_all only: if_True if_False a)
  moreover have "7 / 10 \<le> ?q1 \<longleftrightarrow> \<not> ?lo \<and> 7 / 10 \<le> ?q0"
    by (cases ?lo) (simp_all only: if_True if_False b simp_thms)
  ultimately show ?thesis by (simp only: q0) blast
qed

end
