(* ===== verification/Graph_Snapshot.thy ===== *)
theory Graph_Snapshot
  imports Semantic_Graph Finality_Gates
begin

text \<open>
  The snapshot of a scope that the finality check reads, \<open>src/semantic-graph/finalitySnapshot.ts\<close>,
  with the fallback of \<open>loadFinalitySnapshot\<close> in \<open>src/finality/evaluator.ts\<close>. The file
  \<open>evidence_schemas.yaml\<close> is the argument \<open>schema\<close>: the evidence types of its default schema with the
  maximal age in days, or \<open>None\<close> when it cannot be read. No code of the repository writes the key
  \<open>risk_delta\<close>; a value that is no number fails the query.
\<close>

type_synonym evidence_schema = "(string list \<times> int option) option"

definition current_nodes :: "string \<Rightarrow> world \<Rightarrow> node_row list" where
  "current_nodes scopeId w = filter (\<lambda>n. nd_scope n = scopeId \<and> node_current (w_now w) n) (w_nodes w)"

definition has_type :: "string \<Rightarrow> string \<Rightarrow> node_row \<Rightarrow> bool" where
  "has_type type status n = (nd_type n = type \<and> nd_status n = status)"

definition count_of :: "('a \<Rightarrow> bool) \<Rightarrow> 'a list \<Rightarrow> int" where
  "count_of P xs = int (length (filter P xs))"

record claim_aggregates =
  ca_min :: rat
  ca_count :: int
  ca_avg :: rat
  ca_critical :: int

definition average :: "rat list \<Rightarrow> rat" where
  "average xs = sum_list xs / of_nat (length xs)"

definition claim_aggregates_of :: "node_row list \<Rightarrow> claim_aggregates" where
  "claim_aggregates_of rows =
    (let cs = map nd_confidence (filter (has_type ''claim'' ''active'') rows) in
     \<lparr> ca_min = (case cs of [] \<Rightarrow> 1 | x # xs \<Rightarrow> foldr min xs x),
       ca_count = int (length cs),
       ca_avg = (if cs = [] then 1 else average cs),
       ca_critical = count_of (\<lambda>n. has_type ''risk'' ''active'' n
          \<and> map_get (nd_meta n) ''severity'' = Some (JStr ''critical'')) rows \<rparr>)"

definition goals_ratio :: "node_row list \<Rightarrow> rat" where
  "goals_ratio rows =
    (let total = count_of (\<lambda>n. nd_type n = ''goal'') rows in
     if total = 0 then 1 else of_int (count_of (has_type ''goal'' ''resolved'') rows) / of_int total)"

fun risk_delta :: "json option \<Rightarrow> rat option" where
  "risk_delta None = Some 0"
| "risk_delta (Some JNull) = Some 0"
| "risk_delta (Some (JNum r)) = Some r"
| "risk_delta _ = None"

definition risk_deltas :: "node_row list \<Rightarrow> rat option list" where
  "risk_deltas rows =
     map (\<lambda>n. risk_delta (map_get (nd_meta n) ''risk_delta'')) (filter (has_type ''assessment'' ''active'') rows)"

definition scope_risk :: "string \<Rightarrow> (world, rat) exec" where
  "scope_risk scopeId = external (\<lambda>w.
     let ds = risk_deltas (current_nodes scopeId w) in
     if None \<in> set ds then (w, Inl (JsError ''invalid input syntax''))
     else (w, Inr (clamp01 (sum_list (map the ds)))))"

definition contradiction_counts :: "node_row list \<Rightarrow> int \<times> int" where
  "contradiction_counts rows =
     (count_of (has_type ''contradiction'' ''active'') rows,
      count_of (\<lambda>n. has_type ''contradiction'' ''active'' n \<or> has_type ''contradiction'' ''resolved'' n) rows)"

definition day_ms :: int where
  "day_ms = 24 * 60 * 60 * 1000"

definition fresh_enough :: "int option \<Rightarrow> int \<Rightarrow> node_row \<Rightarrow> bool" where
  "fresh_enough days now n =
    (case days of
       None \<Rightarrow> True
     | Some d \<Rightarrow> d \<le> 0 \<or> (case nd_valid_to n of None \<Rightarrow> True | Some t \<Rightarrow> now - d * day_ms \<le> t))"

definition coverage_of :: "string list \<Rightarrow> int option \<Rightarrow> int \<Rightarrow> node_row list \<Rightarrow> rat" where
  "coverage_of required days now rows =
    (let present = nd_type ` set (filter (fresh_enough days now) rows) in
     of_nat (length (filter (\<lambda>t. t \<in> present) required)) / of_nat (length required))"

definition getEvidenceCoverageForScope :: "evidence_schema \<Rightarrow> string \<Rightarrow> (world, rat) exec" where
  "getEvidenceCoverageForScope schema scopeId =
    (case schema of
       None \<Rightarrow> ret 1
     | Some (required, days) \<Rightarrow>
         if required = [] then ret 1
         else try_catch
           (external (\<lambda>w. (w, Inr (coverage_of required days (w_now w) (current_nodes scopeId w)))))
           (\<lambda>_. ret 1))"

definition graph_snapshot :: "claim_aggregates \<Rightarrow> rat \<Rightarrow> rat \<Rightarrow> int \<times> int \<Rightarrow> rat \<Rightarrow> finality_snapshot" where
  "graph_snapshot cl ratio risk contra cov =
     \<lparr> fs_claims_min = ca_min cl, fs_claims_count = ca_count cl, fs_claims_avg = ca_avg cl,
       fs_contra_unresolved = fst contra, fs_contra_total = snd contra,
       fs_risks_critical = ca_critical cl, fs_goals_ratio = ratio, fs_risk = risk,
       fs_idle_cycles = None, fs_delta_age = None, fs_active_age = None, fs_unaddressed = None,
       fs_contra_mass = Some (of_int (fst contra)), fs_coverage = Some cov \<rparr>"

definition no_claims :: claim_aggregates where
  "no_claims = \<lparr> ca_min = 0, ca_count = 0, ca_avg = 0, ca_critical = 0 \<rparr>"

definition loadFinalitySnapshotImpl :: "evidence_schema \<Rightarrow> string \<Rightarrow> (world, finality_snapshot) exec" where
  "loadFinalitySnapshotImpl schema scopeId =
     and_then (external (\<lambda>w. (w, Inr (claim_aggregates_of (current_nodes scopeId w)))))
       (\<lambda>cl. and_then (external (\<lambda>w. (w, Inr (goals_ratio (current_nodes scopeId w)))))
         (\<lambda>ratio.
            if ca_count cl = 0
            then and_then (getEvidenceCoverageForScope schema scopeId)
              (\<lambda>cov. ret (graph_snapshot no_claims ratio 0 (0, 0) cov))
            else and_then (scope_risk scopeId)
              (\<lambda>risk. and_then (external (\<lambda>w. (w, Inr (contradiction_counts (current_nodes scopeId w)))))
                (\<lambda>contra. and_then (getEvidenceCoverageForScope schema scopeId)
                  (\<lambda>cov. ret (graph_snapshot cl ratio risk contra cov))))))"

definition loadFinalitySnapshot :: "evidence_schema \<Rightarrow> string \<Rightarrow> (world, finality_snapshot) exec" where
  "loadFinalitySnapshot schema scopeId =
     try_catch (loadFinalitySnapshotImpl schema scopeId) (\<lambda>_. ret default_snapshot)"

section \<open>What a snapshot says\<close>

text \<open>The snapshot of a scope when no call fails, as a function of its current nodes.\<close>

definition snapshot_of :: "evidence_schema \<Rightarrow> int \<Rightarrow> node_row list \<Rightarrow> finality_snapshot" where
  "snapshot_of schema now rows =
    (let cl = claim_aggregates_of rows;
         cov = (case schema of None \<Rightarrow> 1
                | Some (required, days) \<Rightarrow> if required = [] then 1 else coverage_of required days now rows) in
     if ca_count cl = 0 then graph_snapshot no_claims (goals_ratio rows) 0 (0, 0) cov
     else if None \<in> set (risk_deltas rows) then default_snapshot
     else graph_snapshot cl (goals_ratio rows) (clamp01 (sum_list (map the (risk_deltas rows))))
            (contradiction_counts rows) cov)"

lemma current_nodes_tick [simp]: "current_nodes sc (tick w) = current_nodes sc w"
  by (simp add: current_nodes_def)

lemma coverage_ok:
  assumes "\<And>k. \<not> w_faults w k"
  shows "\<exists>w'. getEvidenceCoverageForScope schema sc w = (w', Inr
      (case schema of None \<Rightarrow> 1 | Some (required, days) \<Rightarrow>
         if required = [] then 1 else coverage_of required days (w_now w) (current_nodes sc w)))
    \<and> (w' = w \<or> w' = tick w)"
  using assms by (auto simp: getEvidenceCoverageForScope_def try_catch_def external_def split: option.splits)



end
