(* ===== verification/Contradictions.thy ===== *)
theory Contradictions
  imports Equivalence_Trace
begin

text \<open>
  The unresolved contradictions of a scope, \<open>src/semantic-graph/contradictions.ts\<close>, and their
  resolution, \<open>src/resolutionService.ts\<close>: loading the details (which writes a node for every
  \<open>contradicts\<close> edge it finds without one), marking a contradiction resolved with the cascade to its
  near duplicates, and the resolution of several contradictions by one text.

  The embedding service and the language model are the arguments of the operations that call them;
  the write-back to the object store, a best-effort copy no modelled code reads, is one call that
  may fail. Times inside JSON columns are left out.
\<close>

section \<open>Details of the unresolved contradictions\<close>

record contradiction_detail =
  cd_node :: string
  cd_content :: string
  cd_side_a :: "string option"
  cd_side_b :: "string option"
  cd_related :: "string list option"

definition pairKey :: "string \<Rightarrow> string \<Rightarrow> string" where
  "pairKey a b =
    (let x = str_lower (str_trim a); y = str_lower (str_trim b) in
     if x \<le> y then x @ ''::'' @ y else y @ ''::'' @ x)"

definition isDuplicateContent :: "contradiction_detail list \<Rightarrow> string \<Rightarrow> bool" where
  "isDuplicateContent out candidate = list_ex (\<lambda>d. tokenOverlap candidate (cd_content d) \<ge> 1 / 2) out"

definition active_contradictions :: "string \<Rightarrow> world \<Rightarrow> node_row list" where
  "active_contradictions scopeId w =
     filter (\<lambda>n. nd_scope n = scopeId \<and> nd_type n = ''contradiction'' \<and> nd_status n = ''active''
               \<and> node_current (w_now w) n) (w_nodes w)"

definition non_empty :: "string option \<Rightarrow> string option" where
  "non_empty x = (case x of Some (c # cs) \<Rightarrow> Some (c # cs) | _ \<Rightarrow> None)"

definition related_claims :: "string \<Rightarrow> node_row \<Rightarrow> (world, string list option) exec" where
  "related_claims scopeId n =
    (case (non_empty (json_str (map_get (nd_meta n) ''claim_source_id'')),
           non_empty (json_str (map_get (nd_meta n) ''claim_target_id''))) of
       (Some s, Some t) \<Rightarrow>
         external (\<lambda>w. (w, Inr (Some (filter (\<lambda>c. c \<noteq> []) (map nd_content
            (filter (\<lambda>m. nd_id m \<in> {s, t} \<and> nd_scope m = scopeId) (w_nodes w)))))))
     | _ \<Rightarrow> ret None)"

definition node_detail :: "node_row \<Rightarrow> string list option \<Rightarrow> contradiction_detail" where
  "node_detail n related =
     \<lparr> cd_node = nd_id n, cd_content = nd_content n,
       cd_side_a = map_option fst (parseContradictionSides (nd_content n)),
       cd_side_b = map_option snd (parseContradictionSides (nd_content n)), cd_related = related \<rparr>"

definition seen_sides :: "string \<Rightarrow> string list \<Rightarrow> string list" where
  "seen_sides content seen =
    (case parseContradictionSides content of
       None \<Rightarrow> seen
     | Some (a, b) \<Rightarrow> (if a \<noteq> [] \<or> b \<noteq> [] then pairKey a b # seen else seen))"

fun collect_nodes ::
  "string \<Rightarrow> node_row list \<Rightarrow> contradiction_detail list \<Rightarrow> string list
   \<Rightarrow> (world, contradiction_detail list \<times> string list) exec" where
  "collect_nodes scopeId [] out seen = ret (out, seen)"
| "collect_nodes scopeId (n # ns) out seen =
     (if isDuplicateContent out (nd_content n) then collect_nodes scopeId ns out seen
      else and_then (related_claims scopeId n)
        (\<lambda>related. collect_nodes scopeId ns (out @ [node_detail n related])
                    (seen_sides (nd_content n) seen)))"

text \<open>The \<open>contradicts\<close> edges between two live nodes whose valid times overlap and neither end of
  which is resolved. A comparison with NULL is not true.\<close>

definition before_end :: "int option \<Rightarrow> int option \<Rightarrow> bool" where
  "before_end start ending =
    (case start of None \<Rightarrow> False | Some s \<Rightarrow> (case ending of None \<Rightarrow> True | Some e \<Rightarrow> s < e))"

definition valid_times_overlap :: "node_row \<Rightarrow> node_row \<Rightarrow> bool" where
  "valid_times_overlap n m =
    ((nd_valid_from n = None \<and> nd_valid_to n = None) \<or> (nd_valid_from m = None \<and> nd_valid_to m = None)
     \<or> (before_end (nd_valid_from n) (nd_valid_to m) \<and> before_end (nd_valid_from m) (nd_valid_to n)))"

definition live_end :: "edge_row \<Rightarrow> string \<Rightarrow> node_row \<Rightarrow> bool" where
  "live_end e i n = (nd_id n = i \<and> nd_scope n = eg_scope e \<and> nd_superseded n = None)"

definition joined :: "edge_row \<Rightarrow> node_row list \<Rightarrow> (edge_row \<times> node_row \<times> node_row) list" where
  "joined e ns =
     filter (\<lambda>(e, n, m). live_end e (eg_source e) n \<and> live_end e (eg_target e) m \<and> valid_times_overlap n m)
       (map (\<lambda>(n, m). (e, n, m)) (List.product ns ns))"

definition open_edge :: "string \<Rightarrow> world \<Rightarrow> edge_row \<Rightarrow> bool" where
  "open_edge scopeId w e =
     (eg_scope e = scopeId \<and> eg_type e = ''contradicts'' \<and> edge_current (w_now w) e
      \<and> \<not> list_ex (resolving scopeId (eg_source e) (eg_target e) (w_now w)) (w_edges w))"

definition open_edges :: "string \<Rightarrow> world \<Rightarrow> (edge_row \<times> node_row \<times> node_row) list" where
  "open_edges scopeId w =
     take 20 (newest_first (\<lambda>(e, n, m). eg_created e)
       (concat (map (\<lambda>e. joined e (w_nodes w)) (filter (open_edge scopeId w) (w_edges w)))))"

definition backfill_content :: "string \<Rightarrow> string \<Rightarrow> string" where
  "backfill_content a b = str_trim a @ '' contradicts '' @ str_trim b"

definition backfill_node :: "string \<Rightarrow> node_row \<Rightarrow> node_row \<Rightarrow> node_input" where
  "backfill_node scopeId n m =
     \<lparr> ni_scope = scopeId, ni_type = ''contradiction'',
       ni_content = backfill_content (nd_content n) (nd_content m),
       ni_confidence = None, ni_status = Some ''active'', ni_source = [(''source'', JStr ''edge-backfill'')],
       ni_meta = [(''claim_source_id'', JStr (nd_id n)), (''claim_target_id'', JStr (nd_id m))],
       ni_by = Some ''edge-backfill'', ni_embedding = None, ni_valid_from = None, ni_valid_to = None \<rparr>"

definition backfill_detail :: "string \<Rightarrow> node_row \<Rightarrow> node_row \<Rightarrow> contradiction_detail" where
  "backfill_detail i n m =
    (let a = str_trim (nd_content n); b = str_trim (nd_content m) in
     \<lparr> cd_node = i, cd_content = backfill_content (nd_content n) (nd_content m),
       cd_side_a = Some a, cd_side_b = Some b, cd_related = Some (filter (\<lambda>c. c \<noteq> []) [a, b]) \<rparr>)"

fun backfill ::
  "string \<Rightarrow> (edge_row \<times> node_row \<times> node_row) list \<Rightarrow> contradiction_detail list \<Rightarrow> string list
   \<Rightarrow> (world, contradiction_detail list) exec" where
  "backfill scopeId [] out seen = ret out"
| "backfill scopeId ((e, n, m) # rows) out seen =
    (let key = pairKey (nd_content n) (nd_content m); content = backfill_content (nd_content n) (nd_content m) in
     if key \<in> set seen then backfill scopeId rows out seen
     else if str_trim content = [] \<or> content = '' contradicts '' then backfill scopeId rows out (key # seen)
     else and_then (appendNode (backfill_node scopeId n m))
       (\<lambda>i. backfill scopeId rows (if i = [] then out else out @ [backfill_detail i n m]) (key # seen)))"

definition loadUnresolvedContradictionDetails :: "string \<Rightarrow> (world, contradiction_detail list) exec" where
  "loadUnresolvedContradictionDetails scopeId =
     and_then (external (\<lambda>w. (w, Inr (take 20 (newest_first nd_created (active_contradictions scopeId w))))))
       (\<lambda>nodes. and_then (collect_nodes scopeId nodes [] [])
         (\<lambda>(out, seen). and_then (external (\<lambda>w. (w, Inr (open_edges scopeId w))))
           (\<lambda>rows. backfill scopeId rows out seen)))"

section \<open>Marking a contradiction resolved\<close>

definition getResolutions :: "string \<Rightarrow> (world, (string \<times> string) list) exec" where
  "getResolutions scopeId = external (\<lambda>w. (w, Inr (map (\<lambda>n. (nd_id n, nd_content n))
     (take 100 (newest_first nd_updated (filter (\<lambda>n. nd_scope n = scopeId \<and> nd_type n = ''contradiction''
        \<and> nd_status n = ''resolved'' \<and> nd_superseded n = None) (w_nodes w)))))))"

text \<open>The resolved contradiction nearest to a text, with \<open>cosine\<close> for the operator of the vector
  extension; no answer of the embedding service means not resolved.\<close>

definition nearest :: "(rat list \<Rightarrow> rat list \<Rightarrow> rat) \<Rightarrow> rat list \<Rightarrow> node_row list \<Rightarrow> (node_row \<times> rat) option" where
  "nearest cosine v ns =
     foldl (\<lambda>b n. case nd_embedding n of
              None \<Rightarrow> b
            | Some u \<Rightarrow> (case b of
                 None \<Rightarrow> Some (n, cosine v u)
               | Some (m, s) \<Rightarrow> if cosine v u > s then Some (n, cosine v u) else b)) None ns"

definition isResolved ::
  "(string \<Rightarrow> rat list) \<Rightarrow> (rat list \<Rightarrow> rat list \<Rightarrow> rat) \<Rightarrow> string \<Rightarrow> string \<Rightarrow> (world, bool \<times> rat option) exec" where
  "isResolved emb cosine txt scopeId =
    (if emb txt = [] then ret (False, None)
     else and_then (external (\<lambda>w. (w, Inr (nearest cosine (emb txt)
            (filter (\<lambda>n. nd_scope n = scopeId \<and> nd_type n = ''contradiction'' \<and> nd_status n = ''resolved''
                \<and> nd_superseded n = None) (w_nodes w))))))
       (\<lambda>b. case b of
          None \<Rightarrow> ret (False, Some 0)
        | Some (n, s) \<Rightarrow> ret (s \<ge> 7 / 10, Some s)))"

definition resolution_ref :: "string \<Rightarrow> string \<Rightarrow> string \<Rightarrow> json_obj" where
  "resolution_ref judgment reason source =
     [(''resolved_by'', JStr judgment), (''resolution_reason'', JStr reason), (''source'', JStr source)]"

definition near_duplicate :: "(string \<Rightarrow> string) \<Rightarrow> string \<Rightarrow> string \<Rightarrow> bool" where
  "near_duplicate canon primary other =
    (let k = contradictionPairKey canon primary in
     (k \<noteq> None \<and> contradictionPairKey canon other = k)
     \<or> contradictionContentOverlap primary other \<ge> 55 / 100)"

definition resolve_node :: "string \<Rightarrow> json_obj \<Rightarrow> (world, unit) exec" where
  "resolve_node i ref = and_then (updateNodeStatus i ''resolved'') (\<lambda>_. patch_source i ref)"

definition cascadeResolveDuplicateContradictions ::
  "(string \<Rightarrow> string) \<Rightarrow> string \<Rightarrow> string \<Rightarrow> string \<Rightarrow> string \<Rightarrow> string \<Rightarrow> (world, string list) exec" where
  "cascadeResolveDuplicateContradictions canon scopeId primaryId content judgment reason =
     and_then (external (\<lambda>w. (w, Inr (take 100 (newest_first nd_created
        (filter (\<lambda>n. nd_scope n = scopeId \<and> nd_type n = ''contradiction'' \<and> nd_status n = ''active''
           \<and> nd_superseded n = None \<and> nd_id n \<noteq> primaryId) (w_nodes w)))))))
       (\<lambda>actives.
          (let ids = map nd_id (filter (\<lambda>n. near_duplicate canon content (nd_content n)) actives);
               why = take 500 (reason @ '' (cascade-duplicate of '' @ primaryId @ '')'');
               ref = resolution_ref judgment why ''resolution-cascade'' @ [(''cascade_of'', JStr primaryId)] in
           and_then (in_order (map (\<lambda>i. resolve_node i ref) ids)) (\<lambda>_. ret ids)))"

definition resolves_edge :: "string \<Rightarrow> string \<Rightarrow> string \<Rightarrow> string \<Rightarrow> string \<Rightarrow> edge_input" where
  "resolves_edge scopeId nodeId claimId judgment reason =
     \<lparr> ei_scope = scopeId, ei_source = nodeId, ei_target = claimId, ei_type = ''resolves'', ei_weight = Some 1,
       ei_meta = [(''source'', JStr ''resolution-service''), (''judgment'', JStr judgment), (''reason'', JStr reason)],
       ei_by = Some ''resolution-service'', ei_valid_from = None, ei_valid_to = None \<rparr>"

definition link_resolution :: "string \<Rightarrow> string \<Rightarrow> node_row option \<Rightarrow> string \<Rightarrow> string \<Rightarrow> (world, unit) exec" where
  "link_resolution scopeId nodeId row judgment reason =
    (case row of
       None \<Rightarrow> ret ()
     | Some n \<Rightarrow>
        (case (non_empty (json_str (map_get (nd_meta n) ''claim_source_id'')),
               non_empty (json_str (map_get (nd_meta n) ''claim_target_id''))) of
           (Some s, Some t) \<Rightarrow>
             try_catch
               (and_then (appendEdge (resolves_edge scopeId nodeId s judgment reason))
                 (\<lambda>_. and_then (appendEdge (resolves_edge scopeId nodeId t judgment reason)) (\<lambda>_. ret ())))
               (\<lambda>_. ret ())
         | _ \<Rightarrow> ret ()))"

text \<open>The embedding \<open>emb\<close> answers the empty vector when the service is unavailable; the update of the
  column swallows its own failure.\<close>

definition embedAndPersistNode :: "(string \<Rightarrow> rat list) \<Rightarrow> string \<Rightarrow> string \<Rightarrow> (world, bool) exec" where
  "embedAndPersistNode emb nodeId content =
    (if emb content = [] then ret False
     else and_then (try_catch (update_statement (\<lambda>n. nd_id n = nodeId)
            (\<lambda>w n. n \<lparr> nd_embedding := Some (emb content), nd_updated := w_now w \<rparr>)) (\<lambda>_. ret ()))
       (\<lambda>_. ret True))"

definition markContradictionResolved ::
  "(string \<Rightarrow> string) \<Rightarrow> (string \<Rightarrow> rat list) \<Rightarrow> bool \<Rightarrow> string \<Rightarrow> string \<Rightarrow> string \<Rightarrow> string
   \<Rightarrow> (world, string option \<times> string list) exec" where
  "markContradictionResolved canon emb has_s3 nodeId scopeId judgment reason =
     and_then (external (\<lambda>w. (w, Inr (List.find (\<lambda>n. nd_id n = nodeId) (w_nodes w)))))
       (\<lambda>row. let content = (case row of None \<Rightarrow> [] | Some n \<Rightarrow> nd_content n) in
         and_then (resolve_node nodeId (resolution_ref judgment reason ''resolution-service''))
         (\<lambda>_. and_then
            (if content = [] then ret []
             else try_catch (cascadeResolveDuplicateContradictions canon scopeId nodeId content judgment reason)
                    (\<lambda>_. ret []))
         (\<lambda>cascaded. and_then (link_resolution scopeId nodeId row judgment reason)
         (\<lambda>_. and_then (if content = [] then ret False else embedAndPersistNode emb nodeId content)
         (\<lambda>_. and_then (if has_s3 \<and> content \<noteq> [] then try_catch (external (\<lambda>w. (w, Inr ()))) (\<lambda>_. ret ()) else ret ())
         (\<lambda>_. ret (map_option nd_content row, cascaded)))))))"

definition markResolved ::
  "(string \<Rightarrow> string) \<Rightarrow> (string \<Rightarrow> rat list) \<Rightarrow> bool \<Rightarrow> string \<Rightarrow> string option \<Rightarrow> string option \<Rightarrow> string option
   \<Rightarrow> (world, bool \<times> string list) exec" where
  "markResolved canon emb has_s3 nodeId scopeId judgment reason =
    (if nodeId = [] then raise (JsError ''node_id required'')
     else and_then (markContradictionResolved canon emb has_s3 nodeId (coalesce scopeId ''default'')
                      (coalesce judgment ''resolved'') (coalesce reason []))
       (\<lambda>(content, cascaded). ret (coalesce content [] \<noteq> [], cascaded)))"

section \<open>Resolution by one text\<close>

record resolution_evaluation =
  rv_node :: string
  rv_resolved :: bool
  rv_confidence :: rat
  rv_reason :: string

text \<open>The model answers a list of items whose node may be missing; no answer is the empty list.\<close>

definition evaluateResolutionWithLLM ::
  "(string \<Rightarrow> contradiction_detail list \<Rightarrow> (string option \<times> bool \<times> rat \<times> string) list option) \<Rightarrow> string
   \<Rightarrow> contradiction_detail list \<Rightarrow> resolution_evaluation list" where
  "evaluateResolutionWithLLM llm txt ds =
    (case llm txt ds of
       None \<Rightarrow> []
     | Some items \<Rightarrow>
         map (\<lambda>((nid, res, conf, why), i).
                \<lparr> rv_node = coalesce nid (if i < length ds then cd_node (ds ! i) else []),
                  rv_resolved = res, rv_confidence = conf, rv_reason = why \<rparr>)
             (zip items [0..<length items]))"

definition detail_sides :: "contradiction_detail \<Rightarrow> string list" where
  "detail_sides d =
    (let sides = filter (\<lambda>s. str_trim s \<noteq> []) (List.map_filter id [cd_side_a d, cd_side_b d]) in
     if sides = [] then [cd_content d] else sides)"

definition best_similarity :: "(string \<Rightarrow> rat list) \<Rightarrow> (rat list \<Rightarrow> rat list \<Rightarrow> rat) \<Rightarrow> string \<Rightarrow> string list \<Rightarrow> rat" where
  "best_similarity emb cosine txt sides =
     foldl (\<lambda>b s. if emb s \<noteq> [] \<and> cosine (emb txt) (emb s) > b then cosine (emb txt) (emb s) else b) 0 sides"

definition evaluateResolutionWithEmbeddings ::
  "(string \<Rightarrow> rat list) \<Rightarrow> (rat list \<Rightarrow> rat list \<Rightarrow> rat) \<Rightarrow> string \<Rightarrow> contradiction_detail list
   \<Rightarrow> resolution_evaluation list" where
  "evaluateResolutionWithEmbeddings emb cosine txt ds =
    (if emb txt = [] then []
     else map (\<lambda>d. let s = best_similarity emb cosine txt (detail_sides d) in
       \<lparr> rv_node = cd_node d, rv_resolved = (s \<ge> 55 / 100), rv_confidence = s,
         rv_reason = ''embedding similarity'' \<rparr>) ds)"

record resolution_services =
  rs_canon :: "string \<Rightarrow> string"
  rs_embed :: "string \<Rightarrow> rat list"
  rs_cosine :: "rat list \<Rightarrow> rat list \<Rightarrow> rat"
  rs_llm :: "string \<Rightarrow> contradiction_detail list \<Rightarrow> (string option \<times> bool \<times> rat \<times> string) list option"
  rs_reason :: "resolution_evaluation \<Rightarrow> string"

definition explicit_details :: "string \<Rightarrow> string list \<Rightarrow> (world, contradiction_detail list) exec" where
  "explicit_details scopeId ids = external (\<lambda>w. (w, Inr (map (\<lambda>n.
       \<lparr> cd_node = nd_id n, cd_content = nd_content n, cd_side_a = Some [], cd_side_b = Some [],
         cd_related = None \<rparr>)
     (take 10 (filter (\<lambda>n. nd_scope n = scopeId \<and> nd_id n \<in> set ids \<and> nd_type n = ''contradiction''
        \<and> nd_superseded n = None) (w_nodes w))))))"

definition accepted :: "resolution_evaluation \<Rightarrow> bool" where
  "accepted ev = (rv_resolved ev \<and> rv_confidence ev \<ge> 7 / 10 \<and> rv_node ev \<noteq> [])"

fun mark_evaluations ::
  "resolution_services \<Rightarrow> bool \<Rightarrow> string \<Rightarrow> resolution_evaluation list \<Rightarrow> (world, string list) exec" where
  "mark_evaluations rs has_s3 scopeId [] = ret []"
| "mark_evaluations rs has_s3 scopeId (ev # evs) =
     (if accepted ev
      then and_then (markContradictionResolved (rs_canon rs) (rs_embed rs) has_s3 (rv_node ev) scopeId
                       ''resolved'' (rs_reason rs ev))
        (\<lambda>(content, cascaded). and_then (mark_evaluations rs has_s3 scopeId evs)
           (\<lambda>rest. ret (rv_node ev # cascaded @ rest)))
      else mark_evaluations rs has_s3 scopeId evs)"

definition text_evaluations :: "resolution_services \<Rightarrow> string \<Rightarrow> contradiction_detail list \<Rightarrow> resolution_evaluation list" where
  "text_evaluations rs txt ds =
    (let llm = evaluateResolutionWithLLM (rs_llm rs) txt ds in
     if llm = [] then evaluateResolutionWithEmbeddings (rs_embed rs) (rs_cosine rs) txt ds else llm)"

definition markResolvedByText ::
  "resolution_services \<Rightarrow> bool \<Rightarrow> string option \<Rightarrow> string \<Rightarrow> string list
   \<Rightarrow> (world, string list \<times> resolution_evaluation list) exec" where
  "markResolvedByText rs has_s3 scopeId resolutionText ids =
    (let sc = coalesce scopeId ''default''; txt = str_trim resolutionText in
     if txt = [] then raise (JsError ''resolution_text required'')
     else and_then (if ids \<noteq> [] then explicit_details sc ids else loadUnresolvedContradictionDetails sc)
       (\<lambda>ds. if ds = [] then ret ([], [])
         else (let evs = text_evaluations rs txt (take 10 ds) in
           and_then (mark_evaluations rs has_s3 sc evs) (\<lambda>marked. ret (marked, evs)))))"

end
