(* ===== verification/Certificates.thy ===== *)
theory Certificates
  imports Swarm_World
begin

text \<open>
  Finality certificates, \<open>src/finality/certificates.ts\<close> with the policy versions of
  \<open>src/policyVersions.ts\<close>: a payload is signed as a compact JWS and read back. The alphabet and the
  grouping of base64url are modelled as the runtime's buffers do them, a byte being a character; the
  Ed25519 functions, the key texts and the JSON text of a payload are the fields of \<open>signing_env\<close>,
  and a time in a payload is in milliseconds.
\<close>

section \<open>Base64url\<close>

definition alphabet64 :: string where
  "alphabet64 = ''ABCDEFGHIJKLMNOPQRSTUVWXYZabcdefghijklmnopqrstuvwxyz0123456789-_''"

definition digit64 :: "nat \<Rightarrow> char" where
  "digit64 n = alphabet64 ! n"

fun sextets :: "nat list \<Rightarrow> nat list" where
  "sextets (a # b # c # r) =
     a div 4 # ((a mod 4) * 16 + b div 16) # ((b mod 16) * 4 + c div 64) # c mod 64 # sextets r"
| "sextets [a, b] = [a div 4, (a mod 4) * 16 + b div 16, (b mod 16) * 4]"
| "sextets [a] = [a div 4, (a mod 4) * 16]"
| "sextets [] = []"

fun octets :: "nat list \<Rightarrow> nat list" where
  "octets (p # q # r # s # t) =
     (p * 4 + q div 16) # ((q mod 16) * 16 + r div 4) # ((r mod 4) * 64 + s) # octets t"
| "octets [p, q, r] = [p * 4 + q div 16, (q mod 16) * 16 + r div 4]"
| "octets [p, q] = [p * 4 + q div 16]"
| "octets _ = []"

definition to_base64url :: "string \<Rightarrow> string" where
  "to_base64url s = map digit64 (sextets (map of_char s))"

fun position64 :: "char \<Rightarrow> string \<Rightarrow> nat option" where
  "position64 c [] = None"
| "position64 c (d # ds) = (if c = d then Some 0 else map_option Suc (position64 c ds))"

text \<open>Both alphabets are read; a character outside them is skipped.\<close>

definition value64 :: "char \<Rightarrow> nat option" where
  "value64 c =
     (if c = CHR ''+'' then Some 62 else if c = CHR ''/'' then Some 63 else position64 c alphabet64)"

definition from_base64url :: "string \<Rightarrow> string" where
  "from_base64url s = map char_of (octets (List.map_filter value64 s))"

section \<open>The payload\<close>

record certificate_payload =
  cl_scope_id :: string
  cl_decision :: string
  cl_timestamp :: int
  cl_governance :: "string option"
  cl_finality :: "string option"
  cl_dimensions :: "(string \<times> rat) list option"

text \<open>\<open>hash\<close> stands for SHA-256 in hexadecimal; a file that does not exist has the version
  \<open>no-file\<close>.\<close>

definition policy_version :: "(string \<Rightarrow> string) \<Rightarrow> string option \<Rightarrow> string" where
  "policy_version hash content = (case content of None \<Rightarrow> ''no-file'' | Some c \<Rightarrow> hash c)"

record signing_env =
  sg_private_pem :: "string option"
  sg_public_pem :: "string option"
  sg_valid_pem :: "string \<Rightarrow> bool"
  sg_ephemeral :: "string \<times> string"
  sg_sign :: "string \<Rightarrow> string \<Rightarrow> string"
  sg_check :: "string \<Rightarrow> string \<Rightarrow> string \<Rightarrow> bool"
  sg_text :: "certificate_payload \<Rightarrow> string"
  sg_read :: "string \<Rightarrow> certificate_payload option"
  sg_hash :: "string \<Rightarrow> string"
  sg_governance_file :: "string option"
  sg_finality_file :: "string option"

definition buildCertificatePayload ::
  "signing_env \<Rightarrow> string \<Rightarrow> string \<Rightarrow> (string \<times> rat) list option \<Rightarrow> (string option \<times> string option) option
   \<Rightarrow> int \<Rightarrow> certificate_payload" where
  "buildCertificatePayload env scopeId decision dims versions now =
    (let (g, f) = coalesce versions
           (Some (policy_version (sg_hash env) (sg_governance_file env)),
            Some (policy_version (sg_hash env) (sg_finality_file env))) in
     \<lparr> cl_scope_id = scopeId, cl_decision = decision, cl_timestamp = now, cl_governance = g,
       cl_finality = f, cl_dimensions = dims \<rparr>)"

section \<open>Signing and verifying\<close>

text \<open>The public and the private key; an empty text in the environment counts as none.\<close>

definition present :: "string option \<Rightarrow> bool" where
  "present p = (p \<noteq> None \<and> p \<noteq> Some [])"

definition getSigningKey :: "signing_env \<Rightarrow> js_error + (string option \<times> string)" where
  "getSigningKey env =
    (if present (sg_private_pem env)
     then (if \<not> sg_valid_pem env (the (sg_private_pem env)) then Inl (JsError ''private key'')
           else if \<not> present (sg_public_pem env) then Inr (None, the (sg_private_pem env))
           else if \<not> sg_valid_pem env (the (sg_public_pem env)) then Inl (JsError ''public key'')
           else Inr (sg_public_pem env, the (sg_private_pem env)))
     else Inr (Some (fst (sg_ephemeral env)), snd (sg_ephemeral env)))"

definition jws_header :: string where
  "jws_header =
    (let q = [CHR 0x22]; field = (\<lambda>k v. q @ k @ q @ '':'' @ q @ v @ q) in
     [CHR 0x7B] @ field ''alg'' ''EdDSA'' @ '','' @ field ''typ'' ''JWS'' @ [CHR 0x7D])"

definition signCertificate :: "signing_env \<Rightarrow> certificate_payload \<Rightarrow> js_error + string" where
  "signCertificate env p =
    (let toSign = to_base64url jws_header @ ''.'' @ to_base64url (sg_text env p) in
     case getSigningKey env of
       Inl e \<Rightarrow> Inl e
     | Inr (_, priv) \<Rightarrow> Inr (toSign @ ''.'' @ to_base64url (sg_sign env priv toSign)))"

fun split_on :: "char \<Rightarrow> string \<Rightarrow> string list" where
  "split_on c [] = [[]]"
| "split_on c (d # ds) =
     (if d = c then [] # split_on c ds
      else case split_on c ds of [] \<Rightarrow> [[d]] | p # ps \<Rightarrow> (d # p) # ps)"

definition verifyCertificate :: "signing_env \<Rightarrow> string \<Rightarrow> js_error + certificate_payload" where
  "verifyCertificate env jws =
    (case split_on CHR ''.'' jws of
       [h, p, s] \<Rightarrow>
         (case getSigningKey env of
            Inl e \<Rightarrow> Inl e
          | Inr (None, _) \<Rightarrow> Inl (JsError ''FINALITY_CERT_PUBLIC_KEY_PEM required for verification'')
          | Inr (Some pub, _) \<Rightarrow>
             if \<not> sg_check env pub (h @ ''.'' @ p) (from_base64url s)
             then Inl (JsError ''JWS signature verification failed'')
             else (case sg_read env (from_base64url p) of
                     None \<Rightarrow> Inl (JsError ''SyntaxError'')
                   | Some x \<Rightarrow> Inr x))
     | _ \<Rightarrow> Inl (JsError ''Invalid JWS: expected 3 parts''))"

definition persistCertificate :: "signing_env \<Rightarrow> string \<Rightarrow> string \<Rightarrow> certificate_payload \<Rightarrow> (world, unit) exec" where
  "persistCertificate env scopeId jws p =
     external (\<lambda>w. (w \<lparr> w_certificates := w_certificates w @
        [\<lparr> ct_scope = scopeId, ct_jws = jws, ct_payload = sg_text env p, ct_created = w_now w \<rparr>] \<rparr>, Inr ()))"

text \<open>Of rows of one time the last inserted is taken.\<close>

definition getLatestCertificate ::
  "signing_env \<Rightarrow> string \<Rightarrow> (world, (string \<times> certificate_payload) option) exec" where
  "getLatestCertificate env scopeId =
     external (\<lambda>w. (w, case rev (sort_key ct_created (filter (\<lambda>r. ct_scope r = scopeId) (w_certificates w))) of
        [] \<Rightarrow> Inr None
      | r # _ \<Rightarrow> (case sg_read env (ct_payload r) of
           None \<Rightarrow> Inl (JsError ''SyntaxError'') | Some p \<Rightarrow> Inr (Some (ct_jws r, p)))))"

section \<open>Round trips\<close>

lemma position64_nth: "distinct ds \<Longrightarrow> n < length ds \<Longrightarrow> position64 (ds ! n) ds = Some n"
proof (induction ds arbitrary: n)
  case (Cons d ds)
  then show ?case by (cases n) (auto simp: nth_mem)
qed simp

lemma alphabet64_facts: "distinct alphabet64" "length alphabet64 = 64"
    "CHR ''+'' \<notin> set alphabet64" "CHR ''/'' \<notin> set alphabet64" "CHR ''.'' \<notin> set alphabet64"
  by (simp_all add: alphabet64_def)

lemma digit64_mem: "n < 64 \<Longrightarrow> digit64 n \<in> set alphabet64"
  by (simp add: digit64_def alphabet64_facts nth_mem)

lemma value64_digit64: "n < 64 \<Longrightarrow> value64 (digit64 n) = Some n"
proof -
  assume n: "n < 64"
  then have "digit64 n \<noteq> CHR ''+''" "digit64 n \<noteq> CHR ''/''" using digit64_mem alphabet64_facts by metis+
  then show ?thesis using n position64_nth[of alphabet64 n] alphabet64_facts
    by (simp add: value64_def digit64_def)
qed

lemma sextets_below: "list_all (\<lambda>n. n < 256) ns \<Longrightarrow> list_all (\<lambda>n. n < 64) (sextets ns)"
  by (induction ns rule: sextets.induct) auto

lemma mixed_digits: "x < m \<Longrightarrow> (k * m + x) div m = k" "x < m \<Longrightarrow> (k * m + x) mod m = x" for x m k :: nat
  by simp_all

lemma octets_sextets: "list_all (\<lambda>n. n < 256) ns \<Longrightarrow> octets (sextets ns) = ns"
proof (induction ns rule: sextets.induct)
  case (1 a b c r)
  then have "b div 16 < 16" "c div 64 < 4" and r: "octets (sextets r) = r" by auto
  then show ?case by (simp only: sextets.simps octets.simps mixed_digits div_mult_mod_eq)
next
  case (2 a b)
  then have "b div 16 < 16" by auto
  then show ?case
    using mixed_digits[of 0 4 "b mod 16"]
    by (simp only: sextets.simps octets.simps mixed_digits div_mult_mod_eq add_0_right)
next
  case (3 a)
  then show ?case
    using mixed_digits[of 0 16 "a mod 4"]
    by (simp only: sextets.simps octets.simps div_mult_mod_eq add_0_right)
qed simp

lemma map_filter_digits: "list_all (\<lambda>n. n < 64) ns \<Longrightarrow> List.map_filter value64 (map digit64 ns) = ns"
  by (induction ns) (simp_all add: List.map_filter_def value64_digit64)

lemma bytes_below: "list_all (\<lambda>n. n < 256) (map (of_char :: char \<Rightarrow> nat) s)"
  by (simp add: list_all_iff)

lemma base64url_round_trip: "from_base64url (to_base64url s) = s"
  by (simp add: from_base64url_def to_base64url_def map_filter_digits sextets_below octets_sextets bytes_below
      map_idI)

lemma base64url_no_dot: "CHR ''.'' \<notin> set (to_base64url s)"
  using sextets_below[OF bytes_below, of s] digit64_mem alphabet64_facts(5)
  by (auto simp: to_base64url_def list_all_iff)

lemma split_on_plain: "c \<notin> set s \<Longrightarrow> split_on c s = [s]"
  by (induction s) auto

lemma split_on_append: "c \<notin> set s \<Longrightarrow> split_on c (s @ c # t) = s # split_on c t"
  by (induction s) auto

text \<open>
  C35. A certificate reads back: signed with a key whose public half is configured - or with the
  process's own pair - it verifies and yields the payload that was signed, whatever bytes the JSON
  text holds, provided the pair's signatures verify and the JSON text of the payload reads back.
\<close>

theorem certificate_round_trip:
  assumes "signCertificate env p = Inr jws" and "getSigningKey env = Inr (Some pub, priv)"
    and sig: "\<And>m. sg_check env pub m (sg_sign env priv m)" and json: "sg_read env (sg_text env p) = Some p"
  shows "verifyCertificate env jws = Inr p"
proof -
  let ?h = "to_base64url jws_header" and ?p = "to_base64url (sg_text env p)"
  let ?s = "to_base64url (sg_sign env priv (?h @ ''.'' @ ?p))"
  have "jws = ?h @ CHR ''.'' # ?p @ CHR ''.'' # ?s"
    using assms(1,2) by (simp add: signCertificate_def)
  then have "split_on CHR ''.'' jws = [?h, ?p, ?s]"
    by (simp add: split_on_append split_on_plain base64url_no_dot)
  then show ?thesis
    using assms(2) sig[of "?h @ ''.'' @ ?p"] json
    by (simp add: verifyCertificate_def base64url_round_trip)
qed

text \<open>What is accepted was signed: the signature of an accepted certificate verifies under the public
  key, for the header and payload as they stand in it, and the header is not looked at.\<close>

lemma verified_was_checked:
  assumes "verifyCertificate env jws = Inr p"
  obtains h b s pub priv where "split_on CHR ''.'' jws = [h, b, s]" "getSigningKey env = Inr (Some pub, priv)"
    "sg_check env pub (h @ ''.'' @ b) (from_base64url s)" "sg_read env (from_base64url b) = Some p"
  using assms that by (auto simp: verifyCertificate_def split: list.splits sum.splits option.splits if_splits)

definition sample_certificate :: certificate_payload where
  "sample_certificate = \<lparr> cl_scope_id = ''s'', cl_decision = ''RESOLVED'', cl_timestamp = 7,
     cl_governance = None, cl_finality = None, cl_dimensions = None \<rparr>"

definition sample_signing :: signing_env where
  "sample_signing = \<lparr> sg_private_pem = Some ''k'', sg_public_pem = Some ''k'', sg_valid_pem = (\<lambda>_. True),
     sg_ephemeral = ([], []), sg_sign = (\<lambda>k m. k @ m), sg_check = (\<lambda>k m s. s = k @ m),
     sg_text = cl_decision,
     sg_read = (\<lambda>t. if t = ''RESOLVED'' then Some sample_certificate else None), sg_hash = id,
     sg_governance_file = None, sg_finality_file = None \<rparr>"

theorem certificate_round_trip_witness:
  "\<exists>jws. signCertificate sample_signing sample_certificate = Inr jws
     \<and> verifyCertificate sample_signing jws = Inr sample_certificate"
proof -
  have k: "getSigningKey sample_signing = Inr (Some ''k'', ''k'')"
    by (simp add: getSigningKey_def sample_signing_def present_def)
  then obtain jws where jws: "signCertificate sample_signing sample_certificate = Inr jws"
    by (simp add: signCertificate_def)
  show ?thesis
    using certificate_round_trip[OF jws k] jws by (simp add: sample_signing_def sample_certificate_def)
qed

end
