(* ===== verification/Finality_Input.thy ===== *)
theory Finality_Input
  imports Graph_Snapshot Contradictions Convergence Evidence_State Action_Executor Certificates
begin

text \<open>
  What a finality evaluation reads and writes before it decides, from \<open>src/finality/evaluator.ts\<close>:
  the configuration, the inputs with the convergence point they record, the gate state, the closing
  of a session and the certificate. The parsed \<open>finality.yaml\<close> and the environment are the fields of
  \<open>finality_env\<close>; a YAML scalar in a condition is its text.
\<close>

section \<open>Configuration\<close>

datatype yaml_condition = CondText string | CondObject "(string \<times> string) list"

record finality_rule =
  fu_mode :: string
  fu_conditions :: "yaml_condition list"

record convergence_yaml =
  cy_beta :: "nat option"
  cy_tau :: "nat option"
  cy_alpha :: "rat option"
  cy_plateau :: "rat option"
  cy_depth :: "nat option"
  cy_divergence :: "rat option"

record finality_config =
  fc_weights :: "weights option"
  fc_near :: "rat option"
  fc_auto :: "rat option"
  fc_convergence :: "convergence_yaml option"
  fc_quiescence :: "(int \<times> int) option"
  fc_iss :: "(bool \<times> string option) option"
  fc_vector :: "vector_config option"
  fc_dirichlet :: "(bool \<times> rat option) option"
  fc_rules :: "(string \<times> finality_rule) list"

text \<open>A file that cannot be read or holds no rules gives an empty configuration.\<close>

definition empty_config :: finality_config where
  "empty_config = \<lparr> fc_weights = None, fc_near = None, fc_auto = None, fc_convergence = None,
     fc_quiescence = None, fc_iss = None, fc_vector = None, fc_dirichlet = None, fc_rules = [] \<rparr>"

record finality_env =
  fv_file :: "finality_config option"
  fv_near_env :: "rat option"
  fv_auto_env :: "rat option"
  fv_schema :: evidence_schema
  fv_fns :: numeric_fns
  fv_engine :: engine
  fv_signing :: signing_env
  fv_sha :: content_sha
  fv_cooldown :: int
  fv_gates_disabled :: bool
  fv_min_epoch :: int

definition loadFinalityConfig :: "finality_env \<Rightarrow> finality_config" where
  "loadFinalityConfig env = coalesce (fv_file env) empty_config"

definition unit_or :: "rat option \<Rightarrow> rat \<Rightarrow> rat" where
  "unit_or x d = (case x of None \<Rightarrow> d | Some r \<Rightarrow> if 0 \<le> r \<and> r \<le> 1 then r else d)"

text \<open>The thresholds: an unset environment variable reads as not a number.\<close>

definition getFinalityThresholds :: "finality_env \<Rightarrow> rat \<times> rat" where
  "getFinalityThresholds env = (unit_or (fv_near_env env) (75 / 100), unit_or (fv_auto_env env) (92 / 100))"

definition conditionToString :: "yaml_condition \<Rightarrow> string" where
  "conditionToString c =
    (case c of
       CondText s \<Rightarrow> s
     | CondObject [] \<Rightarrow> []
     | CondObject ((k, v) # _) \<Rightarrow> k @ '': '' @ v)"

definition convergence_settings :: "finality_config \<Rightarrow> convergence_config" where
  "convergence_settings cfg =
    (let d = DEFAULT_CONVERGENCE_CONFIG in
     case fc_convergence cfg of
       None \<Rightarrow> d
     | Some y \<Rightarrow> d \<lparr> cf_beta := coalesce (cy_beta y) (cf_beta d), cf_tau := coalesce (cy_tau y) (cf_tau d),
         cf_ema_alpha := coalesce (cy_alpha y) (cf_ema_alpha d),
         cf_plateau := coalesce (cy_plateau y) (cf_plateau d),
         cf_depth := coalesce (cy_depth y) (cf_depth d),
         cf_divergence := coalesce (cy_divergence y) (cf_divergence d) \<rparr>)"

text \<open>The shipped \<open>finality.yaml\<close>.\<close>

definition shipped_rules :: "(string \<times> finality_rule) list" where
  "shipped_rules =
     [(''RESOLVED'', \<lparr> fu_mode = ''all'', fu_conditions =
         [CondObject [(''claims.active.min_confidence'', ''0.85'')],
          CondObject [(''contradictions.unresolved_count'', ''0'')],
          CondObject [(''risks.critical.active_count'', ''0'')],
          CondObject [(''goals.completion_ratio'', ''>= 0.90'')],
          CondObject [(''scope.risk_score'', ''< 0.20'')]] \<rparr>),
      (''ESCALATED'', \<lparr> fu_mode = ''any'', fu_conditions =
         [CondObject [(''scope.risk_score'', ''>= 0.75'')],
          CondObject [(''contradictions.unresolved_count'', ''>= 3'')],
          CondObject [(''assessments.critical_unaddressed_count'', ''>= 2'')],
          CondObject [(''scope.idle_cycles'', ''>= 10'')]] \<rparr>),
      (''BLOCKED'', \<lparr> fu_mode = ''all'', fu_conditions =
         [CondObject [(''scope.idle_cycles'', ''>= 5'')],
          CondObject [(''scope.last_delta_age_ms'', ''>= 300000'')],
          CondObject [(''contradictions.unresolved_count'', ''>= 1'')]] \<rparr>),
      (''EXPIRED'', \<lparr> fu_mode = ''all'', fu_conditions =
         [CondObject [(''scope.last_active_age_ms'', ''>= 2592000000'')]] \<rparr>)]"

definition shipped_vector :: vector_config where
  "shipped_vector = \<lparr> vc_enabled = True, vc_required = dim_names,
     vc_thresholds = [(''claim_confidence'', 85 / 100), (''contradiction_resolution'', 95 / 100),
       (''goal_completion'', 90 / 100), (''risk_score_inverse'', 80 / 100)],
     vc_veto = [''contradiction_resolution''],
     vc_epsilon = [(''claim_confidence'', 2 / 100), (''contradiction_resolution'', 1 / 100),
       (''goal_completion'', 2 / 100), (''risk_score_inverse'', 3 / 100)] \<rparr>"

definition finality_yaml :: finality_config where
  "finality_yaml = \<lparr> fc_weights = Some default_weights, fc_near = Some (40 / 100), fc_auto = Some (92 / 100),
     fc_convergence = Some \<lparr> cy_beta = Some 3, cy_tau = Some 3, cy_alpha = Some (3 / 10),
       cy_plateau = Some (1 / 100), cy_depth = Some 20, cy_divergence = Some (- (5 / 100)) \<rparr>,
     fc_quiescence = Some (0, 0), fc_iss = Some (True, Some ''escalate''), fc_vector = Some shipped_vector,
     fc_dirichlet = Some (True, Some (1 / 100)), fc_rules = shipped_rules \<rparr>"

section \<open>The inputs of an evaluation\<close>

record convergence_data =
  kd_rate :: rat
  kd_rounds :: "nat option"
  kd_plateau_rounds :: nat
  kd_v :: rat
  kd_highest :: string
  kd_monotonic :: bool
  kd_plateaued :: bool
  kd_scores :: "rat list"
  kd_quality :: rat
  kd_oscillation :: bool
  kd_dim_monotonic :: "bool list"
  kd_dim_quality :: "rat list"

record finality_input =
  fi_snapshot :: finality_snapshot
  fi_near :: rat
  fi_auto :: rat
  fi_goal :: rat
  fi_convergence :: "convergence_data option"
  fi_epoch :: int
  fi_has_content :: bool
  fi_divergence :: bool

text \<open>Gate E.\<close>

definition has_content :: "finality_snapshot \<Rightarrow> int \<Rightarrow> bool" where
  "has_content snap epoch =
     (fs_claims_count snap \<ge> 3
      \<and> (fs_contra_total snap > 0 \<or> fs_claims_count snap \<ge> 5 \<or> epoch \<ge> 2))"

definition lookup_epoch :: "string \<Rightarrow> (world, int) exec" where
  "lookup_epoch scopeId =
     try_catch (and_then (loadState scopeId)
         (\<lambda>st. ret (case st of None \<Rightarrow> 0 | Some s \<Rightarrow> gs_epoch s)))
       (\<lambda>_. ret 0)"

definition scopeHasFinalityContent :: "string \<Rightarrow> finality_snapshot \<Rightarrow> (world, bool) exec" where
  "scopeHasFinalityContent scopeId snap =
     and_then (lookup_epoch scopeId) (\<lambda>epoch. ret (has_content snap epoch))"

definition computeGoalScoreForScope :: "finality_env \<Rightarrow> string \<Rightarrow> (world, rat) exec" where
  "computeGoalScoreForScope env scopeId =
     and_then (loadFinalitySnapshot (fv_schema env) scopeId)
       (\<lambda>snap. and_then (scopeHasFinalityContent scopeId snap)
         (\<lambda>ok. ret (if ok then computeGoalScore snap (fc_weights (loadFinalityConfig env)) else 0)))"

definition facts_pipeline_types :: "string list" where
  "facts_pipeline_types = [''bootstrap'', ''context_doc'', ''resolution'']"

text \<open>The sequence number of a WAL row is its position, counted from one.\<close>

definition latest_facts_seq :: "json_obj list \<Rightarrow> int" where
  "latest_facts_seq wal =
     foldl (\<lambda>acc (i, d). if json_str (map_get d ''type'') \<in> Some ` set facts_pipeline_types then int i + 1 else acc)
       0 (zip [0..<length wal] wal)"

definition getLatestPipelineWalSeqForFacts :: "(world, int) exec" where
  "getLatestPipelineWalSeqForFacts = external (\<lambda>w. (w, Inr (latest_facts_seq (w_wal w))))"

definition convergence_point_of ::
  "finality_config \<Rightarrow> finality_snapshot \<Rightarrow> int \<Rightarrow> rat \<Rightarrow> int option \<Rightarrow> convergence_point" where
  "convergence_point_of cfg snap epoch goal seq =
     \<lparr> cp_epoch = epoch, cp_goal = goal, cp_v = computeLyapunovV snap (fc_weights cfg),
       cp_dims = computeDimensionScores snap, cp_pressure = computePressure snap (fc_weights cfg), cp_seq = seq \<rparr>"

definition convergence_data_of :: "rat \<Rightarrow> convergence_state \<Rightarrow> convergence_data" where
  "convergence_data_of v st =
    (let a = cn_analysis st in
     \<lparr> kd_rate = an_rate a, kd_rounds = an_rounds a, kd_plateau_rounds = an_plateau_rounds a, kd_v = v,
       kd_highest = cn_highest_name st, kd_monotonic = an_monotonic a, kd_plateaued = an_plateaued a,
       kd_scores = map cp_goal (cn_history st), kd_quality = an_quality a, kd_oscillation = an_oscillation a,
       kd_dim_monotonic = an_dim_monotonic a, kd_dim_quality = an_dim_quality a \<rparr>)"

text \<open>The convergence data with the divergence flag; a failure anywhere leaves neither.\<close>

definition track_convergence ::
  "finality_env \<Rightarrow> string \<Rightarrow> finality_snapshot \<Rightarrow> int \<Rightarrow> rat \<Rightarrow> rat \<Rightarrow> (world, convergence_data option \<times> bool) exec" where
  "track_convergence env scopeId snap epoch goal auto =
    (let cfg = loadFinalityConfig env; conv = convergence_settings cfg in
     try_catch
       (and_then (try_catch (and_then getLatestPipelineWalSeqForFacts (\<lambda>s. ret (Some s))) (\<lambda>_. ret None))
          (\<lambda>seq. and_then (recordConvergencePoint scopeId (convergence_point_of cfg snap epoch goal seq))
            (\<lambda>_. and_then (getConvergenceState (fv_fns env) scopeId conv auto)
              (\<lambda>st. ret (Some (convergence_data_of (computeLyapunovV snap (fc_weights cfg)) st),
                         an_rate (cn_analysis st) < cf_divergence conv \<and> length (cn_history st) \<ge> 3)))))
       (\<lambda>_. ret (None, False)))"

definition near_auto :: "finality_env \<Rightarrow> rat \<times> rat" where
  "near_auto env =
    (let cfg = loadFinalityConfig env; (n, a) = getFinalityThresholds env in
     (coalesce (fc_near cfg) n, coalesce (fc_auto cfg) a))"

definition input_of ::
  "finality_env \<Rightarrow> finality_snapshot \<Rightarrow> int \<Rightarrow> convergence_data option \<times> bool \<Rightarrow> finality_input" where
  "input_of env snap epoch conv =
     \<lparr> fi_snapshot = snap, fi_near = fst (near_auto env), fi_auto = snd (near_auto env),
       fi_goal = computeGoalScore snap (fc_weights (loadFinalityConfig env)), fi_convergence = fst conv,
       fi_epoch = epoch, fi_has_content = has_content snap epoch, fi_divergence = snd conv \<rparr>"

definition loadFinalityInput :: "finality_env \<Rightarrow> string \<Rightarrow> (world, finality_input) exec" where
  "loadFinalityInput env scopeId =
     and_then (loadFinalitySnapshot (fv_schema env) scopeId)
       (\<lambda>snap. and_then (lookup_epoch scopeId)
         (\<lambda>epoch. and_then (track_convergence env scopeId snap epoch
               (computeGoalScore snap (fc_weights (loadFinalityConfig env))) (snd (near_auto env)))
           (\<lambda>conv. ret (input_of env snap epoch conv))))"

section \<open>Gates\<close>

text \<open>Gate D.\<close>

definition isQuiescent :: "finality_snapshot \<Rightarrow> (int \<times> int) option \<Rightarrow> bool" where
  "isQuiescent snap q =
    (case q of
       None \<Rightarrow> True
     | Some (cycles, window) \<Rightarrow>
        (cycles \<le> 0 \<and> window \<le> 0)
        \<or> (coalesce (fs_idle_cycles snap) 0 \<ge> cycles \<and> coalesce (fs_delta_age snap) 0 \<ge> window))"

text \<open>Gate B.\<close>

definition evidence_gate :: "finality_snapshot \<Rightarrow> bool" where
  "evidence_gate snap = (coalesce (fs_contra_mass snap) 0 = 0 \<and> coalesce (fs_coverage snap) 1 \<ge> 99 / 100)"

definition gates_of :: "finality_config \<Rightarrow> int \<Rightarrow> finality_snapshot \<Rightarrow> convergence_data \<Rightarrow> string \<Rightarrow> gate_state" where
  "gates_of cfg epoch snap conv state =
     \<lparr> ga_monotonic = Some (kd_monotonic conv), ga_evidence = Some (evidence_gate snap),
       ga_trajectory = Some (kd_quality conv \<ge> 7 / 10), ga_quiescent = Some (isQuiescent snap (fc_quiescence cfg)),
       ga_has_content = Some (has_content snap epoch), ga_finality_state = Some state,
       ga_unresolved = Some (fs_contra_unresolved snap), ga_quality = Some (kd_quality conv) \<rparr>"

text \<open>The guard \<open>if (convergenceData)\<close> of every caller is inside.\<close>

definition recordGateStateIfAvailable ::
  "finality_env \<Rightarrow> string \<Rightarrow> finality_input \<Rightarrow> string \<Rightarrow> (world, unit) exec" where
  "recordGateStateIfAvailable env scopeId inp state =
    (case fi_convergence inp of
       None \<Rightarrow> ret ()
     | Some conv \<Rightarrow>
        try_catch (updateConvergenceGateState scopeId (fi_epoch inp)
            (gates_of (loadFinalityConfig env) (fi_epoch inp) (fi_snapshot inp) conv state))
          (\<lambda>_. ret ()))"

section \<open>Closing a session\<close>

definition markStudioCatalogResolved :: "string \<Rightarrow> rat \<Rightarrow> (world, unit) exec" where
  "markStudioCatalogResolved scopeId score =
     try_catch (external (\<lambda>w. ((if map_get (w_catalog w) scopeId = None then w
           else w \<lparr> w_catalog := map_set scopeId (''resolved'', score) (w_catalog w) \<rparr>), Inr ())))
       (\<lambda>_. ret ())"

definition outcome_json :: string where
  "outcome_json = (let q = [CHR 0x22] in [CHR 0x7B] @ q @ ''outcome'' @ q @ '':'' @ q @ ''RESOLVED'' @ q @ [CHR 0x7D])"

definition emitSessionFinalized :: "finality_env \<Rightarrow> string \<Rightarrow> (world, unit) exec" where
  "emitSessionFinalized env scopeId =
     and_then (try_catch (appendEvent [(''type'', JStr ''session_finalized''), (''scope_id'', JStr scopeId)]) (\<lambda>_. ret ()))
       (\<lambda>_. and_then (try_catch (and_then (computeGoalScoreForScope env scopeId) (markStudioCatalogResolved scopeId))
                (\<lambda>_. ret ()))
         (\<lambda>_. and_then (emitContribution (fv_sha env) ''finality-evaluator'' ''assessment'' outcome_json None None scopeId [])
           (\<lambda>_. ret ())))"

definition signed_payload :: "finality_env \<Rightarrow> string \<Rightarrow> world \<Rightarrow> certificate_payload" where
  "signed_payload env scopeId w =
     buildCertificatePayload (fv_signing env) scopeId ''RESOLVED'' None None (w_now w)"

definition emitFinalityCertificate :: "finality_env \<Rightarrow> string \<Rightarrow> (world, unit) exec" where
  "emitFinalityCertificate env scopeId w =
    (let p = signed_payload env scopeId w in
     case signCertificate (fv_signing env) p of
       Inl _ \<Rightarrow> ret () w
     | Inr jws \<Rightarrow> try_catch (persistCertificate (fv_signing env) scopeId jws p) (\<lambda>_. ret ()) w)"

end
