(* ===== verification/Finality_Evaluator.thy ===== *)
theory Finality_Evaluator
  imports Finality_Input Mitl_Server
begin

text \<open>
  \<open>evaluateFinality\<close> of \<open>src/finality/evaluator.ts\<close>, the review it asks a human for
  (\<open>src/finality/hitlRequest.ts\<close>) and \<open>runFinalityCheck\<close> of \<open>src/agents/governanceAgent.ts\<close>. The
  early returns of the evaluation are the stages of \<open>first_answer\<close>. The explanation the language
  model writes and the labels of the options are not modelled; nor is the push of the score to the
  Studio, which changes no table of the model.
\<close>

section \<open>Numbers in texts\<close>

fun show_nat :: "nat \<Rightarrow> string" where
  "show_nat n = (if n < 10 then [char_of (n + 48)] else show_nat (n div 10) @ [char_of (n mod 10 + 48)])"

declare show_nat.simps [simp del]

definition show_int :: "int \<Rightarrow> string" where
  "show_int i = (if i < 0 then ''-'' @ show_nat (nat (- i)) else show_nat (nat i))"

text \<open>\<open>(r * 100).toFixed(0)\<close> of a number that is not negative.\<close>

definition percent :: "rat \<Rightarrow> string" where
  "percent r = show_int \<lfloor>r * 100 + 1 / 2\<rfloor> @ ''%''"

section \<open>The review\<close>

datatype dimension_status = DimOk | DimPartial | DimBlocking

record dimension_entry =
  de_name :: string
  de_score :: rat
  de_weight :: rat
  de_status :: dimension_status
  de_detail :: string

record blocker =
  bl_type :: string
  bl_nodes :: "string list"
  bl_description :: string
  bl_content :: "string option"
  bl_choices :: "(string \<times> string) list"

record review_request =
  rq_scope :: string
  rq_goal :: rat
  rq_near :: rat
  rq_auto :: rat
  rq_gap :: rat
  rq_breakdown :: "dimension_entry list"
  rq_blockers :: "blocker list"
  rq_actions :: "string list"
  rq_options :: "(string \<times> int option) list"
  rq_convergence :: "convergence_data option"

datatype finality_result = FinalStatus string | FinalReview review_request

definition graded :: "bool \<Rightarrow> bool \<Rightarrow> dimension_status" where
  "graded good fair = (if good then DimOk else if fair then DimPartial else DimBlocking)"

definition buildDimensionBreakdown :: "finality_snapshot \<Rightarrow> weights option \<Rightarrow> dimension_entry list" where
  "buildDimensionBreakdown s ws =
    (let w = coalesce ws default_weights;
         contra = (if fs_contra_total s = 0 then 1
                   else 1 - of_int (fs_contra_unresolved s) / of_int (fs_contra_total s)) in
     [\<lparr> de_name = ''claim_confidence'', de_score = min (fs_claims_avg s / (85 / 100)) 1, de_weight = we_claim w,
        de_status = graded (fs_claims_min s \<ge> 85 / 100) (fs_claims_min s \<ge> 65 / 100),
        de_detail = ''min '' @ percent (fs_claims_min s) @ '', avg '' @ percent (fs_claims_avg s) \<rparr>,
      \<lparr> de_name = ''contradiction_resolution'', de_score = contra, de_weight = we_contra w,
        de_status = graded (fs_contra_unresolved s = 0) False,
        de_detail = show_int (fs_contra_unresolved s) @ '' of '' @ show_int (fs_contra_total s)
          @ '' contradictions unresolved'' \<rparr>,
      \<lparr> de_name = ''goal_completion'', de_score = fs_goals_ratio s, de_weight = we_goal w,
        de_status = graded (fs_goals_ratio s \<ge> 9 / 10) (fs_goals_ratio s \<ge> 7 / 10),
        de_detail = ''completion ratio '' @ percent (fs_goals_ratio s) \<rparr>,
      \<lparr> de_name = ''risk_score_inverse'', de_score = 1 - min (fs_risk s) 1, de_weight = we_risk w,
        de_status = graded (fs_risk s < 2 / 10) (fs_risk s < 5 / 10),
        de_detail = ''scope risk score '' @ percent (fs_risk s) \<rparr>])"

definition shorten :: "nat \<Rightarrow> string \<Rightarrow> string" where
  "shorten n s = take n s @ (if length s > n then map char_of [226, 128, 166 :: nat] else [])"

definition side_choice :: "string \<Rightarrow> string option \<Rightarrow> (string \<times> string) list" where
  "side_choice i side = (case side of None \<Rightarrow> [] | Some s \<Rightarrow> if s = [] then [] else [(i, shorten 120 s)])"

definition contradiction_blocker :: "contradiction_detail \<Rightarrow> blocker" where
  "contradiction_blocker d =
     \<lparr> bl_type = ''unresolved_contradiction'', bl_nodes = (if cd_node d = [] then [] else [cd_node d]),
       bl_description = shorten 200 (cd_content d), bl_content = Some (cd_content d),
       bl_choices = side_choice ''a'' (cd_side_a d) @ side_choice ''b'' (cd_side_b d) \<rparr>"

definition bare_blocker :: "string \<Rightarrow> string \<Rightarrow> blocker" where
  "bare_blocker t why = \<lparr> bl_type = t, bl_nodes = [], bl_description = why, bl_content = None, bl_choices = [] \<rparr>"

definition other_blockers :: "finality_snapshot \<Rightarrow> blocker list" where
  "other_blockers s =
     (if fs_risks_critical s > 0
      then [bare_blocker ''critical_risk'' (show_int (fs_risks_critical s) @ '' critical risk(s) active'')] else [])
     @ (if fs_claims_min s < 65 / 100
        then [bare_blocker ''low_confidence_claims''
                (''min claim confidence '' @ percent (fs_claims_min s) @ '' (need 65%)'')] else [])"

definition buildBlockers :: "string \<Rightarrow> finality_snapshot \<Rightarrow> (world, blocker list) exec" where
  "buildBlockers scopeId s =
    (if fs_contra_unresolved s > 0
     then and_then
       (try_catch (and_then (loadUnresolvedContradictionDetails scopeId)
            (\<lambda>ds. ret (map contradiction_blocker ds)))
          (\<lambda>_. ret [bare_blocker ''unresolved_contradiction''
             (show_int (fs_contra_unresolved s) @ '' unresolved contradiction(s)'')]))
       (\<lambda>bs. ret (bs @ other_blockers s))
     else ret (other_blockers s))"

definition review_options :: "(string \<times> int option) list" where
  "review_options =
     [(''approve_finality'', None), (''provide_resolution'', None), (''escalate'', None), (''defer'', Some 7)]"

definition drift_action :: string where
  "drift_action = ''Provide a resolution to address the drift and unblock the pipeline''"

definition drift_blocker :: "string \<Rightarrow> blocker" where
  "drift_blocker level = bare_blocker ''drift_blocking''
     (''Drift is '' @ level
      @ ''; governance blocks advancement until resolved. Provide a resolution to unblock.'')"

definition review_of ::
  "finality_env \<Rightarrow> string \<Rightarrow> finality_input \<Rightarrow> blocker list \<Rightarrow> string list \<Rightarrow> review_request" where
  "review_of env scopeId inp blockers actions =
     \<lparr> rq_scope = scopeId, rq_goal = fi_goal inp, rq_near = fi_near inp, rq_auto = fi_auto inp,
       rq_gap = fi_auto inp - fi_goal inp,
       rq_breakdown = buildDimensionBreakdown (fi_snapshot inp) (fc_weights (loadFinalityConfig env)),
       rq_blockers = blockers, rq_actions = actions, rq_options = review_options,
       rq_convergence = fi_convergence inp \<rparr>"

section \<open>The stages\<close>

fun first_answer :: "(world, 'a option) exec list \<Rightarrow> (world, 'a) exec \<Rightarrow> (world, 'a) exec" where
  "first_answer [] otherwise = otherwise"
| "first_answer (m # ms) otherwise =
     and_then m (\<lambda>r. case r of Some x \<Rightarrow> ret x | None \<Rightarrow> first_answer ms otherwise)"

type_synonym answer = "finality_result option"

text \<open>Record the gate state, then answer.\<close>

definition conclude ::
  "finality_env \<Rightarrow> string \<Rightarrow> finality_input \<Rightarrow> string \<Rightarrow> answer \<Rightarrow> (world, answer option) exec" where
  "conclude env scopeId inp state answer =
     and_then (recordGateStateIfAvailable env scopeId inp state) (\<lambda>_. ret (Some answer))"

definition resolve_scope :: "finality_env \<Rightarrow> string \<Rightarrow> (world, answer option) exec" where
  "resolve_scope env scopeId =
     and_then (emitSessionFinalized env scopeId)
       (\<lambda>_. and_then (emitFinalityCertificate env scopeId)
         (\<lambda>_. ret (Some (Some (FinalStatus ''RESOLVED'')))))"

text \<open>The latest human decision: an approval resolves, a resolution or a deferral holds for the
  cooldown.\<close>

definition cooling_down :: "finality_env \<Rightarrow> finality_row \<Rightarrow> int \<Rightarrow> bool" where
  "cooling_down env d now =
     (fv_cooldown env > 0 \<and> fr_option d \<in> {''provide_resolution'', ''defer''}
      \<and> now - fr_created_at d < fv_cooldown env * 1000)"

definition human_stage :: "finality_env \<Rightarrow> string \<Rightarrow> (world, answer option) exec" where
  "human_stage env scopeId =
     try_catch
       (and_then (getLatestFinalityDecision scopeId)
         (\<lambda>latest. case latest of
            None \<Rightarrow> ret None
          | Some d \<Rightarrow>
             if fr_option d = ''approve_finality'' then resolve_scope env scopeId
             else (\<lambda>w. ret (if cooling_down env d (w_now w) then Some None else None) w)))
       (\<lambda>_. ret None)"

text \<open>A report on the drift of the scope: its level and its request for a human.\<close>

definition read_drift_report :: "string \<Rightarrow> (world, string \<times> bool) exec" where
  "read_drift_report scopeId =
     and_then (s3_get (scopeDriftKey scopeId))
       (\<lambda>doc. case doc of
          S3Empty \<Rightarrow> ret (''none'', False)
        | S3Malformed \<Rightarrow> raise (JsError ''SyntaxError'')
        | S3Drift d hitl \<Rightarrow> ret (di_level d, hitl))"

definition drift_blocks :: "string \<times> bool \<Rightarrow> bool" where
  "drift_blocks r = (str_lower (fst r) \<in> {''high'', ''critical''} \<or> snd r)"

definition drift_stage :: "finality_env \<Rightarrow> string \<Rightarrow> finality_input \<Rightarrow> (world, answer option) exec" where
  "drift_stage env scopeId inp =
     try_catch
       (and_then (loadState scopeId)
         (\<lambda>st.
            if fs_contra_unresolved (fi_snapshot inp) > 0
               \<and> (case st of None \<Rightarrow> False | Some s \<Rightarrow> gs_lastNode s \<in> {DriftChecked, EvidencePropagated})
            then and_then (read_drift_report scopeId)
              (\<lambda>drift.
                 if drift_blocks drift
                 then and_then (recordGateStateIfAvailable env scopeId inp ''HITL'')
                   (\<lambda>_. and_then (buildBlockers scopeId (fi_snapshot inp))
                     (\<lambda>bs. ret (Some (Some (FinalReview
                        (review_of env scopeId inp (bs @ [drift_blocker (fst drift)]) [drift_action]))))))
                 else ret None)
            else ret None))
       (\<lambda>_. ret None)"

definition divergence_stage :: "finality_env \<Rightarrow> string \<Rightarrow> finality_input \<Rightarrow> (world, answer option) exec" where
  "divergence_stage env scopeId inp =
    (if fi_divergence inp \<and> fi_convergence inp \<noteq> None
     then conclude env scopeId inp ''ESCALATED'' (Some (FinalStatus ''ESCALATED'')) else ret None)"

definition content_stage :: "finality_env \<Rightarrow> string \<Rightarrow> finality_input \<Rightarrow> (world, answer option) exec" where
  "content_stage env scopeId inp =
    (if fi_has_content inp then ret None
     else conclude env scopeId inp ''ACTIVE'' (Some (FinalStatus ''ACTIVE'')))"

definition cascade_of :: "finality_env \<Rightarrow> finality_input \<Rightarrow> history_row list \<Rightarrow> iss_cascade" where
  "cascade_of env inp hist =
     computeISSCascadeResult (Some (1 - fi_goal inp)) (hr_after (last hist))
       (engine_analyzeISS (nf_ln (fv_fns env)) (fv_engine env) (map hr_norm hist) (map hr_kappa hist)
          (hr_after (hd hist)))
       (Some (fs_contra_unresolved (fi_snapshot inp)))"

definition iss_stage :: "finality_env \<Rightarrow> string \<Rightarrow> finality_input \<Rightarrow> (world, answer option) exec" where
  "iss_stage env scopeId inp =
    (case fc_iss (loadFinalityConfig env) of
       Some (True, act) \<Rightarrow>
         try_catch
           (and_then (loadPropagationHistory scopeId 20)
             (\<lambda>hist.
                if hist = [] \<or> ic_stable (cascade_of env inp hist) then ret None
                else if coalesce act ''warn'' = ''escalate''
                  then conclude env scopeId inp ''ESCALATED'' (Some (FinalStatus ''ESCALATED''))
                else if coalesce act ''warn'' = ''block''
                  then conclude env scopeId inp ''ACTIVE'' None
                else ret None))
           (\<lambda>_. ret None)
     | _ \<Rightarrow> ret None)"

text \<open>Path A.\<close>

definition conditions_of :: "finality_rule \<Rightarrow> string list" where
  "conditions_of r = map conditionToString (fu_conditions r)"

definition all_met :: "finality_rule \<Rightarrow> finality_snapshot \<Rightarrow> bool" where
  "all_met r s = (fu_mode r = ''all'' \<and> list_all (\<lambda>c. evaluateOne c s) (conditions_of r))"

definition monotonic_gate :: "finality_env \<Rightarrow> finality_input \<Rightarrow> bool" where
  "monotonic_gate env inp =
     (fv_gates_disabled env \<or> (case fi_convergence inp of None \<Rightarrow> True | Some c \<Rightarrow> kd_monotonic c))"

definition trajectory_gate :: "finality_env \<Rightarrow> finality_input \<Rightarrow> bool" where
  "trajectory_gate env inp =
     (fv_gates_disabled env \<or> (case fi_convergence inp of None \<Rightarrow> True | Some c \<Rightarrow> kd_quality c \<ge> 7 / 10))"

definition quiescence_gate :: "finality_env \<Rightarrow> finality_input \<Rightarrow> bool" where
  "quiescence_gate env inp =
     (fv_gates_disabled env \<or> isQuiescent (fi_snapshot inp) (fc_quiescence (loadFinalityConfig env)))"

text \<open>The propagation layer has converged; not known counts as converged.\<close>

definition propagation_converged :: "finality_env \<Rightarrow> string \<Rightarrow> (world, bool) exec" where
  "propagation_converged env scopeId =
    (case fc_dirichlet (loadFinalityConfig env) of
       Some (True, eps) \<Rightarrow>
         if fv_gates_disabled env then ret True
         else try_catch
           (and_then (loadLatestDirichletEnergy scopeId)
             (\<lambda>fx. ret (case fx of None \<Rightarrow> True | Some x \<Rightarrow> x < coalesce eps (1 / 100))))
           (\<lambda>_. ret True)
     | _ \<Rightarrow> ret True)"

definition global_gates_of :: "finality_env \<Rightarrow> finality_input \<Rightarrow> global_gates" where
  "global_gates_of env inp =
    (let s = fi_snapshot inp in
     \<lparr> gg_a_monotonic = monotonic_gate env inp, gg_b_evidence = evidence_gate s,
       gg_c_trajectory = trajectory_gate env inp, gg_d_quiescent = quiescence_gate env inp,
       gg_e_has_content = fi_has_content inp,
       gg_f_elimination = (fv_gates_disabled env \<or> coalesce (fs_contra_mass s) 0 = 0) \<rparr>)"

definition vector_outcome ::
  "finality_env \<Rightarrow> vector_config \<Rightarrow> finality_input \<Rightarrow> convergence_data \<Rightarrow> vector_result" where
  "vector_outcome env vc inp conv =
     evaluateVectorFinality (computeDimensionScores (fi_snapshot inp)) vc
       (kd_dim_monotonic conv) (kd_dim_quality conv) (global_gates_of env inp)"

definition vector_passes :: "vector_result \<Rightarrow> bool" where
  "vector_passes r = (vr_required_passed r \<and> vr_global r \<and> \<not> vr_veto r)"

definition scalar_passes :: "finality_env \<Rightarrow> finality_input \<Rightarrow> bool" where
  "scalar_passes env inp =
     (fi_goal inp \<ge> fi_auto inp \<and> monotonic_gate env inp \<and> trajectory_gate env inp \<and> quiescence_gate env inp)"

definition compensation_event :: "string \<Rightarrow> finality_input \<Rightarrow> bool \<Rightarrow> vector_result \<Rightarrow> json_obj" where
  "compensation_event scopeId inp met r =
     [(''type'', JStr ''compensation_detected''), (''scopeId'', JStr scopeId), (''epoch'', JNum (of_int (fi_epoch inp))),
      (''goalScore'', JNum (fi_goal inp)), (''scalarThreshold'', JNum (fi_auto inp)),
      (''hardConditionsMet'', JBool met),
      (''vectorResult'', JObj [(''all_required_passed'', JBool (vr_required_passed r)),
         (''veto_triggered'', JBool (vr_veto r)),
         (''veto_causes'', JArr (map (\<lambda>d. JStr (v1_name d)) (vr_veto_causes r)))])]"

definition vector_path ::
  "finality_env \<Rightarrow> string \<Rightarrow> finality_input \<Rightarrow> vector_config \<Rightarrow> convergence_data \<Rightarrow> bool \<Rightarrow> bool
   \<Rightarrow> (world, answer option) exec" where
  "vector_path env scopeId inp vc conv met prop =
    (let r = vector_outcome env vc inp conv in
     if met \<and> prop \<and> vector_passes r
     then and_then (recordGateStateIfAvailable env scopeId inp ''RESOLVED'') (\<lambda>_. resolve_scope env scopeId)
     else if scalar_passes env inp \<and> (\<not> vr_required_passed r \<or> vr_veto r)
     then and_then (try_catch (appendEvent (compensation_event scopeId inp met r)) (\<lambda>_. ret ())) (\<lambda>_. ret None)
     else ret None)"

definition scalar_path ::
  "finality_env \<Rightarrow> string \<Rightarrow> finality_input \<Rightarrow> bool \<Rightarrow> bool \<Rightarrow> (world, answer option) exec" where
  "scalar_path env scopeId inp met prop =
    (if met \<and> prop \<and> scalar_passes env inp
     then and_then (recordGateStateIfAvailable env scopeId inp ''RESOLVED'') (\<lambda>_. resolve_scope env scopeId)
     else ret None)"

definition resolve_stage :: "finality_env \<Rightarrow> string \<Rightarrow> finality_input \<Rightarrow> (world, answer option) exec" where
  "resolve_stage env scopeId inp =
    (let cfg = loadFinalityConfig env in
     case map_get (fc_rules cfg) ''RESOLVED'' of
       None \<Rightarrow> ret None
     | Some rule \<Rightarrow>
        if fu_conditions rule = [] then ret None
        else and_then (propagation_converged env scopeId)
          (\<lambda>prop. case (fc_vector cfg, fi_convergence inp) of
             (Some vc, Some conv) \<Rightarrow>
               if vc_enabled vc \<and> \<not> fv_gates_disabled env
               then vector_path env scopeId inp vc conv (all_met rule (fi_snapshot inp)) prop
               else scalar_path env scopeId inp (all_met rule (fi_snapshot inp)) prop
           | _ \<Rightarrow> scalar_path env scopeId inp (all_met rule (fi_snapshot inp)) prop))"

text \<open>Path B: a human is asked only when contradictions are open.\<close>

definition asks_human :: "finality_env \<Rightarrow> finality_input \<Rightarrow> bool" where
  "asks_human env inp =
     (fs_contra_unresolved (fi_snapshot inp) > 0 \<and> fi_goal inp \<ge> fi_near inp \<and> fi_goal inp < fi_auto inp
      \<and> (fv_min_epoch env \<le> 0 \<or> fi_epoch inp \<ge> fv_min_epoch env))"

definition review_stage :: "finality_env \<Rightarrow> string \<Rightarrow> finality_input \<Rightarrow> (world, answer option) exec" where
  "review_stage env scopeId inp =
    (if asks_human env inp
     then and_then (recordGateStateIfAvailable env scopeId inp ''HITL'')
       (\<lambda>_. and_then (buildBlockers scopeId (fi_snapshot inp))
         (\<lambda>bs. ret (Some (Some (FinalReview (review_of env scopeId inp bs []))))))
     else ret None)"

definition rule_matches :: "finality_snapshot \<Rightarrow> string \<times> finality_rule \<Rightarrow> bool" where
  "rule_matches s sr =
    (fst sr \<noteq> ''RESOLVED'' \<and> fu_conditions (snd sr) \<noteq> []
     \<and> (if fu_mode (snd sr) = ''all'' then list_all (\<lambda>c. evaluateOne c s) (conditions_of (snd sr))
        else list_ex (\<lambda>c. evaluateOne c s) (conditions_of (snd sr))))"

definition other_stage :: "finality_env \<Rightarrow> string \<Rightarrow> finality_input \<Rightarrow> (world, answer option) exec" where
  "other_stage env scopeId inp =
    (case List.find (rule_matches (fi_snapshot inp)) (fc_rules (loadFinalityConfig env)) of
       None \<Rightarrow> ret None
     | Some (status, _) \<Rightarrow> conclude env scopeId inp status (Some (FinalStatus status)))"

section \<open>The evaluation\<close>

definition evaluate_input :: "finality_env \<Rightarrow> string \<Rightarrow> finality_input \<Rightarrow> (world, answer) exec" where
  "evaluate_input env scopeId inp =
     first_answer
       [drift_stage env scopeId inp, divergence_stage env scopeId inp, content_stage env scopeId inp,
        iss_stage env scopeId inp, resolve_stage env scopeId inp, review_stage env scopeId inp,
        other_stage env scopeId inp]
       (and_then (recordGateStateIfAvailable env scopeId inp ''ACTIVE'') (\<lambda>_. ret None))"

definition evaluateFinality :: "finality_env \<Rightarrow> string \<Rightarrow> (world, answer) exec" where
  "evaluateFinality env scopeId =
     first_answer [human_stage env scopeId]
       (and_then (loadFinalityInput env scopeId) (evaluate_input env scopeId))"

section \<open>Asking for the review\<close>

definition blocker_action :: "blocker \<Rightarrow> string" where
  "blocker_action b =
    (if bl_type b = ''unresolved_contradiction''
     then ''Post resolution for contradiction(s) or mark as accepted risk.''
     else if bl_type b = ''critical_risk'' then ''Address critical risk(s) or escalate.''
     else if bl_type b = ''low_confidence_claims'' then ''Add evidence or revise low-confidence claims.''
     else if bl_type b = ''missing_goal_resolution'' then ''Add goal resolutions to reach 90% completion.''
     else bl_description b)"

definition suggestedActionsFromBlockers :: "review_request \<Rightarrow> string list" where
  "suggestedActionsFromBlockers rq = map blocker_action (rq_blockers rq)"

definition review_payload :: "review_request \<Rightarrow> payload" where
  "review_payload rq = empty_payload
     \<lparr> p_type := Some ''finality_review'', p_scope_id := Some (rq_scope rq), p_goal_score := Some (rq_goal rq),
       p_suggested_actions := Some (if rq_actions rq = [] then suggestedActionsFromBlockers rq else rq_actions rq) \<rparr>"

definition review_proposal :: "string \<Rightarrow> review_request \<Rightarrow> proposal" where
  "review_proposal reviewId rq =
     \<lparr> pp_id = reviewId, pp_agent = ''finality-evaluator'', pp_action = ''finality_review'',
       pp_target_node = ''RESOLVED'', pp_payload = review_payload rq, pp_mode = Some ''MITL'' \<rparr>"

definition submit_review :: "string \<Rightarrow> review_request \<Rightarrow> (world, bool) exec" where
  "submit_review scopeId rq =
     and_then fresh_uuid
       (\<lambda>u. (let reviewId = finality_prefix scopeId @ take 8 u in
             and_then (addPending reviewId (review_proposal reviewId rq) (review_payload rq)) (\<lambda>_. ret True)))"

definition submitFinalityReviewForScope ::
  "finality_env \<Rightarrow> string \<Rightarrow> answer \<Rightarrow> (world, bool) exec" where
  "submitFinalityReviewForScope env scopeId pre =
     and_then (hasPendingFinalityReviewForScope scopeId)
       (\<lambda>waiting.
          if waiting then ret True
          else and_then (case pre of Some (FinalReview rq) \<Rightarrow> ret pre | _ \<Rightarrow> evaluateFinality env scopeId)
            (\<lambda>result. case result of
               Some (FinalReview rq) \<Rightarrow> submit_review scopeId rq
             | _ \<Rightarrow> ret False))"

definition runFinalityCheck :: "finality_env \<Rightarrow> string \<Rightarrow> (world, unit) exec" where
  "runFinalityCheck env scopeId =
     and_then (evaluateFinality env scopeId)
       (\<lambda>result. case result of
          Some (FinalReview rq) \<Rightarrow>
            and_then (submitFinalityReviewForScope env scopeId result) (\<lambda>_. ret ())
        | _ \<Rightarrow> ret ())"

end
