(* ===== verification/Facts_Sync.thy ===== *)
theory Facts_Sync
  imports Contradictions Equivalence
begin

text \<open>
  The sync of extracted facts into the semantic graph, \<open>src/factsToSemanticGraph.ts\<close>: the matching of
  a new text with an existing node, the upserts of claims, goals and risks, the stale marking, the
  contradictions with their edges, and the document markers. One sync is one transaction.

  The lists the sync loads at its start are not read again while it runs, as in the source: the
  decisions on a node use the row as it was then. Non-string items of the payload are filtered out
  before; \<open>sx_min\<close> is the environment's minimal confidence.
\<close>

section \<open>The payload\<close>

record provenance =
  pv_seq :: "int option"
  pv_seqs :: "int list"
  pv_title :: "string option"
  pv_hash :: "string option"

record facts_payload =
  fp_structured :: "(string \<times> string) list"
  fp_claims :: "string list"
  fp_goals :: "string list"
  fp_risks :: "string list"
  fp_contradictions :: "string list"
  fp_confidence :: "rat option"
  fp_valid_from :: "int option"
  fp_valid_to :: "int option"
  fp_claim_prov :: "provenance list"
  fp_structured_prov :: "provenance list"
  fp_goal_prov :: "provenance list"
  fp_risk_prov :: "provenance list"
  fp_contra_prov :: "provenance list"

definition factsSourceRef :: "provenance option \<Rightarrow> json_obj" where
  "factsSourceRef prov =
     [(''source'', JStr ''facts'')]
     @ (case prov of
          None \<Rightarrow> []
        | Some p \<Rightarrow>
            (case pv_seq p of Some n \<Rightarrow> [(''document_seq'', JNum (of_int n))] | None \<Rightarrow> [])
            @ (if 1 < length (pv_seqs p) then [(''document_seqs'', JArr (map (\<lambda>n. JNum (of_int n)) (pv_seqs p)))] else [])
            @ (case nonempty (pv_title p) of Some t \<Rightarrow> [(''document_title'', JStr t)] | None \<Rightarrow> [])
            @ (case nonempty (pv_hash p) of Some h \<Rightarrow> [(''document_content_hash'', JStr h)] | None \<Rightarrow> []))"

definition has_seq :: "json_obj \<Rightarrow> bool" where
  "has_seq ref = (case map_get ref ''document_seq'' of Some (JNum _) \<Rightarrow> True | _ \<Rightarrow> False)"

definition item_at :: "'a list \<Rightarrow> nat \<Rightarrow> 'a option" where
  "item_at xs i = (if i < length xs then Some (xs ! i) else None)"

section \<open>Matching\<close>

definition either_prefix :: "string \<Rightarrow> string \<Rightarrow> bool" where
  "either_prefix a b = (a = b \<or> str_starts_with a b \<or> str_starts_with b a)"

definition words_over3 :: "string \<Rightarrow> string list" where
  "words_over3 s = remdups (filter (\<lambda>w. 3 < length w) (words_of (str_lower s)))"

definition best_by :: "('a \<Rightarrow> rat) \<Rightarrow> rat \<Rightarrow> 'a list \<Rightarrow> ('a \<times> rat) option" where
  "best_by score lowest xs =
     foldl (\<lambda>b x. if score x > (case b of None \<Rightarrow> 0 | Some (y, s) \<Rightarrow> s) \<and> score x \<ge> lowest
                  then Some (x, score x) else b) None xs"

definition findClaimNodeId :: "(string, string) jsmap \<Rightarrow> string \<Rightarrow> string option" where
  "findClaimNodeId contentToId fragment =
    (if fragment = [] then None
     else case nonempty (map_get contentToId fragment) of
       Some i \<Rightarrow> Some i
     | None \<Rightarrow>
        (case List.find (\<lambda>(c, i). either_prefix c fragment) contentToId of
           Some (c, i) \<Rightarrow> Some i
         | None \<Rightarrow>
            (let fw = words_over3 fragment in
             if fw = [] then None
             else map_option (\<lambda>((c, i), s). i)
               (best_by (\<lambda>(c, i). of_nat (shared_words fw (words_over3 c)) / of_nat (length fw)) (1 / 2)
                  contentToId))))"

definition matchExistingByDimension :: "node_row list \<Rightarrow> string \<Rightarrow> node_row option" where
  "matchExistingByDimension existing dimn =
     List.find (\<lambda>n. map_get (nd_meta n) ''dimension'' = Some (JStr dimn)) existing"

definition matchExistingNode :: "node_row list \<Rightarrow> string \<Rightarrow> node_row option" where
  "matchExistingNode existing content =
    (let trimmed = str_trim content in
     case List.find (\<lambda>n. either_prefix (nd_content n) trimmed) existing of
       Some n \<Rightarrow> Some n
     | None \<Rightarrow>
        (case best_by (\<lambda>n. tokenOverlap (nd_content n) trimmed) 0 existing of
           None \<Rightarrow> None
         | Some (n, s) \<Rightarrow> (if s \<ge> 6 / 10 then Some n else None)))"

section \<open>The state of a sync\<close>

record sync_env =
  sx_scope :: string
  sx_canon :: "string \<Rightarrow> string"
  sx_min :: rat
  sx_embed :: "string \<Rightarrow> rat list"
  sx_cosine :: "rat list \<Rightarrow> rat list \<Rightarrow> rat"
  sx_confidence :: rat
  sx_valid_from :: "int option"
  sx_valid_to :: "int option"

record sync_state =
  ss_created :: nat
  ss_updated :: nat
  ss_staled :: nat
  ss_edges :: nat
  ss_provenance :: nat
  ss_claims :: "(string, string) jsmap"
  ss_matched :: "string list"
  ss_candidates :: "equivalence_candidate list"
  ss_contra_ids :: "(string, string) jsmap"
  ss_contra_status :: "(string, string) jsmap"
  ss_seen_pairs :: "string list"

definition start_sync :: sync_state where
  "start_sync = \<lparr> ss_created = 0, ss_updated = 0, ss_staled = 0, ss_edges = 0, ss_provenance = 0,
     ss_claims = [], ss_matched = [], ss_candidates = [], ss_contra_ids = [], ss_contra_status = [],
     ss_seen_pairs = [] \<rparr>"

text \<open>A node without a document sequence takes over the provenance of a later match.\<close>

definition lacks_seq :: "node_row \<Rightarrow> bool" where
  "lacks_seq n = (map_get (nd_source n) ''document_seq'' \<in> {None, Some JNull})"

definition enrichNodeProvenance :: "string \<Rightarrow> provenance option \<Rightarrow> (world, unit) exec" where
  "enrichNodeProvenance nodeId prov =
    (let ref = factsSourceRef prov in
     if \<not> has_seq ref then ret ()
     else update_statement (\<lambda>n. nd_id n = nodeId \<and> lacks_seq n)
       (\<lambda>w n. n \<lparr> nd_source := json_merge (nd_source n) ref, nd_updated := w_now w \<rparr>))"

definition fact_node ::
  "sync_env \<Rightarrow> string \<Rightarrow> string \<Rightarrow> rat option \<Rightarrow> json_obj \<Rightarrow> provenance option \<Rightarrow> node_input" where
  "fact_node env type content conf meta prov =
     \<lparr> ni_scope = sx_scope env, ni_type = type, ni_content = content, ni_confidence = conf,
       ni_status = Some ''active'', ni_source = factsSourceRef prov, ni_meta = meta,
       ni_by = Some ''facts-sync'', ni_embedding = None,
       ni_valid_from = sx_valid_from env, ni_valid_to = sx_valid_to env \<rparr>"

definition note_created :: "provenance option \<Rightarrow> sync_state \<Rightarrow> sync_state" where
  "note_created prov st =
     st \<lparr> ss_created := ss_created st + 1,
          ss_provenance := ss_provenance st + (if has_seq (factsSourceRef prov) then 1 else 0) \<rparr>"

definition if_so :: "bool \<Rightarrow> ('w, unit) exec \<Rightarrow> ('w, unit) exec" where
  "if_so b m = (if b then m else ret ())"

section \<open>Claims\<close>

definition raise_confidence :: "sync_env \<Rightarrow> string \<Rightarrow> rat \<Rightarrow> sync_state \<Rightarrow> (world, sync_state) exec" where
  "raise_confidence env nodeId old st =
    (if sx_confidence env \<ge> old
     then and_then (updateNodeConfidence nodeId (sx_confidence env))
       (\<lambda>_. ret (st \<lparr> ss_updated := ss_updated st + 1 \<rparr>))
     else ret st)"

definition claim_text ::
  "sync_env \<Rightarrow> string list \<Rightarrow> node_row \<Rightarrow> string \<Rightarrow> string option \<Rightarrow> sync_state \<Rightarrow> (world, sync_state) exec" where
  "claim_text env resolved n trimmed dimn st =
    (let k = claim_key (sx_canon env) in
     if nd_content n = trimmed then ret st
     else if k (nd_content n) = k trimmed
     then and_then (updateNodeContent (nd_id n) trimmed) (\<lambda>_. ret st)
     else if (nd_id n @ '':'' @ k trimmed) \<in> set resolved then ret st
     else ret (st \<lparr> ss_candidates := ss_candidates st @
        [\<lparr> ec_node_type = ''claim'', ec_existing_node_id = nd_id n, ec_existing_content = nd_content n,
           ec_new_content = trimmed, ec_dimension = nonempty dimn \<rparr>] \<rparr>))"

definition matched_claim ::
  "sync_env \<Rightarrow> string list \<Rightarrow> node_row \<Rightarrow> string \<Rightarrow> string option \<Rightarrow> provenance option \<Rightarrow> sync_state
   \<Rightarrow> (world, sync_state) exec" where
  "matched_claim env resolved n trimmed dimn prov st =
     and_then (enrichNodeProvenance (nd_id n) prov)
       (\<lambda>_. and_then (claim_text env resolved n trimmed dimn
                 (st \<lparr> ss_matched := nd_id n # ss_matched st \<rparr>))
       (\<lambda>st1. and_then (raise_confidence env (nd_id n) (nd_confidence n) st1)
       (\<lambda>st2. and_then (if_so (nd_status n \<noteq> ''active'') (updateNodeStatus (nd_id n) ''active''))
       (\<lambda>_. ret (st2 \<lparr> ss_claims := map_set trimmed (nd_id n) (ss_claims st2) \<rparr>)))))"

definition same_claim_row :: "string \<Rightarrow> string \<Rightarrow> node_row \<Rightarrow> bool" where
  "same_claim_row scopeId content n =
     (nd_scope n = scopeId \<and> nd_type n = ''claim'' \<and> nd_status n = ''active'' \<and> nd_content n = content
      \<and> nd_superseded n = None)"

definition new_claim ::
  "sync_env \<Rightarrow> string \<Rightarrow> string option \<Rightarrow> provenance option \<Rightarrow> sync_state \<Rightarrow> (world, sync_state) exec" where
  "new_claim env trimmed dimn prov st =
     and_then (external (\<lambda>w. (w, Inr (List.find (same_claim_row (sx_scope env) trimmed) (w_nodes w)))))
       (\<lambda>dup. case dup of
          Some n \<Rightarrow>
            and_then (enrichNodeProvenance (nd_id n) prov)
              (\<lambda>_. and_then (raise_confidence env (nd_id n) (nd_confidence n)
                        (st \<lparr> ss_matched := nd_id n # ss_matched st \<rparr>))
              (\<lambda>st1. ret (st1 \<lparr> ss_claims := map_set trimmed (nd_id n) (ss_claims st1) \<rparr>)))
        | None \<Rightarrow>
            and_then (appendNode (fact_node env ''claim'' trimmed (Some (sx_confidence env))
                (case nonempty dimn of Some d \<Rightarrow> [(''dimension'', JStr d)] | None \<Rightarrow> []) prov))
              (\<lambda>i. ret (note_created prov (st \<lparr> ss_claims := map_set trimmed i (ss_claims st) \<rparr>))))"

definition find_existing :: "node_row list \<Rightarrow> string option \<Rightarrow> string \<Rightarrow> node_row option" where
  "find_existing existing dimn trimmed =
    (case dimn of
       None \<Rightarrow> matchExistingNode existing trimmed
     | Some d \<Rightarrow> or_else (matchExistingByDimension existing d) (matchExistingNode existing trimmed))"

definition upsert_claim ::
  "sync_env \<Rightarrow> node_row list \<Rightarrow> string list \<Rightarrow> string \<times> string option \<times> provenance option \<Rightarrow> sync_state
   \<Rightarrow> (world, sync_state) exec" where
  "upsert_claim env existing resolved entry st =
    (case entry of (content, dimn, prov) \<Rightarrow>
      (if str_trim content = [] then ret st
       else (let trimmed = str_trim (canonicalizeClaimText (sx_canon env) content) in
         case find_existing existing dimn trimmed of
           Some n \<Rightarrow> matched_claim env resolved n trimmed dimn prov st
         | None \<Rightarrow> new_claim env trimmed dimn prov st)))"

definition claim_entries :: "facts_payload \<Rightarrow> (string \<times> string option \<times> provenance option) list" where
  "claim_entries fp =
    (if fp_structured fp \<noteq> []
     then map (\<lambda>((d, c), i). (c, Some (str_trim d), item_at (fp_structured_prov fp) i))
            (zip (fp_structured fp) [0..<length (fp_structured fp)])
     else map (\<lambda>(c, i). (c, None, item_at (fp_claim_prov fp) i))
            (zip (fp_claims fp) [0..<length (fp_claims fp)]))"

section \<open>Goals, risks and stale claims\<close>

definition upsert_item ::
  "sync_env \<Rightarrow> string \<Rightarrow> json_obj \<Rightarrow> node_row list \<Rightarrow> string \<times> provenance option \<Rightarrow> sync_state
   \<Rightarrow> (world, sync_state) exec" where
  "upsert_item env type meta existing item st =
    (case item of (content, prov) \<Rightarrow>
      (if str_trim content = [] then ret st
       else (let trimmed = str_trim (canonicalizeClaimText (sx_canon env) content) in
         case matchExistingNode existing trimmed of
           Some n \<Rightarrow>
             and_then (enrichNodeProvenance (nd_id n) prov)
               (\<lambda>_. and_then (if_so (nd_status n \<noteq> ''active'') (updateNodeStatus (nd_id n) ''active''))
               (\<lambda>_. ret st))
         | None \<Rightarrow>
             and_then (appendNode (fact_node env type trimmed None meta prov))
               (\<lambda>_. ret (note_created prov st)))))"

definition with_prov :: "string list \<Rightarrow> provenance list \<Rightarrow> (string \<times> provenance option) list" where
  "with_prov xs ps = map (\<lambda>(c, i). (c, item_at ps i)) (zip xs [0..<length xs])"

definition stale_claim :: "node_row \<Rightarrow> sync_state \<Rightarrow> (world, sync_state) exec" where
  "stale_claim n st =
    (if nd_id n \<notin> set (ss_matched st) \<and> nd_status n = ''active'' \<and> nd_by n \<noteq> Some ''resolution''
     then and_then (updateNodeStatus (nd_id n) ''irrelevant'') (\<lambda>_. ret (st \<lparr> ss_staled := ss_staled st + 1 \<rparr>))
     else ret st)"

section \<open>Contradictions\<close>

text \<open>The resolved contradictions are remembered in lower case, and their pair keys are built from
  that text.\<close>

definition resolved_contents :: "string \<Rightarrow> (world, string list) exec" where
  "resolved_contents scopeId = try_catch
     (external (\<lambda>w. (w, Inr (map (\<lambda>n. str_trim (str_lower (nd_content n)))
        (take 200 (filter (\<lambda>n. nd_scope n = scopeId \<and> nd_type n = ''contradiction''
           \<and> nd_status n = ''resolved'' \<and> nd_superseded n = None) (w_nodes w)))))))
     (\<lambda>_. ret [])"

definition matchesResolvedContradiction :: "(string \<Rightarrow> string) \<Rightarrow> string list \<Rightarrow> string \<Rightarrow> bool" where
  "matchesResolvedContradiction canon resolved str =
    (let key = contradictionPairKey canon str; low = str_lower (str_trim str) in
     (key \<noteq> None \<and> key \<in> set (map (contradictionPairKey canon) resolved))
     \<or> low \<in> set resolved
     \<or> list_ex (\<lambda>r. contradictionContentOverlap low r \<ge> 55 / 100) resolved)"

definition resolved_by_embedding :: "sync_env \<Rightarrow> string \<Rightarrow> (world, bool) exec" where
  "resolved_by_embedding env str = try_catch
     (and_then (isResolved (sx_embed env) (sx_cosine env) (str_trim str) (sx_scope env)) (\<lambda>r. ret (fst r)))
     (\<lambda>_. ret False)"

definition linked_claims :: "(string, string) jsmap \<Rightarrow> string \<Rightarrow> string list" where
  "linked_claims claims str =
    (let ids = (case parseContradictionPair str of
           None \<Rightarrow> []
         | Some (x, y) \<Rightarrow>
            (case nonempty (findClaimNodeId claims x) of None \<Rightarrow> [] | Some a \<Rightarrow> [a])
            @ (case nonempty (findClaimNodeId claims y) of None \<Rightarrow> []
               | Some b \<Rightarrow> (if findClaimNodeId claims x = Some b then [] else [b]))) in
     if ids = [] then findRelatedNodeIds (map (\<lambda>(c, i). (i, c)) claims) str 2 (35 / 100) else ids)"

definition contradicts_edge :: "sync_env \<Rightarrow> string \<Rightarrow> string \<Rightarrow> string \<Rightarrow> edge_input" where
  "contradicts_edge env contraId claimId str =
     \<lparr> ei_scope = sx_scope env, ei_source = contraId, ei_target = claimId, ei_type = ''contradicts'',
       ei_weight = Some 1, ei_meta = [(''raw'', JStr str)], ei_by = Some ''facts-sync'',
       ei_valid_from = sx_valid_from env, ei_valid_to = sx_valid_to env \<rparr>"

definition patch_meta :: "string \<Rightarrow> json_obj \<Rightarrow> (world, unit) exec" where
  "patch_meta nodeId patch =
     update_statement (\<lambda>n. nd_id n = nodeId)
       (\<lambda>w n. n \<lparr> nd_meta := json_merge (nd_meta n) patch, nd_updated := w_now w \<rparr>)"

definition link_contradiction :: "sync_env \<Rightarrow> string \<Rightarrow> string \<Rightarrow> sync_state \<Rightarrow> (world, sync_state) exec" where
  "link_contradiction env contraId str st =
    (let ids = linked_claims (ss_claims st) str in
     if contraId = [] \<or> ids = [] then ret st
     else and_then (in_order (map (\<lambda>i. and_then (appendEdge (contradicts_edge env contraId i str)) (\<lambda>_. ret ())) ids))
       (\<lambda>_. and_then (patch_meta contraId ((''claim_source_id'', JStr (ids ! 0)) #
                (if 1 < length ids then [(''claim_target_id'', JStr (ids ! 1))] else [])))
       (\<lambda>_. ret (st \<lparr> ss_edges := ss_edges st + length ids \<rparr>))))"

definition contra_status :: "sync_state \<Rightarrow> string \<Rightarrow> node_row option \<Rightarrow> string option" where
  "contra_status st i fuzzy = nonempty (or_else (map_get (ss_contra_status st) i) (map_option nd_status fuzzy))"

definition known_contradiction ::
  "string \<Rightarrow> provenance option \<Rightarrow> node_row option \<Rightarrow> sync_state \<Rightarrow> (world, sync_state) exec" where
  "known_contradiction i prov fuzzy st =
     and_then (enrichNodeProvenance i prov)
       (\<lambda>_. if contra_status st i fuzzy \<notin> {None, Some ''active''}
            then and_then (updateNodeStatus i ''active'')
              (\<lambda>_. ret (st \<lparr> ss_contra_status := map_set i ''active'' (ss_contra_status st) \<rparr>))
            else ret st)"

definition new_contradiction ::
  "sync_env \<Rightarrow> string option \<Rightarrow> string \<Rightarrow> provenance option \<Rightarrow> sync_state \<Rightarrow> (world, string \<times> sync_state) exec" where
  "new_contradiction env key str prov st =
     and_then (appendNode (fact_node env ''contradiction'' (str_trim str) None [] prov))
       (\<lambda>i. ret (i, note_created prov
          (case key of
             None \<Rightarrow> st
           | Some k \<Rightarrow> if i = [] then st
               else st \<lparr> ss_contra_ids := map_set k i (ss_contra_ids st),
                         ss_contra_status := map_set i ''active'' (ss_contra_status st) \<rparr>)))"

definition store_contradiction ::
  "sync_env \<Rightarrow> node_row list \<Rightarrow> string option \<Rightarrow> string \<Rightarrow> provenance option \<Rightarrow> sync_state
   \<Rightarrow> (world, sync_state) exec" where
  "store_contradiction env existing key str prov st =
    (let fuzzy = matchExistingNode existing (str_trim str);
         pairMatched = (case key of None \<Rightarrow> None | Some k \<Rightarrow> map_get (ss_contra_ids st) k) in
     case nonempty (or_else pairMatched (map_option nd_id fuzzy)) of
       Some i \<Rightarrow> and_then (known_contradiction i prov fuzzy st) (link_contradiction env i str)
     | None \<Rightarrow> and_then (new_contradiction env key str prov st) (\<lambda>(i, st'). link_contradiction env i str st'))"

definition upsert_contradiction ::
  "sync_env \<Rightarrow> node_row list \<Rightarrow> string list \<Rightarrow> string \<times> provenance option \<Rightarrow> sync_state \<Rightarrow> (world, sync_state) exec" where
  "upsert_contradiction env existing resolved item st =
    (case item of (str, prov) \<Rightarrow>
      (let key = contradictionPairKey (sx_canon env) str in
       if str_trim str = [] then ret st
       else if key \<noteq> None \<and> the key \<in> set (ss_seen_pairs st) then ret st
       else (let st1 = (case key of None \<Rightarrow> st | Some k \<Rightarrow> st \<lparr> ss_seen_pairs := k # ss_seen_pairs st \<rparr>) in
         if matchesResolvedContradiction (sx_canon env) resolved str then ret st1
         else and_then (resolved_by_embedding env str)
           (\<lambda>b. if b then ret st1 else store_contradiction env existing key str prov st1))))"

definition index_contradictions :: "(string \<Rightarrow> string) \<Rightarrow> node_row list \<Rightarrow> sync_state \<Rightarrow> sync_state" where
  "index_contradictions canon existing st =
     foldl (\<lambda>s n.
        let s1 = s \<lparr> ss_contra_status := map_set (nd_id n) (nd_status n) (ss_contra_status s) \<rparr> in
        case contradictionPairKey canon (nd_content n) of
          None \<Rightarrow> s1
        | Some k \<Rightarrow> if map_has (ss_contra_ids s1) k then s1
                    else s1 \<lparr> ss_contra_ids := map_set k (nd_id n) (ss_contra_ids s1) \<rparr>) st existing"

section \<open>Documents\<close>

definition strip_extension :: "string \<Rightarrow> string" where
  "strip_extension s =
    (let r = rev s; ext = takeWhile (\<lambda>c. c \<noteq> CHR ''.'') r in
     if ext \<noteq> [] \<and> length ext < length r then rev (drop (Suc (length ext)) r) else s)"

definition normalizeDocTitleForStorage :: "string \<Rightarrow> string" where
  "normalizeDocTitleForStorage title = strip_extension (str_lower (str_trim title))"

definition live_doc :: "string \<Rightarrow> node_row \<Rightarrow> bool" where
  "live_doc scopeId n =
     (nd_scope n = scopeId \<and> nd_type n = ''doc'' \<and> nd_superseded n = None \<and> nd_status n = ''active'')"

definition doc_node :: "string \<Rightarrow> string \<Rightarrow> json_obj \<Rightarrow> json_obj \<Rightarrow> node_input" where
  "doc_node scopeId title meta source =
     \<lparr> ni_scope = scopeId, ni_type = ''doc'', ni_content = title, ni_confidence = None,
       ni_status = Some ''active'', ni_source = source, ni_meta = meta, ni_by = Some ''facts-sync'',
       ni_embedding = None, ni_valid_from = None, ni_valid_to = None \<rparr>"

text \<open>Answers whether a marker was created.\<close>

definition put_doc :: "string \<Rightarrow> string \<Rightarrow> json_obj \<Rightarrow> json_obj \<Rightarrow> (world, bool) exec" where
  "put_doc scopeId title meta source =
     and_then (external (\<lambda>w. (w, Inr (List.find
         (\<lambda>n. normalizeDocTitleForStorage (nd_content n) = normalizeDocTitleForStorage title)
         (filter (live_doc scopeId) (w_nodes w))))))
       (\<lambda>existing. case existing of
          Some n \<Rightarrow> and_then (patch_meta (nd_id n) meta) (\<lambda>_. ret False)
        | None \<Rightarrow> and_then (appendNode (doc_node scopeId title meta source)) (\<lambda>_. ret True))"

definition seq_field :: "int option \<Rightarrow> json_obj" where
  "seq_field s = (case s of Some n \<Rightarrow> [(''context_seq'', JNum (of_int n))] | None \<Rightarrow> [])"

definition mark_document ::
  "string \<Rightarrow> string option \<Rightarrow> int option \<Rightarrow> sync_state \<Rightarrow> (world, sync_state) exec" where
  "mark_document scopeId docTitle contextSeq st =
    (let title = str_trim (coalesce docTitle []) in
     if title = [] then ret st
     else and_then (put_doc scopeId title
            ((''claim_ids'', JArr (map (\<lambda>(c, i). JStr i) (ss_claims st))) # seq_field contextSeq)
            ((''source'', JStr ''facts'') # seq_field contextSeq))
       (\<lambda>new. ret (if new then st \<lparr> ss_created := ss_created st + 1 \<rparr>
                   else st \<lparr> ss_updated := ss_updated st + 1 \<rparr>)))"

definition upsertDocMarker :: "string \<Rightarrow> string \<Rightarrow> int \<Rightarrow> string list \<Rightarrow> (world, unit) exec" where
  "upsertDocMarker scopeId title contextSeq claimIds =
    (let trimmed = str_trim title in
     if trimmed = [] then ret ()
     else and_then (put_doc scopeId trimmed
            (seq_field (Some contextSeq) @ (if claimIds = [] then [] else [(''claim_ids'', JArr (map JStr claimIds))]))
            ((''source'', JStr ''facts'') # seq_field (Some contextSeq)))
       (\<lambda>_. ret ()))"

record marker_opts =
  mo_claim_seq :: "int option"
  mo_attach_all :: bool

definition markContextDocsAnalyzed ::
  "string \<Rightarrow> (string \<times> int) list \<Rightarrow> string list \<Rightarrow> marker_opts \<Rightarrow> (world, unit) exec" where
  "markContextDocsAnalyzed scopeId docs claimIds opts =
    (if docs = [] then ret ()
     else runInTransaction (in_order (map (\<lambda>(title, s). upsertDocMarker scopeId title s
       (if mo_attach_all opts then claimIds
        else case mo_claim_seq opts of
          Some c \<Rightarrow> (if c = s then claimIds else [])
        | None \<Rightarrow> claimIds)) docs)))"

section \<open>The sync\<close>

definition sync_claims :: "sync_env \<Rightarrow> facts_payload \<Rightarrow> node_row list \<Rightarrow> string list \<Rightarrow> sync_state \<Rightarrow> (world, sync_state) exec" where
  "sync_claims env fp existing resolved st =
    (if sx_confidence env \<ge> sx_min env then for_each (upsert_claim env existing resolved) (claim_entries fp) st
     else ret st)"

definition sync_contradictions :: "sync_env \<Rightarrow> facts_payload \<Rightarrow> sync_state \<Rightarrow> (world, sync_state) exec" where
  "sync_contradictions env fp st =
     and_then (queryNodesByCreator (sx_scope env) ''facts-sync'' (Some ''contradiction''))
       (\<lambda>existing. and_then (resolved_contents (sx_scope env))
         (\<lambda>resolved. for_each (upsert_contradiction env existing resolved)
            (with_prov (fp_contradictions fp) (fp_contra_prov fp))
            (index_contradictions (sx_canon env) existing st)))"

definition sync_body ::
  "sync_env \<Rightarrow> facts_payload \<Rightarrow> string option \<Rightarrow> int option \<Rightarrow> (world, sync_state) exec" where
  "sync_body env fp docTitle contextSeq =
    (let load = (\<lambda>t. queryNodesByCreator (sx_scope env) ''facts-sync'' (Some t)) in
     and_then (load ''claim'')
       (\<lambda>claims. and_then (load ''goal'')
       (\<lambda>goals. and_then (load ''risk'')
       (\<lambda>risks. and_then (loadResolvedEquivalenceKeys (sx_canon env) (sx_scope env))
       (\<lambda>resolved. and_then (sync_claims env fp claims resolved start_sync)
       (\<lambda>s1. and_then (for_each (upsert_item env ''goal'' [] goals) (with_prov (fp_goals fp) (fp_goal_prov fp)) s1)
       (\<lambda>s2. and_then (for_each (upsert_item env ''risk'' [(''severity'', JStr ''high'')] risks)
                        (with_prov (fp_risks fp) (fp_risk_prov fp)) s2)
       (\<lambda>s3. and_then (for_each stale_claim claims s3)
       (\<lambda>s4. and_then (sync_contradictions env fp s4)
       (\<lambda>s5. mark_document (sx_scope env) docTitle contextSeq s5))))))))))"

definition env_for :: "sync_env \<Rightarrow> facts_payload \<Rightarrow> sync_env" where
  "env_for env fp = env \<lparr> sx_confidence := coalesce (fp_confidence fp) 1,
     sx_valid_from := fp_valid_from fp, sx_valid_to := fp_valid_to fp \<rparr>"

definition embed_claims :: "sync_env \<Rightarrow> sync_state \<Rightarrow> (world, unit) exec" where
  "embed_claims env st = in_order (map (\<lambda>(content, i).
     try_catch (and_then (embedAndPersistNode (sx_embed env) i content) (\<lambda>_. ret ())) (\<lambda>_. ret ())) (ss_claims st))"

definition syncFactsToSemanticGraph ::
  "sync_env \<Rightarrow> facts_payload \<Rightarrow> bool \<Rightarrow> string option \<Rightarrow> int option \<Rightarrow> (world, sync_state) exec" where
  "syncFactsToSemanticGraph env fp embedClaims docTitle contextSeq =
     and_then (runInTransaction (sync_body (env_for env fp) fp docTitle contextSeq))
       (\<lambda>st. and_then (if_so (embedClaims \<and> ss_created st > 0) (embed_claims env st)) (\<lambda>_. ret st))"

end
