(* ===== verification/Effect_Order.thy ===== *)
theory Effect_Order
  imports Semantic_Graph
begin

text \<open>
  Computations that move the state along an order. \<open>moves R m\<close> says that \<open>m\<close>, however it ends,
  leaves a state related to the one it started in; for a reflexive and transitive relation this
  composes along sequences, branches and handlers, over any state.
\<close>

definition moves :: "('s \<Rightarrow> 's \<Rightarrow> bool) \<Rightarrow> ('s, 'a) exec \<Rightarrow> bool" where
  "moves R m = (\<forall>s. R s (fst (m s)))"

lemma movesD: "moves R m \<Longrightarrow> m s = (s', r) \<Longrightarrow> R s s'"
  unfolding moves_def by (metis fst_conv)

locale effect_order =
  fixes R :: "'s \<Rightarrow> 's \<Rightarrow> bool"
  assumes R_refl: "R s s"
    and R_trans: "R s t \<Longrightarrow> R t u \<Longrightarrow> R s u"
begin

lemma mv_ret: "moves R (ret x)"
  by (simp add: moves_def R_refl)

lemma mv_raise: "moves R (raise e)"
  by (simp add: moves_def R_refl)

lemma mv_and_then: "moves R m \<Longrightarrow> (\<And>x. moves R (g x)) \<Longrightarrow> moves R (and_then m g)"
  by (auto simp: moves_def and_then_def split: prod.split sum.split) (metis R_trans fst_conv)+

lemma mv_try_catch: "moves R m \<Longrightarrow> (\<And>e. moves R (h e)) \<Longrightarrow> moves R (try_catch m h)"
  by (auto simp: moves_def try_catch_def split: prod.split sum.split) (metis R_trans fst_conv)+

lemma mv_in_order: "(\<And>m. m \<in> set ms \<Longrightarrow> moves R m) \<Longrightarrow> moves R (in_order ms)"
proof (induction ms)
  case (Cons m ms)
  have "in_order (m # ms) = and_then m (\<lambda>_. in_order ms)"
    by (rule ext) (simp add: and_then_def)
  then show ?case using Cons mv_and_then[of m "\<lambda>_. in_order ms"] by simp
qed (simp add: moves_def R_refl)

lemma mv_for_each: "(\<And>x s. moves R (f x s)) \<Longrightarrow> moves R (for_each f xs s)"
  by (induction xs arbitrary: s) (auto intro: mv_ret mv_and_then)

lemma mv_modify: "(\<And>s. R s (f s)) \<Longrightarrow> moves R (modify f)"
  by (simp add: moves_def)

lemma mv_if: "moves R a \<Longrightarrow> moves R b \<Longrightarrow> moves R (if c then a else b)"
  by simp

lemma mv_option: "moves R a \<Longrightarrow> (\<And>x. moves R (b x)) \<Longrightarrow> moves R (case y of None \<Rightarrow> a | Some x \<Rightarrow> b x)"
  by (simp split: option.split)

lemma mv_state: "(\<And>s. moves R (f s)) \<Longrightarrow> moves R (\<lambda>s. f s s)"
  by (simp add: moves_def)

lemma mv_let: "moves R (f v) \<Longrightarrow> moves R (let x = v in f x)"
  by simp

lemmas mv_intros = mv_ret mv_raise mv_and_then mv_try_catch mv_in_order mv_modify mv_if mv_option

end

end
