(* ===== verification/Graph_Growth.thy ===== *)
theory Graph_Growth
  imports Facts_Sync Effect_Order
begin

text \<open>
  What the operations on the semantic graph never do: an order on worlds that every step of a
  computation climbs is climbed by the whole computation, whatever calls fail. The locale
  \<open>world_order\<close> adds database calls to \<open>effect_order\<close>; its interpretations are the growth of the graph (no
  node or edge is lost, no confidence falls) and the persistence of a predicate on worlds.
\<close>

lemma grows_if: "(c \<Longrightarrow> moves le a) \<Longrightarrow> (\<not> c \<Longrightarrow> moves le b) \<Longrightarrow> moves le (if c then a else b)"
  by simp

lemma grows_option: "moves le a \<Longrightarrow> (\<And>x. y = Some x \<Longrightarrow> moves le (b x)) \<Longrightarrow> moves le (case y of None \<Rightarrow> a | Some x \<Rightarrow> b x)"
  by (cases y) simp_all

lemma grows_option2: "moves le b \<Longrightarrow> (\<And>x. y = Some x \<Longrightarrow> moves le (a x)) \<Longrightarrow> moves le (case y of Some x \<Rightarrow> a x | None \<Rightarrow> b)"
  by (rule grows_option)

lemma grows_prod: "(\<And>a b. y = (a, b) \<Longrightarrow> moves le (f a b)) \<Longrightarrow> moves le (case y of (a, b) \<Rightarrow> f a b)"
  by (cases y) simp

locale world_order = effect_order le for le :: "world \<Rightarrow> world \<Rightarrow> bool" +
  assumes le_tick: "le w (w \<lparr> w_tick := n \<rparr>)"
begin

lemmas le_refl = R_refl and le_trans = R_trans
lemmas g_ret = mv_ret and g_raise = mv_raise and g_and_then = mv_and_then and g_try = mv_try_catch
lemmas g_in_order = mv_in_order

lemma g_for_each: "(\<And>x s. x \<in> set xs \<Longrightarrow> moves le (f x s)) \<Longrightarrow> moves le (for_each f xs s)"
proof (induction xs arbitrary: s)
  case (Cons x xs)
  then show ?case by (simp add: g_and_then)
qed (simp only: for_each.simps g_ret)

lemma g_external: "(\<And>w. le w (fst (m w))) \<Longrightarrow> moves le (external m)"
proof -
  assume m: "\<And>w. le w (fst (m w))"
  have "le w (tick w)" for w using le_tick[of w] by (simp add: tick_def)
  then have "le w (fst (m (tick w)))" for w using m le_trans by blast
  then show ?thesis using \<open>\<And>w. le w (tick w)\<close> by (simp add: moves_def external_def)
qed

lemma g_query: "moves le (external (\<lambda>w. (w, q w)))"
  by (rule g_external) (simp add: le_refl)

lemma g_transaction: "moves le m \<Longrightarrow> moves le (runInTransaction m)"
  unfolding moves_def
proof
  fix w assume m: "\<forall>w. le w (fst (m w))"
  obtain w1 r where e: "m w = (w1, r)" by fastforce
  have "le w w1" using m e by (metis fst_conv)
  moreover have "le w1 (tick w1)" using le_tick[of w1] by (simp add: tick_def)
  ultimately have "le w (tick w1)" by (rule le_trans)
  then show "le w (fst (runInTransaction m w))"
    using e le_tick by (auto simp: runInTransaction_def split: sum.split js_error.split)
qed

lemma g_update:
  "(\<And>w. le w (update_nodes P (f w) w)) \<Longrightarrow> moves le (update_statement P f)"
  unfolding update_statement_def by (rule g_external) simp

lemmas g_intros = g_ret g_raise g_and_then g_try g_transaction g_query grows_if grows_option grows_prod

end

section \<open>The graph grows\<close>

definition node_le :: "node_row \<Rightarrow> node_row \<Rightarrow> bool" where
  "node_le n m =
     (nd_id m = nd_id n \<and> nd_scope m = nd_scope n \<and> nd_type m = nd_type n \<and> nd_by m = nd_by n
      \<and> nd_created m = nd_created n \<and> nd_superseded m = nd_superseded n \<and> nd_valid_to m = nd_valid_to n
      \<and> nd_confidence n \<le> nd_confidence m)"

definition graph_le :: "world \<Rightarrow> world \<Rightarrow> bool" where
  "graph_le w w' =
     ((\<exists>ns new. w_nodes w' = ns @ new \<and> list_all2 node_le (w_nodes w) ns)
      \<and> (\<exists>es. w_edges w' = w_edges w @ es))"

lemma node_le_refl [simp]: "node_le n n"
  by (simp add: node_le_def)

lemma node_le_trans: "node_le n m \<Longrightarrow> node_le m k \<Longrightarrow> node_le n k"
  by (auto simp: node_le_def)

lemma graph_leI:
  "w_nodes w' = ns @ new \<Longrightarrow> list_all2 node_le (w_nodes w) ns \<Longrightarrow> w_edges w' = w_edges w @ es \<Longrightarrow> graph_le w w'"
  by (auto simp: graph_le_def)

lemma node_le_all [simp]: "list_all2 node_le ns ns"
  by (simp add: list.rel_refl)

lemma graph_le_refl [simp]: "graph_le w w"
  by (rule graph_leI[of _ "w_nodes w" "[]" _ "[]"]) simp_all

lemma graph_le_trans: "graph_le w w1 \<Longrightarrow> graph_le w1 w2 \<Longrightarrow> graph_le w w2"
proof -
  assume a: "graph_le w w1" "graph_le w1 w2"
  obtain ns new where 1: "w_nodes w1 = ns @ new" "list_all2 node_le (w_nodes w) ns" using a(1) graph_le_def by auto
  obtain ms k where 2: "w_nodes w2 = ms @ k" "list_all2 node_le (ns @ new) ms" using a(2) 1 graph_le_def by auto
  obtain ms1 ms2 where 3: "ms = ms1 @ ms2" "list_all2 node_le ns ms1" using 2(2) by (auto simp: list_all2_append1)
  have "list_all2 node_le (w_nodes w) ms1" by (rule list_all2_trans[OF node_le_trans 1(2) 3(2)])
  then show ?thesis using a 2(1) 3(1) by (auto simp: graph_le_def)
qed

text \<open>The loader of contradictions with their details adds nodes for those only edges record.\<close>

locale detail_loader = world_order +
  assumes gw_node: "moves le (appendNode i)"
begin

lemma gw_collect: "moves le (collect_nodes sc ns out seen)"
  by (induction ns arbitrary: out seen) (simp_all add: related_claims_def g_ret g_and_then g_query split: option.split)

lemma gw_backfill: "moves le (backfill sc rows out seen)"
proof (induction sc rows out seen rule: backfill.induct)
  case (2 sc e n m rows out seen)
  show ?case unfolding backfill.simps Let_def
    by (intro grows_if g_and_then gw_node 2) simp_all
qed (simp only: backfill.simps g_ret)

lemma gw_details: "moves le (loadUnresolvedContradictionDetails sc)"
  unfolding loadUnresolvedContradictionDetails_def by (intro g_intros gw_collect gw_backfill)

end

text \<open>The interface of the graph's writers: an order that every statement of theirs climbs is climbed by
  all of them.\<close>

locale graph_writer = detail_loader +
  assumes gw_update: "(\<And>w n. P n \<Longrightarrow> node_le n (f w n)) \<Longrightarrow> moves le (update_statement P f)"
    and gw_edge: "moves le (appendEdge j)"
begin

lemma gw_statements:
  "moves le (updateNodeContent i c)" "moves le (updateNodeStatus i s)"
  "moves le (updateNodeConfidence i r)" "moves le (patch_source i j)"
  "moves le (patch_meta i j)" "moves le (enrichNodeProvenance i p)"
  unfolding updateNodeContent_def updateNodeStatus_def updateNodeConfidence_def patch_source_def patch_meta_def
    enrichNodeProvenance_def Let_def
  by (intro grows_if g_ret gw_update; simp add: node_le_def touch_def)+

lemmas gw_steps = g_intros gw_statements gw_node gw_edge

lemma gw_upsert_claim: "moves le (upsert_claim env ex res e st)"
  unfolding upsert_claim_def matched_claim_def claim_text_def raise_confidence_def new_claim_def if_so_def Let_def
  by (intro gw_steps)

lemma gw_upsert_item: "moves le (upsert_item env ty meta ex e st)"
  unfolding upsert_item_def if_so_def Let_def by (intro gw_steps)

lemma gw_stale_claim: "moves le (stale_claim n st)"
  unfolding stale_claim_def by (intro gw_steps)

lemma gw_link: "moves le (link_contradiction env i str st)"
  unfolding link_contradiction_def Let_def
  by (intro gw_steps g_in_order) (auto intro!: gw_steps)

lemma gw_isResolved: "moves le (isResolved emb cosine txt sc)"
  unfolding isResolved_def by (intro gw_steps)

lemma gw_upsert_contradiction: "moves le (upsert_contradiction env ex res e st)"
  unfolding upsert_contradiction_def store_contradiction_def known_contradiction_def new_contradiction_def
    resolved_by_embedding_def Let_def
  by (intro gw_steps gw_link gw_isResolved)

lemma gw_put_doc: "moves le (put_doc sc title meta source)"
  unfolding put_doc_def by (intro gw_steps)

lemma gw_sync_body: "moves le (sync_body env fp docTitle seq)"
  unfolding sync_body_def sync_claims_def sync_contradictions_def mark_document_def queryNodesByCreator_def
    loadResolvedEquivalenceKeys_def resolved_contents_def Let_def
  by (intro gw_steps g_for_each gw_upsert_claim gw_upsert_item gw_stale_claim
      gw_upsert_contradiction gw_put_doc)

lemma gw_embed: "moves le (embedAndPersistNode emb i c)"
  unfolding embedAndPersistNode_def
  by (intro gw_steps gw_update) (simp add: node_le_def)

lemma gw_sync: "moves le (syncFactsToSemanticGraph env fp b d s)"
  unfolding syncFactsToSemanticGraph_def embed_claims_def if_so_def
  by (intro gw_steps gw_sync_body g_in_order) (auto intro!: gw_steps gw_embed)

lemma gw_resolve_node: "moves le (resolve_node i ref)"
  unfolding resolve_node_def by (intro gw_steps)

lemma gw_mark: "moves le (markContradictionResolved canon emb s3 i sc j r)"
  unfolding markContradictionResolved_def cascadeResolveDuplicateContradictions_def link_resolution_def Let_def
  by (intro gw_steps gw_resolve_node gw_embed g_in_order) (auto intro!: gw_resolve_node)

lemma gw_mark_evaluations: "moves le (mark_evaluations rs s3 sc evs)"
proof (induction evs)
  case (Cons ev evs)
  then show ?case unfolding mark_evaluations.simps by (intro gw_steps gw_mark)
qed (simp only: mark_evaluations.simps g_ret)

lemma gw_mark_by_text: "moves le (markResolvedByText rs s3 sc txt ids)"
  unfolding markResolvedByText_def explicit_details_def Let_def
  by (intro gw_steps gw_details gw_mark_evaluations)

end

lemma graph_le_update: "(\<And>n. P n \<Longrightarrow> node_le n (f n)) \<Longrightarrow> graph_le w (update_nodes P f w)"
  by (rule graph_leI[of _ "w_nodes (update_nodes P f w)" "[]" _ "[]"])
    (simp_all add: update_nodes_def list_all2_conv_all_nth)

lemma graph_le_append: "w_nodes w' = w_nodes w @ new \<Longrightarrow> w_edges w' = w_edges w @ es \<Longrightarrow> graph_le w w'"
  by (rule graph_leI[of _ "w_nodes w"]) simp_all

lemma graph_world_order: "world_order graph_le"
proof
  show "graph_le w w" for w by simp
  show "graph_le w w1 \<Longrightarrow> graph_le w1 w2 \<Longrightarrow> graph_le w w2" for w w1 w2 by (rule graph_le_trans)
  show "graph_le w (w \<lparr> w_tick := n \<rparr>)" for w n
    by (rule graph_leI[of _ "w_nodes w" "[]" _ "[]"]) simp_all
qed

interpretation graph: graph_writer graph_le
proof (intro graph_writer.intro detail_loader.intro graph_world_order detail_loader_axioms.intro graph_writer_axioms.intro)
  show "moves graph_le (update_statement P f)" if "\<And>w n. P n \<Longrightarrow> node_le n (f w n)" for P and f
    using that by (intro world_order.g_update[OF graph_world_order] graph_le_update)
  show "moves graph_le (appendNode i)" for i
    unfolding appendNode_def
    by (rule world_order.g_external[OF graph_world_order])
      (auto simp: Let_def intro: graph_le_append[where es = "[]"])
  show "moves graph_le (appendEdge j)" for j
    unfolding appendEdge_def
    by (rule world_order.g_external[OF graph_world_order])
      (auto simp: Let_def intro!: graph_le_append[where new = "[]"])
qed

lemmas graph_steps = graph.gw_steps

text \<open>What the writers of the graph and an evaluation leave alone: the queue of humans, the active scope,
  the clock, the bus, the state rows and the stored reports.\<close>

definition surroundings where
  [simp]: "surroundings w =
     (w_pending w, w_scope w, w_env_scope w, w_now w, w_bus w, w_states w, w_s3 w)"

interpretation beside: graph_writer "\<lambda>w w'. surroundings w' = surroundings w"
proof (unfold_locales, goal_cases)
  case (5 P f)
  show ?case by (simp add: moves_def update_statement_def external_def update_nodes_def)
qed (simp_all add: moves_def appendNode_def appendEdge_def external_def Let_def)

section \<open>Predicates that persist\<close>

definition persists :: "(world \<Rightarrow> bool) \<Rightarrow> world \<Rightarrow> world \<Rightarrow> bool" where
  "persists P w w' = (P w \<longrightarrow> P w')"

locale persistent =
  fixes P :: "world \<Rightarrow> bool"
  assumes P_tick: "P w \<Longrightarrow> P (w \<lparr> w_tick := n \<rparr>)"

sublocale persistent \<subseteq> keep: world_order "persists P"
  by unfold_locales (simp_all add: persists_def P_tick)

text \<open>Node identifiers stay distinct: they are the primary key.\<close>

definition distinct_nodes :: "world \<Rightarrow> bool" where
  "distinct_nodes w = distinct (node_ids w)"

interpretation keys: persistent distinct_nodes
  by unfold_locales (simp add: distinct_nodes_def node_ids_def)

text \<open>A node with this identifier has this status.\<close>

definition node_has :: "string \<Rightarrow> string \<Rightarrow> world \<Rightarrow> bool" where
  "node_has i status w = (\<exists>n \<in> set (w_nodes w). nd_id n = i \<and> nd_status n = status)"

interpretation has: persistent "node_has i status" for i status
  by unfold_locales (simp add: node_has_def)

lemma has_update:
  assumes "\<And>n. P n \<Longrightarrow> nd_id n = i \<Longrightarrow> nd_status n = s \<Longrightarrow> nd_id (f n) = i \<and> nd_status (f n) = s"
  shows "persists (node_has i s) w (update_nodes P f w)"
  unfolding persists_def
proof
  assume "node_has i s w"
  then obtain n where n: "n \<in> set (w_nodes w)" "nd_id n = i" "nd_status n = s" by (auto simp: node_has_def)
  let ?m = "if P n then f n else n"
  have "?m \<in> set (w_nodes (update_nodes P f w))" using n(1) unfolding update_nodes_def by simp
  moreover have "nd_id ?m = i \<and> nd_status ?m = s" using assms n by simp
  ultimately show "node_has i s (update_nodes P f w)" unfolding node_has_def by blast
qed

lemma has_update_statement:
  "(\<And>w n. P n \<Longrightarrow> nd_id n = i \<Longrightarrow> nd_status n = s \<Longrightarrow> nd_id (f w n) = i \<and> nd_status (f w n) = s) \<Longrightarrow>
   moves (persists (node_has i s)) (update_statement P f)"
  by (intro has.keep.g_update has_update)

lemma has_appendNode: "moves (persists (node_has i s)) (appendNode inp)"
  unfolding appendNode_def
  by (rule has.keep.g_external) (auto simp: Let_def persists_def node_has_def)

lemma has_appendEdge: "moves (persists (node_has i s)) (appendEdge inp)"
  unfolding appendEdge_def
  by (rule has.keep.g_external) (auto simp: Let_def persists_def node_has_def)

lemma has_statements:
  "moves (persists (node_has i s)) (updateNodeContent k c)"
  "moves (persists (node_has i s)) (updateNodeConfidence k r)"
  "moves (persists (node_has i s)) (patch_meta k j)"
  "moves (persists (node_has i s)) (enrichNodeProvenance k p)"
  unfolding updateNodeContent_def updateNodeConfidence_def patch_meta_def enrichNodeProvenance_def Let_def
  by (intro grows_if has.keep.g_ret has_update_statement; simp add: touch_def)+

lemma has_status: "s' = s \<or> k \<noteq> i \<Longrightarrow> moves (persists (node_has i s)) (updateNodeStatus k s')"
  unfolding updateNodeStatus_def by (intro has_update_statement) (auto simp: touch_def)

lemmas has_steps = has.keep.g_intros has_statements has_appendNode has_appendEdge

end
