(* ===== verification/Graph_Safety.thy ===== *)
theory Graph_Safety
  imports Graph_Growth
begin

text \<open>
  Properties of the semantic graph under its writers: what no operation ever loses, what a
  re-extraction undoes, what a low-confidence extraction does to the claims, and what resolving a
  contradiction changes.
\<close>

section \<open>Nothing is lost\<close>

datatype graph_op =
    SyncFacts sync_env facts_payload bool "string option" "int option"
  | MarkDocuments string "(string \<times> int) list" "string list" marker_opts
  | LoadDetails string
  | MarkResolved "string \<Rightarrow> string" "string \<Rightarrow> rat list" bool string "string option" "string option" "string option"
  | ResolveByText resolution_services bool "string option" string "string list"
  | TraceEquivalence "string \<Rightarrow> string" equivalence_trace

fun run_graph_op :: "graph_op \<Rightarrow> (world, unit) exec" where
  "run_graph_op (SyncFacts env fp b d s) = and_then (syncFactsToSemanticGraph env fp b d s) (\<lambda>_. ret ())"
| "run_graph_op (MarkDocuments sc docs ids opts) = markContextDocsAnalyzed sc docs ids opts"
| "run_graph_op (LoadDetails sc) = and_then (loadUnresolvedContradictionDetails sc) (\<lambda>_. ret ())"
| "run_graph_op (MarkResolved canon emb s3 i sc j r) = and_then (markResolved canon emb s3 i sc j r) (\<lambda>_. ret ())"
| "run_graph_op (ResolveByText rs s3 sc txt ids) = and_then (markResolvedByText rs s3 sc txt ids) (\<lambda>_. ret ())"
| "run_graph_op (TraceEquivalence canon t) = and_then (recordEquivalenceInGraph canon t) (\<lambda>_. ret ())"

lemma grows_documents: "moves graph_le (markContextDocsAnalyzed sc docs ids opts)"
  unfolding markContextDocsAnalyzed_def upsertDocMarker_def Let_def
  by (intro graph_steps graph.g_in_order) (auto intro!: graph_steps graph.gw_put_doc)

lemma grows_markResolved: "moves graph_le (markResolved canon emb s3 i sc j r)"
  unfolding markResolved_def by (intro graph_steps graph.gw_mark)

lemma grows_record_equivalence: "moves graph_le (recordEquivalenceInGraph canon t)"
  unfolding recordEquivalenceInGraph_def trace_body_def findExistingTrace_def append_trace_def
  by (intro graph_steps)

lemma grows_graph_op: "moves graph_le (run_graph_op op)"
  by (cases op) (auto intro!: graph.g_and_then graph.g_ret graph.gw_sync grows_documents graph.gw_details
      grows_markResolved graph.gw_mark_by_text grows_record_equivalence)

lemma graph_ops_grow: "graph_le w (fold (\<lambda>op w. fst (run_graph_op op w)) ops w)"
proof (induction ops arbitrary: w)
  case (Cons op ops)
  have "graph_le w (fst (run_graph_op op w))" using grows_graph_op by (simp add: moves_def)
  then show ?case using Cons graph_le_trans by simp
qed simp

lemma graph_le_node: "graph_le w w' \<Longrightarrow> n \<in> set (w_nodes w) \<Longrightarrow> \<exists>m \<in> set (w_nodes w'). node_le n m"
proof -
  assume a: "graph_le w w'" "n \<in> set (w_nodes w)"
  obtain ns new where ns: "w_nodes w' = ns @ new" "list_all2 node_le (w_nodes w) ns"
    using a(1) by (auto simp: graph_le_def)
  obtain k where "k < length (w_nodes w)" "w_nodes w ! k = n" using a(2) by (auto simp: in_set_conv_nth)
  then have "node_le n (ns ! k)" "ns ! k \<in> set ns" using ns(2) by (auto simp: list_all2_conv_all_nth)
  then show ?thesis using ns(1) by auto
qed


section \<open>A re-extraction reopens what was resolved\<close>

lemma has_upsert_item: "moves (persists (node_has i ''active'')) (upsert_item env ty meta ex e st)"
  unfolding upsert_item_def if_so_def Let_def by (intro has_steps has_status) auto

lemma has_upsert_claim: "moves (persists (node_has i ''active'')) (upsert_claim env ex res e st)"
  unfolding upsert_claim_def matched_claim_def claim_text_def raise_confidence_def new_claim_def if_so_def Let_def
  by (intro has_steps has_status) auto

lemma has_link: "moves (persists (node_has i ''active'')) (link_contradiction env k str st)"
  unfolding link_contradiction_def Let_def
  by (intro has_steps has.keep.g_in_order) (auto intro!: has_steps)

lemma has_isResolved: "moves (persists (node_has i s)) (isResolved emb cosine txt sc)"
  unfolding isResolved_def by (intro has_steps)

lemma has_upsert_contradiction: "moves (persists (node_has i ''active'')) (upsert_contradiction env ex res e st)"
  unfolding upsert_contradiction_def store_contradiction_def known_contradiction_def new_contradiction_def
    resolved_by_embedding_def Let_def
  by (intro has_steps has_link has_isResolved has_status) auto

lemma has_stale: "nd_id n \<noteq> i \<Longrightarrow> moves (persists (node_has i ''active'')) (stale_claim n st)"
  unfolding stale_claim_def by (intro has_steps has_status) auto

lemma has_after_goals:
  assumes "for_each (upsert_item env ty meta existing) items st w = (w', Inr st')"
    and "(g, p) \<in> set items" "str_trim g \<noteq> []"
    and "matchExistingNode existing (str_trim (canonicalizeClaimText (sx_canon env) g)) = Some n"
    and "n \<in> set (w_nodes w0)" "graph_le w0 w" "nd_status n = ''active'' \<Longrightarrow> node_has (nd_id n) ''active'' w"
  shows "node_has (nd_id n) ''active'' w'"
  using assms(1,2,6,7)
proof (induction items arbitrary: st w)
  case (Cons item items)
  obtain w1 st1 where s: "upsert_item env ty meta existing item st w = (w1, Inr st1)"
    and r: "for_each (upsert_item env ty meta existing) items st1 w1 = (w', Inr st')"
    using Cons.prems(1) by (auto simp: and_then_eq_Inr)
  have g1: "graph_le w0 w1" by (rule graph_le_trans[OF Cons.prems(3) movesD[OF graph.gw_upsert_item s]])
  have keep: "node_has (nd_id n) ''active'' w \<Longrightarrow> node_has (nd_id n) ''active'' w1"
    using movesD[OF has_upsert_item s] by (simp add: persists_def)
  show ?case
  proof (cases "item = (g, p)")
    case True
    have "node_has (nd_id n) ''active'' w1"
    proof (cases "nd_status n = ''active''")
      case True
      then show ?thesis using Cons.prems(4) keep by simp
    next
      case False
      obtain w2 where u: "updateNodeStatus (nd_id n) ''active'' w2 = (w1, Inr ())"
        and g2: "graph_le w0 w2"
        using s False \<open>item = (g, p)\<close> assms(3,4) graph_le_trans[OF Cons.prems(3)]
          movesD[OF graph.gw_statements(6)]
        by (fastforce simp: upsert_item_def Let_def if_so_def and_then_eq_Inr)
      obtain m where "m \<in> set (w_nodes w2)" "nd_id m = nd_id n"
        using graph_le_node[OF g2 assms(5)] by (auto simp: node_le_def)
      then show ?thesis
        using update_statement_ok[OF u[unfolded updateNodeStatus_def]] unfolding node_has_def
        by (intro bexI[of _ "touch (tick w2) m \<lparr> nd_status := ''active'' \<rparr>"]) (auto simp: touch_def)
    qed
    moreover have "persists (node_has (nd_id n) ''active'') w1 w'"
      by (rule movesD[OF has.keep.g_for_each r]) (rule has_upsert_item)
    ultimately show ?thesis by (simp add: persists_def)
  next
    case False
    then have "(g, p) \<in> set items" using Cons.prems(2) by auto
    then show ?thesis using Cons.IH[OF r _ g1] Cons.prems(4) keep by blast
  qed
qed simp

lemma run_transaction_Inr:
  "runInTransaction m w = (w', Inr x) \<Longrightarrow> \<exists>w1. m w = (w1, Inr x) \<and> w' = tick w1"
  by (auto simp: runInTransaction_def split: prod.splits sum.splits js_error.splits if_splits)

lemma query_state: "external (\<lambda>w. (w, q w)) w = (w', Inr x) \<Longrightarrow> w' = tick w \<and> q (tick w) = Inr x"
  by (auto simp: external_def split: if_splits)

lemma creator_query:
  "queryNodesByCreator sc by ty w = (w', Inr ns) \<Longrightarrow> w' = tick w \<and> ns = nodes_by_creator sc by ty w"
  by (auto simp: queryNodesByCreator_def nodes_by_creator_def external_def split: if_splits)

lemma nodes_by_creator_tick [simp]: "nodes_by_creator sc by ty (tick w) = nodes_by_creator sc by ty w"
  by (simp add: nodes_by_creator_def)

lemma nodes_by_creator_set:
  "set (nodes_by_creator sc by ty w) =
     {n \<in> set (w_nodes w). created_in sc by n \<and> opt_is ty (nd_type n) \<and> node_current (w_now w) n}"
  by (auto simp: nodes_by_creator_def)

lemma match_existing_mem: "matchExistingNode ns c = Some n \<Longrightarrow> n \<in> set ns"
proof -
  have best: "best_by f l xs = Some (x, r) \<Longrightarrow> x \<in> set xs" for f l x r and xs :: "node_row list"
    unfolding best_by_def
    by (induction xs arbitrary: x r rule: rev_induct) (auto split: option.splits if_splits prod.splits)
  assume "matchExistingNode ns c = Some n"
  then show "n \<in> set ns"
    by (auto simp: matchExistingNode_def Let_def dest: find_Some_mem best split: option.splits prod.splits if_splits)
qed

text \<open>The stages of a sync, each with the state it starts from.\<close>

lemma sync_stages:
  assumes "sync_body env fp d s w = (w', Inr st)"
  obtains claims goals risks keys w1 s1 w2 s2 w3 s3 w4 s4 w5 s5 where
    "claims = nodes_by_creator (sx_scope env) ''facts-sync'' (Some ''claim'') w"
    "goals = nodes_by_creator (sx_scope env) ''facts-sync'' (Some ''goal'') w"
    "risks = nodes_by_creator (sx_scope env) ''facts-sync'' (Some ''risk'') w"
    "sync_claims env fp claims keys start_sync (tick (tick (tick (tick w)))) = (w1, Inr s1)"
    "for_each (upsert_item env ''goal'' [] goals) (with_prov (fp_goals fp) (fp_goal_prov fp)) s1 w1 = (w2, Inr s2)"
    "for_each (upsert_item env ''risk'' [(''severity'', JStr ''high'')] risks)
       (with_prov (fp_risks fp) (fp_risk_prov fp)) s2 w2 = (w3, Inr s3)"
    "for_each stale_claim claims s3 w3 = (w4, Inr s4)"
    "sync_contradictions env fp s4 w4 = (w5, Inr s5)"
    "mark_document (sx_scope env) d s s5 w5 = (w', Inr st)"
proof -
  obtain v1 claims v2 goals v3 risks v4 keys w1 s1 w2 s2 w3 s3 w4 s4 w5 s5 where st:
    "queryNodesByCreator (sx_scope env) ''facts-sync'' (Some ''claim'') w = (v1, Inr claims)"
    "queryNodesByCreator (sx_scope env) ''facts-sync'' (Some ''goal'') v1 = (v2, Inr goals)"
    "queryNodesByCreator (sx_scope env) ''facts-sync'' (Some ''risk'') v2 = (v3, Inr risks)"
    "loadResolvedEquivalenceKeys (sx_canon env) (sx_scope env) v3 = (v4, Inr keys)"
    "sync_claims env fp claims keys start_sync v4 = (w1, Inr s1)"
    "for_each (upsert_item env ''goal'' [] goals) (with_prov (fp_goals fp) (fp_goal_prov fp)) s1 w1 = (w2, Inr s2)"
    "for_each (upsert_item env ''risk'' [(''severity'', JStr ''high'')] risks)
       (with_prov (fp_risks fp) (fp_risk_prov fp)) s2 w2 = (w3, Inr s3)"
    "for_each stale_claim claims s3 w3 = (w4, Inr s4)"
    "sync_contradictions env fp s4 w4 = (w5, Inr s5)"
    "mark_document (sx_scope env) d s s5 w5 = (w', Inr st)"
    using assms unfolding sync_body_def Let_def and_then_eq_Inr by blast
  have "v4 = tick v3" using st(4) by (auto simp: loadResolvedEquivalenceKeys_def external_def split: if_splits)
  then show ?thesis
    using that st(5-10) creator_query[OF st(1)] creator_query[OF st(2)] creator_query[OF st(3)] by simp
qed

lemma node_with_id: "distinct (node_ids w) \<Longrightarrow> n \<in> set (w_nodes w) \<Longrightarrow> m \<in> set (w_nodes w) \<Longrightarrow> nd_id n = nd_id m \<Longrightarrow> n = m"
  by (auto simp: node_ids_def distinct_map inj_on_def)

lemma persistsD: "moves (persists P) m \<Longrightarrow> m w = (w', r) \<Longrightarrow> P w \<Longrightarrow> P w'"
  using movesD[of "persists P" m w w' r] by (simp add: persists_def)

text \<open>The end of a sync - the document marker, the commit, the embeddings - keeps every status.\<close>

lemma sync_tail:
  assumes "mark_document sc d k s5 w5 = (wb, Inr st)"
    and "and_then (if_so b (embed_claims env st)) (\<lambda>_. ret st) (tick wb) = (w', Inr st)" "node_has i s w5"
  shows "\<exists>m \<in> set (w_nodes w'). nd_id m = i \<and> nd_status m = s"
proof -
  have "node_has i s wb"
    by (rule persistsD[where P = "node_has i s" and m = "mark_document sc d k s5", OF _ assms(1) assms(3)])
      (unfold mark_document_def put_doc_def Let_def, intro has_steps)
  then have "node_has i s (tick wb)" by (simp add: node_has_def)
  then have "node_has i s w'"
    by (rule persistsD[where m = "and_then (if_so b (embed_claims env st)) (\<lambda>_. ret st)", OF _ assms(2), rotated])
      (unfold if_so_def embed_claims_def embedAndPersistNode_def, intro has_steps has.keep.g_in_order,
       auto intro!: has_steps has_update_statement)
  then show ?thesis by (simp add: node_has_def)
qed

lemma claims_then_goals:
  assumes "sync_claims e fp claims keys start_sync (tick (tick (tick (tick w)))) = (w1, Inr s1)"
  shows "graph_le w w1 \<and> (node_has i ''active'' w \<longrightarrow> node_has i ''active'' w1)"
proof -
  have "moves graph_le (sync_claims e fp claims keys start_sync)"
    unfolding sync_claims_def by (intro graph_steps graph.g_for_each graph.gw_upsert_claim)
  from movesD[OF this assms] have "graph_le (tick (tick (tick (tick w)))) w1" .
  moreover have "graph_le w (tick (tick (tick (tick w))))"
    by (rule graph_le_append[where es = "[]" and new = "[]"]) simp_all
  ultimately have "graph_le w w1" using graph_le_trans by blast
  moreover have "moves (persists (node_has i ''active'')) (sync_claims e fp claims keys start_sync)"
    unfolding sync_claims_def by (intro has_steps has.keep.g_for_each has_upsert_claim)
  from movesD[OF this assms] have "node_has i ''active'' w \<Longrightarrow> node_has i ''active'' w1"
    by (simp add: persists_def node_has_def)
  ultimately show ?thesis by blast
qed

lemma goals_then_contradictions:
  assumes "node_has i ''active'' w2"
    and "for_each (upsert_item e ''risk'' meta risks) items s2 w2 = (w3, Inr s3)"
    and "for_each stale_claim claims s3 w3 = (w4, Inr s4)" "\<And>c. c \<in> set claims \<Longrightarrow> nd_id c \<noteq> i"
    and "sync_contradictions e fp s4 w4 = (w5, Inr s5)"
  shows "node_has i ''active'' w5"
proof -
  have "node_has i ''active'' w3"
    using assms(1) movesD[OF has.keep.g_for_each[OF has_upsert_item] assms(2)] by (simp add: persists_def)
  then have "node_has i ''active'' w4"
    using movesD[OF has.keep.g_for_each[OF has_stale] assms(3)] assms(4) by (simp add: persists_def)
  then show ?thesis
    by (rule persistsD[where m = "sync_contradictions e fp s4", OF _ assms(5), rotated])
      (unfold sync_contradictions_def queryNodesByCreator_def resolved_contents_def,
       intro has_steps has.keep.g_for_each has_upsert_contradiction)
qed

text \<open>
  C29. A goal that was resolved is reopened by the next extraction that mentions it: after a sync that
  ends normally, every goal node the payload matches is active, whatever its status was, so the share
  of resolved goals - and with it the goal score - can fall.
\<close>

theorem sync_reopens_goal:
  assumes "syncFactsToSemanticGraph env fp embedClaims docTitle contextSeq w = (w', Inr st)"
    and "distinct (node_ids w)" and "g \<in> set (fp_goals fp)" "str_trim g \<noteq> []"
    and "matchExistingNode (nodes_by_creator (sx_scope env) ''facts-sync'' (Some ''goal'') w)
           (str_trim (canonicalizeClaimText (sx_canon env) g)) = Some n"
  shows "\<exists>m \<in> set (w_nodes w'). nd_id m = nd_id n \<and> nd_status m = ''active''"
proof -
  let ?e = "env_for env fp"
  have e: "sx_scope ?e = sx_scope env" "sx_canon ?e = sx_canon env" by (simp_all add: env_for_def)
  obtain wt where t: "runInTransaction (sync_body ?e fp docTitle contextSeq) w = (wt, Inr st)"
    and rest: "and_then (if_so (embedClaims \<and> ss_created st > 0) (embed_claims env st)) (\<lambda>_. ret st) wt = (w', Inr st)"
    using assms(1) by (auto simp: syncFactsToSemanticGraph_def and_then_eq_Inr)
  obtain wb where b: "sync_body ?e fp docTitle contextSeq w = (wb, Inr st)" "wt = tick wb"
    using run_transaction_Inr[OF t] by blast
  from sync_stages[OF b(1)] obtain claims goals risks keys w1 s1 w2 s2 w3 s3 w4 s4 w5 s5 where st:
    "claims = nodes_by_creator (sx_scope ?e) ''facts-sync'' (Some ''claim'') w"
    "goals = nodes_by_creator (sx_scope ?e) ''facts-sync'' (Some ''goal'') w"
    "sync_claims ?e fp claims keys start_sync (tick (tick (tick (tick w)))) = (w1, Inr s1)"
    "for_each (upsert_item ?e ''goal'' [] goals) (with_prov (fp_goals fp) (fp_goal_prov fp)) s1 w1 = (w2, Inr s2)"
    "for_each (upsert_item ?e ''risk'' [(''severity'', JStr ''high'')] risks)
       (with_prov (fp_risks fp) (fp_risk_prov fp)) s2 w2 = (w3, Inr s3)"
    "for_each stale_claim claims s3 w3 = (w4, Inr s4)"
    "sync_contradictions ?e fp s4 w4 = (w5, Inr s5)"
    "mark_document (sx_scope ?e) docTitle contextSeq s5 w5 = (wb, Inr st)"
    by metis
  let ?P = "node_has (nd_id n) ''active''"
  have n: "n \<in> set goals" using match_existing_mem assms(5) st(2) e by simp
  then have nw: "n \<in> set (w_nodes w)" "nd_type n = ''goal''"
    using st(2) by (auto simp: nodes_by_creator_set opt_is_def)
  have g1: "graph_le w w1" and p1: "nd_status n = ''active'' \<Longrightarrow> ?P w1"
    using claims_then_goals[OF st(3), of "nd_id n"] nw by (auto simp: node_has_def)
  have "\<exists>p. (g, p) \<in> set (with_prov (fp_goals fp) (fp_goal_prov fp))"
    using assms(3) by (force simp: with_prov_def set_zip in_set_conv_nth)
  then obtain p where p: "(g, p) \<in> set (with_prov (fp_goals fp) (fp_goal_prov fp))" by blast
  have "?P w2"
    by (rule has_after_goals[OF st(4) p assms(4) _ nw(1) g1 p1]) (use assms(5) st(2) e in simp)
  moreover have "nd_id c \<noteq> nd_id n" if "c \<in> set claims" for c
    using that nw node_with_id[OF assms(2), of c n] by (auto simp: st(1) nodes_by_creator_set opt_is_def)
  ultimately have "?P w5" using goals_then_contradictions[OF _ st(5,6) _ st(7)] by blast
  from sync_tail[OF st(8) rest[unfolded b(2)] this] show ?thesis .
qed

section \<open>What a low-confidence extraction does\<close>

lemma upsert_item_matched: "upsert_item env ty meta ex item st w = (w', Inr st') \<Longrightarrow> ss_matched st' = ss_matched st"
  by (cases item)
    (auto simp: upsert_item_def Let_def and_then_eq_Inr note_created_def split: if_splits option.splits)

lemma upsert_items_matched:
  "for_each (upsert_item env ty meta ex) items st w = (w', Inr st') \<Longrightarrow> ss_matched st' = ss_matched st"
proof (induction items arbitrary: st w)
  case (Cons item items)
  then obtain w1 st1 where "upsert_item env ty meta ex item st w = (w1, Inr st1)"
    "for_each (upsert_item env ty meta ex) items st1 w1 = (w', Inr st')"
    by (auto simp: and_then_eq_Inr)
  then show ?case using Cons.IH upsert_item_matched by metis
qed simp

lemma stale_claim_matched: "stale_claim n st w = (w', Inr st') \<Longrightarrow> ss_matched st' = ss_matched st"
  by (auto simp: stale_claim_def and_then_eq_Inr split: if_splits)

lemma has_stale_irrelevant: "moves (persists (node_has i ''irrelevant'')) (stale_claim n st)"
  unfolding stale_claim_def by (intro has_steps has_status) auto

lemma stale_loop:
  assumes "for_each stale_claim claims st w = (w', Inr st')" "c \<in> set claims" "ss_matched st = []"
    and "nd_status c = ''active''" "nd_by c \<noteq> Some ''resolution''" "c \<in> set (w_nodes w0)" "graph_le w0 w"
  shows "node_has (nd_id c) ''irrelevant'' w'"
  using assms(1,2,3,7)
proof (induction claims arbitrary: st w)
  case (Cons d ds)
  obtain w1 st1 where s: "stale_claim d st w = (w1, Inr st1)"
    and r: "for_each stale_claim ds st1 w1 = (w', Inr st')"
    using Cons.prems(1) by (auto simp: and_then_eq_Inr)
  show ?case
  proof (cases "d = c")
    case True
    then obtain w2 where u: "updateNodeStatus (nd_id c) ''irrelevant'' w = (w1, Inr ())"
      using s assms(4,5) Cons.prems(3) by (auto simp: stale_claim_def and_then_eq_Inr)
    obtain m where "m \<in> set (w_nodes w)" "nd_id m = nd_id c"
      using graph_le_node[OF Cons.prems(4) assms(6)] by (auto simp: node_le_def)
    then have "node_has (nd_id c) ''irrelevant'' w1"
      using update_statement_ok[OF u[unfolded updateNodeStatus_def]] unfolding node_has_def
      by (intro bexI[of _ "touch (tick w) m \<lparr> nd_status := ''irrelevant'' \<rparr>"]) (auto simp: touch_def)
    then show ?thesis
      using persistsD[OF has.keep.g_for_each[OF has_stale_irrelevant] r] by blast
  next
    case False
    have "moves graph_le (stale_claim d st)" unfolding stale_claim_def by (intro graph_steps)
    from movesD[OF this s] have "graph_le w0 w1" using Cons.prems(4) graph_le_trans by blast
    then show ?thesis using Cons.IH[OF r] Cons.prems(2,3) False stale_claim_matched[OF s] by simp
  qed
qed simp


section \<open>Witnesses\<close>

definition sample_fact :: "string \<Rightarrow> string \<Rightarrow> string \<Rightarrow> string \<Rightarrow> node_row" where
  "sample_fact i ty c s = new_node \<lparr> ni_scope = ''s'', ni_type = ty, ni_content = c, ni_confidence = None,
     ni_status = Some s, ni_source = [], ni_meta = [], ni_by = Some ''facts-sync'', ni_embedding = None,
     ni_valid_from = None, ni_valid_to = None \<rparr> i 0"

definition fact_world :: world where
  "fact_world = empty_world \<lparr> w_nodes :=
     [sample_fact ''g'' ''goal'' ''grow'' ''resolved'', sample_fact ''c'' ''claim'' ''up'' ''active''] \<rparr>"

definition sample_env :: sync_env where
  "sample_env = \<lparr> sx_scope = ''s'', sx_canon = id, sx_min = 1/2, sx_embed = (\<lambda>_. []), sx_cosine = (\<lambda>_ _. 0),
     sx_confidence = 1, sx_valid_from = None, sx_valid_to = None \<rparr>"

definition sample_payload :: facts_payload where
  "sample_payload = \<lparr> fp_structured = [], fp_claims = [''up''], fp_goals = [''grow''], fp_risks = [],
     fp_contradictions = [], fp_confidence = Some (1/4), fp_valid_from = None, fp_valid_to = None,
     fp_claim_prov = [], fp_structured_prov = [], fp_goal_prov = [], fp_risk_prov = [], fp_contra_prov = [] \<rparr>"

definition synced_world :: world where
  "synced_world = fst (syncFactsToSemanticGraph sample_env sample_payload False None None fact_world)"

lemma sample_sync:
  obtains st where
    "syncFactsToSemanticGraph sample_env sample_payload False None None fact_world = (synced_world, Inr st)"
proof -
  have "case snd (syncFactsToSemanticGraph sample_env sample_payload False None None fact_world) of Inl _ \<Rightarrow> False | Inr _ \<Rightarrow> True"
    by code_simp
  then show ?thesis using that unfolding synced_world_def
    by (cases "syncFactsToSemanticGraph sample_env sample_payload False None None fact_world")
      (auto split: sum.splits)
qed

lemma fact_world_facts:
  "distinct (node_ids fact_world)"
  "matchExistingNode (nodes_by_creator (sx_scope sample_env) ''facts-sync'' (Some ''goal'') fact_world)
     (str_trim (canonicalizeClaimText (sx_canon sample_env) ''grow''))
     = Some (sample_fact ''g'' ''goal'' ''grow'' ''resolved'')"
  "node_current (w_now fact_world) (sample_fact ''c'' ''claim'' ''up'' ''active'')"
  "str_trim ''grow'' \<noteq> []"
  by code_simp+

theorem sync_reopens_goal_witness:
  "\<exists>m \<in> set (w_nodes synced_world). nd_id m = ''g'' \<and> nd_status m = ''active''"
proof -
  obtain st where "syncFactsToSemanticGraph sample_env sample_payload False None None fact_world = (synced_world, Inr st)"
    by (rule sample_sync)
  from sync_reopens_goal[OF this fact_world_facts(1) _ fact_world_facts(4,2)] show ?thesis
    by (simp add: sample_payload_def sample_fact_def new_node_def)
qed



end
