(* ===== verification/Finality_Safety.thy ===== *)
theory Finality_Safety
  imports Finality_Evaluator Graph_Safety
begin

text \<open>
  What an evaluation of finality answers, what it changes and what it cannot reach: the conditions
  of a resolution in terms of the rows of the graph, the outcomes no configuration reaches, the
  effects of human decisions, and the review that is asked for once.
\<close>

section \<open>Computations that never raise\<close>

definition never_raises :: "(world, 'a) exec \<Rightarrow> bool" where
  "never_raises m = (\<forall>w. \<exists>w' x. m w = (w', Inr x))"

lemma never_raises_ret: "never_raises (ret x)"
  by (simp add: never_raises_def ret_def)

lemma never_raises_and_then: "never_raises m \<Longrightarrow> (\<And>x. never_raises (f x)) \<Longrightarrow> never_raises (and_then m f)"
  unfolding never_raises_def and_then_def by (auto split: prod.split sum.split) (metis prod.inject sum.inject(2) sum.simps(4))

lemma never_raises_try: "(\<And>e. never_raises (h e)) \<Longrightarrow> never_raises (try_catch m h)"
  unfolding never_raises_def try_catch_def by (auto split: prod.split sum.split)

lemma never_raises_if: "never_raises a \<Longrightarrow> never_raises b \<Longrightarrow> never_raises (if c then a else b)"
  by simp

lemma never_raises_option:
  "never_raises a \<Longrightarrow> (\<And>x. never_raises (b x)) \<Longrightarrow> never_raises (case y of None \<Rightarrow> a | Some x \<Rightarrow> b x)"
  by (cases y) simp_all

lemma never_raises_prod: "(\<And>a b. never_raises (f a b)) \<Longrightarrow> never_raises (case y of (a, b) \<Rightarrow> f a b)"
  by (cases y) simp

lemma never_raises_first_answer:
  "list_all never_raises ms \<Longrightarrow> never_raises otherwise \<Longrightarrow> never_raises (first_answer ms otherwise)"
  by (induction ms) (auto intro!: never_raises_and_then never_raises_option never_raises_ret)

lemmas never_raises_intros = never_raises_ret never_raises_and_then never_raises_try never_raises_if
  never_raises_option never_raises_prod

lemma never_raises_record: "never_raises (recordGateStateIfAvailable env sc inp st)"
  unfolding recordGateStateIfAvailable_def by (intro never_raises_intros)

lemma never_raises_certificate: "never_raises (emitFinalityCertificate env sc)"
proof -
  have "never_raises (\<lambda>w. try_catch (persistCertificate s c jws p) (\<lambda>_. ret ()) w)" for s c jws p
    using never_raises_try[OF never_raises_ret] .
  then show ?thesis
    by (auto simp: never_raises_def emitFinalityCertificate_def Let_def ret_def split: sum.split)
qed

lemma never_raises_resolve: "never_raises (resolve_scope env sc)"
  unfolding resolve_scope_def emitSessionFinalized_def emitContribution_def
  by (intro never_raises_intros never_raises_certificate)

section \<open>Where an answer comes from\<close>

lemma first_answer_from:
  assumes "first_answer (ms @ m # ns) otherwise w = (w', Inr x)"
  shows "(\<exists>m' \<in> set (ms @ [m]). \<exists>v v'. m' v = (v', Inr (Some x)))
    \<or> (\<exists>v v'. m v = (v', Inr None) \<and> first_answer ns otherwise v' = (w', Inr x))"
  using assms
proof (induction ms arbitrary: w)
  case Nil
  then obtain v r where "m w = (v, Inr r)"
    "(case r of Some y \<Rightarrow> ret y | None \<Rightarrow> first_answer ns otherwise) v = (w', Inr x)"
    by (auto simp: and_then_eq_Inr)
  then show ?case by (cases r) (auto simp: ret_def)
next
  case (Cons k ms)
  then obtain v r where k: "k w = (v, Inr r)"
    "(case r of Some y \<Rightarrow> ret y | None \<Rightarrow> first_answer (ms @ m # ns) otherwise) v = (w', Inr x)"
    by (auto simp: and_then_eq_Inr)
  show ?case
  proof (cases r)
    case None
    then show ?thesis using k Cons.IH[of v] by auto
  next
    case (Some y)
    then have "k w = (v, Inr (Some x))" using k by (simp add: ret_def)
    then show ?thesis by auto
  qed
qed

definition answers :: "('a \<Rightarrow> bool) \<Rightarrow> (world, 'a option) exec \<Rightarrow> bool" where
  "answers Q m = (\<forall>w w' x. m w = (w', Inr (Some x)) \<longrightarrow> Q x)"

lemma first_answer_answers:
  assumes "list_all (answers Q) ms" "\<And>v v' y. otherwise v = (v', Inr y) \<Longrightarrow> Q y"
    and "first_answer ms otherwise w = (w', Inr x)"
  shows "Q x"
  using assms(1,3)
proof (induction ms arbitrary: w)
  case Nil
  then show ?case using assms(2) by simp
next
  case (Cons m ms)
  then obtain v r where m: "m w = (v, Inr r)"
    "(case r of Some y \<Rightarrow> ret y | None \<Rightarrow> first_answer ms otherwise) v = (w', Inr x)"
    by (auto simp: and_then_eq_Inr)
  show ?case
  proof (cases r)
    case None
    then show ?thesis using m Cons by simp
  next
    case (Some y)
    then show ?thesis using m Cons.prems(1) by (auto simp: answers_def ret_def)
  qed
qed

lemma answersD: "answers Q m \<Longrightarrow> m v = (v', Inr (Some x)) \<Longrightarrow> Q x"
  by (auto simp: answers_def)

lemma answers_ret_None [simp]: "answers Q (ret None)"
  by (simp add: answers_def ret_def)

lemma answers_ret_Some [simp]: "answers Q (ret (Some x)) = Q x"
  by (simp add: answers_def ret_def)

lemma answers_and_then: "(\<And>y. answers Q (f y)) \<Longrightarrow> answers Q (and_then m f)"
  by (auto simp: answers_def and_then_eq_Inr)

lemma answers_try: "answers Q m \<Longrightarrow> (\<And>e. answers Q (h e)) \<Longrightarrow> answers Q (try_catch m h)"
  by (auto simp: answers_def try_catch_def split: prod.splits sum.splits)

lemma answers_if: "(c \<Longrightarrow> answers Q a) \<Longrightarrow> (\<not> c \<Longrightarrow> answers Q b) \<Longrightarrow> answers Q (if c then a else b)"
  by simp

lemma answers_conclude: "Q a \<Longrightarrow> answers Q (conclude env sc inp st a)"
  unfolding conclude_def by (intro answers_and_then) simp

lemma answers_resolve: "Q (Some (FinalStatus ''RESOLVED'')) \<Longrightarrow> answers Q (resolve_scope env sc)"
  unfolding resolve_scope_def by (intro answers_and_then) simp

lemmas answers_intros = answers_if answers_and_then answers_try answers_conclude answers_resolve

section \<open>A resolution is earned\<close>

text \<open>What the machine's own resolution rests on.\<close>

definition earned :: "finality_env \<Rightarrow> finality_input \<Rightarrow> bool" where
  "earned env inp =
    (let cfg = loadFinalityConfig env in
     (\<exists>rule. map_get (fc_rules cfg) ''RESOLVED'' = Some rule \<and> fu_conditions rule \<noteq> []
        \<and> all_met rule (fi_snapshot inp))
     \<and> quiescence_gate env inp
     \<and> (case (fc_vector cfg, fi_convergence inp) of
          (Some vc, Some conv) \<Rightarrow> if vc_enabled vc \<and> \<not> fv_gates_disabled env
            then vector_passes (vector_outcome env vc inp conv) else scalar_passes env inp
        | _ \<Rightarrow> scalar_passes env inp))"

abbreviation not_resolved :: "answer \<Rightarrow> bool" where
  "not_resolved x \<equiv> x \<noteq> Some (FinalStatus ''RESOLVED'')"

lemma other_stages_do_not_resolve:
  "answers not_resolved (drift_stage env sc inp)" "answers not_resolved (divergence_stage env sc inp)"
  "answers not_resolved (content_stage env sc inp)" "answers not_resolved (iss_stage env sc inp)"
  "answers not_resolved (review_stage env sc inp)" "answers not_resolved (other_stage env sc inp)"
proof -
  show "answers not_resolved (drift_stage env sc inp)"
    unfolding drift_stage_def by (intro answers_intros) simp_all
  show "answers not_resolved (divergence_stage env sc inp)" "answers not_resolved (content_stage env sc inp)"
    "answers not_resolved (review_stage env sc inp)"
    unfolding divergence_stage_def content_stage_def review_stage_def by (intro answers_intros; simp)+
  show "answers not_resolved (iss_stage env sc inp)"
    unfolding iss_stage_def by (auto split: option.split prod.split bool.split intro!: answers_intros)
  show "answers not_resolved (other_stage env sc inp)"
  proof (cases "List.find (rule_matches (fi_snapshot inp)) (fc_rules (loadFinalityConfig env))")
    case (Some sr)
    then have "fst sr \<noteq> ''RESOLVED''" by (auto simp: find_Some_iff rule_matches_def)
    then show ?thesis using Some unfolding other_stage_def
      by (auto split: prod.split intro!: answers_conclude)
  qed (simp add: other_stage_def)
qed

lemma vector_quiescent: "vector_passes (vector_outcome env vc inp conv) \<Longrightarrow> quiescence_gate env inp"
  by (simp add: vector_passes_def vector_outcome_def evaluateVectorFinality_def evaluate_vector_finality_def
      global_gates_of_def Let_def)

lemma resolve_stage_earned:
  "answers (\<lambda>x. not_resolved x \<or> earned env inp) (resolve_stage env sc inp)"
proof -
  have "answers (\<lambda>x. not_resolved x \<or> earned env inp)
      (case (fc_vector (loadFinalityConfig env), fi_convergence inp) of
         (Some vc, Some conv) \<Rightarrow>
           if vc_enabled vc \<and> \<not> fv_gates_disabled env
           then vector_path env sc inp vc conv (all_met rule (fi_snapshot inp)) ok
           else scalar_path env sc inp (all_met rule (fi_snapshot inp)) ok
       | _ \<Rightarrow> scalar_path env sc inp (all_met rule (fi_snapshot inp)) ok)"
    if "map_get (fc_rules (loadFinalityConfig env)) ''RESOLVED'' = Some rule" "fu_conditions rule \<noteq> []" for rule ok
    using that unfolding vector_path_def scalar_path_def Let_def
    by (auto split: option.split intro!: answers_intros
        simp: earned_def scalar_passes_def dest: vector_quiescent)
  then show ?thesis
    unfolding resolve_stage_def Let_def
    by (auto split: option.split intro!: answers_intros)
qed

lemma evaluate_input_earned:
  assumes "evaluate_input env sc inp w = (w', Inr (Some (FinalStatus ''RESOLVED'')))"
  shows "fi_has_content inp \<and> earned env inp"
proof -
  let ?R = "Some (FinalStatus ''RESOLVED'')"
  let ?pre = "[drift_stage env sc inp, divergence_stage env sc inp]"
  let ?post = "[iss_stage env sc inp, resolve_stage env sc inp, review_stage env sc inp, other_stage env sc inp]"
  let ?fin = "and_then (recordGateStateIfAvailable env sc inp ''ACTIVE'') (\<lambda>_. ret None)"
  have e: "first_answer (?pre @ content_stage env sc inp # ?post) ?fin w = (w', Inr ?R)"
    using assms by (simp add: evaluate_input_def)
  have "list_all (answers not_resolved) (?pre @ [content_stage env sc inp])"
    by (simp add: other_stages_do_not_resolve)
  then have "\<not> (\<exists>m \<in> set (?pre @ [content_stage env sc inp]). \<exists>v v'. m v = (v', Inr (Some ?R)))"
    unfolding list_all_iff answers_def by blast
  then obtain v v' where c: "content_stage env sc inp v = (v', Inr None)"
    and r: "first_answer ?post ?fin v' = (w', Inr ?R)"
    using first_answer_from[OF e] by blast
  have "fi_has_content inp"
    using c by (auto simp: content_stage_def conclude_def and_then_eq_Inr ret_def split: if_splits)
  moreover have "not_resolved ?R \<or> earned env inp"
  proof (rule first_answer_answers[where Q = "\<lambda>x. not_resolved x \<or> earned env inp", OF _ _ r])
    have w: "answers not_resolved m \<Longrightarrow> answers (\<lambda>x. not_resolved x \<or> earned env inp) m" for m
      by (auto simp: answers_def)
    show "list_all (answers (\<lambda>x. not_resolved x \<or> earned env inp)) ?post"
      unfolding list_all_iff using w other_stages_do_not_resolve(4,5,6) resolve_stage_earned by simp
  qed (auto simp: and_then_eq_Inr ret_def)
  ultimately show ?thesis by blast
qed

section \<open>The snapshot behind an evaluation\<close>

lemma resolve_scope_returns:
  "\<exists>w'. resolve_scope env sc w = (w', Inr (Some (Some (FinalStatus ''RESOLVED''))))"
proof -
  obtain w' x where e: "resolve_scope env sc w = (w', Inr x)"
    using never_raises_resolve[of env sc] unfolding never_raises_def by blast
  then have "x = Some (Some (FinalStatus ''RESOLVED''))"
    by (auto simp: resolve_scope_def and_then_eq_Inr ret_def)
  then show ?thesis using e by blast
qed

lemma human_stage_None: "human_stage env sc w = (v, Inr None) \<Longrightarrow> v = tick w"
  using resolve_scope_returns[of env sc "tick w"]
  by (auto simp: human_stage_def try_catch_def getLatestFinalityDecision_def external_def ret_def
      and_then_def split: if_splits option.splits prod.splits sum.splits)

lemma human_stage_not_resolved:
  assumes "human_stage env sc w = (v, Inr (Some (Some (FinalStatus ''RESOLVED''))))"
  shows "\<exists>d. latest_decision sc w = Some d \<and> fr_option d = ''approve_finality''"
proof -
  have "latest_decision sc (tick w) = latest_decision sc w" by (simp add: latest_decision_def)
  then show ?thesis using assms
    by (auto simp: human_stage_def try_catch_def getLatestFinalityDecision_def external_def ret_def
        and_then_def split: if_splits option.splits prod.splits sum.splits)
qed

lemma external_Inr: "external (\<lambda>w. (w, Inr (q w))) w = (w', Inr x) \<Longrightarrow> w' = tick w \<and> x = q (tick w)"
  by (auto simp: external_def split: if_splits)

text \<open>Whatever calls fail, the snapshot is the default one or that of the current rows of the scope,
  except for the coverage, which is one when its query fails.\<close>

lemma snapshot_loaded:
  assumes "loadFinalitySnapshot schema sc w = (w', Inr s)"
  shows "s = default_snapshot
    \<or> (\<exists>cov. s = (snapshot_of schema (w_now w) (current_nodes sc w)) \<lparr> fs_coverage := cov \<rparr>)"
proof (cases "snd (loadFinalitySnapshotImpl schema sc w)")
  case (Inl e)
  then show ?thesis using assms
    by (auto simp: loadFinalitySnapshot_def try_catch_def ret_def split: prod.splits sum.splits)
next
  case (Inr s')
  then have impl: "loadFinalitySnapshotImpl schema sc w = (w', Inr s)"
    using assms by (auto simp: loadFinalitySnapshot_def try_catch_def split: prod.splits sum.splits)
  let ?rows = "current_nodes sc w"
  obtain w1 cl w2 ratio where 1: "external (\<lambda>w. (w, Inr (claim_aggregates_of (current_nodes sc w)))) w = (w1, Inr cl)"
    "external (\<lambda>w. (w, Inr (goals_ratio (current_nodes sc w)))) w1 = (w2, Inr ratio)"
    and rest: "(if ca_count cl = 0
            then and_then (getEvidenceCoverageForScope schema sc)
              (\<lambda>cov. ret (graph_snapshot no_claims ratio 0 (0, 0) cov))
            else and_then (scope_risk sc)
              (\<lambda>risk. and_then (external (\<lambda>w. (w, Inr (contradiction_counts (current_nodes sc w)))))
                (\<lambda>contra. and_then (getEvidenceCoverageForScope schema sc)
                  (\<lambda>cov. ret (graph_snapshot cl ratio risk contra cov))))) w2 = (w', Inr s)"
    using impl by (auto simp: loadFinalitySnapshotImpl_def and_then_eq_Inr)
  have w2: "w2 = tick (tick w)" "cl = claim_aggregates_of ?rows" "ratio = goals_ratio ?rows"
    using external_Inr[OF 1(1)] external_Inr[OF 1(2)] by simp_all
  show ?thesis
  proof (cases "ca_count cl = 0")
    case True
    then obtain cov where "s = graph_snapshot no_claims ratio 0 (0, 0) cov"
      using rest by (auto simp: and_then_eq_Inr ret_def)
    then show ?thesis using True w2 by (auto simp: snapshot_of_def Let_def graph_snapshot_def)
  next
    case False
    then obtain w3 risk w4 contra cov where r: "scope_risk sc w2 = (w3, Inr risk)"
      "external (\<lambda>w. (w, Inr (contradiction_counts (current_nodes sc w)))) w3 = (w4, Inr contra)"
      "s = graph_snapshot cl ratio risk contra cov"
      using rest by (auto simp: and_then_eq_Inr ret_def)
    then have "None \<notin> set (risk_deltas ?rows)" "risk = clamp01 (sum_list (map the (risk_deltas ?rows)))" "w3 = tick w2"
      using w2(1) by (auto simp: scope_risk_def external_def Let_def split: if_splits)
    moreover have "contra = contradiction_counts ?rows"
      using external_Inr[OF r(2)] calculation(3) w2(1) by simp
    ultimately show ?thesis using False r(3) w2 by (auto simp: snapshot_of_def Let_def graph_snapshot_def)
  qed
qed

text \<open>The aggregates of rows whose confidences are proportions.\<close>

lemma average_bounds: "xs \<noteq> [] \<Longrightarrow> list_all (\<lambda>x. a \<le> x \<and> x \<le> b) xs \<Longrightarrow> a \<le> average xs \<and> average xs \<le> b"
proof -
  assume x: "xs \<noteq> []" "list_all (\<lambda>x. a \<le> x \<and> x \<le> b) xs"
  have "of_nat (length xs) * a \<le> sum_list xs \<and> sum_list xs \<le> of_nat (length xs) * b"
    using x(2) by (induction xs) (auto simp: algebra_simps)
  moreover have "(0 :: rat) < of_nat (length xs)" using x(1) by simp
  ultimately show ?thesis by (simp add: average_def pos_le_divide_eq pos_divide_le_eq mult.commute)
qed

lemma foldr_min_bounds: "foldr min xs x \<in> set (x # xs)" for x :: rat
  by (induction xs) (auto simp: min_def)

lemma claim_aggregates_bounds:
  assumes "\<And>n. n \<in> set rows \<Longrightarrow> 0 \<le> nd_confidence n \<and> nd_confidence n \<le> 1"
  shows "0 \<le> ca_min (claim_aggregates_of rows) \<and> ca_min (claim_aggregates_of rows) \<le> 1
     \<and> 0 \<le> ca_avg (claim_aggregates_of rows) \<and> ca_avg (claim_aggregates_of rows) \<le> 1"
proof -
  let ?cs = "map nd_confidence (filter (has_type ''claim'' ''active'') rows)"
  have all: "list_all (\<lambda>x. 0 \<le> x \<and> x \<le> 1) ?cs" using assms by (auto simp: list_all_iff)
  show ?thesis
  proof (cases ?cs)
    case Nil
    then show ?thesis by (simp add: claim_aggregates_of_def)
  next
    case (Cons x xs)
    have "0 \<le> foldr min xs x \<and> foldr min xs x \<le> 1"
      using all foldr_min_bounds[of xs x] unfolding Cons list_all_iff by blast
    moreover have "0 \<le> average ?cs \<and> average ?cs \<le> 1" using average_bounds[OF _ all] Cons by simp
    ultimately show ?thesis by (simp add: claim_aggregates_of_def Let_def Cons)
  qed
qed

lemma count_of_mono: "(\<And>x. P x \<Longrightarrow> Q x) \<Longrightarrow> count_of P xs \<le> count_of Q xs"
  unfolding count_of_def by (induction xs) auto

lemma goals_ratio_bounds: "0 \<le> goals_ratio rows \<and> goals_ratio rows \<le> 1"
proof -
  have "count_of (has_type ''goal'' ''resolved'') rows \<le> count_of (\<lambda>n. nd_type n = ''goal'') rows"
    by (rule count_of_mono) (simp add: has_type_def)
  moreover have "0 \<le> count_of (\<lambda>n. nd_type n = ''goal'') rows" "0 \<le> count_of (has_type ''goal'' ''resolved'') rows"
    by (simp_all add: count_of_def)
  ultimately show ?thesis by (auto simp: goals_ratio_def Let_def divide_le_eq_1)
qed


lemma input_loaded:
  assumes "loadFinalityInput env sc w = (w', Inr inp)"
  obtains v where "loadFinalitySnapshot (fv_schema env) sc w = (v, Inr (fi_snapshot inp))"
  using assms that by (auto simp: loadFinalityInput_def and_then_eq_Inr ret_def input_of_def)

text \<open>The machine's own resolution, with the snapshot it was decided on.\<close>

lemma resolution_earned:
  assumes "evaluateFinality env sc w = (w', Inr (Some (FinalStatus ''RESOLVED'')))"
    and "\<not> (\<exists>d. latest_decision sc w = Some d \<and> fr_option d = ''approve_finality'')"
  obtains inp cov where "fi_has_content inp" "earned env inp"
    "fi_snapshot inp = (snapshot_of (fv_schema env) (w_now w) (current_nodes sc w)) \<lparr> fs_coverage := cov \<rparr>"
    "fi_has_content inp = has_content (fi_snapshot inp) (fi_epoch inp)"
proof -
  obtain v r where h: "human_stage env sc w = (v, Inr r)"
    "(case r of Some x \<Rightarrow> ret x | None \<Rightarrow> and_then (loadFinalityInput env sc) (evaluate_input env sc)) v
       = (w', Inr (Some (FinalStatus ''RESOLVED'')))"
    using assms(1) by (auto simp: evaluateFinality_def and_then_eq_Inr)
  have "r = None"
  proof (rule ccontr)
    assume "r \<noteq> None"
    then have "human_stage env sc w = (v, Inr (Some (Some (FinalStatus ''RESOLVED''))))"
      using h by (auto simp: ret_def)
    then show False using human_stage_not_resolved assms(2) by blast
  qed
  then have v: "v = tick w" using h(1) human_stage_None by blast
  obtain v1 inp where i: "loadFinalityInput env sc v = (v1, Inr inp)"
    "evaluate_input env sc inp v1 = (w', Inr (Some (FinalStatus ''RESOLVED'')))"
    using h(2) \<open>r = None\<close> by (auto simp: and_then_eq_Inr)
  have e: "fi_has_content inp" "earned env inp" using evaluate_input_earned[OF i(2)] by auto
  have c: "fi_has_content inp = has_content (fi_snapshot inp) (fi_epoch inp)"
    using i(1) by (auto simp: loadFinalityInput_def and_then_eq_Inr ret_def input_of_def)
  then have "fi_snapshot inp \<noteq> default_snapshot" using e(1) by (auto simp: has_content_def default_snapshot_def)
  then obtain cov where
    "fi_snapshot inp = (snapshot_of (fv_schema env) (w_now w) (current_nodes sc w)) \<lparr> fs_coverage := cov \<rparr>"
    using input_loaded[OF i(1)] snapshot_loaded v by (metis tick_select(2) current_nodes_tick)
  then show ?thesis using that e c by blast
qed

lemma shipped_conditions:
  "parse_condition ''claims.active.min_confidence: 0.85''
     = \<lparr> co_key = ''claims.active.min_confidence'', co_op = Gte, co_value = 85 / 100 \<rparr>"
  "parse_condition ''contradictions.unresolved_count: 0''
     = \<lparr> co_key = ''contradictions.unresolved_count'', co_op = EqOp, co_value = 0 \<rparr>"
  "parse_condition ''risks.critical.active_count: 0''
     = \<lparr> co_key = ''risks.critical.active_count'', co_op = EqOp, co_value = 0 \<rparr>"
  "parse_condition ''goals.completion_ratio: >= 0.90''
     = \<lparr> co_key = ''goals.completion_ratio'', co_op = Gte, co_value = 9 / 10 \<rparr>"
  "parse_condition ''scope.risk_score: < 0.20''
     = \<lparr> co_key = ''scope.risk_score'', co_op = Lt, co_value = 2 / 10 \<rparr>"
  by code_simp+

lemma shipped_resolved_rule:
  assumes "fv_file env = Some finality_yaml" "earned env inp"
  shows "fs_claims_min (fi_snapshot inp) \<ge> 85 / 100 \<and> fs_contra_unresolved (fi_snapshot inp) = 0
     \<and> fs_risks_critical (fi_snapshot inp) = 0 \<and> fs_goals_ratio (fi_snapshot inp) \<ge> 9 / 10
     \<and> fs_risk (fi_snapshot inp) < 2 / 10"
proof -
  let ?s = "fi_snapshot inp"
  have zero: "\<bar>of_int k - (0 :: rat)\<bar> < 1 / 2 ^ 52 \<Longrightarrow> k = 0" for k :: int
  proof (rule ccontr)
    assume a: "\<bar>of_int k - (0 :: rat)\<bar> < 1 / 2 ^ 52" "k \<noteq> 0"
    then have "1 \<le> \<bar>of_int k :: rat\<bar>" by (simp flip: of_int_abs)
    moreover have "(1 / 2 ^ 52 :: rat) < 1" by simp
    ultimately show False using a(1) by simp
  qed
  obtain rule where "map_get (fc_rules (loadFinalityConfig env)) ''RESOLVED'' = Some rule" "all_met rule ?s"
    using assms(2) by (auto simp: earned_def Let_def)
  then have "list_all (\<lambda>c. evaluateOne c ?s)
      [''claims.active.min_confidence: 0.85'', ''contradictions.unresolved_count: 0'',
       ''risks.critical.active_count: 0'', ''goals.completion_ratio: >= 0.90'', ''scope.risk_score: < 0.20'']"
    using assms(1)
    by (auto simp: loadFinalityConfig_def finality_yaml_def shipped_rules_def all_met_def conditions_of_def
        conditionToString_def)
  then have "compare_op (fs_claims_min ?s) Gte (85 / 100)" "compare_op (of_int (fs_contra_unresolved ?s)) EqOp 0"
    "compare_op (of_int (fs_risks_critical ?s)) EqOp 0" "compare_op (fs_goals_ratio ?s) Gte (9 / 10)"
    "compare_op (fs_risk ?s) Lt (2 / 10)"
    by (simp_all add: evaluateOne_def shipped_conditions resolve_key_def)
  then show ?thesis using zero by simp
qed

lemma claims_min_le:
  assumes "n \<in> set rows" "has_type ''claim'' ''active'' n"
  shows "ca_min (claim_aggregates_of rows) \<le> nd_confidence n"
proof -
  have fold: "foldr min xs x \<le> y" if "y \<in> set (x # xs)" for xs and x y :: rat
    using that by (induction xs) (auto simp: min_le_iff_disj)
  let ?cs = "map nd_confidence (filter (has_type ''claim'' ''active'') rows)"
  have "nd_confidence n \<in> set ?cs" using assms by auto
  then show ?thesis using fold by (cases ?cs) (auto simp: claim_aggregates_of_def Let_def)
qed

lemma count_of_zero: "count_of P xs = 0 \<Longrightarrow> x \<in> set xs \<Longrightarrow> \<not> P x"
  by (auto simp: count_of_def filter_empty_conv)

text \<open>
  C31. Under the shipped rules a scope the machine resolves is clean. Unless a human approved it, a
  RESOLVED answer - whatever calls fail during the evaluation - means that the current rows of the
  scope hold at least three active claims, each with a confidence of at least 0.85, no active
  contradiction and no active critical risk, that nine tenths of the goals are resolved, and that
  the risk the assessments add up to is below 0.2.
\<close>

theorem resolved_scope_is_clean:
  assumes "evaluateFinality env sc w = (w', Inr (Some (FinalStatus ''RESOLVED'')))"
    and "fv_file env = Some finality_yaml"
    and "\<not> (\<exists>d. latest_decision sc w = Some d \<and> fr_option d = ''approve_finality'')"
  shows "(\<forall>n \<in> set (current_nodes sc w).
       (has_type ''claim'' ''active'' n \<longrightarrow> 85 / 100 \<le> nd_confidence n)
       \<and> \<not> has_type ''contradiction'' ''active'' n
       \<and> \<not> (has_type ''risk'' ''active'' n \<and> map_get (nd_meta n) ''severity'' = Some (JStr ''critical'')))
     \<and> 3 \<le> count_of (has_type ''claim'' ''active'') (current_nodes sc w)
     \<and> 9 / 10 \<le> goals_ratio (current_nodes sc w)
     \<and> clamp01 (sum_list (map the (risk_deltas (current_nodes sc w)))) < 2 / 10"
proof -
  let ?rows = "current_nodes sc w"
  let ?S = "snapshot_of (fv_schema env) (w_now w) ?rows"
  obtain inp cov where inp: "fi_has_content inp" "earned env inp" "fi_snapshot inp = ?S \<lparr> fs_coverage := cov \<rparr>"
    "fi_has_content inp = has_content (fi_snapshot inp) (fi_epoch inp)"
    using resolution_earned[OF assms(1,3)] by metis
  note rule = shipped_resolved_rule[OF assms(2) inp(2)]
  have c3: "3 \<le> fs_claims_count ?S" using inp by (simp add: has_content_def)
  then have cl: "ca_count (claim_aggregates_of ?rows) \<noteq> 0" "None \<notin> set (risk_deltas ?rows)"
    by (auto simp: snapshot_of_def Let_def graph_snapshot_def no_claims_def default_snapshot_def split: if_splits)
  then obtain cv where S: "?S = graph_snapshot (claim_aggregates_of ?rows) (goals_ratio ?rows)
      (clamp01 (sum_list (map the (risk_deltas ?rows)))) (contradiction_counts ?rows) cv"
    by (auto simp: snapshot_of_def Let_def)
  have f: "85 / 100 \<le> ca_min (claim_aggregates_of ?rows)" "fst (contradiction_counts ?rows) = 0"
    "ca_critical (claim_aggregates_of ?rows) = 0" "9 / 10 \<le> goals_ratio ?rows"
    "clamp01 (sum_list (map the (risk_deltas ?rows))) < 2 / 10" "3 \<le> ca_count (claim_aggregates_of ?rows)"
    using rule c3 unfolding inp(3) S by (simp_all add: graph_snapshot_def)
  have "85 / 100 \<le> nd_confidence n" if "n \<in> set ?rows" "has_type ''claim'' ''active'' n" for n
    using claims_min_le[OF that] f(1) by linarith
  moreover have "\<not> has_type ''contradiction'' ''active'' n" if "n \<in> set ?rows" for n
    using count_of_zero[OF _ that] f(2) by (simp add: contradiction_counts_def)
  moreover have "\<not> (has_type ''risk'' ''active'' n \<and> map_get (nd_meta n) ''severity'' = Some (JStr ''critical''))"
    if "n \<in> set ?rows" for n
  proof -
    have "count_of (\<lambda>n. has_type ''risk'' ''active'' n
        \<and> map_get (nd_meta n) ''severity'' = Some (JStr ''critical'')) ?rows = 0"
      using f(3) by (simp add: claim_aggregates_of_def Let_def)
    from count_of_zero[OF this that] show ?thesis .
  qed
  moreover have "3 \<le> count_of (has_type ''claim'' ''active'') ?rows"
    using f(6) by (simp add: claim_aggregates_of_def Let_def count_of_def)
  ultimately show ?thesis using f(4,5) by blast
qed

section \<open>Outcomes that are out of reach\<close>

lemma loaded_never_idle:
  assumes "loadFinalitySnapshot schema sc w = (w', Inr s)"
  shows "fs_idle_cycles s = None \<and> fs_delta_age s = None \<and> fs_active_age s = None \<and> fs_unaddressed s = None"
  using snapshot_loaded[OF assms]
  by (auto simp: default_snapshot_def snapshot_of_def graph_snapshot_def Let_def)

text \<open>
  Gate D, once required, is never met. No loader fills the idle cycles or the age of the last
  change, so with a positive number of idle cycles or a positive window configured and the gates on,
  no evaluation resolves a scope a human has not approved.
\<close>

theorem quiescence_never_resolves:
  assumes "evaluateFinality env sc w = (w', Inr x)"
    and "fc_quiescence (loadFinalityConfig env) = Some (cycles, window)" "cycles > 0 \<or> window > 0"
    and "\<not> fv_gates_disabled env"
    and "\<not> (\<exists>d. latest_decision sc w = Some d \<and> fr_option d = ''approve_finality'')"
  shows "x \<noteq> Some (FinalStatus ''RESOLVED'')"
proof
  assume "x = Some (FinalStatus ''RESOLVED'')"
  then obtain inp cov where inp: "earned env inp"
    "fi_snapshot inp = (snapshot_of (fv_schema env) (w_now w) (current_nodes sc w)) \<lparr> fs_coverage := cov \<rparr>"
    using resolution_earned[of env sc w w'] assms(1,5) by metis
  have "fs_idle_cycles (fi_snapshot inp) = None" "fs_delta_age (fi_snapshot inp) = None"
    by (auto simp: inp(2) default_snapshot_def snapshot_of_def graph_snapshot_def Let_def)
  moreover have "quiescence_gate env inp" using inp(1) by (simp add: earned_def Let_def)
  ultimately show False using assms(2-4) by (auto simp: quiescence_gate_def isQuiescent_def)
qed

lemma shipped_blocked_conditions:
  "parse_condition ''scope.idle_cycles: >= 5''
     = \<lparr> co_key = ''scope.idle_cycles'', co_op = Gte, co_value = 5 \<rparr>"
  "parse_condition ''scope.last_active_age_ms: >= 2592000000''
     = \<lparr> co_key = ''scope.last_active_age_ms'', co_op = Gte, co_value = 2592000000 \<rparr>"
  by code_simp+

lemma shipped_unreachable_rules:
  assumes "fs_idle_cycles s = None" "fs_active_age s = None" "sr \<in> set shipped_rules" "rule_matches s sr"
  shows "fst sr = ''ESCALATED''"
  using assms
  by (auto simp: shipped_rules_def rule_matches_def conditions_of_def conditionToString_def evaluateOne_def
      shipped_blocked_conditions resolve_key_def)

lemma other_stages_statuses:
  assumes "fs_idle_cycles (fi_snapshot inp) = None" "fs_active_age (fi_snapshot inp) = None"
    and "fc_rules (loadFinalityConfig env) = shipped_rules"
    and Q: "\<And>st. Q (Some (FinalStatus st)) \<longleftrightarrow> st \<in> {''RESOLVED'', ''ESCALATED'', ''ACTIVE''}" "Q None" "\<And>rq. Q (Some (FinalReview rq))"
    and "evaluate_input env sc inp w = (w', Inr x)"
  shows "Q x"
proof (rule first_answer_answers[where Q = Q, OF _ _ assms(7)[unfolded evaluate_input_def]])
  have "answers Q (other_stage env sc inp)"
  proof (cases "List.find (rule_matches (fi_snapshot inp)) (fc_rules (loadFinalityConfig env))")
    case (Some sr)
    then have "sr \<in> set shipped_rules" "rule_matches (fi_snapshot inp) sr"
      using assms(3) by (auto simp: find_Some_iff in_set_conv_nth)
    then have "fst sr = ''ESCALATED''" using shipped_unreachable_rules assms(1,2) by blast
    then show ?thesis using Some Q by (cases sr) (auto simp: other_stage_def intro!: answers_conclude)
  qed (simp add: other_stage_def)
  moreover have "answers Q (drift_stage env sc inp)" "answers Q (divergence_stage env sc inp)"
    "answers Q (content_stage env sc inp)" "answers Q (review_stage env sc inp)"
    unfolding drift_stage_def divergence_stage_def content_stage_def review_stage_def
    by (intro answers_intros; simp add: Q)+
  moreover have "answers Q (iss_stage env sc inp)"
    unfolding iss_stage_def by (auto split: option.split prod.split bool.split simp: Q intro!: answers_intros)
  moreover have "answers Q (resolve_stage env sc inp)"
    unfolding resolve_stage_def vector_path_def scalar_path_def Let_def
    by (auto split: option.split simp: Q intro!: answers_intros)
  ultimately show "list_all (answers Q)
      [drift_stage env sc inp, divergence_stage env sc inp, content_stage env sc inp, iss_stage env sc inp,
       resolve_stage env sc inp, review_stage env sc inp, other_stage env sc inp]"
    by (simp only: list.pred_inject simp_thms)
qed (auto simp: and_then_eq_Inr ret_def Q)

text \<open>
  Under the shipped rules BLOCKED and EXPIRED are never answered, on any graph and for any
  history: a status answer is RESOLVED, ESCALATED or ACTIVE.
\<close>

theorem shipped_statuses:
  assumes "fv_file env = Some finality_yaml" and "evaluateFinality env sc w = (w', Inr (Some (FinalStatus st)))"
  shows "st \<in> {''RESOLVED'', ''ESCALATED'', ''ACTIVE''}"
proof -
  define Q :: "answer \<Rightarrow> bool" where
    "Q x = (case x of Some (FinalStatus s) \<Rightarrow> s \<in> {''RESOLVED'', ''ESCALATED'', ''ACTIVE''} | _ \<Rightarrow> True)" for x
  have Q: "\<And>st. Q (Some (FinalStatus st)) \<longleftrightarrow> st \<in> {''RESOLVED'', ''ESCALATED'', ''ACTIVE''}" "Q None"
    "\<And>rq. Q (Some (FinalReview rq))" by (simp_all add: Q_def)
  have rules: "fc_rules (loadFinalityConfig env) = shipped_rules"
    using assms(1) by (simp add: loadFinalityConfig_def finality_yaml_def)
  have "Q (Some (FinalStatus st))"
  proof (rule first_answer_answers[where Q = Q, OF _ _ assms(2)[unfolded evaluateFinality_def]])
    show "list_all (answers Q) [human_stage env sc]"
    proof -
      have "answers Q (\<lambda>w. ret (if cooling_down env d (w_now w) then Some None else None) w)" for d
        by (auto simp: answers_def ret_def Q)
      then have "answers Q (human_stage env sc)"
        unfolding human_stage_def by (auto split: option.split simp: Q intro!: answers_intros)
      then show ?thesis by simp
    qed
  next
    fix v v' y
    assume "and_then (loadFinalityInput env sc) (evaluate_input env sc) v = (v', Inr y)"
    then obtain v1 inp where i: "loadFinalityInput env sc v = (v1, Inr inp)" "evaluate_input env sc inp v1 = (v', Inr y)"
      by (auto simp: and_then_eq_Inr)
    obtain u where "loadFinalitySnapshot (fv_schema env) sc v = (u, Inr (fi_snapshot inp))"
      using input_loaded[OF i(1)] by blast
    from loaded_never_idle[OF this] show "Q y" using other_stages_statuses[OF _ _ rules Q i(2)] by simp
  qed
  then show ?thesis by (simp add: Q)
qed

section \<open>The vector predicate\<close>

text \<open>
  C32. No dimension compensates another. With the vector predicate enabled, the gates on and the
  convergence of the scope tracked, a resolution means that every required and every veto dimension
  by itself is within its tolerance of its threshold, has not fallen over the monotonicity window and
  has a trajectory of quality 0.7, and that no contradiction is open and the required evidence is
  there - whatever the goal score is.
\<close>

theorem no_compensation:
  assumes "evaluate_input env sc inp w = (w', Inr (Some (FinalStatus ''RESOLVED'')))"
    and "fc_vector (loadFinalityConfig env) = Some vc" "vc_enabled vc" "\<not> fv_gates_disabled env"
    and "fi_convergence inp = Some conv"
  shows "(\<forall>d. v1_name d \<in> set (vc_required vc) \<union> set (vc_veto vc) \<longrightarrow>
       config_at (vc_thresholds vc) (85 / 100) (v1_name d)
         - compute_dimension_scores (toSnapshotDto (fi_snapshot inp)) ! dim_index d
         \<le> config_at (vc_epsilon vc) (2 / 100) (v1_name d)
       \<and> four_or False (kd_dim_monotonic conv) ! dim_index d
       \<and> 7 / 10 \<le> four_or 1 (kd_dim_quality conv) ! dim_index d)
     \<and> evidence_gate (fi_snapshot inp)"
proof -
  let ?xs = "compute_dimension_scores (toSnapshotDto (fi_snapshot inp))"
  have v: "vector_passes (vector_outcome env vc inp conv)"
    using evaluate_input_earned[OF assms(1)] assms(2-5) by (simp add: earned_def Let_def)
  have f: "four_or 0 ?xs = ?xs" by (simp add: four_or_def)
  have r: "vector_outcome env vc inp conv = evaluate_vector_finality vc ?xs (kd_dim_monotonic conv)
      (kd_dim_quality conv) (global_gates_of env inp)"
    by (simp add: vector_outcome_def vector_of_snapshot)
  then have "\<forall>d. v1_name d \<in> set (vc_required vc) \<union> set (vc_veto vc) \<longrightarrow>
      dr_passed (dimension_outcome vc ?xs (four_or False (kd_dim_monotonic conv)) (four_or 1 (kd_dim_quality conv)) d)"
    using v vector_passes_iff[of vc ?xs "kd_dim_monotonic conv" "kd_dim_quality conv" "global_gates_of env inp"]
    unfolding f vector_passes_def by metis
  moreover have "evidence_gate (fi_snapshot inp)"
    using v r by (simp add: vector_passes_def evaluate_vector_finality_def global_gates_of_def Let_def)
  ultimately show ?thesis unfolding dimension_passes_iff by blast
qed

lemma first_answer_None:
  "m w = (v, Inr None) \<Longrightarrow> first_answer (m # ms) otherwise w = first_answer ms otherwise v"
  by (simp add: and_then_def)

lemma drift_stage_without_contradiction:
  "fs_contra_unresolved (fi_snapshot inp) \<le> 0 \<Longrightarrow> drift_stage env sc inp w = (tick w, Inr None)"
  by (auto simp: drift_stage_def try_catch_def and_then_def loadState_def external_def ret_def)

lemma iss_stage_without_history:
  assumes "filter (\<lambda>r. ph_scope r = sc) (w_propagation w) = []"
  shows "\<exists>v. iss_stage env sc inp w = (v, Inr None) \<and> w_propagation v = w_propagation w"
proof -
  have "history_rows sc 20 (w_propagation w) = []" using assms by (simp add: history_rows_def)
  then show ?thesis
    by (auto simp: iss_stage_def try_catch_def and_then_def loadPropagationHistory_def external_def ret_def
        split: option.split bool.split)
qed

lemma converged_without_history:
  assumes "filter (\<lambda>r. ph_scope r = sc) (w_propagation w) = []"
  shows "\<exists>v. propagation_converged env sc w = (v, Inr True)"
proof -
  have "latest_energy sc (w_propagation w) = None" using assms by (simp add: latest_energy_def)
  then show ?thesis
    by (auto simp: propagation_converged_def try_catch_def and_then_def loadLatestDirichletEnergy_def external_def
        ret_def split: option.split bool.split)
qed

text \<open>
  The vector predicate fails open. Under the shipped configuration a scope whose hard conditions
  hold but whose required evidence is missing is not resolved while its convergence is tracked; when
  the convergence tables fail, the same scope with the same snapshot is resolved by its goal score
  alone - neither the evidence nor any history is asked for.
\<close>

theorem tracking_failure_fails_open:
  assumes "fv_file env = Some finality_yaml" "\<not> fv_gates_disabled env" "fi_has_content inp"
    and "list_all (\<lambda>c. evaluateOne (conditionToString c) (fi_snapshot inp)) (fu_conditions (snd (hd shipped_rules)))"
    and "fi_auto inp \<le> fi_goal inp" "filter (\<lambda>r. ph_scope r = sc) (w_propagation w) = []"
    and "\<not> evidence_gate (fi_snapshot inp)"
  shows "(\<exists>w'. evaluate_input env sc (inp \<lparr> fi_convergence := None \<rparr>) w
        = (w', Inr (Some (FinalStatus ''RESOLVED''))))
     \<and> (\<forall>conv w'. evaluate_input env sc (inp \<lparr> fi_convergence := Some conv \<rparr>) w
        \<noteq> (w', Inr (Some (FinalStatus ''RESOLVED''))))"
proof
  let ?inp = "inp \<lparr> fi_convergence := None \<rparr>"
  have cfg: "loadFinalityConfig env = finality_yaml" using assms(1) by (simp add: loadFinalityConfig_def)
  have rule: "map_get (fc_rules finality_yaml) ''RESOLVED'' = Some (snd (hd shipped_rules))"
    by (simp add: finality_yaml_def shipped_rules_def)
  have met: "all_met (snd (hd shipped_rules)) (fi_snapshot ?inp)"
    using assms(4) by (simp add: all_met_def conditions_of_def list.pred_map comp_def) (simp add: shipped_rules_def)
  have c: "fu_conditions (snd (hd shipped_rules)) \<noteq> []" by (simp add: shipped_rules_def)
  have q: "quiescence_gate env ?inp" by (simp add: quiescence_gate_def cfg finality_yaml_def isQuiescent_def)
  have s: "scalar_passes env ?inp"
    using assms(5) q by (simp add: scalar_passes_def monotonic_gate_def trajectory_gate_def)
  then have "earned env ?inp" using rule met c q by (auto simp: earned_def cfg Let_def split: option.split)
  then have "fs_contra_unresolved (fi_snapshot ?inp) \<le> 0" using shipped_resolved_rule[OF assms(1)] by fastforce
  then have d: "drift_stage env sc ?inp w = (tick w, Inr None)" by (rule drift_stage_without_contradiction)
  have d2: "divergence_stage env sc ?inp v = (v, Inr None)" "content_stage env sc ?inp v = (v, Inr None)" for v
    using assms(3) by (simp_all add: divergence_stage_def content_stage_def ret_def)
  obtain v where v: "iss_stage env sc ?inp (tick w) = (v, Inr None)" "w_propagation v = w_propagation w"
    using iss_stage_without_history[of sc "tick w" env ?inp] assms(6) by auto
  obtain v2 where v2: "propagation_converged env sc v = (v2, Inr True)"
    using converged_without_history[of sc v env] assms(6) v(2) by auto
  obtain w' where w': "resolve_scope env sc v2 = (w', Inr (Some (Some (FinalStatus ''RESOLVED''))))"
    using resolve_scope_returns by blast
  have "resolve_stage env sc ?inp v = scalar_path env sc ?inp True True v2"
    using rule c met v2 by (simp add: resolve_stage_def cfg Let_def and_then_def split: option.split)
  also have "\<dots> = (w', Inr (Some (Some (FinalStatus ''RESOLVED''))))"
    using s w' by (simp add: scalar_path_def recordGateStateIfAvailable_def and_then_def ret_def)
  finally have "resolve_stage env sc ?inp v = (w', Inr (Some (Some (FinalStatus ''RESOLVED''))))" .
  then have "evaluate_input env sc ?inp w = (w', Inr (Some (FinalStatus ''RESOLVED'')))"
    unfolding evaluate_input_def
    by (simp only: first_answer.simps and_then_def d d2 v(1) prod.case sum.case option.case)
      (simp add: ret_def)
  then show "\<exists>w'. evaluate_input env sc ?inp w = (w', Inr (Some (FinalStatus ''RESOLVED'')))" by blast
next
  have "fc_vector (loadFinalityConfig env) = Some shipped_vector" "vc_enabled shipped_vector"
    using assms(1) by (simp_all add: loadFinalityConfig_def finality_yaml_def shipped_vector_def)
  then show "\<forall>conv w'. evaluate_input env sc (inp \<lparr> fi_convergence := Some conv \<rparr>) w
      \<noteq> (w', Inr (Some (FinalStatus ''RESOLVED'')))"
    using evaluate_input_earned[of env sc _ w] assms(2,7)
    by (auto simp: earned_def Let_def vector_passes_def vector_outcome_def evaluateVectorFinality_def
        evaluate_vector_finality_def global_gates_of_def dest!: evaluate_input_earned)
qed

end
