(* ===== verification/Finality_Effects.thy ===== *)
theory Finality_Effects
  imports Finality_Safety Evidence_Safety Executor_Safety
begin

text \<open>
  What a finality evaluation does to the tables: it never raises, it takes nothing from the graph and
  changes no status, a human approval closes the scope again at every evaluation, and a review waits
  for one answer.
\<close>

section \<open>An evaluation always answers\<close>

lemma never_raises_snapshot: "never_raises (loadFinalitySnapshot schema sc)"
  unfolding loadFinalitySnapshot_def by (intro never_raises_intros)

lemma never_raises_input: "never_raises (loadFinalityInput env sc)"
  unfolding loadFinalityInput_def lookup_epoch_def track_convergence_def Let_def
  by (intro never_raises_intros never_raises_snapshot)

lemma never_raises_blockers: "never_raises (buildBlockers sc s)"
  unfolding buildBlockers_def by (intro never_raises_intros)

lemma never_raises_conclude: "never_raises (conclude env sc inp st a)"
  unfolding conclude_def by (intro never_raises_intros never_raises_record)

lemma never_raises_converged: "never_raises (propagation_converged env sc)"
  unfolding propagation_converged_def
  by (auto split: option.split bool.split intro!: never_raises_intros)

lemma never_raises_stages:
  "never_raises (drift_stage env sc inp)" "never_raises (divergence_stage env sc inp)"
  "never_raises (content_stage env sc inp)" "never_raises (iss_stage env sc inp)"
  "never_raises (resolve_stage env sc inp)" "never_raises (review_stage env sc inp)"
  "never_raises (other_stage env sc inp)" "never_raises (human_stage env sc)"
  unfolding drift_stage_def divergence_stage_def content_stage_def iss_stage_def resolve_stage_def
    review_stage_def other_stage_def human_stage_def vector_path_def scalar_path_def Let_def
  by (auto split: option.split prod.split bool.split
      intro!: never_raises_intros never_raises_conclude never_raises_record never_raises_blockers
        never_raises_converged never_raises_resolve)

lemma evaluation_answers: "\<exists>w' x. evaluateFinality env sc w = (w', Inr x)"
proof -
  have "never_raises (evaluateFinality env sc)"
    unfolding evaluateFinality_def evaluate_input_def
    by (intro never_raises_first_answer never_raises_and_then never_raises_input)
      (simp_all add: never_raises_stages never_raises_and_then never_raises_record never_raises_ret)
  then show ?thesis by (simp add: never_raises_def)
qed

text \<open>
  C33. An evaluation always answers: whatever calls fail - the snapshot, the tables, the object store,
  the signing key - no exception leaves \<open>evaluateFinality\<close>.
\<close>

theorem evaluation_always_answers: "\<exists>w' x. evaluateFinality env sc w = (w', Inr x)"
  by (rule evaluation_answers)

section \<open>What an evaluation does to the graph\<close>

text \<open>Orders on worlds that are climbed when nodes are appended, the edges and the surroundings staying.\<close>

locale graph_order = world_order +
  assumes le_append: "w_nodes w' = w_nodes w @ ns \<Longrightarrow> w_edges w' = w_edges w
    \<Longrightarrow> surroundings w' = surroundings w \<Longrightarrow> le w w'"
begin

lemma le_same: "w_nodes w' = w_nodes w \<Longrightarrow> w_edges w' = w_edges w \<Longrightarrow> surroundings w' = surroundings w \<Longrightarrow> le w w'"
  by (rule le_append[where ns = "[]"]) simp_all

lemma g_same:
  "(\<And>w. w_nodes (fst (m w)) = w_nodes w \<and> w_edges (fst (m w)) = w_edges w \<and> surroundings (fst (m w)) = surroundings w)
   \<Longrightarrow> moves le m"
  unfolding moves_def by (auto intro!: le_same)

lemma g_first_answer: "list_all (moves le) ms \<Longrightarrow> moves le otherwise \<Longrightarrow> moves le (first_answer ms otherwise)"
proof (induction ms)
  case (Cons m ms)
  then have "moves le (first_answer ms otherwise)" by simp
  then show ?case using Cons.prems(1) by (auto intro!: g_and_then split: option.split simp: g_ret)
qed simp

lemma g_appendNode: "moves le (appendNode i)"
  unfolding appendNode_def by (rule g_external) (auto simp: Let_def intro: le_append le_same)

end

sublocale graph_order \<subseteq> detail_loader
  by unfold_locales (rule g_appendNode)

context graph_order
begin

lemma g_blockers: "moves le (buildBlockers sc s)"
  unfolding buildBlockers_def by (intro g_intros gw_details)

lemma g_snapshot: "moves le (loadFinalitySnapshot schema sc)"
proof -
  have "moves le (scope_risk sc)" unfolding scope_risk_def
    by (rule g_external) (auto simp: Let_def le_refl)
  then show ?thesis
    unfolding loadFinalitySnapshot_def loadFinalitySnapshotImpl_def getEvidenceCoverageForScope_def
    by (intro g_intros)
qed

lemma g_tables:
  "moves le (recordConvergencePoint sc pt)" "moves le (updateConvergenceGateState sc e g)"
  "moves le (appendEvent d)" "moves le (markStudioCatalogResolved sc r)"
  "moves le (persistCertificate s sc j p)"
  unfolding recordConvergencePoint_def updateConvergenceGateState_def appendEvent_def
    markStudioCatalogResolved_def persistCertificate_def
  by (intro g_and_then g_try g_ret g_external; auto simp: Let_def intro!: le_same split: option.split)+

lemma g_emit: "moves le (emitContribution sha r k p t m sc ps)"
proof (rule g_same)
  fix w
  have "keeps (\<lambda>w. (w_nodes w, w_edges w, surroundings w)) (emitContribution sha r k p t m sc ps)"
    by (rule keeps_emit) simp_all
  then show "w_nodes (fst (emitContribution sha r k p t m sc ps w)) = w_nodes w
      \<and> w_edges (fst (emitContribution sha r k p t m sc ps w)) = w_edges w
      \<and> surroundings (fst (emitContribution sha r k p t m sc ps w)) = surroundings w"
    by (simp add: keeps_def)
qed

lemma g_record: "moves le (recordGateStateIfAvailable env sc inp st)"
  unfolding recordGateStateIfAvailable_def by (intro g_intros g_tables)

lemma g_resolve: "moves le (resolve_scope env sc)"
proof -
  have "moves le (emitFinalityCertificate env sc)"
  proof -
    have "moves le (try_catch (persistCertificate s c jws p) (\<lambda>_. ret ()))" for s c jws p
      by (intro g_intros g_tables)
    then show ?thesis
      unfolding moves_def emitFinalityCertificate_def Let_def by (auto split: sum.split simp: ret_def le_refl)
  qed
  then show ?thesis
    unfolding resolve_scope_def emitSessionFinalized_def computeGoalScoreForScope_def
      scopeHasFinalityContent_def lookup_epoch_def loadState_def
    by (intro g_intros g_tables g_emit g_snapshot)
qed

lemma g_input: "moves le (loadFinalityInput env sc)"
  unfolding loadFinalityInput_def lookup_epoch_def loadState_def track_convergence_def
    getLatestPipelineWalSeqForFacts_def getConvergenceState_def loadConvergenceHistory_def Let_def
  by (intro g_intros g_tables g_snapshot)

lemma g_conclude: "moves le (conclude env sc inp st a)"
  unfolding conclude_def by (intro g_intros g_record)

lemma g_converged: "moves le (propagation_converged env sc)"
  unfolding propagation_converged_def loadLatestDirichletEnergy_def
  by (auto split: option.split bool.split intro!: g_intros)

lemma g_s3_get: "moves le (s3_get key)"
  by (auto simp: moves_def s3_get_def external_def tick_def Let_def intro!: le_same split: option.split)

lemma g_drift_report: "moves le (read_drift_report sc)"
  unfolding read_drift_report_def by (intro g_intros g_s3_get) (auto intro!: g_intros split: s3_doc.split)

lemma g_stages:
  "moves le (drift_stage env sc inp)" "moves le (divergence_stage env sc inp)" "moves le (content_stage env sc inp)"
  "moves le (iss_stage env sc inp)" "moves le (resolve_stage env sc inp)" "moves le (review_stage env sc inp)"
  "moves le (other_stage env sc inp)"
proof -
  show "moves le (drift_stage env sc inp)"
    unfolding drift_stage_def loadState_def by (intro g_intros g_record g_blockers g_drift_report)
  show "moves le (divergence_stage env sc inp)" "moves le (content_stage env sc inp)"
    "moves le (review_stage env sc inp)"
    unfolding divergence_stage_def content_stage_def review_stage_def
    by (intro g_intros g_conclude g_record g_blockers)+
  show "moves le (iss_stage env sc inp)"
    unfolding iss_stage_def loadPropagationHistory_def
    by (auto split: option.split prod.split bool.split intro!: g_intros g_conclude)
  show "moves le (other_stage env sc inp)"
    unfolding other_stage_def by (intro g_intros g_conclude)
  show "moves le (resolve_stage env sc inp)"
    unfolding resolve_stage_def vector_path_def scalar_path_def Let_def
    by (auto split: option.split intro!: g_intros g_record g_resolve g_converged g_tables)
qed

lemma g_human: "moves le (human_stage env sc)"
proof -
  have "moves le (\<lambda>w. ret (if cooling_down env d (w_now w) then Some None else None) w)" for d
    by (simp add: moves_def ret_def le_refl)
  then show ?thesis
    unfolding human_stage_def getLatestFinalityDecision_def
    by (intro g_intros g_resolve)
qed

lemma g_evaluate: "moves le (evaluateFinality env sc)"
proof -
  have "moves le (evaluate_input env sc inp)" for inp
    unfolding evaluate_input_def
    by (intro g_first_answer g_and_then g_record g_ret) (simp add: g_stages)
  then show ?thesis
    unfolding evaluateFinality_def by (intro g_first_answer g_and_then g_input) (simp_all add: g_human)
qed

end

text \<open>A check also puts a review into the queue.\<close>

locale check_order = graph_order +
  assumes le_pending: "le w (w \<lparr> w_pending := p \<rparr>)"
begin

lemma g_check: "moves le (runFinalityCheck env sc)"
proof -
  have "moves le (addPending i p q)" for i p q
    unfolding addPending_def by (rule g_external) (simp add: le_pending)
  moreover have "moves le fresh_uuid" by (rule g_same) (simp add: fresh_uuid_def)
  ultimately have s: "moves le (submit_review sc rq)" for rq
    unfolding submit_review_def Let_def by (intro g_intros)
  have d: "moves le (case a of Some (FinalReview rq) \<Rightarrow> submit_review sc rq | _ \<Rightarrow> ret False)"
    "moves le (case a of Some (FinalReview rq) \<Rightarrow> ret a | _ \<Rightarrow> evaluateFinality env sc)" for a
    using s g_evaluate by (simp_all add: g_ret split: option.split finality_result.split)
  then have "moves le (submitFinalityReviewForScope env sc a)" for a
    unfolding submitFinalityReviewForScope_def hasPendingFinalityReviewForScope_def
    by (intro g_and_then g_query grows_if g_ret d)
  then show ?thesis
    unfolding runFinalityCheck_def
    by (auto intro!: g_and_then g_evaluate g_ret split: option.split finality_result.split)
qed

end

interpretation graph_only: check_order graph_le
proof unfold_locales
  show "w_nodes w' = w_nodes w @ ns \<Longrightarrow> w_edges w' = w_edges w \<Longrightarrow> surroundings w' = surroundings w \<Longrightarrow> graph_le w w'"
    for w w' and ns :: "node_row list" by (rule graph_le_append[where es = "[]"]) simp_all
  show "graph_le w (w \<lparr> w_pending := p \<rparr>)" for w p
    by (rule graph_le_append[where es = "[]" and new = "[]"]) simp_all
qed

interpretation has_only: check_order "persists (node_has i s)" for i s
  by unfold_locales (auto simp: persists_def node_has_def)

interpretation around: graph_order "\<lambda>w w'. surroundings w' = surroundings w"
  by unfold_locales simp_all

text \<open>
  Evaluating finality reads the scope and takes nothing from it. However many checks run, for any
  scopes and with any failing calls, every node keeps its status and every node and edge stays - what
  a check may add are the contradiction nodes it backfills for the review.
\<close>

theorem checks_take_nothing:
  "graph_le w (fold (\<lambda>(env, sc) v. fst (runFinalityCheck env sc v)) checks w)
   \<and> {(nd_id n, nd_status n) | n. n \<in> set (w_nodes w)}
      \<subseteq> {(nd_id n, nd_status n) | n. n \<in> set (w_nodes (fold (\<lambda>(env, sc) v. fst (runFinalityCheck env sc v)) checks w))}"
proof (induction checks arbitrary: w)
  case (Cons c checks)
  obtain env sc where c: "c = (env, sc)" by fastforce
  let ?v = "fst (runFinalityCheck env sc w)"
  have a: "graph_le w ?v" using graph_only.g_check by (simp add: moves_def)
  have "node_has i s w \<Longrightarrow> node_has i s ?v" for i s
    using has_only.g_check[of i s env sc] by (simp add: moves_def persists_def)
  then have b: "{(nd_id n, nd_status n) | n. n \<in> set (w_nodes w)} \<subseteq> {(nd_id n, nd_status n) | n. n \<in> set (w_nodes ?v)}"
    unfolding node_has_def by (clarsimp, metis)
  have e: "fold (\<lambda>(env, sc) v. fst (runFinalityCheck env sc v)) (c # checks) w
      = fold (\<lambda>(env, sc) v. fst (runFinalityCheck env sc v)) checks ?v" by (simp add: c)
  show ?case unfolding e
    using graph_le_trans[OF a conjunct1[OF Cons[of ?v]]] subset_trans[OF b conjunct2[OF Cons[of ?v]]]
    by (rule conjI)
qed simp

section \<open>A human approval\<close>

definition session_event :: "string \<Rightarrow> json_obj" where
  "session_event sc = [(''type'', JStr ''session_finalized''), (''scope_id'', JStr sc)]"

lemma keeps_coverage: "(\<And>w. f (tick w) = f w) \<Longrightarrow> keeps f (getEvidenceCoverageForScope schema sc)"
proof -
  assume f: "\<And>w. f (tick w) = f w"
  have "keeps f (if req = [] then ret 1 else try_catch
      (external (\<lambda>w. (w, Inr (coverage_of req days (w_now w) (current_nodes sc w))))) (\<lambda>_. ret 1))" for req days
    by (intro keeps_if keeps_try_catch keeps_query keeps_ret f)
  then show ?thesis by (simp add: getEvidenceCoverageForScope_def split: option.split)
qed

lemma keeps_snapshot: "(\<And>w. f (tick w) = f w) \<Longrightarrow> keeps f (loadFinalitySnapshot schema sc)"
proof -
  assume f: "\<And>w. f (tick w) = f w"
  have "keeps f (scope_risk sc)" by (simp add: scope_risk_def keeps_def external_def Let_def f)
  then show ?thesis
    unfolding loadFinalitySnapshot_def loadFinalitySnapshotImpl_def
    by (intro keeps_try_catch keeps_and_then keeps_if keeps_query keeps_ret keeps_coverage f)
qed

lemma keeps_goal_score: "(\<And>w. f (tick w) = f w) \<Longrightarrow> keeps f (computeGoalScoreForScope env sc)"
  unfolding computeGoalScoreForScope_def scopeHasFinalityContent_def lookup_epoch_def loadState_def
  by (intro keeps_try_catch keeps_and_then keeps_query keeps_ret keeps_snapshot)

lemma keeps_catalog:
  "(\<And>w. f (tick w) = f w) \<Longrightarrow> (\<And>w l. f (w \<lparr> w_catalog := l \<rparr>) = f w) \<Longrightarrow> keeps f (markStudioCatalogResolved sc r)"
  unfolding markStudioCatalogResolved_def
  by (intro keeps_try_catch keeps_ret keeps_external) (simp_all add: keeps_def)

text \<open>The steps after the event.\<close>

definition after_event :: "finality_env \<Rightarrow> string \<Rightarrow> (world, unit) exec" where
  "after_event env sc =
     and_then (try_catch (and_then (computeGoalScoreForScope env sc) (markStudioCatalogResolved sc)) (\<lambda>_. ret ()))
       (\<lambda>_. and_then (emitContribution (fv_sha env) ''finality-evaluator'' ''assessment'' outcome_json None None sc [])
         (\<lambda>_. ret ()))"

lemma keeps_after_event:
  assumes "\<And>w. f (tick w) = f w" "\<And>w l. f (w \<lparr> w_catalog := l \<rparr>) = f w" "\<And>w l. f (w \<lparr> w_causal := l \<rparr>) = f w"
  shows "keeps f (after_event env sc)"
  unfolding after_event_def
  by (intro keeps_try_catch keeps_and_then keeps_ret keeps_goal_score keeps_catalog keeps_emit assms)

lemma after_event_ends: "never_raises (after_event env sc)"
  unfolding after_event_def emitContribution_def by (intro never_raises_intros)

lemma approved_once:
  assumes "faultless w" "latest_decision sc w = Some d" "fr_option d = ''approve_finality''"
    and "signCertificate (fv_signing env) (signed_payload env sc w) = Inr jws"
  shows "\<exists>w'. evaluateFinality env sc w = (w', Inr (Some (FinalStatus ''RESOLVED'')))
    \<and> w_wal w' = w_wal w @ [session_event sc]
    \<and> w_certificates w' = w_certificates w @ [\<lparr> ct_scope = sc, ct_jws = jws,
         ct_payload = sg_text (fv_signing env) (signed_payload env sc w), ct_created = w_now w \<rparr>]
    \<and> w_faults w' = w_faults w \<and> w_now w' = w_now w \<and> w_finality w' = w_finality w"
proof -
  have ok: "\<not> w_faults w k" for k using assms(1) by (simp add: faultless_def)
  let ?w1 = "tick (tick w) \<lparr> w_wal := w_wal w @ [session_event sc] \<rparr>"
  obtain w2 where w2: "after_event env sc ?w1 = (w2, Inr ())"
    using after_event_ends[of env sc] unfolding never_raises_def by (metis (full_types) old.unit.exhaust)
  have k: "w_wal w2 = w_wal ?w1" "w_certificates w2 = w_certificates ?w1" "w_faults w2 = w_faults ?w1"
    "w_now w2 = w_now ?w1" "w_finality w2 = w_finality ?w1"
    by (rule keepsD[OF keeps_after_event w2]; simp)+
  have "emitSessionFinalized env sc = and_then
      (try_catch (appendEvent (session_event sc)) (\<lambda>_. ret ())) (\<lambda>_. after_event env sc)"
    by (simp add: emitSessionFinalized_def after_event_def session_event_def)
  then have s: "emitSessionFinalized env sc (tick w) = (w2, Inr ())"
    using w2 ok by (simp add: and_then_def try_catch_def appendEvent_def external_def)
  have p: "signed_payload env sc w2 = signed_payload env sc w" using k(4) by (simp add: signed_payload_def)
  obtain w3 where w3: "emitFinalityCertificate env sc w2 = (w3, Inr ())"
    "w_certificates w3 = w_certificates w @ [\<lparr> ct_scope = sc, ct_jws = jws,
         ct_payload = sg_text (fv_signing env) (signed_payload env sc w), ct_created = w_now w \<rparr>]"
    "w_wal w3 = w_wal w2" "w_faults w3 = w_faults w2" "w_now w3 = w_now w2" "w_finality w3 = w_finality w2"
    using assms(4) ok k p
    by (simp add: emitFinalityCertificate_def persistCertificate_def try_catch_def external_def ret_def Let_def)
  have l: "latest_decision sc (tick w) = Some d" using assms(2) by (simp add: latest_decision_def)
  have "evaluateFinality env sc w = (w3, Inr (Some (FinalStatus ''RESOLVED'')))"
    using l assms(3) ok s w3(1)
    by (simp add: evaluateFinality_def human_stage_def getLatestFinalityDecision_def external_def resolve_scope_def
        and_then_def try_catch_def ret_def)
  then show ?thesis using w3 k by simp
qed

text \<open>
  A human approval settles the scope and is executed again by every evaluation. Once the latest
  decision of a scope approves its finality, every evaluation answers RESOLVED, whatever the graph
  holds - and every one appends another \<open>session_finalized\<close> event and another certificate.
\<close>

theorem approval_finalises_every_time:
  assumes "faultless w" "latest_decision sc w = Some d" "fr_option d = ''approve_finality''"
    and "signCertificate (fv_signing env) (signed_payload env sc w) = Inr jws"
  shows "snd (evaluateFinality env sc (((\<lambda>v. fst (evaluateFinality env sc v)) ^^ n) w))
           = Inr (Some (FinalStatus ''RESOLVED''))
     \<and> w_wal (((\<lambda>v. fst (evaluateFinality env sc v)) ^^ n) w) = w_wal w @ replicate n (session_event sc)
     \<and> length (w_certificates (((\<lambda>v. fst (evaluateFinality env sc v)) ^^ n) w)) = length (w_certificates w) + n"
proof -
  let ?step = "\<lambda>v. fst (evaluateFinality env sc v)"
  have "w_wal ((?step ^^ n) w) = w_wal w @ replicate n (session_event sc)
     \<and> length (w_certificates ((?step ^^ n) w)) = length (w_certificates w) + n
     \<and> w_faults ((?step ^^ n) w) = w_faults w \<and> w_now ((?step ^^ n) w) = w_now w
     \<and> w_finality ((?step ^^ n) w) = w_finality w"
  proof (induction n)
    case (Suc n)
    let ?v = "(?step ^^ n) w"
    have v: "faultless ?v" "latest_decision sc ?v = Some d"
      "signCertificate (fv_signing env) (signed_payload env sc ?v) = Inr jws"
      using Suc assms by (simp_all add: faultless_def latest_decision_def signed_payload_def)
    from approved_once[OF v(1,2) assms(3) v(3)] Suc show ?case
      by (auto simp: replicate_append_same)
  qed simp
  moreover from this have "faultless ((?step ^^ n) w)" "latest_decision sc ((?step ^^ n) w) = Some d"
    "signCertificate (fv_signing env) (signed_payload env sc ((?step ^^ n) w)) = Inr jws"
    using assms by (simp_all add: faultless_def latest_decision_def signed_payload_def)
  ultimately show ?thesis using approved_once[OF _ _ assms(3)] by fastforce
qed

section \<open>The review\<close>

lemma like_match_self: "CHR 0x5C \<notin> set p \<Longrightarrow> like_match (p @ ''%'') (p @ s)"
proof (induction p)
  case Nil
  have "like_match ''%'' s" by (induction s) simp_all
  then show ?case by simp
next
  case (Cons c p)
  then have p: "like_match (p @ ''%'') (p @ s)" by simp
  have "like_match (CHR ''%'' # p @ ''%'') (CHR ''%'' # p @ s)"
  proof -
    have "like_match (CHR ''%'' # p @ ''%'') (p @ s)" using p by (cases "p @ s") simp_all
    then show ?thesis by simp
  qed
  then show ?case using Cons.prems p by (cases "c = CHR ''%''") auto
qed

definition review_waits :: "string \<Rightarrow> world \<Rightarrow> bool" where
  "review_waits sc w = list_ex (\<lambda>(k, r). is_pending r \<and> like_match (finality_prefix sc @ ''%'') k) (w_pending w)"

lemma has_review: "hasPendingFinalityReviewForScope sc = external (\<lambda>w. (w, Inr (review_waits sc w)))"
  by (rule ext) (simp add: hasPendingFinalityReviewForScope_def review_waits_def external_def)

lemma submit_while_waiting:
  "review_waits sc w \<Longrightarrow> w_pending (fst (submitFinalityReviewForScope env sc a w)) = w_pending w"
  by (auto simp: submitFinalityReviewForScope_def has_review external_def and_then_def ret_def review_waits_def)

text \<open>Submitting a review puts one row into the queue, which then waits, or raises and changes nothing.\<close>

definition beside_queue :: "world \<Rightarrow> string \<times> string option \<times> int \<times> (string \<times> message) list" where
  "beside_queue w = (w_scope w, w_env_scope w, w_now w, w_bus w)"

lemma map_set_member: "(k, x) \<in> set (map_set k x m)"
  by (induction k x m rule: map_set.induct) auto

lemma queued_review_waits:
  assumes "w_pending w = map_set (finality_prefix sc @ u) row m" "is_pending row" "CHR 0x5C \<notin> set sc"
  shows "review_waits sc w"
proof -
  have "CHR 0x5C \<notin> set (finality_prefix sc)" using assms(3) by (auto simp: finality_prefix_def)
  then have "like_match (finality_prefix sc @ ''%'') (finality_prefix sc @ u)" by (rule like_match_self)
  moreover have "(finality_prefix sc @ u, row) \<in> set (w_pending w)" using assms(1) map_set_member by simp
  ultimately show ?thesis using assms(2) by (auto simp: review_waits_def list_ex_iff)
qed

lemma submit_review_cases:
  assumes "submit_review sc rq w = (w1, r)" "CHR 0x5C \<notin> set sc"
  shows "beside_queue w1 = beside_queue w
    \<and> ((r = Inr True \<and> review_waits sc w1 \<and> (\<exists>k row. w_pending w1 = map_set k row (w_pending w)))
       \<or> ((\<exists>e. r = Inl e) \<and> w_pending w1 = w_pending w))"
proof (cases "w_faults w (w_tick w)")
  case True
  then show ?thesis using assms(1)
    by (auto simp: submit_review_def fresh_uuid_def addPending_def external_def and_then_def Let_def beside_queue_def)
next
  case False
  then obtain u row where "w_pending w1 = map_set (finality_prefix sc @ take 8 u) row (w_pending w)" "is_pending row"
    "r = Inr True" "beside_queue w1 = beside_queue w"
    using assms(1)
    by (auto simp: submit_review_def fresh_uuid_def addPending_def external_def and_then_def Let_def is_pending_def
        beside_queue_def)
  then show ?thesis using queued_review_waits[OF _ _ assms(2)] by blast
qed

text \<open>Submitting a review the evaluation asked for.\<close>

lemma submit_asked_cases:
  assumes "submitFinalityReviewForScope env sc (Some (FinalReview rq)) w = (w1, r)" "CHR 0x5C \<notin> set sc"
  shows "beside_queue w1 = beside_queue w
    \<and> ((r = Inr True \<and> review_waits sc w1
         \<and> (w_pending w1 = w_pending w \<or> (\<exists>k row. w_pending w1 = map_set k row (w_pending w))))
       \<or> ((\<exists>e. r = Inl e) \<and> w_pending w1 = w_pending w))"
proof (cases "w_faults w (w_tick w)")
  case True
  then show ?thesis using assms(1)
    by (auto simp: submitFinalityReviewForScope_def has_review external_def and_then_def beside_queue_def)
next
  case f: False
  show ?thesis
  proof (cases "review_waits sc w")
    case True
    then show ?thesis using assms(1) f
      by (auto simp: submitFinalityReviewForScope_def has_review external_def and_then_def beside_queue_def
          review_waits_def)
  next
    case False
    then have "submit_review sc rq (tick w) = (w1, r)" using assms(1) f
      by (simp add: submitFinalityReviewForScope_def has_review external_def and_then_def review_waits_def)
    from submit_review_cases[OF this assms(2)] show ?thesis by (auto simp: beside_queue_def)
  qed
qed

text \<open>
  A review of a scope waits for one answer: after a submission that ends with true, a further
  submission for that scope - whatever the evaluation says, and whether or not calls fail - puts no
  second review into the queue, unless the scope's name has a backslash.
\<close>

theorem review_asked_once:
  assumes "submitFinalityReviewForScope env sc a w = (w1, Inr True)" "CHR 0x5C \<notin> set sc"
  shows "w_pending (fst (submitFinalityReviewForScope env sc b w1)) = w_pending w1"
proof (rule submit_while_waiting)
  show "review_waits sc w1"
  proof (cases "review_waits sc (tick w)")
    case True
    then have "w1 = tick w" using assms(1)
      by (auto simp: submitFinalityReviewForScope_def has_review external_def and_then_def ret_def split: if_splits)
    then show ?thesis using True by simp
  next
    case False
    have "\<exists>v result. (case result of Some (FinalReview rq) \<Rightarrow> submit_review sc rq | _ \<Rightarrow> ret False) v = (w1, Inr True)"
      using assms(1) False unfolding submitFinalityReviewForScope_def has_review and_then_eq_Inr
      by (auto simp: external_def ret_def and_then_eq_Inr split: if_splits)
    then obtain v result where r:
      "(case result of Some (FinalReview rq) \<Rightarrow> submit_review sc rq | _ \<Rightarrow> ret False) v = (w1, Inr True)"
      by blast
    show ?thesis
    proof (cases "\<exists>rq. result = Some (FinalReview rq)")
      case True
      then obtain rq where "submit_review sc rq v = (w1, Inr True)" using r by auto
      from submit_review_cases[OF this assms(2)] show ?thesis by simp
    next
      case False
      then show ?thesis using r by (auto split: option.splits finality_result.splits)
    qed
  qed
qed

end
