(* ===== verification/Finality_Examples.thy ===== *)
theory Finality_Examples
  imports Finality_Effects
begin

text \<open>
  A scope the machine resolves under the shipped configuration, evaluated in the logic: five claims, a
  resolved goal and two earlier convergence points. The properties of the finality theories are
  applied to it and to small variations of it.
\<close>

definition sample_finality_env :: "finality_config \<Rightarrow> finality_env" where
  "sample_finality_env cfg = \<lparr> fv_file = Some cfg, fv_near_env = None, fv_auto_env = None, fv_schema = None,
     fv_fns = \<lparr> nf_ln = (\<lambda>_. 0), nf_sqrt = (\<lambda>x. x) \<rparr>,
     fv_engine = \<lparr> en_roles = [], en_dimensions = [], en_edges = [], en_projection = False, en_topology = None,
       en_support = (0, 1), en_refutation = (0, 1), en_alpha_ratio = 1,
       en_spectrum = \<lparr> sp_gap = 1, sp_alpha = 1 \<rparr>, en_random = (\<lambda>_ _ _. None) \<rparr>,
     fv_signing = sample_signing, fv_sha = (\<lambda>_ _ _. ''h''), fv_cooldown = 90, fv_gates_disabled = False,
     fv_min_epoch = 0 \<rparr>"

definition claim_row :: "string \<Rightarrow> node_row" where
  "claim_row i = new_node \<lparr> ni_scope = ''s'', ni_type = ''claim'', ni_content = i, ni_confidence = Some (9 / 10),
     ni_status = Some ''active'', ni_source = [], ni_meta = [], ni_by = None, ni_embedding = None,
     ni_valid_from = None, ni_valid_to = None \<rparr> i 0"

definition goal_row :: node_row where
  "goal_row = new_node \<lparr> ni_scope = ''s'', ni_type = ''goal'', ni_content = ''g'', ni_confidence = None,
     ni_status = Some ''resolved'', ni_source = [], ni_meta = [], ni_by = None, ni_embedding = None,
     ni_valid_from = None, ni_valid_to = None \<rparr> ''g'' 0"

definition steady_point :: convergence_row where
  "steady_point = \<lparr> cv_scope = ''s'', cv_created = 0, cv_point = \<lparr> cp_epoch = 0, cp_goal = 1, cp_v = 0,
     cp_dims = map (\<lambda>n. (n, 1)) dim_names, cp_pressure = map (\<lambda>n. (n, 0)) dim_names, cp_seq = None \<rparr>,
     cv_gates = no_gates \<rparr>"

definition settled_world :: world where
  "settled_world = empty_world
     \<lparr> w_nodes := goal_row # map claim_row [''1'', ''2'', ''3'', ''4'', ''5''],
       w_convergence := [steady_point, steady_point] \<rparr>"

definition settled_snapshot :: finality_snapshot where
  "settled_snapshot = \<lparr> fs_claims_min = 9 / 10, fs_claims_count = 5, fs_claims_avg = 9 / 10,
     fs_contra_unresolved = 0, fs_contra_total = 0, fs_risks_critical = 0, fs_goals_ratio = 1, fs_risk = 0,
     fs_idle_cycles = None, fs_delta_age = None, fs_active_age = None, fs_unaddressed = None,
     fs_contra_mass = Some 0, fs_coverage = Some 1 \<rparr>"

definition settled_convergence :: convergence_data where
  "settled_convergence = \<lparr> kd_rate = 0, kd_rounds = Some 0, kd_plateau_rounds = 2, kd_v = 0,
     kd_highest = ''claim_confidence'', kd_monotonic = True, kd_plateaued = False, kd_scores = [1, 1, 1],
     kd_quality = 1, kd_oscillation = False, kd_dim_monotonic = [True, True, True, True],
     kd_dim_quality = [1, 1, 1, 1] \<rparr>"

definition settled_input :: finality_input where
  "settled_input = \<lparr> fi_snapshot = settled_snapshot, fi_near = 2 / 5, fi_auto = 23 / 25, fi_goal = 1,
     fi_convergence = Some settled_convergence, fi_epoch = 0, fi_has_content = True, fi_divergence = False \<rparr>"

abbreviation shipped_env :: finality_env where
  "shipped_env \<equiv> sample_finality_env finality_yaml"

lemma settled_loads:
  "case loadFinalityInput shipped_env ''s'' (tick settled_world) of
     (w, Inr i) \<Rightarrow> i = settled_input \<and> w_propagation w = [] | _ \<Rightarrow> False"
  by code_simp

lemma settled_vector: "vector_passes (vector_outcome shipped_env shipped_vector settled_input settled_convergence)"
  by code_simp

lemma settled_met: "all_met (snd (hd shipped_rules)) settled_snapshot"
  by code_simp

lemma settled_input_resolves:
  assumes "w_propagation w = []"
  shows "\<exists>w'. evaluate_input shipped_env ''s'' settled_input w = (w', Inr (Some (FinalStatus ''RESOLVED'')))"
proof -
  have cfg: "loadFinalityConfig shipped_env = finality_yaml"
    by (simp add: loadFinalityConfig_def sample_finality_env_def)
  have rule: "map_get (fc_rules finality_yaml) ''RESOLVED'' = Some (snd (hd shipped_rules))"
    "fu_conditions (snd (hd shipped_rules)) \<noteq> []" "fc_vector finality_yaml = Some shipped_vector"
    "vc_enabled shipped_vector" "\<not> fv_gates_disabled shipped_env"
    by (simp_all add: finality_yaml_def shipped_rules_def shipped_vector_def sample_finality_env_def)
  have i: "fi_snapshot settled_input = settled_snapshot" "fi_convergence settled_input = Some settled_convergence"
    by (simp_all add: settled_input_def)
  have d: "drift_stage shipped_env ''s'' settled_input w = (tick w, Inr None)"
    by (rule drift_stage_without_contradiction) (simp add: settled_input_def settled_snapshot_def)
  have d2: "divergence_stage shipped_env ''s'' settled_input v = (v, Inr None)"
    "content_stage shipped_env ''s'' settled_input v = (v, Inr None)" for v
    by (simp_all add: divergence_stage_def content_stage_def settled_input_def ret_def)
  obtain v where v: "iss_stage shipped_env ''s'' settled_input (tick w) = (v, Inr None)" "w_propagation v = []"
    using iss_stage_without_history[of "''s''" "tick w" shipped_env settled_input] assms by auto
  obtain v2 where v2: "propagation_converged shipped_env ''s'' v = (v2, Inr True)"
    using converged_without_history[of "''s''" v shipped_env] v(2) by auto
  obtain v3 where v3: "recordGateStateIfAvailable shipped_env ''s'' settled_input ''RESOLVED'' v2 = (v3, Inr ())"
    using never_raises_record[of shipped_env "''s''" settled_input] unfolding never_raises_def
    by (metis (full_types) old.unit.exhaust)
  obtain w' where w': "resolve_scope shipped_env ''s'' v3 = (w', Inr (Some (Some (FinalStatus ''RESOLVED''))))"
    using resolve_scope_returns by blast
  have "resolve_stage shipped_env ''s'' settled_input v = (w', Inr (Some (Some (FinalStatus ''RESOLVED''))))"
    using v2 v3 w' rule settled_vector settled_met
    by (simp add: resolve_stage_def vector_path_def cfg i Let_def and_then_def)
  then have "evaluate_input shipped_env ''s'' settled_input w = (w', Inr (Some (FinalStatus ''RESOLVED'')))"
    unfolding evaluate_input_def
    by (simp only: first_answer.simps and_then_def d d2 v(1) prod.case sum.case option.case) (simp add: ret_def)
  then show ?thesis by blast
qed

lemma settled_resolves:
  obtains w' where "evaluateFinality shipped_env ''s'' settled_world = (w', Inr (Some (FinalStatus ''RESOLVED'')))"
proof -
  obtain v where v: "loadFinalityInput shipped_env ''s'' (tick settled_world) = (v, Inr settled_input)"
    "w_propagation v = []"
    using settled_loads by (auto split: prod.splits sum.splits)
  obtain w' where "evaluate_input shipped_env ''s'' settled_input v = (w', Inr (Some (FinalStatus ''RESOLVED'')))"
    using settled_input_resolves[OF v(2)] by blast
  then have "evaluateFinality shipped_env ''s'' settled_world = (w', Inr (Some (FinalStatus ''RESOLVED'')))"
    using v(1) by (simp add: evaluateFinality_def human_stage_def getLatestFinalityDecision_def latest_decision_def
        external_def and_then_def try_catch_def ret_def settled_world_def empty_world_def)
  then show ?thesis using that by blast
qed

theorem resolved_scope_is_clean_witness:
  "3 \<le> count_of (has_type ''claim'' ''active'') (current_nodes ''s'' settled_world)"
proof -
  obtain w' where e: "evaluateFinality shipped_env ''s'' settled_world = (w', Inr (Some (FinalStatus ''RESOLVED'')))"
    by (rule settled_resolves)
  have "fv_file shipped_env = Some finality_yaml" by (simp add: sample_finality_env_def)
  moreover have "\<not> (\<exists>d. latest_decision ''s'' settled_world = Some d \<and> fr_option d = ''approve_finality'')"
    by (simp add: latest_decision_def settled_world_def empty_world_def)
  ultimately show ?thesis using resolved_scope_is_clean[OF e] by blast
qed

theorem shipped_statuses_witness: "''RESOLVED'' \<in> {''RESOLVED'', ''ESCALATED'', ''ACTIVE'' :: string}"
proof -
  obtain w' where e: "evaluateFinality shipped_env ''s'' settled_world = (w', Inr (Some (FinalStatus ''RESOLVED'')))"
    by (rule settled_resolves)
  have "fv_file shipped_env = Some finality_yaml" by (simp add: sample_finality_env_def)
  from shipped_statuses[OF this e] show ?thesis .
qed

theorem no_compensation_witness: "evidence_gate settled_snapshot"
proof -
  obtain w' where e: "evaluate_input shipped_env ''s'' settled_input settled_world
      = (w', Inr (Some (FinalStatus ''RESOLVED'')))"
    using settled_input_resolves[of settled_world] by (auto simp: settled_world_def empty_world_def)
  have "fc_vector (loadFinalityConfig shipped_env) = Some shipped_vector" "vc_enabled shipped_vector"
    "\<not> fv_gates_disabled shipped_env" "fi_convergence settled_input = Some settled_convergence"
    by (simp_all add: loadFinalityConfig_def sample_finality_env_def finality_yaml_def shipped_vector_def settled_input_def)
  from no_compensation[OF e this] show ?thesis by (simp add: settled_input_def)
qed

theorem quiescence_never_resolves_witness:
  "snd (evaluateFinality (sample_finality_env (finality_yaml \<lparr> fc_quiescence := Some (1, 0) \<rparr>)) ''s'' settled_world)
     \<noteq> Inr (Some (FinalStatus ''RESOLVED''))"
proof -
  let ?env = "sample_finality_env (finality_yaml \<lparr> fc_quiescence := Some (1, 0) \<rparr>)"
  obtain w' x where e: "evaluateFinality ?env ''s'' settled_world = (w', Inr x)"
    using evaluation_answers by blast
  have "fc_quiescence (loadFinalityConfig ?env) = Some (1, 0)" "\<not> fv_gates_disabled ?env"
    by (simp_all add: loadFinalityConfig_def sample_finality_env_def)
  moreover have "\<not> (\<exists>d. latest_decision ''s'' settled_world = Some d \<and> fr_option d = ''approve_finality'')"
    by (simp add: latest_decision_def settled_world_def empty_world_def)
  ultimately have "x \<noteq> Some (FinalStatus ''RESOLVED'')"
    using quiescence_never_resolves[OF e] by (metis zero_less_one)
  then show ?thesis by (simp add: e)
qed

theorem tracking_failure_fails_open_witness:
  "\<exists>w'. evaluate_input shipped_env ''s''
      (settled_input \<lparr> fi_snapshot := settled_snapshot \<lparr> fs_coverage := Some 0 \<rparr>, fi_convergence := None \<rparr>) settled_world
      = (w', Inr (Some (FinalStatus ''RESOLVED'')))"
proof -
  let ?i = "settled_input \<lparr> fi_snapshot := settled_snapshot \<lparr> fs_coverage := Some 0 \<rparr> \<rparr>"
  have "list_all (\<lambda>c. evaluateOne (conditionToString c) (settled_snapshot \<lparr> fs_coverage := Some 0 \<rparr>))
      (fu_conditions (snd (hd shipped_rules)))"
    by code_simp
  then show ?thesis
    using tracking_failure_fails_open[of shipped_env ?i "''s''" settled_world]
    by (simp add: sample_finality_env_def settled_input_def evidence_gate_def settled_world_def empty_world_def)
qed

definition approved_world :: world where
  "approved_world = settled_world \<lparr> w_finality := [\<lparr> fr_scope_id = ''s'', fr_option = ''approve_finality'',
     fr_days = None, fr_created_at = 0 \<rparr>] \<rparr>"

theorem approval_finalises_every_time_witness:
  "w_wal (((\<lambda>v. fst (evaluateFinality shipped_env ''s'' v)) ^^ 2) approved_world) = replicate 2 (session_event ''s'')"
proof -
  have "faultless approved_world"
    by (simp add: faultless_def approved_world_def settled_world_def empty_world_def)
  moreover have "latest_decision ''s'' approved_world = Some \<lparr> fr_scope_id = ''s'', fr_option = ''approve_finality'',
      fr_days = None, fr_created_at = 0 \<rparr>"
    by (simp add: latest_decision_def approved_world_def)
  moreover obtain jws where
    "signCertificate (fv_signing shipped_env) (signed_payload shipped_env ''s'' approved_world) = Inr jws"
    by (simp add: sample_finality_env_def signCertificate_def getSigningKey_def sample_signing_def present_def Let_def)
  moreover have "w_wal approved_world = []" by (simp add: approved_world_def settled_world_def empty_world_def)
  ultimately show ?thesis
    using approval_finalises_every_time[of approved_world "''s''" _ shipped_env jws 2] by simp
qed

definition bare_review :: review_request where
  "bare_review = \<lparr> rq_scope = ''s'', rq_goal = 1 / 2, rq_near = 2 / 5, rq_auto = 23 / 25, rq_gap = 21 / 50,
     rq_breakdown = [], rq_blockers = [], rq_actions = [], rq_options = [], rq_convergence = None \<rparr>"

theorem review_asked_once_witness:
  "w_pending (fst (submitFinalityReviewForScope shipped_env ''s'' None
       (fst (submitFinalityReviewForScope shipped_env ''s'' (Some (FinalReview bare_review)) settled_world))))
   = w_pending (fst (submitFinalityReviewForScope shipped_env ''s'' (Some (FinalReview bare_review)) settled_world))"
proof -
  let ?s = "submitFinalityReviewForScope shipped_env ''s'' (Some (FinalReview bare_review)) settled_world"
  have "snd ?s = Inr True"
    by (simp add: submitFinalityReviewForScope_def has_review external_def and_then_def ret_def review_waits_def
        submit_review_def fresh_uuid_def addPending_def Let_def settled_world_def empty_world_def)
  then have "?s = (fst ?s, Inr True)" by (metis prod.collapse)
  then show ?thesis using review_asked_once[of shipped_env "''s''" _ settled_world _ None] by simp
qed


end
