(* ===== verification/Activation_Filters.thy ===== *)
theory Activation_Filters
  imports Finality_Input Scope_Storage
begin

text \<open>
  The activation filters of \<open>src/activationFilters.ts\<close>: the tables \<open>filter_configs\<close> and
  \<open>agent_memory\<close>, the deterministic check that decides whether an agent runs, the activation
  statistics, and the tools with which the tuner of \<open>src/agents/tunerAgent.ts\<close> changes a filter.

  The state \<open>runtime\<close> is the shared world with the two tables, the texts of the object store and the
  acknowledgements of the bus. \<open>Date.now()\<close> is the time of the world. The reason of an answer is a
  value that carries the numbers its text prints. JSON parsing and SHA-256 are arguments.
\<close>

section \<open>State\<close>

record filter_stats =
  fl_activations :: int
  fl_productive :: int
  fl_wasted :: int
  fl_avgLatencyMs :: rat
  fl_lastActivatedAt :: "int option"

record filter_config =
  fg_role :: string
  fg_type :: string
  fg_params :: json_obj
  fg_stats :: filter_stats
  fg_version :: int
  fg_updatedBy :: string
  fg_updatedAt :: int

record agent_memory =
  me_lastProcessedSeq :: int
  me_lastHash :: "string option"
  me_lastDriftHash :: "string option"
  me_lastActivatedAt :: int
  me_data :: json_obj

record memory_row =
  mr_lastProcessedSeq :: int
  mr_lastHash :: "string option"
  mr_lastDriftHash :: "string option"
  mr_lastActivatedAt :: "int option"
  mr_data :: json_obj

datatype disposition = Acked | Naked "int option"

record runtime =
  rt_world :: world
  rt_filters :: "(string, filter_config) jsmap"
  rt_memory :: "(string, memory_row) jsmap"
  rt_objects :: "(string, string) jsmap"
  rt_delivery :: "(string \<times> disposition) list"

record filter_env =
  fe_parse :: "string \<Rightarrow> json option"
  fe_sha256 :: "string \<Rightarrow> string"
  fe_pressure_disabled :: "string option"

text \<open>A computation over the world, and a database call, in the runtime.\<close>

definition on_world :: "(world, 'a) exec \<Rightarrow> (runtime, 'a) exec" where
  "on_world m r = (case m (rt_world r) of (w, x) \<Rightarrow> (r \<lparr> rt_world := w \<rparr>, x))"

definition db :: "(runtime, 'a) exec \<Rightarrow> (runtime, 'a) exec" where
  "db op r =
     (let w = rt_world r; r' = r \<lparr> rt_world := tick w \<rparr> in
      if w_faults w (w_tick w) then (r', Inl io_error) else op r')"

section \<open>The tables\<close>

definition no_stats :: filter_stats where
  "no_stats = \<lparr> fl_activations = 0, fl_productive = 0, fl_wasted = 0, fl_avgLatencyMs = 0,
                fl_lastActivatedAt = None \<rparr>"

definition default_filter :: "string \<Rightarrow> string \<Rightarrow> json_obj \<Rightarrow> filter_config" where
  "default_filter role type params =
     \<lparr> fg_role = role, fg_type = type, fg_params = params, fg_stats = no_stats, fg_version = 0,
       fg_updatedBy = ''system'', fg_updatedAt = 0 \<rparr>"

definition sequence_params :: "rat \<Rightarrow> json_obj" where
  "sequence_params cooldown = [(''minNewEvents'', JNum 1), (''cooldownMs'', JNum cooldown)]"

definition drift_hash_params :: "rat \<Rightarrow> json_obj" where
  "drift_hash_params cooldown =
     [(''field'', JStr ''drift/latest.json''), (''sensitivity'', JStr ''structural''),
      (''cooldownMs'', JNum cooldown)]"

definition DEFAULT_FILTERS :: "(string, filter_config) jsmap" where
  "DEFAULT_FILTERS =
     map (\<lambda>(role, type, params). (role, default_filter role type params))
       [(''facts'', ''sequence_delta'', sequence_params 2000),
        (''drift'', ''sequence_delta'', sequence_params 5000),
        (''resolver'', ''hash_delta'', drift_hash_params 10000),
        (''planner'', ''hash_delta'', drift_hash_params 5000),
        (''status'', ''timer'', [(''shortIntervalMs'', JNum 120000), (''fullIntervalMs'', JNum 600000),
                                 (''eventBurstThreshold'', JNum 10)]),
        (''propagation'', ''hash_delta'', drift_hash_params 5000),
        (''deltas'', ''sequence_delta'', sequence_params 5000)]"

text \<open>The insert of a missing row has \<open>ON CONFLICT DO NOTHING\<close>.\<close>

definition insert_missing :: "'k \<Rightarrow> 'v \<Rightarrow> ('k, 'v) jsmap \<Rightarrow> ('k, 'v) jsmap" where
  "insert_missing k v m = (if map_has m k then m else map_set k v m)"

definition loadFilterConfig :: "string \<Rightarrow> (runtime, filter_config) exec" where
  "loadFilterConfig agentRole =
     and_then (db (\<lambda>r. (r, Inr (map_get (rt_filters r) agentRole))))
       (\<lambda>row. case row of
          Some c \<Rightarrow> ret c
        | None \<Rightarrow>
           (case map_get DEFAULT_FILTERS agentRole of
              None \<Rightarrow> raise (JsError (''Unknown agent role for filter: '' @ agentRole))
            | Some def \<Rightarrow>
                db (\<lambda>r. let now = w_now (rt_world r) in
                     (r \<lparr> rt_filters := insert_missing agentRole (def \<lparr> fg_updatedAt := now \<rparr>) (rt_filters r) \<rparr>,
                      Inr (def \<lparr> fg_updatedAt := now \<rparr>)))))"

definition empty_memory_row :: memory_row where
  "empty_memory_row = \<lparr> mr_lastProcessedSeq = 0, mr_lastHash = None, mr_lastDriftHash = None,
                        mr_lastActivatedAt = None, mr_data = [] \<rparr>"

definition memory_of_row :: "memory_row \<Rightarrow> agent_memory" where
  "memory_of_row m =
     \<lparr> me_lastProcessedSeq = mr_lastProcessedSeq m, me_lastHash = mr_lastHash m,
       me_lastDriftHash = mr_lastDriftHash m, me_lastActivatedAt = coalesce (mr_lastActivatedAt m) 0,
       me_data = mr_data m \<rparr>"

definition loadAgentMemory :: "string \<Rightarrow> (runtime, agent_memory) exec" where
  "loadAgentMemory agentRole =
     and_then (db (\<lambda>r. (r, Inr (map_get (rt_memory r) agentRole))))
       (\<lambda>row. case row of
          Some m \<Rightarrow> ret (memory_of_row m)
        | None \<Rightarrow>
            db (\<lambda>r. (r \<lparr> rt_memory := insert_missing agentRole empty_memory_row (rt_memory r) \<rparr>,
                     Inr (memory_of_row empty_memory_row))))"

text \<open>\<open>Partial<AgentMemory>\<close>: an absent field is left alone, a present \<open>null\<close> hash is written.\<close>

record memory_update =
  mu_lastProcessedSeq :: "int option"
  mu_lastHash :: "string option option"
  mu_lastDriftHash :: "string option option"
  mu_lastActivatedAt :: "int option"
  mu_data :: "json_obj option"

definition no_update :: memory_update where
  "no_update = \<lparr> mu_lastProcessedSeq = None, mu_lastHash = None, mu_lastDriftHash = None,
                 mu_lastActivatedAt = None, mu_data = None \<rparr>"

definition apply_update :: "memory_update \<Rightarrow> memory_row \<Rightarrow> memory_row" where
  "apply_update u m =
     \<lparr> mr_lastProcessedSeq = coalesce (mu_lastProcessedSeq u) (mr_lastProcessedSeq m),
       mr_lastHash = coalesce (mu_lastHash u) (mr_lastHash m),
       mr_lastDriftHash = coalesce (mu_lastDriftHash u) (mr_lastDriftHash m),
       mr_lastActivatedAt = or_else (mu_lastActivatedAt u) (mr_lastActivatedAt m),
       mr_data = coalesce (mu_data u) (mr_data m) \<rparr>"

definition saveAgentMemory :: "string \<Rightarrow> memory_update \<Rightarrow> (runtime, unit) exec" where
  "saveAgentMemory agentRole u =
     (if u = no_update then ret ()
      else db (\<lambda>r. (case map_get (rt_memory r) agentRole of
                      None \<Rightarrow> r
                    | Some m \<Rightarrow> r \<lparr> rt_memory := map_set agentRole (apply_update u m) (rt_memory r) \<rparr>,
                    Inr ())))"

section \<open>The checks\<close>

text \<open>\<open>(params.k as number) ?? d\<close> where the result is used in arithmetic: a boolean counts as 0 or 1,
  a string as the decimal it writes, and anything else as NaN, with which every comparison fails.\<close>

fun js_to_number :: "json \<Rightarrow> rat option" where
  "js_to_number (JNum x) = Some x"
| "js_to_number (JBool b) = Some (if b then 1 else 0)"
| "js_to_number (JStr s) = (if str_trim s = [] then Some 0 else parse_decimal (str_trim s))"
| "js_to_number _ = None"

definition param_number :: "json_obj \<Rightarrow> string \<Rightarrow> rat \<Rightarrow> rat option" where
  "param_number params k d =
     (case map_get params k of
        None \<Rightarrow> Some d
      | Some JNull \<Rightarrow> Some d
      | Some v \<Rightarrow> js_to_number v)"

text \<open>Comparisons with a number that may be NaN.\<close>

definition js_less :: "rat \<Rightarrow> rat option \<Rightarrow> bool" where
  "js_less x y = (case y of None \<Rightarrow> False | Some v \<Rightarrow> x < v)"

definition js_at_least :: "rat \<Rightarrow> rat option \<Rightarrow> bool" where
  "js_at_least x y = (case y of None \<Rightarrow> False | Some v \<Rightarrow> x \<ge> v)"

datatype activation_reason =
    Activated
  | NoNewEvents int int int
  | Cooldown int "rat option"
  | HashCached string rat "rat option"
  | HashMissing string
  | HashUnchanged string
  | TimerWait int "rat option"
  | PressureRoutingDisabled
  | NoConvergenceHistoryYet
  | HighPressure rat rat
  | LowPressure rat
  | ConvergenceUnavailable
  | UnknownFilterType

record activation_result =
  av_should :: bool
  av_reason :: activation_reason
  av_context :: json_obj

definition activation :: "bool \<Rightarrow> activation_reason \<Rightarrow> json_obj \<Rightarrow> activation_result" where
  "activation b why ctx = \<lparr> av_should = b, av_reason = why, av_context = ctx \<rparr>"

definition in_cooldown :: "int \<Rightarrow> agent_memory \<Rightarrow> rat option \<Rightarrow> bool" where
  "in_cooldown now m cooldownMs =
     (me_lastActivatedAt m \<noteq> 0 \<and> js_less (of_int (now - me_lastActivatedAt m)) cooldownMs)"

definition getLatestWalSeq :: "(world, int) exec" where
  "getLatestWalSeq = external (\<lambda>w. (w, Inr (int (length (w_wal w)))))"

text \<open>\<open>s3GetText\<close>: a failing HEAD request counts as a missing object, a failing GET raises.\<close>

definition s3_text :: "string \<Rightarrow> (runtime, string option) exec" where
  "s3_text key r =
    (let w = rt_world r; r' = r \<lparr> rt_world := tick w \<rparr> in
     if w_faults w (w_tick w) then (r', Inr None)
     else case map_get (rt_objects r) key of
            None \<Rightarrow> (r', Inr None)
          | Some text \<Rightarrow> db (\<lambda>r. (r, Inr (Some text))) r')"

definition readHashFromS3 :: "filter_env \<Rightarrow> string \<Rightarrow> (runtime, string option) exec" where
  "readHashFromS3 env key =
     and_then (s3_text key)
       (\<lambda>content. case content of
           None \<Rightarrow> ret None
         | Some text \<Rightarrow>
            (case fe_parse env text of
               None \<Rightarrow> raise (JsError ''SyntaxError'')
             | Some JNull \<Rightarrow> raise (JsError ''TypeError'')
             | Some (JObj fs) \<Rightarrow> ret (Some (coalesce (json_str (map_get fs ''hash'')) (fe_sha256 env text)))
             | Some _ \<Rightarrow> ret (Some (fe_sha256 env text))))"

definition check_sequence :: "filter_config \<Rightarrow> agent_memory \<Rightarrow> rat option \<Rightarrow> (runtime, activation_result) exec" where
  "check_sequence cfg m cooldownMs =
     and_then (on_world (if fg_role cfg = ''facts'' then getLatestPipelineWalSeqForFacts else getLatestWalSeq))
       (\<lambda>latestSeq r.
          let now = w_now (rt_world r);
              minNew = param_number (fg_params cfg) ''minNewEvents'' 1;
              delta = latestSeq - me_lastProcessedSeq m;
              should = js_at_least (of_int delta) minNew \<and> \<not> in_cooldown now m cooldownMs;
              why = (if should then Activated
                     else if js_less (of_int delta) minNew
                       then NoNewEvents delta latestSeq (me_lastProcessedSeq m)
                     else Cooldown (now - me_lastActivatedAt m) cooldownMs) in
          ret (activation should why
                 [(''latestSeq'', JNum (of_int latestSeq)),
                  (''previousSeq'', JNum (of_int (me_lastProcessedSeq m)))]) r)"

text \<open>The time of the last read is written to the memory object the caller holds, so the answer comes
  with that object; the table is not touched.\<close>

definition hash_cache_key :: "string \<Rightarrow> string \<Rightarrow> string" where
  "hash_cache_key scopeId field = ''_hashReadAt_'' @ scopeId @ ''_'' @ field"

definition opt_json :: "string option \<Rightarrow> json" where
  "opt_json s = (case s of None \<Rightarrow> JNull | Some v \<Rightarrow> JStr v)"

definition hash_field :: "filter_config \<Rightarrow> string option" where
  "hash_field cfg =
     (case map_get (fg_params cfg) ''field'' of
        None \<Rightarrow> Some ''facts/latest.json''
      | Some JNull \<Rightarrow> Some ''facts/latest.json''
      | Some v \<Rightarrow> json_str (Some v))"

definition compared_hash :: "string \<Rightarrow> agent_memory \<Rightarrow> string option" where
  "compared_hash field m = (if str_includes field ''drift'' then me_lastDriftHash m else me_lastHash m)"

definition read_recently :: "int \<Rightarrow> agent_memory \<Rightarrow> string \<Rightarrow> rat option \<Rightarrow> (rat \<times> rat option) option" where
  "read_recently now m key cooldownMs =
     (case map_get (me_data m) key of
        Some (JNum t) \<Rightarrow>
          (let ttl = map_option (\<lambda>c. c / 2) cooldownMs in
           if t > 0 \<and> js_less (of_int now - t) ttl then Some (of_int now - t, ttl) else None)
      | _ \<Rightarrow> None)"

definition hash_answer :: "string \<Rightarrow> string option \<Rightarrow> string option \<Rightarrow> activation_result" where
  "hash_answer scopedField lastHash currentHash =
     (let changed = currentHash \<noteq> None \<and> currentHash \<noteq> lastHash in
      activation changed
        (if changed then Activated
         else if currentHash = None then HashMissing scopedField else HashUnchanged scopedField)
        [(''currentHash'', opt_json currentHash), (''previousHash'', opt_json lastHash),
         (''field'', JStr scopedField)])"

definition check_hash ::
  "filter_env \<Rightarrow> string \<Rightarrow> filter_config \<Rightarrow> agent_memory \<Rightarrow> rat option
   \<Rightarrow> (runtime, activation_result \<times> agent_memory) exec" where
  "check_hash env scopeId cfg m cooldownMs r =
    (case hash_field cfg of
       None \<Rightarrow> raise (JsError ''TypeError'') r
     | Some field \<Rightarrow>
       (let now = w_now (rt_world r);
            scopedField = resolveScopedFieldKey scopeId field;
            key = hash_cache_key scopeId field;
            here = [(''field'', JStr scopedField)] in
        if in_cooldown now m cooldownMs
        then ret (activation False (Cooldown (now - me_lastActivatedAt m) cooldownMs) here, m) r
        else case read_recently now m key cooldownMs of
          Some (age, ttl) \<Rightarrow> ret (activation False (HashCached scopedField age ttl) here, m) r
        | None \<Rightarrow>
           and_then (readHashFromS3 env scopedField)
             (\<lambda>currentHash.
                ret (hash_answer scopedField (compared_hash field m) currentHash,
                     m \<lparr> me_data := map_set key (JNum (of_int now)) (me_data m) \<rparr>)) r))"

text \<open>An interval never measured is infinite; \<open>Infinity\<close> has no JSON number.\<close>

definition check_timer :: "filter_config \<Rightarrow> agent_memory \<Rightarrow> (runtime, activation_result) exec" where
  "check_timer cfg m r =
    (let now = w_now (rt_world r); lastAt = me_lastActivatedAt m; elapsed = now - lastAt;
         shortMs = param_number (fg_params cfg) ''shortIntervalMs'' 120000;
         fullMs = param_number (fg_params cfg) ''fullIntervalMs'' 600000;
         should = (if lastAt = 0 then shortMs \<noteq> None else js_at_least (of_int elapsed) shortMs);
         num = (\<lambda>x. case x of None \<Rightarrow> JNull | Some v \<Rightarrow> JNum v) in
     ret (activation should (if should then Activated else TimerWait elapsed shortMs)
            [(''lastActivatedAt'', JNum (of_int lastAt)),
             (''elapsedMs'', if lastAt = 0 then JNull else JNum (of_int elapsed)),
             (''nextShortMs'', num shortMs), (''nextFullMs'', num fullMs)]) r)"

definition roleToDim :: "string \<Rightarrow> string list" where
  "roleToDim role =
     coalesce (map_get
       [(''facts'', [''claim_confidence'']),
        (''drift'', [''contradiction_resolution'']),
        (''planner'', [''goal_completion'', ''risk_score_inverse'']),
        (''status'', [''claim_confidence'', ''contradiction_resolution'', ''goal_completion'',
                      ''risk_score_inverse''])] role) []"

definition agent_pressure :: "string \<Rightarrow> (string \<times> rat) list \<Rightarrow> rat" where
  "agent_pressure role pressure =
     sum_list (map (\<lambda>d. coalesce (map_get pressure d) 0) (roleToDim role))"

definition max_pressure :: "(string \<times> rat) list \<Rightarrow> rat" where
  "max_pressure pressure = foldl max 0 (map snd pressure)"

definition pressure_metric :: "string \<Rightarrow> (runtime, unit) exec" where
  "pressure_metric role = on_world (metric ''pressure_directed_activation'' role)"

definition pressure_answer :: "filter_config \<Rightarrow> rat option \<Rightarrow> convergence_point \<Rightarrow> activation_result" where
  "pressure_answer cfg threshold latest =
    (let p = agent_pressure (fg_role cfg) (cp_pressure latest); top = max_pressure (cp_pressure latest);
         high = (p \<ge> top * (8 / 10) \<and> js_at_least p threshold) in
     activation high (if high then HighPressure p top else LowPressure p)
       [(''agentPressure'', JNum p), (''maxPressure'', JNum top),
        (''dims'', JArr (map JStr (roleToDim (fg_role cfg))))])"

definition check_pressure ::
  "filter_env \<Rightarrow> filter_config \<Rightarrow> agent_memory \<Rightarrow> rat option \<Rightarrow> (runtime, activation_result) exec" where
  "check_pressure env cfg m cooldownMs r =
    (if fe_pressure_disabled env = Some ''1'' then ret (activation True PressureRoutingDisabled []) r
     else
       (let now = w_now (rt_world r);
            scopeId = (case map_get (fg_params cfg) ''scopeId'' of Some (JStr s) \<Rightarrow> s | _ \<Rightarrow> ''default'');
            threshold = param_number (fg_params cfg) ''pressureThreshold'' (5 / 100) in
        if in_cooldown now m cooldownMs
        then ret (activation False (Cooldown (now - me_lastActivatedAt m) cooldownMs) []) r
        else try_catch
          (and_then (on_world (loadConvergenceHistory scopeId 1))
             (\<lambda>history. and_then (pressure_metric (fg_role cfg))
                (\<lambda>_. ret (if history = [] then activation True NoConvergenceHistoryYet []
                          else pressure_answer cfg threshold (last history)))))
          (\<lambda>_. and_then (pressure_metric (fg_role cfg))
                 (\<lambda>_. ret (activation True ConvergenceUnavailable []))) r))"

definition with_memory :: "agent_memory \<Rightarrow> (runtime, activation_result) exec
   \<Rightarrow> (runtime, activation_result \<times> agent_memory) exec" where
  "with_memory m c = and_then c (\<lambda>a. ret (a, m))"

definition checkFilter ::
  "filter_env \<Rightarrow> string \<Rightarrow> filter_config \<Rightarrow> agent_memory \<Rightarrow> (runtime, activation_result \<times> agent_memory) exec"
where
  "checkFilter env scopeId cfg m =
    (let cooldownMs = param_number (fg_params cfg) ''cooldownMs'' 5000 in
     if fg_type cfg = ''sequence_delta'' then with_memory m (check_sequence cfg m cooldownMs)
     else if fg_type cfg = ''hash_delta'' then check_hash env scopeId cfg m cooldownMs
     else if fg_type cfg = ''timer'' then with_memory m (check_timer cfg m)
     else if fg_type cfg = ''pressure_directed'' then with_memory m (check_pressure env cfg m cooldownMs)
     else ret (activation False UnknownFilterType [], m))"

section \<open>Statistics\<close>

definition activated_stats :: "bool \<Rightarrow> rat \<Rightarrow> int \<Rightarrow> filter_stats \<Rightarrow> filter_stats" where
  "activated_stats productive latencyMs now st =
    (let n = fl_activations st + 1; prev = fl_avgLatencyMs st in
     \<lparr> fl_activations = n,
       fl_productive = fl_productive st + (if productive then 1 else 0),
       fl_wasted = fl_wasted st + (if productive then 0 else 1),
       fl_avgLatencyMs = (if prev = 0 then latencyMs else (prev * of_int (n - 1) + latencyMs) / of_int n),
       fl_lastActivatedAt = Some now \<rparr>)"

definition recordActivation :: "string \<Rightarrow> bool \<Rightarrow> rat \<Rightarrow> (runtime, unit) exec" where
  "recordActivation agentRole productive latencyMs =
     and_then (db (\<lambda>r. (r, Inr (map_get (rt_filters r) agentRole))))
       (\<lambda>row. case row of
          None \<Rightarrow> ret ()
        | Some c \<Rightarrow>
            and_then
              (db (\<lambda>r. (case map_get (rt_filters r) agentRole of
                          None \<Rightarrow> r
                        | Some c' \<Rightarrow> r \<lparr> rt_filters := map_set agentRole
                              (c' \<lparr> fg_stats := activated_stats productive latencyMs (w_now (rt_world r)) (fg_stats c) \<rparr>)
                              (rt_filters r) \<rparr>, Inr ())))
              (\<lambda>_. on_world (metric ''progress'' agentRole)))"

definition loadAllFilterConfigs :: "(runtime, filter_config list) exec" where
  "loadAllFilterConfigs = db (\<lambda>r. (r, Inr (map snd (rt_filters r))))"

text \<open>On a conflict the statistics of the row stay.\<close>

definition saveFilterConfig :: "filter_config \<Rightarrow> (runtime, unit) exec" where
  "saveFilterConfig cfg =
     db (\<lambda>r.
       let now = w_now (rt_world r);
           row = (case map_get (rt_filters r) (fg_role cfg) of
                    None \<Rightarrow> cfg \<lparr> fg_updatedAt := now \<rparr>
                  | Some old \<Rightarrow> cfg \<lparr> fg_stats := fg_stats old, fg_updatedAt := now \<rparr>) in
       (r \<lparr> rt_filters := map_set (fg_role cfg) row (rt_filters r) \<rparr>, Inr ()))"

text \<open>\<open>ts\<close> is the printed time, \<open>body\<close> the stored text.\<close>

definition snapshotFilterToS3 :: "string \<Rightarrow> (filter_config \<Rightarrow> string) \<Rightarrow> filter_config \<Rightarrow> (runtime, string) exec" where
  "snapshotFilterToS3 ts body cfg =
    (let key = ''filters/history/'' @ fg_role cfg @ ''-'' @ dash_timestamp ts @ ''-v''
               @ nat_digits (nat (fg_version cfg)) @ ''.json'' in
     db (\<lambda>r. (r \<lparr> rt_objects := map_set key (body cfg) (rt_objects r) \<rparr>, Inr key)))"

section \<open>The tuner\<close>

text \<open>A cycle is a list of at most five tool calls chosen by a model; \<open>TunerModelError\<close> is a call in
  which the model itself fails. An error of a tool ends the cycle with the answer \<open>error\<close>.\<close>

datatype tuner_call = ReadFilterStats | WriteFilterConfig string json_obj | TunerModelError string

definition merge_params :: "json_obj \<Rightarrow> json_obj \<Rightarrow> json_obj" where
  "merge_params old new = foldl (\<lambda>m (k, v). map_set k v m) old new"

definition tuned :: "json_obj \<Rightarrow> int \<Rightarrow> filter_config \<Rightarrow> filter_config" where
  "tuned params now c =
     c \<lparr> fg_params := merge_params (fg_params c) params, fg_version := fg_version c + 1,
         fg_updatedBy := ''tuner-agent'', fg_updatedAt := now \<rparr>"

definition writeFilterConfig ::
  "string \<Rightarrow> (filter_config \<Rightarrow> string) \<Rightarrow> string \<Rightarrow> json_obj \<Rightarrow> (runtime, unit) exec" where
  "writeFilterConfig ts body agentRole params =
     (if agentRole = [] then ret ()
      else and_then loadAllFilterConfigs
        (\<lambda>configs r. case List.find (\<lambda>c. fg_role c = agentRole) configs of
            None \<Rightarrow> ret () r
          | Some current \<Rightarrow>
             (let updated = tuned params (w_now (rt_world r)) current in
              and_then (saveFilterConfig updated)
                (\<lambda>_. and_then (snapshotFilterToS3 ts body updated) (\<lambda>_. ret ())) r)))"

fun tuner_tool :: "string \<Rightarrow> (filter_config \<Rightarrow> string) \<Rightarrow> tuner_call \<Rightarrow> (runtime, unit) exec" where
  "tuner_tool ts body ReadFilterStats = and_then loadAllFilterConfigs (\<lambda>_. ret ())"
| "tuner_tool ts body (WriteFilterConfig role params) = writeFilterConfig ts body role params"
| "tuner_tool ts body (TunerModelError e) = raise (JsError e)"

datatype tuner_result = TunerSkipped | TunerOk | TunerError string

definition runTunerCycle ::
  "bool \<Rightarrow> string \<Rightarrow> (filter_config \<Rightarrow> string) \<Rightarrow> tuner_call list \<Rightarrow> (runtime, tuner_result) exec" where
  "runTunerCycle has_model ts body calls =
     (if \<not> has_model then ret TunerSkipped
      else try_catch
        (and_then (in_order (map (tuner_tool ts body) (take 5 calls))) (\<lambda>_. ret TunerOk))
        (\<lambda>e. case e of JsError m \<Rightarrow> ret (TunerError m)))"

definition tuner_event :: "tuner_result \<Rightarrow> json_obj" where
  "tuner_event res =
     (case res of
        TunerSkipped \<Rightarrow> [(''skipped'', JBool True), (''reason'', JStr ''no_api_key'')]
      | TunerOk \<Rightarrow> [(''cycle'', JStr ''ok'')]
      | TunerError e \<Rightarrow> [(''cycle'', JStr ''error''), (''error'', JStr e)])"

text \<open>One tick of \<open>runTunerAgentLoop\<close>: a cycle and its event.\<close>

definition tuner_round ::
  "bool \<Rightarrow> string \<Rightarrow> (filter_config \<Rightarrow> string) \<Rightarrow> (string \<Rightarrow> json_obj \<Rightarrow> (runtime, unit) exec) \<Rightarrow> tuner_call list
   \<Rightarrow> (runtime, unit) exec" where
  "tuner_round has_model ts body publishEvent calls =
     and_then (runTunerCycle has_model ts body calls)
       (\<lambda>res. publishEvent ''filters_optimized'' (tuner_event res))"

end
