(* ===== verification/Agent_Loop.thy ===== *)
theory Agent_Loop
  imports Activation_Filters Equivalence Governance_Agent
begin

text \<open>
  The event-driven agent loop of \<open>src/agentLoop.ts\<close>: a drained batch of messages, the gates in front
  of the agent, the run with its result event, its equivalence proposals and its advance proposal,
  and the acknowledgement of the batch; with the NLI client of \<open>src/nliGate.ts\<close>.

  The agent itself (an LLM worker) is the argument \<open>le_run\<close>, any computation over the runtime. What
  \<open>drainBatch\<close> answers is the list of batches the loop is given.
\<close>

section \<open>The NLI client\<close>

datatype nli_answer =
    NliDown
  | NliHttpError nat
  | NliBody "bool option" "json option" "json option"

definition nli_worker_url :: "string option \<Rightarrow> string option \<Rightarrow> string option" where
  "nli_worker_url explicit env =
     (case or_else explicit env of
        None \<Rightarrow> None
      | Some url \<Rightarrow> if str_trim url = [] then None
                    else Some (rev (dropWhile (\<lambda>c. c = CHR ''/'') (rev url))))"

fun coerceLabel :: "json option \<Rightarrow> nli_label" where
  "coerceLabel (Some (JStr s)) =
     (if s = ''equivalent'' then Equivalent else if s = ''contradiction'' then Contradiction else Neutral)"
| "coerceLabel _ = Neutral"

definition nli_verdict_of :: "nli_answer \<Rightarrow> nli_verdict" where
  "nli_verdict_of ans =
     (case ans of
        NliDown \<Rightarrow> unavailable_verdict
      | NliHttpError _ \<Rightarrow> unavailable_verdict
      | NliBody available label conf \<Rightarrow>
          if available = Some False then unavailable_verdict
          else \<lparr> nv_label = coerceLabel label,
                 nv_confidence = (case conf of Some (JNum c) \<Rightarrow> max 0 (min 1 c) | _ \<Rightarrow> 0),
                 nv_available = True \<rparr>)"

text \<open>\<open>ask url a b\<close> is the answer of the worker's endpoint.\<close>

definition nliEntailment ::
  "string option \<Rightarrow> string option \<Rightarrow> (string \<Rightarrow> string \<Rightarrow> string \<Rightarrow> nli_answer) \<Rightarrow> string \<Rightarrow> string \<Rightarrow> nli_verdict"
where
  "nliEntailment explicit env ask a b =
     (case nli_worker_url explicit env of
        None \<Rightarrow> unavailable_verdict
      | Some url \<Rightarrow> if str_trim a = [] \<or> str_trim b = [] then unavailable_verdict
                    else nli_verdict_of (ask (url @ ''/nli'') a b))"

lemma nliEntailment_bounds:
  "0 \<le> nv_confidence (nliEntailment x e ask a b) \<and> nv_confidence (nliEntailment x e ask a b) \<le> 1"
  by (auto simp: nliEntailment_def nli_verdict_of_def unavailable_verdict_def
      split: option.split nli_answer.split json.split)

section \<open>Messages and options\<close>

record drained =
  dm_id :: string
  dm_type :: "string option"

record loop_opts =
  lo_agentId :: string
  lo_role :: string
  lo_scopeId :: "string option"
  lo_consumerName :: "string option"

record loop_env =
  le_filter :: filter_env
  le_run :: "job_type \<Rightarrow> json_obj \<Rightarrow> (runtime, json_obj option) exec"
  le_routing :: routing_env
  le_nli :: "string \<Rightarrow> string \<Rightarrow> nli_verdict"
  le_schema :: schema_map
  le_abort_error :: "js_error \<Rightarrow> bool"

definition loop_scope :: "loop_opts \<Rightarrow> world \<Rightarrow> string" where
  "loop_scope opts w = coalesce (or_else (lo_scopeId opts) (w_env_scope w)) ''default''"

definition loop_consumer :: "loop_opts \<Rightarrow> string" where
  "loop_consumer opts =
     coalesce (lo_consumerName opts) (lo_role opts @ ''-'' @ lo_agentId opts @ ''-events'')"

text \<open>The jobs that have a runner.\<close>

definition JOB_RUNNERS :: "job_type list" where
  "JOB_RUNNERS =
     [ExtractFacts, CheckDrift, ResolveContradictions, PlanActions, PropagateEvidence, ExtractDeltas,
      SummarizeStatus]"

definition memoryUpdateFromContext :: "int \<Rightarrow> json_obj \<Rightarrow> memory_update" where
  "memoryUpdateFromContext now ctx =
    (let seq = (case map_get ctx ''latestSeq'' of Some (JNum x) \<Rightarrow> Some \<lfloor>x\<rfloor> | _ \<Rightarrow> None);
         field = coalesce (json_str (map_get ctx ''field'')) [];
         u = no_update \<lparr> mu_lastActivatedAt := Some now, mu_lastProcessedSeq := seq \<rparr> in
     case json_str (map_get ctx ''currentHash'') of
       None \<Rightarrow> u
     | Some h \<Rightarrow> if str_includes field ''drift'' then u \<lparr> mu_lastDriftHash := Some (Some h) \<rparr>
                 else u \<lparr> mu_lastHash := Some (Some h) \<rparr>)"

section \<open>Acknowledgement\<close>

definition deliver :: "disposition \<Rightarrow> drained \<Rightarrow> (runtime, unit) exec" where
  "deliver d m = modify (\<lambda>r. r \<lparr> rt_delivery := rt_delivery r @ [(dm_id m, d)] \<rparr>)"

definition ackAll :: "drained list \<Rightarrow> (runtime, unit) exec" where
  "ackAll batch = in_order (map (deliver Acked) batch)"

definition nakAll :: "drained list \<Rightarrow> int option \<Rightarrow> (runtime, unit) exec" where
  "nakAll batch delayMs = in_order (map (deliver (Naked delayMs)) batch)"

text \<open>Own results and messages already processed are acknowledged; the rest is the batch to run on. A
  failing look-up of the processed messages is outside the error handling of the loop.\<close>

definition own_output :: "agent_spec \<Rightarrow> drained \<Rightarrow> bool" where
  "own_output s m = (case dm_type m of None \<Rightarrow> False | Some t \<Rightarrow> t \<noteq> [] \<and> t = as_resultEventType s)"

fun relevant_messages :: "agent_spec \<Rightarrow> string \<Rightarrow> drained list \<Rightarrow> (runtime, drained list) exec" where
  "relevant_messages s consumer [] = ret []"
| "relevant_messages s consumer (m # ms) =
     (if own_output s m
      then and_then (deliver Acked m) (\<lambda>_. relevant_messages s consumer ms)
      else and_then (on_world (isProcessed consumer (dm_id m)))
        (\<lambda>seen. if seen then and_then (deliver Acked m) (\<lambda>_. relevant_messages s consumer ms)
                else and_then (relevant_messages s consumer ms) (\<lambda>rel. ret (m # rel))))"

section \<open>The gates\<close>

definition state_gate :: "agent_spec \<Rightarrow> string \<Rightarrow> (runtime, bool) exec" where
  "state_gate s scopeId =
     (if as_requiresNode s = None \<and> coalesce (as_requiresNodeList s) [] = [] then ret True
      else and_then (on_world (loadState scopeId))
        (\<lambda>st. ret (case st of None \<Rightarrow> True | Some row \<Rightarrow> spec_runs_at s (gs_lastNode row))))"

text \<open>The context for the agent when all three gates let it through.\<close>

definition gates :: "loop_env \<Rightarrow> loop_opts \<Rightarrow> agent_spec \<Rightarrow> string \<Rightarrow> (runtime, json_obj option) exec" where
  "gates env opts s scopeId =
     and_then (state_gate s scopeId)
       (\<lambda>ready. if \<not> ready then ret None
         else and_then (loadFilterConfig (lo_role opts))
           (\<lambda>cfg. and_then (loadAgentMemory (lo_role opts))
             (\<lambda>mem. and_then (checkFilter (le_filter env) scopeId cfg mem)
               (\<lambda>(a, mem'). if \<not> av_should a then ret None
                 else and_then (on_world (check_permission (lo_agentId opts) (node_name (as_targetNode s))))
                   (\<lambda>perm. ret (if cr_allowed perm then Some (av_context a) else None))))))"

section \<open>The run\<close>

definition publish_swarm_event :: "string \<Rightarrow> json_obj \<Rightarrow> string \<Rightarrow> (world, unit) exec" where
  "publish_swarm_event type payload source w =
     and_then fresh_uuid
       (\<lambda>_. publish (''swarm.events.'' @ type)
          (EventMsg (createSwarmEvent type payload (no_opts \<lparr> eo_source := Some source \<rparr>)
             (w_tenant w) (w_scope w) (next_fresh w)))) w"

fun candidate_of_json :: "json \<Rightarrow> equivalence_candidate option" where
  "candidate_of_json (JObj fs) =
     (case (json_str (map_get fs ''node_type''), json_str (map_get fs ''existing_node_id''),
            json_str (map_get fs ''existing_content''), json_str (map_get fs ''new_content'')) of
        (Some t, Some i, Some a, Some b) \<Rightarrow>
          Some \<lparr> ec_node_type = t, ec_existing_node_id = i, ec_existing_content = a, ec_new_content = b,
                 ec_dimension = json_str (map_get fs ''dimension'') \<rparr>
      | _ \<Rightarrow> None)"
| "candidate_of_json _ = None"

definition candidates_of :: "json_obj \<Rightarrow> equivalence_candidate list" where
  "candidates_of payload =
     (case map_get payload ''equivalence_candidates'' of
        Some (JArr cs) \<Rightarrow> List.map_filter candidate_of_json cs
      | _ \<Rightarrow> [])"

definition emit_one :: "loop_env \<Rightarrow> loop_opts \<Rightarrow> string \<Rightarrow> string \<Rightarrow> equivalence_candidate \<Rightarrow> (world, unit) exec" where
  "emit_one env opts scopeId mode cand w =
     (case emit_candidate (le_routing env) (le_nli env) (le_schema env) (w_uuid w (w_uuids w)) scopeId
             (lo_agentId opts) (Some mode) cand of
        None \<Rightarrow> ret () w
      | Some p \<Rightarrow>
          and_then fresh_uuid
            (\<lambda>_. publish (''swarm.proposals.'' @ equivalence_action) (ProposalMsg p)) w)"

definition emit_equivalences ::
  "loop_env \<Rightarrow> loop_opts \<Rightarrow> string \<Rightarrow> equivalence_candidate list \<Rightarrow> (world, unit) exec" where
  "emit_equivalences env opts scopeId cands =
     (if cands = [] then ret ()
      else try_catch
        (and_then (scope_config scopeId)
           (\<lambda>cfg. in_order (map (emit_one env opts scopeId (config_mode cfg)) cands)))
        (\<lambda>_. ret ()))"

definition advance_proposal :: "string \<Rightarrow> string \<Rightarrow> graph_state \<Rightarrow> string \<Rightarrow> proposal" where
  "advance_proposal uuid agentId before mode =
    (let to_node = node_name (transitions (gs_lastNode before)) in
     \<lparr> pp_id = uuid, pp_agent = agentId, pp_action = ''advance_state'', pp_target_node = to_node,
       pp_payload = empty_payload
         \<lparr> p_expectedEpoch := Some (gs_epoch before), p_runId := Some (gs_runId before),
           p_from := Some (node_name (gs_lastNode before)), p_to := Some to_node \<rparr>,
       pp_mode = Some mode \<rparr>)"

definition propose_advance :: "loop_opts \<Rightarrow> agent_spec \<Rightarrow> string \<Rightarrow> (world, unit) exec" where
  "propose_advance opts s scopeId =
     (if \<not> (as_proposesAdvance s \<and> as_advancesTo s \<noteq> None) then ret ()
      else and_then (loadState scopeId)
        (\<lambda>st. case st of
           None \<Rightarrow> ret ()
         | Some before \<Rightarrow>
             if \<not> spec_runs_at s (gs_lastNode before) then ret ()
             else and_then (scope_config scopeId)
               (\<lambda>cfg. and_then fresh_uuid
                 (\<lambda>uuid. publish (''swarm.proposals.'' @ job_name (as_jobType s))
                    (ProposalMsg (advance_proposal uuid (lo_agentId opts) before (config_mode cfg)))))))"

definition confirm :: "string \<Rightarrow> drained \<Rightarrow> (runtime, unit) exec" where
  "confirm consumer m =
     and_then (on_world (markProcessed consumer (dm_id m))) (\<lambda>_. deliver Acked m)"

definition run_agent ::
  "loop_env \<Rightarrow> loop_opts \<Rightarrow> agent_spec \<Rightarrow> string \<Rightarrow> drained list \<Rightarrow> int \<Rightarrow> json_obj \<Rightarrow> (runtime, unit) exec" where
  "run_agent env opts s scopeId relevant startMs ctx =
     and_then (le_run env (as_jobType s) ctx)
       (\<lambda>result r.
          (let payload = coalesce result []; latencyMs = of_int (w_now (rt_world r) - startMs) in
           in_order
             ([on_world (metric ''agent_latency'' (lo_role opts)),
               recordActivation (lo_role opts) True latencyMs,
               on_world (publish_swarm_event (as_resultEventType s) payload (lo_role opts)),
               on_world (emit_equivalences env opts scopeId (candidates_of payload)),
               (\<lambda>r. saveAgentMemory (lo_role opts) (memoryUpdateFromContext (w_now (rt_world r)) ctx) r),
               on_world (propose_advance opts s scopeId)]
              @ map (confirm (loop_consumer opts)) relevant)) r)"

section \<open>Errors\<close>

definition error_text :: "js_error \<Rightarrow> string" where
  "error_text e = (case e of JsError m \<Rightarrow> m)"

text \<open>The case-insensitive searches, and the name \<open>AbortError\<close>.\<close>

definition mentions :: "string list \<Rightarrow> js_error \<Rightarrow> bool" where
  "mentions ws e = list_ex (\<lambda>t. str_includes (str_lower (error_text e)) (str_lower t)) ws"

definition isTimeoutOrConnect :: "loop_env \<Rightarrow> js_error \<Rightarrow> bool" where
  "isTimeoutOrConnect env e =
     (mentions [''timeout'', ''TIMEOUT'', ''abort'', ''AbortError'', ''The operation was aborted'',
                ''fetch failed'', ''ECONNREFUSED''] e
      \<or> le_abort_error env e)"

definition isPermanent :: "js_error \<Rightarrow> bool" where
  "isPermanent =
     mentions [''400'', ''401'', ''403'', ''404'', ''422'', ''bad request'', ''validation'',
               ''unauthorized'', ''forbidden'', ''not found'']"

definition handle_loop_error :: "loop_env \<Rightarrow> loop_opts \<Rightarrow> drained list \<Rightarrow> js_error \<Rightarrow> (runtime, unit) exec" where
  "handle_loop_error env opts relevant e =
     and_then (on_world (metric ''agent_error'' (lo_role opts)))
       (\<lambda>_. if isTimeoutOrConnect env e \<and> \<not> isPermanent e then nakAll relevant (Some 15000)
            else ackAll relevant)"

section \<open>The loop\<close>

definition run_batch ::
  "loop_env \<Rightarrow> loop_opts \<Rightarrow> agent_spec \<Rightarrow> string \<Rightarrow> drained list \<Rightarrow> (runtime, unit) exec" where
  "run_batch env opts s scopeId relevant r =
     (let startMs = w_now (rt_world r) in
      try_catch
        (and_then (gates env opts s scopeId)
           (\<lambda>admitted. case admitted of
              None \<Rightarrow> ackAll relevant
            | Some ctx \<Rightarrow> run_agent env opts s scopeId relevant startMs ctx))
        (handle_loop_error env opts relevant)) r"

definition agent_batch ::
  "loop_env \<Rightarrow> loop_opts \<Rightarrow> agent_spec \<Rightarrow> string \<Rightarrow> drained list \<Rightarrow> (runtime, unit) exec" where
  "agent_batch env opts s scopeId batch =
     and_then (relevant_messages s (loop_consumer opts) batch)
       (\<lambda>relevant. if relevant = [] then ret () else run_batch env opts s scopeId relevant)"

definition BACKOFF_MS :: int where "BACKOFF_MS = 500"
definition BACKOFF_MAX_MS :: int where "BACKOFF_MAX_MS = 5000"

definition sleep_ms :: "int \<Rightarrow> runtime \<Rightarrow> runtime" where
  "sleep_ms ms r = r \<lparr> rt_world := (rt_world r) \<lparr> w_now := w_now (rt_world r) + ms \<rparr> \<rparr>"

text \<open>The loop over the successive answers of \<open>drainBatch\<close> until it is aborted; a failing drain and a
  failing look-up end it. The result is the delay of the next idle wait.\<close>

fun agent_loop ::
  "loop_env \<Rightarrow> loop_opts \<Rightarrow> agent_spec \<Rightarrow> string \<Rightarrow> int \<Rightarrow> (js_error + drained list) list \<Rightarrow> (runtime, int) exec"
where
  "agent_loop env opts s scopeId delayMs [] r = ret delayMs r"
| "agent_loop env opts s scopeId delayMs (Inl e # answers) r = raise e r"
| "agent_loop env opts s scopeId delayMs (Inr [] # answers) r =
     agent_loop env opts s scopeId (min (delayMs * 2) BACKOFF_MAX_MS) answers (sleep_ms delayMs r)"
| "agent_loop env opts s scopeId delayMs (Inr (m # ms) # answers) r =
     and_then (agent_batch env opts s scopeId (m # ms))
       (\<lambda>_. agent_loop env opts s scopeId BACKOFF_MS answers) r"

definition runAgentLoop ::
  "loop_env \<Rightarrow> loop_opts \<Rightarrow> (js_error + drained list) list \<Rightarrow> (runtime, int) exec" where
  "runAgentLoop env opts answers r =
     (case getSpec (lo_role opts) of
        None \<Rightarrow> raise (JsError ''exit 1'') r
      | Some s \<Rightarrow>
         if as_jobType s \<notin> set JOB_RUNNERS then raise (JsError ''exit 1'') r
         else agent_loop env opts s (loop_scope opts (rt_world r)) BACKOFF_MS answers r)"

end
