(* ===== verification/Agent_Loop_Safety.thy ===== *)
theory Agent_Loop_Safety
  imports Agent_Loop Effect_Order
begin

text \<open>
  What the agent loop guarantees: who is answered on the bus and how, when the agent runs, what it
  proposes, and which events it loses.
\<close>

section \<open>Orders on the runtime\<close>

text \<open>The acknowledgements only grow.\<close>

definition answers_grow :: "runtime \<Rightarrow> runtime \<Rightarrow> bool" where
  "answers_grow r r' = (\<exists>l. rt_delivery r' = rt_delivery r @ l)"

text \<open>No memory row gets data.\<close>

definition no_data :: "runtime \<Rightarrow> bool" where
  "no_data r = (\<forall>k m. map_get (rt_memory r) k = Some m \<longrightarrow> mr_data m = [])"

definition stays_dataless :: "runtime \<Rightarrow> runtime \<Rightarrow> bool" where
  "stays_dataless r r' = (no_data r \<longrightarrow> no_data r')"

text \<open>Both orders see only the tables outside the world, so world computations and database calls
  are judged by what they do there.\<close>

locale runtime_order = effect_order R for R :: "runtime \<Rightarrow> runtime \<Rightarrow> bool" +
  assumes R_world: "R (r \<lparr> rt_world := w \<rparr>) r' = R r r'" "R r (r' \<lparr> rt_world := w \<rparr>) = R r r'"
    and R_default: "map_get DEFAULT_FILTERS k = Some def \<Longrightarrow>
      R r (r \<lparr> rt_filters := insert_missing k (def \<lparr> fg_updatedAt := t \<rparr>) (rt_filters r) \<rparr>)"
    and R_stats: "map_get (rt_filters r) k = Some c \<Longrightarrow>
      R r (r \<lparr> rt_filters := map_set k (c \<lparr> fg_stats := activated_stats True lat t (fg_stats c) \<rparr>) (rt_filters r) \<rparr>)"
    and R_empty_memory: "R r (r \<lparr> rt_memory := insert_missing k empty_memory_row (rt_memory r) \<rparr>)"
    and R_memory: "map_get (rt_memory r) k = Some m \<Longrightarrow>
      R r (r \<lparr> rt_memory := map_set k (apply_update (u \<lparr> mu_data := None \<rparr>) m) (rt_memory r) \<rparr>)"
    and R_deliver: "R r (r \<lparr> rt_delivery := rt_delivery r @ l \<rparr>)"
begin

lemma mv_on_world: "moves R (on_world m)"
  by (auto simp: moves_def on_world_def R_world R_refl split: prod.split)

lemma mv_db: "moves R op \<Longrightarrow> moves R (db op)"
  unfolding moves_def db_def Let_def
proof
  fix r
  assume "\<forall>s. R s (fst (op s))"
  then have "R (r \<lparr> rt_world := tick (rt_world r) \<rparr>) (fst (op (r \<lparr> rt_world := tick (rt_world r) \<rparr>)))" by blast
  then show "R r (fst (if w_faults (rt_world r) (w_tick (rt_world r))
        then (r \<lparr> rt_world := tick (rt_world r) \<rparr>, Inl io_error) else op (r \<lparr> rt_world := tick (rt_world r) \<rparr>)))"
    by (simp add: R_world R_refl)
qed

lemma mv_read: "moves R (\<lambda>r. (r, f r))"
  by (simp add: moves_def R_refl)

lemmas rt_intros = mv_intros mv_on_world mv_db mv_read

lemma mv_deliver: "moves R (deliver d m)"
  unfolding deliver_def by (rule mv_modify) (rule R_deliver)

lemma mv_ackAll: "moves R (ackAll ms)"
  unfolding ackAll_def by (intro rt_intros) (auto intro: mv_deliver)

lemma mv_nakAll: "moves R (nakAll ms d)"
  unfolding nakAll_def by (intro rt_intros) (auto intro: mv_deliver)

lemma mv_relevant: "moves R (relevant_messages s c ms)"
  by (induction ms) (auto intro!: rt_intros mv_deliver)

lemma mv_load_config: "moves R (loadFilterConfig role)"
proof -
  have "moves R (\<lambda>r. let now = w_now (rt_world r) in
      (r \<lparr> rt_filters := insert_missing role (def \<lparr> fg_updatedAt := now \<rparr>) (rt_filters r) \<rparr>,
       Inr (def \<lparr> fg_updatedAt := now \<rparr>)))" if "map_get DEFAULT_FILTERS role = Some def" for def
    using R_default[OF that] by (simp add: moves_def Let_def)
  then show ?thesis unfolding loadFilterConfig_def
    by (cases "map_get DEFAULT_FILTERS role") (auto intro!: rt_intros)
qed

lemma mv_load_memory: "moves R (loadAgentMemory role)"
proof -
  have "moves R (\<lambda>r. (r \<lparr> rt_memory := insert_missing role empty_memory_row (rt_memory r) \<rparr>,
      Inr (memory_of_row empty_memory_row)))"
    by (simp add: moves_def R_empty_memory)
  then show ?thesis unfolding loadAgentMemory_def by (intro rt_intros)
qed

lemma mv_save_memory:
  assumes "mu_data u = None"
  shows "moves R (saveAgentMemory role u)"
proof -
  have "u \<lparr> mu_data := None \<rparr> = u" using assms by simp
  then have "R r (case map_get (rt_memory r) role of None \<Rightarrow> r
      | Some m \<Rightarrow> r \<lparr> rt_memory := map_set role (apply_update u m) (rt_memory r) \<rparr>)" for r
    using R_memory[of r role _ u] by (auto simp: R_refl split: option.split)
  then show ?thesis unfolding saveAgentMemory_def
    by (intro mv_if mv_ret mv_db) (simp add: moves_def)
qed

lemma mv_record: "moves R (recordActivation role True l)"
  unfolding moves_def
proof
  fix r :: runtime
  show "R r (fst (recordActivation role True l r))"
    using R_stats[of r role]
    by (auto simp: recordActivation_def and_then_def db_def Let_def on_world_def metric_def R_world R_refl
        split: option.splits sum.splits)
qed

lemma mv_check_sequence: "moves R (check_sequence cfg m c)"
  unfolding check_sequence_def by (intro rt_intros) (simp add: moves_def Let_def R_refl)

lemma mv_s3_text: "moves R (s3_text key)"
proof -
  have "moves R (db (\<lambda>r. (r, Inr (Some c))))" for c :: string
    by (rule mv_db) (rule mv_read)
  then have "R (r \<lparr> rt_world := w \<rparr>) (fst (db (\<lambda>r. (r, Inr (Some c))) (r \<lparr> rt_world := w \<rparr>)))"
    for r w and c :: string by (simp add: moves_def)
  then have "R r (fst (db (\<lambda>r. (r, Inr (Some c))) (r \<lparr> rt_world := w \<rparr>)))" for r w and c :: string
    by (simp add: R_world)
  then show ?thesis by (auto simp: moves_def s3_text_def Let_def R_world R_refl split: option.split)
qed

lemma mv_read_hash: "moves R (readHashFromS3 env key)"
  unfolding readHashFromS3_def
  by (intro rt_intros mv_s3_text) (auto intro!: rt_intros split: option.split json.split)

lemma mv_check_hash: "moves R (check_hash env sc cfg m c)"
proof -
  have *: "R r (fst (and_then (readHashFromS3 env key) (\<lambda>h. ret (f h)) r))"
    for key and f :: "string option \<Rightarrow> activation_result \<times> agent_memory" and r
    using mv_and_then[OF mv_read_hash, of "\<lambda>h. ret (f h)"] mv_ret by (auto simp: moves_def)
  have "R r (fst (check_hash env sc cfg m c r))" for r
    unfolding check_hash_def Let_def using * by (auto simp: R_refl split: option.split)
  then show ?thesis by (simp add: moves_def)
qed

lemma mv_check_timer: "moves R (check_timer cfg m)"
  by (simp add: moves_def check_timer_def Let_def R_refl)

lemma mv_check_pressure: "moves R (check_pressure env cfg m c)"
proof -
  have *: "moves R (try_catch
          (and_then (on_world (loadConvergenceHistory sc 1))
             (\<lambda>history. and_then (pressure_metric role) (\<lambda>_. ret (g history))))
          (\<lambda>_. and_then (pressure_metric role) (\<lambda>_. ret y)))" for sc role g and y :: activation_result
    unfolding pressure_metric_def by (intro rt_intros)
  have "R r (fst (check_pressure env cfg m c r))" for r
    unfolding check_pressure_def Let_def using *[unfolded moves_def] by (auto simp: R_refl)
  then show ?thesis by (simp add: moves_def)
qed

lemma mv_checkFilter: "moves R (checkFilter env sc cfg m)"
  unfolding checkFilter_def Let_def with_memory_def
  by (intro rt_intros mv_check_sequence mv_check_hash mv_check_timer mv_check_pressure)

lemma mv_gates: "moves R (gates env opts s sc)"
proof -
  have "moves R (case p of (a, mem') \<Rightarrow> if \<not> av_should a then ret None
        else and_then (on_world (check_permission x y)) (\<lambda>perm. ret (g perm a)))" for p x y g
    by (cases p) (auto intro!: rt_intros)
  then show ?thesis unfolding gates_def state_gate_def
    by (intro rt_intros mv_load_config mv_load_memory mv_checkFilter)
qed

lemma mv_confirm: "moves R (confirm c m)"
  unfolding confirm_def by (intro rt_intros mv_deliver)

lemma update_has_no_data: "mu_data (memoryUpdateFromContext now ctx) = None"
  by (simp add: memoryUpdateFromContext_def no_update_def Let_def split: option.split)

lemma mv_run_agent:
  assumes "\<And>j c. moves R (le_run env j c)"
  shows "moves R (run_agent env opts s sc rel start ctx)"
proof -
  have save: "moves R (\<lambda>r. saveAgentMemory role (memoryUpdateFromContext (w_now (rt_world r)) ctx) r)" for role
    by (rule mv_state) (rule mv_save_memory[OF update_has_no_data])
  have "moves R (\<lambda>r. in_order
             ([on_world (metric ''agent_latency'' (lo_role opts)),
               recordActivation (lo_role opts) True (of_int (w_now (rt_world r) - start)),
               on_world (publish_swarm_event (as_resultEventType s) payload (lo_role opts)),
               on_world (emit_equivalences env opts sc (candidates_of payload)),
               (\<lambda>r. saveAgentMemory (lo_role opts) (memoryUpdateFromContext (w_now (rt_world r)) ctx) r),
               on_world (propose_advance opts s sc)]
              @ map (confirm (loop_consumer opts)) rel) r)" for payload
    by (rule mv_state, rule mv_in_order) (auto intro: mv_on_world mv_record mv_confirm save)
  then show ?thesis unfolding run_agent_def Let_def by (intro mv_and_then assms)
qed

lemma mv_run_batch:
  assumes "\<And>j c. moves R (le_run env j c)"
  shows "moves R (run_batch env opts s sc rel)"
proof -
  have handler: "moves R (handle_loop_error env opts rel e)" for e
    unfolding handle_loop_error_def by (intro mv_and_then mv_on_world mv_if mv_ackAll mv_nakAll)
  have body: "moves R (and_then (gates env opts s sc)
      (\<lambda>admitted. case admitted of None \<Rightarrow> ackAll rel | Some ctx \<Rightarrow> run_agent env opts s sc rel start ctx))" for start
    by (intro mv_and_then mv_gates mv_option mv_ackAll mv_run_agent assms)
  show ?thesis unfolding run_batch_def Let_def
    by (rule mv_state) (intro mv_try_catch body handler)
qed

lemma mv_agent_batch:
  assumes "\<And>j c. moves R (le_run env j c)"
  shows "moves R (agent_batch env opts s sc batch)"
  unfolding agent_batch_def by (intro mv_and_then mv_relevant mv_if mv_ret mv_run_batch assms)

lemma mv_agent_loop:
  assumes "\<And>j c. moves R (le_run env j c)"
  shows "moves R (agent_loop env opts s sc d answers)"
proof (induction answers arbitrary: d)
  case Nil
  show ?case using mv_ret by (simp add: moves_def)
next
  case (Cons a answers)
  note IH = Cons.IH
  show ?case
  proof (cases a)
    case (Inl e)
    then show ?thesis using mv_raise by (simp add: moves_def)
  next
    case (Inr batch)
    show ?thesis
    proof (cases batch)
      case Nil
      have "R r (fst (agent_loop env opts s sc d' answers (sleep_ms d r)))" for d' r
        using IH[of d'] R_trans unfolding moves_def sleep_ms_def by (metis R_refl R_world(2))
      then show ?thesis using Inr Nil by (simp add: moves_def)
    next
      case (Cons m ms)
      have "moves R (and_then (agent_batch env opts s sc (m # ms))
          (\<lambda>_. agent_loop env opts s sc BACKOFF_MS answers))"
        by (intro mv_and_then mv_agent_batch assms IH)
      then show ?thesis using Inr Cons by (simp add: moves_def)
    qed
  qed
qed

end

interpretation ago: runtime_order answers_grow
  by unfold_locales (auto simp: answers_grow_def)

interpretation nd: effect_order stays_dataless
  by unfold_locales (auto simp: stays_dataless_def)

interpretation ndo: runtime_order stays_dataless
  by unfold_locales
    (auto simp: stays_dataless_def no_data_def insert_missing_def empty_memory_row_def map_get_set
      apply_update_def split: if_splits)

section \<open>Every batch is answered\<close>

definition answered :: "runtime \<Rightarrow> runtime \<Rightarrow> drained \<Rightarrow> bool" where
  "answered r r' m = (\<exists>l d. rt_delivery r' = rt_delivery r @ l \<and> (dm_id m, d) \<in> set l)"

lemma answered_later: "answered r r' m \<Longrightarrow> answers_grow r' r'' \<Longrightarrow> answered r r'' m"
  by (auto simp: answered_def answers_grow_def)

lemma answered_earlier: "answers_grow r r' \<Longrightarrow> answered r' r'' m \<Longrightarrow> answered r r'' m"
  by (auto simp: answered_def answers_grow_def)

lemma deliver_run: "deliver d m r = (r \<lparr> rt_delivery := rt_delivery r @ [(dm_id m, d)] \<rparr>, Inr ())"
  by (simp add: deliver_def)

lemma in_order_deliver:
  "in_order (map (deliver d) ms) r
   = (r \<lparr> rt_delivery := rt_delivery r @ map (\<lambda>m. (dm_id m, d)) ms \<rparr>, Inr ())"
  by (induction ms arbitrary: r) (simp_all add: deliver_run)

lemma ackAll_run:
  "ackAll ms r = (r \<lparr> rt_delivery := rt_delivery r @ map (\<lambda>m. (dm_id m, Acked)) ms \<rparr>, Inr ())"
  by (simp add: ackAll_def in_order_deliver)

lemma in_order_append:
  "in_order (xs @ ys) s = (case in_order xs s of (s', Inl e) \<Rightarrow> (s', Inl e) | (s', Inr _) \<Rightarrow> in_order ys s')"
  by (induction xs arbitrary: s) (auto split: prod.split sum.split)

lemma relevant_answered:
  "relevant_messages s c ms r = (r', Inr rel) \<Longrightarrow> \<forall>m \<in> set ms. m \<in> set rel \<or> answered r r' m"
proof (induction ms arbitrary: r rel)
  case (Cons m ms)
  have more: "answers_grow r1 r'" if "relevant_messages s c ms r1 = (r', Inr x)" for r1 x
    using movesD[OF ago.mv_relevant that] .
  show ?case
  proof (cases "own_output s m")
    case True
    then have rest: "relevant_messages s c ms (fst (deliver Acked m r)) = (r', Inr rel)"
      using Cons.prems by (simp add: and_then_def deliver_run)
    have "answered r (fst (deliver Acked m r)) m" "answers_grow r (fst (deliver Acked m r))"
      by (auto simp: answered_def answers_grow_def deliver_run)
    then show ?thesis using Cons.IH[OF rest] more[OF rest]
      by (metis answered_earlier answered_later set_ConsD)
  next
    case False
    then obtain r1 seen where look: "on_world (isProcessed c (dm_id m)) r = (r1, Inr seen)"
      using Cons.prems by (auto simp: and_then_def split: prod.splits sum.splits)
    have g: "answers_grow r r1" using movesD[OF ago.mv_on_world look] .
    show ?thesis
    proof (cases seen)
      case True
      then have rest: "relevant_messages s c ms (fst (deliver Acked m r1)) = (r', Inr rel)"
        using Cons.prems \<open>\<not> own_output s m\<close> look by (simp add: and_then_def deliver_run)
      have "answered r (fst (deliver Acked m r1)) m"
        using g by (auto simp: answered_def answers_grow_def deliver_run)
      moreover have "answers_grow r (fst (deliver Acked m r1))"
        using g by (auto simp: answers_grow_def deliver_run)
      ultimately show ?thesis using Cons.IH[OF rest] more[OF rest]
        by (metis answered_earlier answered_later set_ConsD)
    next
      case False
      then obtain rel' where "relevant_messages s c ms r1 = (r', Inr rel')" "rel = m # rel'"
        using Cons.prems \<open>\<not> own_output s m\<close> look
        by (auto simp: and_then_def split: prod.splits sum.splits)
      then show ?thesis using Cons.IH g by (auto intro: answered_earlier)
    qed
  qed
qed simp

lemma confirms_answer:
  "in_order (map (confirm c) ms) r = (r', Inr ()) \<Longrightarrow> \<forall>m \<in> set ms. answered r r' m"
proof (induction ms arbitrary: r)
  case (Cons m ms)
  obtain r1 where one: "confirm c m r = (r1, Inr ())"
    and rest: "in_order (map (confirm c) ms) r1 = (r', Inr ())"
    using Cons.prems by (auto split: prod.splits sum.splits)
  obtain r2 where r2: "on_world (markProcessed c (dm_id m)) r = (r2, Inr ())" "r1 = fst (deliver Acked m r2)"
    using one by (auto simp: confirm_def and_then_def deliver_run split: prod.splits sum.splits)
  have "answers_grow r r2" using movesD[OF ago.mv_on_world r2(1)] .
  then have "answered r r1 m" using r2(2) by (auto simp: answered_def answers_grow_def deliver_run)
  moreover have "answers_grow r r1" using movesD[OF ago.mv_confirm one] .
  moreover have "answers_grow r1 r'"
    using movesD[OF ago.mv_in_order rest] ago.mv_confirm by auto
  ultimately show ?case using Cons.IH[OF rest] by (auto intro: answered_later answered_earlier)
qed simp

lemma run_agent_answers:
  assumes "\<And>j c. moves answers_grow (le_run env j c)"
    and "run_agent env opts s sc rel start ctx r = (r', Inr ())"
  shows "\<forall>m \<in> set rel. answered r r' m"
proof -
  obtain r1 result where go: "le_run env (as_jobType s) ctx r = (r1, Inr result)"
    using assms(2) by (auto simp: run_agent_def and_then_def split: prod.splits sum.splits)
  have g1: "answers_grow r r1" using movesD[OF assms(1) go] .
  let ?pre = "[on_world (metric ''agent_latency'' (lo_role opts)),
     recordActivation (lo_role opts) True (of_int (w_now (rt_world r1) - start)),
     on_world (publish_swarm_event (as_resultEventType s) (coalesce result []) (lo_role opts)),
     on_world (emit_equivalences env opts sc (candidates_of (coalesce result []))),
     (\<lambda>r. saveAgentMemory (lo_role opts) (memoryUpdateFromContext (w_now (rt_world r)) ctx) r),
     on_world (propose_advance opts s sc)]"
  have pre: "moves answers_grow (in_order ?pre)"
  proof (rule ago.mv_in_order)
    fix m assume "m \<in> set ?pre"
    moreover have "moves answers_grow
        (\<lambda>r. saveAgentMemory (lo_role opts) (memoryUpdateFromContext (w_now (rt_world r)) ctx) r)"
      by (rule ago.mv_state) (rule ago.mv_save_memory[OF ago.update_has_no_data])
    ultimately show "moves answers_grow m" by (auto intro: ago.mv_on_world ago.mv_record)
  qed
  have whole: "in_order (?pre @ map (confirm (loop_consumer opts)) rel) r1 = (r', Inr ())"
    using assms(2) go by (simp add: run_agent_def and_then_def Let_def)
  then obtain r2 where "in_order ?pre r1 = (r2, Inr ())"
    "in_order (map (confirm (loop_consumer opts)) rel) r2 = (r', Inr ())"
    unfolding in_order_append by (auto split: prod.splits sum.splits)
  moreover from this(1) have "answers_grow r1 r2" using movesD[OF pre] by blast
  ultimately show ?thesis using g1 confirms_answer by (blast intro: answered_earlier)
qed

lemma delivery_answers:
  assumes "rt_delivery r = rt_delivery r0" "m \<in> set rel"
  shows "answered r0 (r \<lparr> rt_delivery := rt_delivery r @ map (\<lambda>m. (dm_id m, d)) rel \<rparr>) m"
  unfolding answered_def using assms
  by (intro exI[of _ "map (\<lambda>m. (dm_id m, d)) rel"] exI[of _ d]) auto

lemma handler_answers:
  "\<exists>r'. handle_loop_error env opts rel e r = (r', Inr ()) \<and> (\<forall>m \<in> set rel. answered r r' m)"
proof -
  let ?r = "r \<lparr> rt_world := (rt_world r) \<lparr> w_metrics := w_metrics (rt_world r) @ [(''agent_error'', lo_role opts)] \<rparr> \<rparr>"
  have m: "on_world (metric ''agent_error'' (lo_role opts)) r = (?r, Inr ())"
    by (simp add: on_world_def metric_def)
  obtain d where "handle_loop_error env opts rel e r
      = (?r \<lparr> rt_delivery := rt_delivery ?r @ map (\<lambda>m. (dm_id m, d)) rel \<rparr>, Inr ())"
    by (cases "isTimeoutOrConnect env e \<and> \<not> isPermanent e")
      (simp_all add: handle_loop_error_def and_then_def m ackAll_run nakAll_def in_order_deliver)
  then show ?thesis using delivery_answers[of ?r r _ rel d] by auto
qed

lemma run_batch_answers:
  assumes "\<And>j c. moves answers_grow (le_run env j c)"
  shows "\<exists>r'. run_batch env opts s sc rel r = (r', Inr ()) \<and> (\<forall>m \<in> set rel. answered r r' m)"
proof -
  let ?body = "and_then (gates env opts s sc)
      (\<lambda>admitted. case admitted of None \<Rightarrow> ackAll rel
         | Some ctx \<Rightarrow> run_agent env opts s sc rel (w_now (rt_world r)) ctx)"
  have body: "moves answers_grow ?body"
    by (intro ago.mv_and_then ago.mv_gates ago.mv_option ago.mv_ackAll ago.mv_run_agent assms)
  obtain r1 x where b: "?body r = (r1, x)" by fastforce
  have g: "answers_grow r r1" using movesD[OF body b] .
  show ?thesis
  proof (cases x)
    case (Inl e)
    obtain r' where "handle_loop_error env opts rel e r1 = (r', Inr ())" "\<forall>m \<in> set rel. answered r1 r' m"
      using handler_answers by blast
    then show ?thesis using b Inl g
      by (auto simp: run_batch_def try_catch_def Let_def intro: answered_earlier)
  next
    case (Inr u)
    obtain r0 adm where a: "gates env opts s sc r = (r0, Inr adm)"
      using b Inr by (auto simp: and_then_def split: prod.splits sum.splits)
    have "\<forall>m \<in> set rel. answered r r1 m"
    proof (cases adm)
      case None
      then have "r1 = fst (ackAll rel r0)" using a b by (simp add: and_then_def)
      moreover have "answers_grow r r0" using movesD[OF ago.mv_gates a] .
      moreover have "\<forall>m \<in> set rel. answered r0 (fst (ackAll rel r0)) m"
        using delivery_answers[OF refl] by (auto simp: ackAll_run)
      ultimately show ?thesis by (auto intro: answered_earlier)
    next
      case (Some ctx)
      then have "run_agent env opts s sc rel (w_now (rt_world r)) ctx r0 = (r1, Inr ())"
        using a b Inr by (simp add: and_then_def)
      then show ?thesis using run_agent_answers[OF assms] movesD[OF ago.mv_gates a]
        by (blast intro: answered_earlier)
    qed
    then show ?thesis using b Inr by (auto simp: run_batch_def try_catch_def Let_def)
  qed
qed

text \<open>
  C21. Whatever fails during a batch, and whatever the agent does as long as it withdraws no
  acknowledgement, every message of the batch is acknowledged or rejected before the next drain.
  The one exception is a failing look-up of the processed messages, which ends the loop with that
  error.
\<close>

theorem batch_always_answered:
  assumes "\<And>j c r. \<exists>l. rt_delivery (fst (le_run env j c r)) = rt_delivery r @ l"
    and "agent_batch env opts s sc batch r = (r', out)"
  shows "(\<exists>e r1. out = Inl e \<and> relevant_messages s (loop_consumer opts) batch r = (r1, Inl e))
         \<or> (out = Inr () \<and> (\<forall>m \<in> set batch. \<exists>l d. rt_delivery r' = rt_delivery r @ l \<and> (dm_id m, d) \<in> set l))"
proof -
  have runner: "moves answers_grow (le_run env j c)" for j c
    using assms(1) by (auto simp: moves_def answers_grow_def)
  obtain r1 x where rel: "relevant_messages s (loop_consumer opts) batch r = (r1, x)" by fastforce
  show ?thesis
  proof (cases x)
    case (Inl e)
    then show ?thesis using rel assms(2) by (auto simp: agent_batch_def and_then_def)
  next
    case (Inr ms)
    have split: "\<forall>m \<in> set batch. m \<in> set ms \<or> answered r r1 m"
      using relevant_answered rel Inr by blast
    obtain r2 where run: "run_batch env opts s sc ms r1 = (r2, Inr ())" "\<forall>m \<in> set ms. answered r1 r2 m"
      using run_batch_answers[of env opts s sc ms r1] runner by blast
    have g: "answers_grow r r1" using movesD[OF ago.mv_relevant rel] .
    have g2: "answers_grow r1 r2" using movesD[OF ago.mv_run_batch run(1)] runner by blast
    show ?thesis
    proof (cases "ms = []")
      case True
      then show ?thesis using split rel Inr assms(2)
        by (auto simp: agent_batch_def and_then_def answered_def)
    next
      case False
      then have "r' = r2 \<and> out = Inr ()"
        using rel Inr run(1) assms(2) by (simp add: agent_batch_def and_then_def)
      moreover have "\<forall>m \<in> set batch. answered r r2 m"
        using split run(2) g g2 by (blast intro: answered_earlier answered_later)
      ultimately show ?thesis by (auto simp: answered_def)
    qed
  qed
qed

section \<open>The statistics of the filters\<close>

definition no_waste :: "runtime \<Rightarrow> bool" where
  "no_waste r = (\<forall>k c. map_get (rt_filters r) k = Some c \<longrightarrow>
     fl_wasted (fg_stats c) = 0 \<and> fl_productive (fg_stats c) = fl_activations (fg_stats c))"

definition stays_wasteless :: "runtime \<Rightarrow> runtime \<Rightarrow> bool" where
  "stays_wasteless r r' = (no_waste r \<longrightarrow> no_waste r')"

lemma default_wasteless:
  "map_get DEFAULT_FILTERS k = Some def \<Longrightarrow> fg_stats def = no_stats"
  by (auto simp: DEFAULT_FILTERS_def default_filter_def split: if_splits)

interpretation nw: effect_order stays_wasteless
  by unfold_locales (auto simp: stays_wasteless_def)

interpretation nwo: runtime_order stays_wasteless
proof unfold_locales
  fix r :: runtime and k def t
  assume d: "map_get DEFAULT_FILTERS k = Some def"
  show "stays_wasteless r (r \<lparr> rt_filters := insert_missing k (def \<lparr> fg_updatedAt := t \<rparr>) (rt_filters r) \<rparr>)"
    using default_wasteless[OF d]
    by (auto simp: stays_wasteless_def no_waste_def insert_missing_def map_get_set no_stats_def split: if_splits)
next
  fix r :: runtime and k c l t
  assume "map_get (rt_filters r) k = Some c"
  then show "stays_wasteless r (r \<lparr> rt_filters := map_set k (c \<lparr> fg_stats := activated_stats True l t (fg_stats c) \<rparr>) (rt_filters r) \<rparr>)"
    by (auto simp: stays_wasteless_def no_waste_def map_get_set activated_stats_def Let_def split: if_splits)
qed (simp_all add: stays_wasteless_def no_waste_def)

text \<open>
  No activation is ever counted as wasted: started on statistics without waste, the loop
  leaves statistics without waste, and every activation productive, whatever the messages, the
  results and the failures, as long as the agent itself leaves the statistics alone.
\<close>

theorem waste_never_counted:
  assumes "\<And>j c r. rt_filters (fst (le_run env j c r)) = rt_filters r"
    and "\<forall>k c. map_get (rt_filters r) k = Some c \<longrightarrow> fl_wasted (fg_stats c) = 0 \<and> fl_productive (fg_stats c) = fl_activations (fg_stats c)"
    and "map_get (rt_filters (fst (runAgentLoop env opts answers r))) k = Some c"
  shows "fl_wasted (fg_stats c) = 0 \<and> fl_productive (fg_stats c) = fl_activations (fg_stats c)"
proof -
  have "moves stays_wasteless (le_run env j c)" for j c
    using assms(1) by (simp add: moves_def stays_wasteless_def no_waste_def)
  then have "moves stays_wasteless (agent_loop env opts s sc d answers)" for s sc d
    by (intro nwo.mv_agent_loop)
  then have "stays_wasteless r (fst (runAgentLoop env opts answers r))"
    by (auto simp: runAgentLoop_def moves_def nw.R_refl split: option.split)
  then show ?thesis using assms(2,3) by (auto simp: stays_wasteless_def no_waste_def)
qed

end
