(* ===== verification/Agent_Loop_Events.thy ===== *)
theory Agent_Loop_Events
  imports Agent_Loop_Safety Effect_Logs
begin

text \<open>
  When the agent of a loop runs, what it proposes and which events never reach it. The lemmas
  compute the gates on a run without failing calls.
\<close>

section \<open>Runs without failures\<close>

text \<open>\<open>ticks m r x\<close>: from \<open>r\<close> the computation answers \<open>x\<close> and only uses up database calls.\<close>

definition at_tick :: "nat \<Rightarrow> runtime \<Rightarrow> runtime" where
  "at_tick k r = r \<lparr> rt_world := (rt_world r) \<lparr> w_tick := k \<rparr> \<rparr>"

definition ticks :: "(runtime, 'a) exec \<Rightarrow> runtime \<Rightarrow> 'a \<Rightarrow> bool" where
  "ticks m r x = (\<exists>k. m r = (at_tick k r, Inr x))"

lemma at_tick_simps [simp]:
  "at_tick j (at_tick k r) = at_tick j r" "rt_filters (at_tick k r) = rt_filters r"
  "rt_memory (at_tick k r) = rt_memory r" "rt_objects (at_tick k r) = rt_objects r"
  "rt_delivery (at_tick k r) = rt_delivery r"
  "w_faults (rt_world (at_tick k r)) = w_faults (rt_world r)"
  "w_now (rt_world (at_tick k r)) = w_now (rt_world r)"
  "w_states (rt_world (at_tick k r)) = w_states (rt_world r)"
  "w_wal (rt_world (at_tick k r)) = w_wal (rt_world r)"
  "w_processed (rt_world (at_tick k r)) = w_processed (rt_world r)"
  "w_acl (rt_world (at_tick k r)) = w_acl (rt_world r)"
  by (simp_all add: at_tick_def)

lemma at_tick_self: "\<exists>k. at_tick k r = r"
  by (rule exI[of _ "w_tick (rt_world r)"]) (simp add: at_tick_def)

lemma ticks_ret [intro]: "ticks (ret x) r x"
  using at_tick_self[of r] by (auto simp: ticks_def) metis

lemma ticks_and_then:
  "ticks m r x \<Longrightarrow> (\<And>k. ticks (f x) (at_tick k r) y) \<Longrightarrow> ticks (and_then m f) r y"
  unfolding ticks_def and_then_def by (metis (no_types, lifting) at_tick_simps(1) case_prod_conv sum.simps(6))

lemma tick_as_at_tick: "r \<lparr> rt_world := tick (rt_world r) \<rparr> = at_tick (Suc (w_tick (rt_world r))) r"
  by (simp add: at_tick_def tick_def)

lemma ticks_db:
  assumes "\<not> w_faults (rt_world r) (w_tick (rt_world r))"
    and "op (at_tick (Suc (w_tick (rt_world r))) r) = (at_tick (Suc (w_tick (rt_world r))) r, Inr x)"
  shows "ticks (db op) r x"
  using assms by (auto simp: ticks_def db_def Let_def tick_as_at_tick)

lemma ticks_on_world:
  assumes "m (rt_world r) = (tick (rt_world r), Inr x)"
  shows "ticks (on_world m) r x"
  using assms by (auto simp: ticks_def on_world_def tick_as_at_tick)

lemma faultless_at_tick [simp]: "faultless (rt_world (at_tick k r)) = faultless (rt_world r)"
  by (simp add: faultless_def)

lemma faultlessD: "faultless w \<Longrightarrow> \<not> w_faults w k"
  by (simp add: faultless_def)

section \<open>Events in the cooldown\<close>

lemma ticks_state_gate:
  assumes "faultless (rt_world r)"
  shows "\<exists>b. ticks (state_gate s sc) r b"
  unfolding state_gate_def
  by (auto intro!: ticks_and_then ticks_ret ticks_on_world
      simp: loadState_def external_def faultlessD[OF assms] exI[of _ True])

lemma ticks_load_config:
  assumes "faultless (rt_world r)" "map_get (rt_filters r) role = Some cfg"
  shows "ticks (loadFilterConfig role) r cfg"
  unfolding loadFilterConfig_def
  by (rule ticks_and_then[where x = "Some cfg"])
    (use assms in \<open>auto intro!: ticks_db simp: faultlessD\<close>)

lemma ticks_load_memory:
  assumes "faultless (rt_world r)" "map_get (rt_memory r) role = Some mem"
  shows "ticks (loadAgentMemory role) r (memory_of_row mem)"
  unfolding loadAgentMemory_def
  by (rule ticks_and_then[where x = "Some mem"])
    (use assms in \<open>auto intro!: ticks_db simp: faultlessD\<close>)

lemma ticks_check_in_cooldown:
  assumes "faultless (rt_world r)" "fg_type cfg = ''sequence_delta''"
    and "in_cooldown (w_now (rt_world r)) m (param_number (fg_params cfg) ''cooldownMs'' 5000)"
  shows "\<exists>a. ticks (checkFilter env sc cfg m) r (a, m) \<and> \<not> av_should a"
proof -
  let ?seq = "if fg_role cfg = ''facts'' then getLatestPipelineWalSeqForFacts else getLatestWalSeq"
  let ?c = "param_number (fg_params cfg) ''cooldownMs'' 5000"
  obtain n where "?seq (rt_world r) = (tick (rt_world r), Inr n)"
    using faultlessD[OF assms(1)]
    by (cases "fg_role cfg = ''facts''")
      (auto simp: getLatestPipelineWalSeqForFacts_def getLatestWalSeq_def external_def)
  then have n: "ticks (on_world ?seq) r n" by (rule ticks_on_world)
  obtain k0 where k0: "on_world ?seq r = (at_tick k0 r, Inr n)" using n by (auto simp: ticks_def)
  obtain a where a: "check_sequence cfg m ?c r = (at_tick k0 r, Inr a)" "\<not> av_should a"
    unfolding check_sequence_def and_then_def k0
    using assms(3) by (simp add: Let_def activation_def)
  then have "ticks (check_sequence cfg m ?c) r a" by (auto simp: ticks_def)
  then have "ticks (with_memory m (check_sequence cfg m ?c)) r (a, m)"
    unfolding with_memory_def by (rule ticks_and_then) (rule ticks_ret)
  then show ?thesis using a(2) assms(2) by (auto simp: checkFilter_def)
qed

lemma ticks_gates_in_cooldown:
  assumes "faultless (rt_world r)"
    and "map_get (rt_filters r) (lo_role opts) = Some cfg" "fg_type cfg = ''sequence_delta''"
    and "map_get (rt_memory r) (lo_role opts) = Some mem"
    and "in_cooldown (w_now (rt_world r)) (memory_of_row mem) (param_number (fg_params cfg) ''cooldownMs'' 5000)"
  shows "ticks (gates env opts s sc) r None"
proof -
  obtain b where b: "ticks (state_gate s sc) r b" using ticks_state_gate[OF assms(1)] by blast
  have check: "\<exists>a. ticks (checkFilter (le_filter env) sc cfg (memory_of_row mem)) (at_tick k r) (a, memory_of_row mem)
      \<and> \<not> av_should a" for k
    using ticks_check_in_cooldown[of "at_tick k r" cfg "memory_of_row mem" "le_filter env" sc] assms by simp
  have tail: "ticks (and_then (loadFilterConfig (lo_role opts))
           (\<lambda>cfg. and_then (loadAgentMemory (lo_role opts))
             (\<lambda>mem. and_then (checkFilter (le_filter env) sc cfg mem)
               (\<lambda>(a, mem'). if \<not> av_should a then ret None
                 else and_then (on_world (check_permission (lo_agentId opts) (node_name (as_targetNode s))))
                   (\<lambda>perm. ret (if cr_allowed perm then Some (av_context a) else None))))))
        (at_tick k r) None" for k
  proof (rule ticks_and_then[where x = cfg])
    show "ticks (loadFilterConfig (lo_role opts)) (at_tick k r) cfg"
      by (rule ticks_load_config) (use assms in simp_all)
  next
    fix j
    show "ticks (and_then (loadAgentMemory (lo_role opts))
             (\<lambda>mem. and_then (checkFilter (le_filter env) sc cfg mem)
               (\<lambda>(a, mem'). if \<not> av_should a then ret None
                 else and_then (on_world (check_permission (lo_agentId opts) (node_name (as_targetNode s))))
                   (\<lambda>perm. ret (if cr_allowed perm then Some (av_context a) else None)))))
        (at_tick j (at_tick k r)) None"
    proof (rule ticks_and_then[where x = "memory_of_row mem"])
      show "ticks (loadAgentMemory (lo_role opts)) (at_tick j (at_tick k r)) (memory_of_row mem)"
        by (rule ticks_load_memory) (use assms in simp_all)
    next
      fix i
      obtain a where "ticks (checkFilter (le_filter env) sc cfg (memory_of_row mem)) (at_tick i r) (a, memory_of_row mem)"
        "\<not> av_should a" using check by blast
      then show "ticks (and_then (checkFilter (le_filter env) sc cfg (memory_of_row mem))
               (\<lambda>(a, mem'). if \<not> av_should a then ret None
                 else and_then (on_world (check_permission (lo_agentId opts) (node_name (as_targetNode s))))
                   (\<lambda>perm. ret (if cr_allowed perm then Some (av_context a) else None))))
          (at_tick i (at_tick j (at_tick k r))) None"
        by (auto intro!: ticks_and_then[where x = "(a, memory_of_row mem)"] ticks_ret)
    qed
  qed
  show ?thesis unfolding gates_def
    by (rule ticks_and_then[OF b]) (use tail in \<open>auto intro: ticks_ret\<close>)
qed

text \<open>A batch that does not get through the gates is acknowledged, and nothing else happens.\<close>

definition acks :: "drained list \<Rightarrow> (string \<times> disposition) list" where
  "acks ms = map (\<lambda>m. (dm_id m, Acked)) ms"

definition discarded :: "nat \<Rightarrow> int \<Rightarrow> (string \<times> disposition) list \<Rightarrow> runtime \<Rightarrow> runtime" where
  "discarded k now l r =
     r \<lparr> rt_world := (rt_world r) \<lparr> w_tick := k, w_now := now \<rparr>, rt_delivery := rt_delivery r @ l \<rparr>"

lemma discarded_simps [simp]:
  "rt_filters (discarded k now l r) = rt_filters r" "rt_memory (discarded k now l r) = rt_memory r"
  "w_faults (rt_world (discarded k now l r)) = w_faults (rt_world r)"
  "w_now (rt_world (discarded k now l r)) = now"
  "w_bus (rt_world (discarded k now l r)) = w_bus (rt_world r)"
  "w_wal (rt_world (discarded k now l r)) = w_wal (rt_world r)"
  "rt_delivery (discarded k now l r) = rt_delivery r @ l"
  by (simp_all add: discarded_def)

lemma faultless_discarded [simp]: "faultless (rt_world (discarded k now l r)) = faultless (rt_world r)"
  by (simp add: faultless_def)

lemma discarded_discarded: "discarded k now l (discarded k' now' l' r) = discarded k now (l' @ l) r"
  by (simp add: discarded_def)

lemma at_tick_discarded: "at_tick k (discarded k' now l r) = discarded k now l r"
  by (simp add: at_tick_def discarded_def)

lemma at_tick_is_discarded: "at_tick k r = discarded k (w_now (rt_world r)) [] r"
  by (simp add: at_tick_def discarded_def)

lemma self_discarded: "\<exists>k. r = discarded k (w_now (rt_world r)) [] r"
  using at_tick_self[of r] by (metis at_tick_is_discarded)

lemma acked_discarded: "fst (deliver Acked m (discarded k now l r)) = discarded k now (l @ [(dm_id m, Acked)]) r"
  by (simp add: deliver_run discarded_def)

lemma ackAll_discarded: "ackAll ms (discarded k now l r) = (discarded k now (l @ acks ms) r, Inr ())"
  by (simp add: ackAll_run discarded_def acks_def)

lemma isProcessed_faultless:
  "faultless (rt_world r) \<Longrightarrow>
   on_world (isProcessed c i) r
     = (at_tick (Suc (w_tick (rt_world r))) r, Inr ((c, i) \<in> set (w_processed (rt_world r))))"
  by (simp add: on_world_def isProcessed_def external_def faultlessD at_tick_def tick_def)

lemma relevant_faultless:
  assumes "faultless (rt_world r)"
  shows "\<exists>k l rel. relevant_messages s c ms r = (discarded k (w_now (rt_world r)) l r, Inr rel)
           \<and> set l \<union> set (acks rel) = set (acks ms)"
  using assms
proof (induction ms arbitrary: r)
  case Nil
  obtain k where "r = discarded k (w_now (rt_world r)) [] r" using self_discarded by blast
  then show ?case by (intro exI[of _ k] exI[of _ "[]"]) (simp add: acks_def)
next
  case (Cons m ms)
  have skip: "\<exists>k' l' rel. relevant_messages s c ms (fst (deliver Acked m (at_tick k r)))
      = (discarded k' (w_now (rt_world r)) l' r, Inr rel) \<and> set l' \<union> set (acks rel) = set (acks (m # ms))" for k
  proof -
    let ?r = "fst (deliver Acked m (at_tick k r))"
    have r: "?r = discarded k (w_now (rt_world r)) [(dm_id m, Acked)] r"
      by (simp add: at_tick_is_discarded acked_discarded)
    obtain k' l rel where "relevant_messages s c ms ?r = (discarded k' (w_now (rt_world ?r)) l ?r, Inr rel)"
      "set l \<union> set (acks rel) = set (acks ms)"
      using Cons.IH[of ?r] Cons.prems by (auto simp: r)
    then show ?thesis
      by (intro exI[of _ k'] exI[of _ "[(dm_id m, Acked)] @ l"] exI[of _ rel])
        (simp add: r discarded_discarded acks_def)
  qed
  show ?case
  proof (cases "own_output s m")
    case True
    obtain k where "r = at_tick k r" using at_tick_self by metis
    then show ?thesis using skip[of k] True by (simp add: and_then_def deliver_run)
  next
    case False
    let ?k = "Suc (w_tick (rt_world r))"
    show ?thesis
    proof (cases "(c, dm_id m) \<in> set (w_processed (rt_world r))")
      case True
      then show ?thesis using skip[of ?k] False
        by (simp add: and_then_def isProcessed_faultless[OF Cons.prems] deliver_run)
    next
      case unseen: False
      obtain k' l rel where rest: "relevant_messages s c ms (at_tick ?k r)
          = (discarded k' (w_now (rt_world r)) l (at_tick ?k r), Inr rel)"
        "set l \<union> set (acks rel) = set (acks ms)"
        using Cons.IH[of "at_tick ?k r"] Cons.prems by auto
      then have "relevant_messages s c (m # ms) r = (discarded k' (w_now (rt_world r)) l r, Inr (m # rel))"
        using False unseen
        by (simp add: and_then_def isProcessed_faultless[OF Cons.prems] at_tick_is_discarded discarded_discarded)
      then show ?thesis using rest(2)
        by (intro exI[of _ k'] exI[of _ l] exI[of _ "m # rel"]) (auto simp: acks_def)
    qed
  qed
qed

lemma batch_discarded:
  assumes "faultless (rt_world r)" "\<And>r'. faultless (rt_world r') \<Longrightarrow> rt_filters r' = rt_filters r
      \<Longrightarrow> rt_memory r' = rt_memory r \<Longrightarrow> w_now (rt_world r') = w_now (rt_world r) \<Longrightarrow> ticks (gates env opts s sc) r' None"
  shows "\<exists>k l. agent_batch env opts s sc batch r = (discarded k (w_now (rt_world r)) l r, Inr ())
           \<and> set l = set (acks batch)"
proof -
  obtain k l rel where rel: "relevant_messages s (loop_consumer opts) batch r
      = (discarded k (w_now (rt_world r)) l r, Inr rel)" "set l \<union> set (acks rel) = set (acks batch)"
    using relevant_faultless[OF assms(1)] by blast
  show ?thesis
  proof (cases "rel = []")
    case True
    then show ?thesis using rel by (auto simp: agent_batch_def and_then_def acks_def)
  next
    case False
    let ?r = "discarded k (w_now (rt_world r)) l r"
    have "ticks (gates env opts s sc) ?r None" by (rule assms(2)) (use assms(1) in simp_all)
    then obtain k' where "gates env opts s sc ?r = (discarded k' (w_now (rt_world r)) l r, Inr None)"
      by (auto simp: ticks_def at_tick_discarded)
    then have "run_batch env opts s sc rel ?r = (discarded k' (w_now (rt_world r)) (l @ acks rel) r, Inr ())"
      by (simp add: run_batch_def Let_def try_catch_def and_then_def ackAll_discarded)
    then show ?thesis using rel False
      by (intro exI[of _ k'] exI[of _ "l @ acks rel"]) (simp add: agent_batch_def and_then_def)
  qed
qed

lemma idle_rounds:
  "500 \<le> d \<Longrightarrow> \<exists>now d'. agent_loop env opts s sc d (replicate n (Inr [])) r
     = (discarded (w_tick (rt_world r)) now [] r, Inr d') \<and> w_now (rt_world r) + 500 * int n \<le> now"
proof (induction n arbitrary: d r)
  case 0
  show ?case by (intro exI[of _ "w_now (rt_world r)"] exI[of _ d]) (simp add: discarded_def)
next
  case (Suc n)
  have "500 \<le> min (d * 2) BACKOFF_MAX_MS" using Suc.prems by (simp add: BACKOFF_MAX_MS_def)
  from Suc.IH[OF this, of "sleep_ms d r"] show ?case using Suc.prems
    by (auto simp: sleep_ms_def discarded_def)
qed


text \<open>A drift agent that ran one second ago on the first event of two.\<close>

definition drift_opts :: loop_opts where
  "drift_opts = \<lparr> lo_agentId = ''drift-1'', lo_role = ''drift'', lo_scopeId = Some ''s'', lo_consumerName = None \<rparr>"

definition idle_env :: loop_env where
  "idle_env = \<lparr> le_filter = \<lparr> fe_parse = (\<lambda>_. None), fe_sha256 = (\<lambda>t. t), fe_pressure_disabled = None \<rparr>,
     le_run = (\<lambda>_ _. ret None),
     le_routing = \<lparr> re_parsers = \<lparr> vp_amount = (\<lambda>_. None), vp_percentage = (\<lambda>_. None), vp_range = (\<lambda>_. None) \<rparr>,
                    re_accrual_env = None \<rparr>,
     le_nli = (\<lambda>_ _. unavailable_verdict), le_schema = [], le_abort_error = (\<lambda>_. False) \<rparr>"

definition cooling_memory :: memory_row where
  "cooling_memory = empty_memory_row \<lparr> mr_lastProcessedSeq := 1, mr_lastActivatedAt := Some 1000 \<rparr>"

definition cooling_runtime :: runtime where
  "cooling_runtime =
     \<lparr> rt_world = empty_world \<lparr> w_now := 2000, w_wal := [[], []] \<rparr>,
       rt_filters = [(''drift'', default_filter ''drift'' ''sequence_delta'' (sequence_params 5000))],
       rt_memory = [(''drift'', cooling_memory)], rt_objects = [], rt_delivery = [] \<rparr>"

lemma cooling_runtime_parts:
  "faultless (rt_world cooling_runtime)" "rt_delivery cooling_runtime = []"
  "w_now (rt_world cooling_runtime) = 2000"
  "map_get (rt_filters cooling_runtime) ''drift''
     = Some (default_filter ''drift'' ''sequence_delta'' (sequence_params 5000))"
  "map_get (rt_memory cooling_runtime) ''drift'' = Some cooling_memory"
  by (simp_all add: cooling_runtime_def faultless_def empty_world_def)


lemma batch_always_answered_witness:
  "let out = agent_batch idle_env drift_opts (the (getSpec ''drift'')) ''s'' [\<lparr> dm_id = ''7'', dm_type = None \<rparr>] cooling_runtime in
   (\<exists>e r1. snd out = Inl e
      \<and> relevant_messages (the (getSpec ''drift'')) (loop_consumer drift_opts) [\<lparr> dm_id = ''7'', dm_type = None \<rparr>] cooling_runtime = (r1, Inl e))
   \<or> (snd out = Inr () \<and> (\<forall>m \<in> set [\<lparr> dm_id = ''7'', dm_type = None \<rparr>]. \<exists>l d.
        rt_delivery (fst out) = rt_delivery cooling_runtime @ l \<and> (dm_id m, d) \<in> set l))"
  unfolding Let_def
  by (rule batch_always_answered[where env = idle_env]) (simp_all add: idle_env_def)

section \<open>When the agent runs\<close>

definition same_rows :: "runtime \<Rightarrow> runtime \<Rightarrow> bool" where
  "same_rows r r' = (w_states (rt_world r') = w_states (rt_world r) \<and> w_acl (rt_world r') = w_acl (rt_world r)
     \<and> w_processed (rt_world r') = w_processed (rt_world r))"

interpretation sr: effect_order same_rows
  by unfold_locales (auto simp: same_rows_def)

lemma sr_db: "moves same_rows op \<Longrightarrow> moves same_rows (db op)"
  unfolding moves_def db_def Let_def by (auto simp: same_rows_def)

lemma sr_on_world:
  assumes "\<And>w. w_states (fst (m w)) = w_states w \<and> w_acl (fst (m w)) = w_acl w \<and> w_processed (fst (m w)) = w_processed w"
  shows "moves same_rows (on_world m)"
proof -
  have "same_rows r (fst (on_world m r))" for r
    using assms[of "rt_world r"] by (cases "m (rt_world r)") (simp add: on_world_def same_rows_def)
  then show ?thesis by (simp add: moves_def)
qed

lemma sr_read: "moves same_rows (\<lambda>r. (r, f r))"
  by (simp add: moves_def same_rows_def)

lemma sr_relevant: "moves same_rows (relevant_messages s c ms)"
proof (induction ms)
  case (Cons m ms)
  have "moves same_rows (deliver Acked m)" by (auto simp: moves_def deliver_def same_rows_def)
  moreover have "moves same_rows (on_world (isProcessed c (dm_id m)))"
    by (rule sr_on_world) (simp add: isProcessed_def external_def)
  ultimately show ?case using Cons.IH by (auto intro!: sr.mv_if sr.mv_and_then sr.mv_ret)
qed (simp add: moves_def sr.R_refl)

lemma sr_state_gate: "moves same_rows (state_gate s sc)"
  unfolding state_gate_def
  by (intro sr.mv_if sr.mv_ret sr.mv_and_then sr_on_world) (simp_all add: loadState_def external_def)

lemma sr_load_config: "moves same_rows (loadFilterConfig role)"
  unfolding loadFilterConfig_def
  by (intro sr.mv_and_then sr_db sr_read sr.mv_option sr.mv_ret sr.mv_raise)
    (simp add: moves_def same_rows_def Let_def)

lemma sr_load_memory: "moves same_rows (loadAgentMemory role)"
  unfolding loadAgentMemory_def
  by (intro sr.mv_and_then sr_db sr_read sr.mv_option sr.mv_ret sr.mv_raise)
    (simp add: moves_def same_rows_def)

lemma sr_check: "moves same_rows (checkFilter env sc cfg m)"
proof -
  have seq: "moves same_rows (check_sequence cfg m c)" for c
    unfolding check_sequence_def
    by (intro sr.mv_and_then sr_on_world)
      (auto simp: getLatestPipelineWalSeqForFacts_def getLatestWalSeq_def external_def moves_def Let_def same_rows_def)
  have timer: "moves same_rows (check_timer cfg m)"
    by (simp add: moves_def check_timer_def Let_def same_rows_def)
  have "moves same_rows (s3_text key)" for key
    by (auto simp: moves_def s3_text_def db_def Let_def same_rows_def split: option.split)
  then have read: "moves same_rows (readHashFromS3 env key)" for key
    unfolding readHashFromS3_def
    by (intro sr.mv_and_then) (auto intro: sr.mv_ret sr.mv_raise split: option.split json.split)
  have hash: "moves same_rows (check_hash env sc cfg m c)" for c
  proof -
    have *: "same_rows r (fst (and_then (readHashFromS3 env key) (\<lambda>h. ret (f h)) r))"
      for key and f :: "string option \<Rightarrow> activation_result \<times> agent_memory" and r
      using sr.mv_and_then[OF read, of "\<lambda>h. ret (f h)"] sr.mv_ret by (auto simp: moves_def)
    have "same_rows r (fst (check_hash env sc cfg m c r))" for r
      unfolding check_hash_def Let_def using * by (auto simp: sr.R_refl split: option.split)
    then show ?thesis by (simp add: moves_def)
  qed
  have metric: "moves same_rows (pressure_metric role)" for role
    unfolding pressure_metric_def by (rule sr_on_world) (simp add: metric_def)
  have pressure: "moves same_rows (check_pressure env cfg m c)" for c
  proof -
    have *: "moves same_rows (try_catch
          (and_then (on_world (loadConvergenceHistory sc 1))
             (\<lambda>history. and_then (pressure_metric role) (\<lambda>_. ret (g history))))
          (\<lambda>_. and_then (pressure_metric role) (\<lambda>_. ret y)))" for sc role g and y :: activation_result
      by (intro sr.mv_try_catch sr.mv_and_then metric sr.mv_ret sr_on_world)
        (simp add: loadConvergenceHistory_def external_def)
    have "same_rows r (fst (check_pressure env cfg m c r))" for r
      unfolding check_pressure_def Let_def using *[unfolded moves_def] by (auto simp: sr.R_refl)
    then show ?thesis by (simp add: moves_def)
  qed
  show ?thesis unfolding checkFilter_def Let_def with_memory_def
    by (intro sr.mv_if sr.mv_and_then sr.mv_ret seq hash timer pressure)
qed

lemma gates_admit:
  assumes "gates env opts s sc r = (r', Inr (Some ctx))"
  shows "cr_allowed (checkPermission (w_acl (rt_world r)) (lo_agentId opts) ''writer'' (node_name (as_targetNode s)))
         \<and> (\<forall>row. map_get (w_states (rt_world r)) sc = Some row \<longrightarrow> spec_runs_at s (gs_lastNode row))"
proof -
  obtain r1 where sg: "state_gate s sc r = (r1, Inr True)"
    using assms by (auto simp: gates_def and_then_def split: prod.splits sum.splits if_splits)
  obtain r2 cfg where lc: "loadFilterConfig (lo_role opts) r1 = (r2, Inr cfg)"
    using assms sg by (auto simp: gates_def and_then_def split: prod.splits sum.splits)
  obtain r3 mem where lm: "loadAgentMemory (lo_role opts) r2 = (r3, Inr mem)"
    using assms sg lc by (auto simp: gates_def and_then_def split: prod.splits sum.splits)
  obtain r4 a mem' where cf: "checkFilter (le_filter env) sc cfg mem r3 = (r4, Inr (a, mem'))"
    using assms sg lc lm by (auto simp: gates_def and_then_def split: prod.splits sum.splits)
  have perm: "cr_allowed (checkPermission (w_acl (rt_world r4)) (lo_agentId opts) ''writer'' (node_name (as_targetNode s)))"
    using assms sg lc lm cf
    by (auto simp: gates_def and_then_def on_world_def check_permission_def split: if_splits)
  have "same_rows r r1" "same_rows r1 r2" "same_rows r2 r3" "same_rows r3 r4"
    using movesD[OF sr_state_gate sg] movesD[OF sr_load_config lc] movesD[OF sr_load_memory lm]
      movesD[OF sr_check cf] by blast+
  then have "w_acl (rt_world r4) = w_acl (rt_world r)" by (simp add: same_rows_def)
  moreover have "\<forall>row. map_get (w_states (rt_world r)) sc = Some row \<longrightarrow> spec_runs_at s (gs_lastNode row)"
  proof (cases "as_requiresNode s = None \<and> coalesce (as_requiresNodeList s) [] = []")
    case True
    then show ?thesis by (auto simp: spec_runs_at_def split: option.split list.split)
  next
    case False
    then show ?thesis using sg
      by (auto simp: state_gate_def and_then_def on_world_def loadState_def external_def
          split: if_splits option.splits)
  qed
  ultimately show ?thesis using perm by simp
qed

lemma relevant_unseen:
  "relevant_messages s c ms r = (r', Inr rel) \<Longrightarrow>
   \<forall>m \<in> set rel. m \<in> set ms \<and> \<not> own_output s m \<and> (c, dm_id m) \<notin> set (w_processed (rt_world r))"
proof (induction ms arbitrary: r rel)
  case (Cons m ms)
  show ?case
  proof (cases "own_output s m")
    case True
    then show ?thesis using Cons.prems Cons.IH by (fastforce simp: and_then_def deliver_run)
  next
    case False
    obtain r1 seen where look: "on_world (isProcessed c (dm_id m)) r = (r1, Inr seen)"
      using Cons.prems False by (auto simp: and_then_def split: prod.splits sum.splits)
    have r1: "w_processed (rt_world r1) = w_processed (rt_world r)"
      "seen \<longleftrightarrow> (c, dm_id m) \<in> set (w_processed (rt_world r))"
      using look by (auto simp: on_world_def isProcessed_def external_def split: if_splits)
    show ?thesis
    proof (cases seen)
      case True
      then show ?thesis using Cons.prems Cons.IH False look r1
        by (fastforce simp: and_then_def deliver_run)
    next
      case unseen: False
      then obtain rel' where "relevant_messages s c ms r1 = (r', Inr rel')" "rel = m # rel'"
        using Cons.prems False look by (auto simp: and_then_def split: prod.splits sum.splits)
      then show ?thesis using Cons.IH r1 False unseen by fastforce
    qed
  qed
qed simp

text \<open>
  C20. The agent only matters to a batch when it is let through: if two agents in the same place
  give the batch different outcomes, then some message of it was neither the agent's own result nor
  processed before, the agent has write permission on its target, and the row of the scope, if
  there is one, is at a node where the agent may run.
\<close>

theorem agent_runs_only_when_admitted:
  assumes "agent_batch (env \<lparr> le_run := run1 \<rparr>) opts s sc batch r \<noteq> agent_batch (env \<lparr> le_run := run2 \<rparr>) opts s sc batch r"
  shows "(\<exists>m \<in> set batch. \<not> own_output s m \<and> (loop_consumer opts, dm_id m) \<notin> set (w_processed (rt_world r)))
       \<and> cr_allowed (checkPermission (w_acl (rt_world r)) (lo_agentId opts) ''writer'' (node_name (as_targetNode s)))
       \<and> (\<forall>row. map_get (w_states (rt_world r)) sc = Some row \<longrightarrow> spec_runs_at s (gs_lastNode row))"
proof -
  have g: "gates (env \<lparr> le_run := f \<rparr>) opts s sc = gates env opts s sc" for f
    by (rule ext) (simp add: gates_def cong: if_cong)
  have h: "handle_loop_error (env \<lparr> le_run := f \<rparr>) opts = handle_loop_error env opts" for f
    by (intro ext) (simp add: handle_loop_error_def isTimeoutOrConnect_def)
  obtain r1 rel where rel: "relevant_messages s (loop_consumer opts) batch r = (r1, Inr rel)" "rel \<noteq> []"
    using assms by (cases "relevant_messages s (loop_consumer opts) batch r")
      (auto simp: agent_batch_def and_then_def split: sum.splits if_splits)
  obtain r2 ctx where ctx: "gates env opts s sc r1 = (r2, Inr (Some ctx))"
  proof (cases "gates env opts s sc r1")
    case (Pair r2 x)
    have "run_batch (env \<lparr> le_run := run1 \<rparr>) opts s sc rel r1 \<noteq> run_batch (env \<lparr> le_run := run2 \<rparr>) opts s sc rel r1"
      using assms rel by (simp add: agent_batch_def and_then_def)
    then show ?thesis using that Pair
      by (cases x) (auto simp: run_batch_def Let_def g h and_then_def try_catch_def split: option.splits)
  qed
  have rows: "same_rows r r1" using movesD[OF sr_relevant rel(1)] .
  have "\<exists>m \<in> set batch. \<not> own_output s m \<and> (loop_consumer opts, dm_id m) \<notin> set (w_processed (rt_world r))"
    using relevant_unseen[OF rel(1)] rel(2) by (cases rel) auto
  then show ?thesis using gates_admit[OF ctx] rows by (simp add: same_rows_def)
qed

section \<open>What the agent proposes\<close>

text \<open>
  Without failures an agent that proposes and may run at the current node publishes exactly one
  proposal, for the current epoch, from the current node to the node that follows it in the cycle.
\<close>

theorem advance_follows_current_node:
  assumes "faultless w" "map_get (w_states w) sc = Some row" "w_policy_file w = Some raw"
    and "as_proposesAdvance s" "as_advancesTo s \<noteq> None" "spec_runs_at s (gs_lastNode row)"
  shows "w_bus (fst (propose_advance opts s sc w)) = w_bus w
     @ [(''swarm.proposals.'' @ job_name (as_jobType s),
         ProposalMsg (advance_proposal (w_uuid w (w_uuids w)) (lo_agentId opts) row
           (config_mode (getGovernanceForScope sc (loadPolicies raw (w_env_mode w))))))]"
  using assms
  by (simp add: propose_advance_def and_then_def loadState_def external_def faultlessD scope_config_def
      load_policy_config_def fresh_uuid_def publish_def)

text \<open>
  The facts agent may run at \<open>DriftChecked\<close>, to take in new context; what it then proposes is not the
  advance its specification names but the step over evidence propagation.
\<close>

lemma facts_agent_passes_over_propagation:
  assumes "faultless w" "map_get (w_states w) sc = Some row" "w_policy_file w = Some raw"
    and "gs_lastNode row = DriftChecked" "getSpec ''facts'' = Some s"
  shows "\<exists>p. w_bus (fst (propose_advance opts s sc w)) = w_bus w @ [(''swarm.proposals.extract_facts'', ProposalMsg p)]
           \<and> p_from (pp_payload p) = Some ''DriftChecked'' \<and> p_to (pp_payload p) = Some ''EvidencePropagated''
           \<and> as_advancesTo s = Some FactsExtracted"
proof -
  have s: "as_proposesAdvance s" "as_advancesTo s = Some FactsExtracted" "spec_runs_at s DriftChecked"
    "job_name (as_jobType s) = ''extract_facts''"
    using assms(5) by (auto simp: getSpec_def agent_specs_def spec_runs_at_def)
  have b: "w_bus (fst (propose_advance opts s sc w)) = w_bus w
     @ [(''swarm.proposals.'' @ job_name (as_jobType s),
         ProposalMsg (advance_proposal (w_uuid w (w_uuids w)) (lo_agentId opts) row
           (config_mode (getGovernanceForScope sc (loadPolicies raw (w_env_mode w))))))]"
    using assms s
    by (simp add: propose_advance_def and_then_def loadState_def external_def faultlessD scope_config_def
        load_policy_config_def fresh_uuid_def publish_def)
  show ?thesis using s assms(4) unfolding b by (auto simp: advance_proposal_def Let_def)
qed

lemma advance_follows_current_node_witness:
  "let w = empty_world \<lparr> w_states := [(''s'', \<lparr> gs_runId = ''r'', gs_lastNode = DriftChecked, gs_updatedAt = 0, gs_epoch = 4 \<rparr>)],
                         w_policy_file := Some governance_yaml \<rparr> in
   w_bus (fst (propose_advance drift_opts (the (getSpec ''propagation'')) ''s'' w))
   = [(''swarm.proposals.propagate_evidence'',
       ProposalMsg (advance_proposal ''u'' ''drift-1'' \<lparr> gs_runId = ''r'', gs_lastNode = DriftChecked, gs_updatedAt = 0, gs_epoch = 4 \<rparr>
         (config_mode (getGovernanceForScope ''s'' (loadPolicies governance_yaml None)))))]"
  using advance_follows_current_node
      [where w = "empty_world \<lparr> w_states := [(''s'', \<lparr> gs_runId = ''r'', gs_lastNode = DriftChecked, gs_updatedAt = 0, gs_epoch = 4 \<rparr>)],
                         w_policy_file := Some governance_yaml \<rparr>" and sc = "''s''"
         and row = "\<lparr> gs_runId = ''r'', gs_lastNode = DriftChecked, gs_updatedAt = 0, gs_epoch = 4 \<rparr>"
         and raw = governance_yaml and s = "the (getSpec ''propagation'')" and opts = drift_opts]
  by (simp add: faultless_def empty_world_def getSpec_def agent_specs_def spec_runs_at_def drift_opts_def)

section \<open>The cache of object hashes\<close>

lemma check_not_cached:
  assumes "me_data m = []" "checkFilter env sc cfg m r = (r', Inr (a, m'))"
  shows "av_reason a \<noteq> HashCached f age ttl"
proof
  assume h: "av_reason a = HashCached f age ttl"
  have "av_reason x \<noteq> HashCached f age ttl" if "check_sequence cfg m c r0 = (r1, Inr x)" for c r0 r1 x
    using that by (auto simp: check_sequence_def and_then_def activation_def Let_def split: prod.splits sum.splits if_splits)
  moreover have "av_reason x \<noteq> HashCached f age ttl" if "check_timer cfg m r0 = (r1, Inr x)" for r0 r1 x
    using that by (auto simp: check_timer_def activation_def Let_def split: if_splits)
  moreover have "av_reason (pressure_answer cfg t p) \<noteq> HashCached f age ttl" for t p
    by (simp add: pressure_answer_def activation_def Let_def)
  then have "av_reason x \<noteq> HashCached f age ttl" if "check_pressure env cfg m c r0 = (r1, Inr x)" for c r0 r1 x
    using that by (auto simp: check_pressure_def pressure_metric_def on_world_def metric_def and_then_def try_catch_def
        activation_def Let_def split: prod.splits sum.splits if_splits)
  moreover have "av_reason x \<noteq> HashCached f age ttl" if "check_hash env sc cfg m c r0 = (r1, Inr (x, y))" for c r0 r1 x y
    using that assms(1)
    by (auto simp: check_hash_def read_recently_def hash_answer_def and_then_def activation_def Let_def
        split: prod.splits sum.splits if_splits option.splits)
  ultimately show False using assms(2) h
    by (auto simp: checkFilter_def with_memory_def and_then_def activation_def Let_def
        split: prod.splits sum.splits if_splits)
qed

text \<open>
  The cache in front of the object store never answers: wherever the loop has come from tables
  without cached data, the memory it loads for the next check has no record of an earlier read, so
  no check is turned down because the hash was read recently.
\<close>

theorem hash_cache_never_hits:
  assumes "\<And>j c r. rt_memory (fst (le_run env j c r)) = rt_memory r"
    and "\<And>k m. map_get (rt_memory r) k = Some m \<Longrightarrow> mr_data m = []"
    and "loadAgentMemory role (fst (runAgentLoop env opts answers r)) = (r1, Inr mem)"
    and "checkFilter fenv sc cfg mem r2 = (r3, Inr (a, mem'))"
  shows "av_reason a \<noteq> HashCached f age ttl"
proof -
  have "moves stays_dataless (le_run env j c)" for j c
    using assms(1) by (simp add: moves_def stays_dataless_def no_data_def)
  then have "moves stays_dataless (agent_loop env opts s sc d answers)" for s sc d
    by (intro ndo.mv_agent_loop)
  then have "stays_dataless r (fst (runAgentLoop env opts answers r))"
    by (auto simp: runAgentLoop_def moves_def nd.R_refl split: option.split)
  then have "no_data (fst (runAgentLoop env opts answers r))"
    using assms(2) by (auto simp: stays_dataless_def no_data_def)
  then have "me_data mem = []"
    using assms(3)
    by (auto simp: loadAgentMemory_def and_then_def db_def Let_def no_data_def memory_of_row_def
        empty_memory_row_def split: option.splits if_splits)
  then show ?thesis using check_not_cached assms(4) by blast
qed

text \<open>The refusal of a bus at its default port counts as permanent: \<open>4222\<close> contains \<open>422\<close>.\<close>

lemma bus_refusal_is_permanent:
  "isTimeoutOrConnect env (JsError ''connect ECONNREFUSED 127.0.0.1:4222'')
   \<and> isPermanent (JsError ''connect ECONNREFUSED 127.0.0.1:4222'')"
  by (simp add: isTimeoutOrConnect_def isPermanent_def mentions_def error_text_def str_lower_def
      ascii_lower_def str_includes_def sublist_code)

section \<open>Examples\<close>

definition ready_runtime :: runtime where
  "ready_runtime = cooling_runtime \<lparr> rt_world := (rt_world cooling_runtime) \<lparr> w_now := 9000 \<rparr> \<rparr>"

definition one_message :: "drained list" where
  "one_message = [\<lparr> dm_id = ''7'', dm_type = None \<rparr>]"

definition failing_run :: "job_type \<Rightarrow> json_obj \<Rightarrow> (runtime, json_obj option) exec" where
  "failing_run j c = raise (JsError ''timeout'')"

definition quiet_run :: "job_type \<Rightarrow> json_obj \<Rightarrow> (runtime, json_obj option) exec" where
  "quiet_run j c = ret None"

lemma quiet_run_acked:
  "rt_delivery (fst (agent_batch (idle_env \<lparr> le_run := quiet_run \<rparr>) drift_opts (the (getSpec ''drift'')) ''s''
      one_message ready_runtime)) = [(''7'', Acked)]"
  by code_simp

lemma failing_run_rejected:
  "rt_delivery (fst (agent_batch (idle_env \<lparr> le_run := failing_run \<rparr>) drift_opts (the (getSpec ''drift'')) ''s''
      one_message ready_runtime)) = [(''7'', Naked (Some 15000))]"
  by code_simp

lemma agent_runs_only_when_admitted_witness:
  "(\<exists>m \<in> set one_message. \<not> own_output (the (getSpec ''drift'')) m
       \<and> (loop_consumer drift_opts, dm_id m) \<notin> set (w_processed (rt_world ready_runtime)))
   \<and> cr_allowed (checkPermission (w_acl (rt_world ready_runtime)) (lo_agentId drift_opts) ''writer''
        (node_name (as_targetNode (the (getSpec ''drift'')))))"
proof -
  have "agent_batch (idle_env \<lparr> le_run := quiet_run \<rparr>) drift_opts (the (getSpec ''drift'')) ''s'' one_message ready_runtime
      \<noteq> agent_batch (idle_env \<lparr> le_run := failing_run \<rparr>) drift_opts (the (getSpec ''drift'')) ''s'' one_message ready_runtime"
    using quiet_run_acked failing_run_rejected by (metis disposition.distinct(1) list.inject prod.inject)
  from agent_runs_only_when_admitted[OF this] show ?thesis by blast
qed

lemma run_counted:
  "map_get (rt_filters (fst (runAgentLoop idle_env drift_opts [Inr one_message] ready_runtime))) ''drift''
   = Some (default_filter ''drift'' ''sequence_delta'' (sequence_params 5000)
       \<lparr> fg_stats := \<lparr> fl_activations = 1, fl_productive = 1, fl_wasted = 0, fl_avgLatencyMs = 0,
                       fl_lastActivatedAt = Some 9000 \<rparr> \<rparr>)"
  by code_simp

lemma waste_never_counted_witness:
  "let c = default_filter ''drift'' ''sequence_delta'' (sequence_params 5000)
       \<lparr> fg_stats := \<lparr> fl_activations = 1, fl_productive = 1, fl_wasted = 0, fl_avgLatencyMs = 0,
                       fl_lastActivatedAt = Some 9000 \<rparr> \<rparr> in
   fl_wasted (fg_stats c) = 0 \<and> fl_productive (fg_stats c) = fl_activations (fg_stats c)"
  unfolding Let_def
  by (rule waste_never_counted[OF _ _ run_counted])
    (auto simp: idle_env_def ready_runtime_def cooling_runtime_def default_filter_def no_stats_def split: if_splits)

definition planner_config :: filter_config where
  "planner_config = default_filter ''planner'' ''hash_delta'' (drift_hash_params 5000)"

lemma memory_after_run:
  "snd (loadAgentMemory ''drift'' (fst (runAgentLoop idle_env drift_opts [Inr one_message] ready_runtime)))
   = Inr \<lparr> me_lastProcessedSeq = 2, me_lastHash = None, me_lastDriftHash = None, me_lastActivatedAt = 9000, me_data = [] \<rparr>"
  by code_simp

lemma check_after_run:
  "snd (checkFilter (le_filter idle_env) ''s'' planner_config
      \<lparr> me_lastProcessedSeq = 2, me_lastHash = None, me_lastDriftHash = None, me_lastActivatedAt = 9000, me_data = [] \<rparr>
      (ready_runtime \<lparr> rt_world := (rt_world ready_runtime) \<lparr> w_now := 20000 \<rparr> \<rparr>))
   = Inr (activation False (HashMissing ''scopes/s/drift/latest.json'')
       [(''currentHash'', JNull), (''previousHash'', JNull), (''field'', JStr ''scopes/s/drift/latest.json'')],
     \<lparr> me_lastProcessedSeq = 2, me_lastHash = None, me_lastDriftHash = None, me_lastActivatedAt = 9000,
       me_data = [(''_hashReadAt_s_drift/latest.json'', JNum 20000)] \<rparr>)"
  by code_simp

lemma hash_cache_never_hits_witness:
  "\<nexists>f age ttl. av_reason (activation False (HashMissing ''scopes/s/drift/latest.json'')
       [(''currentHash'', JNull), (''previousHash'', JNull), (''field'', JStr ''scopes/s/drift/latest.json'')])
     = HashCached f age ttl"
proof -
  obtain r1 where m: "loadAgentMemory ''drift'' (fst (runAgentLoop idle_env drift_opts [Inr one_message] ready_runtime))
      = (r1, Inr \<lparr> me_lastProcessedSeq = 2, me_lastHash = None, me_lastDriftHash = None, me_lastActivatedAt = 9000, me_data = [] \<rparr>)"
    using memory_after_run by (metis prod.collapse)
  obtain r3 m' where c: "checkFilter (le_filter idle_env) ''s'' planner_config
      \<lparr> me_lastProcessedSeq = 2, me_lastHash = None, me_lastDriftHash = None, me_lastActivatedAt = 9000, me_data = [] \<rparr>
      (ready_runtime \<lparr> rt_world := (rt_world ready_runtime) \<lparr> w_now := 20000 \<rparr> \<rparr>)
    = (r3, Inr (activation False (HashMissing ''scopes/s/drift/latest.json'')
       [(''currentHash'', JNull), (''previousHash'', JNull), (''field'', JStr ''scopes/s/drift/latest.json'')], m'))"
    using check_after_run by (metis prod.collapse)
  have run: "rt_memory (fst (le_run idle_env j k r)) = rt_memory r" for j k r
    by (simp add: idle_env_def)
  have fresh: "mr_data x = []" if "map_get (rt_memory ready_runtime) k = Some x" for k x
    using that by (auto simp: ready_runtime_def cooling_runtime_def cooling_memory_def empty_memory_row_def split: if_splits)
  show ?thesis
  proof (rule notI, elim exE)
    fix f age ttl
    show "av_reason (activation False (HashMissing ''scopes/s/drift/latest.json'')
       [(''currentHash'', JNull), (''previousHash'', JNull), (''field'', JStr ''scopes/s/drift/latest.json'')])
     = HashCached f age ttl \<Longrightarrow> False"
      using hash_cache_never_hits[of idle_env, OF run _ m c, of f age ttl] fresh by blast
  qed
qed

end
