(* ===== verification/Resilience.thy ===== *)
theory Resilience
  imports Swarm_Prelude
begin

text \<open>
  Retries and circuit breakers: \<open>src/resilience.ts\<close>, the breaker around the object store of
  \<open>src/s3.ts\<close>, the publish retries of \<open>src/eventBus.ts\<close> and the error texts of \<open>src/errors.ts\<close>.

  The body of a call is a state transformer over any state, its errors any type; the state
  says what time it is, and \<open>sleep\<close> is what waiting does to it. A breaker is the pair of counters the
  code keeps. Its calls overlap in the program, so besides the whole call there are the three
  atomic pieces it consists of: the admission, and the bookkeeping after a success or a failure.
\<close>

section \<open>Errors as the code inspects them\<close>

record js_exception =
  ex_code :: "string option"
  ex_message :: "string option"

text \<open>\<open>toErrorString\<close> on an \<open>Error\<close>: the message, followed by the code when there is a non-empty one.\<close>

definition toErrorString :: "js_exception \<Rightarrow> string" where
  "toErrorString e =
     coalesce (ex_message e) []
     @ (case ex_code e of None \<Rightarrow> [] | Some c \<Rightarrow> if c = [] then [] else '' ['' @ c @ '']'')"

definition PG_RETRYABLE_CODES :: "string list" where
  "PG_RETRYABLE_CODES =
     [''57P01'', ''57P03'', ''08006'', ''08001'', ''08004'', ''08003'', ''40001'']"

definition isPgRetryable :: "js_exception \<Rightarrow> bool" where
  "isPgRetryable e =
     ((case ex_code e of Some c \<Rightarrow> c \<in> set PG_RETRYABLE_CODES | None \<Rightarrow> False)
      \<or> (case ex_message e of
           Some m \<Rightarrow> list_ex (str_includes m)
             [''ECONNRESET'', ''ECONNREFUSED'', ''connection terminated'',
              ''Connection terminated unexpectedly'']
         | None \<Rightarrow> False))"

section \<open>Retries\<close>

record retry_options =
  ro_maxRetries :: "int option"
  ro_backoffMs :: "int option"
  ro_maxBackoffMs :: "int option"

definition no_retry_options :: retry_options where
  "no_retry_options = \<lparr> ro_maxRetries = None, ro_backoffMs = None, ro_maxBackoffMs = None \<rparr>"

datatype 'e retry_error = Thrown 'e | Unreachable

definition backoff_delay :: "int \<Rightarrow> int \<Rightarrow> int \<Rightarrow> int" where
  "backoff_delay backoff cap attempt = min (backoff * 2 ^ nat attempt) cap"

text \<open>The loop \<open>for (attempt = 0; attempt <= maxRetries; attempt++)\<close> from a given attempt on. A
  negative \<open>maxRetries\<close> skips the loop and raises the final error of the function.\<close>

function retry_loop ::
  "int \<Rightarrow> (int \<Rightarrow> int) \<Rightarrow> ('e \<Rightarrow> bool) \<Rightarrow> (int \<Rightarrow> 's \<Rightarrow> 's) \<Rightarrow> ('s \<Rightarrow> 's \<times> ('e + 'a)) \<Rightarrow> int \<Rightarrow> 's
   \<Rightarrow> 's \<times> ('e retry_error + 'a)" where
  "retry_loop maxRetries delay retryable sleep fn attempt s =
     (if attempt > maxRetries then (s, Inl Unreachable)
      else case fn s of
        (s', Inr x) \<Rightarrow> (s', Inr x)
      | (s', Inl e) \<Rightarrow>
          if attempt = maxRetries \<or> \<not> retryable e then (s', Inl (Thrown e))
          else retry_loop maxRetries delay retryable sleep fn (attempt + 1) (sleep (delay attempt) s'))"
  by pat_completeness auto
termination
  by (relation "measure (\<lambda>(m, _, _, _, _, a, _). nat (m + 1 - a))") auto

declare retry_loop.simps [simp del]

definition withRetry ::
  "('e \<Rightarrow> bool) \<Rightarrow> retry_options \<Rightarrow> (int \<Rightarrow> 's \<Rightarrow> 's) \<Rightarrow> ('s \<Rightarrow> 's \<times> ('e + 'a)) \<Rightarrow> 's
   \<Rightarrow> 's \<times> ('e retry_error + 'a)" where
  "withRetry isRetryable opts sleep fn s =
     retry_loop (coalesce (ro_maxRetries opts) 3)
       (backoff_delay (coalesce (ro_backoffMs opts) 200) (coalesce (ro_maxBackoffMs opts) 5000))
       isRetryable sleep fn 0 s"

text \<open>\<open>publishWithRetry\<close>: every error is retried, and the backoff has no cap.\<close>

definition publishWithRetry ::
  "(int \<Rightarrow> 's \<Rightarrow> 's) \<Rightarrow> ('s \<Rightarrow> 's \<times> ('e + 'a)) \<Rightarrow> 's \<Rightarrow> 's \<times> ('e retry_error + 'a)" where
  "publishWithRetry sleep send s =
     retry_loop 3 (\<lambda>attempt. 300 * 2 ^ nat attempt) (\<lambda>_. True) sleep send 0 s"

text \<open>What a run of retries amounts to, for a call whose successive outcomes are given: the first
  outcome that is not a retryable error, unless the attempts are used up before.\<close>

fun first_settled :: "nat \<Rightarrow> ('e \<Rightarrow> bool) \<Rightarrow> ('e + 'a) list \<Rightarrow> nat" where
  "first_settled 0 r os = 0"
| "first_settled (Suc n) r [] = 0"
| "first_settled (Suc n) r (Inr x # os) = 0"
| "first_settled (Suc n) r (Inl e # os) = (if r e then Suc (first_settled n r os) else 0)"

text \<open>A service that answers with the successive entries of a script, and counts the waiting.\<close>

type_synonym ('e, 'a) scripted = "('e + 'a) list \<times> int list"

fun scripted_call :: "('e, 'a) scripted \<Rightarrow> ('e, 'a) scripted \<times> ('e + 'a)" where
  "scripted_call (o1 # os, waits) = ((os, waits), o1)"
| "scripted_call ([], waits) = (([], waits), undefined)"

definition scripted_sleep :: "int \<Rightarrow> ('e, 'a) scripted \<Rightarrow> ('e, 'a) scripted" where
  "scripted_sleep ms st = (fst st, snd st @ [ms])"

definition settle :: "'e + 'a \<Rightarrow> 'e retry_error + 'a" where
  "settle out = (case out of Inl e \<Rightarrow> Inl (Thrown e) | Inr x \<Rightarrow> Inr x)"

lemma first_settled_le: "first_settled n r os \<le> n"
  by (induction n r os rule: first_settled.induct) auto

lemma retry_loop_scripted:
  assumes "0 \<le> a" "a \<le> m" "nat (m - a) < length os"
  shows "retry_loop m d r scripted_sleep scripted_call a (os, ws)
         = (let k = first_settled (nat (m - a)) r os
            in ((drop (Suc k) os, ws @ map (\<lambda>i. d (a + int i)) [0..<k]), settle (os ! k)))"
  using assms
proof (induction "nat (m - a)" arbitrary: a os ws)
  case 0
  then have "a = m" by simp
  moreover obtain x os' where "os = x # os'" using 0 by (cases os) auto
  ultimately show ?case
    by (cases x) (simp_all add: retry_loop.simps[of m d r _ _ m] settle_def)
next
  case (Suc n)
  obtain x os' where os: "os = x # os'" using Suc.prems by (cases os) auto
  have n: "nat (m - a) = Suc n" "nat (m - (a + 1)) = n" "a < m" using Suc.hyps(2) by auto
  show ?case
  proof (cases x)
    case (Inr v)
    then show ?thesis using n os by (simp add: retry_loop.simps[of m d r _ _ a] settle_def)
  next
    case (Inl e)
    show ?thesis
    proof (cases "r e")
      case True
      let ?k = "first_settled n r os'"
      have waits: "[d a] @ map (\<lambda>i. d (a + 1 + int i)) [0..<?k] = map (\<lambda>i. d (a + int i)) [0..<Suc ?k]"
        by (simp add: upt_conv_Cons map_Suc_upt[symmetric] algebra_simps del: upt_Suc)
      have "retry_loop m d r scripted_sleep scripted_call a (os, ws)
            = retry_loop m d r scripted_sleep scripted_call (a + 1) (os', ws @ [d a])"
        using n os Inl True by (simp add: retry_loop.simps[of m d r _ _ a] scripted_sleep_def)
      also have "\<dots> = ((drop (Suc ?k) os', (ws @ [d a]) @ map (\<lambda>i. d (a + 1 + int i)) [0..<?k]),
                      settle (os' ! ?k))"
        using Suc.hyps(1)[of "a + 1" os' "ws @ [d a]"] Suc.prems n os by (simp add: Let_def)
      finally show ?thesis using n os Inl True waits by (simp add: Let_def del: upt_Suc)
    next
      case False
      then show ?thesis using n os Inl by (simp add: retry_loop.simps[of m d r _ _ a] settle_def)
    qed
  qed
qed


text \<open>
  \<open>withRetry\<close> on a call with given outcomes: it stops at the first success or error that is
  not retryable and hands that outcome on, or hands on the last error after \<open>maxRetries + 1\<close>
  calls; it has called exactly as often as outcomes are used up, and between two calls it has
  waited the doubled and capped backoff.
\<close>

theorem withRetry_outcome:
  assumes "0 \<le> coalesce (ro_maxRetries opts) 3" "nat (coalesce (ro_maxRetries opts) 3) < length os"
  shows "withRetry isRetryable opts scripted_sleep scripted_call (os, [])
         = (let k = first_settled (nat (coalesce (ro_maxRetries opts) 3)) isRetryable os
            in ((drop (Suc k) os,
                 map (\<lambda>i. min (coalesce (ro_backoffMs opts) 200 * 2 ^ i) (coalesce (ro_maxBackoffMs opts) 5000))
                   [0..<k]),
                settle (os ! k)))"
  using assms by (simp add: withRetry_def retry_loop_scripted Let_def backoff_delay_def)

lemma withRetry_outcome_witness:
  "let down = \<lparr> ex_code = Some ''08006'', ex_message = None \<rparr> in
   withRetry isPgRetryable no_retry_options scripted_sleep scripted_call
     ([Inl down, Inl down, Inr (7::nat), Inr 8], [])
   = (([Inr 8], [200, 400]), Inr 7)"
  using withRetry_outcome
      [where opts = no_retry_options and isRetryable = isPgRetryable
         and os = "[Inl \<lparr> ex_code = Some ''08006'', ex_message = None \<rparr>,
                    Inl \<lparr> ex_code = Some ''08006'', ex_message = None \<rparr>, Inr (7::nat), Inr 8]"]
  by (simp add: no_retry_options_def isPgRetryable_def PG_RETRYABLE_CODES_def settle_def
      numeral_3_eq_3 Let_def upt_rec)

lemma publish_is_uncapped_retry:
  "publishWithRetry sleep send s
   = withRetry (\<lambda>_. True)
       \<lparr> ro_maxRetries = None, ro_backoffMs = Some 300, ro_maxBackoffMs = Some 2400 \<rparr> sleep send s"
proof -
  have same: "retry_loop 3 (\<lambda>attempt. 300 * 2 ^ nat attempt) (\<lambda>_. True) sleep send a s
        = retry_loop 3 (backoff_delay 300 2400) (\<lambda>_. True) sleep send a s"
    if "0 \<le> a" for a s
    using that
  proof (induction "nat (4 - a)" arbitrary: a s rule: less_induct)
    case less
    show ?case
    proof (cases "a < 3")
      case True
      then have "a = 0 \<or> a = 1 \<or> a = 2" using less.prems by linarith
      then have d: "300 * 2 ^ nat a = backoff_delay 300 2400 a" by (auto simp: backoff_delay_def)
      have rest: "retry_loop 3 (\<lambda>attempt. 300 * 2 ^ nat attempt) (\<lambda>_. True) sleep send (a + 1) t
          = retry_loop 3 (backoff_delay 300 2400) (\<lambda>_. True) sleep send (a + 1) t" for t
        using less.hyps[of "a + 1"] less.prems True by auto
      show ?thesis
        by (subst (1 2) retry_loop.simps) (simp add: d rest split: prod.splits sum.splits)
    next
      case False
      then show ?thesis
        by (subst (1 2) retry_loop.simps) (auto split: prod.splits sum.splits)
    qed
  qed
  show ?thesis by (simp add: publishWithRetry_def withRetry_def same)
qed

section \<open>Circuit breakers\<close>

text \<open>
  What a breaker gives the code around it. A call is admitted or refused at a time; a refused
  call never reaches the service, a success leaves a breaker that admits, and the breaker refuses
  only while it is open.
\<close>

locale circuit_breaker =
  fixes admit :: "int \<Rightarrow> 'b \<Rightarrow> 'b option"
    and succeeded :: "'b \<Rightarrow> 'b"
    and failed :: "int \<Rightarrow> 'b \<Rightarrow> 'b"
    and is_open :: "int \<Rightarrow> 'b \<Rightarrow> bool"
    and wf :: "'b \<Rightarrow> bool"
  assumes refused_iff: "admit t b = None \<longleftrightarrow> is_open t b"
    and success_closes: "wf b \<Longrightarrow> \<not> is_open t (succeeded b)"
    and wf_admit: "wf b \<Longrightarrow> admit t b = Some b' \<Longrightarrow> wf b'"
    and wf_succeeded: "wf b \<Longrightarrow> wf (succeeded b)"
    and wf_failed: "wf b \<Longrightarrow> wf (failed t b)"
    and admission_keeps_closed: "admit t b = Some b' \<Longrightarrow> \<not> is_open t' b \<Longrightarrow> \<not> is_open t' b'"
begin

lemma success_admits: "wf b \<Longrightarrow> admit t (succeeded b) \<noteq> None"
  by (simp add: refused_iff success_closes)

lemma open_refuses: "is_open t b \<Longrightarrow> admit t b = None"
  by (simp add: refused_iff)

lemma admitted_not_open: "admit t b = Some b' \<Longrightarrow> \<not> is_open t b'"
  using admission_keeps_closed refused_iff by (metis option.distinct(1))

end

subsection \<open>The breaker of \<open>src/resilience.ts\<close>\<close>

record breaker =
  cb_threshold :: int
  cb_cooldown :: int
  cb_failures :: int
  cb_openUntil :: int

definition new_breaker :: "int \<Rightarrow> int \<Rightarrow> breaker" where
  "new_breaker threshold cooldownMs =
     \<lparr> cb_threshold = threshold, cb_cooldown = cooldownMs, cb_failures = 0, cb_openUntil = 0 \<rparr>"

datatype breaker_state = BClosed | BOpen | BHalfOpen

definition breaker_status :: "int \<Rightarrow> breaker \<Rightarrow> breaker_state" where
  "breaker_status now b =
     (if cb_failures b < cb_threshold b then BClosed
      else if now < cb_openUntil b then BOpen else BHalfOpen)"

definition breaker_admit :: "int \<Rightarrow> breaker \<Rightarrow> breaker option" where
  "breaker_admit now b =
     (if cb_failures b \<ge> cb_threshold b \<and> now < cb_openUntil b then None
      else if now \<ge> cb_openUntil b \<and> cb_failures b \<ge> cb_threshold b
        then Some (b \<lparr> cb_failures := 0 \<rparr>)
      else Some b)"

definition breaker_succeeded :: "breaker \<Rightarrow> breaker" where
  "breaker_succeeded b = b \<lparr> cb_failures := 0 \<rparr>"

definition breaker_failed :: "int \<Rightarrow> breaker \<Rightarrow> breaker" where
  "breaker_failed now b =
     (let n = cb_failures b + 1 in
      b \<lparr> cb_failures := n,
          cb_openUntil := (if n \<ge> cb_threshold b then now + cb_cooldown b else cb_openUntil b) \<rparr>)"

definition breaker_reset :: "breaker \<Rightarrow> breaker" where
  "breaker_reset b = b \<lparr> cb_failures := 0, cb_openUntil := 0 \<rparr>"

datatype 'e breaker_error = CircuitOpen | CallFailed 'e

text \<open>The whole method: \<open>now\<close> reads the clock of the state, before the body and after its failure.\<close>

definition breaker_call ::
  "('s \<Rightarrow> int) \<Rightarrow> ('s \<Rightarrow> 's \<times> ('e + 'a)) \<Rightarrow> 's \<times> breaker \<Rightarrow> ('s \<times> breaker) \<times> ('e breaker_error + 'a)"
where
  "breaker_call now fn st =
     (case breaker_admit (now (fst st)) (snd st) of
        None \<Rightarrow> (st, Inl CircuitOpen)
      | Some b \<Rightarrow>
         (case fn (fst st) of
            (s', Inr x) \<Rightarrow> ((s', breaker_succeeded b), Inr x)
          | (s', Inl e) \<Rightarrow> ((s', breaker_failed (now s') b), Inl (CallFailed e))))"

subsection \<open>The breaker of \<open>src/s3.ts\<close>\<close>

record s3_breaker =
  sb_failures :: int
  sb_openUntil :: int

definition s3_breaker_init :: s3_breaker where
  "s3_breaker_init = \<lparr> sb_failures = 0, sb_openUntil = 0 \<rparr>"

definition CIRCUIT_FAILURE_THRESHOLD :: int where "CIRCUIT_FAILURE_THRESHOLD = 5"
definition CIRCUIT_COOLDOWN_MS :: int where "CIRCUIT_COOLDOWN_MS = 30000"

definition s3_is_open :: "int \<Rightarrow> s3_breaker \<Rightarrow> bool" where
  "s3_is_open now b = (sb_failures b \<ge> CIRCUIT_FAILURE_THRESHOLD \<and> now < sb_openUntil b)"

definition s3_admit :: "int \<Rightarrow> s3_breaker \<Rightarrow> s3_breaker option" where
  "s3_admit now b =
     (if s3_is_open now b then None
      else if now \<ge> sb_openUntil b then Some (b \<lparr> sb_failures := 0 \<rparr>) else Some b)"

definition s3_succeeded :: "s3_breaker \<Rightarrow> s3_breaker" where
  "s3_succeeded b = b \<lparr> sb_failures := 0 \<rparr>"

definition s3_failed :: "int \<Rightarrow> s3_breaker \<Rightarrow> s3_breaker" where
  "s3_failed now b =
     (let n = sb_failures b + 1 in
      b \<lparr> sb_failures := n,
          sb_openUntil := (if n \<ge> CIRCUIT_FAILURE_THRESHOLD then now + CIRCUIT_COOLDOWN_MS
                           else sb_openUntil b) \<rparr>)"

definition withCircuitBreaker ::
  "('s \<Rightarrow> int) \<Rightarrow> ('s \<Rightarrow> 's \<times> ('e + 'a)) \<Rightarrow> 's \<times> s3_breaker
   \<Rightarrow> ('s \<times> s3_breaker) \<times> ('e breaker_error + 'a)" where
  "withCircuitBreaker now fn st =
     (case s3_admit (now (fst st)) (snd st) of
        None \<Rightarrow> (st, Inl CircuitOpen)
      | Some b \<Rightarrow>
         (case fn (fst st) of
            (s', Inr x) \<Rightarrow> ((s', s3_succeeded b), Inr x)
          | (s', Inl e) \<Rightarrow> ((s', s3_failed (now s') b), Inl (CallFailed e))))"

lemmas breaker_defs = breaker_admit_def breaker_succeeded_def breaker_failed_def Let_def
lemmas s3_breaker_defs = s3_admit_def s3_succeeded_def s3_failed_def s3_is_open_def
  CIRCUIT_FAILURE_THRESHOLD_def CIRCUIT_COOLDOWN_MS_def Let_def

definition breaker_is_open :: "int \<Rightarrow> breaker \<Rightarrow> bool" where
  "breaker_is_open now b = (breaker_status now b = BOpen)"

text \<open>Both keep the contract; the first needs a positive threshold for it, which its uses have.\<close>

interpretation cb: circuit_breaker breaker_admit breaker_succeeded breaker_failed breaker_is_open
  "\<lambda>b. 0 < cb_threshold b"
  by unfold_locales (auto simp: breaker_defs breaker_is_open_def breaker_status_def split: if_splits)

interpretation s3b: circuit_breaker s3_admit s3_succeeded s3_failed s3_is_open "\<lambda>_. True"
  by unfold_locales (auto simp: s3_breaker_defs split: if_splits)

subsection \<open>Overlapping calls\<close>

text \<open>Calls that overlap leave a sequence of starts and ends; a refused start ends the run.\<close>

datatype call_event = Started int | Succeeded | Failed int

fun call_step ::
  "(int \<Rightarrow> 'b \<Rightarrow> 'b option) \<Rightarrow> ('b \<Rightarrow> 'b) \<Rightarrow> (int \<Rightarrow> 'b \<Rightarrow> 'b) \<Rightarrow> call_event \<Rightarrow> 'b \<Rightarrow> 'b option" where
  "call_step admit ok fail (Started t) b = admit t b"
| "call_step admit ok fail Succeeded b = Some (ok b)"
| "call_step admit ok fail (Failed t) b = Some (fail t b)"

fun call_run ::
  "(int \<Rightarrow> 'b \<Rightarrow> 'b option) \<Rightarrow> ('b \<Rightarrow> 'b) \<Rightarrow> (int \<Rightarrow> 'b \<Rightarrow> 'b) \<Rightarrow> call_event list \<Rightarrow> 'b \<Rightarrow> 'b option" where
  "call_run admit ok fail [] b = Some b"
| "call_run admit ok fail (e # es) b =
     (case call_step admit ok fail e b of None \<Rightarrow> None | Some b' \<Rightarrow> call_run admit ok fail es b')"

abbreviation breaker_run :: "call_event list \<Rightarrow> breaker \<Rightarrow> breaker option" where
  "breaker_run \<equiv> call_run breaker_admit breaker_succeeded breaker_failed"

abbreviation s3_run :: "call_event list \<Rightarrow> s3_breaker \<Rightarrow> s3_breaker option" where
  "s3_run \<equiv> call_run s3_admit s3_succeeded s3_failed"

lemma call_run_append:
  "call_run a f g (es @ es') b = (case call_run a f g es b of None \<Rightarrow> None | Some b' \<Rightarrow> call_run a f g es' b')"
  by (induction es arbitrary: b) (auto split: option.splits)

lemma call_run_snoc:
  "call_run a f g (es @ [e]) b = Some b'
   \<longleftrightarrow> (\<exists>b1. call_run a f g es b = Some b1 \<and> call_step a f g e b1 = Some b')"
  by (auto simp: call_run_append split: option.splits)

fun is_start :: "call_event \<Rightarrow> bool" where
  "is_start (Started _) = True"
| "is_start _ = False"

text \<open>What the counters say of the past: the failures counted are the last ends of calls.\<close>

definition counted_failures :: "breaker \<Rightarrow> call_event list \<Rightarrow> bool" where
  "counted_failures b es =
     (\<exists>pre ts. filter (\<lambda>e. \<not> is_start e) es = pre @ map Failed ts
        \<and> cb_failures b = int (length ts)
        \<and> (ts \<noteq> [] \<and> cb_failures b \<ge> cb_threshold b \<longrightarrow> cb_openUntil b = last ts + cb_cooldown b))"

lemma counted_failures_run:
  assumes "breaker_run es (new_breaker th cd) = Some b"
  shows "counted_failures b es \<and> cb_threshold b = th \<and> cb_cooldown b = cd"
  using assms
proof (induction es arbitrary: b rule: rev_induct)
  case Nil
  then show ?case by (auto simp: counted_failures_def new_breaker_def)
next
  case (snoc e es)
  obtain b1 where b1: "breaker_run es (new_breaker th cd) = Some b1"
    "call_step breaker_admit breaker_succeeded breaker_failed e b1 = Some b"
    using snoc.prems by (auto simp: call_run_snoc)
  obtain pre ts where past: "filter (\<lambda>e. \<not> is_start e) es = pre @ map Failed ts"
    "cb_failures b1 = int (length ts)"
    "ts \<noteq> [] \<and> cb_failures b1 \<ge> cb_threshold b1 \<longrightarrow> cb_openUntil b1 = last ts + cb_cooldown b1"
    and k: "cb_threshold b1 = th" "cb_cooldown b1 = cd"
    using snoc.IH[OF b1(1)] unfolding counted_failures_def by blast
  have zero: "counted_failures (b1 \<lparr> cb_failures := 0 \<rparr>) (es @ [e'])" for e'
    unfolding counted_failures_def
    by (rule exI[of _ "filter (\<lambda>e. \<not> is_start e) (es @ [e'])"], rule exI[of _ "[]"]) simp
  show ?case
  proof (cases e)
    case (Started t)
    have same: "counted_failures b1 (es @ [e])"
      unfolding counted_failures_def using past Started by auto
    show ?thesis using b1(2) Started same zero[of e] k
      by (auto simp: breaker_admit_def split: if_splits)
  next
    case Succeeded
    then show ?thesis using b1(2) zero[of e] k by (auto simp: breaker_succeeded_def)
  next
    case (Failed t)
    have "counted_failures (breaker_failed t b1) (es @ [e])"
      unfolding counted_failures_def using past Failed
      by (intro exI[of _ pre] exI[of _ "ts @ [t]"]) (auto simp: breaker_failed_def Let_def)
    then show ?thesis using b1(2) Failed k by (auto simp: breaker_failed_def Let_def)
  qed
qed

text \<open>
  However calls overlap, the breaker refuses one only when the last \<open>threshold\<close> calls to end
  all failed, and only within the cooldown of the last of them.
\<close>

theorem breaker_refuses_after_failures:
  assumes "breaker_run es (new_breaker th cd) = Some b" "0 < th" "breaker_admit t b = None"
  shows "\<exists>pre ts. filter (\<lambda>e. \<not> is_start e) es = pre @ map Failed ts
           \<and> int (length ts) \<ge> th \<and> t < last ts + cd"
proof -
  have c: "counted_failures b es" "cb_threshold b = th" "cb_cooldown b = cd"
    using counted_failures_run[OF assms(1)] by auto
  have r: "cb_failures b \<ge> th" "t < cb_openUntil b"
    using assms(3) c(2) by (auto simp: breaker_admit_def split: if_splits)
  obtain pre ts where past: "filter (\<lambda>e. \<not> is_start e) es = pre @ map Failed ts"
    "cb_failures b = int (length ts)"
    "ts \<noteq> [] \<and> cb_failures b \<ge> cb_threshold b \<longrightarrow> cb_openUntil b = last ts + cb_cooldown b"
    using c(1) unfolding counted_failures_def by blast
  have "ts \<noteq> []" using past(2) r(1) assms(2) by auto
  then show ?thesis using past r c(2,3) by (intro exI[of _ pre] exI[of _ ts]) auto
qed

lemma breaker_refuses_after_failures_witness:
  "\<exists>pre ts. filter (\<lambda>e. \<not> is_start e) [Started 1, Started 2, Failed 5, Failed 6] = pre @ map Failed ts
     \<and> int (length ts) \<ge> 2 \<and> 10 < last ts + 100"
  by (rule breaker_refuses_after_failures
        [where b = "\<lparr> cb_threshold = 2, cb_cooldown = 100, cb_failures = 2, cb_openUntil = 106 \<rparr>"])
    (simp_all add: breaker_defs new_breaker_def)

subsection \<open>The object store's breaker\<close>

text \<open>Before the first opening \<open>circuitOpenUntil\<close> is 0, so every start of a call resets the count.\<close>

definition s3_counts :: "s3_breaker \<Rightarrow> call_event list \<Rightarrow> bool" where
  "s3_counts b es =
     (if sb_openUntil b = 0
      then \<exists>pre ts. es = pre @ map Failed ts \<and> sb_failures b = int (length ts)
      else \<exists>ts. length ts = 5 \<and> sublist (map Failed ts) es)"

definition event_time :: "call_event \<Rightarrow> int" where
  "event_time e = (case e of Started t \<Rightarrow> t | Failed t \<Rightarrow> t | Succeeded \<Rightarrow> 0)"

lemma s3_counts_more: "sb_openUntil b \<noteq> 0 \<Longrightarrow> s3_counts b es \<Longrightarrow> s3_counts b (es @ es')"
  unfolding s3_counts_def by (metis sublist_append_rightI sublist_order.order.trans)

lemma s3_counts_zero: "sb_openUntil b = 0 \<Longrightarrow> sb_failures b = 0 \<Longrightarrow> s3_counts b es"
  by (auto simp: s3_counts_def intro!: exI[of _ es])

lemma s3_counts_failed:
  assumes "s3_counts b es" "0 \<le> t"
  shows "s3_counts (s3_failed t b) (es @ [Failed t])"
proof (cases "sb_openUntil b = 0")
  case True
  then obtain pre ts where p: "es = pre @ map Failed ts" "sb_failures b = int (length ts)"
    using assms(1) by (auto simp: s3_counts_def)
  show ?thesis
  proof (cases "length ts + 1 \<ge> 5")
    case True
    have "es @ [Failed t] = pre @ map Failed (take (length ts - 4) ts) @ map Failed (drop (length ts - 4) ts @ [t])"
      using p(1) append_take_drop_id[of "length ts - 4" ts] by (metis append_assoc list.simps(8,9) map_append)
    then have "sublist (map Failed (drop (length ts - 4) ts @ [t])) (es @ [Failed t])"
      by (metis append_assoc sublist_append_leftI)
    moreover have "length (drop (length ts - 4) ts @ [t]) = 5" using True by simp
    ultimately show ?thesis using True p(2) assms(2)
      by (auto simp: s3_counts_def s3_breaker_defs intro!: exI[of _ "drop (length ts - 4) ts @ [t]"])
  next
    case False
    then show ?thesis using p \<open>sb_openUntil b = 0\<close>
      by (auto simp: s3_counts_def s3_breaker_defs intro!: exI[of _ pre] exI[of _ "ts @ [t]"])
  qed
next
  case False
  then have "s3_counts b (es @ [Failed t])" by (rule s3_counts_more[OF _ assms(1)])
  then show ?thesis using False assms(2) by (auto simp: s3_counts_def s3_breaker_defs)
qed

lemma s3_counts_run:
  assumes "s3_run es s3_breaker_init = Some b" "\<forall>e \<in> set es. 0 \<le> event_time e"
  shows "s3_counts b es"
  using assms
proof (induction es arbitrary: b rule: rev_induct)
  case Nil
  then show ?case by (auto simp: s3_breaker_init_def intro: s3_counts_zero)
next
  case (snoc e es)
  obtain b1 where b1: "s3_run es s3_breaker_init = Some b1"
    "call_step s3_admit s3_succeeded s3_failed e b1 = Some b"
    using snoc.prems by (auto simp: call_run_snoc)
  have IH: "s3_counts b1 es" and t: "0 \<le> event_time e" using snoc.IH[OF b1(1)] snoc.prems by auto
  show ?case
  proof (cases e)
    case (Started u)
    have "0 \<le> u" using t Started by (simp add: event_time_def)
    then have "sb_openUntil b = sb_openUntil b1 \<and> (sb_openUntil b1 = 0 \<longrightarrow> sb_failures b = 0)"
      using b1(2) Started by (auto simp: s3_breaker_defs split: if_splits)
    then show ?thesis using IH s3_counts_zero[of b "es @ [e]"] s3_counts_more[of b1 es "[e]"]
      by (cases "sb_openUntil b1 = 0") (auto simp: s3_counts_def)
  next
    case Succeeded
    then show ?thesis using b1(2) IH s3_counts_zero[of b "es @ [e]"] s3_counts_more[of b1 es "[e]"]
      by (cases "sb_openUntil b1 = 0") (auto simp: s3_counts_def s3_succeeded_def)
  next
    case (Failed u)
    then show ?thesis using b1(2) s3_counts_failed[OF IH, of u] t by (simp add: event_time_def)
  qed
qed

text \<open>
  The breaker of the object store refuses a call only after five calls failed with no other
  call starting or succeeding between the failures: they must have been in flight together.
\<close>

theorem s3_breaker_needs_overlap:
  assumes "s3_run es s3_breaker_init = Some b" "\<forall>e \<in> set es. 0 \<le> event_time e"
    and "s3_admit t b = None" "0 \<le> t"
  shows "\<exists>ts. length ts = 5 \<and> sublist (map Failed ts) es"
  using s3_counts_run[OF assms(1,2)] assms(3,4)
  by (auto simp: s3_counts_def s3_breaker_defs split: if_splits)

lemma s3_breaker_needs_overlap_witness:
  "\<exists>ts. length ts = 5 \<and> sublist (map Failed ts) (replicate 5 (Started 1) @ replicate 5 (Failed 2))"
  by (rule s3_breaker_needs_overlap[where b = "\<lparr> sb_failures = 5, sb_openUntil = 30002 \<rparr>" and t = 3])
    (simp_all add: s3_breaker_init_def s3_breaker_defs eval_nat_numeral event_time_def)

text \<open>Calls made one after the other, with the clock of the state.\<close>

fun guarded_calls ::
  "('s \<Rightarrow> nat) \<Rightarrow> ('s \<Rightarrow> 's \<times> ('e + 'a)) list \<Rightarrow> 's \<times> s3_breaker \<Rightarrow> ('e breaker_error + 'a) list" where
  "guarded_calls clock [] st = []"
| "guarded_calls clock (fn # fns) st =
     (let (st', r) = withCircuitBreaker (\<lambda>s. int (clock s)) fn st in r # guarded_calls clock fns st')"

lemma guarded_call_closed:
  assumes "sb_openUntil b = 0" "withCircuitBreaker (\<lambda>s. int (clock s)) fn (s, b) = ((s', b'), r)"
  shows "sb_openUntil b' = 0 \<and> r \<noteq> Inl CircuitOpen"
  using assms by (auto simp: withCircuitBreaker_def s3_breaker_defs split: if_splits prod.splits sum.splits)

text \<open>
  Calls to the object store that follow one another are never refused, however many of them
  fail: each start forgets the failure before it, so the breaker never opens.
\<close>

theorem s3_breaker_never_opens_in_sequence:
  "Inl CircuitOpen \<notin> set (guarded_calls clock fns (s, s3_breaker_init))"
proof -
  have "Inl CircuitOpen \<notin> set (guarded_calls clock fns (s, b))" if "sb_openUntil b = 0" for b
    using that
  proof (induction fns arbitrary: s b)
    case (Cons fn fns)
    obtain s' b' r where c: "withCircuitBreaker (\<lambda>s. int (clock s)) fn (s, b) = ((s', b'), r)"
      by (metis prod.exhaust)
    then show ?case using guarded_call_closed[OF Cons.prems c] Cons.IH[of b' s'] by auto
  qed simp
  then show ?thesis by (simp add: s3_breaker_init_def)
qed

subsection \<open>Probing after the cooldown\<close>

fun probes :: "int list \<Rightarrow> call_event list" where
  "probes [] = []"
| "probes (t # ts) = Started t # Failed t # probes ts"

lemma probes_run:
  assumes "int (length ts) + cb_failures b \<le> cb_threshold b" "0 \<le> cb_failures b"
  shows "\<exists>b'. breaker_run (probes ts) b = Some b' \<and> cb_failures b' = cb_failures b + int (length ts)
           \<and> (ts \<noteq> [] \<and> cb_failures b' = cb_threshold b \<longrightarrow> cb_openUntil b' = last ts + cb_cooldown b)"
  using assms
proof (induction ts arbitrary: b)
  case (Cons t ts)
  let ?b = "breaker_failed t b"
  have step: "breaker_run (probes (t # ts)) b = breaker_run (probes ts) ?b"
    using Cons.prems by (simp add: breaker_admit_def)
  have f: "cb_failures ?b = cb_failures b + 1" "cb_threshold ?b = cb_threshold b"
    "cb_cooldown ?b = cb_cooldown b"
    by (simp_all add: breaker_failed_def Let_def)
  have "int (length ts) + cb_failures ?b \<le> cb_threshold ?b" "0 \<le> cb_failures ?b"
    using Cons.prems f by auto
  then obtain b' where b': "breaker_run (probes ts) ?b = Some b'"
    "cb_failures b' = cb_failures ?b + int (length ts)"
    "ts \<noteq> [] \<and> cb_failures b' = cb_threshold ?b \<longrightarrow> cb_openUntil b' = last ts + cb_cooldown ?b"
    using Cons.IH[of ?b] by blast
  show ?case
  proof (cases ts)
    case Nil
    then have "breaker_run (probes (t # ts)) b = Some ?b"
      using Cons.prems by (simp add: breaker_admit_def)
    moreover have "cb_failures ?b = cb_threshold b \<longrightarrow> cb_openUntil ?b = t + cb_cooldown b"
      by (auto simp: breaker_failed_def Let_def)
    ultimately show ?thesis using f Nil by auto
  next
    case (Cons u us)
    then show ?thesis using step b' f by (intro exI[of _ b']) auto
  qed
qed simp

lemma cb_threshold_run: "breaker_run es b = Some b' \<Longrightarrow> cb_threshold b' = cb_threshold b"
proof (induction es arbitrary: b)
  case (Cons e es)
  have "cb_threshold b1 = cb_threshold b"
    if "call_step breaker_admit breaker_succeeded breaker_failed e b = Some b1" for b1
    using that by (cases e) (auto simp: breaker_defs split: if_splits)
  then show ?case using Cons by (auto split: option.splits)
qed simp

text \<open>
  Once the cooldown is over the breaker lets \<open>threshold\<close> failing calls through, not one, before
  it refuses again.
\<close>

theorem half_open_admits_threshold_probes:
  assumes "breaker_status t b = BHalfOpen" "0 < cb_threshold b" "int (length ts) + 1 = cb_threshold b"
    and "u < last (t # ts) + cb_cooldown b"
  shows "\<exists>b'. breaker_run (probes (t # ts)) b = Some b' \<and> breaker_admit u b' = None"
proof -
  let ?b = "b \<lparr> cb_failures := 0 \<rparr>"
  have "breaker_run (probes (t # ts)) b = breaker_run (probes (t # ts)) ?b"
    using assms(1,2) by (auto simp: breaker_status_def breaker_admit_def split: if_splits)
  moreover obtain b' where "breaker_run (probes (t # ts)) ?b = Some b'"
    "cb_failures b' = int (length (t # ts))" "cb_openUntil b' = last (t # ts) + cb_cooldown b"
    using probes_run[of "t # ts" ?b] assms by auto
  moreover have "cb_threshold b' = cb_threshold b"
    using cb_threshold_run[OF calculation(2)] by simp
  ultimately show ?thesis using assms by (auto simp: breaker_admit_def)
qed

lemma half_open_admits_threshold_probes_witness:
  "\<exists>b'. breaker_run (probes [70000, 70001, 70002])
           \<lparr> cb_threshold = 3, cb_cooldown = 60000, cb_failures = 3, cb_openUntil = 60005 \<rparr> = Some b'
        \<and> breaker_admit 70003 b' = None"
  by (rule half_open_admits_threshold_probes) (simp_all add: breaker_status_def)

end
