(* ===== verification/Event_Bus.thy ===== *)
theory Event_Bus
  imports Activation_Filters Resilience
begin

text \<open>
  The message bus client of \<open>src/eventBus.ts\<close> over the JetStream server, which is not part of the
  program: its calls are the fields of a record of functions over the server's state, and what a
  fetch or a subscription yields is the list of raw messages the client is given. A message is
  answered by an entry of the delivery log. JSON parsing is an argument.
\<close>

section \<open>Streams and consumers\<close>

record 's jetstream =
  js_stream_info :: "string \<Rightarrow> ('s, string list) exec"
  js_stream_update :: "string \<Rightarrow> string list \<Rightarrow> ('s, unit) exec"
  js_stream_add :: "string \<Rightarrow> string list \<Rightarrow> ('s, unit) exec"
  js_consumer_info :: "string \<Rightarrow> string \<Rightarrow> ('s, int option) exec"
  js_consumer_add :: "string \<Rightarrow> string \<Rightarrow> string \<Rightarrow> ('s, unit) exec"
  js_consumer_get :: "string \<Rightarrow> string \<Rightarrow> ('s, unit) exec"

text \<open>The elements of a \<open>Set\<close> built from a list: each at its first place.\<close>

definition set_elements :: "'a list \<Rightarrow> 'a list" where
  "set_elements xs = rev (remdups (rev xs))"

definition ensureStream :: "'s jetstream \<Rightarrow> string \<Rightarrow> string list \<Rightarrow> ('s, unit) exec" where
  "ensureStream js stream subjects =
     try_catch
       (and_then (js_stream_info js stream)
          (\<lambda>current. let merged = set_elements (current @ subjects) in
             if length merged > length current then js_stream_update js stream merged else ret ()))
       (\<lambda>_. try_catch (js_stream_add js stream subjects)
          (\<lambda>addErr. try_catch (and_then (js_stream_info js stream) (\<lambda>_. ret ())) (\<lambda>_. raise addErr)))"

text \<open>The durable consumer is created when the look-up fails, for whatever reason.\<close>

definition ensureConsumer :: "'s jetstream \<Rightarrow> string \<Rightarrow> string \<Rightarrow> string \<Rightarrow> ('s, unit) exec" where
  "ensureConsumer js stream subject consumer =
     and_then
       (try_catch (and_then (js_consumer_info js stream consumer) (\<lambda>_. ret ()))
          (\<lambda>_. js_consumer_add js stream consumer subject))
       (\<lambda>_. js_consumer_get js stream consumer)"

definition getConsumerPending :: "'s jetstream \<Rightarrow> string \<Rightarrow> string \<Rightarrow> ('s, int) exec" where
  "getConsumerPending js stream consumer =
     try_catch (and_then (js_consumer_info js stream consumer) (\<lambda>n. ret (coalesce n 0))) (\<lambda>_. ret 0)"

section \<open>Consuming\<close>

record raw_message =
  rm_seq :: nat
  rm_text :: string

record bus_message =
  bm_id :: string
  bm_data :: json

definition bus_message_of :: "raw_message \<Rightarrow> json \<Rightarrow> bus_message" where
  "bus_message_of m data = \<lparr> bm_id = nat_digits (rm_seq m), bm_data = data \<rparr>"

text \<open>What a handler raises: \<open>nakDelayMs\<close> counts when it is a positive number.\<close>

record handler_error =
  he_error :: js_exception
  he_nakDelayMs :: "int option"

definition nak_of :: "handler_error \<Rightarrow> disposition" where
  "nak_of e = (case he_nakDelayMs e of
     Some d \<Rightarrow> if d > 0 then Naked (Some d) else Naked None | None \<Rightarrow> Naked None)"

type_synonym delivery_log = "(string \<times> disposition) list"

text \<open>The loop over the fetched messages. A text that is no JSON raises out of the loop into the
  \<open>catch\<close> that ignores it.\<close>

fun consume_loop ::
  "(string \<Rightarrow> json option) \<Rightarrow> (bus_message \<Rightarrow> 's \<Rightarrow> 's \<times> (handler_error + unit)) \<Rightarrow> raw_message list
   \<Rightarrow> 's \<times> delivery_log \<times> nat \<Rightarrow> 's \<times> delivery_log \<times> nat" where
  "consume_loop parse handler [] st = st"
| "consume_loop parse handler (m # ms) (s, dl, processed) =
     (case parse (rm_text m) of
        None \<Rightarrow> (s, dl, processed)
      | Some data \<Rightarrow>
          (let msg = bus_message_of m data in
           case handler msg s of
             (s', Inr _) \<Rightarrow> consume_loop parse handler ms (s', dl @ [(bm_id msg, Acked)], processed + 1)
           | (s', Inl e) \<Rightarrow> consume_loop parse handler ms (s', dl @ [(bm_id msg, nak_of e)], processed)))"

text \<open>\<open>fetch n\<close> is what the server hands out for at most \<open>n\<close> messages, \<open>None\<close> when it fails.\<close>

definition consume ::
  "(string \<Rightarrow> json option) \<Rightarrow> (nat \<Rightarrow> raw_message list option) \<Rightarrow> nat option
   \<Rightarrow> (bus_message \<Rightarrow> 's \<Rightarrow> 's \<times> (handler_error + unit)) \<Rightarrow> 's \<Rightarrow> 's \<times> delivery_log \<times> nat" where
  "consume parse fetch maxMessages handler s =
     consume_loop parse handler (coalesce (fetch (coalesce maxMessages 10)) []) (s, [], 0)"

fun drain_loop :: "(string \<Rightarrow> json option) \<Rightarrow> raw_message list \<Rightarrow> bus_message list" where
  "drain_loop parse [] = []"
| "drain_loop parse (m # ms) =
     (case parse (rm_text m) of
        None \<Rightarrow> []
      | Some data \<Rightarrow> bus_message_of m data # drain_loop parse ms)"

definition drainBatch ::
  "(string \<Rightarrow> json option) \<Rightarrow> (nat \<Rightarrow> raw_message list option) \<Rightarrow> nat option \<Rightarrow> bus_message list" where
  "drainBatch parse fetch maxMessages =
     drain_loop parse (coalesce (fetch (coalesce maxMessages 50)) [])"

section \<open>Subscriptions\<close>

text \<open>One life of a subscription: messages are handled as they come until the first handler that
  raises; that message is acknowledged too. The result is the error that ended it.\<close>

fun subscription ::
  "(string \<Rightarrow> json option) \<Rightarrow> (bus_message \<Rightarrow> 's \<Rightarrow> 's \<times> (handler_error + unit)) \<Rightarrow> raw_message list
   \<Rightarrow> 's \<times> delivery_log \<Rightarrow> ('s \<times> delivery_log) \<times> handler_error option" where
  "subscription parse handler [] st = (st, None)"
| "subscription parse handler (m # ms) (s, dl) =
     (let msg = bus_message_of m (coalesce (parse (rm_text m)) (JObj [(''raw'', JStr (rm_text m))])) in
      case handler msg s of
        (s', Inr _) \<Rightarrow> subscription parse handler ms (s', dl @ [(bm_id msg, Acked)])
      | (s', Inl e) \<Rightarrow> ((s', dl @ [(bm_id msg, Acked)]), Some e))"

definition SUBSCRIBE_BACKOFF_MS :: int where "SUBSCRIBE_BACKOFF_MS = 1000"
definition SUBSCRIBE_BACKOFF_MAX_MS :: int where "SUBSCRIBE_BACKOFF_MAX_MS = 30000"

text \<open>The reconnecting loop: \<open>None\<close> is a subscribe call that fails, \<open>Some ms\<close> a subscription that yields
  \<open>ms\<close>; every failure is followed by a wait. The waits are returned.\<close>

fun subscribe_loop ::
  "(string \<Rightarrow> json option) \<Rightarrow> (bus_message \<Rightarrow> 's \<Rightarrow> 's \<times> (handler_error + unit)) \<Rightarrow> int
   \<Rightarrow> raw_message list option list \<Rightarrow> 's \<times> delivery_log \<Rightarrow> ('s \<times> delivery_log) \<times> int list" where
  "subscribe_loop parse handler delayMs [] st = (st, [])"
| "subscribe_loop parse handler delayMs (None # lives) st =
     (case subscribe_loop parse handler (min (delayMs * 2) SUBSCRIBE_BACKOFF_MAX_MS) lives st of
        (st', waits) \<Rightarrow> (st', delayMs # waits))"
| "subscribe_loop parse handler delayMs (Some ms # lives) st =
     (case subscription parse handler ms st of
        (st1, None) \<Rightarrow> subscribe_loop parse handler SUBSCRIBE_BACKOFF_MS lives st1
      | (st1, Some e) \<Rightarrow>
          (case subscribe_loop parse handler (min (SUBSCRIBE_BACKOFF_MS * 2) SUBSCRIBE_BACKOFF_MAX_MS) lives st1 of
             (st', waits) \<Rightarrow> (st', SUBSCRIBE_BACKOFF_MS # waits)))"

section \<open>Facts\<close>

definition readable :: "(string \<Rightarrow> json option) \<Rightarrow> raw_message list \<Rightarrow> raw_message list" where
  "readable parse ms = takeWhile (\<lambda>m. parse (rm_text m) \<noteq> None) ms"

lemma consume_loop_log:
  "\<exists>ds. map fst ds = map (\<lambda>m. nat_digits (rm_seq m)) (readable parse ms)
      \<and> fst (snd (consume_loop parse handler ms (s, dl, n))) = dl @ ds
      \<and> snd (snd (consume_loop parse handler ms (s, dl, n))) = n + length (filter (\<lambda>d. snd d = Acked) ds)"
proof (induction ms arbitrary: s dl n)
  case (Cons m ms)
  show ?case
  proof (cases "parse (rm_text m)")
    case (Some data)
    obtain s' out where h: "handler (bus_message_of m data) s = (s', out)" by fastforce
    let ?d = "case out of Inr _ \<Rightarrow> Acked | Inl e \<Rightarrow> nak_of e"
    obtain ds where ds: "map fst ds = map (\<lambda>m. nat_digits (rm_seq m)) (readable parse ms)"
      "fst (snd (consume_loop parse handler ms (s', dl @ [(nat_digits (rm_seq m), ?d)],
          n + (if ?d = Acked then 1 else 0)))) = (dl @ [(nat_digits (rm_seq m), ?d)]) @ ds"
      "snd (snd (consume_loop parse handler ms (s', dl @ [(nat_digits (rm_seq m), ?d)],
          n + (if ?d = Acked then 1 else 0)))) = n + (if ?d = Acked then 1 else 0) + length (filter (\<lambda>d. snd d = Acked) ds)"
      using Cons.IH[of s' "dl @ [(nat_digits (rm_seq m), ?d)]" "n + (if ?d = Acked then 1 else 0)"] by blast
    have nak: "nak_of e \<noteq> Acked" for e by (auto simp: nak_of_def split: option.split)
    show ?thesis using ds Some h nak
      by (intro exI[of _ "(nat_digits (rm_seq m), ?d) # ds"], cases out)
        (simp_all add: readable_def bus_message_of_def Let_def)
  qed (simp add: readable_def)
qed (simp add: readable_def)

text \<open>
  \<open>consume\<close> answers exactly the messages before the first one that is no JSON, in their order,
  whatever the handler does; the answer counts the acknowledged ones. The messages from the
  unreadable one on are neither acknowledged nor rejected.
\<close>

theorem consume_answers_readable_prefix:
  "\<exists>ds. fst (snd (consume parse fetch limit handler s)) = ds
      \<and> map fst ds = map (\<lambda>m. nat_digits (rm_seq m)) (readable parse (coalesce (fetch (coalesce limit 10)) []))
      \<and> snd (snd (consume parse fetch limit handler s)) = length (filter (\<lambda>d. snd d = Acked) ds)"
  using consume_loop_log[of parse "coalesce (fetch (coalesce limit 10)) []" handler s "[]" 0]
  by (auto simp: consume_def)

lemma drained_readable:
  "map bm_id (drainBatch parse fetch limit)
   = map (\<lambda>m. nat_digits (rm_seq m)) (readable parse (coalesce (fetch (coalesce limit 50)) []))"
proof -
  have "map bm_id (drain_loop parse ms) = map (\<lambda>m. nat_digits (rm_seq m)) (readable parse ms)" for ms
    by (induction ms) (auto simp: readable_def bus_message_of_def split: option.split)
  then show ?thesis by (simp add: drainBatch_def)
qed

lemma subscription_acks:
  "subscription parse handler ms (s, dl) = ((s', dl'), out) \<Longrightarrow>
   \<exists>n. dl' = dl @ map (\<lambda>m. (nat_digits (rm_seq m), Acked)) (take n ms)
     \<and> (out = None \<longrightarrow> n \<ge> length ms)"
proof (induction ms arbitrary: s dl)
  case (Cons m ms)
  let ?msg = "bus_message_of m (coalesce (parse (rm_text m)) (JObj [(''raw'', JStr (rm_text m))]))"
  obtain s1 r where h: "handler ?msg s = (s1, r)" by fastforce
  show ?case
  proof (cases r)
    case (Inl e)
    then show ?thesis using Cons.prems h by (intro exI[of _ 1]) (auto simp: bus_message_of_def Let_def)
  next
    case (Inr u)
    then have "subscription parse handler ms (s1, dl @ [(nat_digits (rm_seq m), Acked)]) = ((s', dl'), out)"
      using Cons.prems h by (simp add: bus_message_of_def Let_def)
    from Cons.IH[OF this] obtain n where
      "dl' = (dl @ [(nat_digits (rm_seq m), Acked)]) @ map (\<lambda>m. (nat_digits (rm_seq m), Acked)) (take n ms)"
      "out = None \<longrightarrow> n \<ge> length ms" by blast
    then show ?thesis by (intro exI[of _ "Suc n"]) auto
  qed
qed (auto intro: exI[of _ 0])

text \<open>
  A subscription acknowledges what it is given, in order, also a message whose handler raised:
  a failed message is never delivered again, and no message is ever rejected.
\<close>

theorem subscription_never_rejects:
  "snd ` set (snd (fst (subscribe_loop parse handler d lives (s, [])))) \<subseteq> {Acked}"
proof -
  have sub: "set dl \<subseteq> UNIV \<times> {Acked} \<Longrightarrow> set (snd (fst (subscription parse handler ms (s, dl)))) \<subseteq> UNIV \<times> {Acked}"
    for ms s dl
  proof -
    assume "set dl \<subseteq> UNIV \<times> {Acked}"
    moreover obtain s' dl' out where "subscription parse handler ms (s, dl) = ((s', dl'), out)"
      by (metis prod.exhaust)
    ultimately show ?thesis using subscription_acks by fastforce
  qed
  have "set dl \<subseteq> UNIV \<times> {Acked} \<Longrightarrow> set (snd (fst (subscribe_loop parse handler d lives (s, dl)))) \<subseteq> UNIV \<times> {Acked}" for dl
  proof (induction lives arbitrary: d s dl)
    case (Cons life lives)
    show ?case
    proof (cases life)
      case None
      then show ?thesis using Cons.IH[OF Cons.prems] by (simp add: split_beta)
    next
      case (Some ms)
      obtain s' dl' out where r: "subscription parse handler ms (s, dl) = ((s', dl'), out)"
        by (metis prod.exhaust)
      have "set dl' \<subseteq> UNIV \<times> {Acked}" using sub[OF Cons.prems, of ms s] r by simp
      then show ?thesis using Cons.IH[of dl' _ s'] r Some by (cases out) (simp_all add: split_beta)
    qed
  qed simp
  from this[of "[]"] show ?thesis by force
qed

text \<open>
  \<open>ensureStream\<close> answers normally although a subject is missing: when the stream exists and
  updating its subjects fails, the failure is taken for a missing stream, and the failure to add
  the stream for a stream already there.
\<close>

theorem stream_update_failure_swallowed:
  assumes "js_stream_info js stream s = (s, Inr current)" "length current < length (set_elements (current @ subjects))"
    and "js_stream_update js stream (set_elements (current @ subjects)) s = (s, Inl e)"
    and "js_stream_add js stream subjects s = (s, Inl e')"
  shows "ensureStream js stream subjects s = (s, Inr ())"
  using assms by (simp add: ensureStream_def try_catch_def and_then_def Let_def)

lemma stream_update_failure_swallowed_witness:
  "let js = \<lparr> js_stream_info = (\<lambda>_. ret [''a'']), js_stream_update = (\<lambda>_ _. raise (JsError ''denied'')),
              js_stream_add = (\<lambda>_ _. raise (JsError ''in use'')), js_consumer_info = (\<lambda>_ _. ret None),
              js_consumer_add = (\<lambda>_ _ _. ret ()), js_consumer_get = (\<lambda>_ _. ret ()) \<rparr> in
   ensureStream js ''S'' [''b''] () = ((), Inr ())"
  unfolding Let_def
  by (rule stream_update_failure_swallowed[where current = "[''a'']"])
    (simp_all add: set_elements_def)

end
