(* ===== verification/Hatchery_Scaling.thy ===== *)
theory Hatchery_Scaling
  imports Activation_Filters
begin

text \<open>
  The configuration of the hatchery (\<open>src/hatcheryConfig.ts\<close>) and its scaling decisions
  (\<open>src/hatcheryMetrics.ts\<close>): arrival rates over a sliding window, the number of workers an M/M/c
  queue needs, the correction by the consumer lag, and the decision per role.

  Rates are rationals. What the decisions read from elsewhere (the average latency of a role, which
  may fail to load, the lag of its consumer, the convergence pressure) are arguments.
\<close>

section \<open>Configuration\<close>

datatype agent_category = WorkerCat | GovernanceCat | ExecutorCat | TunerCat

record role_scaling =
  rs_min :: int
  rs_max :: int
  rs_subject :: string
  rs_category :: agent_category
  rs_utilization :: rat
  rs_lagThreshold :: int
  rs_activationLag :: int
  rs_heartbeatTimeout :: int
  rs_drainGrace :: int

record hatchery_config =
  hc_roles :: "(string, role_scaling) jsmap"
  hc_scaleUpIntervalMs :: int
  hc_scaleDownIntervalMs :: int
  hc_scaleDownCooldownMs :: int
  hc_maxRestarts :: int
  hc_restartWindowMs :: int
  hc_heartbeatIntervalMs :: int
  hc_arrivalRateWindowMs :: int
  hc_pressureScaling :: bool
  hc_natsStream :: string
  hc_scopeId :: string
  hc_tenantId :: "string option"

definition role_defaults ::
  "int \<Rightarrow> int \<Rightarrow> string \<Rightarrow> agent_category \<Rightarrow> int \<Rightarrow> int \<Rightarrow> int \<Rightarrow> int \<Rightarrow> role_scaling" where
  "role_defaults mn mx subject cat lag act timeout grace =
     \<lparr> rs_min = mn, rs_max = mx, rs_subject = subject, rs_category = cat, rs_utilization = 3 / 4,
       rs_lagThreshold = lag, rs_activationLag = act, rs_heartbeatTimeout = timeout, rs_drainGrace = grace \<rparr>"

definition DEFAULT_ROLE_CONFIGS :: "(string, role_scaling) jsmap" where
  "DEFAULT_ROLE_CONFIGS =
    (let events = ''swarm.events.>'' in
     [(''facts'', role_defaults 1 4 events WorkerCat 50 10 360000 330000),
      (''drift'', role_defaults 1 4 events WorkerCat 50 10 120000 100000),
      (''planner'', role_defaults 1 4 events WorkerCat 50 10 90000 70000),
      (''propagation'', role_defaults 1 2 events WorkerCat 50 10 90000 70000),
      (''deltas'', role_defaults 1 2 events WorkerCat 50 10 60000 40000),
      (''resolver'', role_defaults 1 2 events WorkerCat 50 10 90000 70000),
      (''status'', role_defaults 1 2 events WorkerCat 50 10 90000 70000),
      (''governance'', role_defaults 1 2 ''swarm.proposals.>'' GovernanceCat 20 5 60000 40000),
      (''executor'', role_defaults 1 2 ''swarm.actions.>'' ExecutorCat 20 5 60000 40000),
      (''tuner'', role_defaults 0 1 [] TunerCat 0 0 600000 600000)])"

definition DEFAULT_SERVICE_RATES :: "(string, rat) jsmap" where
  "DEFAULT_SERVICE_RATES =
     [(''facts'', 3 / 1000), (''drift'', 11 / 1000), (''planner'', 17 / 1000), (''propagation'', 17 / 1000),
      (''deltas'', 33 / 1000), (''status'', 17 / 1000), (''governance'', 33 / 1000),
      (''executor'', 33 / 1000), (''tuner'', 2 / 1000)]"

definition all_dimensions :: "string list" where
  "all_dimensions = [''claim_confidence'', ''contradiction_resolution'', ''goal_completion'', ''risk_inverse'']"

definition ROLE_TO_DIMENSIONS :: "(string, string list) jsmap" where
  "ROLE_TO_DIMENSIONS =
     [(''facts'', [''claim_confidence'']), (''drift'', [''contradiction_resolution'']),
      (''resolver'', [''contradiction_resolution'']), (''planner'', [''goal_completion'']),
      (''status'', [''risk_inverse'']), (''propagation'', all_dimensions), (''deltas'', all_dimensions),
      (''governance'', all_dimensions), (''executor'', all_dimensions), (''tuner'', [])]"

text \<open>\<open>parseInt(s, 10)\<close>: white space, a sign and as many digits as follow.\<close>

definition parseInt :: "string \<Rightarrow> int option" where
  "parseInt s =
    (let t = dropWhile js_space s;
         (sgn, ds) = (case t of c # cs \<Rightarrow> if c = CHR ''-'' then (-1, cs) else if c = CHR ''+'' then (1, cs) else (1, t)
                              | [] \<Rightarrow> (1, [])) in
     let d = takeWhile is_digit ds in
     if d = [] then None else Some (sgn * digits_value d))"

definition envInt :: "(string \<Rightarrow> string option) \<Rightarrow> string \<Rightarrow> int \<Rightarrow> int" where
  "envInt env key fallback =
     (case env key of None \<Rightarrow> fallback | Some v \<Rightarrow> if v = [] then fallback else coalesce (parseInt v) fallback)"

definition envBool :: "(string \<Rightarrow> string option) \<Rightarrow> string \<Rightarrow> bool \<Rightarrow> bool" where
  "envBool env key fallback =
     (case env key of None \<Rightarrow> fallback
      | Some v \<Rightarrow> if v = [] then fallback else v = ''1'' \<or> v = ''true'')"

definition role_config :: "(string \<Rightarrow> string option) \<Rightarrow> string \<Rightarrow> role_scaling \<Rightarrow> role_scaling" where
  "role_config env role d =
    (let p = ''HATCHERY_'' @ str_upper role in
     d \<lparr> rs_min := envInt env (p @ ''_MIN'') (rs_min d),
         rs_max := envInt env (p @ ''_MAX'') (rs_max d),
         rs_lagThreshold := envInt env (p @ ''_LAG_THRESHOLD'') (rs_lagThreshold d),
         rs_activationLag := envInt env (p @ ''_ACTIVATION_LAG_THRESHOLD'') (rs_activationLag d),
         rs_heartbeatTimeout := envInt env (p @ ''_HEARTBEAT_TIMEOUT_MS'') (rs_heartbeatTimeout d),
         rs_drainGrace := envInt env (p @ ''_DRAIN_GRACE_MS'') (rs_drainGrace d) \<rparr>)"

definition loadHatcheryConfig :: "(string \<Rightarrow> string option) \<Rightarrow> hatchery_config" where
  "loadHatcheryConfig env =
     \<lparr> hc_roles = map (\<lambda>(role, d). (role, role_config env role d)) DEFAULT_ROLE_CONFIGS,
       hc_scaleUpIntervalMs = envInt env ''HATCHERY_SCALE_UP_INTERVAL_MS'' 5000,
       hc_scaleDownIntervalMs = envInt env ''HATCHERY_SCALE_DOWN_INTERVAL_MS'' 60000,
       hc_scaleDownCooldownMs = envInt env ''HATCHERY_SCALE_DOWN_COOLDOWN_MS'' 300000,
       hc_maxRestarts = envInt env ''HATCHERY_MAX_RESTARTS'' 3,
       hc_restartWindowMs = envInt env ''HATCHERY_RESTART_WINDOW_MS'' 5000,
       hc_heartbeatIntervalMs = envInt env ''HATCHERY_HEARTBEAT_INTERVAL_MS'' 10000,
       hc_arrivalRateWindowMs = envInt env ''HATCHERY_ARRIVAL_RATE_WINDOW_MS'' 60000,
       hc_pressureScaling = envBool env ''HATCHERY_PRESSURE_SCALING'' True,
       hc_natsStream = coalesce (env ''NATS_STREAM'') ''SWARM_JOBS'',
       hc_scopeId = coalesce (env ''SCOPE_ID'') ''default'',
       hc_tenantId = (case env ''ACTIVE_TENANT_ID'' of
                        None \<Rightarrow> None | Some t \<Rightarrow> if str_trim t = [] then None else Some (str_trim t)) \<rparr>"

section \<open>Arrival rates\<close>

record arrival_estimator =
  ae_samples :: "(int \<times> int) list"
  ae_windowMs :: int

definition new_estimator :: "int \<Rightarrow> arrival_estimator" where
  "new_estimator windowMs = \<lparr> ae_samples = [], ae_windowMs = windowMs \<rparr>"

definition prune :: "int \<Rightarrow> arrival_estimator \<Rightarrow> arrival_estimator" where
  "prune now e = e \<lparr> ae_samples := filter (\<lambda>(c, ts). ts \<ge> now - ae_windowMs e) (ae_samples e) \<rparr>"

definition addSample :: "int \<Rightarrow> int \<Rightarrow> arrival_estimator \<Rightarrow> arrival_estimator" where
  "addSample count ts e = prune ts (e \<lparr> ae_samples := ae_samples e @ [(count, ts)] \<rparr>)"

definition estimateLambda :: "int \<Rightarrow> arrival_estimator \<Rightarrow> arrival_estimator \<times> rat" where
  "estimateLambda now e =
    (if length (ae_samples e) < 2 then (e, 0)
     else
       (let e' = prune now e; ss = ae_samples e' in
        if length ss < 2 then (e', 0)
        else
          (let dtSec = of_int (snd (last ss) - snd (hd ss)) / 1000 :: rat in
           if dtSec \<le> 0 then (e', 0) else (e', of_int (sum_list (map fst ss)) / dtSec))))"

definition computeServiceRate :: "rat \<Rightarrow> string option \<Rightarrow> rat" where
  "computeServiceRate avgLatencyMs role =
     (if avgLatencyMs > 0 then 1000 / avgLatencyMs
      else coalesce (map_get DEFAULT_SERVICE_RATES (coalesce role [])) (1 / 100))"

definition computeOptimalWorkers :: "rat \<Rightarrow> rat \<Rightarrow> rat \<Rightarrow> int \<Rightarrow> int \<Rightarrow> int" where
  "computeOptimalWorkers lam mu rhoTarget mn mx =
     (if lam \<le> 0 \<or> mu \<le> 0 \<or> rhoTarget \<le> 0 then mn
      else max mn (min \<lceil>lam / (mu * rhoTarget)\<rceil> mx))"

definition littlesLawQueueDepth :: "rat \<Rightarrow> rat \<Rightarrow> rat" where
  "littlesLawQueueDepth lam mu = (if mu \<le> 0 then 0 else lam / mu)"

section \<open>Decisions\<close>

datatype scaling_action = ScaleUp | ScaleDown | NoScaling

record scaling_decision =
  sd_role :: string
  sd_action :: scaling_action
  sd_current :: int
  sd_target :: int
  sd_lambda :: rat
  sd_mu :: rat
  sd_lag :: int
  sd_pressure :: rat

record role_state =
  rl_count :: int
  rl_consumer :: string
  rl_lastScaleDownAt :: int
  rl_inFlight :: int

record scaling_inputs =
  si_lambda :: "string \<Rightarrow> rat option"
  si_latency :: "string \<Rightarrow> rat option"
  si_lag :: "string \<Rightarrow> int"
  si_pressure :: "(string \<times> rat) list option"
  si_now :: int

text \<open>A lag over a threshold of 0 is infinitely many times the threshold.\<close>

definition lag_target :: "role_scaling \<Rightarrow> int \<Rightarrow> int \<Rightarrow> int" where
  "lag_target rc lag count =
     (if rs_lagThreshold rc = 0 then rs_max rc
      else min (\<lceil>of_int lag / of_int (rs_lagThreshold rc) :: rat\<rceil> + count) (rs_max rc))"

definition service_rate :: "scaling_inputs \<Rightarrow> string \<Rightarrow> rat" where
  "service_rate inp role =
     (case si_latency inp role of
        Some l \<Rightarrow> computeServiceRate l (Some role)
      | None \<Rightarrow> coalesce (map_get DEFAULT_SERVICE_RATES role) (1 / 100))"

definition target_count :: "scaling_inputs \<Rightarrow> string \<Rightarrow> role_scaling \<Rightarrow> role_state \<Rightarrow> int" where
  "target_count inp role rc st =
    (let c = computeOptimalWorkers (coalesce (si_lambda inp role) 0) (service_rate inp role)
               (rs_utilization rc) (rs_min rc) (rs_max rc);
         lag = si_lag inp (rl_consumer st) in
     if lag > rs_lagThreshold rc \<and> lag > rs_activationLag rc then max c (lag_target rc lag (rl_count st)) else c)"

definition role_pressure :: "hatchery_config \<Rightarrow> scaling_inputs \<Rightarrow> string \<Rightarrow> rat" where
  "role_pressure cfg inp role =
     (if hc_pressureScaling cfg
      then sum_list (map (\<lambda>d. coalesce (map_get (coalesce (si_pressure inp) []) d) 0)
             (coalesce (map_get ROLE_TO_DIMENSIONS role) []))
      else 0)"

definition scaling_action_for :: "hatchery_config \<Rightarrow> scaling_inputs \<Rightarrow> role_state \<Rightarrow> int \<Rightarrow> scaling_action" where
  "scaling_action_for cfg inp st target =
     (if target > rl_count st then ScaleUp
      else if target < rl_count st \<and> rl_inFlight st = 0
              \<and> si_now inp - rl_lastScaleDownAt st \<ge> hc_scaleDownCooldownMs cfg then ScaleDown
      else NoScaling)"

definition role_decision ::
  "hatchery_config \<Rightarrow> scaling_inputs \<Rightarrow> string \<Rightarrow> role_scaling \<Rightarrow> role_state \<Rightarrow> scaling_decision" where
  "role_decision cfg inp role rc st =
     (if rs_category rc = TunerCat
      then \<lparr> sd_role = role, sd_action = NoScaling, sd_current = rl_count st, sd_target = rl_count st,
             sd_lambda = 0, sd_mu = 0, sd_lag = 0, sd_pressure = 0 \<rparr>
      else
        (let target = target_count inp role rc st in
         \<lparr> sd_role = role, sd_action = scaling_action_for cfg inp st target,
           sd_current = rl_count st, sd_target = target,
           sd_lambda = coalesce (si_lambda inp role) 0, sd_mu = service_rate inp role,
           sd_lag = si_lag inp (rl_consumer st), sd_pressure = role_pressure cfg inp role \<rparr>))"

text \<open>The final sort by pressure orders a filtered copy; the decisions keep the order of the roles.\<close>

definition evaluateScalingDecisions ::
  "hatchery_config \<Rightarrow> (string, role_state) jsmap \<Rightarrow> scaling_inputs \<Rightarrow> scaling_decision list" where
  "evaluateScalingDecisions cfg states inp =
     List.map_filter
       (\<lambda>(role, rc). case map_get states role of
          None \<Rightarrow> None | Some st \<Rightarrow> Some (role_decision cfg inp role rc st))
       (hc_roles cfg)"

section \<open>Facts\<close>

lemma optimal_workers_bounds:
  "mn \<le> computeOptimalWorkers lam mu rho mn mx
   \<and> (mn \<le> mx \<longrightarrow> computeOptimalWorkers lam mu rho mn mx \<le> mx)"
  by (auto simp: computeOptimalWorkers_def)

text \<open>The queue is stable with the workers computed: their utilisation stays at the target or below,
  unless the maximum cuts them off.\<close>

lemma optimal_workers_enough:
  assumes "0 < lam" "0 < mu" "0 < rho" "computeOptimalWorkers lam mu rho mn mx < mx"
  shows "lam \<le> of_int (computeOptimalWorkers lam mu rho mn mx) * mu * rho"
proof -
  let ?n = "computeOptimalWorkers lam mu rho mn mx"
  have "\<lceil>lam / (mu * rho)\<rceil> \<le> ?n"
    using assms by (auto simp: computeOptimalWorkers_def max_def min_def split: if_splits)
  then have "lam / (mu * rho) \<le> of_int ?n" by (simp add: ceiling_le_iff)
  then show ?thesis using assms by (simp add: field_simps)
qed

lemma lag_target_le: "lag_target rc lag count \<le> rs_max rc"
  by (simp add: lag_target_def)

lemma target_count_bounds:
  assumes "rs_min rc \<le> rs_max rc"
  shows "rs_min rc \<le> target_count inp role rc st \<and> target_count inp role rc st \<le> rs_max rc"
proof -
  let ?c = "computeOptimalWorkers (coalesce (si_lambda inp role) 0) (service_rate inp role)
              (rs_utilization rc) (rs_min rc) (rs_max rc)"
  have c: "rs_min rc \<le> ?c" "?c \<le> rs_max rc" using optimal_workers_bounds assms by blast+
  have "target_count inp role rc st = ?c
      \<or> target_count inp role rc st = max ?c (lag_target rc (si_lag inp (rl_consumer st)) (rl_count st))"
    by (simp add: target_count_def Let_def)
  then show ?thesis
  proof
    assume "target_count inp role rc st = max ?c (lag_target rc (si_lag inp (rl_consumer st)) (rl_count st))"
    then show ?thesis using c lag_target_le max.boundedI max.coboundedI1 by metis
  qed (use c in simp)
qed

lemma decision_of_role:
  "d \<in> set (evaluateScalingDecisions cfg states inp) \<longleftrightarrow>
   (\<exists>role rc st. (role, rc) \<in> set (hc_roles cfg) \<and> map_get states role = Some st \<and> d = role_decision cfg inp role rc st)"
  by (force simp: evaluateScalingDecisions_def List.map_filter_def split: option.splits)

text \<open>
  C23. Every scaling decision aims between the configured minimum and maximum of its role, and
  moves in the direction it says; a role below its minimum is always scaled up, whatever the
  measurements.
\<close>

theorem scaling_targets_bounded:
  assumes "d \<in> set (evaluateScalingDecisions cfg states inp)"
    and "\<And>role rc. (role, rc) \<in> set (hc_roles cfg) \<Longrightarrow> rs_min rc \<le> rs_max rc"
  shows "\<exists>rc st. (sd_role d, rc) \<in> set (hc_roles cfg) \<and> map_get states (sd_role d) = Some st
           \<and> sd_current d = rl_count st
           \<and> (if rs_category rc = TunerCat then sd_action d = NoScaling
              else rs_min rc \<le> sd_target d \<and> sd_target d \<le> rs_max rc
                \<and> (sd_action d = ScaleUp \<longleftrightarrow> sd_target d > sd_current d)
                \<and> (sd_action d = ScaleDown \<longrightarrow> sd_target d < sd_current d)
                \<and> (rl_count st < rs_min rc \<longrightarrow> sd_action d = ScaleUp))"
proof -
  obtain role rc st where d: "(role, rc) \<in> set (hc_roles cfg)" "map_get states role = Some st"
    "d = role_decision cfg inp role rc st"
    using assms(1) by (auto simp: decision_of_role)
  show ?thesis using d target_count_bounds[OF assms(2)[OF d(1)], of inp role st]
    by (intro exI[of _ rc] exI[of _ st]) (auto simp: role_decision_def scaling_action_for_def Let_def)
qed

text \<open>
  The pressure of the convergence state has no influence on scaling: roles, actions, counts and
  targets, and their order, are the same with any pressure and with pressure scaling switched off.
\<close>

theorem pressure_never_scales:
  "map (\<lambda>d. (sd_role d, sd_action d, sd_current d, sd_target d))
       (evaluateScalingDecisions (cfg \<lparr> hc_pressureScaling := b \<rparr>) states (inp \<lparr> si_pressure := p \<rparr>))
   = map (\<lambda>d. (sd_role d, sd_action d, sd_current d, sd_target d)) (evaluateScalingDecisions cfg states inp)"
proof -
  let ?old = "role_decision cfg inp"
  let ?new = "role_decision (cfg \<lparr> hc_pressureScaling := b \<rparr>) (inp \<lparr> si_pressure := p \<rparr>)"
  let ?key = "\<lambda>d. (sd_role d, sd_action d, sd_current d, sd_target d)"
  have same: "?key (?new role rc st) = ?key (?old role rc st)" for role rc st
    by (simp add: role_decision_def target_count_def service_rate_def scaling_action_for_def Let_def)
  have "map ?key (List.map_filter (\<lambda>(role, rc). map_option (?new role rc) (map_get states role)) rs)
    = map ?key (List.map_filter (\<lambda>(role, rc). map_option (?old role rc) (map_get states role)) rs)" for rs
  proof (induction rs)
    case (Cons x rs)
    obtain role rc where x: "x = (role, rc)" by fastforce
    show ?case using Cons same[of role rc] by (cases "map_get states role") (simp_all add: x map_filter_simps)
  qed (simp add: map_filter_simps)
  moreover have "map_option f y = (case y of None \<Rightarrow> None | Some st \<Rightarrow> Some (f st))" for f :: "role_state \<Rightarrow> scaling_decision" and y
    by (cases y) auto
  ultimately show ?thesis by (simp add: evaluateScalingDecisions_def)
qed

end
