(* ===== verification/Hatchery.thy ===== *)
theory Hatchery
  imports Hatchery_Scaling
begin

text \<open>
  The agent hatchery of \<open>src/hatchery.ts\<close> as a state machine. Its methods are asynchronous: between two
  awaits they run without interruption, at an await any other method, timer or agent exit may run.
  A method is therefore a list of actions still to do (a thread); one step runs the first action of
  one thread, which may put actions in its place and start threads. A call runs its first action at
  once. Draining is the action that aborts the agent and the action that, some time later (its task
  has ended or the grace period is over), removes it.

  The tasks of the agents are not run here: that one ends, normally or with an error, is a step. The
  records the code writes to \<open>hatchery_events\<close> and the starts of the approval server are logs.
\<close>

section \<open>State\<close>

datatype agent_state = Alive | Draining | Dead

record agent_instance =
  ai_role :: string
  ai_state :: agent_state
  ai_startedAt :: int
  ai_lastHeartbeat :: int
  ai_messages :: int
  ai_aborted :: bool
  ai_restarts :: "int list"

datatype hatchery_event = HatchEvent string string string int int

record hatchery =
  hy_config :: hatchery_config
  hy_paused :: bool
  hy_agents :: "(string, agent_instance) jsmap"
  hy_estimators :: "(string, arrival_estimator) jsmap"
  hy_lastScaleDown :: "(string, int) jsmap"
  hy_timers :: bool
  hy_shuttingDown :: bool
  hy_nextId :: "(string, nat) jsmap"
  hy_governanceCount :: int
  hy_now :: int
  hy_events :: "hatchery_event list"
  hy_mitlStarts :: nat

definition new_hatchery :: "hatchery_config \<Rightarrow> int \<Rightarrow> hatchery" where
  "new_hatchery cfg now =
     \<lparr> hy_config = cfg, hy_paused = False, hy_agents = [],
       hy_estimators = map (\<lambda>(role, _). (role, new_estimator (hc_arrivalRateWindowMs cfg))) (hc_roles cfg),
       hy_lastScaleDown = [], hy_timers = False, hy_shuttingDown = False,
       hy_nextId = map (\<lambda>(role, _). (role, 1)) (hc_roles cfg), hy_governanceCount = 0, hy_now = now,
       hy_events = [], hy_mitlStarts = 0 \<rparr>"

datatype action_item =
    Spawn string
  | SpawnMin string
  | FillRole string
  | Drain string
  | DrainIfAlive string
  | FinishDrain string string int
  | AwaitDrained "string list"
  | Respawn
  | SetRestarts string string "int list" string
  | ApplyUp "scaling_decision list"
  | ApplyDown "scaling_decision list"
  | MarkScaleDown string
  | StartTimers
  | LogTimeout string string

type_synonym thread = "action_item list"

section \<open>Helpers\<close>

definition role_of :: "hatchery \<Rightarrow> string \<Rightarrow> role_scaling option" where
  "role_of h role = map_get (hc_roles (hy_config h)) role"

definition countRole :: "hatchery \<Rightarrow> string \<Rightarrow> int" where
  "countRole h role =
     int (length (filter (\<lambda>(_, a). ai_role a = role \<and> ai_state a \<noteq> Dead) (hy_agents h)))"

definition logHatcheryEvent :: "string \<Rightarrow> string \<Rightarrow> string \<Rightarrow> int \<Rightarrow> int \<Rightarrow> hatchery \<Rightarrow> hatchery" where
  "logHatcheryEvent role act agentId before after h =
     h \<lparr> hy_events := hy_events h @ [HatchEvent role act agentId before after] \<rparr>"

definition is_governance_role :: "hatchery \<Rightarrow> string \<Rightarrow> bool" where
  "is_governance_role h role =
     (role = ''governance'' \<or> map_option rs_category (role_of h role) = Some GovernanceCat)"

definition agent_name :: "string \<Rightarrow> nat \<Rightarrow> string" where
  "agent_name role n = role @ ''-'' @ nat_digits n"

section \<open>Spawning and draining\<close>

definition fresh_agent :: "string \<Rightarrow> int \<Rightarrow> agent_instance" where
  "fresh_agent role now =
     \<lparr> ai_role = role, ai_state = Alive, ai_startedAt = now, ai_lastHeartbeat = now, ai_messages = 0,
       ai_aborted = False, ai_restarts = [] \<rparr>"

text \<open>The first agent of the governance category counted brings up the approval server.\<close>

definition count_governance :: "string \<Rightarrow> hatchery \<Rightarrow> hatchery" where
  "count_governance role h =
     (if map_option rs_category (role_of h role) = Some GovernanceCat
      then (let n = hy_governanceCount h + 1 in
            h \<lparr> hy_governanceCount := n,
                hy_mitlStarts := (if n = 1 then hy_mitlStarts h + 1 else hy_mitlStarts h) \<rparr>)
      else h)"

definition spawnAgent :: "string \<Rightarrow> hatchery \<Rightarrow> hatchery \<times> string option" where
  "spawnAgent role h =
    (if hy_paused h then (h, None)
     else
       (let seqNum = coalesce (map_get (hy_nextId h) role) 1;
            agentId = agent_name role seqNum;
            before = countRole h role;
            h1 = count_governance role (h \<lparr> hy_nextId := map_set role (seqNum + 1) (hy_nextId h) \<rparr>);
            h2 = h1 \<lparr> hy_agents := map_set agentId (fresh_agent role (hy_now h)) (hy_agents h1) \<rparr> in
        (logHatcheryEvent role ''spawn'' agentId before (countRole h2 role) h2, Some agentId)))"

definition update_agent :: "string \<Rightarrow> (agent_instance \<Rightarrow> agent_instance) \<Rightarrow> hatchery \<Rightarrow> hatchery" where
  "update_agent agentId f h =
     (case map_get (hy_agents h) agentId of
        None \<Rightarrow> h | Some a \<Rightarrow> h \<lparr> hy_agents := map_set agentId (f a) (hy_agents h) \<rparr>)"

text \<open>The part of \<open>drainAgent\<close> before its await, with the actions after it.\<close>

definition drainAgent :: "string \<Rightarrow> hatchery \<Rightarrow> hatchery \<times> thread" where
  "drainAgent agentId h =
     (case map_get (hy_agents h) agentId of
        None \<Rightarrow> (h, [])
      | Some a \<Rightarrow>
          if ai_state a = Dead then (h, [])
          else (update_agent agentId (\<lambda>a. a \<lparr> ai_state := Draining, ai_aborted := True \<rparr>) h,
                [FinishDrain agentId (ai_role a) (countRole h (ai_role a))]))"

definition finishDrain :: "string \<Rightarrow> string \<Rightarrow> int \<Rightarrow> hatchery \<Rightarrow> hatchery" where
  "finishDrain agentId role before h =
    (let h1 = (if is_governance_role h role
               then h \<lparr> hy_governanceCount := max 0 (hy_governanceCount h - 1) \<rparr> else h);
         h2 = h1 \<lparr> hy_agents := map_delete agentId (hy_agents h1) \<rparr> in
     logHatcheryEvent role ''drain'' agentId before (countRole h2 role) h2)"

fun drain_all :: "string list \<Rightarrow> hatchery \<Rightarrow> hatchery \<times> thread list" where
  "drain_all [] h = (h, [])"
| "drain_all (i # is) h =
     (let (h1, t) = drainAgent i h; (h2, ts) = drain_all is h1 in (h2, t # ts))"

definition alive_agents :: "hatchery \<Rightarrow> string list" where
  "alive_agents h = map fst (filter (\<lambda>(_, a). ai_state a = Alive) (hy_agents h))"

section \<open>Role states\<close>

definition role_heartbeat :: "hatchery \<Rightarrow> string \<Rightarrow> int" where
  "role_heartbeat h role = (case role_of h role of None \<Rightarrow> 60000 | Some rc \<Rightarrow> rs_heartbeatTimeout rc)"

definition in_flight :: "hatchery \<Rightarrow> string \<Rightarrow> int" where
  "in_flight h role =
     int (length (filter (\<lambda>(_, a). ai_role a = role \<and> ai_state a = Alive
            \<and> of_int (hy_now h - ai_lastHeartbeat a) > of_int (role_heartbeat h role) * (4 / 5 :: rat)) (hy_agents h)))"

definition buildRoleStates :: "hatchery \<Rightarrow> (string, role_state) jsmap" where
  "buildRoleStates h =
     map (\<lambda>(role, _). (role,
        \<lparr> rl_count = countRole h role, rl_consumer = role @ ''-shared-events'',
          rl_lastScaleDownAt = coalesce (map_get (hy_lastScaleDown h) role) 0,
          rl_inFlight = in_flight h role \<rparr>)) (hc_roles (hy_config h))"

definition current_decisions :: "scaling_inputs \<Rightarrow> hatchery \<Rightarrow> scaling_decision list" where
  "current_decisions inp h =
     evaluateScalingDecisions (hy_config h) (buildRoleStates h)
       (inp \<lparr> si_lambda := (\<lambda>role. map_option (\<lambda>e. snd (estimateLambda (hy_now h) e)) (map_get (hy_estimators h) role)),
              si_now := hy_now h \<rparr>)"

section \<open>Actions\<close>

definition spawn_times :: "int \<Rightarrow> string \<Rightarrow> thread" where
  "spawn_times n role = replicate (nat n) (Spawn role)"

definition start_agents :: "hatchery \<Rightarrow> thread" where
  "start_agents h = map (\<lambda>(role, _). SpawnMin role) (hc_roles (hy_config h))"

definition newest_first :: "(string \<times> agent_instance) list \<Rightarrow> (string \<times> agent_instance) list" where
  "newest_first as = sort_key (\<lambda>(_, a). - ai_startedAt a) as"

definition drain_candidates :: "hatchery \<Rightarrow> string \<Rightarrow> string list" where
  "drain_candidates h role =
     map fst (newest_first (filter (\<lambda>(_, a). ai_role a = role \<and> ai_state a = Alive) (hy_agents h)))"

text \<open>What an action does: the new state, the actions that take its place, the threads it starts.\<close>

fun perform :: "action_item \<Rightarrow> hatchery \<Rightarrow> hatchery \<times> thread \<times> thread list" where
  "perform (Spawn role) h = (fst (spawnAgent role h), [], [])"
| "perform (SpawnMin role) h =
     (h, spawn_times (case role_of h role of None \<Rightarrow> 0 | Some rc \<Rightarrow> rs_min rc) role, [])"
| "perform (FillRole role) h =
     (h, spawn_times ((case role_of h role of None \<Rightarrow> 0 | Some rc \<Rightarrow> rs_min rc) - countRole h role) role, [])"
| "perform (Drain i) h = (let (h', t) = drainAgent i h in (h', t, []))"
| "perform (DrainIfAlive i) h =
     (if map_option ai_state (map_get (hy_agents h) i) = Some Alive
      then (let (h', t) = drainAgent i h in (h', t, [])) else (h, [], []))"
| "perform (FinishDrain i role before) h = (finishDrain i role before h, [], [])"
| "perform (AwaitDrained is) h = (h, [], [])"
| "perform Respawn h =
     (h, if hy_paused h \<or> hy_shuttingDown h then [] else start_agents h, [])"
| "perform (SetRestarts role i rs reason) h =
     (logHatcheryEvent role ''restart'' i (countRole h role - 1) (countRole h role)
        (update_agent i (\<lambda>a. a \<lparr> ai_restarts := rs \<rparr>) h), [], [])"
| "perform (ApplyUp []) h = (h, [], [])"
| "perform (ApplyUp (d # ds)) h =
     (h, (if sd_action d = ScaleUp \<and> sd_target d > sd_current d
          then spawn_times (sd_target d - sd_current d) (sd_role d) else []) @ [ApplyUp ds], [])"
| "perform (ApplyDown []) h = (h, [], [])"
| "perform (ApplyDown (d # ds)) h =
     (h, (if sd_action d = ScaleDown \<and> sd_target d < sd_current d
          then map Drain (take (nat (sd_current d - sd_target d)) (drain_candidates h (sd_role d)))
               @ [MarkScaleDown (sd_role d)]
          else []) @ [ApplyDown ds], [])"
| "perform (MarkScaleDown role) h =
     (h \<lparr> hy_lastScaleDown := map_set role (hy_now h) (hy_lastScaleDown h) \<rparr>, [], [])"
| "perform StartTimers h = (h \<lparr> hy_timers := True \<rparr>, [], [])"
| "perform (LogTimeout role i) h =
     (logHatcheryEvent role ''heartbeat_timeout'' i (countRole h role + 1) (countRole h role) h, [], [])"

text \<open>An await of drains ends when none of the drained agents still has its last action to do.\<close>

fun may_run :: "action_item \<Rightarrow> thread list \<Rightarrow> bool" where
  "may_run (AwaitDrained is) ts = list_all (\<lambda>i. list_all (list_all (\<lambda>a. case a of FinishDrain j _ _ \<Rightarrow> j \<noteq> i | _ \<Rightarrow> True)) ts) is"
| "may_run _ ts = True"

section \<open>Calls, timers and exits\<close>

text \<open>Each is its first segment: the new state and the threads it leaves.\<close>

definition start_hatchery :: "hatchery \<Rightarrow> hatchery \<times> thread list" where
  "start_hatchery h = (h \<lparr> hy_paused := False \<rparr>, [start_agents h @ [StartTimers]])"

definition shutdown :: "hatchery \<Rightarrow> hatchery \<times> thread list" where
  "shutdown h =
     (if hy_shuttingDown h then (h, [])
      else drain_all (alive_agents h) (h \<lparr> hy_shuttingDown := True, hy_timers := False \<rparr>))"

definition setPaused :: "bool \<Rightarrow> hatchery \<Rightarrow> hatchery" where
  "setPaused p h = h \<lparr> hy_paused := p \<rparr>"

definition applyActiveScope :: "string \<Rightarrow> string option option \<Rightarrow> hatchery \<Rightarrow> hatchery" where
  "applyActiveScope scopeId tenantId h =
     h \<lparr> hy_config := (hy_config h) \<lparr> hc_scopeId := scopeId,
           hc_tenantId := coalesce tenantId (hc_tenantId (hy_config h)) \<rparr> \<rparr>"

definition recycleAgentsForScope :: "hatchery \<Rightarrow> hatchery \<times> thread list" where
  "recycleAgentsForScope h =
    (let alive = alive_agents h; (h', ts) = drain_all alive h in (h', ts @ [[AwaitDrained alive, Respawn]]))"

definition rebindActiveScope :: "string \<Rightarrow> string option option \<Rightarrow> hatchery \<Rightarrow> hatchery \<times> thread list" where
  "rebindActiveScope scopeId tenantId h =
     (if hy_shuttingDown h then (h, []) else recycleAgentsForScope (applyActiveScope scopeId tenantId h))"

definition pauseAll :: "hatchery \<Rightarrow> hatchery \<times> thread list" where
  "pauseAll h = (setPaused True h, [map DrainIfAlive (map fst (hy_agents h))])"

definition resume :: "hatchery \<Rightarrow> hatchery \<times> thread list" where
  "resume h =
     (if hy_shuttingDown h then (h, [])
      else (setPaused False h, [map (\<lambda>(role, _). FillRole role) (hc_roles (hy_config h))]))"

definition scaleUpTick :: "scaling_inputs \<Rightarrow> hatchery \<Rightarrow> hatchery \<times> thread list" where
  "scaleUpTick inp h =
     (if hy_shuttingDown h \<or> hy_paused h then (h, []) else (h, [[ApplyUp (current_decisions inp h)]]))"

definition scaleDownTick :: "scaling_inputs \<Rightarrow> hatchery \<Rightarrow> hatchery \<times> thread list" where
  "scaleDownTick inp h =
     (if hy_shuttingDown h \<or> hy_paused h then (h, []) else (h, [[ApplyDown (current_decisions inp h)]]))"

fun heartbeat_drains :: "(string \<times> agent_instance) list \<Rightarrow> hatchery \<Rightarrow> hatchery \<times> thread list" where
  "heartbeat_drains [] h = (h, [])"
| "heartbeat_drains ((i, a) # as) h =
     (if ai_state a = Alive \<and> hy_now h - ai_lastHeartbeat a > role_heartbeat h (ai_role a)
      then (let (h1, t) = drainAgent i h; (h2, ts) = heartbeat_drains as h1 in
            (h2, (t @ [LogTimeout (ai_role a) i]) # ts))
      else heartbeat_drains as h)"

definition heartbeatTick :: "hatchery \<Rightarrow> hatchery \<times> thread list" where
  "heartbeatTick h = (if hy_shuttingDown h then (h, []) else heartbeat_drains (hy_agents h) h)"

definition lagSamplerTick :: "(string \<Rightarrow> int) \<Rightarrow> hatchery \<Rightarrow> hatchery" where
  "lagSamplerTick lag h =
     h \<lparr> hy_estimators := map (\<lambda>(role, e). (role,
            case role_of h role of
              Some rc \<Rightarrow> if rs_category rc = TunerCat then e
                        else addSample (lag (role @ ''-shared-events'')) (hy_now h) e
            | None \<Rightarrow> e)) (hy_estimators h) \<rparr>"

definition recent_restarts :: "hatchery \<Rightarrow> agent_instance \<Rightarrow> int list" where
  "recent_restarts h a =
     filter (\<lambda>t. t \<ge> hy_now h - hc_restartWindowMs (hy_config h)) (ai_restarts a @ [hy_now h])"

definition onAgentExit :: "string \<Rightarrow> string \<Rightarrow> hatchery \<Rightarrow> hatchery \<times> thread list" where
  "onAgentExit agentId reason h =
     (case map_get (hy_agents h) agentId of
        None \<Rightarrow> (h, [])
      | Some a \<Rightarrow>
          (let h1 = h \<lparr> hy_agents := map_delete agentId (hy_agents h) \<rparr>; role = ai_role a in
           if ai_state a = Draining \<or> ai_state a = Dead \<or> hy_shuttingDown h then (h1, [])
           else if int (length (recent_restarts h a)) > hc_maxRestarts (hy_config h)
           then (logHatcheryEvent role ''restart_exhausted'' agentId (countRole h1 role) (countRole h1 role) h1, [])
           else (case spawnAgent role h1 of
                   (h2, None) \<Rightarrow> (h2, [])
                 | (h2, Some newId) \<Rightarrow> (h2, [[SetRestarts role newId (recent_restarts h a) reason]]))))"

definition heartbeat :: "string \<Rightarrow> int \<Rightarrow> hatchery \<Rightarrow> hatchery" where
  "heartbeat agentId processed h =
     update_agent agentId (\<lambda>a. a \<lparr> ai_lastHeartbeat := hy_now h, ai_messages := ai_messages a + processed \<rparr>) h"

section \<open>Snapshot\<close>

record hatchery_snapshot =
  hs_agents :: "(string \<times> string \<times> agent_state \<times> int \<times> int) list"
  hs_roleCounts :: "(string \<times> int) list"
  hs_totalAgents :: nat
  hs_lambda :: "(string \<times> rat) list"
  hs_paused :: bool
  hs_scopeId :: string
  hs_tenantId :: "string option"

definition getSnapshot :: "hatchery \<Rightarrow> hatchery_snapshot" where
  "getSnapshot h =
     \<lparr> hs_agents = map (\<lambda>(i, a). (i, ai_role a, ai_state a, hy_now h - ai_startedAt a, ai_messages a)) (hy_agents h),
       hs_roleCounts = map (\<lambda>(role, _). (role, countRole h role)) (hc_roles (hy_config h)),
       hs_totalAgents = length (hy_agents h),
       hs_lambda = map (\<lambda>(role, e). (role, snd (estimateLambda (hy_now h) e))) (hy_estimators h),
       hs_paused = hy_paused h, hs_scopeId = hc_scopeId (hy_config h), hs_tenantId = hc_tenantId (hy_config h) \<rparr>"

section \<open>The step relation\<close>

type_synonym hatchery_sys = "hatchery \<times> thread list"

definition call_of :: "(hatchery \<Rightarrow> hatchery \<times> thread list) \<Rightarrow> hatchery_sys \<Rightarrow> hatchery_sys" where
  "call_of m sys = (let (h', new) = m (fst sys) in (h', snd sys @ new))"

definition run_thread :: "nat \<Rightarrow> hatchery_sys \<Rightarrow> hatchery_sys" where
  "run_thread i sys =
    (case snd sys ! i of
       [] \<Rightarrow> sys
     | a # rest \<Rightarrow>
        (let (h', here, new) = perform a (fst sys) in (h', (snd sys)[i := here @ rest] @ new)))"

datatype hatchery_label =
    CallStart | CallShutdown | CallPause | CallResume | CallRebind string "string option option"
  | TickUp scaling_inputs | TickDown scaling_inputs | TickHeartbeat | TickLag "string \<Rightarrow> int"
  | AgentExit string string | AgentBeat string int | RunThread nat | Wait nat

fun label_enabled :: "hatchery_label \<Rightarrow> hatchery_sys \<Rightarrow> bool" where
  "label_enabled (TickUp _) sys = hy_timers (fst sys)"
| "label_enabled (TickDown _) sys = hy_timers (fst sys)"
| "label_enabled TickHeartbeat sys = hy_timers (fst sys)"
| "label_enabled (TickLag _) sys = hy_timers (fst sys)"
| "label_enabled (RunThread i) sys =
     (i < length (snd sys) \<and> (case snd sys ! i of [] \<Rightarrow> False | a # _ \<Rightarrow> may_run a (snd sys)))"
| "label_enabled _ sys = True"

fun do_label :: "hatchery_label \<Rightarrow> hatchery_sys \<Rightarrow> hatchery_sys" where
  "do_label CallStart sys = call_of start_hatchery sys"
| "do_label CallShutdown sys = call_of shutdown sys"
| "do_label CallPause sys = call_of pauseAll sys"
| "do_label CallResume sys = call_of resume sys"
| "do_label (CallRebind s t) sys = call_of (rebindActiveScope s t) sys"
| "do_label (TickUp inp) sys = call_of (scaleUpTick inp) sys"
| "do_label (TickDown inp) sys = call_of (scaleDownTick inp) sys"
| "do_label TickHeartbeat sys = call_of heartbeatTick sys"
| "do_label (TickLag lag) sys = call_of (\<lambda>h. (lagSamplerTick lag h, [])) sys"
| "do_label (AgentExit i reason) sys = call_of (onAgentExit i reason) sys"
| "do_label (AgentBeat i n) sys = call_of (\<lambda>h. (heartbeat i n h, [])) sys"
| "do_label (RunThread i) sys = run_thread i sys"
| "do_label (Wait n) sys = call_of (\<lambda>h. (h \<lparr> hy_now := hy_now h + int n \<rparr>, [])) sys"

inductive hatchery_step :: "hatchery_label \<Rightarrow> hatchery_sys \<Rightarrow> hatchery_sys \<Rightarrow> bool" where
  do_step: "label_enabled l sys \<Longrightarrow> hatchery_step l sys (do_label l sys)"

inductive hatchery_reachable :: "hatchery_config \<Rightarrow> hatchery_sys \<Rightarrow> bool" for cfg where
  initial: "hatchery_reachable cfg (new_hatchery cfg now, [])"
| more: "hatchery_reachable cfg sys \<Longrightarrow> hatchery_step l sys sys' \<Longrightarrow> hatchery_reachable cfg sys'"

inductive_cases hatchery_stepE: "hatchery_step l sys sys'"

end
