(* ===== verification/Number_Text.thy ===== *)
theory Number_Text
  imports Dimension_Schema
begin

text \<open>
  Numbers inside identifiers: the decimal text of a number determines it and contains no separator,
  so an identifier made of parts and a separator determines its parts.
\<close>

lemma nat_digits_are_digits: "list_all is_digit (nat_digits n)"
proof (induction n rule: nat_digits.induct)
  case (1 n)
  have d: "is_digit (char_of (48 + m) :: char)" if "m < 10" for m :: nat
    using that by (simp add: is_digit_def)
  show ?case using 1 d[of n] d[of "n mod 10"] by (subst nat_digits.simps) auto
qed

lemma dash_not_digit: "CHR ''-'' \<notin> set (nat_digits n)"
proof
  assume "CHR ''-'' \<in> set (nat_digits n)"
  then have "is_digit (CHR ''-'')" using nat_digits_are_digits[of n] by (auto simp: list_all_iff)
  then show False by (simp add: is_digit_def)
qed

lemma digits_value_snoc: "digits_value (ds @ [d]) = 10 * digits_value ds + int (of_char d) - 48"
  by (simp add: digits_value_def)

lemma nat_digits_value: "digits_value (nat_digits n) = int n"
proof (induction n rule: nat_digits.induct)
  case (1 n)
  show ?case
  proof (cases "n < 10")
    case True
    then show ?thesis by (subst nat_digits.simps) (simp add: digits_value_def)
  next
    case False
    then have "digits_value (nat_digits n) = 10 * int (n div 10) + int (n mod 10)"
      using 1 by (subst nat_digits.simps) (simp add: digits_value_snoc)
    then show ?thesis by presburger
  qed
qed

lemma nat_digits_inj: "nat_digits m = nat_digits n \<Longrightarrow> m = n"
  using nat_digits_value by (metis of_nat_eq_iff)

lemma last_separator:
  assumes "xs @ c # ys = xs' @ c # ys'" "c \<notin> set ys" "c \<notin> set ys'"
  shows "xs = xs' \<and> ys = ys'"
proof -
  have t: "takeWhile (\<lambda>x. x \<noteq> c) (rev (zs @ c # ws)) = rev ws" if "c \<notin> set ws" for zs ws
  proof -
    have "\<forall>x \<in> set (rev ws). x \<noteq> c" using that by auto
    then have "takeWhile (\<lambda>x. x \<noteq> c) (rev ws @ c # rev zs) = rev ws @ takeWhile (\<lambda>x. x \<noteq> c) (c # rev zs)"
      by (intro takeWhile_append2) auto
    then show ?thesis by simp
  qed
  have "rev ys = rev ys'" using t[OF assms(2), of xs] t[OF assms(3), of xs'] assms(1) by simp
  then show ?thesis using assms(1) by simp
qed

lemma first_separator:
  assumes "xs @ c # ys = xs' @ c # ys'" "c \<notin> set xs" "c \<notin> set xs'"
  shows "xs = xs' \<and> ys = ys'"
  using assms
proof (induction xs arbitrary: xs')
  case Nil
  then show ?case by (cases xs') auto
next
  case (Cons x xs)
  then show ?case by (cases xs') auto
qed

end
