(* ===== verification/Hatchery_Safety.thy ===== *)
theory Hatchery_Safety
  imports Hatchery Number_Text
begin

text \<open>
  What the hatchery keeps over every interleaving of its methods, timers and agent exits, and which
  limits do not hold: no identifier in use is handed out again, a paused hatchery starts nobody, a role below its
  minimum comes back; while shutdown and the maximum count are passed by decisions taken before.
\<close>

section \<open>Identifiers\<close>

lemma agent_name_inj: "agent_name r m = agent_name r' n \<longleftrightarrow> r = r' \<and> m = n"
  using last_separator[of r "CHR ''-''" "nat_digits m" r' "nat_digits n"] dash_not_digit nat_digits_inj
  by (auto simp: agent_name_def)

text \<open>Every agent carries a number of its role below the next one.\<close>

definition numbered :: "hatchery \<Rightarrow> bool" where
  "numbered h =
     (map_wf (hy_agents h)
      \<and> (\<forall>i a. map_get (hy_agents h) i = Some a \<longrightarrow>
           (\<exists>n. i = agent_name (ai_role a) n \<and> n < coalesce (map_get (hy_nextId h) (ai_role a)) 1)))"

lemma numbered_same: "hy_agents h' = hy_agents h \<Longrightarrow> hy_nextId h' = hy_nextId h \<Longrightarrow> numbered h' = numbered h"
  by (simp add: numbered_def)

lemma numbered_update:
  "(\<And>a. ai_role (f a) = ai_role a) \<Longrightarrow> numbered h \<Longrightarrow> numbered (update_agent i f h)"
  unfolding numbered_def update_agent_def
  by (cases "map_get (hy_agents h) i") (auto simp: map_get_set split: if_splits)

lemma numbered_delete:
  "numbered h \<Longrightarrow> numbered (h \<lparr> hy_agents := map_delete i (hy_agents h) \<rparr>)"
  by (auto simp: numbered_def map_get_delete split: if_splits)

lemma log_event_select [simp]:
  "hy_agents (logHatcheryEvent r a i b c h) = hy_agents h" "hy_nextId (logHatcheryEvent r a i b c h) = hy_nextId h"
  "hy_paused (logHatcheryEvent r a i b c h) = hy_paused h" "hy_config (logHatcheryEvent r a i b c h) = hy_config h"
  "hy_shuttingDown (logHatcheryEvent r a i b c h) = hy_shuttingDown h"
  by (simp_all add: logHatcheryEvent_def)

lemma count_governance_select [simp]:
  "hy_agents (count_governance r h) = hy_agents h" "hy_nextId (count_governance r h) = hy_nextId h"
  "hy_paused (count_governance r h) = hy_paused h" "hy_config (count_governance r h) = hy_config h"
  by (simp_all add: count_governance_def Let_def)

lemma numbered_ignores [simp]:
  "numbered (logHatcheryEvent r a i b c h) = numbered h" "numbered (h \<lparr> hy_lastScaleDown := x1 \<rparr>) = numbered h"
  "numbered (h \<lparr> hy_timers := x2 \<rparr>) = numbered h" "numbered (h \<lparr> hy_paused := x3 \<rparr>) = numbered h"
  "numbered (h \<lparr> hy_config := x4 \<rparr>) = numbered h" "numbered (h \<lparr> hy_estimators := x5 \<rparr>) = numbered h"
  "numbered (h \<lparr> hy_shuttingDown := x6 \<rparr>) = numbered h" "numbered (h \<lparr> hy_now := x7 \<rparr>) = numbered h"
  by (simp_all add: numbered_def)

lemma spawn_effect:
  assumes "spawnAgent role h = (h', Some i)"
  shows "\<not> hy_paused h" "i = agent_name role (coalesce (map_get (hy_nextId h) role) 1)"
    "hy_agents h' = map_set i (fresh_agent role (hy_now h)) (hy_agents h)"
    "hy_nextId h' = map_set role (coalesce (map_get (hy_nextId h) role) 1 + 1) (hy_nextId h)"
    "hy_paused h' = hy_paused h" "hy_config h' = hy_config h"
  using assms by (auto simp: spawnAgent_def Let_def split: if_splits)

lemma spawn_paused: "spawnAgent role h = (h', None) \<Longrightarrow> h' = h \<and> hy_paused h"
  by (auto simp: spawnAgent_def Let_def split: if_splits)

lemma spawn_is_fresh:
  assumes "numbered h" "spawnAgent role h = (h', Some i)"
  shows "map_get (hy_agents h) i = None"
proof (rule ccontr)
  assume "map_get (hy_agents h) i \<noteq> None"
  then obtain a where "map_get (hy_agents h) i = Some a" by blast
  then obtain n where "i = agent_name (ai_role a) n" "n < coalesce (map_get (hy_nextId h) (ai_role a)) 1"
    using assms(1) unfolding numbered_def by blast
  then show False using spawn_effect(2)[OF assms(2)] by (auto simp: agent_name_inj)
qed

lemma numbered_spawn:
  assumes "numbered h"
  shows "numbered (fst (spawnAgent role h))"
proof (cases "spawnAgent role h")
  case (Pair h' out)
  show ?thesis
  proof (cases out)
    case None
    then show ?thesis using spawn_paused Pair assms by fastforce
  next
    case (Some i)
    note e = spawn_effect[OF Pair[unfolded Some]]
    have "\<exists>m. j = agent_name (ai_role a) m \<and> m < coalesce (map_get (hy_nextId h') (ai_role a)) 1"
      if a: "map_get (hy_agents h') j = Some a" for j a
    proof (cases "j = i")
      case True
      then show ?thesis using a e by (auto simp: map_get_set fresh_agent_def)
    next
      case False
      then have "map_get (hy_agents h) j = Some a" using a e by (simp add: map_get_set)
      then obtain m where "j = agent_name (ai_role a) m" "m < coalesce (map_get (hy_nextId h) (ai_role a)) 1"
        using assms unfolding numbered_def by blast
      then show ?thesis using e(4) by (intro exI[of _ m]) (auto simp: map_get_set)
    qed
    then show ?thesis using Pair Some assms e(3) by (auto simp: numbered_def)
  qed
qed

lemma numbered_drain: "numbered h \<Longrightarrow> numbered (fst (drainAgent i h))"
  by (auto simp: drainAgent_def intro!: numbered_update split: option.split)

lemma numbered_drain_all: "numbered h \<Longrightarrow> numbered (fst (drain_all is h))"
proof (induction "is" arbitrary: h)
  case (Cons i "is")
  then show ?case using numbered_drain[OF Cons.prems, of i] by (simp add: Let_def split_beta)
qed simp

lemma numbered_heartbeat: "numbered h \<Longrightarrow> numbered (fst (heartbeat_drains as h))"
proof (induction as arbitrary: h)
  case (Cons x as)
  obtain i a where "x = (i, a)" by fastforce
  then show ?case using Cons numbered_drain[OF Cons.prems, of i] by (simp add: Let_def split_beta)
qed simp

lemma numbered_finish: "numbered h \<Longrightarrow> numbered (finishDrain i r b h)"
  by (auto simp: numbered_def finishDrain_def Let_def map_get_delete split: if_splits)

lemma numbered_perform: "numbered h \<Longrightarrow> numbered (fst (perform a h))"
proof (induction a h rule: perform.induct)
  case (1 role h)
  then show ?case by (simp add: numbered_spawn)
qed (simp_all add: Let_def split_beta numbered_finish numbered_drain numbered_update)

lemma numbered_exit:
  assumes "numbered h"
  shows "numbered (fst (onAgentExit i reason h))"
proof (cases "map_get (hy_agents h) i")
  case None
  then show ?thesis using assms by (simp add: onAgentExit_def)
next
  case (Some a)
  let ?h = "h \<lparr> hy_agents := map_delete i (hy_agents h) \<rparr>"
  have n: "numbered ?h" by (rule numbered_delete[OF assms])
  have l: "numbered (logHatcheryEvent r x y b c ?h)" for r x y b c
    using n numbered_same[of "logHatcheryEvent r x y b c ?h" ?h] by simp
  obtain h2 out where sp: "spawnAgent (ai_role a) ?h = (h2, out)" by fastforce
  then have "numbered h2" using numbered_spawn[OF n, of "ai_role a"] by simp
  then show ?thesis using Some n l sp by (cases out) (auto simp: onAgentExit_def Let_def)
qed

lemma numbered_label: "numbered (fst sys) \<Longrightarrow> numbered (fst (do_label l sys))"
proof (cases l)
  case (RunThread k)
  assume n: "numbered (fst sys)"
  show ?thesis
  proof (cases "snd sys ! k")
    case Nil
    then show ?thesis using n RunThread by (simp add: run_thread_def)
  next
    case (Cons a rest)
    then show ?thesis using numbered_perform[OF n, of a] RunThread
      by (simp add: run_thread_def Let_def split_beta)
  qed
qed (simp_all add: call_of_def Let_def split_beta start_hatchery_def shutdown_def pauseAll_def resume_def
      rebindActiveScope_def recycleAgentsForScope_def scaleUpTick_def scaleDownTick_def heartbeatTick_def
      heartbeat_def numbered_exit numbered_heartbeat numbered_drain_all numbered_update
      setPaused_def applyActiveScope_def lagSamplerTick_def)

lemma numbered_reachable: "hatchery_reachable cfg sys \<Longrightarrow> numbered (fst sys)"
proof (induction rule: hatchery_reachable.induct)
  case (initial now)
  show ?case by (simp add: numbered_def new_hatchery_def)
next
  case (more sys l sys')
  then show ?case by (auto elim!: hatchery_stepE simp: numbered_label)
qed

text \<open>
  C24. However the methods, timers and exits interleave, the hatchery never hands out an identifier
  still in use: an agent that is spawned gets a name no agent in the table has.
\<close>

theorem agent_ids_never_reused:
  assumes "hatchery_reachable cfg (h, threads)" "spawnAgent role h = (h', Some i)"
  shows "map_get (hy_agents h) i = None \<and> hy_agents h' = hy_agents h @ [(i, fresh_agent role (hy_now h))]"
  using spawn_is_fresh[of h role h' i] numbered_reachable[OF assms(1)] assms(2) spawn_effect(3)[OF assms(2)]
  by (simp add: map_set_fresh)

section \<open>Pausing\<close>

definition no_new :: "hatchery \<Rightarrow> hatchery \<Rightarrow> bool" where
  "no_new h h' = (\<forall>i. map_get (hy_agents h) i = None \<longrightarrow> map_get (hy_agents h') i = None)"

lemma no_new_refl [simp]: "no_new h h"
  by (simp add: no_new_def)

lemma no_new_trans: "no_new a b \<Longrightarrow> no_new b c \<Longrightarrow> no_new a c"
  by (simp add: no_new_def)

lemma no_new_update: "no_new h (update_agent i f h)"
  by (auto simp: no_new_def update_agent_def map_get_set split: option.split)

lemma no_new_ignores [simp]:
  "no_new h' (logHatcheryEvent r a i b c h) = no_new h' h" "no_new h' (h \<lparr> hy_lastScaleDown := x1 \<rparr>) = no_new h' h"
  "no_new h' (h \<lparr> hy_timers := x2 \<rparr>) = no_new h' h" "no_new h' (h \<lparr> hy_paused := x3 \<rparr>) = no_new h' h"
  "no_new h' (h \<lparr> hy_config := x4 \<rparr>) = no_new h' h" "no_new h' (h \<lparr> hy_estimators := x5 \<rparr>) = no_new h' h"
  "no_new h' (h \<lparr> hy_shuttingDown := x6 \<rparr>) = no_new h' h" "no_new h' (h \<lparr> hy_now := x7 \<rparr>) = no_new h' h"
  "no_new (h \<lparr> hy_shuttingDown := x6 \<rparr>) h' = no_new h h'" "no_new (h \<lparr> hy_timers := x2 \<rparr>) h' = no_new h h'"
  "no_new (h \<lparr> hy_config := x4 \<rparr>) h' = no_new h h'"
  by (simp_all add: no_new_def)

lemma no_new_drain: "no_new h (fst (drainAgent i h))"
  by (auto simp: drainAgent_def no_new_update split: option.split)

lemma no_new_drain_all: "no_new h (fst (drain_all is h))"
proof (induction "is" arbitrary: h)
  case (Cons i "is")
  then show ?case using no_new_trans[OF no_new_drain Cons.IH, of h i] by (simp add: Let_def split_beta)
qed simp

lemma no_new_heartbeat: "no_new h (fst (heartbeat_drains as h))"
proof (induction as arbitrary: h)
  case (Cons x as)
  obtain i a where "x = (i, a)" by fastforce
  then show ?case using Cons.IH no_new_trans[OF no_new_drain Cons.IH, of h i] by (simp add: Let_def split_beta)
qed simp

lemma no_new_finish: "no_new h (finishDrain i r b h)"
  by (simp add: no_new_def finishDrain_def Let_def map_get_delete)

lemma no_new_perform: "hy_paused h \<Longrightarrow> no_new h (fst (perform a h))"
proof (induction a h rule: perform.induct)
  case (1 role h)
  then show ?case by (simp add: spawnAgent_def)
qed (simp_all add: Let_def split_beta no_new_finish no_new_drain no_new_update)

lemma no_new_exit: "hy_paused h \<Longrightarrow> no_new h (fst (onAgentExit i reason h))"
  by (auto simp: onAgentExit_def Let_def spawnAgent_def no_new_def map_get_delete split: option.split)

text \<open>
  C25. As long as it stays paused a hatchery starts no agent: in no step does an agent appear that was
  not in the table, whatever methods, timers, exits and spawns still to do run.
\<close>

theorem paused_hatchery_starts_nobody:
  assumes "hatchery_step l (h, threads) (h', threads')" "hy_paused h" "hy_paused h'"
    and "map_get (hy_agents h') i \<noteq> None"
  shows "map_get (hy_agents h) i \<noteq> None"
proof -
  have s: "(h', threads') = do_label l (h, threads)" using assms(1) by (auto elim: hatchery_stepE)
  have "no_new h h'"
  proof (cases l)
    case (RunThread k)
    then show ?thesis using s no_new_perform[OF assms(2)]
      by (cases "threads ! k") (simp_all add: run_thread_def Let_def split_beta)
  next
    case CallShutdown
    then show ?thesis
      using s no_new_drain_all[of "h \<lparr> hy_shuttingDown := True, hy_timers := False \<rparr>" "alive_agents h"]
      by (auto simp: call_of_def shutdown_def Let_def split_beta)
  next
    case (CallRebind sc t)
    then show ?thesis using s no_new_drain_all[of "applyActiveScope sc t h" "alive_agents (applyActiveScope sc t h)"]
      by (auto simp: call_of_def rebindActiveScope_def recycleAgentsForScope_def applyActiveScope_def Let_def split_beta)
  qed (use s assms(2,3) in \<open>simp_all add: call_of_def Let_def split_beta start_hatchery_def pauseAll_def resume_def
      scaleUpTick_def scaleDownTick_def heartbeatTick_def heartbeat_def no_new_exit no_new_heartbeat no_new_update
      setPaused_def lagSamplerTick_def split: if_splits\<close>)
  then show ?thesis using assms(4) by (auto simp: no_new_def)
qed

section \<open>Restarts\<close>

fun spawn_many :: "nat \<Rightarrow> string \<Rightarrow> hatchery \<Rightarrow> hatchery" where
  "spawn_many 0 role h = h"
| "spawn_many (Suc n) role h = spawn_many n role (fst (spawnAgent role h))"

lemma spawn_counts:
  assumes "numbered h" "\<not> hy_paused h"
  shows "countRole (fst (spawnAgent role h)) role = countRole h role + 1"
    "\<not> hy_paused (fst (spawnAgent role h))"
proof -
  obtain h' i where sp: "spawnAgent role h = (h', Some i)"
    using assms(2) by (auto simp: spawnAgent_def Let_def)
  have "hy_agents h' = hy_agents h @ [(i, fresh_agent role (hy_now h))]"
    using spawn_effect(3)[OF sp] spawn_is_fresh[OF assms(1) sp] by (simp add: map_set_fresh)
  then show "countRole (fst (spawnAgent role h)) role = countRole h role + 1"
    using sp by (simp add: countRole_def fresh_agent_def)
  show "\<not> hy_paused (fst (spawnAgent role h))" using sp spawn_effect(1,5)[OF sp] by simp
qed

lemma spawn_many_counts:
  "numbered h \<Longrightarrow> \<not> hy_paused h \<Longrightarrow> countRole (spawn_many n role h) role = countRole h role + int n"
  by (induction n arbitrary: h) (simp_all add: spawn_counts numbered_spawn)

lemma role_state_count:
  "map_get (hc_roles (hy_config h)) role \<noteq> None \<Longrightarrow>
   \<exists>st. map_get (buildRoleStates h) role = Some st \<and> rl_count st = countRole h role"
proof -
  have "map_get rs role \<noteq> None \<Longrightarrow> \<exists>st. map_get (map (\<lambda>(role, _). (role, f role)) rs) role = Some st
      \<and> rl_count st = rl_count (f role)" for rs :: "(string, role_scaling) jsmap" and f :: "string \<Rightarrow> role_state"
    by (induction rs) auto
  from this[of "hc_roles (hy_config h)" "\<lambda>role. \<lparr> rl_count = countRole h role, rl_consumer = role @ ''-shared-events'',
          rl_lastScaleDownAt = coalesce (map_get (hy_lastScaleDown h) role) 0, rl_inFlight = in_flight h role \<rparr>"]
  show "map_get (hc_roles (hy_config h)) role \<noteq> None \<Longrightarrow> ?thesis" by (simp add: buildRoleStates_def)
qed

text \<open>
  The restart limit only lasts until the next scale-up: when an agent has exceeded it, its exit
  starts no successor, but the next tick decides to scale its role up if the role is below its
  minimum, and the spawns of that decision bring the role back to the minimum or above.
\<close>

theorem given_up_role_comes_back:
  assumes "hatchery_reachable cfg (h, threads)" "map_get (hy_agents h) i = Some a"
    and "\<not> hy_paused h" "\<not> hy_shuttingDown h" "ai_state a = Alive"
    and "int (length (recent_restarts h a)) > hc_maxRestarts (hy_config h)"
    and "role_of h (ai_role a) = Some rc" "rs_category rc \<noteq> TunerCat" "rs_min rc \<le> rs_max rc"
    and "onAgentExit i reason h = (h', new)" "countRole h' (ai_role a) < rs_min rc"
  shows "new = [] \<and> map_get (hy_agents h') i = None
       \<and> (\<exists>d \<in> set (current_decisions inp h'). sd_role d = ai_role a \<and> sd_action d = ScaleUp
            \<and> rs_min rc \<le> countRole (spawn_many (nat (sd_target d - sd_current d)) (ai_role a) h') (ai_role a))"
proof -
  let ?role = "ai_role a"
  have e: "h' = logHatcheryEvent ?role ''restart_exhausted'' i
        (countRole (h \<lparr> hy_agents := map_delete i (hy_agents h) \<rparr>) ?role)
        (countRole (h \<lparr> hy_agents := map_delete i (hy_agents h) \<rparr>) ?role)
        (h \<lparr> hy_agents := map_delete i (hy_agents h) \<rparr>) \<and> new = []"
    using assms(2-6,10) by (auto simp: onAgentExit_def Let_def)
  then have n: "numbered h'" "\<not> hy_paused h'" "hy_config h' = hy_config h"
    using numbered_delete[of h i] numbered_reachable[OF assms(1)] assms(3) by auto
  have rc: "map_get (hc_roles (hy_config h')) ?role = Some rc" using assms(7) n(3) by (simp add: role_of_def)
  obtain st where st: "map_get (buildRoleStates h') ?role = Some st" "rl_count st = countRole h' ?role"
    using role_state_count[of h' ?role] rc by auto
  let ?inp = "inp \<lparr> si_lambda := (\<lambda>role. map_option (\<lambda>e. snd (estimateLambda (hy_now h') e)) (map_get (hy_estimators h') role)),
              si_now := hy_now h' \<rparr>"
  let ?d = "role_decision (hy_config h') ?inp ?role rc st"
  have "?d \<in> set (current_decisions inp h')"
  proof -
    have "(?role, rc) \<in> set (hc_roles (hy_config h'))"
      using rc by (simp add: map_get_iff_map_of map_of_SomeD)
    then show ?thesis unfolding current_decisions_def decision_of_role using st(1) by blast
  qed
  moreover have "rs_min rc \<le> target_count ?inp ?role rc st"
    using target_count_bounds[OF assms(9)] by blast
  moreover from this have "sd_action ?d = ScaleUp" "sd_target ?d = target_count ?inp ?role rc st"
    "sd_current ?d = countRole h' ?role" "sd_role ?d = ?role"
    using assms(8,11) st(2) by (auto simp: role_decision_def scaling_action_for_def Let_def)
  ultimately have "\<exists>d \<in> set (current_decisions inp h'). sd_role d = ?role \<and> sd_action d = ScaleUp
      \<and> rs_min rc \<le> countRole (spawn_many (nat (sd_target d - sd_current d)) ?role h') ?role"
    using spawn_many_counts[OF n(1,2)] assms(11) by (intro bexI[of _ ?d]) auto
  then show ?thesis using e by (simp add: map_get_delete)
qed

end
