(* ===== verification/Hatchery_Examples.thy ===== *)
theory Hatchery_Examples
  imports Hatchery_Safety
begin

text \<open>
  Runs of the hatchery, evaluated step by step: what a decision taken before a shutdown still does
  after it, what two overlapping scaling ticks do to the maximum, when the approval server is
  started again, and when the restart limit is forgotten; with the examples at which the properties
  of the hatchery are applied.
\<close>

fun run_labels :: "hatchery_label list \<Rightarrow> hatchery_sys \<Rightarrow> hatchery_sys option" where
  "run_labels [] sys = Some sys"
| "run_labels (l # ls) sys = (if label_enabled l sys then run_labels ls (do_label l sys) else None)"

lemma run_labels_reachable:
  "run_labels ls sys = Some sys' \<Longrightarrow> hatchery_reachable cfg sys \<Longrightarrow> hatchery_reachable cfg sys'"
proof (induction ls arbitrary: sys)
  case (Cons l ls)
  then have "label_enabled l sys" "run_labels ls (do_label l sys) = Some sys'" by (auto split: if_splits)
  then show ?case using Cons.IH Cons.prems(2) hatchery_reachable.more[OF _ do_step] by blast
qed simp

definition small_config :: hatchery_config where
  "small_config =
     (loadHatcheryConfig (\<lambda>_. None))
       \<lparr> hc_roles := [(''facts'', role_defaults 1 4 ''swarm.events.>'' WorkerCat 50 10 360000 330000),
                      (''governance'', role_defaults 1 2 ''swarm.proposals.>'' GovernanceCat 20 5 60000 40000)] \<rparr>"

definition busy :: scaling_inputs where
  "busy = \<lparr> si_lambda = (\<lambda>_. None), si_latency = (\<lambda>_. None), si_lag = (\<lambda>_. 200), si_pressure = None, si_now = 0 \<rparr>"

definition started :: "hatchery_label list" where
  "started = CallStart # replicate 5 (RunThread 0)"

definition after_run :: "hatchery_label list \<Rightarrow> hatchery_sys" where
  "after_run ls = the (run_labels ls (new_hatchery small_config 1000, []))"

lemma after_run_reachable:
  "run_labels ls (new_hatchery small_config 1000, []) \<noteq> None \<Longrightarrow> hatchery_reachable small_config (after_run ls)"
  by (auto simp: after_run_def intro: run_labels_reachable initial)

definition shutdown_run :: "hatchery_label list" where
  "shutdown_run = started @ [TickUp busy, CallShutdown] @ replicate 7 (RunThread 1) @ [RunThread 2, RunThread 3]"

lemma shutdown_run_eval:
  "case run_labels shutdown_run (new_hatchery small_config 1000, []) of None \<Rightarrow> False | Some (h, threads) \<Rightarrow>
     hy_shuttingDown h \<and> list_all (\<lambda>t. t = []) threads
     \<and> map (\<lambda>(i, a). (i, ai_state a, ai_aborted a)) (hy_agents h)
       = [(''facts-2'', Alive, False), (''facts-3'', Alive, False), (''facts-4'', Alive, False), (''governance-2'', Alive, False)]"
  by code_simp

lemma shutdown_run_possible: "run_labels shutdown_run (new_hatchery small_config 1000, []) \<noteq> None"
  using shutdown_run_eval by (auto split: option.splits)

lemma shutdown_run_end:
  "let (h, threads) = after_run shutdown_run in
     hy_shuttingDown h \<and> list_all (\<lambda>t. t = []) threads
     \<and> map (\<lambda>(i, a). (i, ai_state a, ai_aborted a)) (hy_agents h)
       = [(''facts-2'', Alive, False), (''facts-3'', Alive, False), (''facts-4'', Alive, False), (''governance-2'', Alive, False)]"
  using shutdown_run_eval by (auto simp: after_run_def split: option.splits)

text \<open>
  A shutdown can leave agents running for good: agents can be spawned after it, by a scale-up
  decided before it, that are alive, never told to stop and that no thread will drain.
\<close>

theorem shutdown_can_leave_agents:
  "\<exists>h threads i a. hatchery_reachable small_config (h, threads) \<and> hy_shuttingDown h
     \<and> map_get (hy_agents h) i = Some a \<and> ai_state a = Alive \<and> \<not> ai_aborted a \<and> list_all (\<lambda>t. t = []) threads"
proof -
  obtain h threads where e: "after_run shutdown_run = (h, threads)" by fastforce
  have m: "hy_shuttingDown h" "list_all (\<lambda>t. t = []) threads"
    "map (\<lambda>(i, a). (i, ai_state a, ai_aborted a)) (hy_agents h)
       = [(''facts-2'', Alive, False), (''facts-3'', Alive, False), (''facts-4'', Alive, False), (''governance-2'', Alive, False)]"
    using shutdown_run_end e by (simp_all add: Let_def)
  obtain a as where "hy_agents h = (''facts-2'', a) # as" "ai_state a = Alive" "\<not> ai_aborted a"
    using m(3) by (cases "hy_agents h") (auto split: prod.splits)
  then show ?thesis
    using m(1,2) after_run_reachable[OF shutdown_run_possible] e
    by (intro exI[of _ h] exI[of _ threads] exI[of _ "''facts-2''"] exI[of _ a]) simp
qed

definition overlap_run :: "hatchery_label list" where
  "overlap_run = started @ [TickUp busy, TickUp busy] @ replicate 7 (RunThread 1) @ replicate 7 (RunThread 2)"

lemma overlap_run_eval:
  "case run_labels overlap_run (new_hatchery small_config 1000, []) of None \<Rightarrow> False | Some (h, threads) \<Rightarrow>
     countRole h ''facts'' = 7 \<and> map_option rs_max (role_of h ''facts'') = Some 4"
  by code_simp

lemma overlap_run_possible: "run_labels overlap_run (new_hatchery small_config 1000, []) \<noteq> None"
  using overlap_run_eval by (auto split: option.splits)

lemma overlap_run_end:
  "let (h, threads) = after_run overlap_run in
     countRole h ''facts'' = 7 \<and> map_option rs_max (role_of h ''facts'') = Some 4"
  using overlap_run_eval by (auto simp: after_run_def split: option.splits)

text \<open>
  The maximum of a role is a bound of each decision, not of the hatchery: two scaling ticks that
  overlap both add up to it.
\<close>

theorem overlapping_ticks_pass_maximum:
  "\<exists>h threads rc. hatchery_reachable small_config (h, threads) \<and> role_of h ''facts'' = Some rc
     \<and> countRole h ''facts'' > rs_max rc"
proof -
  obtain h threads where e: "after_run overlap_run = (h, threads)" by fastforce
  have "countRole h ''facts'' = 7" "map_option rs_max (role_of h ''facts'') = Some 4"
    using overlap_run_end e by (simp_all add: Let_def)
  moreover have "hatchery_reachable small_config (h, threads)"
    using after_run_reachable[OF overlap_run_possible] e by simp
  ultimately show ?thesis by (intro exI[of _ h] exI[of _ threads]) auto
qed

definition rebind_run :: "hatchery_label list" where
  "rebind_run = started @ [CallRebind ''b'' None, RunThread 1, RunThread 2] @ replicate 6 (RunThread 3)"

lemma rebind_run_eval:
  "case run_labels rebind_run (new_hatchery small_config 1000, []) of None \<Rightarrow> False | Some (h, threads) \<Rightarrow>
     hy_mitlStarts h = 2 \<and> map fst (hy_agents h) = [''facts-2'', ''governance-2''] \<and> list_all (\<lambda>t. t = []) threads"
  by code_simp

lemma rebind_run_possible: "run_labels rebind_run (new_hatchery small_config 1000, []) \<noteq> None"
  using rebind_run_eval by (auto split: option.splits)

lemma rebind_run_end:
  "let (h, threads) = after_run rebind_run in
     hy_mitlStarts h = 2 \<and> map fst (hy_agents h) = [''facts-2'', ''governance-2''] \<and> list_all (\<lambda>t. t = []) threads"
  using rebind_run_eval by (auto simp: after_run_def split: option.splits)

text \<open>
  Binding a started hatchery to another scope starts the approval server a second time in the same
  process, on the port the first start holds; nothing stops the first.
\<close>

theorem rebind_restarts_approval_server:
  "\<exists>h threads. hatchery_reachable small_config (h, threads) \<and> hy_mitlStarts h = 2 \<and> list_all (\<lambda>t. t = []) threads"
  using after_run_reachable[OF rebind_run_possible] rebind_run_end
  by (cases "after_run rebind_run") (auto simp: Let_def)

text \<open>Five exits at one time, each before the list of restarts reached the new agent.\<close>

definition crash_run :: "hatchery_label list" where
  "crash_run = started @ map (\<lambda>i. AgentExit i ''crash'') [''facts-1'', ''facts-2'', ''facts-3'', ''facts-4'', ''facts-5'']"

lemma crash_run_eval:
  "case run_labels crash_run (new_hatchery small_config 1000, []) of None \<Rightarrow> False | Some (h, threads) \<Rightarrow>
     hy_now h = 1000 \<and> hc_maxRestarts (hy_config h) = 3
     \<and> map (\<lambda>(i, a). (i, ai_restarts a)) (hy_agents h) = [(''governance-1'', []), (''facts-6'', [])]"
  by code_simp

lemma crash_run_possible: "run_labels crash_run (new_hatchery small_config 1000, []) \<noteq> None"
  using crash_run_eval by (auto split: option.splits)

lemma crash_run_end:
  "let (h, threads) = after_run crash_run in
     hy_now h = 1000 \<and> hc_maxRestarts (hy_config h) = 3
     \<and> map (\<lambda>(i, a). (i, ai_restarts a)) (hy_agents h) = [(''governance-1'', []), (''facts-6'', [])]"
  using crash_run_eval by (auto simp: after_run_def split: option.splits)

text \<open>
  The restart limit is forgotten by an agent that ends before its start was recorded: five
  successors can be started at the same time although three restarts are allowed.
\<close>

theorem restart_limit_forgotten:
  "\<exists>h threads. hatchery_reachable small_config (h, threads) \<and> hy_now h = 1000
     \<and> hc_maxRestarts (hy_config h) = 3 \<and> map fst (hy_agents h) = [''governance-1'', ''facts-6'']"
proof -
  obtain h threads where e: "after_run crash_run = (h, threads)" by fastforce
  have m: "hy_now h = 1000" "hc_maxRestarts (hy_config h) = 3"
    "map (\<lambda>(i, a). (i, ai_restarts a)) (hy_agents h) = [(''governance-1'', []), (''facts-6'', [])]"
    using crash_run_end e by (simp_all add: Let_def)
  have "map fst (hy_agents h) = map fst (map (\<lambda>(i, a). (i, ai_restarts a)) (hy_agents h))"
    by (simp add: split_beta)
  then have "map fst (hy_agents h) = [''governance-1'', ''facts-6'']" unfolding m(3) by simp
  then show ?thesis using m(1,2) after_run_reachable[OF crash_run_possible] e by auto
qed

section \<open>The properties of the hatchery at examples\<close>

lemma started_eval:
  "run_labels started (new_hatchery small_config 1000, []) \<noteq> None
   \<and> hy_agents (fst (after_run started))
     = [(''facts-1'', fresh_agent ''facts'' 1000), (''governance-1'', fresh_agent ''governance'' 1000)]
   \<and> snd (spawnAgent ''facts'' (fst (after_run started))) = Some ''facts-2''"
  by code_simp

lemma agent_ids_never_reused_witness:
  "map_get (hy_agents (fst (after_run started))) ''facts-2'' = None
   \<and> hy_agents (fst (spawnAgent ''facts'' (fst (after_run started))))
     = hy_agents (fst (after_run started)) @ [(''facts-2'', fresh_agent ''facts'' (hy_now (fst (after_run started))))]"
proof (rule agent_ids_never_reused)
  show "hatchery_reachable small_config (fst (after_run started), snd (after_run started))"
    using after_run_reachable[OF started_eval[THEN conjunct1]] by simp
  show "spawnAgent ''facts'' (fst (after_run started)) = (fst (spawnAgent ''facts'' (fst (after_run started))), Some ''facts-2'')"
    using started_eval by (metis prod.collapse)
qed

definition paused_sys :: hatchery_sys where
  "paused_sys = after_run (started @ [CallPause])"

lemma paused_sys_eval:
  "hy_paused (fst paused_sys) \<and> hy_paused (fst (do_label (RunThread 1) paused_sys))
   \<and> label_enabled (RunThread 1) paused_sys
   \<and> map fst (hy_agents (fst (do_label (RunThread 1) paused_sys))) = [''facts-1'', ''governance-1'']"
  by code_simp

lemma paused_hatchery_starts_nobody_witness:
  "map_get (hy_agents (fst paused_sys)) ''facts-1'' \<noteq> None"
proof (rule paused_hatchery_starts_nobody)
  show "hatchery_step (RunThread 1) (fst paused_sys, snd paused_sys)
      (fst (do_label (RunThread 1) paused_sys), snd (do_label (RunThread 1) paused_sys))"
    using do_step[OF paused_sys_eval[THEN conjunct2, THEN conjunct2, THEN conjunct1]]
    by (simp only: prod.collapse)
  have "''facts-1'' \<in> set (map fst (hy_agents (fst (do_label (RunThread 1) paused_sys))))"
    by (simp only: paused_sys_eval) simp
  then show "map_get (hy_agents (fst (do_label (RunThread 1) paused_sys))) ''facts-1'' \<noteq> None"
    by (simp only: map_get_None_iff map_keys_def) simp
qed (use paused_sys_eval in blast)+

definition failing_agent :: agent_instance where
  "failing_agent = (fresh_agent ''facts'' 1000) \<lparr> ai_restarts := [1000, 1000, 1000] \<rparr>"

definition failing_run :: "hatchery_label list" where
  "failing_run = started @ concat (map (\<lambda>k. [AgentExit (agent_name ''facts'' (k + 1)) ''crash'', RunThread (k + 1)]) [0, 1, 2])"

lemma failing_run_eval:
  "case run_labels failing_run (new_hatchery small_config 1000, []) of None \<Rightarrow> False | Some (h, threads) \<Rightarrow>
     map_get (hy_agents h) ''facts-4'' = Some failing_agent \<and> \<not> hy_paused h \<and> \<not> hy_shuttingDown h
     \<and> recent_restarts h failing_agent = [1000, 1000, 1000, 1000] \<and> hc_maxRestarts (hy_config h) = 3
     \<and> role_of h ''facts'' = Some (role_defaults 1 4 ''swarm.events.>'' WorkerCat 50 10 360000 330000)
     \<and> countRole (fst (onAgentExit ''facts-4'' ''crash'' h)) ''facts'' = 0"
  by code_simp

lemma failing_run_possible: "run_labels failing_run (new_hatchery small_config 1000, []) \<noteq> None"
  using failing_run_eval by (auto split: option.splits)

lemma failing_run_end:
  "map_get (hy_agents (fst (after_run failing_run))) ''facts-4'' = Some failing_agent"
  "\<not> hy_paused (fst (after_run failing_run))" "\<not> hy_shuttingDown (fst (after_run failing_run))"
  "recent_restarts (fst (after_run failing_run)) failing_agent = [1000, 1000, 1000, 1000]"
  "hc_maxRestarts (hy_config (fst (after_run failing_run))) = 3"
  "role_of (fst (after_run failing_run)) ''facts'' = Some (role_defaults 1 4 ''swarm.events.>'' WorkerCat 50 10 360000 330000)"
  "countRole (fst (onAgentExit ''facts-4'' ''crash'' (fst (after_run failing_run)))) ''facts'' = 0"
  using failing_run_eval by (auto simp: after_run_def split: option.splits)

lemma given_up_role_comes_back_witness:
  "let (h', new) = onAgentExit ''facts-4'' ''crash'' (fst (after_run failing_run)) in
   new = [] \<and> map_get (hy_agents h') ''facts-4'' = None
   \<and> (\<exists>d \<in> set (current_decisions busy h'). sd_role d = ''facts'' \<and> sd_action d = ScaleUp
        \<and> 1 \<le> countRole (spawn_many (nat (sd_target d - sd_current d)) ''facts'' h') ''facts'')"
proof -
  obtain h' new where x: "onAgentExit ''facts-4'' ''crash'' (fst (after_run failing_run)) = (h', new)" by fastforce
  have role: "ai_role failing_agent = ''facts''" by (simp add: failing_agent_def fresh_agent_def)
  have "new = [] \<and> map_get (hy_agents h') ''facts-4'' = None
      \<and> (\<exists>d \<in> set (current_decisions busy h'). sd_role d = ai_role failing_agent \<and> sd_action d = ScaleUp
        \<and> rs_min (role_defaults 1 4 ''swarm.events.>'' WorkerCat 50 10 360000 330000)
            \<le> countRole (spawn_many (nat (sd_target d - sd_current d)) (ai_role failing_agent) h') (ai_role failing_agent))"
  proof (rule given_up_role_comes_back[where h = "fst (after_run failing_run)" and cfg = small_config])
    show "hatchery_reachable small_config (fst (after_run failing_run), snd (after_run failing_run))"
      using after_run_reachable[OF failing_run_possible] by simp
    show "int (length (recent_restarts (fst (after_run failing_run)) failing_agent))
        > hc_maxRestarts (hy_config (fst (after_run failing_run)))"
      by (simp add: failing_run_end)
    show "role_of (fst (after_run failing_run)) (ai_role failing_agent)
        = Some (role_defaults 1 4 ''swarm.events.>'' WorkerCat 50 10 360000 330000)"
      by (simp add: role failing_run_end)
    show "onAgentExit ''facts-4'' ''crash'' (fst (after_run failing_run)) = (h', new)" by (rule x)
    show "countRole h' (ai_role failing_agent)
        < rs_min (role_defaults 1 4 ''swarm.events.>'' WorkerCat 50 10 360000 330000)"
      using failing_run_end(7) x by (simp add: role role_defaults_def)
    show "ai_state failing_agent = Alive" by (simp add: failing_agent_def fresh_agent_def)
  qed (use failing_run_end in \<open>simp_all add: role_defaults_def\<close>)
  then show ?thesis using x by (simp add: role role_defaults_def)
qed

definition one_role :: hatchery_config where
  "one_role = small_config \<lparr> hc_roles := [(''facts'', role_defaults 1 4 ''swarm.events.>'' WorkerCat 50 10 360000 330000)] \<rparr>"

definition idle_role :: role_state where
  "idle_role = \<lparr> rl_count = 0, rl_consumer = ''facts-shared-events'', rl_lastScaleDownAt = 0, rl_inFlight = 0 \<rparr>"

lemma scaling_targets_bounded_witness:
  "let d = role_decision one_role busy ''facts'' (role_defaults 1 4 ''swarm.events.>'' WorkerCat 50 10 360000 330000) idle_role in
   \<exists>rc st. (sd_role d, rc) \<in> set (hc_roles one_role) \<and> map_get [(''facts'', idle_role)] (sd_role d) = Some st
     \<and> sd_current d = rl_count st
     \<and> (if rs_category rc = TunerCat then sd_action d = NoScaling
        else rs_min rc \<le> sd_target d \<and> sd_target d \<le> rs_max rc
          \<and> (sd_action d = ScaleUp \<longleftrightarrow> sd_target d > sd_current d)
          \<and> (sd_action d = ScaleDown \<longrightarrow> sd_target d < sd_current d)
          \<and> (rl_count st < rs_min rc \<longrightarrow> sd_action d = ScaleUp))"
  unfolding Let_def
proof (rule scaling_targets_bounded[where cfg = one_role and states = "[(''facts'', idle_role)]" and inp = busy])
  show "role_decision one_role busy ''facts'' (role_defaults 1 4 ''swarm.events.>'' WorkerCat 50 10 360000 330000) idle_role
      \<in> set (evaluateScalingDecisions one_role [(''facts'', idle_role)] busy)"
    by (auto simp: decision_of_role one_role_def)
qed (auto simp: one_role_def role_defaults_def)

end
