(* ===== verification/Gset_Baseline.thy ===== *)
theory Gset_Baseline
  imports Swarm_World "HOL-Library.Word"
begin

text \<open>
  The grow-only-set baseline of \<open>src/baselines/crdt-gset.ts\<close>: the set itself with its insertion log,
  the coordinator that merges the replicas of the agents, its content addresses (32-bit hashes),
  contradictions and metrics.

  The clock is the argument \<open>now\<close> of the submission; latencies are left out.
\<close>

unbundle bit_operations_syntax

section \<open>The grow-only set\<close>

record gset_fact =
  gf_id :: string
  gf_content :: string
  gf_agent :: string
  gf_epoch :: int
  gf_time :: int
  gf_dimension :: "string option"
  gf_metadata :: "json_obj option"

record gset =
  st_facts :: "(string, gset_fact) jsmap"
  st_log :: "gset_fact list"

definition empty_gset :: gset where
  "empty_gset = \<lparr> st_facts = [], st_log = [] \<rparr>"

definition gset_size :: "gset \<Rightarrow> nat" where
  "gset_size s = length (st_facts s)"

definition gset_add :: "gset_fact \<Rightarrow> gset \<Rightarrow> gset \<times> bool" where
  "gset_add f s =
     (if map_has (st_facts s) (gf_id f) then (s, False)
      else (s \<lparr> st_facts := map_set (gf_id f) f (st_facts s), st_log := st_log s @ [f] \<rparr>, True))"

definition getAll :: "gset \<Rightarrow> gset_fact list" where
  "getAll s = map snd (st_facts s)"

definition getByDimension :: "string \<Rightarrow> gset \<Rightarrow> gset_fact list" where
  "getByDimension d s = filter (\<lambda>f. gf_dimension f = Some d) (getAll s)"

definition getByAgent :: "string \<Rightarrow> gset \<Rightarrow> gset_fact list" where
  "getByAgent a s = filter (\<lambda>f. gf_agent f = a) (getAll s)"

definition getByEpoch :: "int \<Rightarrow> gset \<Rightarrow> gset_fact list" where
  "getByEpoch e s = filter (\<lambda>f. gf_epoch f = e) (getAll s)"

record merge_result =
  mg_added :: nat
  mg_duplicates :: nat
  mg_total :: nat

fun merge_loop :: "gset_fact list \<Rightarrow> gset \<Rightarrow> nat \<Rightarrow> nat \<Rightarrow> gset \<times> nat \<times> nat" where
  "merge_loop [] s added duplicates = (s, added, duplicates)"
| "merge_loop (f # fs) s added duplicates =
     (case gset_add f s of
        (s', True) \<Rightarrow> merge_loop fs s' (added + 1) duplicates
      | (s', False) \<Rightarrow> merge_loop fs s' added (duplicates + 1))"

definition gset_merge :: "gset \<Rightarrow> gset \<Rightarrow> gset \<times> merge_result" where
  "gset_merge other s =
     (case merge_loop (getAll other) s 0 0 of
        (s', added, duplicates) \<Rightarrow>
          (s', \<lparr> mg_added = added, mg_duplicates = duplicates, mg_total = gset_size s' \<rparr>))"

definition set_reconstructAtEpoch :: "int \<Rightarrow> gset \<Rightarrow> gset_fact list" where
  "set_reconstructAtEpoch epoch s = filter (\<lambda>f. gf_epoch f \<le> epoch) (st_log s)"

section \<open>Content addresses\<close>

text \<open>\<open>((hash << 5) - hash + char) | 0\<close> on 32-bit integers.\<close>

definition hash_step :: "32 word \<Rightarrow> char \<Rightarrow> 32 word" where
  "hash_step h c = push_bit 5 h - h + of_nat (of_char c)"

definition hex_digit :: "nat \<Rightarrow> char" where
  "hex_digit n = ''0123456789abcdef'' ! (n mod 16)"

definition hex8 :: "32 word \<Rightarrow> string" where
  "hex8 w = map (\<lambda>i. hex_digit (unat (drop_bit (4 * i) w AND 15))) [7, 6, 5, 4, 3, 2, 1, 0]"

definition int_text :: "int \<Rightarrow> string" where
  "int_text n = (if n < 0 then CHR ''-'' # nat_digits (nat (- n)) else nat_digits (nat n))"

definition contentHash :: "string \<Rightarrow> string \<Rightarrow> int \<Rightarrow> string" where
  "contentHash agentId content epoch =
     ''fact-'' @ hex8 (foldl hash_step 0 (agentId @ '':'' @ content @ '':'' @ int_text epoch))"

section \<open>The coordinator\<close>

record gset_coordinator =
  co_agents :: "(string, gset) jsmap"
  co_global :: gset
  co_epoch :: int

definition new_coordinator :: gset_coordinator where
  "new_coordinator = \<lparr> co_agents = [], co_global = empty_gset, co_epoch = 0 \<rparr>"

definition gset_addAgent :: "string \<Rightarrow> gset_coordinator \<Rightarrow> gset_coordinator" where
  "gset_addAgent agentId c = c \<lparr> co_agents := map_set agentId empty_gset (co_agents c) \<rparr>"

definition submitted_fact ::
  "string \<Rightarrow> string \<Rightarrow> string option \<Rightarrow> json_obj option \<Rightarrow> int \<Rightarrow> int \<Rightarrow> gset_fact" where
  "submitted_fact agentId content dimension metadata epoch now =
     \<lparr> gf_id = contentHash agentId content epoch, gf_content = content, gf_agent = agentId,
       gf_epoch = epoch, gf_time = now, gf_dimension = dimension, gf_metadata = metadata \<rparr>"

definition submitFact ::
  "string \<Rightarrow> string \<Rightarrow> string option \<Rightarrow> json_obj option \<Rightarrow> int \<Rightarrow> (gset_coordinator, gset_fact) exec" where
  "submitFact agentId content dimension metadata now c =
     (case map_get (co_agents c) agentId of
        None \<Rightarrow> raise (JsError (''Unknown agent: '' @ agentId)) c
      | Some local \<Rightarrow>
         (let f = submitted_fact agentId content dimension metadata (co_epoch c) now in
          ret f (c \<lparr> co_agents := map_set agentId (fst (gset_add f local)) (co_agents c) \<rparr>)))"

fun collect_local :: "gset list \<Rightarrow> gset \<Rightarrow> gset \<times> nat" where
  "collect_local [] g = (g, 0)"
| "collect_local (l # ls) g =
     (case gset_merge l g of
        (g', res) \<Rightarrow> (case collect_local ls g' of (g'', n) \<Rightarrow> (g'', mg_added res + n)))"

record sync_result =
  sr_epoch :: int
  sr_factsAdded :: nat
  sr_totalFacts :: nat
  sr_agentCount :: nat

definition synchronize :: "gset_coordinator \<Rightarrow> gset_coordinator \<times> sync_result" where
  "synchronize c =
    (case collect_local (map snd (co_agents c)) (co_global c) of
       (g, added) \<Rightarrow>
         (c \<lparr> co_global := g, co_agents := map (\<lambda>(a, l). (a, fst (gset_merge g l))) (co_agents c) \<rparr>,
          \<lparr> sr_epoch = co_epoch c, sr_factsAdded = added, sr_totalFacts = gset_size g,
            sr_agentCount = length (co_agents c) \<rparr>))"

definition gset_nextEpoch :: "gset_coordinator \<Rightarrow> gset_coordinator \<times> int" where
  "gset_nextEpoch c = (c \<lparr> co_epoch := co_epoch c + 1 \<rparr>, co_epoch c + 1)"

definition gset_reconstructAtEpoch :: "int \<Rightarrow> gset_coordinator \<Rightarrow> gset_fact list" where
  "gset_reconstructAtEpoch epoch c = set_reconstructAtEpoch epoch (co_global c)"

section \<open>Contradictions\<close>

text \<open>Groups in the order of their first element, as a \<open>Map\<close> of arrays collects them.\<close>

definition group_into :: "('a \<Rightarrow> 'k) \<Rightarrow> 'a \<Rightarrow> ('k, 'a list) jsmap \<Rightarrow> ('k, 'a list) jsmap" where
  "group_into key x m = map_set (key x) (coalesce (map_get m (key x)) [] @ [x]) m"

definition groups_by :: "('a \<Rightarrow> 'k) \<Rightarrow> 'a list \<Rightarrow> ('k, 'a list) jsmap" where
  "groups_by key xs = fold (group_into key) xs []"

fun pairs_of :: "'a list \<Rightarrow> ('a \<times> 'a) list" where
  "pairs_of [] = []"
| "pairs_of (x # xs) = map (Pair x) xs @ pairs_of xs"

record gset_contradiction =
  gx_dimension :: string
  gx_factA :: gset_fact
  gx_factB :: gset_fact
  gx_epoch :: int

definition dimension_contradictions :: "int \<Rightarrow> string \<Rightarrow> gset_fact list \<Rightarrow> gset_contradiction list" where
  "dimension_contradictions epoch d fs =
     map (\<lambda>(g, h). \<lparr> gx_dimension = d, gx_factA = hd g, gx_factB = hd h, gx_epoch = epoch \<rparr>)
       (pairs_of (map snd (groups_by gf_content fs)))"

definition with_dimension :: "gset_fact list \<Rightarrow> gset_fact list" where
  "with_dimension fs = filter (\<lambda>f. coalesce (gf_dimension f) [] \<noteq> []) fs"

definition gset_detectContradictions :: "gset_coordinator \<Rightarrow> gset_contradiction list" where
  "gset_detectContradictions c =
     concat (map (\<lambda>(d, fs). dimension_contradictions (co_epoch c) d fs)
       (groups_by (\<lambda>f. coalesce (gf_dimension f) []) (with_dimension (getAll (co_global c)))))"

section \<open>Metrics\<close>

record gset_metrics =
  gm_falsFactInState :: bool
  gm_stateReconstructible :: bool
  gm_totalFacts :: nat
  gm_contradictions :: nat

definition gset_collectMetrics :: "gset_coordinator \<Rightarrow> string option \<Rightarrow> gset_metrics" where
  "gset_collectMetrics c falseFact =
     \<lparr> gm_falsFactInState =
         (case falseFact of None \<Rightarrow> False
          | Some content \<Rightarrow> list_ex (\<lambda>f. gf_content f = content) (getAll (co_global c))),
       gm_stateReconstructible = list_all (\<lambda>f. gf_epoch f = 0) (gset_reconstructAtEpoch 0 c),
       gm_totalFacts = gset_size (co_global c),
       gm_contradictions = length (gset_detectContradictions c) \<rparr>"

end
