(* ===== verification/Gset_Safety.thy ===== *)
theory Gset_Safety
  imports Gset_Baseline
begin

text \<open>
  What the grow-only-set baseline guarantees. A store that only grows, seen as a partial map, obeys
  the locale \<open>grow_only\<close>; the set of the source is its interpretation \<open>gs\<close>. From it follow what a
  synchronisation makes of the replicas, that facts whose identifiers collide keep two replicas
  apart for good, and when a reconstruction of a past epoch is stable.
\<close>

section \<open>Stores that only grow\<close>

locale grow_only =
  fixes wf :: "'s \<Rightarrow> bool"
    and view :: "'s \<Rightarrow> 'k \<Rightarrow> 'v option"
    and merge :: "'s \<Rightarrow> 's \<Rightarrow> 's"
  assumes view_merge: "wf s \<Longrightarrow> wf t \<Longrightarrow> view (merge s t) k = or_else (view s k) (view t k)"
    and wf_merge: "wf s \<Longrightarrow> wf t \<Longrightarrow> wf (merge s t)"
begin

definition agree :: "'s \<Rightarrow> 's \<Rightarrow> bool" where
  "agree s t = (\<forall>k v w. view s k = Some v \<longrightarrow> view t k = Some w \<longrightarrow> v = w)"

lemma merge_idem: "wf s \<Longrightarrow> view (merge s s) = view s"
  by (rule ext) (auto simp: view_merge, metis or_else.simps option.exhaust)

lemma merge_assoc:
  "wf s \<Longrightarrow> wf t \<Longrightarrow> wf u \<Longrightarrow> view (merge (merge s t) u) = view (merge s (merge t u))"
  by (rule ext) (auto simp: view_merge wf_merge, metis or_else.simps option.exhaust)

lemma merge_commute:
  assumes "wf s" "wf t" "agree s t"
  shows "view (merge s t) = view (merge t s)"
proof
  fix k
  show "view (merge s t) k = view (merge t s) k"
    using assms by (cases "view s k"; cases "view t k") (auto simp: view_merge agree_def)
qed

lemma merge_keeps: "wf s \<Longrightarrow> wf t \<Longrightarrow> view s k = Some v \<Longrightarrow> view (merge s t) k = Some v"
  by (simp add: view_merge)

lemma merge_all_wf:
  assumes "wf s" "\<forall>t \<in> set ts. wf t"
  shows "wf (fold (\<lambda>t s. merge s t) ts s)"
  using assms by (induction ts arbitrary: s) (auto simp: wf_merge)

lemma merge_all_keeps:
  assumes "wf s" "\<forall>t \<in> set ts. wf t" "view s k = Some v"
  shows "view (fold (\<lambda>t s. merge s t) ts s) k = Some v"
  using assms by (induction ts arbitrary: s) (auto simp: wf_merge view_merge)

lemma merge_all_from:
  assumes "wf s" "\<forall>t \<in> set ts. wf t" "view (fold (\<lambda>t s. merge s t) ts s) k = Some v"
  shows "view s k = Some v \<or> (\<exists>t \<in> set ts. view t k = Some v)"
  using assms
proof (induction ts arbitrary: s)
  case (Cons t ts)
  then show ?case
    using Cons.IH[of "merge s t"] by (auto simp: wf_merge view_merge or_else_eq_Some)
qed simp

lemma merge_all_covers:
  assumes "wf s" "\<forall>t \<in> set ts. wf t" "t \<in> set ts" "view t k \<noteq> None"
  shows "view (fold (\<lambda>t s. merge s t) ts s) k \<noteq> None"
  using assms
proof (induction ts arbitrary: s)
  case (Cons t' ts)
  show ?case
  proof (cases "t = t'")
    case True
    then have "view (merge s t') k \<noteq> None"
      using Cons.prems by (cases "view s k") (auto simp: view_merge)
    then show ?thesis
      using merge_all_keeps[of "merge s t'" ts] Cons.prems by (auto simp: wf_merge)
  qed (use Cons in \<open>auto simp: wf_merge\<close>)
qed simp

text \<open>If all stores agree, merging them and handing the result back makes them equal.\<close>

lemma merge_all_converges:
  assumes "wf s" "\<forall>t \<in> set ts. wf t" "t \<in> set ts"
    and "\<And>u u'. u \<in> insert s (set ts) \<Longrightarrow> u' \<in> insert s (set ts) \<Longrightarrow> agree u u'"
  shows "view (merge t (fold (\<lambda>t s. merge s t) ts s)) = view (fold (\<lambda>t s. merge s t) ts s)"
proof
  fix k
  let ?g = "fold (\<lambda>t s. merge s t) ts s"
  have wfs: "wf t" "wf ?g" using assms merge_all_wf by auto
  show "view (merge t ?g) k = view ?g k"
  proof (cases "view t k")
    case (Some v)
    then obtain w where w: "view ?g k = Some w"
      using merge_all_covers[OF assms(1,2,3)] by fastforce
    have "view s k = Some w \<or> (\<exists>t \<in> set ts. view t k = Some w)"
      using merge_all_from[OF assms(1,2) w] .
    then obtain u where "u \<in> insert s (set ts)" "view u k = Some w" by auto
    then have "v = w" using assms(3) assms(4)[of t u] Some unfolding agree_def by auto
    then show ?thesis using wfs Some w by (simp add: view_merge)
  qed (use wfs in \<open>simp add: view_merge\<close>)
qed

end

section \<open>The set of the source\<close>

definition gset_view :: "gset \<Rightarrow> string \<Rightarrow> gset_fact option" where
  "gset_view s = map_get (st_facts s)"

definition keyed :: "gset \<Rightarrow> bool" where
  "keyed s = (map_wf (st_facts s) \<and> (\<forall>(k, f) \<in> set (st_facts s). gf_id f = k))"

definition add_all :: "gset_fact list \<Rightarrow> gset \<Rightarrow> gset" where
  "add_all fs s = fold (\<lambda>f s. fst (gset_add f s)) fs s"

lemma add_all_simps [simp]:
  "add_all [] s = s" "add_all (f # fs) s = add_all fs (fst (gset_add f s))"
  by (simp_all add: add_all_def)

lemma merge_loop_state: "fst (merge_loop fs s a d) = add_all fs s"
  by (induction fs arbitrary: s a d) (auto simp: gset_add_def split: prod.split bool.split)

lemma gset_merge_state: "fst (gset_merge other s) = add_all (getAll other) s"
  using merge_loop_state[of "getAll other" s 0 0] by (auto simp: gset_merge_def split: prod.splits)

lemma map_set_entries: "set (map_set k v m) \<subseteq> insert (k, v) (set m)"
  by (induction k v m rule: map_set.induct) auto

lemma keyed_empty [simp]: "keyed empty_gset" "gset_view empty_gset k = None"
  by (simp_all add: keyed_def empty_gset_def gset_view_def)

lemma keyed_add [simp]: "keyed s \<Longrightarrow> keyed (fst (gset_add f s))"
  using map_set_entries[of "gf_id f" f "st_facts s"] by (auto simp: keyed_def gset_add_def)

lemma view_add:
  "gset_view (fst (gset_add f s)) k = or_else (gset_view s k) (if k = gf_id f then Some f else None)"
  by (cases "map_get (st_facts s) k")
    (auto simp: gset_view_def gset_add_def map_has_def map_get_set)

lemma keyed_add_all [simp]: "keyed s \<Longrightarrow> keyed (add_all fs s)"
  by (induction fs arbitrary: s) auto

lemma view_add_all:
  "gset_view (add_all fs s) k = or_else (gset_view s k) (List.find (\<lambda>f. gf_id f = k) fs)"
  by (induction fs arbitrary: s) (auto simp: view_add, (metis or_else.simps option.exhaust)+)

lemma view_id: "keyed s \<Longrightarrow> gset_view s k = Some f \<Longrightarrow> gf_id f = k"
  by (auto simp: keyed_def gset_view_def map_get_iff_map_of dest: map_of_SomeD)

lemma find_keyed_entries:
  "\<forall>(k, f) \<in> set m. gf_id f = k \<Longrightarrow> List.find (\<lambda>f. gf_id f = k) (map snd m) = map_get m k"
  by (induction m) auto

lemma find_getAll: "keyed s \<Longrightarrow> List.find (\<lambda>f. gf_id f = k) (getAll s) = gset_view s k"
  unfolding keyed_def gset_view_def getAll_def by (blast intro: find_keyed_entries)

interpretation gs: grow_only keyed gset_view "\<lambda>s t. fst (gset_merge t s)"
  by unfold_locales (simp_all add: gset_merge_state view_add_all find_getAll)

section \<open>Histories of the coordinator\<close>

datatype gset_op =
    OpAgent string
  | OpSubmit string string "string option" "json_obj option" int
  | OpSync
  | OpNext

fun gset_do :: "gset_op \<Rightarrow> gset_coordinator \<Rightarrow> gset_coordinator" where
  "gset_do (OpAgent a) c = gset_addAgent a c"
| "gset_do (OpSubmit a x d m now) c = fst (submitFact a x d m now c)"
| "gset_do OpSync c = fst (synchronize c)"
| "gset_do OpNext c = fst (gset_nextEpoch c)"

definition gset_run :: "gset_op list \<Rightarrow> gset_coordinator \<Rightarrow> gset_coordinator" where
  "gset_run ops c = fold gset_do ops c"

lemma gset_run_simps [simp]:
  "gset_run [] c = c" "gset_run (o1 # ops) c = gset_run ops (gset_do o1 c)"
  "gset_run (ops1 @ ops2) c = gset_run ops2 (gset_run ops1 c)"
  by (simp_all add: gset_run_def)

definition merged :: "gset_coordinator \<Rightarrow> gset" where
  "merged c = fold (\<lambda>t s. fst (gset_merge t s)) (map snd (co_agents c)) (co_global c)"

lemma collect_local_state: "fst (collect_local ls g) = fold (\<lambda>t s. fst (gset_merge t s)) ls g"
  by (induction ls arbitrary: g) (auto split: prod.split, metis fst_conv)

lemma synchronize_state:
  "fst (synchronize c)
   = c \<lparr> co_global := merged c, co_agents := map (\<lambda>(a, l). (a, fst (gset_merge (merged c) l))) (co_agents c) \<rparr>"
  using collect_local_state[of "map snd (co_agents c)" "co_global c"]
  by (auto simp: synchronize_def merged_def split: prod.splits)

definition local_sets :: "gset_coordinator \<Rightarrow> gset set" where
  "local_sets c = snd ` set (co_agents c)"

definition all_keyed :: "gset_coordinator \<Rightarrow> bool" where
  "all_keyed c = (keyed (co_global c) \<and> (\<forall>l \<in> local_sets c. keyed l))"

lemma local_sets_set: "local_sets (c \<lparr> co_agents := map_set a l (co_agents c) \<rparr>) \<subseteq> insert l (local_sets c)"
  using map_set_entries[of a l "co_agents c"] by (force simp: local_sets_def)

lemma local_get: "map_get (co_agents c) a = Some l \<Longrightarrow> l \<in> local_sets c"
  by (force simp: local_sets_def map_get_iff_map_of dest: map_of_SomeD)

lemma map_get_map_values:
  "map_get (map (\<lambda>(k, v). (k, g v)) m) k = map_option g (map_get m k)"
  by (induction m) auto

lemma keyed_merged: "all_keyed c \<Longrightarrow> keyed (merged c)"
  unfolding merged_def all_keyed_def local_sets_def by (rule gs.merge_all_wf) auto

lemma all_keyed_do: "all_keyed c \<Longrightarrow> all_keyed (gset_do op c)"
proof (induction op)
  case (OpAgent a)
  then show ?case using local_sets_set[where c = c and a = a and l = empty_gset]
    by (auto simp: all_keyed_def gset_addAgent_def)
next
  case (OpSubmit a x d m now)
  show ?case
  proof (cases "map_get (co_agents c) a")
    case (Some l)
    define f where "f = submitted_fact a x d m (co_epoch c) now"
    have "keyed l" using OpSubmit local_get[OF Some] by (auto simp: all_keyed_def)
    then show ?thesis using OpSubmit Some local_sets_set[where c = c and a = a and l = "fst (gset_add f l)"]
      by (auto simp: all_keyed_def submitFact_def Let_def f_def)
  qed (use OpSubmit in \<open>simp add: submitFact_def\<close>)
next
  case OpSync
  then show ?case using keyed_merged[of c]
    by (auto simp: synchronize_state all_keyed_def local_sets_def gset_merge_state)
next
  case OpNext
  then show ?case by (simp add: gset_nextEpoch_def all_keyed_def local_sets_def)
qed

lemma all_keyed_run: "all_keyed c \<Longrightarrow> all_keyed (gset_run ops c)"
  by (induction ops arbitrary: c) (auto simp: all_keyed_do)

lemma all_keyed_new [simp]: "all_keyed new_coordinator"
  by (simp add: all_keyed_def new_coordinator_def local_sets_def)

section \<open>What a synchronisation achieves\<close>

text \<open>
  After any history, if no two facts share an identifier, a synchronisation gives the global
  set and every replica the same facts: exactly those some replica or the global set held before.
\<close>

theorem synchronize_converges:
  assumes "c = gset_run ops new_coordinator"
    and "\<And>s t k f g. s \<in> insert (co_global c) (local_sets c) \<Longrightarrow> t \<in> insert (co_global c) (local_sets c)
           \<Longrightarrow> gset_view s k = Some f \<Longrightarrow> gset_view t k = Some g \<Longrightarrow> f = g"
  shows "(\<forall>l \<in> local_sets (fst (synchronize c)). gset_view l = gset_view (co_global (fst (synchronize c))))
       \<and> (\<forall>k f. gset_view (co_global (fst (synchronize c))) k = Some f
            \<longleftrightarrow> (\<exists>s \<in> insert (co_global c) (local_sets c). gset_view s k = Some f))"
proof -
  have k: "all_keyed c" by (simp add: assms(1) all_keyed_run)
  then have wf: "keyed (co_global c)" "\<forall>t \<in> set (map snd (co_agents c)). keyed t"
    by (auto simp: all_keyed_def local_sets_def)
  have agree: "gs.agree u u'" if "u \<in> insert (co_global c) (set (map snd (co_agents c)))"
    "u' \<in> insert (co_global c) (set (map snd (co_agents c)))" for u u'
    using assms(2)[of u u'] that unfolding gs.agree_def local_sets_def by auto
  have same: "gset_view (fst (gset_merge (merged c) l)) = gset_view (merged c)" if "l \<in> local_sets c" for l
    unfolding merged_def
    by (rule gs.merge_all_converges[OF wf _ agree]) (use that in \<open>auto simp: local_sets_def\<close>)
  have covers: "gset_view (merged c) k = Some f \<longleftrightarrow> (\<exists>s \<in> insert (co_global c) (local_sets c). gset_view s k = Some f)" for k f
  proof
    assume "gset_view (merged c) k = Some f"
    then show "\<exists>s \<in> insert (co_global c) (local_sets c). gset_view s k = Some f"
      using gs.merge_all_from[OF wf] unfolding merged_def local_sets_def by fastforce
  next
    assume "\<exists>s \<in> insert (co_global c) (local_sets c). gset_view s k = Some f"
    then obtain s where s: "s \<in> insert (co_global c) (local_sets c)" "gset_view s k = Some f" by blast
    then have "gset_view (merged c) k \<noteq> None"
      using gs.merge_all_keeps[OF wf] gs.merge_all_covers[OF wf] unfolding merged_def local_sets_def by fastforce
    then obtain g where g: "gset_view (merged c) k = Some g" by blast
    then obtain t where "t \<in> insert (co_global c) (local_sets c)" "gset_view t k = Some g"
      using gs.merge_all_from[OF wf] unfolding merged_def local_sets_def by fastforce
    then show "gset_view (merged c) k = Some f" using assms(2) s g by blast
  qed
  have "local_sets (fst (synchronize c)) = (\<lambda>l. fst (gset_merge (merged c) l)) ` local_sets c"
    by (force simp: synchronize_state local_sets_def)
  then show ?thesis using same covers by (simp add: synchronize_state)
qed

section \<open>Nothing is forgotten\<close>

lemma global_keeps:
  assumes "all_keyed c" "gset_view (co_global c) k = Some f"
  shows "gset_view (co_global (gset_do op c)) k = Some f"
proof (cases op)
  case OpSync
  have "gset_view (merged c) k = Some f"
    unfolding merged_def
    by (rule gs.merge_all_keeps) (use assms in \<open>auto simp: all_keyed_def local_sets_def\<close>)
  then show ?thesis by (simp add: OpSync synchronize_state)
qed (use assms in \<open>auto simp: gset_addAgent_def submitFact_def gset_nextEpoch_def Let_def split: option.split\<close>)

lemma local_keeps:
  assumes "all_keyed c" "map_get (co_agents c) a = Some l" "gset_view l k = Some f" "op \<noteq> OpAgent a"
  shows "\<exists>l'. map_get (co_agents (gset_do op c)) a = Some l' \<and> gset_view l' k = Some f"
proof (cases op)
  case OpSync
  have "keyed l" using assms(1) local_get[OF assms(2)] by (auto simp: all_keyed_def)
  then have "gset_view (fst (gset_merge (merged c) l)) k = Some f"
    using keyed_merged[OF assms(1)] assms(3) by (simp add: gs.view_merge)
  then show ?thesis using assms(2) by (simp add: OpSync synchronize_state map_get_map_values)
next
  case (OpSubmit b x d m now)
  then show ?thesis using assms(2,3)
    by (auto simp: submitFact_def Let_def map_get_set view_add split: option.split)
qed (use assms in \<open>auto simp: gset_addAgent_def gset_nextEpoch_def map_get_set\<close>)

lemma run_keeps:
  assumes "all_keyed c" "gset_view (co_global c) k = Some f"
    and "map_get (co_agents c) a = Some l" "gset_view l k' = Some g" "OpAgent a \<notin> set ops"
  shows "gset_view (co_global (gset_run ops c)) k = Some f
       \<and> (\<exists>l'. map_get (co_agents (gset_run ops c)) a = Some l' \<and> gset_view l' k' = Some g)"
  using assms
proof (induction ops arbitrary: c l)
  case (Cons op ops)
  obtain l' where l': "map_get (co_agents (gset_do op c)) a = Some l'" "gset_view l' k' = Some g"
    using local_keeps[OF Cons.prems(1,3,4), of op] Cons.prems(5) by auto
  show ?case
    using Cons.IH[OF all_keyed_do[OF Cons.prems(1)] global_keeps[OF Cons.prems(1,2)] l'] Cons.prems(5) by simp
qed auto

section \<open>Colliding identifiers\<close>

lemma colliding_ids: "contentHash x (y @ '':'' @ z) e = contentHash (x @ '':'' @ y) z e"
  by (simp add: contentHash_def)

text \<open>
  Replicas need not converge: the text that is hashed joins agent and content by a colon, so a
  fact of agent \<open>x\<close> and one of agent \<open>x:y\<close> get the same identifier, and from the first
  synchronisation on the global set holds the one and the replica of \<open>x:y\<close> the other, whatever
  follows.
\<close>

theorem replicas_stay_apart:
  assumes "OpAgent (x @ '':'' @ y) \<notin> set ops"
  shows "\<exists>k f g l. let c = gset_run ([OpAgent x, OpAgent (x @ '':'' @ y), OpSubmit x (y @ '':'' @ z) d m t,
                                   OpSubmit (x @ '':'' @ y) z d' m' t', OpSync] @ ops) new_coordinator in
           gset_view (co_global c) k = Some f \<and> gf_agent f = x \<and> gf_content f = y @ '':'' @ z
         \<and> map_get (co_agents c) (x @ '':'' @ y) = Some l \<and> gset_view l k = Some g
         \<and> gf_agent g = x @ '':'' @ y \<and> gf_content g = z"
proof -
  let ?start = "[OpAgent x, OpAgent (x @ '':'' @ y), OpSubmit x (y @ '':'' @ z) d m t,
                 OpSubmit (x @ '':'' @ y) z d' m' t', OpSync]"
  let ?c = "gset_run ?start new_coordinator"
  let ?k = "contentHash x (y @ '':'' @ z) 0"
  let ?f = "submitted_fact x (y @ '':'' @ z) d m 0 t"
  let ?g = "submitted_fact (x @ '':'' @ y) z d' m' 0 t'"
  have keyed: "all_keyed ?c" by (rule all_keyed_run) simp
  have ids: "gf_id ?f = ?k" "gf_id ?g = ?k"
    using colliding_ids[of x y z 0] by (simp_all add: submitted_fact_def)
  have c: "?c = \<lparr> co_agents = [(x, \<lparr> st_facts = [(?k, ?f)], st_log = [?f] \<rparr>),
                              (x @ '':'' @ y, \<lparr> st_facts = [(?k, ?g)], st_log = [?g] \<rparr>)],
               co_global = \<lparr> st_facts = [(?k, ?f)], st_log = [?f] \<rparr>, co_epoch = 0 \<rparr>"
    by (simp add: new_coordinator_def gset_addAgent_def submitFact_def synchronize_state merged_def Let_def
        gset_merge_state getAll_def gset_add_def empty_gset_def map_has_def ids del: append.simps)
  have global: "gset_view (co_global ?c) ?k = Some ?f" by (simp only: c) (simp add: gset_view_def)
  have local: "\<exists>l. map_get (co_agents ?c) (x @ '':'' @ y) = Some l \<and> gset_view l ?k = Some ?g"
    by (simp only: c) (simp add: gset_view_def)
  then obtain l where l: "map_get (co_agents ?c) (x @ '':'' @ y) = Some l" "gset_view l ?k = Some ?g" by blast
  obtain l' where l': "map_get (co_agents (gset_run ops ?c)) (x @ '':'' @ y) = Some l'" "gset_view l' ?k = Some ?g"
    "gset_view (co_global (gset_run ops ?c)) ?k = Some ?f"
    using run_keeps[OF keyed global l assms] by blast
  have app: "gset_run (?start @ ops) new_coordinator = gset_run ops ?c" by (simp only: gset_run_simps(3))
  show ?thesis
    unfolding Let_def app
    by (intro exI[of _ ?k] exI[of _ ?f] exI[of _ ?g] exI[of _ l'])
      (simp only: l', simp add: submitted_fact_def)
qed

lemma replicas_stay_apart_witness:
  "\<exists>k f g l. let c = gset_run ([OpAgent ''bob'', OpAgent (''bob'' @ '':'' @ ''eu''),
        OpSubmit ''bob'' (''eu'' @ '':'' @ ''50M'') None None 1, OpSubmit (''bob'' @ '':'' @ ''eu'') ''50M'' None None 2, OpSync]
        @ [OpNext, OpSync]) new_coordinator in
     gset_view (co_global c) k = Some f \<and> gf_agent f = ''bob'' \<and> gf_content f = ''eu'' @ '':'' @ ''50M''
   \<and> map_get (co_agents c) (''bob'' @ '':'' @ ''eu'') = Some l \<and> gset_view l k = Some g
   \<and> gf_agent g = ''bob'' @ '':'' @ ''eu'' \<and> gf_content g = ''50M''"
  by (rule replicas_stay_apart) simp

section \<open>Reconstructing an epoch\<close>

lemma getAll_view: "keyed s \<Longrightarrow> f \<in> set (getAll s) \<Longrightarrow> gset_view s (gf_id f) = Some f"
  by (auto simp: keyed_def getAll_def gset_view_def map_wf_def map_get_iff_map_of)

lemma add_all_log:
  "\<exists>xs. st_log (add_all fs s) = st_log s @ xs \<and> (\<forall>x \<in> set xs. x \<in> set fs \<and> gset_view s (gf_id x) = None)"
proof (induction fs arbitrary: s)
  case (Cons f fs)
  obtain xs where xs: "st_log (add_all fs (fst (gset_add f s))) = st_log (fst (gset_add f s)) @ xs"
    "\<forall>x \<in> set xs. x \<in> set fs \<and> gset_view (fst (gset_add f s)) (gf_id x) = None" using Cons by blast
  have "gset_view s k = None" if "gset_view (fst (gset_add f s)) k = None" for k
    using that by (cases "gset_view s k") (simp_all add: view_add)
  then have old: "\<forall>x \<in> set xs. x \<in> set (f # fs) \<and> gset_view s (gf_id x) = None" using xs(2) by simp
  show ?case
  proof (cases "map_has (st_facts s) (gf_id f)")
    case True
    then have "st_log (add_all (f # fs) s) = st_log s @ xs" using xs(1) by (simp add: gset_add_def)
    then show ?thesis using old by blast
  next
    case False
    then have "st_log (add_all (f # fs) s) = st_log s @ (f # xs)" using xs(1) by (simp add: gset_add_def)
    moreover have "\<forall>x \<in> set (f # xs). x \<in> set (f # fs) \<and> gset_view s (gf_id x) = None"
      using old False by (simp add: map_has_def gset_view_def)
    ultimately show ?thesis by blast
  qed
qed simp

lemma merge_all_log:
  assumes "keyed g" "\<forall>l \<in> set ls. keyed l"
  shows "\<exists>xs. st_log (fold (\<lambda>t s. fst (gset_merge t s)) ls g) = st_log g @ xs
       \<and> (\<forall>x \<in> set xs. gset_view g (gf_id x) = None \<and> (\<exists>l \<in> set ls. gset_view l (gf_id x) = Some x))"
  using assms
proof (induction ls arbitrary: g)
  case (Cons l ls)
  have k: "keyed (fst (gset_merge l g))" using Cons.prems by (simp add: gset_merge_state)
  obtain xs where xs: "st_log (fst (gset_merge l g)) = st_log g @ xs"
    "\<forall>x \<in> set xs. x \<in> set (getAll l) \<and> gset_view g (gf_id x) = None"
    using add_all_log[of "getAll l" g] unfolding gset_merge_state by blast
  obtain ys where ys: "st_log (fold (\<lambda>t s. fst (gset_merge t s)) ls (fst (gset_merge l g))) = st_log (fst (gset_merge l g)) @ ys"
    "\<forall>x \<in> set ys. gset_view (fst (gset_merge l g)) (gf_id x) = None \<and> (\<exists>l \<in> set ls. gset_view l (gf_id x) = Some x)"
    using Cons.IH[OF k] Cons.prems(2) by (metis list.set_intros(2))
  have "gset_view g k = None" if "gset_view (fst (gset_merge l g)) k = None" for k
    using that gs.view_merge[of g l k] Cons.prems by (cases "gset_view g k") auto
  then have "st_log (fold (\<lambda>t s. fst (gset_merge t s)) (l # ls) g) = st_log g @ (xs @ ys)
    \<and> (\<forall>x \<in> set (xs @ ys). gset_view g (gf_id x) = None \<and> (\<exists>l' \<in> set (l # ls). gset_view l' (gf_id x) = Some x))"
    using xs ys getAll_view[of l] Cons.prems(2) by auto
  then show ?case by blast
qed simp

text \<open>What the coordinator keeps from the point \<open>log\<close> of its log on: only facts that satisfy \<open>P\<close> are
  added, and what a replica has beyond the global set satisfies \<open>P\<close>.\<close>

definition extends_by :: "(gset_fact \<Rightarrow> bool) \<Rightarrow> gset_fact list \<Rightarrow> gset_coordinator \<Rightarrow> bool" where
  "extends_by P base c =
     (all_keyed c \<and> (\<exists>xs. st_log (co_global c) = base @ xs \<and> list_all P xs)
      \<and> (\<forall>l \<in> local_sets c. \<forall>k f. gset_view l k = Some f \<longrightarrow> gset_view (co_global c) k \<noteq> None \<or> P f))"

lemma extends_by_sync:
  assumes "extends_by P base c"
  shows "extends_by P base (gset_do OpSync c)"
proof -
  have wf: "keyed (co_global c)" "\<forall>l \<in> set (map snd (co_agents c)). keyed l"
    using assms by (auto simp: extends_by_def all_keyed_def local_sets_def)
  obtain xs where xs: "st_log (co_global c) = base @ xs" "list_all P xs"
    using assms by (auto simp: extends_by_def)
  obtain ys where ys: "st_log (merged c) = st_log (co_global c) @ ys"
    "\<forall>y \<in> set ys. gset_view (co_global c) (gf_id y) = None \<and> (\<exists>l \<in> set (map snd (co_agents c)). gset_view l (gf_id y) = Some y)"
    using merge_all_log[OF wf] unfolding merged_def by blast
  have "list_all P ys" unfolding list_all_iff
    using ys(2) assms unfolding extends_by_def local_sets_def by fastforce
  then have "st_log (merged c) = base @ (xs @ ys)" "list_all P (xs @ ys)" using xs ys(1) by auto
  moreover have "gset_view (merged c) k \<noteq> None"
    if "l \<in> local_sets c" "gset_view (fst (gset_merge (merged c) l)) k = Some f" for l k f
  proof (cases "gset_view l k")
    case None
    then show ?thesis using that keyed_merged[of c] wf
      by (auto simp: gs.view_merge local_sets_def all_keyed_def)
  next
    case (Some g)
    then show ?thesis unfolding merged_def
      by (intro gs.merge_all_covers[OF wf]) (use that in \<open>auto simp: local_sets_def\<close>)
  qed
  moreover have "local_sets (gset_do OpSync c) = (\<lambda>l. fst (gset_merge (merged c) l)) ` local_sets c"
    by (force simp: synchronize_state local_sets_def)
  moreover have "all_keyed (gset_do OpSync c)" using assms all_keyed_do[of c OpSync] by (simp add: extends_by_def)
  ultimately show ?thesis unfolding extends_by_def by (auto simp: synchronize_state)
qed

lemma extends_by_do:
  assumes "extends_by P base c" "\<And>a x d m now. P (submitted_fact a x d m (co_epoch c) now)"
  shows "extends_by P base (gset_do op c)"
proof (cases op)
  case (OpAgent a)
  have "gset_view l k = None \<or> l \<in> local_sets c" if "l \<in> local_sets (gset_do op c)" for l k
    using that local_sets_set[where c = c and a = a and l = empty_gset] by (auto simp: OpAgent gset_addAgent_def)
  then show ?thesis using assms(1) all_keyed_do[of c op]
    by (fastforce simp: extends_by_def OpAgent gset_addAgent_def)
next
  case (OpSubmit a x d m now)
  show ?thesis
  proof (cases "map_get (co_agents c) a")
    case (Some l)
    define f where "f = submitted_fact a x d m (co_epoch c) now"
    have l: "l \<in> local_sets c" using Some by (rule local_get)
    have "gset_view (co_global c) k \<noteq> None \<or> P g" if "gset_view (fst (gset_add f l)) k = Some g" for k g
    proof -
      have "gset_view l k = Some g \<or> g = f"
        using that by (auto simp: view_add or_else_eq_Some split: if_splits)
      then show ?thesis using l assms unfolding extends_by_def f_def by blast
    qed
    moreover have "l' = fst (gset_add f l) \<or> l' \<in> local_sets c" if "l' \<in> local_sets (gset_do op c)" for l'
      using that Some local_sets_set[where c = c and a = a and l = "fst (gset_add f l)"]
      by (auto simp: OpSubmit submitFact_def Let_def f_def)
    moreover have "co_global (gset_do op c) = co_global c"
      using Some by (simp add: OpSubmit submitFact_def Let_def)
    ultimately show ?thesis
      using assms(1) all_keyed_do[of c op] unfolding extends_by_def by (metis (no_types, lifting))
  qed (use assms OpSubmit in \<open>simp add: submitFact_def\<close>)
next
  case OpNext
  then show ?thesis using assms(1) by (simp add: extends_by_def gset_nextEpoch_def all_keyed_def local_sets_def)
qed (use extends_by_sync assms in auto)

lemma epoch_do: "co_epoch c \<le> co_epoch (gset_do op c)"
  by (cases op) (auto simp: gset_addAgent_def submitFact_def synchronize_state gset_nextEpoch_def Let_def split: option.split)

lemma extends_by_run:
  assumes "extends_by P base c" "e \<le> co_epoch c" "\<And>a x d m now e'. e \<le> e' \<Longrightarrow> P (submitted_fact a x d m e' now)"
  shows "extends_by P base (gset_run ops c)"
  using assms
proof (induction ops arbitrary: c)
  case (Cons op ops)
  show ?case
    using Cons.IH[OF extends_by_do[OF Cons.prems(1)]] Cons.prems(2,3) epoch_do[of c op] by auto
qed simp

definition synced :: "gset_coordinator \<Rightarrow> bool" where
  "synced c = (\<forall>l \<in> local_sets c. \<forall>k. gset_view l k \<noteq> None \<longrightarrow> gset_view (co_global c) k \<noteq> None)"

text \<open>
  Once every replica was synchronised, what is reconstructed of an epoch before the current one
  never changes again, whatever is registered, submitted, synchronised or advanced afterwards.
\<close>

theorem reconstruction_stable:
  assumes "c = gset_run ops new_coordinator" "synced c" "e < co_epoch c"
  shows "gset_reconstructAtEpoch e (gset_run ops' c) = gset_reconstructAtEpoch e c"
proof -
  have "all_keyed c" by (simp add: assms(1) all_keyed_run)
  then have "extends_by (\<lambda>f. e < gf_epoch f) (st_log (co_global c)) c"
    using assms(2) by (auto simp: extends_by_def synced_def)
  then have "extends_by (\<lambda>f. e < gf_epoch f) (st_log (co_global c)) (gset_run ops' c)"
    by (rule extends_by_run[where e = "e + 1"]) (use assms(3) in \<open>auto simp: submitted_fact_def\<close>)
  then obtain xs where "st_log (co_global (gset_run ops' c)) = st_log (co_global c) @ xs"
    "list_all (\<lambda>f. e < gf_epoch f) xs" by (auto simp: extends_by_def)
  then show ?thesis
    by (auto simp: gset_reconstructAtEpoch_def set_reconstructAtEpoch_def list_all_iff filter_empty_conv)
qed

definition late_run :: "gset_op list" where
  "late_run = [OpAgent ''a'', OpSubmit ''a'' ''x'' None None 1, OpNext]"

text \<open>
  The metric of reconstructibility is blind: it is true after every history, also where the
  facts reconstructed for epoch 0 change after the epoch is over, because a replica is synchronised
  late.
\<close>

theorem reconstruction_metric_blind:
  "gm_stateReconstructible (gset_collectMetrics (gset_run ops new_coordinator) falseFact)
   \<and> (\<exists>c ops'. c = gset_run late_run new_coordinator \<and> 0 < co_epoch c
        \<and> gset_reconstructAtEpoch 0 (gset_run ops' c) \<noteq> gset_reconstructAtEpoch 0 c)"
proof
  have "extends_by (\<lambda>f. 0 \<le> gf_epoch f) [] new_coordinator"
    by (simp add: extends_by_def new_coordinator_def empty_gset_def local_sets_def all_keyed_def keyed_def)
  then have "extends_by (\<lambda>f. 0 \<le> gf_epoch f) [] (gset_run ops new_coordinator)"
    by (rule extends_by_run[where e = 0]) (auto simp: new_coordinator_def submitted_fact_def)
  then show "gm_stateReconstructible (gset_collectMetrics (gset_run ops new_coordinator) falseFact)"
    by (auto simp: extends_by_def gset_collectMetrics_def gset_reconstructAtEpoch_def set_reconstructAtEpoch_def list_all_iff)
next
  have "gset_reconstructAtEpoch 0 (gset_run [OpSync] (gset_run late_run new_coordinator))
      \<noteq> gset_reconstructAtEpoch 0 (gset_run late_run new_coordinator) \<and> 0 < co_epoch (gset_run late_run new_coordinator)"
    by (simp add: late_run_def new_coordinator_def gset_addAgent_def submitFact_def synchronize_state merged_def Let_def
        gset_nextEpoch_def gset_merge_state getAll_def gset_add_def empty_gset_def map_has_def
        gset_reconstructAtEpoch_def set_reconstructAtEpoch_def submitted_fact_def)
  then show "\<exists>c ops'. c = gset_run late_run new_coordinator \<and> 0 < co_epoch c
        \<and> gset_reconstructAtEpoch 0 (gset_run ops' c) \<noteq> gset_reconstructAtEpoch 0 c" by blast
qed

lemma reconstruction_stable_witness:
  "gset_reconstructAtEpoch 0 (gset_run [OpSubmit ''a'' ''y'' None None 5, OpSync] (gset_run (late_run @ [OpSync]) new_coordinator))
   = gset_reconstructAtEpoch 0 (gset_run (late_run @ [OpSync]) new_coordinator)"
  by (rule reconstruction_stable[OF refl])
    (simp_all add: late_run_def new_coordinator_def gset_addAgent_def submitFact_def synchronize_state merged_def Let_def
        gset_nextEpoch_def gset_merge_state getAll_def gset_add_def empty_gset_def map_has_def synced_def local_sets_def
        submitted_fact_def gset_view_def)

lemma synchronize_converges_witness:
  "(let c = gset_run [OpAgent ''a'', OpAgent ''b'', OpSubmit ''a'' ''x'' None None 1] new_coordinator in
    gset_view (co_global (fst (synchronize c))) (contentHash ''a'' ''x'' 0) \<noteq> None)"
proof -
  let ?c = "gset_run [OpAgent ''a'', OpAgent ''b'', OpSubmit ''a'' ''x'' None None 1] new_coordinator"
  have c: "?c = \<lparr> co_agents = [(''a'', \<lparr> st_facts = [(contentHash ''a'' ''x'' 0, submitted_fact ''a'' ''x'' None None 0 1)],
                                        st_log = [submitted_fact ''a'' ''x'' None None 0 1] \<rparr>), (''b'', empty_gset)],
               co_global = empty_gset, co_epoch = 0 \<rparr>"
    by (simp add: new_coordinator_def gset_addAgent_def submitFact_def Let_def gset_add_def empty_gset_def map_has_def
        submitted_fact_def)
  have "gset_view (co_global (fst (synchronize ?c))) (contentHash ''a'' ''x'' 0)
      = Some (submitted_fact ''a'' ''x'' None None 0 1)"
    by (rule synchronize_converges[OF refl, THEN conjunct2, rule_format, THEN iffD2]; unfold c)
      (auto simp: local_sets_def gset_view_def empty_gset_def split: if_splits)
  then show ?thesis by (simp add: Let_def)
qed

end
