(* ===== verification/Vote_Baseline.thy ===== *)
theory Vote_Baseline
  imports Gset_Baseline
begin

text \<open>
  The weighted-vote baseline of \<open>src/baselines/weighted-vote.ts\<close>: agents with authority weights,
  proposals, the votes on them, the tally with its threshold and veto, voting rounds, contradictions
  and metrics. Weights are rationals; the clock is the argument \<open>now\<close>, one reading per round, and
  latencies are left out.
\<close>

section \<open>State\<close>

record vote_proposal =
  vp_id :: string
  vp_content :: string
  vp_dimension :: "string option"
  vp_proposer :: string
  vp_epoch :: int
  vp_time :: int
  vp_metadata :: "json_obj option"

record agent_vote =
  vt_proposal :: string
  vt_voter :: string
  vt_weight :: rat
  vt_accept :: bool
  vt_veto :: bool
  vt_reason :: "string option"
  vt_time :: int

record accepted_fact =
  ac_proposal :: vote_proposal
  ac_totalWeight :: rat
  ac_acceptWeight :: rat
  ac_rejectWeight :: rat
  ac_vetoCount :: nat
  ac_accepted :: bool
  ac_epoch :: int

record vote_config =
  vc_acceptThreshold :: rat
  vc_vetoBlocks :: bool

definition DEFAULT_CONFIG :: vote_config where
  "DEFAULT_CONFIG = \<lparr> vc_acceptThreshold = 3 / 5, vc_vetoBlocks = True \<rparr>"

record vote_coordinator =
  vo_agents :: "(string, rat) jsmap"
  vo_proposals :: "(string, vote_proposal) jsmap"
  vo_votes :: "(string, agent_vote list) jsmap"
  vo_accepted :: "(string, accepted_fact) jsmap"
  vo_log :: "agent_vote list"
  vo_epoch :: int
  vo_config :: vote_config

definition new_vote_coordinator :: "rat option \<Rightarrow> bool option \<Rightarrow> vote_coordinator" where
  "new_vote_coordinator threshold vetoes =
     \<lparr> vo_agents = [], vo_proposals = [], vo_votes = [], vo_accepted = [], vo_log = [], vo_epoch = 0,
       vo_config = \<lparr> vc_acceptThreshold = coalesce threshold (vc_acceptThreshold DEFAULT_CONFIG),
                     vc_vetoBlocks = coalesce vetoes (vc_vetoBlocks DEFAULT_CONFIG) \<rparr> \<rparr>"

definition vote_addAgent :: "string \<Rightarrow> rat \<Rightarrow> vote_coordinator \<Rightarrow> vote_coordinator" where
  "vote_addAgent agentId weight c = c \<lparr> vo_agents := map_set agentId (max 0 weight) (vo_agents c) \<rparr>"

definition getAgentWeight :: "string \<Rightarrow> vote_coordinator \<Rightarrow> rat" where
  "getAgentWeight agentId c = coalesce (map_get (vo_agents c) agentId) 0"

section \<open>Proposals and votes\<close>

text \<open>\<open>Number.prototype.toString(36)\<close> of a natural number.\<close>

fun base36 :: "nat \<Rightarrow> string" where
  "base36 n = (let d = ''0123456789abcdefghijklmnopqrstuvwxyz'' ! (n mod 36) in
               if n < 36 then [d] else base36 (n div 36) @ [d])"

declare base36.simps [simp del]

definition proposal_id :: "nat \<Rightarrow> int \<Rightarrow> string" where
  "proposal_id count now = ''prop-'' @ nat_digits count @ ''-'' @ base36 (nat now)"

definition vote_propose ::
  "string \<Rightarrow> string \<Rightarrow> string option \<Rightarrow> json_obj option \<Rightarrow> int \<Rightarrow> (vote_coordinator, vote_proposal) exec" where
  "vote_propose agentId content dimension metadata now c =
     (if \<not> map_has (vo_agents c) agentId then raise (JsError (''Unknown agent: '' @ agentId)) c
      else
        (let p = \<lparr> vp_id = proposal_id (length (vo_proposals c)) now, vp_content = content,
                   vp_dimension = dimension, vp_proposer = agentId, vp_epoch = vo_epoch c, vp_time = now,
                   vp_metadata = metadata \<rparr> in
         ret p (c \<lparr> vo_proposals := map_set (vp_id p) p (vo_proposals c),
                    vo_votes := map_set (vp_id p) [] (vo_votes c) \<rparr>)))"

definition cast_vote ::
  "string \<Rightarrow> string \<Rightarrow> bool \<Rightarrow> bool \<Rightarrow> string option \<Rightarrow> int \<Rightarrow> (vote_coordinator, agent_vote) exec" where
  "cast_vote proposalId voterId accept veto reason now c =
     (if \<not> map_has (vo_proposals c) proposalId then raise (JsError (''Unknown proposal: '' @ proposalId)) c
      else if \<not> map_has (vo_agents c) voterId then raise (JsError (''Unknown agent: '' @ voterId)) c
      else
        (let v = \<lparr> vt_proposal = proposalId, vt_voter = voterId, vt_weight = getAgentWeight voterId c,
                   vt_accept = accept, vt_veto = veto, vt_reason = reason, vt_time = now \<rparr> in
         ret v (c \<lparr> vo_votes := map_set proposalId (coalesce (map_get (vo_votes c) proposalId) [] @ [v]) (vo_votes c),
                    vo_log := vo_log c @ [v] \<rparr>)))"

definition accept_weight :: "agent_vote list \<Rightarrow> rat" where
  "accept_weight vs = sum_list (map vt_weight (filter vt_accept vs))"

definition total_weight :: "agent_vote list \<Rightarrow> rat" where
  "total_weight vs = sum_list (map vt_weight vs)"

definition veto_count :: "agent_vote list \<Rightarrow> nat" where
  "veto_count vs = length (filter vt_veto vs)"

definition votes_accept :: "vote_config \<Rightarrow> agent_vote list \<Rightarrow> bool" where
  "votes_accept cfg vs =
     (let ratio = (if total_weight vs > 0 then accept_weight vs / total_weight vs else 0) in
      \<not> (vc_vetoBlocks cfg \<and> veto_count vs > 0) \<and> ratio \<ge> vc_acceptThreshold cfg)"

definition vote_tally :: "string \<Rightarrow> (vote_coordinator, accepted_fact) exec" where
  "vote_tally proposalId c =
     (case map_get (vo_proposals c) proposalId of
        None \<Rightarrow> raise (JsError (''Unknown proposal: '' @ proposalId)) c
      | Some p \<Rightarrow>
         (let vs = coalesce (map_get (vo_votes c) proposalId) [];
              res = \<lparr> ac_proposal = p, ac_totalWeight = total_weight vs, ac_acceptWeight = accept_weight vs,
                         ac_rejectWeight = sum_list (map vt_weight (filter (\<lambda>v. \<not> vt_accept v) vs)),
                         ac_vetoCount = veto_count vs, ac_accepted = votes_accept (vo_config c) vs,
                         ac_epoch = vo_epoch c \<rparr> in
          ret res (if ac_accepted res
                      then c \<lparr> vo_accepted := map_set proposalId res (vo_accepted c) \<rparr> else c)))"

section \<open>Rounds\<close>

type_synonym vote_function = "string \<Rightarrow> vote_proposal \<Rightarrow> bool \<times> bool"

definition agent_casts :: "vote_function \<Rightarrow> int \<Rightarrow> vote_proposal \<Rightarrow> string \<Rightarrow> string \<Rightarrow> (vote_coordinator, unit) exec" where
  "agent_casts voteFn now p proposalId agentId =
     and_then (if agentId = vp_proposer p then cast_vote proposalId agentId True False (Some ''proposer'') now
               else cast_vote proposalId agentId (fst (voteFn agentId p)) (snd (voteFn agentId p)) None now)
       (\<lambda>_. ret ())"

definition all_cast :: "vote_function \<Rightarrow> int \<Rightarrow> string \<Rightarrow> vote_proposal \<Rightarrow> (vote_coordinator, unit) exec" where
  "all_cast voteFn now proposalId p c =
     in_order (map (agent_casts voteFn now p proposalId) (map fst (vo_agents c))) c"

fun round_loop ::
  "vote_function \<Rightarrow> int \<Rightarrow> (string \<times> vote_proposal) list \<Rightarrow> (vote_coordinator, accepted_fact list) exec" where
  "round_loop voteFn now [] c = ret [] c"
| "round_loop voteFn now ((proposalId, p) # ps) c =
     (if map_has (vo_accepted c) proposalId then round_loop voteFn now ps c
      else and_then (all_cast voteFn now proposalId p)
        (\<lambda>_. and_then (vote_tally proposalId)
          (\<lambda>r. and_then (round_loop voteFn now ps) (\<lambda>rs. ret (r # rs)))) c)"

record round_result =
  rr_epoch :: int
  rr_evaluated :: nat
  rr_accepted :: nat
  rr_rejected :: nat
  rr_results :: "accepted_fact list"

definition runVotingRound :: "vote_function \<Rightarrow> int \<Rightarrow> (vote_coordinator, round_result) exec" where
  "runVotingRound voteFn now c =
     and_then (round_loop voteFn now (vo_proposals c))
       (\<lambda>rs c. ret \<lparr> rr_epoch = vo_epoch c, rr_evaluated = length rs,
                    rr_accepted = length (filter ac_accepted rs),
                    rr_rejected = length (filter (\<lambda>r. \<not> ac_accepted r) rs), rr_results = rs \<rparr> c) c"

definition vote_nextEpoch :: "vote_coordinator \<Rightarrow> vote_coordinator \<times> int" where
  "vote_nextEpoch c = (c \<lparr> vo_epoch := vo_epoch c + 1 \<rparr>, vo_epoch c + 1)"

section \<open>Reading the outcome\<close>

definition getAcceptedFacts :: "vote_coordinator \<Rightarrow> accepted_fact list" where
  "getAcceptedFacts c = map snd (vo_accepted c)"

definition getAcceptedContents :: "vote_coordinator \<Rightarrow> string list" where
  "getAcceptedContents c = map (\<lambda>f. vp_content (ac_proposal f)) (getAcceptedFacts c)"

definition hasAcceptedContent :: "string \<Rightarrow> vote_coordinator \<Rightarrow> bool" where
  "hasAcceptedContent content c = list_ex (\<lambda>f. vp_content (ac_proposal f) = content) (getAcceptedFacts c)"

definition fact_dimension :: "accepted_fact \<Rightarrow> string" where
  "fact_dimension f = coalesce (vp_dimension (ac_proposal f)) []"

definition differing_pairs :: "string \<Rightarrow> accepted_fact list \<Rightarrow> (string \<times> accepted_fact \<times> accepted_fact) list" where
  "differing_pairs d fs =
     map (Pair d) (filter (\<lambda>(f, g). vp_content (ac_proposal f) \<noteq> vp_content (ac_proposal g)) (pairs_of fs))"

definition vote_detectContradictions :: "vote_coordinator \<Rightarrow> (string \<times> accepted_fact \<times> accepted_fact) list" where
  "vote_detectContradictions c =
     concat (map (\<lambda>(d, fs). differing_pairs d fs)
       (groups_by fact_dimension (filter (\<lambda>f. fact_dimension f \<noteq> []) (getAcceptedFacts c))))"

definition vote_reconstructAtEpoch :: "int \<Rightarrow> vote_coordinator \<Rightarrow> accepted_fact list" where
  "vote_reconstructAtEpoch epoch c = filter (\<lambda>f. ac_epoch f \<le> epoch) (getAcceptedFacts c)"

record vote_metrics =
  vm_falsFactAccepted :: bool
  vm_contradictionStep :: "nat option"
  vm_semanticReversions :: nat
  vm_stateReconstructible :: bool
  vm_totalAccepted :: nat
  vm_acceptanceRate :: rat
  vm_contradictions :: nat

definition vote_collectMetrics :: "vote_coordinator \<Rightarrow> string option \<Rightarrow> nat option \<Rightarrow> vote_metrics" where
  "vote_collectMetrics c falseFact reversions =
    (let accepted = getAcceptedFacts c; n = length accepted; contradictions = vote_detectContradictions c in
     \<lparr> vm_falsFactAccepted =
         (case falseFact of None \<Rightarrow> False
          | Some content \<Rightarrow> list_ex (\<lambda>f. vp_content (ac_proposal f) = content) accepted),
       vm_contradictionStep = (if contradictions \<noteq> [] then Some 1 else None),
       vm_semanticReversions = coalesce reversions 0,
       vm_stateReconstructible =
         (length (vote_reconstructAtEpoch 0 c) = length (filter (\<lambda>f. ac_epoch f = 0) accepted)),
       vm_totalAccepted = n,
       vm_acceptanceRate = (if n > 0 then of_nat n / of_nat (max 1 n) else 0),
       vm_contradictions = length contradictions \<rparr>)"

end
