(* ===== verification/Vote_Safety.thy ===== *)
theory Vote_Safety
  imports Vote_Baseline Number_Text
begin

text \<open>
  What the weighted-vote baseline guarantees over any history of its operations: accepted contents
  stay accepted, a veto is final, and voting again with the same opinions decides nothing new.
\<close>

section \<open>Histories\<close>

datatype vote_op =
    VoteAgent string rat
  | VotePropose string string "string option" "json_obj option" int
  | VoteCast string string bool bool "string option" int
  | VoteTally string
  | VoteRound vote_function int
  | VoteNext

fun vote_do :: "vote_op \<Rightarrow> vote_coordinator \<Rightarrow> vote_coordinator" where
  "vote_do (VoteAgent a w) c = vote_addAgent a w c"
| "vote_do (VotePropose a x d m now) c = fst (vote_propose a x d m now c)"
| "vote_do (VoteCast i a acc veto why now) c = fst (cast_vote i a acc veto why now c)"
| "vote_do (VoteTally i) c = fst (vote_tally i c)"
| "vote_do (VoteRound f now) c = fst (runVotingRound f now c)"
| "vote_do VoteNext c = fst (vote_nextEpoch c)"

definition vote_run :: "vote_op list \<Rightarrow> vote_coordinator \<Rightarrow> vote_coordinator" where
  "vote_run ops c = fold vote_do ops c"

lemma vote_run_simps [simp]: "vote_run [] c = c" "vote_run (x # xs) c = vote_run xs (vote_do x c)"
  by (simp_all add: vote_run_def)

definition votes_of :: "vote_coordinator \<Rightarrow> string \<Rightarrow> agent_vote list" where
  "votes_of c i = coalesce (map_get (vo_votes c) i) []"

definition is_accepted :: "vote_coordinator \<Rightarrow> string \<Rightarrow> bool" where
  "is_accepted c i = map_has (vo_accepted c) i"

section \<open>Proposal identifiers\<close>

lemma proposal_id_inj: "proposal_id m t = proposal_id n u \<Longrightarrow> m = n"
  using first_separator[of "nat_digits m" "CHR ''-''" "base36 (nat t)" "nat_digits n" "base36 (nat u)"]
    dash_not_digit nat_digits_inj
  by (auto simp: proposal_id_def)

definition vote_wf :: "vote_coordinator \<Rightarrow> bool" where
  "vote_wf c =
     (map_wf (vo_agents c) \<and> map_wf (vo_proposals c) \<and> map_wf (vo_accepted c)
      \<and> (\<forall>i p. map_get (vo_proposals c) i = Some p \<longrightarrow>
            (\<exists>n t. n < length (vo_proposals c) \<and> i = proposal_id n t))
      \<and> (\<forall>i f. map_get (vo_accepted c) i = Some f \<longrightarrow> map_get (vo_proposals c) i = Some (ac_proposal f)))"

lemma fresh_proposal: "vote_wf c \<Longrightarrow> map_get (vo_proposals c) (proposal_id (length (vo_proposals c)) now) = None"
  unfolding vote_wf_def by (metis less_irrefl not_None_eq proposal_id_inj)

section \<open>Rounds\<close>

definition ballot :: "vote_function \<Rightarrow> int \<Rightarrow> vote_proposal \<Rightarrow> string \<Rightarrow> string \<times> rat \<Rightarrow> agent_vote" where
  "ballot f now p i aw =
     (case aw of (a, w) \<Rightarrow>
        \<lparr> vt_proposal = i, vt_voter = a, vt_weight = w,
          vt_accept = (a = vp_proposer p \<or> fst (f a p)), vt_veto = (a \<noteq> vp_proposer p \<and> snd (f a p)),
          vt_reason = (if a = vp_proposer p then Some ''proposer'' else None), vt_time = now \<rparr>)"

definition ballots :: "vote_function \<Rightarrow> int \<Rightarrow> vote_coordinator \<Rightarrow> string \<Rightarrow> agent_vote list" where
  "ballots f now c i =
     (case map_get (vo_proposals c) i of None \<Rightarrow> [] | Some p \<Rightarrow> map (ballot f now p i) (vo_agents c))"

text \<open>All of the state but votes, log and accepted facts.\<close>

definition same_people :: "vote_coordinator \<Rightarrow> vote_coordinator \<Rightarrow> bool" where
  "same_people c c' =
     (vo_agents c' = vo_agents c \<and> vo_proposals c' = vo_proposals c \<and> vo_config c' = vo_config c
      \<and> vo_epoch c' = vo_epoch c)"

lemma same_people_ballots: "same_people c c' \<Longrightarrow> ballots f now c' i = ballots f now c i"
  by (simp add: same_people_def ballots_def split: option.split)

lemma same_people_trans: "same_people a b \<Longrightarrow> same_people b c \<Longrightarrow> same_people a c"
  by (simp add: same_people_def)

lemma map_wf_get: "map_wf m \<Longrightarrow> (k, v) \<in> set m \<Longrightarrow> map_get m k = Some v"
  by (simp add: map_wf_def map_get_iff_map_of)

lemma agent_casts_effect:
  assumes "map_get (vo_proposals c) i = Some p" "map_get (vo_agents c) a = Some w"
  shows "\<exists>c'. agent_casts f now p i a c = (c', Inr ()) \<and> same_people c c' \<and> vo_accepted c' = vo_accepted c
     \<and> (\<forall>j. votes_of c' j = votes_of c j @ (if j = i then [ballot f now p i (a, w)] else []))"
  using assms
  by (auto simp: agent_casts_def cast_vote_def map_has_def Let_def and_then_def getAgentWeight_def ballot_def
      same_people_def votes_of_def map_get_set)

lemma all_cast_effect:
  assumes "map_get (vo_proposals c) i = Some p" "\<forall>(a, w) \<in> set as. map_get (vo_agents c) a = Some w"
  shows "\<exists>c'. in_order (map (agent_casts f now p i) (map fst as)) c = (c', Inr ()) \<and> same_people c c'
     \<and> vo_accepted c' = vo_accepted c
     \<and> (\<forall>j. votes_of c' j = votes_of c j @ (if j = i then map (ballot f now p i) as else []))"
  using assms
proof (induction as arbitrary: c)
  case (Cons aw as)
  obtain a w where aw: "aw = (a, w)" by fastforce
  obtain c1 where c1: "agent_casts f now p i a c = (c1, Inr ())" "same_people c c1" "vo_accepted c1 = vo_accepted c"
    "\<forall>j. votes_of c1 j = votes_of c j @ (if j = i then [ballot f now p i (a, w)] else [])"
    using agent_casts_effect[of c i p a w f now] Cons.prems aw by auto
  obtain c2 where "in_order (map (agent_casts f now p i) (map fst as)) c1 = (c2, Inr ())" "same_people c1 c2"
    "vo_accepted c2 = vo_accepted c1"
    "\<forall>j. votes_of c2 j = votes_of c1 j @ (if j = i then map (ballot f now p i) as else [])"
    using Cons.IH[of c1] Cons.prems c1(2) by (auto simp: same_people_def)
  then show ?case using c1 aw same_people_trans by (auto intro!: exI[of _ c2])
qed (auto simp: same_people_def)

lemma tally_effect:
  assumes "map_get (vo_proposals c) i = Some p"
  shows "\<exists>c' r. vote_tally i c = (c', Inr r) \<and> same_people c c' \<and> vo_votes c' = vo_votes c
     \<and> ac_accepted r = votes_accept (vo_config c) (votes_of c i) \<and> ac_proposal r = p
     \<and> vo_accepted c' = (if ac_accepted r then map_set i r (vo_accepted c) else vo_accepted c)"
  using assms by (auto simp: vote_tally_def Let_def same_people_def votes_of_def)

definition round_of :: "vote_function \<Rightarrow> int \<Rightarrow> string set \<Rightarrow> vote_coordinator \<Rightarrow> vote_coordinator \<Rightarrow> bool" where
  "round_of f now is c c' =
     (same_people c c'
      \<and> (\<forall>j. votes_of c' j = votes_of c j @ (if j \<in> is \<and> \<not> is_accepted c j then ballots f now c j else []))
      \<and> (\<forall>j. is_accepted c' j \<longleftrightarrow> is_accepted c j \<or> j \<in> is \<and> votes_accept (vo_config c) (votes_of c' j))
      \<and> (\<forall>j g. map_get (vo_accepted c') j = Some g \<longrightarrow>
            map_get (vo_accepted c) j = Some g \<or> map_get (vo_proposals c) j = Some (ac_proposal g))
      \<and> (map_wf (vo_accepted c) \<longrightarrow> map_wf (vo_accepted c')))"

lemma one_proposal:
  assumes "map_wf (vo_agents c)" "map_get (vo_proposals c) i = Some p" "\<not> is_accepted c i"
  shows "\<exists>c' r. and_then (all_cast f now i p) (\<lambda>_. vote_tally i) c = (c', Inr r) \<and> round_of f now {i} c c'"
proof -
  have "\<forall>(a, w) \<in> set (vo_agents c). map_get (vo_agents c) a = Some w"
    using map_wf_get[OF assms(1)] by auto
  from all_cast_effect[OF assms(2) this, of f now] obtain c1 where
    c1: "all_cast f now i p c = (c1, Inr ())" "same_people c c1" "vo_accepted c1 = vo_accepted c"
      "\<forall>j. votes_of c1 j = votes_of c j @ (if j = i then map (ballot f now p i) (vo_agents c) else [])"
    unfolding all_cast_def by blast
  have "map_get (vo_proposals c1) i = Some p" using assms(2) c1(2) by (simp add: same_people_def)
  from tally_effect[OF this] obtain c2 r where
    c2: "vote_tally i c1 = (c2, Inr r)" "same_people c1 c2" "vo_votes c2 = vo_votes c1"
      "ac_accepted r = votes_accept (vo_config c1) (votes_of c1 i)" "ac_proposal r = p"
      "vo_accepted c2 = (if ac_accepted r then map_set i r (vo_accepted c1) else vo_accepted c1)" by blast
  have votes: "votes_of c2 j = votes_of c1 j" for j using c2(3) by (simp add: votes_of_def)
  have "round_of f now {i} c c2"
    using assms c1 c2 votes
    by (auto simp: round_of_def same_people_def is_accepted_def map_has_def map_get_set ballots_def)
  then show ?thesis using c1(1) c2(1) by (auto simp: and_then_def)
qed

lemma round_of_skip: "is_accepted c i \<Longrightarrow> round_of f now is c c' \<Longrightarrow> round_of f now (insert i is) c c'"
  by (auto simp: round_of_def)

lemma round_of_more:
  assumes "round_of f now {i} c c1" "round_of f now is c1 c2" "i \<notin> is" "\<not> is_accepted c i"
  shows "round_of f now (insert i is) c c2"
proof -
  have s: "same_people c c1" "same_people c1 c2" using assms(1,2) by (auto simp: round_of_def)
  have b: "ballots f now c1 j = ballots f now c j" "vo_config c1 = vo_config c" "vo_proposals c1 = vo_proposals c" for j
    using same_people_ballots[OF s(1)] s(1) by (auto simp: same_people_def)
  have v1: "votes_of c1 j = votes_of c j @ (if j = i then ballots f now c j else [])"
    and a1: "is_accepted c1 j \<longleftrightarrow> is_accepted c j \<or> j = i \<and> votes_accept (vo_config c) (votes_of c1 j)" for j
    using assms(1,4) unfolding round_of_def by auto
  have v2: "votes_of c2 j = votes_of c1 j @ (if j \<in> is \<and> \<not> is_accepted c1 j then ballots f now c j else [])"
    and a2: "is_accepted c2 j \<longleftrightarrow> is_accepted c1 j \<or> j \<in> is \<and> votes_accept (vo_config c) (votes_of c2 j)" for j
    using assms(2) b unfolding round_of_def by auto
  have old: "j \<in> is \<Longrightarrow> is_accepted c1 j \<longleftrightarrow> is_accepted c j" for j using a1[of j] assms(3) by auto
  have votes: "votes_of c2 j = votes_of c j @ (if j \<in> insert i is \<and> \<not> is_accepted c j then ballots f now c j else [])" for j
    using v1[of j] v2[of j] old[of j] assms(3,4) by auto
  have accepted: "is_accepted c2 j \<longleftrightarrow> is_accepted c j \<or> j \<in> insert i is \<and> votes_accept (vo_config c) (votes_of c2 j)" for j
  proof (cases "j = i")
    case True
    then have "votes_of c2 j = votes_of c1 j" using v2 assms(3) by simp
    then show ?thesis using a1[of j] a2[of j] True assms(3) by auto
  qed (use a1[of j] a2[of j] in auto)
  have "map_get (vo_accepted c2) j = Some g \<Longrightarrow>
      map_get (vo_accepted c) j = Some g \<or> map_get (vo_proposals c) j = Some (ac_proposal g)" for j g
    using assms(1,2) b(3) unfolding round_of_def by metis
  then show ?thesis
    unfolding round_of_def using same_people_trans[OF s] votes accepted assms(1,2) by (auto simp: round_of_def)
qed

lemma round_loop_effect:
  assumes "map_wf (vo_agents c)" "\<forall>(i, p) \<in> set ps. map_get (vo_proposals c) i = Some p" "distinct (map fst ps)"
  shows "\<exists>c' rs. round_loop f now ps c = (c', Inr rs) \<and> round_of f now (fst ` set ps) c c'"
  using assms
proof (induction ps arbitrary: c)
  case Nil
  then show ?case by (simp add: round_of_def same_people_def)
next
  case (Cons ip ps)
  obtain i p where ip: "ip = (i, p)" by fastforce
  show ?case
  proof (cases "is_accepted c i")
    case True
    then show ?thesis using Cons.IH[of c] Cons.prems round_of_skip[OF True]
      by (auto simp: ip is_accepted_def)
  next
    case False
    obtain c1 r where c1: "and_then (all_cast f now i p) (\<lambda>_. vote_tally i) c = (c1, Inr r)" "round_of f now {i} c c1"
      using one_proposal[OF _ _ False] Cons.prems ip by fastforce
    have s: "same_people c c1" using c1(2) by (simp add: round_of_def)
    obtain c2 rs where c2: "round_loop f now ps c1 = (c2, Inr rs)" "round_of f now (fst ` set ps) c1 c2"
      using Cons.IH[of c1] Cons.prems s by (auto simp: same_people_def)
    have "i \<notin> fst ` set ps" using Cons.prems ip by auto
    then have "round_of f now (fst ` set (ip # ps)) c c2"
      using round_of_more[OF c1(2) c2(2) _ False] ip by simp
    moreover have "round_loop f now (ip # ps) c = (c2, Inr (r # rs))"
      using c1(1) c2(1) False
      by (auto simp: ip is_accepted_def and_then_def split: prod.splits sum.splits)
    ultimately show ?thesis by blast
  qed
qed

lemma round_effect:
  assumes "vote_wf c"
  shows "round_of f now {i. map_get (vo_proposals c) i \<noteq> None} c (fst (runVotingRound f now c))"
proof -
  have wf: "map_wf (vo_agents c)" "map_wf (vo_proposals c)" using assms by (auto simp: vote_wf_def)
  have "\<forall>(i, p) \<in> set (vo_proposals c). map_get (vo_proposals c) i = Some p"
    using map_wf_get[OF wf(2)] by auto
  then obtain c' rs where "round_loop f now (vo_proposals c) c = (c', Inr rs)"
    "round_of f now (fst ` set (vo_proposals c)) c c'"
    using round_loop_effect[of c "vo_proposals c" f now] wf by (auto simp: map_wf_def)
  moreover have "fst ` set (vo_proposals c) = {i. map_get (vo_proposals c) i \<noteq> None}"
    by (auto simp: map_get_None_iff map_keys_def)
  ultimately show ?thesis by (simp add: runVotingRound_def and_then_def)
qed

section \<open>Every operation\<close>

lemma accepted_proposal: "vote_wf c \<Longrightarrow> is_accepted c i \<Longrightarrow> \<exists>p. map_get (vo_proposals c) i = Some p"
  by (auto simp: vote_wf_def is_accepted_def map_has_def)

lemma vote_wf_do: "vote_wf c \<Longrightarrow> vote_wf (vote_do op c)"
proof (induction op)
  case (VotePropose a x d m now)
  let ?i = "proposal_id (length (vo_proposals c)) now"
  have fresh: "map_get (vo_proposals c) ?i = None" using fresh_proposal[OF VotePropose] .
  have "map_set ?i p (vo_proposals c) = vo_proposals c @ [(?i, p)]" for p
    using fresh by (rule map_set_fresh)
  moreover have "map_get (vo_accepted c) ?i = None"
    using VotePropose fresh unfolding vote_wf_def by (metis option.distinct(1) option.exhaust)
  ultimately show ?case
    using VotePropose map_wf_set[of "vo_proposals c" ?i]
    unfolding vote_wf_def
    by (auto simp: vote_propose_def Let_def map_get_append less_Suc_eq split: option.splits if_splits; metis)
next
  case (VoteTally i)
  show ?case
  proof (cases "map_get (vo_proposals c) i")
    case (Some p)
    obtain c' r where t: "vote_tally i c = (c', Inr r)" "same_people c c'" "ac_proposal r = p"
      "vo_accepted c' = (if ac_accepted r then map_set i r (vo_accepted c) else vo_accepted c)"
      using tally_effect[OF Some] by blast
    then show ?thesis using VoteTally Some by (auto simp: vote_wf_def same_people_def map_get_set)
  qed (use VoteTally in \<open>simp add: vote_tally_def\<close>)
next
  case (VoteRound f now)
  note r = round_effect[OF VoteRound, of f now]
  have "map_get (vo_proposals c) j = Some (ac_proposal g)"
    if "map_get (vo_accepted (fst (runVotingRound f now c))) j = Some g" for j g
    using that r VoteRound unfolding vote_wf_def round_of_def by metis
  then show ?case using r VoteRound unfolding vote_wf_def round_of_def same_people_def by simp
qed (auto simp: vote_wf_def vote_addAgent_def cast_vote_def vote_nextEpoch_def Let_def)

lemma vote_wf_run: "vote_wf c \<Longrightarrow> vote_wf (vote_run ops c)"
  by (induction ops arbitrary: c) (auto simp: vote_wf_do)

lemma vote_wf_new [simp]: "vote_wf (new_vote_coordinator t v)"
  by (simp add: vote_wf_def new_vote_coordinator_def)

lemma vote_op_effect:
  assumes "vote_wf c" "map_get (vo_proposals c) i = Some p"
  shows "(\<exists>vs. votes_of (vote_do op c) i = votes_of c i @ vs)
       \<and> (is_accepted c i \<longrightarrow> is_accepted (vote_do op c) i)
       \<and> (is_accepted (vote_do op c) i \<longrightarrow> is_accepted c i \<or> votes_accept (vo_config c) (votes_of (vote_do op c) i))
       \<and> map_get (vo_proposals (vote_do op c)) i = Some p \<and> vo_config (vote_do op c) = vo_config c"
proof (cases op)
  case (VotePropose a x d m now)
  have "i \<noteq> proposal_id (length (vo_proposals c)) now" using fresh_proposal[OF assms(1)] assms(2) by auto
  then show ?thesis using assms(2)
    by (simp add: VotePropose vote_propose_def Let_def votes_of_def map_get_set is_accepted_def)
next
  case (VoteTally j)
  show ?thesis
  proof (cases "map_get (vo_proposals c) j")
    case (Some q)
    then show ?thesis using assms(2)
      by (auto simp: VoteTally vote_tally_def Let_def votes_of_def is_accepted_def map_has_def map_get_set)
  qed (use assms(2) VoteTally in \<open>simp add: vote_tally_def\<close>)
next
  case (VoteRound f now)
  then show ?thesis using round_effect[OF assms(1), of f now] assms(2)
    unfolding round_of_def same_people_def by auto
qed (use assms(2) in \<open>auto simp: vote_addAgent_def cast_vote_def vote_nextEpoch_def Let_def votes_of_def
       is_accepted_def map_get_set\<close>)

lemma vote_run_keeps:
  assumes "vote_wf c" "map_get (vo_proposals c) i = Some p"
  shows "map_get (vo_proposals (vote_run ops c)) i = Some p \<and> vo_config (vote_run ops c) = vo_config c
       \<and> (is_accepted c i \<longrightarrow> is_accepted (vote_run ops c) i)"
  using assms
proof (induction ops arbitrary: c)
  case (Cons op ops)
  then show ?case using vote_op_effect[OF Cons.prems, of op] vote_wf_do[OF Cons.prems(1), of op] by auto
qed simp

lemma accepted_content_iff:
  assumes "vote_wf c"
  shows "hasAcceptedContent x c \<longleftrightarrow> (\<exists>i p. is_accepted c i \<and> map_get (vo_proposals c) i = Some p \<and> vp_content p = x)"
proof -
  have wf: "map_wf (vo_accepted c)" using assms by (simp add: vote_wf_def)
  have "hasAcceptedContent x c \<longleftrightarrow> (\<exists>i f. map_get (vo_accepted c) i = Some f \<and> vp_content (ac_proposal f) = x)"
    using map_wf_get[OF wf] unfolding hasAcceptedContent_def getAcceptedFacts_def list_ex_iff
    by (force simp: map_get_iff_map_of dest: map_of_SomeD)
  also have "\<dots> \<longleftrightarrow> (\<exists>i p. is_accepted c i \<and> map_get (vo_proposals c) i = Some p \<and> vp_content p = x)"
    using assms unfolding vote_wf_def is_accepted_def map_has_def by (metis not_None_eq option.inject)
  finally show ?thesis .
qed

text \<open>
  C40. The vote baseline is monotone: a content that is accepted once stays accepted, whatever is
  proposed, voted, vetoed or tallied afterwards.
\<close>

theorem accepted_never_revoked:
  assumes "c = vote_run ops (new_vote_coordinator t v)" "hasAcceptedContent x c"
  shows "hasAcceptedContent x (vote_run ops' c)"
proof -
  have wf: "vote_wf c" by (simp add: assms(1) vote_wf_run)
  obtain i p where "is_accepted c i" "map_get (vo_proposals c) i = Some p" "vp_content p = x"
    using accepted_content_iff[OF wf] assms(2) by blast
  then show ?thesis
    using vote_run_keeps[OF wf, of i p ops'] accepted_content_iff[OF vote_wf_run[OF wf]] by blast
qed

text \<open>
  A veto is final: where vetoes block, a proposal with a veto that is not accepted yet is never
  accepted, however many rounds, votes and agents follow.
\<close>

theorem veto_is_final:
  assumes "c = vote_run ops (new_vote_coordinator t v)" "vc_vetoBlocks (vo_config c)"
    and "map_get (vo_proposals c) i = Some p" "\<exists>b \<in> set (votes_of c i). vt_veto b" "\<not> is_accepted c i"
  shows "\<not> is_accepted (vote_run ops' c) i"
proof -
  have "vote_wf c" by (simp add: assms(1) vote_wf_run)
  then show ?thesis using assms(2-)
  proof (induction ops' arbitrary: c)
    case (Cons op ops')
    note e = vote_op_effect[OF Cons.prems(1,3), of op]
    have veto: "\<exists>b \<in> set (votes_of (vote_do op c) i). vt_veto b" using e Cons.prems(4) by auto
    then have "\<not> votes_accept (vo_config c) (votes_of (vote_do op c) i)"
      using Cons.prems(2) by (auto simp: votes_accept_def veto_count_def filter_empty_conv)
    then have "\<not> is_accepted (vote_do op c) i" using e Cons.prems(5) by blast
    then show ?case
      using Cons.IH[OF vote_wf_do[OF Cons.prems(1)]] e veto Cons.prems(2) by auto
  qed simp
qed

section \<open>Voting again\<close>

definition opinions :: "agent_vote list \<Rightarrow> (rat \<times> bool \<times> bool) list" where
  "opinions vs = map (\<lambda>v. (vt_weight v, vt_accept v, vt_veto v)) vs"

lemma opinion_weights:
  "accept_weight vs = sum_list (map fst (filter (\<lambda>(w, a, b). a) (opinions vs)))"
  "total_weight vs = sum_list (map fst (opinions vs))"
  "veto_count vs = length (filter (\<lambda>(w, a, b). b) (opinions vs))"
  by (induction vs) (auto simp: accept_weight_def total_weight_def veto_count_def opinions_def)

lemma opinions_of_ballots: "opinions (ballots f now c i) = opinions (ballots f 0 c i)"
  by (auto simp: opinions_def ballots_def ballot_def split: option.split)

lemma weights_of_ballots:
  "accept_weight (ballots f now c i) = accept_weight (ballots f 0 c i)"
  "total_weight (ballots f now c i) = total_weight (ballots f 0 c i)"
  "veto_count (ballots f now c i) = veto_count (ballots f 0 c i)"
  using opinions_of_ballots[of f now c i] by (simp_all only: opinion_weights)

lemma weights_append:
  "accept_weight (vs @ ws) = accept_weight vs + accept_weight ws"
  "total_weight (vs @ ws) = total_weight vs + total_weight ws"
  "veto_count (vs @ ws) = veto_count vs + veto_count ws"
  by (simp_all add: accept_weight_def total_weight_def veto_count_def)

lemma weights_of_rounds:
  "accept_weight (concat (map (\<lambda>n. ballots f n c i) ns)) = of_nat (length ns) * accept_weight (ballots f 0 c i)"
  "total_weight (concat (map (\<lambda>n. ballots f n c i) ns)) = of_nat (length ns) * total_weight (ballots f 0 c i)"
  "veto_count (concat (map (\<lambda>n. ballots f n c i) ns)) = length ns * veto_count (ballots f 0 c i)"
proof (induction ns)
  case (Cons n ns)
  {
    case 1
    show ?case using Cons weights_of_ballots(1)[of f n c i] by (simp add: weights_append algebra_simps)
  next
    case 2
    show ?case using Cons weights_of_ballots(2)[of f n c i] by (simp add: weights_append algebra_simps)
  next
    case 3
    show ?case using Cons weights_of_ballots(3)[of f n c i] by (simp add: weights_append)
  }
qed (simp_all add: accept_weight_def total_weight_def veto_count_def)

lemma same_verdict_each_round:
  assumes "ns \<noteq> []"
  shows "votes_accept cfg (concat (map (\<lambda>n. ballots f n c i) ns)) = votes_accept cfg (ballots f 0 c i)"
  using assms by (simp add: votes_accept_def weights_of_rounds Let_def zero_less_mult_iff)

definition rounds :: "vote_function \<Rightarrow> int list \<Rightarrow> vote_coordinator \<Rightarrow> vote_coordinator" where
  "rounds f nows c = vote_run (map (VoteRound f) nows) c"

lemma rounds_decide:
  assumes "vote_wf c" "map_get (vo_proposals c) i = Some p" "\<not> is_accepted c i"
    and "votes_of c i = concat (map (\<lambda>n. ballots f n c i) ms)" "ns \<noteq> []"
  shows "is_accepted (rounds f ns c) i \<longleftrightarrow> votes_accept (vo_config c) (ballots f 0 c i)"
  using assms
proof (induction ns arbitrary: c ms)
  case (Cons n ns)
  let ?c = "fst (runVotingRound f n c)"
  have r: "round_of f n {i. map_get (vo_proposals c) i \<noteq> None} c ?c" by (rule round_effect[OF Cons.prems(1)])
  then have s: "same_people c ?c" by (simp add: round_of_def)
  have wf: "vote_wf ?c" using vote_wf_do[OF Cons.prems(1), of "VoteRound f n"] by simp
  have p: "map_get (vo_proposals ?c) i = Some p" using s Cons.prems(2) by (simp add: same_people_def)
  have v: "votes_of ?c i = concat (map (\<lambda>n. ballots f n c i) (ms @ [n]))"
    using r Cons.prems(2,3,4) unfolding round_of_def by simp
  have a: "is_accepted ?c i \<longleftrightarrow> votes_accept (vo_config c) (ballots f 0 c i)"
  proof -
    have "is_accepted ?c i \<longleftrightarrow> votes_accept (vo_config c) (votes_of ?c i)"
      using r Cons.prems(2,3) unfolding round_of_def by blast
    then show ?thesis unfolding v by (subst (asm) same_verdict_each_round) simp_all
  qed
  have again: "rounds f (n # ns) c = rounds f ns ?c" by (simp add: rounds_def)
  show ?case
  proof (cases "is_accepted ?c i")
    case True
    then show ?thesis using vote_run_keeps[OF wf p, of "map (VoteRound f) ns"] a again by (simp add: rounds_def)
  next
    case False
    show ?thesis
    proof (cases "ns = []")
      case True
      then show ?thesis using a again by (simp add: rounds_def)
    next
      case ns: False
      have "votes_of ?c i = concat (map (\<lambda>n. ballots f n ?c i) (ms @ [n]))"
        using v by (simp add: same_people_ballots[OF s])
      from Cons.IH[OF wf p False this ns] show ?thesis
        using again same_people_ballots[OF s, of f 0 i] s by (simp add: same_people_def)
    qed
  qed
qed simp

text \<open>
  Asking the same agents again changes nothing: as long as their opinions stay the same, a fresh
  proposal is accepted after any number of rounds exactly if it is accepted after the first, although
  every round adds all votes once more.
\<close>

theorem revoting_changes_nothing:
  assumes "c = vote_run ops (new_vote_coordinator t v)" "map_get (vo_proposals c) i = Some p"
    and "votes_of c i = []" "\<not> is_accepted c i"
  shows "is_accepted (rounds f (now # nows) c) i \<longleftrightarrow> is_accepted (rounds f [now] c) i"
proof -
  have wf: "vote_wf c" by (simp add: assms(1) vote_wf_run)
  show ?thesis
    using rounds_decide[OF wf assms(2,4), of f "[]" "now # nows"] rounds_decide[OF wf assms(2,4), of f "[]" "[now]"]
      assms(3) by simp
qed

text \<open>The acceptance rate reported is 1 as soon as anything is accepted.\<close>

lemma acceptance_rate_blind:
  "vm_acceptanceRate (vote_collectMetrics c ff reversions) = (if vo_accepted c = [] then 0 else 1)"
  by (cases "vo_accepted c") (simp_all add: vote_collectMetrics_def getAcceptedFacts_def Let_def)

section \<open>Witnesses\<close>

definition ballot_box :: "vote_op list" where
  "ballot_box = [VoteAgent ''a'' 2, VoteAgent ''b'' 1, VotePropose ''a'' ''x'' None None 5]"

definition box :: vote_coordinator where
  "box = vote_run ballot_box (new_vote_coordinator None None)"

lemma box_proposals: "map fst (vo_proposals box) = [''prop-0-5'']" "votes_of box ''prop-0-5'' = []" "\<not> is_accepted box ''prop-0-5''"
  "hasAcceptedContent ''x'' (vote_run [VoteRound (\<lambda>_ _. (True, False)) 6] box)"
  by code_simp+

definition vetoed :: vote_coordinator where
  "vetoed = vote_run (ballot_box @ [VoteCast ''prop-0-5'' ''b'' False True None 6]) (new_vote_coordinator None None)"

lemma vetoed_parts: "map_has (vo_proposals vetoed) ''prop-0-5''" "list_ex vt_veto (votes_of vetoed ''prop-0-5'')"
  "\<not> is_accepted vetoed ''prop-0-5''" "vc_vetoBlocks (vo_config vetoed)"
  by code_simp+

lemma veto_is_final_witness:
  "\<not> is_accepted (vote_run [VoteRound (\<lambda>_ _. (True, False)) 7] vetoed) ''prop-0-5''"
proof -
  obtain p where "map_get (vo_proposals vetoed) ''prop-0-5'' = Some p"
    using vetoed_parts(1) by (auto simp: map_has_def)
  then show ?thesis
    using veto_is_final[OF vetoed_def vetoed_parts(4) _ _ vetoed_parts(3)] vetoed_parts(2) by (simp add: list_ex_iff del: vote_run_simps)
qed

lemma accepted_never_revoked_witness:
  "hasAcceptedContent ''x'' (vote_run [VoteCast ''prop-0-5'' ''b'' False True None 7, VoteTally ''prop-0-5'']
     (vote_run (ballot_box @ [VoteRound (\<lambda>_ _. (True, False)) 6]) (new_vote_coordinator None None)))"
proof (rule accepted_never_revoked[OF refl])
  show "hasAcceptedContent ''x'' (vote_run (ballot_box @ [VoteRound (\<lambda>_ _. (True, False)) 6]) (new_vote_coordinator None None))"
    by code_simp
qed

lemma revoting_changes_nothing_witness:
  "is_accepted (rounds (\<lambda>_ _. (False, False)) [6, 7, 8] box) ''prop-0-5''
   \<longleftrightarrow> is_accepted (rounds (\<lambda>_ _. (False, False)) [6] box) ''prop-0-5''"
proof -
  have "map_has (vo_proposals box) ''prop-0-5''"
    using box_proposals(1) by (auto simp: map_has_def map_get_None_iff map_keys_def)
  then obtain p where "map_get (vo_proposals box) ''prop-0-5'' = Some p" by (auto simp: map_has_def)
  then show ?thesis using revoting_changes_nothing[OF box_def _ box_proposals(2,3)] by blast
qed

end
