(* ===== verification/State_Diff.thy ===== *)
theory State_Diff
  imports Vote_Baseline
begin

text \<open>
  The state-diff contracts of \<open>src/baselines/state-diff-contracts.ts\<close> that every compared system is
  judged by, with what a passed contract means for the state, and the equivalence of the first
  contract with the contradiction detectors of the two baselines.
\<close>

section \<open>Contracts\<close>

record state_fact =
  sf_id :: string
  sf_content :: string
  sf_dimension :: string
  sf_agentId :: string
  sf_epoch :: int
  sf_regulation :: "string option"
  sf_validTime :: "int option"
  sf_transactionTime :: "int option"

datatype contract_name = C1 | C2 | C3 | C4

record contract_result =
  kt_contract :: contract_name
  kt_passed :: bool
  kt_details :: string
  kt_score :: "nat option"

fun str_join :: "string \<Rightarrow> string list \<Rightarrow> string" where
  "str_join sep [] = []"
| "str_join sep [x] = x"
| "str_join sep (x # y # xs) = x @ sep @ str_join sep (y # xs)"

text \<open>A JavaScript \<open>Set\<close> keeps the first of equal elements.\<close>

definition set_insert :: "'a \<Rightarrow> 'a list \<Rightarrow> 'a list" where
  "set_insert x xs = (if x \<in> set xs then xs else xs @ [x])"

definition set_of_list :: "'a list \<Rightarrow> 'a list" where
  "set_of_list xs = fold set_insert xs []"

definition contents_by_dimension :: "state_fact list \<Rightarrow> (string, string list) jsmap" where
  "contents_by_dimension fs =
     fold (\<lambda>f m. map_set (sf_dimension f)
             (set_insert (sf_content f) (coalesce (map_get m (sf_dimension f)) [])) m) fs []"

definition contradicted_dimensions :: "state_fact list \<Rightarrow> string list" where
  "contradicted_dimensions fs = map fst (filter (\<lambda>(d, contents). length contents > 1) (contents_by_dimension fs))"

definition evaluateC1 :: "state_fact list \<Rightarrow> contract_result" where
  "evaluateC1 fs =
    (let ds = contradicted_dimensions fs in
     \<lparr> kt_contract = C1, kt_passed = (ds = []),
       kt_details = (if ds = [] then ''No contradictions on any dimension''
                     else ''Contradictions on '' @ nat_digits (length ds) @ '' dimensions: '' @ str_join '', '' ds),
       kt_score = Some (length ds) \<rparr>)"

definition evaluateC2 :: "state_fact list \<Rightarrow> string list \<Rightarrow> contract_result" where
  "evaluateC2 fs claims =
    (let found = filter (\<lambda>claim. List.find (\<lambda>f. sf_content f = claim \<or> str_includes (sf_content f) claim) fs \<noteq> None) claims in
     \<lparr> kt_contract = C2, kt_passed = (found = []),
       kt_details = (if found = [] then ''No false claims found (checked '' @ nat_digits (length claims) @ '')''
                     else nat_digits (length found) @ ''/'' @ nat_digits (length claims) @ '' false claims present in state''),
       kt_score = Some (length found) \<rparr>)"

definition fact_key :: "state_fact \<Rightarrow> string" where
  "fact_key f = sf_dimension f @ '':'' @ sf_content f"

definition evaluateC3 :: "state_fact list \<Rightarrow> state_fact list \<Rightarrow> contract_result" where
  "evaluateC3 reconstructed truth =
    (let rs = set_of_list (map fact_key reconstructed); ts = set_of_list (map fact_key truth);
         missing = length (filter (\<lambda>x. x \<notin> set rs) ts);
         extra = length (filter (\<lambda>x. x \<notin> set ts) rs);
         distance = missing + extra in
     \<lparr> kt_contract = C3, kt_passed = (distance = 0),
       kt_details = (if distance = 0 then ''Exact reconstruction ('' @ nat_digits (length ts) @ '' facts)''
                     else ''Edit distance '' @ nat_digits distance @ '': '' @ nat_digits missing @ '' missing, ''
                          @ nat_digits extra @ '' extra''),
       kt_score = Some distance \<rparr>)"

record preserved_fact =
  pf_content :: string
  pf_regulation :: string
  pf_validTime :: int

definition violation_text :: "preserved_fact \<Rightarrow> string" where
  "violation_text e =
     ''Missing: '' @ [CHR 0x22] @ pf_content e @ [CHR 0x22] @ '' under '' @ pf_regulation e @ '' at t=''
     @ int_text (pf_validTime e)"

definition evaluateC4 :: "state_fact list \<Rightarrow> preserved_fact list \<Rightarrow> contract_result" where
  "evaluateC4 fs expected =
    (let missing = filter (\<lambda>e. List.find (\<lambda>f. sf_content f = pf_content e \<and> sf_regulation f = Some (pf_regulation e)
                                     \<and> sf_validTime f = Some (pf_validTime e)) fs = None) expected;
         violations = map violation_text missing; n = length violations in
     \<lparr> kt_contract = C4, kt_passed = (n = 0),
       kt_details = (case violations of
                       [] \<Rightarrow> ''All '' @ nat_digits (length expected) @ '' bitemporal facts preserved''
                     | v # _ \<Rightarrow> nat_digits n @ '' violations: '' @ v
                               @ (if n > 1 then '' (+'' @ nat_digits (n - 1) @ '' more)'' else [])),
       kt_score = Some n \<rparr>)"

record evaluation_opts =
  eo_falseClaims :: "string list option"
  eo_reconstructed :: "state_fact list option"
  eo_truth :: "state_fact list option"
  eo_preserved :: "preserved_fact list option"

record system_evaluation =
  se_system :: string
  se_scenario :: string
  se_epoch :: int
  se_contracts :: "contract_result list"
  se_passRate :: rat

definition applicable_contracts :: "state_fact list \<Rightarrow> evaluation_opts \<Rightarrow> contract_result list" where
  "applicable_contracts fs opts =
     [evaluateC1 fs]
     @ (case eo_falseClaims opts of Some (c # cs) \<Rightarrow> [evaluateC2 fs (c # cs)] | _ \<Rightarrow> [])
     @ (case (eo_reconstructed opts, eo_truth opts) of (Some r, Some t) \<Rightarrow> [evaluateC3 r t] | _ \<Rightarrow> [])
     @ (case eo_preserved opts of Some (e # es) \<Rightarrow> [evaluateC4 fs (e # es)] | _ \<Rightarrow> [])"

definition evaluateSystem :: "string \<Rightarrow> string \<Rightarrow> int \<Rightarrow> state_fact list \<Rightarrow> evaluation_opts \<Rightarrow> system_evaluation" where
  "evaluateSystem system scenario epoch fs opts =
    (let contracts = applicable_contracts fs opts; passed = length (filter kt_passed contracts) in
     \<lparr> se_system = system, se_scenario = scenario, se_epoch = epoch, se_contracts = contracts,
       se_passRate = (if length contracts > 0 then of_nat passed / of_nat (length contracts) else 0) \<rparr>)"

record prd_metrics =
  m1_error_amplification :: rat
  m2_contradiction_step :: "int option"
  m3_semantic_reversions :: int
  m4_contract_pass_rate :: rat
  m5_convergence_steps :: "int option"
  m6_total_tokens :: int
  m7_reconstructible :: bool
  m8_synergy_gap :: "rat option"

definition createEmptyMetrics :: prd_metrics where
  "createEmptyMetrics =
     \<lparr> m1_error_amplification = 0, m2_contradiction_step = None, m3_semantic_reversions = 0,
       m4_contract_pass_rate = 0, m5_convergence_steps = None, m6_total_tokens = 0,
       m7_reconstructible = False, m8_synergy_gap = None \<rparr>"

section \<open>Sets and groups\<close>

lemma set_insert_set [simp]: "set (set_insert x xs) = insert x (set xs)"
  by (auto simp: set_insert_def)

lemma set_of_list_set [simp]: "set (set_of_list xs) = set xs"
proof -
  have "set (fold set_insert xs ys) = set xs \<union> set ys" for ys
    by (induction xs arbitrary: ys) auto
  then show ?thesis by (simp add: set_of_list_def)
qed

lemma set_of_list_distinct [simp]: "distinct (set_of_list xs)"
proof -
  have "distinct ys \<Longrightarrow> distinct (fold set_insert xs ys)" for ys
    by (induction xs arbitrary: ys) (auto simp: set_insert_def)
  then show ?thesis by (simp add: set_of_list_def)
qed

text \<open>What a \<open>Map\<close> filled element by element holds: under each key the fold of the elements with it.\<close>

definition collect_by :: "('a \<Rightarrow> 'k) \<Rightarrow> ('a \<Rightarrow> 'b list \<Rightarrow> 'b list) \<Rightarrow> 'a list \<Rightarrow> ('k, 'b list) jsmap" where
  "collect_by key g xs = fold (\<lambda>x m. map_set (key x) (g x (coalesce (map_get m (key x)) [])) m) xs []"

lemma collect_by_snoc:
  "collect_by key g (xs @ [x])
   = map_set (key x) (g x (coalesce (map_get (collect_by key g xs) (key x)) [])) (collect_by key g xs)"
  by (simp add: collect_by_def)

lemma collect_by_get_miss: "\<not> (\<exists>x \<in> set xs. key x = k) \<Longrightarrow> map_get (collect_by key g xs) k = None"
  by (induction xs rule: rev_induct) (auto simp: collect_by_snoc map_get_set, simp add: collect_by_def)

lemma collect_by_get:
  "map_get (collect_by key g xs) k
   = (if \<exists>x \<in> set xs. key x = k then Some (fold g (filter (\<lambda>x. key x = k) xs) []) else None)"
proof (induction xs arbitrary: k rule: rev_induct)
  case (snoc x xs)
  have "coalesce (map_get (collect_by key g xs) (key x)) [] = fold g (filter (\<lambda>y. key y = key x) xs) []"
  proof (cases "\<exists>y \<in> set xs. key y = key x")
    case False
    then have "filter (\<lambda>y. key y = key x) xs = []" by (auto simp: filter_empty_conv)
    moreover have "map_get (collect_by key g xs) (key x) = None"
      using False collect_by_get_miss by metis
    ultimately show ?thesis by simp
  qed (use snoc in auto)
  then show ?case using snoc by (auto simp: collect_by_snoc map_get_set)
qed (simp add: collect_by_def)

lemma collect_by_wf: "map_wf (collect_by key g xs)"
  by (induction xs rule: rev_induct) (simp_all add: collect_by_snoc, simp add: collect_by_def)

lemma collect_by_entries:
  "(k, v) \<in> set (collect_by key g xs) \<longleftrightarrow> map_get (collect_by key g xs) k = Some v"
  using collect_by_wf[of key g xs] by (simp add: map_wf_def map_get_iff_map_of)

lemma contents_as_collect:
  "contents_by_dimension = collect_by sf_dimension (\<lambda>f. set_insert (sf_content f))"
  by (rule ext) (simp add: contents_by_dimension_def collect_by_def)

lemma groups_as_collect: "groups_by key = collect_by key (\<lambda>x g. g @ [x])"
  by (rule ext) (simp add: groups_by_def group_into_def[abs_def] collect_by_def)

lemma fold_snoc: "fold (\<lambda>x g. g @ [x]) xs ys = ys @ xs"
  by (induction xs arbitrary: ys) auto

lemma group_is_filter: "(k, g) \<in> set (groups_by key xs) \<longleftrightarrow> g = filter (\<lambda>x. key x = k) xs \<and> g \<noteq> []"
  by (auto simp: groups_as_collect collect_by_entries collect_by_get fold_snoc filter_empty_conv)

lemma fold_set_insert_map: "fold (\<lambda>f. set_insert (h f)) fs [] = set_of_list (map h fs)"
  by (simp add: set_of_list_def fold_map comp_def)

lemma more_than_one: "distinct xs \<Longrightarrow> length xs > 1 \<longleftrightarrow> (\<exists>x \<in> set xs. \<exists>y \<in> set xs. x \<noteq> y)"
  by (cases xs; cases "tl xs") auto

section \<open>What a passed contract means\<close>

lemma c1_passes_iff:
  "kt_passed (evaluateC1 fs)
   \<longleftrightarrow> (\<forall>f \<in> set fs. \<forall>g \<in> set fs. sf_dimension f = sf_dimension g \<longrightarrow> sf_content f = sf_content g)"
proof -
  have entry: "(d, cs) \<in> set (contents_by_dimension fs) \<longleftrightarrow>
      (\<exists>f \<in> set fs. sf_dimension f = d) \<and> cs = set_of_list (map sf_content (filter (\<lambda>f. sf_dimension f = d) fs))" for d cs
    by (auto simp: contents_as_collect collect_by_entries collect_by_get fold_set_insert_map)
  have one: "\<not> length (set_of_list ys) > 1 \<longleftrightarrow> (\<forall>x \<in> set ys. \<forall>y \<in> set ys. x = y)" for ys :: "string list"
    using more_than_one[OF set_of_list_distinct, of ys] by auto
  have "kt_passed (evaluateC1 fs) \<longleftrightarrow> (\<forall>d cs. (d, cs) \<in> set (contents_by_dimension fs) \<longrightarrow> \<not> length cs > 1)"
    by (auto simp: evaluateC1_def contradicted_dimensions_def Let_def filter_empty_conv)
  also have "\<dots> \<longleftrightarrow> (\<forall>f \<in> set fs. \<not> length (set_of_list (map sf_content (filter (\<lambda>g. sf_dimension g = sf_dimension f) fs))) > 1)"
    unfolding entry by blast
  also have "\<dots> \<longleftrightarrow> (\<forall>f \<in> set fs. \<forall>g \<in> set fs. sf_dimension f = sf_dimension g \<longrightarrow> sf_content f = sf_content g)"
    unfolding one
  proof (intro iffI ballI impI)
    fix f g
    assume h: "\<forall>f \<in> set fs. \<forall>x \<in> set (map sf_content (filter (\<lambda>g. sf_dimension g = sf_dimension f) fs)).
        \<forall>y \<in> set (map sf_content (filter (\<lambda>g. sf_dimension g = sf_dimension f) fs)). x = y"
      and f: "f \<in> set fs" and g: "g \<in> set fs" "sf_dimension f = sf_dimension g"
    have "sf_content f \<in> set (map sf_content (filter (\<lambda>g. sf_dimension g = sf_dimension f) fs))"
      "sf_content g \<in> set (map sf_content (filter (\<lambda>g. sf_dimension g = sf_dimension f) fs))"
      using f g by simp_all
    then show "sf_content f = sf_content g" using h f by blast
  next
    fix f x y
    assume h: "\<forall>f \<in> set fs. \<forall>g \<in> set fs. sf_dimension f = sf_dimension g \<longrightarrow> sf_content f = sf_content g"
      and f: "f \<in> set fs" and x: "x \<in> set (map sf_content (filter (\<lambda>g. sf_dimension g = sf_dimension f) fs))"
        "y \<in> set (map sf_content (filter (\<lambda>g. sf_dimension g = sf_dimension f) fs))"
    from x obtain g g' where "g \<in> set fs" "sf_dimension g = sf_dimension f" "x = sf_content g"
      "g' \<in> set fs" "sf_dimension g' = sf_dimension f" "y = sf_content g'" by fastforce
    then show "x = y" using h f by metis
  qed
  finally show ?thesis .
qed

lemma c2_passes_iff:
  "kt_passed (evaluateC2 fs claims) \<longleftrightarrow> (\<forall>c \<in> set claims. \<forall>f \<in> set fs. \<not> str_includes (sf_content f) c)"
  by (auto simp: evaluateC2_def Let_def filter_empty_conv find_None_iff str_includes_def)

lemma c3_passes_iff:
  "kt_passed (evaluateC3 r t) \<longleftrightarrow> fact_key ` set r = fact_key ` set t"
  by (auto simp: evaluateC3_def Let_def filter_empty_conv)

lemma c3_score:
  "kt_score (evaluateC3 r t) = Some (card (fact_key ` set t - fact_key ` set r) + card (fact_key ` set r - fact_key ` set t))"
proof -
  have "length (filter (\<lambda>x. x \<notin> A) (set_of_list xs)) = card (set xs - A)" for A and xs :: "string list"
  proof -
    have "length (filter (\<lambda>x. x \<notin> A) (set_of_list xs)) = card (set (filter (\<lambda>x. x \<notin> A) (set_of_list xs)))"
      by (simp only: distinct_card distinct_filter set_of_list_distinct)
    also have "set (filter (\<lambda>x. x \<notin> A) (set_of_list xs)) = set xs - A" by auto
    finally show ?thesis .
  qed
  then show ?thesis by (simp add: evaluateC3_def Let_def)
qed

lemma c4_passes_iff:
  "kt_passed (evaluateC4 fs expected)
   \<longleftrightarrow> (\<forall>e \<in> set expected. \<exists>f \<in> set fs. sf_content f = pf_content e \<and> sf_regulation f = Some (pf_regulation e)
          \<and> sf_validTime f = Some (pf_validTime e))"
  by (auto simp: evaluateC4_def Let_def filter_empty_conv find_None_iff)

lemma all_passed_iff: "length (filter P xs) = length xs \<longleftrightarrow> list_all P xs"
  by (metis filter_id_conv length_filter_less less_irrefl list_all_iff)

lemma pass_rate_bounds:
  "0 \<le> se_passRate (evaluateSystem sys sc ep fs opts)" "se_passRate (evaluateSystem sys sc ep fs opts) \<le> 1"
  by (auto simp: evaluateSystem_def Let_def divide_le_eq)

lemma pass_rate_one:
  "se_passRate (evaluateSystem sys sc ep fs opts) = 1 \<longleftrightarrow> list_all kt_passed (applicable_contracts fs opts)"
proof -
  have "applicable_contracts fs opts \<noteq> []" by (simp add: applicable_contracts_def)
  then show ?thesis
    using all_passed_iff[of kt_passed "applicable_contracts fs opts"]
    by (simp add: evaluateSystem_def Let_def eq_commute[of "length (filter _ _)"])
qed

text \<open>
  A system has the full pass rate exactly if no dimension carries two contents, no injected
  claim occurs in a content, the reconstruction has the keys of the truth and every expected fact is
  kept with its regulation and valid time, each condition as far as its data was given.
\<close>

theorem full_pass_rate_iff:
  "se_passRate (evaluateSystem sys sc ep fs opts) = 1
   \<longleftrightarrow> (\<forall>f \<in> set fs. \<forall>g \<in> set fs. sf_dimension f = sf_dimension g \<longrightarrow> sf_content f = sf_content g)
     \<and> (\<forall>c \<in> set (coalesce (eo_falseClaims opts) []). \<forall>f \<in> set fs. \<not> str_includes (sf_content f) c)
     \<and> (\<forall>r t. eo_reconstructed opts = Some r \<longrightarrow> eo_truth opts = Some t \<longrightarrow> fact_key ` set r = fact_key ` set t)
     \<and> (\<forall>e \<in> set (coalesce (eo_preserved opts) []). \<exists>f \<in> set fs. sf_content f = pf_content e
          \<and> sf_regulation f = Some (pf_regulation e) \<and> sf_validTime f = Some (pf_validTime e))"
proof -
  have "list_all kt_passed (case eo_falseClaims opts of Some (c # cs) \<Rightarrow> [evaluateC2 fs (c # cs)] | _ \<Rightarrow> [])
      \<longleftrightarrow> (\<forall>c \<in> set (coalesce (eo_falseClaims opts) []). \<forall>f \<in> set fs. \<not> str_includes (sf_content f) c)"
    by (simp add: c2_passes_iff split: option.split list.split)
  moreover have "list_all kt_passed (case (eo_reconstructed opts, eo_truth opts) of (Some r, Some t) \<Rightarrow> [evaluateC3 r t] | _ \<Rightarrow> [])
      \<longleftrightarrow> (\<forall>r t. eo_reconstructed opts = Some r \<longrightarrow> eo_truth opts = Some t \<longrightarrow> fact_key ` set r = fact_key ` set t)"
    by (simp add: c3_passes_iff split: option.split)
  moreover have "list_all kt_passed (case eo_preserved opts of Some (e # es) \<Rightarrow> [evaluateC4 fs (e # es)] | _ \<Rightarrow> [])
      \<longleftrightarrow> (\<forall>e \<in> set (coalesce (eo_preserved opts) []). \<exists>f \<in> set fs. sf_content f = pf_content e
          \<and> sf_regulation f = Some (pf_regulation e) \<and> sf_validTime f = Some (pf_validTime e))"
    by (simp add: c4_passes_iff split: option.split list.split)
  ultimately show ?thesis
    by (simp only: pass_rate_one applicable_contracts_def list_all_append list.pred_inject c1_passes_iff HOL.simp_thms)
qed

definition price_fact :: state_fact where
  "price_fact = \<lparr> sf_id = ''1'', sf_content = ''50M'', sf_dimension = ''price'', sf_agentId = ''a'', sf_epoch = 0,
     sf_regulation = Some ''R1'', sf_validTime = Some 3, sf_transactionTime = None \<rparr>"

lemma full_pass_rate_iff_witness:
  "se_passRate (evaluateSystem ''sgrs'' ''s1'' 0 [price_fact]
     \<lparr> eo_falseClaims = Some [''90M''], eo_reconstructed = Some [price_fact], eo_truth = Some [price_fact],
       eo_preserved = Some [\<lparr> pf_content = ''50M'', pf_regulation = ''R1'', pf_validTime = 3 \<rparr>] \<rparr>) = 1"
  unfolding full_pass_rate_iff
  by (auto simp: price_fact_def str_includes_def dest!: set_mono_sublist)

section \<open>Three detectors of contradictions\<close>

definition gset_state_fact :: "gset_fact \<Rightarrow> state_fact" where
  "gset_state_fact f =
     \<lparr> sf_id = gf_id f, sf_content = gf_content f, sf_dimension = coalesce (gf_dimension f) [],
       sf_agentId = gf_agent f, sf_epoch = gf_epoch f, sf_regulation = None, sf_validTime = None,
       sf_transactionTime = None \<rparr>"

definition vote_state_fact :: "accepted_fact \<Rightarrow> state_fact" where
  "vote_state_fact f =
     \<lparr> sf_id = vp_id (ac_proposal f), sf_content = vp_content (ac_proposal f), sf_dimension = fact_dimension f,
       sf_agentId = vp_proposer (ac_proposal f), sf_epoch = ac_epoch f, sf_regulation = None,
       sf_validTime = None, sf_transactionTime = None \<rparr>"

lemma pairs_of_Nil: "pairs_of xs = [] \<longleftrightarrow> length xs \<le> 1"
  by (cases xs; cases "tl xs") auto

lemma pairs_of_all:
  assumes "\<And>x. P x x" "\<And>x y. P x y \<Longrightarrow> P y x"
  shows "(\<forall>(x, y) \<in> set (pairs_of xs). P x y) \<longleftrightarrow> (\<forall>x \<in> set xs. \<forall>y \<in> set xs. P x y)"
proof (induction xs)
  case (Cons x xs)
  have "(\<forall>(u, v) \<in> set (pairs_of (x # xs)). P u v)
      \<longleftrightarrow> (\<forall>v \<in> set xs. P x v) \<and> (\<forall>(u, v) \<in> set (pairs_of xs). P u v)" by (auto simp: ball_Un)
  then show ?case using Cons assms by (metis (no_types, lifting) set_ConsD list.set_intros)
qed simp

lemma group_keys: "fst ` set (groups_by key xs) = key ` set xs"
proof (rule set_eqI)
  fix k
  have "k \<in> fst ` set (groups_by key xs) \<longleftrightarrow> (\<exists>g. (k, g) \<in> set (groups_by key xs))" by force
  also have "\<dots> \<longleftrightarrow> filter (\<lambda>x. key x = k) xs \<noteq> []" unfolding group_is_filter by blast
  finally show "k \<in> fst ` set (groups_by key xs) \<longleftrightarrow> k \<in> key ` set xs" by (auto simp: filter_empty_conv)
qed

lemma groups_agree: "length (groups_by key xs) \<le> 1 \<longleftrightarrow> (\<forall>x \<in> set xs. \<forall>y \<in> set xs. key x = key y)"
proof -
  have d: "distinct (map fst (groups_by key xs))"
    using collect_by_wf[of key "\<lambda>x g. g @ [x]" xs] by (simp add: groups_as_collect map_wf_def)
  have "length (groups_by key xs) \<le> 1 \<longleftrightarrow> \<not> length (map fst (groups_by key xs)) > 1" by auto
  also have "\<dots> \<longleftrightarrow> \<not> (\<exists>x \<in> key ` set xs. \<exists>y \<in> key ` set xs. x \<noteq> y)"
    using more_than_one[OF d] by (simp add: group_keys)
  finally show ?thesis by auto
qed

lemma all_groups:
  "(\<forall>(d, g) \<in> set (groups_by key xs). \<forall>x \<in> set g. \<forall>y \<in> set g. h x = h y)
   \<longleftrightarrow> (\<forall>x \<in> set xs. \<forall>y \<in> set xs. key x = key y \<longrightarrow> h x = h y)"
proof
  assume l: "\<forall>(d, g) \<in> set (groups_by key xs). \<forall>x \<in> set g. \<forall>y \<in> set g. h x = h y"
  show "\<forall>x \<in> set xs. \<forall>y \<in> set xs. key x = key y \<longrightarrow> h x = h y"
  proof (intro ballI impI)
    fix x y assume "x \<in> set xs" "y \<in> set xs" "key x = key y"
    then have "(key x, filter (\<lambda>z. key z = key x) xs) \<in> set (groups_by key xs)"
      "x \<in> set (filter (\<lambda>z. key z = key x) xs)" "y \<in> set (filter (\<lambda>z. key z = key x) xs)"
      by (auto simp: group_is_filter filter_empty_conv)
    then show "h x = h y" using l by blast
  qed
qed (auto simp: group_is_filter)

text \<open>
  The three detectors of contradictions agree: the one of the grow-only set and the one of the
  vote report nothing exactly if the first contract passes for their facts with a dimension.
\<close>

theorem detectors_agree:
  "(gset_detectContradictions c = []
     \<longleftrightarrow> kt_passed (evaluateC1 (map gset_state_fact (with_dimension (getAll (co_global c))))))
   \<and> (vote_detectContradictions v = []
     \<longleftrightarrow> kt_passed (evaluateC1 (map vote_state_fact (filter (\<lambda>f. fact_dimension f \<noteq> []) (getAcceptedFacts v)))))"
proof
  have "dimension_contradictions e d fs = [] \<longleftrightarrow> (\<forall>x \<in> set fs. \<forall>y \<in> set fs. gf_content x = gf_content y)" for e d fs
    using groups_agree[of gf_content fs] by (simp add: dimension_contradictions_def pairs_of_Nil)
  then show "gset_detectContradictions c = []
     \<longleftrightarrow> kt_passed (evaluateC1 (map gset_state_fact (with_dimension (getAll (co_global c)))))"
    using all_groups[of "\<lambda>f. coalesce (gf_dimension f) []" "with_dimension (getAll (co_global c))" gf_content]
    by (simp add: gset_detectContradictions_def c1_passes_iff gset_state_fact_def split_beta)
next
  have "differing_pairs d fs = [] \<longleftrightarrow>
      (\<forall>x \<in> set fs. \<forall>y \<in> set fs. vp_content (ac_proposal x) = vp_content (ac_proposal y))" for d fs
    using pairs_of_all[of "\<lambda>f g. vp_content (ac_proposal f) = vp_content (ac_proposal g)" fs]
    by (auto simp: differing_pairs_def filter_empty_conv)
  then show "vote_detectContradictions v = []
     \<longleftrightarrow> kt_passed (evaluateC1 (map vote_state_fact (filter (\<lambda>f. fact_dimension f \<noteq> []) (getAcceptedFacts v))))"
    using all_groups[of fact_dimension "filter (\<lambda>f. fact_dimension f \<noteq> []) (getAcceptedFacts v)"
        "\<lambda>f. vp_content (ac_proposal f)"]
    by (simp add: vote_detectContradictions_def c1_passes_iff vote_state_fact_def split_beta)
qed

end
