(* ===== verification/Goals.thy ===== *)
theory Goals
  imports Contradictions Number_Text
begin

text \<open>
  Goals of a scope against evidence: the matching of \<open>src/semantic-graph/goalMatching.ts\<close>, the
  evaluation by the planner (\<open>src/semantic-graph/goals.ts\<close>) and the recording of a human resolution
  (\<open>src/semantic-graph/resolutions.ts\<close>).

  The language model is the argument \<open>gm_ask\<close>: what its endpoint answers for a text and the goals, or
  an error (no connection, an HTTP error, no content); \<open>gm_parse\<close> is \<open>JSON.parse\<close>. Prompts and token
  metrics are left out. Token sets are lists without duplicates.
\<close>

section \<open>Tokens\<close>

definition SYNONYMS :: "(string, string list) jsmap" where
  "SYNONYMS =
     [(''ip'', [''patents'', ''patent'', ''intellectual'', ''property'']),
      (''patents'', [''ip'', ''patent'', ''intellectual'']),
      (''patent'', [''ip'', ''patents'', ''intellectual'']),
      (''cto'', [''technical'', ''team'', ''chief'', ''officer'']),
      (''technical'', [''cto'', ''tech'', ''engineering'']),
      (''retention'', [''retain'', ''retaining'', ''departure'', ''departing'']),
      (''arr'', [''revenue'', ''recurring'', ''annual'']),
      (''revenue'', [''arr'', ''recurring'', ''financial'']),
      (''compliance'', [''regulatory'', ''regulation'', ''posture'']),
      (''regulatory'', [''compliance'', ''regulation'']),
      (''ownership'', [''own'', ''co-ownership'', ''ip'']),
      (''valuation'', [''value'', ''pricing'', ''worth'']),
      (''due'', [''diligence'']),
      (''diligence'', [''due''])]"

definition STOP_WORDS :: "string list" where
  "STOP_WORDS =
     [''the'', ''a'', ''an'', ''and'', ''or'', ''but'', ''in'', ''on'', ''at'', ''to'', ''for'', ''of'', ''with'',
      ''by'', ''from'', ''is'', ''are'', ''was'', ''were'', ''be'', ''been'', ''has'', ''have'', ''had'', ''do'',
      ''does'', ''did'', ''will'', ''would'', ''could'', ''should'', ''may'', ''might'', ''shall'', ''can'',
      ''this'', ''that'', ''these'', ''those'', ''it'', ''its'', ''not'', ''no'', ''all'', ''any'', ''each'',
      ''every'', ''both'', ''few'', ''more'', ''most'', ''other'', ''some'', ''such'', ''than'', ''too'', ''very'',
      ''just'', ''about'', ''above'', ''after'', ''before'', ''between'', ''into'', ''through'', ''during'',
      ''until'', ''against'', ''among'', ''out'', ''up'']"

definition token_char :: "char \<Rightarrow> bool" where
  "token_char c = (small_alnum c \<or> c = CHR ''%'')"

definition tokenize :: "string \<Rightarrow> string list" where
  "tokenize txt =
     remdups (filter (\<lambda>w. 2 < length w \<and> w \<notin> set STOP_WORDS)
       (words_of (map (\<lambda>c. if token_char c then c else CHR '' '') (str_lower txt))))"

text \<open>The table is an object literal, so the word \<open>constructor\<close> finds the function every object
  inherits under that name, which the loop cannot iterate over.\<close>

definition expandSynonyms :: "string list \<Rightarrow> string list option" where
  "expandSynonyms tokens =
     (if ''constructor'' \<in> set tokens then None
      else Some (remdups (tokens @ concat (map (\<lambda>t. coalesce (map_get SYNONYMS t) []) tokens))))"

definition sentence_end :: "char \<Rightarrow> bool" where
  "sentence_end c = (c \<in> set ''.!?;,'' \<or> c = CHR 0x0A)"

definition splitIntoSentences :: "string \<Rightarrow> string list" where
  "splitIntoSentences txt =
     filter (\<lambda>s. 5 < length s) (map str_trim (split_words (\<lambda>c. \<not> sentence_end c) [] txt))"

definition jaccardSimilarity :: "string list \<Rightarrow> string list \<Rightarrow> rat" where
  "jaccardSimilarity a b =
     (if a = [] \<and> b = [] then 0
      else (let inter = shared_words a b; all = length a + length b - inter in
            if all = 0 then 0 else of_nat inter / of_nat all))"

definition coverage :: "string list \<Rightarrow> string list \<Rightarrow> rat" where
  "coverage src goal = (if goal = [] then 0 else of_nat (shared_words goal src) / of_nat (length goal))"

definition bestMatchScore :: "string list \<Rightarrow> string list list \<Rightarrow> string list \<Rightarrow> rat" where
  "bestMatchScore full sentences goal =
     foldl (\<lambda>best st. let s = max (jaccardSimilarity st goal) (coverage st goal) in if s > best then s else best)
       (max (jaccardSimilarity full goal) (coverage full goal)) sentences"

section \<open>Matching\<close>

datatype goal_status = FullyResolved | PartiallyResolved | NotAddressed

record goal_match =
  ga_node :: string
  ga_status :: goal_status
  ga_confidence :: rat

type_synonym goal_text = "string \<times> string"

fun all_expanded :: "string list \<Rightarrow> string list list option" where
  "all_expanded [] = Some []"
| "all_expanded (s # ss) =
     (case expandSynonyms (tokenize s) of
        None \<Rightarrow> None | Some t \<Rightarrow> map_option (Cons t) (all_expanded ss))"

fun match_loop :: "string list \<Rightarrow> string list list \<Rightarrow> goal_text list \<Rightarrow> goal_match list option" where
  "match_loop full sentences [] = Some []"
| "match_loop full sentences ((i, content) # goals) =
     (case expandSynonyms (tokenize content) of
        None \<Rightarrow> None
      | Some goal \<Rightarrow>
         (let score = bestMatchScore full sentences goal in
          map_option (\<lambda>ms. if score \<ge> 1 / 10
              then \<lparr> ga_node = i, ga_status = (if score \<ge> 2 / 10 then FullyResolved else PartiallyResolved),
                     ga_confidence = score \<rparr> # ms
              else ms) (match_loop full sentences goals)))"

text \<open>\<open>None\<close>: the \<open>TypeError\<close> of the synonym loop.\<close>

definition matchGoalsDeterministic :: "string \<Rightarrow> goal_text list \<Rightarrow> goal_match list option" where
  "matchGoalsDeterministic decision goals =
     (case (expandSynonyms (tokenize decision), all_expanded (splitIntoSentences decision)) of
        (Some full, Some sentences) \<Rightarrow> match_loop full sentences goals
      | _ \<Rightarrow> None)"

record goal_model =
  gm_configured :: bool
  gm_ask :: "string \<Rightarrow> goal_text list \<Rightarrow> js_error + string"
  gm_parse :: "string \<Rightarrow> json option"

text \<open>\<open>/\[[\s\S]*\]/\<close>: from the first opening to the last closing bracket.\<close>

definition json_array_text :: "string \<Rightarrow> string option" where
  "json_array_text txt =
    (let from_open = dropWhile (\<lambda>c. c \<noteq> CHR ''['') txt;
         upto = rev (dropWhile (\<lambda>c. c \<noteq> CHR '']'') (rev from_open)) in
     if upto = [] then None else Some upto)"

fun goal_status_of :: "json option \<Rightarrow> goal_status option" where
  "goal_status_of (Some (JStr s)) =
     (if s = ''fully_resolved'' then Some FullyResolved
      else if s = ''partially_resolved'' then Some PartiallyResolved
      else if s = ''not_addressed'' then Some NotAddressed else None)"
| "goal_status_of _ = None"

fun goal_confidence_of :: "json option \<Rightarrow> rat option" where
  "goal_confidence_of None = Some (1 / 2)"
| "goal_confidence_of (Some (JNum x)) = (if 0 \<le> x \<and> x \<le> 1 then Some x else None)"
| "goal_confidence_of _ = None"

text \<open>\<open>GoalMatchItemSchema\<close>.\<close>

fun goal_item :: "json \<Rightarrow> goal_match option" where
  "goal_item (JObj fs) =
     (case (json_str (map_get fs ''id''), goal_status_of (map_get fs ''status''),
            goal_confidence_of (map_get fs ''confidence'')) of
        (Some i, Some st, Some c) \<Rightarrow> Some \<lparr> ga_node = i, ga_status = st, ga_confidence = c \<rparr>
      | _ \<Rightarrow> None)"
| "goal_item _ = None"

fun goal_items :: "json list \<Rightarrow> goal_match list option" where
  "goal_items [] = Some []"
| "goal_items (x # xs) = (case goal_item x of None \<Rightarrow> None | Some m \<Rightarrow> map_option (Cons m) (goal_items xs))"

definition model_matches :: "goal_model \<Rightarrow> string \<Rightarrow> goal_text list \<Rightarrow> js_error + goal_match list" where
  "model_matches env txt goals =
    (if \<not> gm_configured env \<or> goals = []
     then (case matchGoalsDeterministic txt goals of None \<Rightarrow> Inl (JsError ''TypeError'') | Some ms \<Rightarrow> Inr ms)
     else case gm_ask env txt goals of
       Inl e \<Rightarrow> Inl e
     | Inr content \<Rightarrow>
        (case json_array_text content of
           None \<Rightarrow> Inl (JsError ''No JSON array in LLM response'')
         | Some t \<Rightarrow>
            (case gm_parse env t of
               None \<Rightarrow> Inl (JsError ''SyntaxError'')
             | Some (JArr xs) \<Rightarrow>
                (case goal_items xs of
                   None \<Rightarrow> Inl (JsError ''Goal match schema validation failed'')
                 | Some ms \<Rightarrow> Inr (filter (\<lambda>m. ga_node m \<in> fst ` set goals) ms))
             | Some _ \<Rightarrow> Inl (JsError ''Goal match schema validation failed''))))"

definition matchGoalsAgainstEvidenceWithLLM :: "goal_model \<Rightarrow> string \<Rightarrow> goal_text list \<Rightarrow> js_error + goal_match list" where
  "matchGoalsAgainstEvidenceWithLLM env txt goals = model_matches env txt goals"

definition matchGoalsWithLLM :: "goal_model \<Rightarrow> string \<Rightarrow> goal_text list \<Rightarrow> js_error + goal_match list" where
  "matchGoalsWithLLM env decision goals = model_matches env decision goals"

definition with_fallback :: "js_error + goal_match list \<Rightarrow> string \<Rightarrow> goal_text list \<Rightarrow> (world, goal_match list) exec" where
  "with_fallback answer txt goals =
     (case answer of
        Inr ms \<Rightarrow> ret ms
      | Inl _ \<Rightarrow> (case matchGoalsDeterministic txt goals of
                   None \<Rightarrow> raise (JsError ''TypeError'') | Some ms \<Rightarrow> ret ms))"

section \<open>Updating goals\<close>

definition new_goal_status :: "goal_match \<Rightarrow> string" where
  "new_goal_status m = (if ga_status m = FullyResolved then ''resolved'' else ''in_progress'')"

definition update_goal :: "(goal_match \<Rightarrow> json_obj) \<Rightarrow> goal_match \<Rightarrow> (world, unit) exec" where
  "update_goal ref m =
     update_statement (\<lambda>n. nd_id n = ga_node m)
       (\<lambda>w n. touch w n \<lparr> nd_status := new_goal_status m, nd_source := json_merge (nd_source n) (ref m) \<rparr>)"

definition update_goals :: "(goal_match \<Rightarrow> json_obj) \<Rightarrow> goal_match list \<Rightarrow> (world, goal_match list) exec" where
  "update_goals ref ms =
    (let addressed = filter (\<lambda>m. ga_status m \<noteq> NotAddressed) ms in
     and_then (in_order (map (update_goal ref) addressed)) (\<lambda>_. ret addressed))"

definition active_of_type :: "string \<Rightarrow> string \<Rightarrow> world \<Rightarrow> node_row list" where
  "active_of_type scopeId type w =
     filter (\<lambda>n. nd_scope n = scopeId \<and> nd_type n = type \<and> nd_status n = ''active'' \<and> node_current (w_now w) n)
       (w_nodes w)"

definition goal_texts :: "node_row list \<Rightarrow> goal_text list" where
  "goal_texts ns = map (\<lambda>n. (nd_id n, nd_content n)) ns"

fun join_texts :: "string \<Rightarrow> string list \<Rightarrow> string" where
  "join_texts sep [] = []"
| "join_texts sep [x] = x"
| "join_texts sep (x # y # xs) = x @ sep @ join_texts sep (y # xs)"

definition evidence_text :: "node_row list \<Rightarrow> string" where
  "evidence_text claims = take 8000 (join_texts ''. '' (filter (\<lambda>c. c \<noteq> []) (map nd_content claims)))"

record goal_evaluation =
  ge_evaluated :: nat
  ge_resolved :: nat
  ge_in_progress :: nat

definition planner_ref :: "string \<Rightarrow> goal_match \<Rightarrow> json_obj" where
  "planner_ref evidence m =
     [(''resolved_by'', JStr ''planner_goal_eval''), (''match_confidence'', JNum (ga_confidence m)),
      (''evidence_preview'', JStr (take 200 evidence))]"

definition evaluateGoalsAgainstEvidence :: "goal_model \<Rightarrow> string \<Rightarrow> (world, goal_evaluation) exec" where
  "evaluateGoalsAgainstEvidence env scopeId =
     and_then (external (\<lambda>w. (w, Inr (goal_texts (take 50 (sort_key nd_created (active_of_type scopeId ''goal'' w)))))))
       (\<lambda>goals.
          if goals = [] then ret \<lparr> ge_evaluated = 0, ge_resolved = 0, ge_in_progress = 0 \<rparr>
          else and_then (external (\<lambda>w. (w, Inr (evidence_text (take 50
                   (sort_key (\<lambda>n. - nd_confidence n) (active_of_type scopeId ''claim'' w)))))))
            (\<lambda>evidence. and_then (with_fallback (matchGoalsAgainstEvidenceWithLLM env evidence goals) evidence goals)
              (\<lambda>ms. and_then (update_goals (planner_ref evidence) ms)
                (\<lambda>done. ret \<lparr> ge_evaluated = length goals,
                              ge_resolved = length (filter (\<lambda>m. ga_status m = FullyResolved) done),
                              ge_in_progress = length (filter (\<lambda>m. ga_status m \<noteq> FullyResolved) done) \<rparr>))))"

section \<open>Human resolutions\<close>

definition HUMAN_RESOLUTION_CONFIDENCE :: rat where
  "HUMAN_RESOLUTION_CONFIDENCE = 95 / 100"

definition seq_ref :: "int option \<Rightarrow> json_obj" where
  "seq_ref resolutionSeq = (case resolutionSeq of None \<Rightarrow> [] | Some s \<Rightarrow> [(''resolution_seq'', JNum (of_int s))])"

definition resolution_claim :: "string \<Rightarrow> string \<Rightarrow> int option \<Rightarrow> node_input" where
  "resolution_claim scopeId trimmed resolutionSeq =
     \<lparr> ni_scope = scopeId, ni_type = ''claim'', ni_content = trimmed,
       ni_confidence = Some HUMAN_RESOLUTION_CONFIDENCE, ni_status = Some ''active'',
       ni_source = (''source'', JStr ''resolution'') # seq_ref resolutionSeq, ni_meta = [],
       ni_by = Some ''resolution'', ni_embedding = None, ni_valid_from = None, ni_valid_to = None \<rparr>"

definition is_resolution_claim :: "string \<Rightarrow> string \<Rightarrow> node_row \<Rightarrow> bool" where
  "is_resolution_claim scopeId trimmed n =
     (nd_scope n = scopeId \<and> nd_type n = ''claim'' \<and> nd_by n = Some ''resolution'' \<and> nd_content n = trimmed
      \<and> nd_status n = ''active'')"

definition appendResolutionAsClaim :: "string \<Rightarrow> string \<Rightarrow> int option \<Rightarrow> (world, string option) exec" where
  "appendResolutionAsClaim scopeId decision resolutionSeq =
    (let trimmed = str_trim decision in
     if trimmed = [] then ret None
     else and_then (external (\<lambda>w. (w, Inr (List.find (is_resolution_claim scopeId trimmed) (w_nodes w)))))
       (\<lambda>row. case row of
          Some n \<Rightarrow> ret (Some (nd_id n))
        | None \<Rightarrow> and_then (appendNode (resolution_claim scopeId trimmed resolutionSeq)) (\<lambda>i. ret (Some i))))"

definition resolution_goal_ref :: "string \<Rightarrow> goal_match \<Rightarrow> json_obj" where
  "resolution_goal_ref decision m =
     [(''resolved_by'', JStr ''resolution''), (''match_confidence'', JNum (ga_confidence m)),
      (''decision_preview'', JStr (take 200 (str_trim decision)))]"

definition resolution_goal :: "string \<Rightarrow> string \<Rightarrow> string \<Rightarrow> int option \<Rightarrow> node_input" where
  "resolution_goal scopeId decision summary resolutionSeq =
     \<lparr> ni_scope = scopeId, ni_type = ''goal'',
       ni_content = (if str_trim summary \<noteq> [] then str_trim summary else take 500 (str_trim decision)),
       ni_confidence = Some 1, ni_status = Some ''resolved'',
       ni_source = [(''source'', JStr ''resolution''), (''decision_preview'', JStr (take 200 (str_trim decision)))]
                   @ seq_ref resolutionSeq,
       ni_meta = [], ni_by = Some ''resolution'', ni_embedding = None, ni_valid_from = None, ni_valid_to = None \<rparr>"

definition appendResolutionGoal :: "goal_model \<Rightarrow> string \<Rightarrow> string \<Rightarrow> string \<Rightarrow> int option \<Rightarrow> (world, string) exec" where
  "appendResolutionGoal env scopeId decision summary resolutionSeq =
     and_then (appendResolutionAsClaim scopeId decision resolutionSeq)
       (\<lambda>_. and_then (external (\<lambda>w. (w, Inr (goal_texts (active_of_type scopeId ''goal'' w)))))
         (\<lambda>goals. and_then (with_fallback (matchGoalsWithLLM env decision goals) decision goals)
           (\<lambda>ms. and_then (update_goals (resolution_goal_ref decision) ms)
             (\<lambda>matched. case matched of
                m # _ \<Rightarrow> ret (ga_node m)
              | [] \<Rightarrow> appendNode (resolution_goal scopeId decision summary resolutionSeq)))))"

end
