(* ===== verification/Goals_Safety.thy ===== *)
theory Goals_Safety
  imports Goals
begin

text \<open>
  What matching, evaluating and resolving goals amounts to: the deterministic score is the share of
  the goal's words the text has, although it is computed as a maximum over Jaccard and coverage of the
  text and its sentences; a partially resolved goal is out of the planner's reach; a resolution that
  ends normally is on record.
\<close>

section \<open>Words of a text and of its sentences\<close>

definition norm_char :: "char \<Rightarrow> char" where
  "norm_char c = (if token_char (ascii_lower c) then ascii_lower c else CHR '' '')"

definition norm_words :: "string \<Rightarrow> string list" where
  "norm_words s = split_words (\<lambda>c. \<not> js_space c) [] (map norm_char s)"

lemma tokenize_norm: "tokenize s = remdups (filter (\<lambda>w. 2 < length w \<and> w \<notin> set STOP_WORDS) (norm_words s))"
  by (simp add: tokenize_def norm_words_def words_of_def str_lower_def norm_char_def[abs_def] comp_def)

lemma split_words_append:
  "\<not> keep d \<Longrightarrow> split_words keep acc (p @ d # q) = split_words keep acc p @ split_words keep [] q"
  by (induction keep acc p rule: split_words.induct) auto

lemma space_splits: "js_space (norm_char c) \<Longrightarrow> norm_words (p @ c # q) = norm_words p @ norm_words q"
  by (simp add: norm_words_def split_words_append)

lemma norm_words_Nil [simp]: "norm_words [] = []"
  by (simp add: norm_words_def)

lemma blank_is_space: "js_space (CHR '' '')"
  by (simp add: js_space_def)

lemma space_norm: "js_space c \<Longrightarrow> js_space (norm_char c)"
  by (auto simp: js_space_def norm_char_def token_char_def small_alnum_def is_lower_letter_def is_digit_def
      ascii_lower_def Let_def)

lemma end_norm: "sentence_end c \<Longrightarrow> js_space (norm_char c)"
  by (auto simp: js_space_def sentence_end_def norm_char_def token_char_def small_alnum_def is_lower_letter_def
      is_digit_def ascii_lower_def Let_def)

lemma norm_words_dropWhile: "norm_words (dropWhile js_space s) = norm_words s"
proof (induction s)
  case (Cons c s)
  then show ?case using space_splits[of c "[]" s] space_norm[of c] by simp
qed simp

lemma norm_words_drop_end: "norm_words (rev (dropWhile js_space (rev s))) = norm_words s"
proof (induction s rule: rev_induct)
  case (snoc c s)
  then show ?case using space_splits[of c s "[]"] space_norm[of c] by simp
qed simp

lemma norm_words_trim [simp]: "norm_words (str_trim s) = norm_words s"
  by (simp add: str_trim_def norm_words_drop_end norm_words_dropWhile)

lemma piece_words:
  assumes "piece \<in> set (split_words (\<lambda>c. \<not> sentence_end c) acc body)"
  shows "set (norm_words piece) \<subseteq> set (norm_words (rev acc @ body))"
  using assms
proof (induction body arbitrary: acc)
  case Nil
  then show ?case by (auto split: if_splits)
next
  case (Cons c cs)
  show ?case
  proof (cases "sentence_end c")
    case False
    then show ?thesis using Cons.IH[of "c # acc"] Cons.prems by simp
  next
    case True
    then have "norm_words (rev acc @ c # cs) = norm_words (rev acc) @ norm_words cs"
      by (intro space_splits end_norm)
    then show ?thesis using Cons.IH[of "[]"] Cons.prems True by (auto split: if_splits)
  qed
qed

lemma sentence_tokens:
  assumes "s \<in> set (splitIntoSentences body)"
  shows "set (tokenize s) \<subseteq> set (tokenize body)"
proof -
  obtain piece where "piece \<in> set (split_words (\<lambda>c. \<not> sentence_end c) [] body)" "s = str_trim piece"
    using assms by (auto simp: splitIntoSentences_def)
  then show ?thesis using piece_words[of piece "[]" body] by (auto simp: tokenize_norm)
qed

section \<open>Scores\<close>

lemma shared_card: "distinct a \<Longrightarrow> shared_words a b = card (set a \<inter> set b)"
proof -
  assume d: "distinct a"
  have "shared_words a b = card (set (filter (\<lambda>w. w \<in> set b) a))"
    unfolding shared_words_def by (rule distinct_card[symmetric]) (use d in simp)
  also have "set (filter (\<lambda>w. w \<in> set b) a) = set a \<inter> set b" by auto
  finally show ?thesis .
qed

lemma jaccard_le_coverage:
  assumes "distinct a" "distinct b"
  shows "jaccardSimilarity a b \<le> coverage a b"
proof (cases "b = []")
  case False
  let ?i = "card (set a \<inter> set b)"
  have i: "shared_words a b = ?i" "shared_words b a = ?i"
    using shared_card assms by (simp_all add: Int_commute)
  have le: "?i \<le> length a" "?i \<le> length b"
    using shared_words_le[of a b] shared_words_le[of b a] i by auto
  have "length b \<le> length a + length b - ?i" using le by simp
  moreover have "0 < length b" using False by simp
  ultimately have "0 < (of_nat (length a + length b - ?i) :: rat) * of_nat (length b)"
    "(of_nat (length b) :: rat) \<le> of_nat (length a + length b - ?i)"
    by (simp_all only: of_nat_le_iff of_nat_0_less_iff of_nat_mult[symmetric] nat_0_less_mult_iff)
      (metis less_le_trans)
  then have "(of_nat ?i :: rat) / of_nat (length a + length b - ?i) \<le> of_nat ?i / of_nat (length b)"
    by (intro divide_left_mono) auto
  moreover have "jaccardSimilarity a b = of_nat ?i / of_nat (length a + length b - ?i)"
    using False by (simp add: jaccardSimilarity_def Let_def i)
  moreover have "coverage a b = of_nat ?i / of_nat (length b)" using False by (simp add: coverage_def i)
  ultimately show ?thesis by (simp only:)
qed (simp add: jaccardSimilarity_def coverage_def shared_words_def)

lemma coverage_mono:
  assumes "distinct g" "set a \<subseteq> set b"
  shows "coverage a g \<le> coverage b g"
proof -
  have "card (set g \<inter> set a) \<le> card (set g \<inter> set b)" by (rule card_mono) (use assms(2) in auto)
  then show ?thesis by (simp add: coverage_def shared_card[OF assms(1)] divide_right_mono)
qed

lemma best_is_coverage:
  assumes "distinct full" "distinct goal" "\<forall>st \<in> set sentences. distinct st \<and> set st \<subseteq> set full"
  shows "bestMatchScore full sentences goal = coverage full goal"
proof -
  have start: "max (jaccardSimilarity full goal) (coverage full goal) = coverage full goal"
    using jaccard_le_coverage[OF assms(1,2)] by simp
  have "max (jaccardSimilarity st goal) (coverage st goal) \<le> coverage full goal" if "st \<in> set sentences" for st
    using that jaccard_le_coverage[of st goal] coverage_mono[OF assms(2), of st full] assms(2,3) by force
  then have "foldl (\<lambda>best st. let s = max (jaccardSimilarity st goal) (coverage st goal) in if s > best then s else best)
      (coverage full goal) sentences = coverage full goal"
    by (induction sentences) (simp_all add: Let_def not_less[symmetric] del: not_less max_less_iff_conj less_max_iff_disj)
  then show ?thesis by (simp only: bestMatchScore_def start)
qed

section \<open>The reference\<close>

definition token_set :: "string \<Rightarrow> string set" where
  "token_set s = set (tokenize s)"

definition word_set :: "string \<Rightarrow> string set" where
  "word_set s = token_set s \<union> (\<Union>t \<in> token_set s. set (coalesce (map_get SYNONYMS t) []))"

definition word_share :: "string \<Rightarrow> string \<Rightarrow> rat" where
  "word_share decision content =
     of_nat (card (word_set content \<inter> word_set decision)) / of_nat (card (word_set content))"

definition reference_match :: "string \<Rightarrow> goal_text list \<Rightarrow> goal_match list" where
  "reference_match decision goals =
     map (\<lambda>(i, content). \<lparr> ga_node = i,
            ga_status = (if word_share decision content \<ge> 2 / 10 then FullyResolved else PartiallyResolved),
            ga_confidence = word_share decision content \<rparr>)
       (filter (\<lambda>(i, content). word_share decision content \<ge> 1 / 10) goals)"

lemma expand_Some:
  "expandSynonyms (tokenize s) = Some t \<Longrightarrow> distinct t \<and> set t = word_set s \<and> ''constructor'' \<notin> token_set s"
  by (auto simp: expandSynonyms_def word_set_def token_set_def split: if_splits)

lemma expand_None: "expandSynonyms (tokenize s) = None \<longleftrightarrow> ''constructor'' \<in> token_set s"
  by (simp add: expandSynonyms_def token_set_def)

lemma word_set_mono: "token_set s \<subseteq> token_set t \<Longrightarrow> word_set s \<subseteq> word_set t"
  by (auto simp: word_set_def)

lemma all_expanded_cases:
  assumes "\<forall>s \<in> set ss. token_set s \<subseteq> token_set body" "''constructor'' \<notin> token_set body"
  shows "\<exists>ts. all_expanded ss = Some ts \<and> (\<forall>t \<in> set ts. distinct t \<and> set t \<subseteq> word_set body)"
  using assms
proof (induction ss)
  case (Cons s ss)
  obtain t where t: "expandSynonyms (tokenize s) = Some t"
    using Cons.prems expand_None[of s] by (cases "expandSynonyms (tokenize s)") auto
  then show ?case using Cons expand_Some[OF t] word_set_mono[of s body] by auto
qed simp

lemma coverage_share:
  assumes "distinct goal" "set goal = word_set content" "set full = word_set decision"
  shows "coverage full goal = word_share decision content"
proof -
  have "card (word_set content) = length goal" using assms(1,2) distinct_card[of goal] by simp
  then show ?thesis using assms shared_card[OF assms(1), of full]
    by (auto simp: coverage_def word_share_def)
qed

lemma match_loop_reference:
  assumes "\<And>content goal. expandSynonyms (tokenize content) = Some goal \<Longrightarrow>
      bestMatchScore full sentences goal = word_share decision content"
  shows "match_loop full sentences goals
     = (if \<exists>(i, c) \<in> set goals. ''constructor'' \<in> token_set c then None else Some (reference_match decision goals))"
proof (induction goals)
  case (Cons g goals)
  obtain i c where g: "g = (i, c)" by fastforce
  show ?case
  proof (cases "expandSynonyms (tokenize c)")
    case None
    then show ?thesis using expand_None[of c] g by auto
  next
    case (Some goal)
    then have "''constructor'' \<notin> token_set c" using expand_Some by blast
    then show ?thesis using Cons g Some assms[OF Some] by (auto simp: reference_match_def Let_def)
  qed
qed (simp add: reference_match_def)

lemma match_reference:
  "matchGoalsDeterministic decision goals
   = (if ''constructor'' \<in> token_set decision \<or> (\<exists>(i, c) \<in> set goals. ''constructor'' \<in> token_set c)
      then None else Some (reference_match decision goals))"
proof (cases "''constructor'' \<in> token_set decision")
  case True
  then show ?thesis using expand_None[of decision] by (simp add: matchGoalsDeterministic_def)
next
  case False
  then obtain full where full: "expandSynonyms (tokenize decision) = Some full"
    using expand_None[of decision] by (cases "expandSynonyms (tokenize decision)") auto
  note f = expand_Some[OF full]
  have "\<forall>s \<in> set (splitIntoSentences decision). token_set s \<subseteq> token_set decision"
    using sentence_tokens by (auto simp: token_set_def)
  then obtain sentences where s: "all_expanded (splitIntoSentences decision) = Some sentences"
    "\<forall>t \<in> set sentences. distinct t \<and> set t \<subseteq> word_set decision"
    using all_expanded_cases[OF _ False] by blast
  have "bestMatchScore full sentences goal = word_share decision content"
    if "expandSynonyms (tokenize content) = Some goal" for content goal
    using best_is_coverage[of full goal sentences] coverage_share[of goal content full decision]
      expand_Some[OF that] f s(2) by simp
  then show ?thesis
    using match_loop_reference[of full sentences decision goals] full s False
    by (simp add: matchGoalsDeterministic_def)
qed

text \<open>
  C38. The deterministic matching computes the share of a goal's words, with their synonyms, that the
  text has: the Jaccard similarity and the sentences it also looks at never change the result. It
  fails exactly when the text or a goal contains the word \<open>constructor\<close>.
\<close>

theorem deterministic_match_reference:
  "matchGoalsDeterministic decision goals
   = (if ''constructor'' \<in> token_set decision \<or> (\<exists>(i, c) \<in> set goals. ''constructor'' \<in> token_set c)
      then None else Some (reference_match decision goals))"
  by (rule match_reference)

section \<open>Effects on the graph\<close>

lemma and_then_post:
  assumes "I (fst (m w))" "\<And>w1 x. m w = (w1, Inr x) \<Longrightarrow> I (fst (f x w1))"
  shows "I (fst (and_then m f w))"
  using assms by (cases "m w") (auto simp: and_then_def split: sum.split)

definition holds_node :: "node_row \<Rightarrow> world \<Rightarrow> bool" where
  "holds_node n w = (distinct (node_ids w) \<and> n \<in> set (w_nodes w))"

lemma holds_tick [simp]: "holds_node n (tick w) = holds_node n w"
  by (simp add: holds_node_def node_ids_def)

lemma holds_read: "holds_node n w \<Longrightarrow> holds_node n (fst (external (\<lambda>w. (w, Inr (f w))) w))"
  by (simp add: external_def)

lemma node_ids_update [simp]:
  "(\<And>m. nd_id (f m) = nd_id m) \<Longrightarrow> node_ids (update_nodes P f w) = node_ids w"
  by (auto simp: node_ids_def update_nodes_def)

lemma node_ids_tick [simp]: "node_ids (tick w) = node_ids w"
  by (simp add: node_ids_def)

lemma holds_update_goal:
  assumes "holds_node n w" "ga_node m \<noteq> nd_id n"
  shows "holds_node n (fst (update_goal ref m w))"
proof -
  define g where "g k = touch (tick w) k \<lparr> nd_status := new_goal_status m,
    nd_source := json_merge (nd_source k) (ref m) \<rparr>" for k
  let ?v = "update_nodes (\<lambda>k. nd_id k = ga_node m) g (tick w)"
  have "node_ids ?v = node_ids w" by (simp add: g_def touch_def)
  moreover have "n \<in> set (w_nodes ?v)" using assms by (force simp: update_nodes_def holds_node_def)
  ultimately have "holds_node n ?v" using assms(1) by (simp add: holds_node_def)
  then show ?thesis using assms(1)
    by (simp add: update_goal_def update_statement_def external_def g_def[abs_def])
qed

lemma holds_update_goals:
  assumes "holds_node n w" "\<And>m. m \<in> set ms \<Longrightarrow> ga_node m \<noteq> nd_id n"
  shows "holds_node n (fst (update_goals ref ms w))"
  unfolding update_goals_def Let_def
proof (rule and_then_post)
  show "holds_node n (fst (in_order (map (update_goal ref) (filter (\<lambda>m. ga_status m \<noteq> NotAddressed) ms)) w))"
    by (rule in_order_invariant) (use assms holds_update_goal in auto)
  then show "holds_node n (fst (ret (filter (\<lambda>m. ga_status m \<noteq> NotAddressed) ms) w1))"
    if "in_order (map (update_goal ref) (filter (\<lambda>m. ga_status m \<noteq> NotAddressed) ms)) w = (w1, Inr x)" for w1 x
    using that by simp
qed

lemma reference_ids: "m \<in> set (reference_match decision goals) \<Longrightarrow> ga_node m \<in> fst ` set goals"
  by (force simp: reference_match_def)

lemma deterministic_ids:
  "matchGoalsDeterministic decision goals = Some ms \<Longrightarrow> m \<in> set ms \<Longrightarrow> ga_node m \<in> fst ` set goals"
  using reference_ids by (auto simp: match_reference split: if_splits)

lemma model_ids:
  assumes "model_matches env body goals = Inr ms" "m \<in> set ms"
  shows "ga_node m \<in> fst ` set goals"
  using assms deterministic_ids[of body goals ms m]
  by (auto simp: model_matches_def split: if_splits option.splits sum.splits json.splits)

lemma fallback_result:
  assumes "with_fallback (model_matches env body goals) body goals w = (w', Inr ms)" "m \<in> set ms"
  shows "w' = w \<and> ga_node m \<in> fst ` set goals"
  using assms model_ids[of env body goals ms m] deterministic_ids[of body goals ms m]
  by (auto simp: with_fallback_def split: sum.splits option.splits)

lemma fallback_state: "fst (with_fallback a body goals w) = w"
  by (auto simp: with_fallback_def split: sum.splits option.splits)

lemma active_ids:
  assumes "holds_node n w" "x \<in> set (active_of_type sc t w)" "nd_status n \<noteq> ''active'' \<or> nd_type n \<noteq> t"
  shows "nd_id x \<noteq> nd_id n"
proof
  assume "nd_id x = nd_id n"
  moreover have "x \<in> set (w_nodes w)" using assms(2) by (simp add: active_of_type_def)
  ultimately have "x = n" using assms(1) by (auto simp: holds_node_def node_ids_def distinct_map inj_on_def)
  then show False using assms(2,3) by (auto simp: active_of_type_def)
qed

lemma match_and_update_holds:
  assumes "holds_node n w" "\<And>i. i \<in> fst ` set goals \<Longrightarrow> i \<noteq> nd_id n"
    "\<And>v x. holds_node n v \<Longrightarrow> holds_node n (fst (f x v))"
  shows "holds_node n (fst (and_then (with_fallback (model_matches env body goals) body goals)
           (\<lambda>ms. and_then (update_goals ref ms) f) w))"
proof (rule and_then_post[where I = "holds_node n"])
  show "holds_node n (fst (with_fallback (model_matches env body goals) body goals w))"
    using assms(1) by (simp add: fallback_state)
  fix w1 ms
  assume r: "with_fallback (model_matches env body goals) body goals w = (w1, Inr ms)"
  then have "w1 = w" using fallback_state[of "model_matches env body goals" body goals w] by simp
  then have "holds_node n (fst (update_goals ref ms w1))"
    using assms(1,2) fallback_result[OF r] by (intro holds_update_goals) auto
  then show "holds_node n (fst (and_then (update_goals ref ms) f w1))"
    using assms(3) by (intro and_then_post[where I = "holds_node n"]) auto
qed

lemma read_goals_ids:
  assumes "holds_node n w" "nd_status n \<noteq> ''active'' \<or> nd_type n \<noteq> ''goal''"
    "set rows \<subseteq> set (active_of_type sc ''goal'' w)" "i \<in> fst ` set (goal_texts rows)"
  shows "i \<noteq> nd_id n"
proof -
  obtain x where "x \<in> set rows" "i = nd_id x"
    using assms(4) unfolding goal_texts_def set_map image_image fst_conv by blast
  then show ?thesis using active_ids[OF assms(1) _ assms(2), of x sc] assms(3) by auto
qed

lemma evaluate_holds:
  assumes "holds_node n w" "nd_status n \<noteq> ''active''"
  shows "holds_node n (fst (evaluateGoalsAgainstEvidence env sc w))"
  unfolding evaluateGoalsAgainstEvidence_def matchGoalsAgainstEvidenceWithLLM_def
proof (rule and_then_post[where I = "holds_node n"], rule holds_read[OF assms(1)])
  let ?rows = "take 50 (sort_key nd_created (active_of_type sc ''goal'' (tick w)))"
  fix w1 goals
  assume g: "external (\<lambda>w. (w, Inr (goal_texts (take 50 (sort_key nd_created (active_of_type sc ''goal'' w)))))) w = (w1, Inr goals)"
  then have h1: "holds_node n w1" and v: "goals = goal_texts ?rows"
    using assms(1) by (auto simp: external_def split: if_splits)
  have "set ?rows \<subseteq> set (active_of_type sc ''goal'' (tick w))" by (auto dest: in_set_takeD)
  then have ids: "i \<noteq> nd_id n" if "i \<in> fst ` set goals" for i
    using read_goals_ids[of n "tick w"] assms that v by simp
  show "holds_node n (fst ((if goals = [] then ret \<lparr> ge_evaluated = 0, ge_resolved = 0, ge_in_progress = 0 \<rparr>
          else and_then (external (\<lambda>w. (w, Inr (evidence_text (take 50
                   (sort_key (\<lambda>n. - nd_confidence n) (active_of_type sc ''claim'' w)))))))
            (\<lambda>evidence. and_then (with_fallback (model_matches env evidence goals) evidence goals)
              (\<lambda>ms. and_then (update_goals (planner_ref evidence) ms)
                (\<lambda>done. ret \<lparr> ge_evaluated = length goals,
                              ge_resolved = length (filter (\<lambda>m. ga_status m = FullyResolved) done),
                              ge_in_progress = length (filter (\<lambda>m. ga_status m \<noteq> FullyResolved) done) \<rparr>)))) w1))"
  proof (cases "goals = []")
    case False
    show ?thesis
      unfolding if_not_P[OF False]
    proof (rule and_then_post[where I = "holds_node n"], rule holds_read[OF h1])
      fix w2 evidence
      assume "external (\<lambda>w. (w, Inr (evidence_text (take 50 (sort_key (\<lambda>n. - nd_confidence n) (active_of_type sc ''claim'' w)))))) w1
          = (w2, Inr evidence)"
      then have "holds_node n w2" using h1 by (auto simp: external_def split: if_splits)
      then show "holds_node n (fst (and_then (with_fallback (model_matches env evidence goals) evidence goals)
              (\<lambda>ms. and_then (update_goals (planner_ref evidence) ms)
                (\<lambda>done. ret \<lparr> ge_evaluated = length goals,
                              ge_resolved = length (filter (\<lambda>m. ga_status m = FullyResolved) done),
                              ge_in_progress = length (filter (\<lambda>m. ga_status m \<noteq> FullyResolved) done) \<rparr>)) w2))"
        using ids by (intro match_and_update_holds) auto
    qed
  qed (use h1 in simp)
qed

definition evaluate_goals_runs :: "(goal_model \<times> string) list \<Rightarrow> world \<Rightarrow> world" where
  "evaluate_goals_runs calls w = fold (\<lambda>(env, sc) w. fst (evaluateGoalsAgainstEvidence env sc w)) calls w"

text \<open>
  C39. The planner's evaluation never looks at a goal again that it set to \<open>in_progress\<close>: such a
  node, as every node that is not active, stays exactly as it is over any number of evaluations, of
  any scopes, with any model answers and failures.
\<close>

theorem partial_goal_out_of_reach:
  assumes "distinct (node_ids w)" "n \<in> set (w_nodes w)" "nd_status n = ''in_progress''"
  shows "n \<in> set (w_nodes (evaluate_goals_runs calls w))"
proof -
  have "holds_node n w" using assms by (simp add: holds_node_def)
  moreover have "nd_status n \<noteq> ''active''" using assms(3) by simp
  ultimately have "holds_node n (evaluate_goals_runs calls w)"
    unfolding evaluate_goals_runs_def
    by (induction calls arbitrary: w) (auto simp: evaluate_holds split: prod.split)
  then show ?thesis by (simp add: holds_node_def)
qed

lemma appendNode_holds: "holds_node n w \<Longrightarrow> holds_node n (fst (appendNode i w))"
  by (auto simp: appendNode_def external_def Let_def holds_node_def node_ids_def new_node_def)

lemma recorded_claim:
  assumes "distinct (node_ids w)" "str_trim decision \<noteq> []"
    "appendResolutionAsClaim sc decision s w = (w', Inr r)"
  shows "\<exists>n. holds_node n w' \<and> is_resolution_claim sc (str_trim decision) n"
proof (cases "List.find (is_resolution_claim sc (str_trim decision)) (w_nodes w)")
  case (Some n)
  then have "n \<in> set (w_nodes w)" "is_resolution_claim sc (str_trim decision) n"
    by (auto simp: find_Some_iff)
  moreover have "w' = tick w"
    using Some assms(2,3) by (auto simp: appendResolutionAsClaim_def and_then_def external_def Let_def split: if_splits)
  ultimately show ?thesis using assms(1) by (auto simp: holds_node_def)
next
  case None
  let ?v = "tick (tick w)"
  define n where "n = new_node (resolution_claim sc (str_trim decision) s) (w_uuid ?v (w_uuids ?v)) (w_now ?v)"
  have "w_nodes w' = w_nodes w @ [n]" "nd_id n \<notin> set (node_ids w)"
    using None assms(2,3)
    by (auto simp: appendResolutionAsClaim_def and_then_def external_def appendNode_def Let_def n_def new_node_def
        tick_def node_ids_def split: if_splits)
  moreover have "is_resolution_claim sc (str_trim decision) n"
    by (simp add: n_def new_node_def resolution_claim_def is_resolution_claim_def)
  ultimately show ?thesis using assms(1) by (auto simp: holds_node_def node_ids_def)
qed

lemma resolution_holds:
  assumes "holds_node n w" "nd_type n = ''claim''"
  shows "holds_node n (fst (and_then (external (\<lambda>w. (w, Inr (goal_texts (active_of_type sc ''goal'' w)))))
         (\<lambda>goals. and_then (with_fallback (matchGoalsWithLLM env decision goals) decision goals)
           (\<lambda>ms. and_then (update_goals ref ms)
             (\<lambda>matched. case matched of m # _ \<Rightarrow> ret (ga_node m) | [] \<Rightarrow> appendNode g))) w))"
  unfolding matchGoalsWithLLM_def
proof (rule and_then_post[where I = "holds_node n"], rule holds_read[OF assms(1)])
  fix w1 goals
  assume "external (\<lambda>w. (w, Inr (goal_texts (active_of_type sc ''goal'' w)))) w = (w1, Inr goals)"
  then have h1: "holds_node n w1" and v: "goals = goal_texts (active_of_type sc ''goal'' (tick w))"
    using assms(1) by (auto simp: external_def split: if_splits)
  have "i \<noteq> nd_id n" if "i \<in> fst ` set goals" for i
    using read_goals_ids[of n "tick w" "active_of_type sc ''goal'' (tick w)" sc i] assms that v by simp
  then show "holds_node n (fst (and_then (with_fallback (model_matches env decision goals) decision goals)
           (\<lambda>ms. and_then (update_goals ref ms)
             (\<lambda>matched. case matched of m # _ \<Rightarrow> ret (ga_node m) | [] \<Rightarrow> appendNode g)) w1))"
    using h1 by (intro match_and_update_holds) (auto simp: appendNode_holds split: list.split)
qed

text \<open>
  A resolution that ends normally is on record: whatever the model answers and whichever goals
  it updates, an active claim made by a resolution holds the decision's text, alone under its
  identifier.
\<close>

theorem resolution_always_recorded:
  assumes "distinct (node_ids w)" "str_trim decision \<noteq> []"
    "appendResolutionGoal env sc decision summary s w = (w', Inr i)"
  shows "\<exists>n \<in> set (w_nodes w'). is_resolution_claim sc (str_trim decision) n"
proof -
  obtain w1 r where r: "appendResolutionAsClaim sc decision s w = (w1, Inr r)"
    using assms(3) by (auto simp: appendResolutionGoal_def and_then_def split: prod.splits sum.splits)
  then obtain n where n: "holds_node n w1" "is_resolution_claim sc (str_trim decision) n"
    using recorded_claim[OF assms(1,2)] by blast
  then have "nd_type n = ''claim''" by (simp add: is_resolution_claim_def)
  from resolution_holds[OF n(1) this, of sc env decision "resolution_goal_ref decision"
      "resolution_goal sc decision summary s"]
  have "holds_node n w'"
    using assms(3) r by (simp add: appendResolutionGoal_def and_then_def[of "appendResolutionAsClaim sc decision s"])
  then show ?thesis using n(2) by (auto simp: holds_node_def)
qed

section \<open>Witnesses\<close>

definition plain_goal_model :: goal_model where
  "plain_goal_model = \<lparr> gm_configured = False, gm_ask = (\<lambda>_ _. Inl io_error), gm_parse = (\<lambda>_. None) \<rparr>"

definition goal_node :: "string \<Rightarrow> string \<Rightarrow> string \<Rightarrow> node_row" where
  "goal_node i c st = new_node \<lparr> ni_scope = ''s'', ni_type = ''goal'', ni_content = c, ni_confidence = None,
     ni_status = Some st, ni_source = [], ni_meta = [], ni_by = None, ni_embedding = None,
     ni_valid_from = None, ni_valid_to = None \<rparr> i 0"

definition goal_world :: world where
  "goal_world = empty_world \<lparr> w_nodes := [goal_node ''g1'' ''patent ownership'' ''in_progress'',
     goal_node ''g2'' ''retention plan'' ''active''] \<rparr>"

lemma goal_world_ids: "distinct (node_ids goal_world)" "goal_node ''g1'' ''patent ownership'' ''in_progress'' \<in> set (w_nodes goal_world)"
  by code_simp+

theorem partial_goal_out_of_reach_witness:
  "goal_node ''g1'' ''patent ownership'' ''in_progress''
     \<in> set (w_nodes (evaluate_goals_runs [(plain_goal_model, ''s''), (plain_goal_model, ''s'')] goal_world))"
  by (rule partial_goal_out_of_reach[OF goal_world_ids]) (simp add: goal_node_def new_node_def)

definition resolved_goals :: "world \<times> (js_error + string)" where
  "resolved_goals = appendResolutionGoal plain_goal_model ''s'' ''retention plan agreed'' [] None goal_world"

lemma resolved_goals_ends: "resolved_goals = (fst resolved_goals, Inr ''g2'')"
proof -
  have "snd resolved_goals = Inr ''g2''" by code_simp
  then show ?thesis by (metis prod.collapse)
qed

theorem resolution_always_recorded_witness:
  "\<exists>n \<in> set (w_nodes (fst resolved_goals)). is_resolution_claim ''s'' ''retention plan agreed'' n"
proof -
  have t: "str_trim ''retention plan agreed'' = ''retention plan agreed''" by code_simp
  have "str_trim ''retention plan agreed'' \<noteq> []" unfolding t by simp
  from resolution_always_recorded[OF goal_world_ids(1) this resolved_goals_ends[unfolded resolved_goals_def]]
  show ?thesis unfolding t resolved_goals_def by simp
qed

end
