(* ===== verification/Wal_Queries.thy ===== *)
theory Wal_Queries
  imports Finality_Input
begin

text \<open>
  Reading the context WAL, \<open>src/contextWal.ts\<close>: the tail of all events or of one scope, the pages
  after a sequence number, and the latest event of the kinds that count as progress. The sequence
  number of a row is its position, counted from one. A scope identifier in an event is a string or
  null; other JSON values under that name do not occur.
\<close>

section \<open>Rows and their scope\<close>

type_synonym wal_row = "int \<times> json_obj"

definition wal_rows :: "json_obj list \<Rightarrow> wal_row list" where
  "wal_rows wal = map (\<lambda>i. (int i + 1, wal ! i)) [0..<length wal]"

fun json_fields :: "json option \<Rightarrow> json_obj" where
  "json_fields (Some (JObj fs)) = fs"
| "json_fields _ = []"

text \<open>The operator \<open>\<rightarrow>>\<close> of the JSON columns.\<close>

definition json_text :: "json_obj \<Rightarrow> string \<Rightarrow> string option" where
  "json_text fs key = json_str (map_get fs key)"

fun nullish :: "json option \<Rightarrow> json option" where
  "nullish (Some JNull) = None"
| "nullish x = x"

definition scopeIdFromEventData :: "json option \<Rightarrow> string option" where
  "scopeIdFromEventData data =
    (let fields = json_fields data;
         sid = or_else (nullish (map_get (json_fields (map_get fields ''payload'')) ''scope_id''))
                 (map_get fields ''scope_id'') in
     case json_str sid of
       None \<Rightarrow> None
     | Some s \<Rightarrow> if str_trim s = [] then None else Some (str_trim s))"

definition eventBelongsToScope :: "json option \<Rightarrow> string \<Rightarrow> bool" where
  "eventBelongsToScope data scopeId = (scopeIdFromEventData data = Some scopeId)"

text \<open>\<open>COALESCE(data->'payload'->>'scope_id', data->>'scope_id')\<close>.\<close>

definition listed_scope :: "json_obj \<Rightarrow> string option" where
  "listed_scope d = or_else (json_text (json_fields (map_get d ''payload'')) ''scope_id'') (json_text d ''scope_id'')"

section \<open>Queries\<close>

text \<open>\<open>ORDER BY seq DESC LIMIT n\<close>, reversed by the program.\<close>

definition newest :: "nat \<Rightarrow> wal_row list \<Rightarrow> wal_row list" where
  "newest limit rows = rev (take limit (rev rows))"

definition tailEvents :: "nat \<Rightarrow> (world, wal_row list) exec" where
  "tailEvents limit = external (\<lambda>w. (w, Inr (newest limit (wal_rows (w_wal w)))))"

definition rows_of_scope :: "string \<Rightarrow> wal_row list \<Rightarrow> wal_row list" where
  "rows_of_scope scopeId rows = filter (\<lambda>(_, d). listed_scope d = Some scopeId) rows"

definition tailEventsForScope :: "string \<Rightarrow> nat \<Rightarrow> (world, wal_row list) exec" where
  "tailEventsForScope scopeId limit =
     external (\<lambda>w. (w, Inr (newest limit (rows_of_scope scopeId (wal_rows (w_wal w))))))"

definition rows_since :: "int \<Rightarrow> nat \<Rightarrow> wal_row list \<Rightarrow> wal_row list" where
  "rows_since afterSeq limit rows = take limit (filter (\<lambda>(i, _). afterSeq < i) rows)"

definition eventsSince :: "int \<Rightarrow> nat \<Rightarrow> (world, wal_row list) exec" where
  "eventsSince afterSeq limit = external (\<lambda>w. (w, Inr (rows_since afterSeq limit (wal_rows (w_wal w)))))"

definition PIPELINE_EVENT_TYPES :: "string list" where
  "PIPELINE_EVENT_TYPES =
     [''bootstrap'', ''state_transition'', ''facts_extracted'', ''drift_analyzed'', ''actions_planned'',
      ''status_summarized'']"

definition latest_of :: "string list \<Rightarrow> wal_row list \<Rightarrow> int" where
  "latest_of types rows =
     (case filter (\<lambda>(_, d). json_text d ''type'' \<in> Some ` set types) (rev rows) of
        [] \<Rightarrow> 0 | (i, _) # _ \<Rightarrow> i)"

definition getLatestPipelineWalSeq :: "(world, int) exec" where
  "getLatestPipelineWalSeq = external (\<lambda>w. (w, Inr (latest_of PIPELINE_EVENT_TYPES (wal_rows (w_wal w)))))"

section \<open>Reading page by page\<close>

text \<open>What a consumer reads that asks for the events after the last one it has seen, \<open>n\<close> times.\<close>

fun read_pages :: "nat \<Rightarrow> nat \<Rightarrow> int \<Rightarrow> wal_row list \<Rightarrow> wal_row list" where
  "read_pages 0 limit after rows = []"
| "read_pages (Suc n) limit after rows =
     (let page = rows_since after limit rows in
      page @ read_pages n limit (if page = [] then after else fst (last page)) rows)"

lemma wal_rows_since:
  "filter (\<lambda>(i, _). int k < i) (wal_rows wal) = map (\<lambda>i. (int i + 1, wal ! i)) [k..<length wal]"
proof (cases "k \<le> length wal")
  case True
  then have "[0..<length wal] = [0..<k] @ [k..<length wal]" using upt_add_eq_append[of 0 k "length wal - k"] by simp
  moreover have "filter (\<lambda>(i, _). int k < i) (map (\<lambda>i. (int i + 1, wal ! i)) [0..<k]) = []"
    by (auto simp: filter_empty_conv)
  moreover have "filter (\<lambda>(i, _). int k < i) (map (\<lambda>i. (int i + 1, wal ! i)) [k..<length wal])
      = map (\<lambda>i. (int i + 1, wal ! i)) [k..<length wal]"
    by (rule filter_True) auto
  ultimately show ?thesis by (simp add: wal_rows_def)
qed (auto simp: wal_rows_def filter_empty_conv)

lemma pages_from:
  "0 < limit \<Longrightarrow> length wal - k \<le> n * limit \<Longrightarrow> k \<le> length wal \<Longrightarrow>
   read_pages n limit (int k) (wal_rows wal) = map (\<lambda>i. (int i + 1, wal ! i)) [k..<length wal]"
proof (induction n arbitrary: k)
  case (Suc n)
  let ?row = "\<lambda>i. (int i + 1, wal ! i)"
  define j where "j = min (k + limit) (length wal)"
  have page: "rows_since (int k) limit (wal_rows wal) = map ?row [k..<j]"
    using Suc.prems(3) by (auto simp: rows_since_def wal_rows_since take_map take_upt j_def min_def)
  show ?case
  proof (cases "k = length wal")
    case True
    then have "j = k" by (simp add: j_def)
    then have "rows_since (int k) limit (wal_rows wal) = []" using page by simp
    then show ?thesis using Suc.IH[of k] Suc.prems True by (simp add: Let_def)
  next
    case False
    then have kj: "k < j" "j \<le> length wal" using Suc.prems by (auto simp: j_def)
    then have "fst (last (map ?row [k..<j])) = int j" by (simp add: last_map)
    moreover have "length wal - j \<le> n * limit" using Suc.prems(1,2) by (auto simp: j_def min_def)
    then have "read_pages n limit (int j) (wal_rows wal) = map ?row [j..<length wal]"
      using Suc.IH[of j] Suc.prems(1) kj(2) by simp
    moreover have "[k..<length wal] = [k..<j] @ [j..<length wal]"
      using upt_add_eq_append[of k j "length wal - j"] kj by simp
    ultimately show ?thesis using page kj by (simp add: Let_def)
  qed
qed simp

text \<open>
  Reading by pages is complete: with a positive page size and enough pages for the events after a
  sequence number, a consumer that always asks for what follows the last event it saw reads every
  event once and in order.
\<close>

theorem paged_reading_complete:
  assumes "0 < limit" "k \<le> length wal" "length wal - k \<le> n * limit"
  shows "map snd (read_pages n limit (int k) (wal_rows wal)) = drop k wal"
  using pages_from[OF assms(1,3,2)] assms(2)
  by (auto intro!: nth_equalityI)

theorem paged_reading_complete_witness:
  "map snd (read_pages 2 2 (int 1) (wal_rows [[], [(''type'', JNull)], [], []])) = [[(''type'', JNull)], [], []]"
proof -
  have "map snd (read_pages 2 2 (int 1) (wal_rows [[], [(''type'', JNull)], [], []]))
      = drop 1 [[], [(''type'', JNull)], [], []]"
    by (rule paged_reading_complete) simp_all
  then show ?thesis by simp
qed

end
