(* ===== verification/Scope_Reset.thy ===== *)
theory Scope_Reset
  imports Wal_Queries
begin

text \<open>
  Deleting a scope, \<open>src/scopeReset.ts\<close> with the catalog operations of \<open>src/studio/catalog.ts\<close> it
  is used by. The state is a database of tables that need not all exist, each a list of rows, and
  the keys of the object store. A transaction works on the tables of its session: as PostgreSQL
  documents, a statement that fails (a missing table, a lost call) aborts the transaction, every later
  statement of it fails too, and COMMIT then rolls back without an error. The listing of the object
  store is given by its pages.
\<close>

section \<open>State\<close>

type_synonym tables = "(string, json_obj list) jsmap"

record store_db =
  sb_tables :: tables
  sb_keys :: "string list"
  sb_tick :: nat
  sb_faults :: "nat \<Rightarrow> bool"
  sb_now :: rat

definition sb_step :: "store_db \<Rightarrow> store_db" where
  "sb_step d = d \<lparr> sb_tick := sb_tick d + 1 \<rparr>"

definition sb_call :: "(store_db, 'a) exec \<Rightarrow> (store_db, 'a) exec" where
  "sb_call op d = (if sb_faults d (sb_tick d) then (sb_step d, Inl io_error) else op (sb_step d))"

definition undefined_table :: js_error where
  "undefined_table = JsError ''relation does not exist''"

definition aborted_transaction :: js_error where
  "aborted_transaction = JsError ''current transaction is aborted''"

section \<open>The statements\<close>

definition DELETE_SQL :: "string list" where
  "DELETE_SQL =
     [''edges'', ''nodes'', ''swarm_state'', ''convergence_history'', ''decision_records'',
      ''finality_certificates'', ''scope_finality_decisions'', ''causal_contributions'', ''evidence_states'',
      ''propagation_history'', ''e17_perturbation_profiles'', ''usage_events'', ''usage_rollups'',
      ''context_events'', ''demo_sessions'', ''mitl_pending'']"

definition reset_tables :: "string list" where
  "reset_tables = DELETE_SQL @ [''scope_documents'']"

text \<open>\<open>COALESCE(data->>'scope_id', data->'payload'->>'scope_id')\<close>.\<close>

definition deleted_event_scope :: "json_obj \<Rightarrow> string option" where
  "deleted_event_scope d = or_else (json_text d ''scope_id'') (json_text (json_fields (map_get d ''payload'')) ''scope_id'')"

text \<open>The condition of each statement on a row.\<close>

definition deletes_row :: "string \<Rightarrow> string \<Rightarrow> json_obj \<Rightarrow> bool" where
  "deletes_row table scopeId row =
    (if table = ''context_events'' then deleted_event_scope (json_fields (map_get row ''data'')) = Some scopeId
     else if table = ''mitl_pending''
     then (let proposal = json_fields (map_get row ''proposal'') in
           json_text (json_fields (map_get proposal ''payload'')) ''scope_id'' = Some scopeId
           \<or> json_text (json_fields (map_get row ''action_payload'')) ''scope_id'' = Some scopeId
           \<or> json_text proposal ''scope_id'' = Some scopeId)
     else json_text row ''scope_id'' = Some scopeId)"

record pg_session =
  pg_tables :: tables
  pg_aborted :: bool

definition delete_statement :: "string \<Rightarrow> string \<Rightarrow> (store_db \<times> pg_session, unit) exec" where
  "delete_statement scopeId table st =
     (case st of (d, s) \<Rightarrow>
        if pg_aborted s then ((sb_step d, s), Inl aborted_transaction)
        else if sb_faults d (sb_tick d) then ((sb_step d, s \<lparr> pg_aborted := True \<rparr>), Inl io_error)
        else case map_get (pg_tables s) table of
               None \<Rightarrow> ((sb_step d, s \<lparr> pg_aborted := True \<rparr>), Inl undefined_table)
             | Some rows \<Rightarrow>
                 ((sb_step d, s \<lparr> pg_tables := map_set table (filter (\<lambda>r. \<not> deletes_row table scopeId r) rows)
                                               (pg_tables s) \<rparr>), Inr ()))"

definition tryExec :: "string \<Rightarrow> string \<Rightarrow> (store_db \<times> pg_session, unit) exec" where
  "tryExec scopeId table = try_catch (delete_statement scopeId table) (\<lambda>_. ret ())"

definition commit_session :: "pg_session \<Rightarrow> (store_db, unit) exec" where
  "commit_session s = sb_call (\<lambda>d. (if pg_aborted s then d else d \<lparr> sb_tables := pg_tables s \<rparr>, Inr ()))"

section \<open>Resetting\<close>

text \<open>What the caller gives for the object store, and what the listing of a prefix answers: its pages,
  each with the flag that more follow.\<close>

record reset_opts =
  ro_prefix :: string
  ro_pages :: "string \<Rightarrow> (string list \<times> bool) list"

definition object_prefix :: "string \<Rightarrow> string" where
  "object_prefix p = (if p \<noteq> [] \<and> last p = CHR ''/'' then butlast p else p) @ ''/''"

fun delete_pages :: "(string list \<times> bool) list \<Rightarrow> (store_db, unit) exec" where
  "delete_pages [] = ret ()"
| "delete_pages ((keys, truncated) # pages) =
     and_then (sb_call (\<lambda>d. (d, Inr ())))
       (\<lambda>_. and_then (if keys = [] then ret ()
              else sb_call (\<lambda>d. (d \<lparr> sb_keys := filter (\<lambda>k. k \<notin> set keys) (sb_keys d) \<rparr>, Inr ())))
         (\<lambda>_. if truncated then delete_pages pages else ret ()))"

definition delete_objects :: "reset_opts option \<Rightarrow> (store_db, unit) exec" where
  "delete_objects opts =
     (case opts of
        None \<Rightarrow> ret ()
      | Some ro \<Rightarrow> if ro_prefix ro = [] then ret () else delete_pages (ro_pages ro (object_prefix (ro_prefix ro))))"

definition rolling_back :: "(store_db, 'a) exec \<Rightarrow> (store_db, 'a) exec" where
  "rolling_back body = try_catch body (\<lambda>e. and_then (sb_call (\<lambda>d. (d, Inr ()))) (\<lambda>_. raise e))"

definition reset_transaction :: "string \<Rightarrow> (store_db, unit) exec" where
  "reset_transaction scopeId =
     rolling_back (and_then (sb_call (\<lambda>d. (d, Inr ())))
       (\<lambda>_ d. case fst (in_order (map (tryExec scopeId) reset_tables) (d, \<lparr> pg_tables = sb_tables d, pg_aborted = False \<rparr>)) of
                (d', s) \<Rightarrow> commit_session s d'))"

definition resetScopeData :: "reset_opts option \<Rightarrow> string \<Rightarrow> (store_db, unit) exec" where
  "resetScopeData opts scopeId = and_then (reset_transaction scopeId) (\<lambda>_. delete_objects opts)"

section \<open>The catalog and the state row\<close>

definition has_text :: "string \<Rightarrow> string \<Rightarrow> json_obj \<Rightarrow> bool" where
  "has_text key v row = (json_text row key = Some v)"

definition on_table :: "string \<Rightarrow> (json_obj list \<Rightarrow> json_obj list) \<Rightarrow> (store_db, unit) exec" where
  "on_table table f =
     sb_call (\<lambda>d. case map_get (sb_tables d) table of
                    None \<Rightarrow> (d, Inl undefined_table)
                  | Some rows \<Rightarrow> (d \<lparr> sb_tables := map_set table (f rows) (sb_tables d) \<rparr>, Inr ()))"

definition set_columns :: "json_obj \<Rightarrow> json_obj \<Rightarrow> json_obj" where
  "set_columns cols row = fold (\<lambda>(k, v). map_set k v) cols row"

definition resetCatalogScopeState :: "string \<Rightarrow> (store_db, unit) exec" where
  "resetCatalogScopeState scopeId d =
     try_catch (on_table ''studio_catalog_scopes''
         (map (\<lambda>r. if has_text ''id'' scopeId r
                   then set_columns [(''state'', JStr ''active''), (''score'', JNum 0), (''cycles'', JNum 0),
                                     (''updated_at'', JNum (sb_now d))] r else r)))
       (\<lambda>_. ret ()) d"

text \<open>\<open>INSERT ... ON CONFLICT DO UPDATE\<close> on a key column.\<close>

definition upsert_row :: "string \<Rightarrow> string \<Rightarrow> json_obj \<Rightarrow> json_obj \<Rightarrow> json_obj list \<Rightarrow> json_obj list" where
  "upsert_row key v new update rows =
     (if list_ex (has_text key v) rows then map (\<lambda>r. if has_text key v r then set_columns update r else r) rows
      else rows @ [new])"

definition first_state :: "string \<Rightarrow> rat \<Rightarrow> json_obj" where
  "first_state runId now =
     [(''run_id'', JStr runId), (''last_node'', JStr ''ContextIngested''), (''epoch'', JNum 0), (''updated_at'', JNum now)]"

definition resetScopeAndReinit :: "string \<Rightarrow> reset_opts option \<Rightarrow> string \<Rightarrow> (store_db, unit) exec" where
  "resetScopeAndReinit runId opts scopeId =
     and_then (resetScopeData opts scopeId)
       (\<lambda>_. and_then (resetCatalogScopeState scopeId)
         (\<lambda>_ d. on_table ''swarm_state''
            (upsert_row ''scope_id'' scopeId ((''scope_id'', JStr scopeId) # first_state runId (sb_now d))
               (first_state runId (sb_now d))) d))"

definition deleteCatalogScope :: "reset_opts option \<Rightarrow> string \<Rightarrow> (store_db, unit) exec" where
  "deleteCatalogScope opts scopeId =
     and_then (resetScopeData opts scopeId)
       (\<lambda>_. try_catch (on_table ''studio_catalog_scopes'' (filter (\<lambda>r. \<not> has_text ''id'' scopeId r))) (\<lambda>_. ret ()))"

definition catalog_row :: "string \<Rightarrow> string \<Rightarrow> string \<Rightarrow> json_obj" where
  "catalog_row i name tag =
     [(''id'', JStr i), (''name'', JStr name), (''tag'', JStr tag), (''state'', JStr ''active''),
      (''score'', JNum 0), (''cycles'', JNum 0)]"

definition ensureScenarioCatalogScope :: "string \<Rightarrow> string \<Rightarrow> string \<Rightarrow> (store_db, unit) exec" where
  "ensureScenarioCatalogScope i name tag d =
     on_table ''studio_catalog_scopes''
       (upsert_row ''id'' i (catalog_row i name tag)
          [(''name'', JStr name), (''tag'', JStr tag), (''updated_at'', JNum (sb_now d))]) d"

text \<open>A catalog row as the operations answer it: the selected columns and the section they belong to.\<close>

definition catalog_view :: "json_obj \<Rightarrow> json_obj" where
  "catalog_view row =
     map (\<lambda>k. (k, coalesce (map_get row k) JNull)) [''id'', ''name'', ''tag'', ''state'']
     @ map (\<lambda>k. (k, coalesce (nullish (map_get row k)) (JNum 0))) [''score'', ''cycles'']
     @ [(''section'', JStr (if has_text ''state'' ''archived'' row then ''archived'' else ''active''))]"

definition getStudioCatalogScope :: "string \<Rightarrow> (store_db, json_obj option) exec" where
  "getStudioCatalogScope i =
     sb_call (\<lambda>d. case map_get (sb_tables d) ''studio_catalog_scopes'' of
                    None \<Rightarrow> (d, Inl undefined_table)
                  | Some rows \<Rightarrow> (d, Inr (map_option catalog_view (List.find (has_text ''id'' i) rows))))"

definition createStudioCatalogScope :: "string \<Rightarrow> string \<Rightarrow> string option \<Rightarrow> (store_db, json_obj) exec" where
  "createStudioCatalogScope i0 name0 tag0 =
    (let i = str_trim i0; name = str_trim name0; tag1 = str_trim (coalesce tag0 ''custom'');
         tag = (if tag1 = [] then ''custom'' else tag1) in
     if i = [] \<or> name = [] then raise (JsError ''id_and_name_required'')
     else and_then (ensureScenarioCatalogScope i name tag)
       (\<lambda>_. and_then (getStudioCatalogScope i)
         (\<lambda>created. case created of None \<Rightarrow> raise (JsError ''catalog_insert_failed'') | Some r \<Rightarrow> ret r)))"

definition scopeExistsInCpScopes :: "string \<Rightarrow> (store_db, bool) exec" where
  "scopeExistsInCpScopes scopeId =
     try_catch (sb_call (\<lambda>d. case map_get (sb_tables d) ''cp_scopes'' of
                               None \<Rightarrow> (d, Inl undefined_table)
                             | Some rows \<Rightarrow> (d, Inr (list_ex (has_text ''id'' scopeId) rows))))
       (\<lambda>_. ret False)"

definition scopeIsKnown :: "string \<Rightarrow> (store_db, bool) exec" where
  "scopeIsKnown scopeId =
     (if scopeId = [] then ret False
      else and_then (getStudioCatalogScope scopeId)
        (\<lambda>row. if row \<noteq> None then ret True else scopeExistsInCpScopes scopeId))"

section \<open>What a reset does to the tables\<close>

definition clear_table :: "string \<Rightarrow> tables \<Rightarrow> string \<Rightarrow> tables" where
  "clear_table scopeId ts table =
     (case map_get ts table of
        None \<Rightarrow> ts
      | Some rows \<Rightarrow> map_set table (filter (\<lambda>r. \<not> deletes_row table scopeId r) rows) ts)"

definition after_reset :: "string \<Rightarrow> tables \<Rightarrow> tables" where
  "after_reset scopeId ts = foldl (clear_table scopeId) ts reset_tables"

lemma map_has_set: "map_has (map_set k v m) k' = (k' = k \<or> map_has m k')"
  by (simp add: map_has_def map_get_set)

lemma clear_table_has [simp]: "map_has (clear_table sc ts t) t' = map_has ts t'"
  by (auto simp: clear_table_def map_get_set map_has_def split: option.split)

lemma aborted_session:
  "pg_aborted s \<Longrightarrow>
   in_order (map (tryExec sc) L) (d, s) = ((d \<lparr> sb_tick := sb_tick d + length L \<rparr>, s), Inr ())"
  by (induction L arbitrary: d) (simp_all add: tryExec_def try_catch_def delete_statement_def sb_step_def)

lemma session_run:
  assumes "\<not> pg_aborted s"
  shows "\<exists>s'. in_order (map (tryExec sc) L) (d, s) = ((d \<lparr> sb_tick := sb_tick d + length L \<rparr>, s'), Inr ())
     \<and> pg_aborted s' = (\<not> ((\<forall>t \<in> set L. map_has (pg_tables s) t) \<and> (\<forall>i < length L. \<not> sb_faults d (sb_tick d + i))))
     \<and> (\<not> pg_aborted s' \<longrightarrow> pg_tables s' = foldl (clear_table sc) (pg_tables s) L)"
  using assms
proof (induction L arbitrary: d s)
  case (Cons t L)
  let ?bad = "sb_faults d (sb_tick d) \<or> \<not> map_has (pg_tables s) t"
  show ?case
  proof (cases ?bad)
    case True
    then have "tryExec sc t (d, s) = ((sb_step d, s \<lparr> pg_aborted := True \<rparr>), Inr ())"
      using Cons.prems by (auto simp: tryExec_def try_catch_def delete_statement_def map_has_def split: option.split)
    then show ?thesis using True aborted_session[of "s \<lparr> pg_aborted := True \<rparr>" sc L "sb_step d"]
      by (auto simp: sb_step_def intro: exI[of _ 0])
  next
    case False
    let ?s1 = "s \<lparr> pg_tables := clear_table sc (pg_tables s) t \<rparr>"
    have step: "tryExec sc t (d, s) = ((sb_step d, ?s1), Inr ())"
      using Cons.prems False
      by (auto simp: tryExec_def try_catch_def delete_statement_def map_has_def clear_table_def split: option.split)
    have shift: "(\<forall>i < length L. \<not> sb_faults d (sb_tick d + Suc i)) \<longleftrightarrow> (\<forall>i < Suc (length L). \<not> sb_faults d (sb_tick d + i))"
      using False by (simp add: All_less_Suc2)
    obtain s' where "in_order (map (tryExec sc) L) (sb_step d, ?s1)
          = ((sb_step d \<lparr> sb_tick := sb_tick (sb_step d) + length L \<rparr>, s'), Inr ())"
      "pg_aborted s' = (\<not> ((\<forall>u \<in> set L. map_has (pg_tables s) u) \<and> (\<forall>i < length L. \<not> sb_faults d (sb_tick d + Suc i))))"
      "\<not> pg_aborted s' \<longrightarrow> pg_tables s' = foldl (clear_table sc) (clear_table sc (pg_tables s) t) L"
      using Cons.IH[of ?s1 "sb_step d"] Cons.prems by (auto simp: sb_step_def)
    then show ?thesis using step False shift by (auto simp: sb_step_def)
  qed
qed simp

text \<open>Every statement finds its table and no call of the transaction fails, BEGIN and COMMIT
  included.\<close>

definition reset_succeeds :: "store_db \<Rightarrow> bool" where
  "reset_succeeds d =
     (list_all (map_has (sb_tables d)) reset_tables
      \<and> list_all (\<lambda>i. \<not> sb_faults d (sb_tick d + i)) [0..<length reset_tables + 2])"

lemma calls_of_reset:
  "list_all (\<lambda>i. \<not> f (k + i)) [0..<n + 2] \<longleftrightarrow> \<not> f k \<and> (\<forall>i < n. \<not> f (Suc (k + i))) \<and> \<not> f (Suc (k + n))" for k n :: nat
proof -
  have "list_all (\<lambda>i. \<not> f (k + i)) [0..<n + 2] \<longleftrightarrow> (\<forall>i \<in> {0..<n + 2}. \<not> f (k + i))"
    by (simp only: list_all_iff set_upt)
  also have "\<dots> \<longleftrightarrow> (\<forall>i < Suc (Suc n). \<not> f (k + i))" by (simp add: Ball_def)
  also have "\<dots> \<longleftrightarrow> \<not> f (k + 0) \<and> (\<forall>i < n. \<not> f (k + Suc i)) \<and> \<not> f (k + Suc n)"
    unfolding All_less_Suc2[of "Suc n"] All_less_Suc by blast
  finally show ?thesis by simp
qed

lemma reset_transaction_tables:
  "sb_tables (fst (reset_transaction sc d)) = (if reset_succeeds d then after_reset sc (sb_tables d) else sb_tables d)"
proof (cases "sb_faults d (sb_tick d)")
  case True
  then have "\<not> reset_succeeds d" by (auto simp: reset_succeeds_def list_all_iff intro!: bexI[of _ 0])
  then show ?thesis using True by (simp add: reset_transaction_def rolling_back_def try_catch_def and_then_def sb_call_def sb_step_def)
next
  case False
  let ?n = "length reset_tables"
  let ?d = "sb_step d" and ?s = "\<lparr> pg_tables = sb_tables d, pg_aborted = False \<rparr>"
  obtain s' where s': "in_order (map (tryExec sc) reset_tables) (?d, ?s) = ((?d \<lparr> sb_tick := sb_tick ?d + ?n \<rparr>, s'), Inr ())"
    "pg_aborted s' = (\<not> ((\<forall>t \<in> set reset_tables. map_has (sb_tables d) t) \<and> (\<forall>i < ?n. \<not> sb_faults d (Suc (sb_tick d + i)))))"
    "\<not> pg_aborted s' \<longrightarrow> pg_tables s' = after_reset sc (sb_tables d)"
    using session_run[of ?s sc reset_tables ?d] by (auto simp: sb_step_def after_reset_def)
  have "reset_succeeds d \<longleftrightarrow> \<not> pg_aborted s' \<and> \<not> sb_faults d (Suc (sb_tick d + ?n))"
    unfolding reset_succeeds_def s'(2) calls_of_reset using False by (simp add: list_all_iff)
  then show ?thesis using s'(1,3) False
    by (simp add: reset_transaction_def rolling_back_def try_catch_def and_then_def sb_call_def commit_session_def sb_step_def)
qed

lemma delete_pages_tables: "sb_tables (fst (delete_pages pages d)) = sb_tables d"
proof (induction pages arbitrary: d)
  case (Cons p pages)
  then show ?case by (cases p) (auto simp: and_then_def sb_call_def sb_step_def)
qed simp

lemma delete_objects_tables: "sb_tables (fst (delete_objects opts d)) = sb_tables d"
  by (simp add: delete_objects_def delete_pages_tables split: option.split)

lemma resetScopeData_tables:
  "sb_tables (fst (resetScopeData opts sc d)) = (if reset_succeeds d then after_reset sc (sb_tables d) else sb_tables d)"
  unfolding reset_transaction_tables[of sc d, symmetric]
  by (auto simp: resetScopeData_def and_then_def delete_objects_tables split: prod.split sum.split)

lemma clear_table_get:
  "map_get (clear_table sc ts t) u
   = (if u = t then map_option (filter (\<lambda>r. \<not> deletes_row t sc r)) (map_get ts t) else map_get ts u)"
  by (auto simp: clear_table_def map_get_set split: option.split)

lemma after_reset_fold:
  "distinct L \<Longrightarrow> map_get (foldl (clear_table sc) ts L) u
   = (if u \<in> set L then map_option (filter (\<lambda>r. \<not> deletes_row u sc r)) (map_get ts u) else map_get ts u)"
  by (induction L arbitrary: ts) (auto simp: clear_table_get)

lemma after_reset_get:
  "map_get (after_reset sc ts) u
   = (if u \<in> set reset_tables then map_option (filter (\<lambda>r. \<not> deletes_row u sc r)) (map_get ts u) else map_get ts u)"
proof -
  have "distinct reset_tables" by code_simp
  then show ?thesis unfolding after_reset_def by (rule after_reset_fold)
qed


section \<open>A missing table\<close>

lemma faultless_call: "\<forall>i. \<not> sb_faults d i \<Longrightarrow> sb_call op d = op (sb_step d)"
  by (simp add: sb_call_def)

lemma faultless_pages:
  "\<forall>i. \<not> sb_faults d i \<Longrightarrow> snd (delete_pages pages d) = Inr () \<and> sb_faults (fst (delete_pages pages d)) = sb_faults d"
proof (induction pages arbitrary: d)
  case (Cons p pages)
  then show ?case by (cases p) (auto simp: and_then_def sb_call_def sb_step_def)
qed simp

lemma faultless_objects:
  "\<forall>i. \<not> sb_faults d i \<Longrightarrow> snd (delete_objects opts d) = Inr () \<and> sb_faults (fst (delete_objects opts d)) = sb_faults d"
  by (simp add: delete_objects_def faultless_pages split: option.split)

lemma faultless_transaction:
  assumes "\<forall>i. \<not> sb_faults d i"
  shows "snd (reset_transaction sc d) = Inr () \<and> sb_faults (fst (reset_transaction sc d)) = sb_faults d"
proof -
  obtain s' where "in_order (map (tryExec sc) reset_tables) (sb_step d, \<lparr> pg_tables = sb_tables d, pg_aborted = False \<rparr>)
      = ((sb_step d \<lparr> sb_tick := sb_tick (sb_step d) + length reset_tables \<rparr>, s'), Inr ())"
    using session_run[of "\<lparr> pg_tables = sb_tables d, pg_aborted = False \<rparr>" sc reset_tables "sb_step d"] by auto
  then show ?thesis using assms
    by (simp add: reset_transaction_def rolling_back_def try_catch_def and_then_def sb_call_def commit_session_def sb_step_def)
qed

lemma faultless_reset:
  assumes "\<forall>i. \<not> sb_faults d i"
  shows "snd (resetScopeData opts sc d) = Inr () \<and> sb_faults (fst (resetScopeData opts sc d)) = sb_faults d"
  using faultless_transaction[OF assms, of sc] faultless_objects[of "fst (reset_transaction sc d)" opts] assms
  by (cases "reset_transaction sc d") (auto simp: resetScopeData_def and_then_def)

lemma upserted: "\<exists>r \<in> set (upsert_row k v new cols rows). r = new \<or> (\<exists>r0. r = set_columns cols r0)"
  by (auto simp: upsert_row_def list_ex_iff)

lemma columns_first:
  "map_get (set_columns (first_state runId now) row) ''epoch'' = Some (JNum 0)"
  "has_text ''last_node'' ''ContextIngested'' (set_columns (first_state runId now) row)"
  "map_get ((''scope_id'', JStr sc) # first_state runId now) ''epoch'' = Some (JNum 0)"
  "has_text ''last_node'' ''ContextIngested'' ((''scope_id'', JStr sc) # first_state runId now)"
  by (simp_all add: set_columns_def first_state_def map_get_set has_text_def json_text_def)

text \<open>
  On a database that lacks one of the tables a reset deletes from, resetting and initialising a scope
  ends normally and deletes nothing: every table keeps its rows, while the scope's state row is back
  at its first node and epoch - the first failing statement aborts the transaction, and the handler
  that is to tolerate the missing table hides that.
\<close>

theorem missing_table_undoes_reset:
  assumes "\<forall>i. \<not> sb_faults d i" "missing \<in> set reset_tables" "\<not> map_has (sb_tables d) missing"
    "map_has (sb_tables d) ''swarm_state''"
  shows "\<exists>d'. resetScopeAndReinit runId opts sc d = (d', Inr ())
     \<and> (\<forall>table. table \<notin> {''swarm_state'', ''studio_catalog_scopes''}
           \<longrightarrow> map_get (sb_tables d') table = map_get (sb_tables d) table)
     \<and> (\<exists>rows. map_get (sb_tables d') ''swarm_state'' = Some rows
           \<and> (\<exists>r \<in> set rows. map_get r ''epoch'' = Some (JNum 0) \<and> has_text ''last_node'' ''ContextIngested'' r))"
proof -
  obtain d1 where d1: "resetScopeData opts sc d = (d1, Inr ())" "sb_faults d1 = sb_faults d"
    using faultless_reset[OF assms(1), of opts sc] by (cases "resetScopeData opts sc d") auto
  have "\<not> reset_succeeds d" using assms(2,3) by (auto simp: reset_succeeds_def list_all_iff)
  then have t1: "sb_tables d1 = sb_tables d" using resetScopeData_tables[of opts sc d] d1 by simp
  define f where "f = map (\<lambda>r. if has_text ''id'' sc r
      then set_columns [(''state'', JStr ''active''), (''score'', JNum 0), (''cycles'', JNum 0),
             (''updated_at'', JNum (sb_now d1))] r else r)"
  define d2 where "d2 = fst (resetCatalogScopeState sc d1)"
  have d2: "resetCatalogScopeState sc d1 = (d2, Inr ())" "sb_faults d2 = sb_faults d"
    "\<And>t. t \<noteq> ''studio_catalog_scopes'' \<Longrightarrow> map_get (sb_tables d2) t = map_get (sb_tables d) t"
    using assms(1) d1(2) t1
    by (auto simp: d2_def resetCatalogScopeState_def on_table_def try_catch_def sb_call_def sb_step_def map_get_set
        split: option.split)
  obtain rows where rows: "map_get (sb_tables d2) ''swarm_state'' = Some rows"
    using assms(4) d2(3)[of "''swarm_state''"] by (auto simp: map_has_def)
  let ?new = "first_state runId (sb_now d2)"
  let ?rows_new = "(''scope_id'', JStr sc) # ?new"
  let ?rows = "upsert_row ''scope_id'' sc ?rows_new ?new rows"
  let ?d3 = "(sb_step d2) \<lparr> sb_tables := map_set ''swarm_state'' ?rows (sb_tables d2) \<rparr>"
  have run: "resetScopeAndReinit runId opts sc d = (?d3, Inr ())"
    using d1 d2(1,2) rows assms(1)
    by (simp add: resetScopeAndReinit_def and_then_def on_table_def sb_call_def sb_step_def)
  moreover have "\<exists>r \<in> set ?rows. map_get r ''epoch'' = Some (JNum 0) \<and> has_text ''last_node'' ''ContextIngested'' r"
    using upserted[of "''scope_id''" sc ?rows_new ?new rows] columns_first[where runId = runId and now = "sb_now d2"] by metis
  ultimately show ?thesis using d2(3) by (auto simp: map_get_set sb_step_def)
qed

section \<open>Witnesses\<close>

definition partial_db :: store_db where
  "partial_db = \<lparr> sb_tables = [(''nodes'', [[(''scope_id'', JStr ''s'')]]), (''swarm_state'', [])],
     sb_keys = [], sb_tick = 0, sb_faults = (\<lambda>_. False), sb_now = 1 \<rparr>"

theorem missing_table_undoes_reset_witness:
  "\<exists>d'. resetScopeAndReinit ''r'' None ''s'' partial_db = (d', Inr ())
     \<and> map_get (sb_tables d') ''nodes'' = Some [[(''scope_id'', JStr ''s'')]]"
proof -
  have "\<forall>i. \<not> sb_faults partial_db i" "''usage_events'' \<in> set reset_tables"
    "\<not> map_has (sb_tables partial_db) ''usage_events''" "map_has (sb_tables partial_db) ''swarm_state''"
    by (simp_all add: partial_db_def map_has_def reset_tables_def DELETE_SQL_def)
  from missing_table_undoes_reset[OF this, of "''r''" None "''s''"]
  obtain d' where "resetScopeAndReinit ''r'' None ''s'' partial_db = (d', Inr ())"
    "\<forall>table. table \<notin> {''swarm_state'', ''studio_catalog_scopes''}
       \<longrightarrow> map_get (sb_tables d') table = map_get (sb_tables partial_db) table" by blast
  then show ?thesis by (auto simp: partial_db_def)
qed

end
