(* ===== verification/Drift_Agent.thy ===== *)
theory Drift_Agent
  imports Activation_Filters "HOL-Library.List_Lexorder" "HOL-Library.Char_ord"
begin

text \<open>
  The drift agent, \<open>src/agents/driftAgent.ts\<close>, with the reading tools of
  \<open>src/agents/sharedTools.ts\<close>: the search for contradictions inside one set of facts, the correction
  of a report by what the semantic graph has resolved, the model-driven run and the fallback.

  The object store is \<open>rt_objects\<close>, the texts; \<open>w_s3\<close> is the view of the reports in it that governance
  reads, so a put updates both. Parsing, printing and the text of a number and of a time are
  arguments. Numbers are exact, a claim's number being its decimal text. A report in the store has
  a string as its level and arrays of strings, which every writer produces. Words are compared in
  ASCII.
\<close>

section \<open>The object store\<close>

record drift_env =
  dr_parse :: "string \<Rightarrow> json option"
  dr_print :: "json \<Rightarrow> string"
  dr_number :: "rat \<Rightarrow> string"
  dr_iso :: "int \<Rightarrow> string"

definition json_object :: "json option \<Rightarrow> json_obj" where
  "json_object j = (case j of Some (JObj fs) \<Rightarrow> fs | _ \<Rightarrow> [])"

definition strings_of :: "json option \<Rightarrow> string list" where
  "strings_of j = (case j of Some (JArr xs) \<Rightarrow> List.map_filter (\<lambda>x. json_str (Some x)) xs | _ \<Rightarrow> [])"

definition report_view :: "json \<Rightarrow> s3_doc" where
  "report_view j =
     S3Drift \<lparr> di_level = coalesce (json_str (map_get (json_object (Some j)) ''level'')) [],
               di_types = strings_of (map_get (json_object (Some j)) ''types'') \<rparr>
       (map_get (json_object (Some j)) ''recommend_hitl'' = Some (JBool True))"

definition put_object :: "string \<Rightarrow> string \<Rightarrow> s3_doc \<Rightarrow> runtime \<Rightarrow> runtime" where
  "put_object key body view r =
     r \<lparr> rt_objects := map_set key body (rt_objects r),
         rt_world := (rt_world r) \<lparr> w_s3 := map_set key view (w_s3 (rt_world r)) \<rparr> \<rparr>"

definition s3PutJson :: "drift_env \<Rightarrow> string \<Rightarrow> json \<Rightarrow> (runtime, unit) exec" where
  "s3PutJson env key j = db (\<lambda>r. (put_object key (dr_print env j) (report_view j) r, Inr ()))"

text \<open>\<open>raw ? JSON.parse(raw) : null\<close>\<close>

definition read_json :: "drift_env \<Rightarrow> string \<Rightarrow> (runtime, json option) exec" where
  "read_json env key =
     and_then (s3_text key)
       (\<lambda>raw. case raw of
          None \<Rightarrow> ret None
        | Some txt \<Rightarrow>
           if txt = [] then ret None
           else (case dr_parse env txt of
              None \<Rightarrow> raise (JsError ''SyntaxError'')
            | Some j \<Rightarrow> ret (if j = JNull then None else Some j)))"

text \<open>A listing answers at most \<open>n\<close> keys of a prefix, in ascending order, as the store documents.\<close>

definition listed_keys :: "string \<Rightarrow> nat \<Rightarrow> string list \<Rightarrow> string list" where
  "listed_keys prfx n ks = take n (sort (filter (\<lambda>k. str_starts_with k prfx) ks))"

definition s3ListKeys :: "string \<Rightarrow> nat \<Rightarrow> (runtime, string list) exec" where
  "s3ListKeys prfx n = db (\<lambda>r. (r, Inr (listed_keys prfx n (map_keys (rt_objects r)))))"

text \<open>The keys whose texts \<open>readFactsHistory\<close> reads, the latest first.\<close>

definition history_keys :: "nat \<Rightarrow> string list \<Rightarrow> string list" where
  "history_keys n listed = take n (rev (sort listed))"

definition readFactsHistory :: "drift_env \<Rightarrow> string \<Rightarrow> nat \<Rightarrow> (runtime, json list) exec" where
  "readFactsHistory env scopeId n =
     and_then (s3ListKeys (scopeFactsHistoryPrefix scopeId) n)
       (\<lambda>listed. for_each
          (\<lambda>key found. and_then (read_json env key)
             (\<lambda>j. ret (case j of None \<Rightarrow> found | Some x \<Rightarrow> found @ [x])))
          (history_keys n listed) [])"

section \<open>Contradictions within the facts\<close>

definition drift_stop :: "string list" where
  "drift_stop = [''that'', ''this'', ''with'', ''from'', ''have'', ''been'', ''were'', ''will'',
     ''about'', ''into'', ''than'', ''also'', ''their'', ''which'']"

definition entity_words :: "string \<Rightarrow> string list" where
  "entity_words s = filter (\<lambda>w. 3 < length w) (words_of (str_lower s))"

definition findSharedEntity :: "string \<Rightarrow> string \<Rightarrow> string option" where
  "findSharedEntity a b =
     List.find (\<lambda>w. w \<in> set (entity_words b) \<and> w \<notin> set drift_stop) (entity_words a)"

text \<open>\<open>parseFloat\<close> of a text of digits and dots.\<close>

definition parseFloat :: "string \<Rightarrow> rat option" where
  "parseFloat s =
    (let whole = takeWhile is_digit s;
         frac = (case dropWhile is_digit s of
                   [] \<Rightarrow> [] | c # cs \<Rightarrow> if c = CHR ''.'' then takeWhile is_digit cs else []) in
     if whole = [] \<and> frac = [] then None
     else Some (of_int (digits_value whole) + of_int (digits_value frac) / 10 ^ length frac))"

definition extractNumbers :: "string \<Rightarrow> rat list" where
  "extractNumbers s =
     filter (\<lambda>n. 0 < n)
       (List.map_filter (\<lambda>m. parseFloat (filter (\<lambda>c. c \<noteq> CHR '','') m))
          (split_words (\<lambda>c. is_digit c \<or> c = CHR '','' \<or> c = CHR ''.'') [] s))"

definition discrepant :: "rat \<Rightarrow> rat \<Rightarrow> bool" where
  "discrepant n1 n2 = (n1 \<noteq> n2 \<and> \<bar>n1 - n2\<bar> / max n1 n2 > 1 / 10)"

text \<open>The types found so far, the notes and the references.\<close>

type_synonym drift_findings = "string list \<times> string list \<times> json list"

definition add_type :: "string \<Rightarrow> string list \<Rightarrow> string list" where
  "add_type t ts = (if t \<in> set ts then ts else ts @ [t])"

definition drift_ref :: "string \<Rightarrow> string \<Rightarrow> json" where
  "drift_ref type excerpt = JObj [(''type'', JStr type), (''excerpt'', JStr excerpt)]"

definition discrepancy_note :: "drift_env \<Rightarrow> string \<Rightarrow> rat \<times> rat \<Rightarrow> string" where
  "discrepancy_note env shared n =
     ''Numeric discrepancy for \"'' @ shared @ ''\": '' @ dr_number env (fst n) @ '' vs '' @ dr_number env (snd n)"

definition discrepancy_ref :: "string \<Rightarrow> string \<Rightarrow> json" where
  "discrepancy_ref a b =
     drift_ref ''factual'' (''\"'' @ take 80 a @ ''\" vs \"'' @ take 80 b @ ''\"'')"

definition note_discrepancy ::
  "drift_env \<Rightarrow> string \<Rightarrow> string \<Rightarrow> string \<Rightarrow> drift_findings \<Rightarrow> rat \<times> rat \<Rightarrow> drift_findings" where
  "note_discrepancy env a b shared found n =
    (case found of (types, notes, refs) \<Rightarrow>
       if discrepant (fst n) (snd n)
       then (let note = discrepancy_note env shared n in
             if note \<in> set notes then (add_type ''factual'' types, notes, refs)
             else (add_type ''factual'' types, notes @ [note], refs @ [discrepancy_ref a b]))
       else found)"

definition compare_claims :: "drift_env \<Rightarrow> drift_findings \<Rightarrow> string \<times> string \<Rightarrow> drift_findings" where
  "compare_claims env found p =
    (case findSharedEntity (fst p) (snd p) of
       None \<Rightarrow> found
     | Some shared \<Rightarrow>
        foldl (note_discrepancy env (fst p) (snd p) shared) found
          (List.product (extractNumbers (fst p)) (extractNumbers (snd p))))"

fun later_pairs :: "'a list \<Rightarrow> ('a \<times> 'a) list" where
  "later_pairs [] = []"
| "later_pairs (x # xs) = map (Pair x) xs @ later_pairs xs"

record batch_drift =
  bd_has :: bool
  bd_level :: string
  bd_types :: "string list"
  bd_notes :: "string list"
  bd_refs :: "json list"

definition count_text :: "nat \<Rightarrow> string" where
  "count_text n = nat_digits n"

definition contradiction_findings :: "string list \<Rightarrow> drift_findings" where
  "contradiction_findings contradictions =
    (if contradictions = [] then ([], [], [])
     else ([''contradiction''],
           [count_text (length contradictions) @ '' contradiction(s) detected within the current facts''],
           map (\<lambda>c. drift_ref ''contradiction'' (take 200 c)) contradictions))"

definition risk_findings :: "nat \<Rightarrow> drift_findings \<Rightarrow> drift_findings" where
  "risk_findings n found =
    (case found of (types, notes, refs) \<Rightarrow>
       if 3 \<le> n
       then (add_type ''entropy'' types,
             notes @ [''High risk density: '' @ count_text n @ '' risks identified across the fact set''], refs)
       else found)"

definition goal_findings :: "nat \<Rightarrow> nat \<Rightarrow> drift_findings \<Rightarrow> drift_findings" where
  "goal_findings goals risks found =
    (case found of (types, notes, refs) \<Rightarrow>
       if 0 < goals \<and> 0 < risks
       then (add_type ''goal'' types,
             notes @ [count_text goals @ '' goal(s) coexist with '' @ count_text risks
                      @ '' risk(s) that may impede them''], refs)
       else found)"

definition batch_level :: "string list \<Rightarrow> string list \<Rightarrow> bool \<Rightarrow> string" where
  "batch_level contradictions types has =
    (if contradictions \<noteq> [] \<or> 3 \<le> length types then ''high''
     else if 2 \<le> length types then ''medium''
     else if has then ''low'' else ''none'')"

definition detectIntraBatchDrift :: "drift_env \<Rightarrow> json option \<Rightarrow> batch_drift" where
  "detectIntraBatchDrift env facts =
    (case facts of
       None \<Rightarrow> \<lparr> bd_has = False, bd_level = ''none'', bd_types = [], bd_notes = [], bd_refs = [] \<rparr>
     | Some j \<Rightarrow>
        (let fs = json_object (Some j);
             claims = strings_of (map_get fs ''claims'');
             contradictions = strings_of (map_get fs ''contradictions'');
             risks = strings_of (map_get fs ''risks'');
             goals = strings_of (map_get fs ''goals'');
             numeric = filter (list_ex is_digit) claims;
             found = goal_findings (length goals) (length risks)
                       (risk_findings (length risks)
                          (foldl (compare_claims env) (contradiction_findings contradictions) (later_pairs numeric)));
             types = fst found; notes = fst (snd found); has = (notes \<noteq> []) in
         \<lparr> bd_has = has, bd_level = batch_level contradictions types has, bd_types = types,
           bd_notes = (if has then ''automatic structured drift detection'' # notes else notes),
           bd_refs = snd (snd found) \<rparr>))"

section \<open>What the graph has resolved\<close>

record resolution_state =
  rs_contraTotal :: nat
  rs_contraResolved :: nat
  rs_goalsTotal :: nat
  rs_goalsResolved :: nat
  rs_goalsInProgress :: nat

definition nothing_resolved :: resolution_state where
  "nothing_resolved =
     \<lparr> rs_contraTotal = 0, rs_contraResolved = 0, rs_goalsTotal = 0, rs_goalsResolved = 0, rs_goalsInProgress = 0 \<rparr>"

definition rows_of :: "string \<Rightarrow> string \<Rightarrow> world \<Rightarrow> node_row list" where
  "rows_of scopeId type w =
     filter (\<lambda>n. nd_scope n = scopeId \<and> nd_superseded n = None \<and> nd_type n = type) (w_nodes w)"

definition count_status :: "(string \<Rightarrow> bool) \<Rightarrow> node_row list \<Rightarrow> nat" where
  "count_status P ns = length (filter (\<lambda>n. P (nd_status n)) ns)"

definition env_scope :: "world \<Rightarrow> string" where
  "env_scope w = coalesce (w_env_scope w) ''default''"

definition getGraphResolutionState :: "(world, resolution_state) exec" where
  "getGraphResolutionState =
     try_catch
       (\<lambda>w. let sc = env_scope w in
          and_then (external (\<lambda>w. (w, Inr (rows_of sc ''contradiction'' w))))
            (\<lambda>cs. and_then (external (\<lambda>w. (w, Inr (rows_of sc ''goal'' w))))
              (\<lambda>gs. ret \<lparr> rs_contraTotal = length cs,
                          rs_contraResolved = count_status (\<lambda>s. s \<noteq> ''active'') cs,
                          rs_goalsTotal = length gs,
                          rs_goalsResolved = count_status (\<lambda>s. s = ''resolved'') gs,
                          rs_goalsInProgress = count_status (\<lambda>s. s = ''in_progress'') gs \<rparr>)) w)
       (\<lambda>_. ret nothing_resolved)"

record drift_report =
  dp_level :: string
  dp_types :: "string list"
  dp_notes :: "string list"
  dp_refs :: "json list option"

definition all_contradictions_resolved :: "resolution_state \<Rightarrow> bool" where
  "all_contradictions_resolved g = (0 < rs_contraTotal g \<and> rs_contraTotal g \<le> rs_contraResolved g)"

definition goal_progress :: "resolution_state \<Rightarrow> rat" where
  "goal_progress g =
     (if 0 < rs_goalsTotal g then of_nat (rs_goalsResolved g + rs_goalsInProgress g) / of_nat (rs_goalsTotal g) else 0)"

text \<open>Taking out the first occurrence of a type, with the note that says why.\<close>

definition drop_type :: "bool \<Rightarrow> string \<Rightarrow> string \<Rightarrow> string list \<times> string list \<Rightarrow> string list \<times> string list" where
  "drop_type c t note tn =
     (if c \<and> t \<in> set (fst tn) then (remove1 t (fst tn), snd tn @ [note]) else tn)"

definition adjusted_level :: "bool \<Rightarrow> string list \<Rightarrow> string \<Rightarrow> string" where
  "adjusted_level allResolved types level =
    (if types = [] then ''none''
     else if length types = 1 \<and> ''contradiction'' \<notin> set types
     then (if level = ''high'' then ''medium'' else level)
     else if allResolved \<and> level = ''high'' then ''medium'' else level)"

definition adjustDriftForResolutions :: "drift_report \<Rightarrow> resolution_state \<Rightarrow> drift_report" where
  "adjustDriftForResolutions d g =
    (let (types, notes) =
         drop_type (goal_progress g \<ge> 1 / 2) ''goal''
           (''Goals progressing: '' @ count_text (rs_goalsResolved g) @ '' resolved, ''
            @ count_text (rs_goalsInProgress g) @ '' in progress out of '' @ count_text (rs_goalsTotal g))
           (drop_type (all_contradictions_resolved g) ''contradiction''
             (''All '' @ count_text (rs_contraTotal g) @ '' contradiction(s) resolved in the knowledge graph'')
             (dp_types d, dp_notes d)) in
     d \<lparr> dp_level := adjusted_level (all_contradictions_resolved g) types (dp_level d),
         dp_types := types, dp_notes := notes \<rparr>)"

section \<open>The runs\<close>

definition report_json :: "drift_report \<Rightarrow> json" where
  "report_json d =
     JObj ([(''level'', JStr (dp_level d)), (''types'', JArr (map JStr (dp_types d))),
            (''notes'', JArr (map JStr (dp_notes d)))]
           @ (case dp_refs d of None \<Rightarrow> [] | Some rs \<Rightarrow> [(''references'', JArr rs)]))"

definition no_report :: drift_report where
  "no_report = \<lparr> dp_level = ''none'', dp_types = [], dp_notes = [''no drift yet''], dp_refs = None \<rparr>"

definition report_of_batch :: "batch_drift \<Rightarrow> drift_report" where
  "report_of_batch b =
     \<lparr> dp_level = bd_level b, dp_types = bd_types b, dp_notes = bd_notes b, dp_refs = Some (bd_refs b) \<rparr>"

text \<open>The stored report; spreading types that are no array raises.\<close>

definition stored_report :: "json \<Rightarrow> (runtime, drift_report) exec" where
  "stored_report j =
    (let fs = json_object (Some j) in
     case map_get fs ''types'' of
       Some (JArr ts) \<Rightarrow>
         ret \<lparr> dp_level = coalesce (json_str (map_get fs ''level'')) [], dp_types = strings_of (Some (JArr ts)),
               dp_notes = strings_of (map_get fs ''notes''), dp_refs = None \<rparr>
     | _ \<Rightarrow> raise (JsError ''TypeError''))"

definition base_report :: "batch_drift \<Rightarrow> json option \<Rightarrow> (runtime, drift_report) exec" where
  "base_report b existing =
    (if bd_has b then ret (report_of_batch b)
     else case existing of None \<Rightarrow> ret no_report | Some j \<Rightarrow> stored_report j)"

definition write_report :: "drift_env \<Rightarrow> string \<Rightarrow> json \<Rightarrow> (runtime, unit) exec" where
  "write_report env scopeId j r =
    (let ts = dr_iso env (w_now (rt_world r)) in
     and_then (s3PutJson env (scopeDriftKey scopeId) j)
       (\<lambda>_. s3PutJson env (scopeDriftHistoryKey scopeId ts) j) r)"

type_synonym drift_answer = "string \<times> string list"

definition drift_fallback :: "drift_env \<Rightarrow> string \<Rightarrow> (runtime, drift_answer) exec" where
  "drift_fallback env scopeId =
     and_then (read_json env (scopeFactsKey scopeId))
       (\<lambda>facts. and_then (on_world getGraphResolutionState)
         (\<lambda>g. and_then (read_json env (scopeDriftKey scopeId))
           (\<lambda>existing. and_then (base_report (detectIntraBatchDrift env facts) existing)
             (\<lambda>base. let d = adjustDriftForResolutions base g in
                and_then (write_report env scopeId (report_json d))
                  (\<lambda>_. ret (dp_level d, dp_types d))))))"

text \<open>
  The run of a model: the tools it calls, at most five, and the error its run ends with, if any.
  What a tool answers or raises goes back to the model.
\<close>

datatype drift_call =
    DriftRead string
  | DriftHistory nat
  | WriteDrift string "string list" "string list" "string option" "json list" bool

definition written_report :: "string \<Rightarrow> string list \<Rightarrow> string list \<Rightarrow> string option \<Rightarrow> json list \<Rightarrow> bool \<Rightarrow> json" where
  "written_report level types notes reasoning refs hitl =
     JObj [(''level'', JStr level), (''types'', JArr (map JStr types)),
           (''notes'', JArr (map JStr (case reasoning of
                None \<Rightarrow> notes | Some s \<Rightarrow> if s = [] then notes else notes @ [s]))),
           (''references'', JArr refs), (''recommend_hitl'', JBool hitl)]"

fun drift_tool :: "drift_env \<Rightarrow> string \<Rightarrow> drift_call \<Rightarrow> (runtime, unit) exec" where
  "drift_tool env sc (DriftRead key) = and_then (read_json env key) (\<lambda>_. ret ())"
| "drift_tool env sc (DriftHistory n) = and_then (readFactsHistory env sc n) (\<lambda>_. ret ())"
| "drift_tool env sc (WriteDrift level types notes reasoning refs hitl) =
     write_report env sc (written_report level types notes reasoning refs hitl)"

definition unreachable_model :: "string \<Rightarrow> bool" where
  "unreachable_model msg =
     list_ex (\<lambda>p. str_includes (str_lower msg) p)
       [''timeout'', ''econnrefused'', ''api'', ''fetch failed'', ''abort'']"

definition drift_model_run ::
  "drift_env \<Rightarrow> string \<Rightarrow> drift_call list \<Rightarrow> js_error option \<Rightarrow> (runtime, drift_answer) exec" where
  "drift_model_run env sc calls failure =
     and_then (in_order (map (\<lambda>c. try_catch (drift_tool env sc c) (\<lambda>_. ret ())) (take 5 calls)))
       (\<lambda>_. case failure of
          Some e \<Rightarrow> raise e
        | None \<Rightarrow> and_then (read_json env (scopeDriftKey sc))
            (\<lambda>j. case j of
               None \<Rightarrow> ret (''none'', [])
             | Some d \<Rightarrow> ret (coalesce (json_str (map_get (json_object (Some d)) ''level'')) [],
                              strings_of (map_get (json_object (Some d)) ''types''))))"

definition runDriftAgent ::
  "drift_env \<Rightarrow> (drift_call list \<times> js_error option) option \<Rightarrow> (runtime, drift_answer) exec" where
  "runDriftAgent env model r =
    (let sc = resolveStorageScopeId None (rt_world r) in
     case model of
       None \<Rightarrow> drift_fallback env sc r
     | Some (calls, failure) \<Rightarrow>
        try_catch (drift_model_run env sc calls failure)
          (\<lambda>e. case e of JsError msg \<Rightarrow> if unreachable_model msg then drift_fallback env sc else raise e) r)"

end
