(* ===== verification/Drift_Safety.thy ===== *)
theory Drift_Safety
  imports Drift_Agent Governance_Safety "HOL-Library.Multiset"
begin

text \<open>
  What the drift agent guarantees without a model: the correction by the graph never raises a level,
  contradictions in the facts block the transition until the graph has resolved them, and what is
  forgotten when the stored report cannot be looked up. Then the history tool, which reads the oldest
  snapshots.
\<close>

section \<open>The correction of a level\<close>

definition drift_rank :: "string \<Rightarrow> nat" where
  "drift_rank level =
    (if level = ''none'' then 0 else if level = ''low'' then 1 else if level = ''medium'' then 2
     else if level = ''high'' then 3 else 4)"

lemma adjusted_types:
  "dp_types (adjustDriftForResolutions d g)
   = (let ts = (if all_contradictions_resolved g then remove1 ''contradiction'' (dp_types d) else dp_types d) in
      if goal_progress g \<ge> 1 / 2 then remove1 ''goal'' ts else ts)"
  by (auto simp: adjustDriftForResolutions_def drop_type_def remove1_idem Let_def)

lemma adjusted_level_eq:
  "dp_level (adjustDriftForResolutions d g)
   = adjusted_level (all_contradictions_resolved g) (dp_types (adjustDriftForResolutions d g)) (dp_level d)"
  by (simp add: adjustDriftForResolutions_def Let_def split: prod.split)

text \<open>
  The correction never raises the level and adds no type. A high level stays high exactly when the
  contradictions are not all resolved and there remains the type contradiction or a second type.
\<close>

theorem adjustment_only_lowers:
  "drift_rank (dp_level (adjustDriftForResolutions d g)) \<le> drift_rank (dp_level d)
   \<and> set (dp_types (adjustDriftForResolutions d g)) \<subseteq> set (dp_types d)
   \<and> (dp_level (adjustDriftForResolutions d g) = ''high''
      \<longleftrightarrow> dp_level d = ''high'' \<and> \<not> all_contradictions_resolved g
          \<and> (''contradiction'' \<in> set (dp_types d) \<or> 2 \<le> length (dp_types (adjustDriftForResolutions d g))))"
proof (intro conjI)
  show "drift_rank (dp_level (adjustDriftForResolutions d g)) \<le> drift_rank (dp_level d)"
    unfolding adjusted_level_eq by (simp add: adjusted_level_def drift_rank_def)
  show "set (dp_types (adjustDriftForResolutions d g)) \<subseteq> set (dp_types d)"
    unfolding adjusted_types Let_def by (auto dest!: set_remove1_subset[THEN subsetD])
  show "dp_level (adjustDriftForResolutions d g) = ''high''
      \<longleftrightarrow> dp_level d = ''high'' \<and> \<not> all_contradictions_resolved g
          \<and> (''contradiction'' \<in> set (dp_types d) \<or> 2 \<le> length (dp_types (adjustDriftForResolutions d g)))"
  proof (cases "all_contradictions_resolved g")
    case True
    then show ?thesis unfolding adjusted_level_eq by (auto simp: adjusted_level_def)
  next
    case False
    let ?ts = "dp_types (adjustDriftForResolutions d g)"
    have "''contradiction'' \<in> set ?ts \<longleftrightarrow> ''contradiction'' \<in> set (dp_types d)"
      unfolding adjusted_types Let_def using False by (simp add: in_set_remove1)
    moreover have "?ts \<noteq> [] \<and> length ?ts \<noteq> 1 \<longleftrightarrow> 2 \<le> length ?ts" by (cases ?ts) (auto simp: Suc_le_eq)
    ultimately show ?thesis unfolding adjusted_level_eq using False
      by (auto simp: adjusted_level_def)
  qed
qed

section \<open>Findings\<close>

lemma add_type_keeps: "set ts \<subseteq> set (add_type t ts)"
  by (auto simp: add_type_def)

text \<open>The steps of the search only add types and notes.\<close>

definition found_le :: "drift_findings \<Rightarrow> drift_findings \<Rightarrow> bool" where
  "found_le a b = (set (fst a) \<subseteq> set (fst b) \<and> set (fst (snd a)) \<subseteq> set (fst (snd b)))"

lemma found_le_refl: "found_le a a" by (simp add: found_le_def)

lemma found_le_trans: "found_le a b \<Longrightarrow> found_le b c \<Longrightarrow> found_le a c"
  by (auto simp: found_le_def)

lemma found_le_foldl: "(\<And>x a. found_le a (f a x)) \<Longrightarrow> found_le a (foldl f a xs)"
proof (induction xs arbitrary: a)
  case (Cons x xs)
  have "found_le (f a x) (foldl f (f a x) xs)" using Cons.IH Cons.prems by blast
  then show ?case using Cons.prems[of a x] found_le_trans by fastforce
qed (simp add: found_le_refl)

lemma found_le_steps:
  "found_le a (compare_claims env a p)" "found_le a (risk_findings n a)" "found_le a (goal_findings k n a)"
proof -
  have "found_le a (note_discrepancy env x y shared a q)" for x y shared q a
    by (cases a) (auto simp: note_discrepancy_def found_le_def add_type_def Let_def)
  then show "found_le a (compare_claims env a p)"
    unfolding compare_claims_def by (auto intro: found_le_foldl found_le_refl split: option.split)
  show "found_le a (risk_findings n a)" by (cases a) (auto simp: risk_findings_def found_le_def add_type_def)
  show "found_le a (goal_findings k n a)" by (cases a) (auto simp: goal_findings_def found_le_def add_type_def)
qed

definition facts_contradictions :: "json \<Rightarrow> string list" where
  "facts_contradictions j = strings_of (map_get (json_object (Some j)) ''contradictions'')"

lemma contradictions_are_high:
  assumes "facts_contradictions j \<noteq> []"
  shows "bd_has (detectIntraBatchDrift env (Some j)) \<and> bd_level (detectIntraBatchDrift env (Some j)) = ''high''
     \<and> ''contradiction'' \<in> set (bd_types (detectIntraBatchDrift env (Some j)))"
proof -
  let ?c = "contradiction_findings (facts_contradictions j)"
  let ?f = "\<lambda>k n ps. goal_findings k n (risk_findings n (foldl (compare_claims env) ?c ps))"
  have le: "found_le ?c (?f k n ps)" for k n ps
    using found_le_foldl[of "compare_claims env" ?c ps] found_le_steps found_le_trans by meson
  have "''contradiction'' \<in> set (fst (?f k n ps))" "fst (snd (?f k n ps)) \<noteq> []" for k n ps
    using le[of k n ps] assms by (auto simp: found_le_def contradiction_findings_def)
  then show ?thesis using assms
    unfolding detectIntraBatchDrift_def Let_def facts_contradictions_def batch_level_def by simp
qed

section \<open>A run without failing calls\<close>

definition calls_work :: "runtime \<Rightarrow> bool" where
  "calls_work r = (\<forall>i. \<not> w_faults (rt_world r) i)"

definition rt_at :: "runtime \<Rightarrow> nat \<Rightarrow> runtime" where
  "rt_at r k = r \<lparr> rt_world := (rt_world r) \<lparr> w_tick := k \<rparr> \<rparr>"

lemma rt_at_simps [simp]:
  "calls_work (rt_at r k) = calls_work r" "rt_objects (rt_at r k) = rt_objects r"
  "rt_at (rt_at r k) l = rt_at r l"
  by (simp_all add: calls_work_def rt_at_def)

text \<open>What reading an object as JSON answers.\<close>

definition stored_json :: "drift_env \<Rightarrow> runtime \<Rightarrow> string \<Rightarrow> js_error + json option" where
  "stored_json env r key =
    (case map_get (rt_objects r) key of
       None \<Rightarrow> Inr None
     | Some txt \<Rightarrow> if txt = [] then Inr None
         else case dr_parse env txt of
                None \<Rightarrow> Inl (JsError ''SyntaxError'')
              | Some j \<Rightarrow> Inr (if j = JNull then None else Some j))"

lemma stored_json_tick [simp]: "stored_json env (rt_at r k) key = stored_json env r key"
  by (simp add: stored_json_def)

lemma read_json_ok:
  assumes "calls_work r"
  shows "\<exists>k. read_json env key r = (rt_at r k, stored_json env r key)"
proof -
  have "\<exists>k. s3_text key r = (rt_at r k, Inr (map_get (rt_objects r) key))"
    using assms
    by (cases "map_get (rt_objects r) key")
      (auto simp: s3_text_def db_def Let_def calls_work_def rt_at_def tick_def)
  then obtain k where "s3_text key r = (rt_at r k, Inr (map_get (rt_objects r) key))" by blast
  then show ?thesis
    by (auto simp: read_json_def and_then_def stored_json_def split: option.split)
qed

definition resolution_of :: "world \<Rightarrow> resolution_state" where
  "resolution_of w =
    (let cs = rows_of (env_scope w) ''contradiction'' w; gs = rows_of (env_scope w) ''goal'' w in
     \<lparr> rs_contraTotal = length cs, rs_contraResolved = count_status (\<lambda>s. s \<noteq> ''active'') cs,
       rs_goalsTotal = length gs, rs_goalsResolved = count_status (\<lambda>s. s = ''resolved'') gs,
       rs_goalsInProgress = count_status (\<lambda>s. s = ''in_progress'') gs \<rparr>)"

lemma rows_of_tick [simp]: "rows_of sc t (w \<lparr> w_tick := k \<rparr>) = rows_of sc t w"
  by (simp add: rows_of_def)

lemma resolution_of_tick [simp]: "resolution_of (rt_world (rt_at r k)) = resolution_of (rt_world r)"
  by (simp add: resolution_of_def rt_at_def env_scope_def)

lemma graph_state_ok:
  assumes "calls_work r"
  shows "\<exists>k. on_world getGraphResolutionState r = (rt_at r k, Inr (resolution_of (rt_world r)))"
  using assms
  by (auto simp: getGraphResolutionState_def on_world_def try_catch_def and_then_def external_def calls_work_def
      resolution_of_def Let_def rt_at_def tick_def env_scope_def rows_of_def)

lemma keys_differ: "scopeDriftHistoryKey sc ts \<noteq> scopeDriftKey sc"
  by (simp add: scopeDriftHistoryKey_def scopeDriftKey_def scopeStorageKey_def Let_def)

lemma write_report_ok:
  assumes "calls_work r"
  shows "\<exists>r'. write_report env sc j r = (r', Inr ())
     \<and> map_get (w_s3 (rt_world r')) (scopeDriftKey sc) = Some (report_view j)
     \<and> w_scope (rt_world r') = w_scope (rt_world r) \<and> w_policy_file (rt_world r') = w_policy_file (rt_world r)
     \<and> w_env_mode (rt_world r') = w_env_mode (rt_world r)"
  using assms keys_differ[of sc]
  by (simp add: write_report_def and_then_def s3PutJson_def db_def put_object_def calls_work_def tick_def Let_def
      map_get_set)

lemma report_view_json:
  "report_view (report_json d) = S3Drift \<lparr> di_level = dp_level d, di_types = dp_types d \<rparr> False"
proof -
  have "List.map_filter (\<lambda>x. json_str (Some x)) (map JStr ts) = ts" for ts
    by (induction ts) (simp_all add: List.map_filter_simps)
  then show ?thesis
    by (simp add: report_view_def report_json_def json_object_def strings_of_def map_get_append split: option.split)
qed

lemma fallback_ok:
  assumes "calls_work r" "stored_json env r (scopeFactsKey sc) = Inr facts"
    "stored_json env r (scopeDriftKey sc) = Inr existing"
    "\<And>r. base_report (detectIntraBatchDrift env facts) existing r = (r, Inr base)"
  shows "\<exists>r'. drift_fallback env sc r
      = (r', Inr (dp_level (adjustDriftForResolutions base (resolution_of (rt_world r))),
                  dp_types (adjustDriftForResolutions base (resolution_of (rt_world r)))))
     \<and> map_get (w_s3 (rt_world r')) (scopeDriftKey sc)
       = Some (report_view (report_json (adjustDriftForResolutions base (resolution_of (rt_world r)))))
     \<and> w_scope (rt_world r') = w_scope (rt_world r) \<and> w_policy_file (rt_world r') = w_policy_file (rt_world r)
     \<and> w_env_mode (rt_world r') = w_env_mode (rt_world r)"
proof -
  obtain k1 where 1: "read_json env (scopeFactsKey sc) r = (rt_at r k1, Inr facts)"
    using read_json_ok[OF assms(1), of env "scopeFactsKey sc"] assms(2) by auto
  obtain k2 where 2: "on_world getGraphResolutionState (rt_at r k1) = (rt_at r k2, Inr (resolution_of (rt_world r)))"
    using graph_state_ok[of "rt_at r k1"] assms(1) by auto
  obtain k3 where 3: "read_json env (scopeDriftKey sc) (rt_at r k2) = (rt_at r k3, Inr existing)"
    using read_json_ok[of "rt_at r k2" env "scopeDriftKey sc"] assms(1,3) by auto
  let ?d = "adjustDriftForResolutions base (resolution_of (rt_world r))"
  obtain r' where 4: "write_report env sc (report_json ?d) (rt_at r k3) = (r', Inr ())"
    "map_get (w_s3 (rt_world r')) (scopeDriftKey sc) = Some (report_view (report_json ?d))"
    "w_scope (rt_world r') = w_scope (rt_world (rt_at r k3))"
    "w_policy_file (rt_world r') = w_policy_file (rt_world (rt_at r k3))"
    "w_env_mode (rt_world r') = w_env_mode (rt_world (rt_at r k3))"
    using write_report_ok[of "rt_at r k3" env sc "report_json ?d"] assms(1) by auto
  then show ?thesis using 1 2 3 assms(4)
    by (auto simp: drift_fallback_def and_then_def Let_def rt_at_def)
qed

section \<open>Contradictions block the transition\<close>

lemma shipped_rejects_high:
  assumes "kq_from_state q = ''DriftChecked''" "kq_to_state q = ''EvidencePropagated''"
    "kq_drift_level q = ''high''" "gov_from_str (kq_mode q) = Master"
  shows "ko_verdict (evaluateKernel q (getGovernanceForScope sc (loadPolicies governance_yaml m))) = ''reject''"
proof -
  let ?cfg = "getGovernanceForScope sc (loadPolicies governance_yaml m)"
  have rules: "gc_transition_rules ?cfg = rc_transition_rules governance_yaml"
    by (simp add: getGovernanceForScope_def loadPolicies_def governance_yaml_def)
  have "\<not> request_allowed q ?cfg"
    unfolding request_allowed_def canTransition_def toGovernanceRulesConfigDto_def rules
    using assms(1-3) by (simp add: policy_eval Let_def)
  then show ?thesis using kernel_blocks_safely[of q ?cfg] assms(4) by simp
qed

text \<open>
  C17. Contradictions in the facts block the pipeline. When the facts of the active scope list a
  contradiction and the graph has not resolved all of its contradictions, a run of the drift agent
  without a model whose calls succeed answers and stores a high level with the type contradiction,
  whatever report was stored, and from then on the kernel under the shipped policy rejects in mode
  MASTER every proposal to move on to the propagation of evidence.
\<close>

theorem contradictions_block_pipeline:
  assumes "calls_work r" "w_scope (rt_world r) \<noteq> []" "w_policy_file (rt_world r) = Some governance_yaml"
    "stored_json env r (scopeFactsKey (w_scope (rt_world r))) = Inr (Some j)" "facts_contradictions j \<noteq> []"
    "stored_json env r (scopeDriftKey (w_scope (rt_world r))) = Inr existing"
    "\<not> all_contradictions_resolved (resolution_of (rt_world r))"
    "p_from (pp_payload prop) = Some ''DriftChecked''" "p_to (pp_payload prop) = Some ''EvidencePropagated''"
    "gov_from_str (proposal_mode prop) = Master"
  shows "\<exists>r' types. runDriftAgent env None r = (r', Inr (''high'', types)) \<and> ''contradiction'' \<in> set types
     \<and> present_verdict (rt_world r') prop = Some ''reject''"
proof -
  let ?b = "detectIntraBatchDrift env (Some j)" and ?sc = "w_scope (rt_world r)"
  let ?d = "adjustDriftForResolutions (report_of_batch ?b) (resolution_of (rt_world r))"
  have b: "bd_has ?b" "bd_level ?b = ''high''" "''contradiction'' \<in> set (bd_types ?b)"
    using contradictions_are_high[OF assms(5), of env] by blast+
  have base: "base_report ?b existing r = (r, Inr (report_of_batch ?b))" for r
    using b(1) by (simp add: base_report_def)
  have level: "dp_level ?d = ''high''"
    using b(2,3) assms(7) adjustment_only_lowers[of "report_of_batch ?b"] by (simp add: report_of_batch_def)
  have types: "''contradiction'' \<in> set (dp_types ?d)"
    using b(3) assms(7) by (simp add: adjusted_types report_of_batch_def Let_def in_set_remove1)
  obtain r' where run: "drift_fallback env ?sc r = (r', Inr (dp_level ?d, dp_types ?d))"
    "map_get (w_s3 (rt_world r')) (scopeDriftKey ?sc) = Some (report_view (report_json ?d))"
    "w_scope (rt_world r') = ?sc" "w_policy_file (rt_world r') = w_policy_file (rt_world r)"
    using fallback_ok[OF assms(1,4,6) base] by blast
  have "current_drift (rt_world r') = Some \<lparr> di_level = ''high'', di_types = dp_types ?d \<rparr>"
    using run(2,3) level by (simp add: current_drift_def report_view_json)
  then have "present_verdict (rt_world r') prop = Some ''reject''"
    using run(4) assms(3,8-10) shipped_rejects_high
    by (simp add: present_verdict_def current_config_def kernel_output_for_def proposal_request_def)
  moreover have "runDriftAgent env None r = (r', Inr (''high'', dp_types ?d))"
    using run(1) level assms(2) by (simp add: runDriftAgent_def resolveStorageScopeId_def Let_def)
  ultimately show ?thesis using types by blast
qed

section \<open>A report that cannot be looked up\<close>

text \<open>
  When the one call that fails is the look-up of the stored report, the fallback takes the report for
  a missing one: whatever level was stored, it answers and stores the level none, unless the facts
  themselves show drift.
\<close>

theorem lost_report_counts_as_none:
  assumes "w_faults (rt_world r) = (\<lambda>i. i = w_tick (rt_world r) + 4)" "w_scope (rt_world r) \<noteq> []"
    "map_get (rt_objects r) (scopeFactsKey (w_scope (rt_world r))) = Some txt" "txt \<noteq> []"
    "dr_parse env txt = Some j" "j \<noteq> JNull" "\<not> bd_has (detectIntraBatchDrift env (Some j))"
  shows "\<exists>r'. runDriftAgent env None r = (r', Inr (''none'', [])) \<and> current_drift (rt_world r') = Some no_drift"
proof -
  let ?sc = "w_scope (rt_world r)" and ?t = "w_tick (rt_world r)"
  have facts: "read_json env (scopeFactsKey ?sc) r = (rt_at r (?t + 2), Inr (Some j))"
    using assms by (simp add: read_json_def and_then_def s3_text_def db_def Let_def rt_at_def tick_def)
  have graph: "\<exists>g. on_world getGraphResolutionState (rt_at r (?t + 2)) = (rt_at r (?t + 4), Inr g)"
    using assms(1)
    by (simp add: getGraphResolutionState_def on_world_def try_catch_def and_then_def external_def Let_def
        rt_at_def tick_def)
  have lost: "read_json env (scopeDriftKey ?sc) (rt_at r (?t + 4)) = (rt_at r (?t + 5), Inr None)"
    using assms(1) by (simp add: read_json_def and_then_def s3_text_def Let_def rt_at_def tick_def)
  have none: "dp_level (adjustDriftForResolutions no_report g) = ''none''"
    "dp_types (adjustDriftForResolutions no_report g) = []" for g
    by (simp_all add: adjusted_level_eq adjusted_types no_report_def adjusted_level_def Let_def)
  obtain g where g: "on_world getGraphResolutionState (rt_at r (?t + 2)) = (rt_at r (?t + 4), Inr g)"
    using graph by blast
  let ?d = "adjustDriftForResolutions no_report g"
  obtain r' where put: "write_report env ?sc (report_json ?d) (rt_at r (?t + 5)) = (r', Inr ())"
    "map_get (w_s3 (rt_world r')) (scopeDriftKey ?sc) = Some (report_view (report_json ?d))" "w_scope (rt_world r') = ?sc"
    using assms(1) keys_differ[of ?sc]
    by (simp add: write_report_def and_then_def s3PutJson_def db_def put_object_def tick_def rt_at_def Let_def
        map_get_set)
  have "runDriftAgent env None r = (r', Inr (''none'', []))"
    using facts g lost put(1) none[of g] assms(2,7)
    by (simp add: runDriftAgent_def resolveStorageScopeId_def Let_def drift_fallback_def and_then_def base_report_def)
  moreover have "current_drift (rt_world r') = Some no_drift"
    using put(2,3) none[of g] by (simp add: current_drift_def report_view_json no_drift_def)
  ultimately show ?thesis by blast
qed

section \<open>The history shows the oldest snapshots\<close>

lemma take_insort:
  "sorted ys \<Longrightarrow> n \<le> length (filter (\<lambda>x. x < k) ys) \<Longrightarrow>
   take n (insort k ys) = take n ys \<and> (\<forall>x \<in> set (take n ys). x < (k :: 'a :: linorder))"
proof (induction ys arbitrary: n)
  case (Cons y ys)
  show ?case
  proof (cases "k \<le> y")
    case True
    then have "filter (\<lambda>x. x < k) (y # ys) = []" using Cons.prems(1) by (auto simp: filter_empty_conv)
    then show ?thesis using Cons.prems(2) by simp
  next
    case False
    show ?thesis
    proof (cases n)
      case (Suc m)
      have "y < k" using False by simp
      then have "sorted ys" "m \<le> length (filter (\<lambda>x. x < k) ys)" using Cons.prems Suc by simp_all
      then have "take m (insort k ys) = take m ys" "\<forall>x \<in> set (take m ys). x < k"
        using Cons.IH[of m] by blast+
      then show ?thesis using False Suc by simp
    qed simp
  qed
qed simp

lemma keys_after_put:
  "map_keys (map_set k v m) = (if k \<in> set (map_keys m) then map_keys m else map_keys m @ [k])"
  by (induction k v m rule: map_set.induct) (auto simp: map_keys_def)

lemma sort_append1: "sort (xs @ [k]) = insort k (sort xs)"
  by (rule properties_for_sort) (simp_all add: sorted_insort)

lemma listing_after_put:
  assumes "n \<le> length (filter (\<lambda>k'. str_starts_with k' prfx \<and> k' < k) (map_keys objs))"
  shows "listed_keys prfx n (map_keys (map_set k v objs)) = listed_keys prfx n (map_keys objs)
     \<and> k \<notin> set (listed_keys prfx n (map_keys objs))"
proof -
  define ks where "ks = filter (\<lambda>k'. str_starts_with k' prfx) (map_keys objs)"
  have "filter (\<lambda>x. x < k) ks = filter (\<lambda>k'. str_starts_with k' prfx \<and> k' < k) (map_keys objs)"
    unfolding ks_def filter_filter ..
  moreover have "length (filter (\<lambda>x. x < k) (sort ks)) = length (filter (\<lambda>x. x < k) ks)"
    by (simp only: filter_sort length_sort)
  ultimately have "n \<le> length (filter (\<lambda>x. x < k) (sort ks))" using assms by (simp only:)
  then have *: "take n (insort k (sort ks)) = take n (sort ks)" "\<forall>x \<in> set (take n (sort ks)). x < k"
    using take_insort[OF sorted_sort] by blast+
  have "k \<notin> set (take n (sort ks))" using *(2) by blast
  moreover have "listed_keys prfx n (map_keys objs) = take n (sort ks)" by (simp only: listed_keys_def ks_def)
  moreover have "listed_keys prfx n (map_keys objs @ [k])
      = (if str_starts_with k prfx then take n (insort k (sort ks)) else take n (sort ks))"
    by (simp only: listed_keys_def filter_append filter.simps sort_append1[symmetric] append_Nil2 ks_def split: if_split)
      blast
  ultimately show ?thesis unfolding keys_after_put using *(1) by presburger
qed

text \<open>Runtimes that differ in one object only.\<close>

definition agree_off :: "string \<Rightarrow> runtime \<Rightarrow> runtime \<Rightarrow> bool" where
  "agree_off k r s =
    (w_tick (rt_world r) = w_tick (rt_world s) \<and> w_faults (rt_world r) = w_faults (rt_world s)
     \<and> (\<forall>key. key \<noteq> k \<longrightarrow> map_get (rt_objects r) key = map_get (rt_objects s) key))"

lemma agree_text:
  "agree_off k r s \<Longrightarrow> key \<noteq> k \<Longrightarrow>
   snd (s3_text key r) = snd (s3_text key s) \<and> agree_off k (fst (s3_text key r)) (fst (s3_text key s))"
  by (auto simp: agree_off_def s3_text_def db_def tick_def Let_def split: option.split)

lemma agree_read:
  assumes "agree_off k r s" "key \<noteq> k"
  shows "snd (read_json env key r) = snd (read_json env key s)
     \<and> agree_off k (fst (read_json env key r)) (fst (read_json env key s))"
proof -
  obtain r1 s1 x where "s3_text key r = (r1, x)" "s3_text key s = (s1, x)" "agree_off k r1 s1"
    using agree_text[OF assms] by (metis prod.collapse)
  then show ?thesis
    by (cases x) (auto simp: read_json_def and_then_def split: option.split)
qed

lemma agree_reads:
  "agree_off k r s \<Longrightarrow> k \<notin> set keys \<Longrightarrow>
   snd (for_each (\<lambda>key found. and_then (read_json env key)
           (\<lambda>j. ret (case j of None \<Rightarrow> found | Some x \<Rightarrow> found @ [x]))) keys found r)
   = snd (for_each (\<lambda>key found. and_then (read_json env key)
           (\<lambda>j. ret (case j of None \<Rightarrow> found | Some x \<Rightarrow> found @ [x]))) keys found s)"
proof (induction keys arbitrary: found r s)
  case (Cons key keys)
  obtain r1 s1 x where x: "read_json env key r = (r1, x)" "read_json env key s = (s1, x)" "agree_off k r1 s1"
    using agree_read[OF Cons.prems(1), of key env] Cons.prems(2) by (metis list.set_intros(1) prod.collapse)
  then show ?case using Cons.IH[OF x(3)] Cons.prems(2) by (cases x) (simp_all add: and_then_def)
qed simp

text \<open>
  C18. The history of the facts shows the oldest snapshots. As soon as \<open>n\<close> snapshots of a scope have
  keys before that of a new one, storing the new one changes nothing of what the model is told about
  the \<open>n\<close> recent snapshots, whatever calls fail: keys start with their time, and the listing is cut to
  its first \<open>n\<close> keys before it is reversed.
\<close>

theorem history_shows_oldest:
  assumes "n \<le> length (filter (\<lambda>k'. str_starts_with k' (scopeFactsHistoryPrefix sc) \<and> k' < k) (map_keys (rt_objects r)))"
  shows "snd (readFactsHistory env sc n (put_object k body view r)) = snd (readFactsHistory env sc n r)"
proof -
  let ?p = "scopeFactsHistoryPrefix sc" and ?r' = "put_object k body view r"
  let ?keys = "listed_keys ?p n (map_keys (rt_objects r))"
  have keys: "listed_keys ?p n (map_keys (rt_objects ?r')) = ?keys" "k \<notin> set ?keys"
    using listing_after_put[OF assms, of body] by (simp_all add: put_object_def)
  have ag: "agree_off k ?r' r" by (simp add: agree_off_def put_object_def map_get_set)
  have unread: "k \<notin> set (history_keys n ?keys)"
    using keys(2) by (auto simp: history_keys_def dest: in_set_takeD)
  show ?thesis
  proof (cases "w_faults (rt_world r) (w_tick (rt_world r))")
    case True
    then show ?thesis by (simp add: readFactsHistory_def and_then_def s3ListKeys_def db_def Let_def put_object_def)
  next
    case False
    let ?at = "\<lambda>r. r \<lparr> rt_world := tick (rt_world r) \<rparr>"
    have "agree_off k (?at ?r') (?at r)" using ag by (simp add: agree_off_def tick_def)
    moreover have "s3ListKeys ?p n r = (?at r, Inr ?keys)" "s3ListKeys ?p n ?r' = (?at ?r', Inr ?keys)"
      using False keys(1) by (simp_all add: s3ListKeys_def db_def Let_def put_object_def)
    ultimately show ?thesis using agree_reads[OF _ unread]
      by (simp add: readFactsHistory_def and_then_def)
  qed
qed
section \<open>Witnesses\<close>

definition sample_drift_env :: drift_env where
  "sample_drift_env =
     \<lparr> dr_parse = (\<lambda>_. Some (JObj [(''contradictions'', JArr [JStr ''ARR is 50M, not 38M''])])),
       dr_print = (\<lambda>_. ''report''), dr_number = (\<lambda>_. ''n''), dr_iso = (\<lambda>_. ''t'') \<rparr>"

definition drift_runtime :: runtime where
  "drift_runtime =
     \<lparr> rt_world = world_at ''default'' DriftChecked 2, rt_filters = [], rt_memory = [],
       rt_objects = [(scopeFactsKey ''default'', ''facts'')], rt_delivery = [] \<rparr>"

theorem contradictions_block_pipeline_witness:
  "\<exists>r' types. runDriftAgent sample_drift_env None drift_runtime = (r', Inr (''high'', types))
     \<and> ''contradiction'' \<in> set types \<and> present_verdict (rt_world r') blocked_proposal = Some ''reject''"
proof (rule contradictions_block_pipeline)
  show "calls_work drift_runtime"
    by (simp add: calls_work_def drift_runtime_def world_at_def empty_world_def)
  show "stored_json sample_drift_env drift_runtime (scopeFactsKey (w_scope (rt_world drift_runtime)))
      = Inr (Some (JObj [(''contradictions'', JArr [JStr ''ARR is 50M, not 38M''])]))" by code_simp
  show "stored_json sample_drift_env drift_runtime (scopeDriftKey (w_scope (rt_world drift_runtime))) = Inr None"
    by code_simp
qed code_simp+

definition history_runtime :: runtime where
  "history_runtime = drift_runtime \<lparr> rt_objects := [(scopeFactsHistoryKey ''default'' ''2026-01-01'', ''facts'')] \<rparr>"

theorem history_shows_oldest_witness:
  "snd (readFactsHistory sample_drift_env ''default'' 1
      (put_object (scopeFactsHistoryKey ''default'' ''2026-02-01'') ''new facts'' S3Empty history_runtime))
   = snd (readFactsHistory sample_drift_env ''default'' 1 history_runtime)"
  by (rule history_shows_oldest) code_simp

end
