(* ===== verification/Watchdog.thy ===== *)
theory Watchdog
  imports Finality_Evaluator
begin

text \<open>
  The quiescence watchdog, \<open>src/watchdog.ts\<close>: the ranked questions for a human, the summary of the
  situation, and the timer that evaluates finality when no proposal has come in for a while and asks
  for a review once. A tick of the timer runs to its end before the next one; the guard on the time of
  the last check keeps a second one out for the threshold anyway. The rows of the edge query come in
  the order \<open>we_pick\<close> chooses, since the query has none. Numbers are exact.
\<close>

section \<open>The questions\<close>

record watchdog_env =
  we_finality :: finality_env
  we_threshold :: int
  we_claims :: rat
  we_number :: "rat \<Rightarrow> string"
  we_pick :: "(string \<times> string) list \<Rightarrow> (string \<times> string) list"

record question =
  qu_dimension :: string
  qu_score :: rat
  qu_weight :: rat
  qu_gain :: rat
  qu_text :: string
  qu_action :: string
  qu_priority :: string

definition w_contra :: rat where "w_contra = 3 / 10"
definition w_claims :: rat where "w_claims = 3 / 10"
definition w_goals :: rat where "w_goals = 1 / 4"

definition claim_score :: "finality_snapshot \<Rightarrow> rat" where
  "claim_score s = min (fs_claims_avg s / (85 / 100)) 1"

definition contra_score :: "finality_snapshot \<Rightarrow> rat" where
  "contra_score s =
     (if fs_contra_total s = 0 then 1 else 1 - of_int (fs_contra_unresolved s) / of_int (fs_contra_total s))"

definition PHASE_ORDER :: "string \<Rightarrow> nat" where
  "PHASE_ORDER d =
    (if d = ''contradiction_resolution'' then 0 else if d = ''claim_confidence'' then 1
     else if d = ''goal_completion'' then 2 else if d = ''risk_score_inverse'' then 3 else 9)"

definition type_rows :: "string \<Rightarrow> string \<Rightarrow> string list \<Rightarrow> world \<Rightarrow> node_row list" where
  "type_rows scopeId type statuses w =
     filter (\<lambda>n. nd_scope n = scopeId \<and> nd_type n = type \<and> nd_status n \<in> set statuses \<and> node_current (w_now w) n)
       (w_nodes w)"

definition contra_question :: "finality_snapshot \<Rightarrow> string \<Rightarrow> question" where
  "contra_question s txt =
     \<lparr> qu_dimension = ''contradiction_resolution'', qu_score = contra_score s, qu_weight = w_contra,
       qu_gain = (1 - contra_score s) * w_contra, qu_text = txt, qu_action = ''provide_resolution'',
       qu_priority = ''critical'' \<rparr>"

definition contra_rows :: "string \<Rightarrow> world \<Rightarrow> node_row list" where
  "contra_rows scopeId w =
     take 5 (newest_first nd_created (type_rows scopeId ''contradiction'' [''active''] w))"

text \<open>The pairs of claims a contradiction edge joins and nothing resolves.\<close>

definition edge_pairs :: "string \<Rightarrow> world \<Rightarrow> (string \<times> string) list" where
  "edge_pairs scopeId w =
    (let node = (\<lambda>i. List.find (\<lambda>n. nd_id n = i \<and> nd_scope n = scopeId \<and> nd_superseded n = None) (w_nodes w));
         open_edge = (\<lambda>e. eg_scope e = scopeId \<and> eg_type e = ''contradicts'' \<and> eg_superseded e = None
           \<and> \<not> list_ex (\<lambda>r. eg_scope r = scopeId \<and> eg_type r = ''resolves'' \<and> eg_superseded r = None
                \<and> (eg_target r = eg_source e \<or> eg_target r = eg_target e)) (w_edges w)) in
     remdups (List.map_filter
       (\<lambda>e. case (node (eg_source e), node (eg_target e)) of
              (Some a, Some b) \<Rightarrow> Some (nd_content a, nd_content b) | _ \<Rightarrow> None)
       (filter open_edge (w_edges w))))"

definition contra_questions :: "watchdog_env \<Rightarrow> string \<Rightarrow> finality_snapshot \<Rightarrow> (world, question list) exec" where
  "contra_questions env scopeId s =
    (if 1 - contra_score s > 1 / 100 \<and> fs_contra_unresolved s > 0
     then and_then (external (\<lambda>w. (w, Inr (contra_rows scopeId w))))
       (\<lambda>rows. if rows \<noteq> []
          then ret (map (\<lambda>n. contra_question s (take 250 (nd_content n)
                    @ '' -- Is this accurate, mitigated, or immaterial? Provide your assessment.'')) rows)
          else and_then (external (\<lambda>w. (w, Inr (take 5 (we_pick env (edge_pairs scopeId w))))))
            (\<lambda>pairs. ret (if pairs \<noteq> []
               then map (\<lambda>(a, b). contra_question s
                      (''\"'' @ take 100 a @ ''\" vs \"'' @ take 100 b @ ''\". Which is correct?'')) pairs
               else [contra_question s (show_int (fs_contra_unresolved s)
                      @ '' unresolved contradiction(s) remain. Which version should be authoritative?'')])))
     else ret [])"

definition claim_question :: "finality_snapshot \<Rightarrow> node_row \<Rightarrow> question" where
  "claim_question s n =
     \<lparr> qu_dimension = ''claim_confidence'', qu_score = claim_score s, qu_weight = w_claims,
       qu_gain = (1 - claim_score s) * w_claims,
       qu_text = ''Low-confidence claim ('' @ percent (nd_confidence n) @ ''): \"'' @ take 120 (nd_content n)
                 @ ''\". Can you confirm or refute this figure?'',
       qu_action = ''provide_resolution'',
       qu_priority = (if 1 - claim_score s > 3 / 10 then ''critical'' else ''high'') \<rparr>"

definition low_claims :: "rat \<Rightarrow> string \<Rightarrow> world \<Rightarrow> node_row list" where
  "low_claims limit scopeId w =
     take 5 (sort_key nd_confidence
       (filter (\<lambda>n. nd_confidence n < limit) (type_rows scopeId ''claim'' [''active''] w)))"

definition claim_questions :: "watchdog_env \<Rightarrow> string \<Rightarrow> finality_snapshot \<Rightarrow> (world, question list) exec" where
  "claim_questions env scopeId s =
    (if 1 - claim_score s > 5 / 100
     then and_then (external (\<lambda>w. (w, Inr (low_claims (we_claims env) scopeId w))))
       (\<lambda>rows. ret (map (claim_question s) rows))
     else ret [])"

text \<open>A row whose creator is null fails the comparison.\<close>

definition open_goals :: "string \<Rightarrow> world \<Rightarrow> node_row list" where
  "open_goals scopeId w =
     take 5 (sort_key nd_created
       (filter (\<lambda>n. \<exists>b \<in> set_option (nd_by n). b \<noteq> ''resolution'')
          (type_rows scopeId ''goal'' [''active'', ''in_progress''] w)))"

fun join_goals :: "string list \<Rightarrow> string" where
  "join_goals [] = []"
| "join_goals [s] = s"
| "join_goals (s # ss) = s @ ''; '' @ join_goals ss"

definition goal_question :: "finality_snapshot \<Rightarrow> node_row list \<Rightarrow> question" where
  "goal_question s goals =
    (let gap = 1 - fs_goals_ratio s;
         listed = (if goals = [] then ''unspecified objectives''
                   else join_goals (map (\<lambda>n. ''\"'' @ take 120 (nd_content n) @ ''\"'') goals)) in
     \<lparr> qu_dimension = ''goal_completion'', qu_score = fs_goals_ratio s, qu_weight = w_goals,
       qu_gain = gap * w_goals,
       qu_text = ''Open objectives: '' @ listed @ ''. If your resolution addresses these, include relevant details.'',
       qu_action = ''provide_resolution'',
       qu_priority = (if gap > 1 / 2 then ''critical'' else if gap > 3 / 10 then ''high'' else ''medium'') \<rparr>)"

definition goal_questions :: "string \<Rightarrow> finality_snapshot \<Rightarrow> (world, question list) exec" where
  "goal_questions scopeId s =
    (if 1 - fs_goals_ratio s > 1 / 10
     then and_then (external (\<lambda>w. (w, Inr (open_goals scopeId w)))) (\<lambda>gs. ret [goal_question s gs])
     else ret [])"

definition ranked :: "question list \<Rightarrow> question list" where
  "ranked qs = sort_key (\<lambda>q. (PHASE_ORDER (qu_dimension q), - qu_gain q)) qs"

definition buildRankedQuestions :: "watchdog_env \<Rightarrow> string \<Rightarrow> (world, question list) exec" where
  "buildRankedQuestions env scopeId =
     and_then (loadFinalitySnapshot (fv_schema (we_finality env)) scopeId)
       (\<lambda>s. and_then (contra_questions env scopeId s)
         (\<lambda>cs. and_then (claim_questions env scopeId s)
           (\<lambda>ls. and_then (goal_questions scopeId s)
             (\<lambda>gs. ret (ranked (cs @ ls @ gs))))))"

section \<open>The situation\<close>

record situation =
  si_score :: rat
  si_status :: string
  si_summary :: string
  si_questions :: "question list"

definition top_blocker :: "question list \<Rightarrow> string" where
  "top_blocker qs =
     (case qs of [] \<Rightarrow> ''none''
      | q # _ \<Rightarrow> map (\<lambda>c. if c = CHR ''_'' then CHR '' '' else c) (qu_dimension q))"

definition situation_summary :: "rat \<Rightarrow> question list \<Rightarrow> string" where
  "situation_summary score qs =
     ''The swarm has processed all available documents and reached a stable state. Finality score: ''
     @ percent score @ ''. The system is waiting because ''
     @ (if top_blocker qs = ''none'' then ''all dimensions are healthy''
        else ''the \"'' @ top_blocker qs @ ''\" dimension is the primary blocker'')
     @ ''. '' @ show_nat (length qs) @ '' question(s) need human input to make progress.''"

definition situation_status :: "rat \<Rightarrow> string" where
  "situation_status score =
     (if score \<ge> 92 / 100 then ''auto_resolvable'' else if score \<ge> 4 / 10 then ''needs_human'' else ''early'')"

definition buildSituationSummary :: "watchdog_env \<Rightarrow> string \<Rightarrow> (world, situation) exec" where
  "buildSituationSummary env scopeId =
     and_then (computeGoalScoreForScope (we_finality env) scopeId)
       (\<lambda>score. and_then (buildRankedQuestions env scopeId)
         (\<lambda>qs. ret \<lparr> si_score = score, si_status = situation_status score,
                     si_summary = situation_summary score qs, si_questions = qs \<rparr>))"

section \<open>The timer\<close>

record watchdog_state =
  wd_lastProposalAt :: int
  wd_lastFinalityCheckAt :: int
  wd_hitlTriggered :: bool

definition watchdogScopeId :: "world \<Rightarrow> string" where
  "watchdogScopeId w =
    (if w_scope w \<noteq> [] then w_scope w
     else case w_env_scope w of Some s \<Rightarrow> if s \<noteq> [] then s else ''default'' | None \<Rightarrow> ''default'')"

definition watchdog_notice :: "watchdog_env \<Rightarrow> string \<Rightarrow> situation \<Rightarrow> json_obj" where
  "watchdog_notice env scopeId si =
     [(''type'', JStr ''watchdog_hitl''), (''scope_id'', JStr scopeId),
      (''goal_score'', JStr (we_number env (si_score si))),
      (''questions_count'', JStr (show_nat (length (si_questions si)))), (''summary'', JStr (si_summary si))]"

text \<open>A triggered watchdog is armed again once no review of the scope is pending.\<close>

definition rearm :: "watchdog_state \<Rightarrow> (world, watchdog_state) exec" where
  "rearm s w =
    (if wd_hitlTriggered s
     then try_catch (and_then (hasPendingFinalityReviewForScope (watchdogScopeId w))
            (\<lambda>stillPending. ret (if stillPending then s else s \<lparr> wd_hitlTriggered := False \<rparr>)))
          (\<lambda>_. ret s) w
     else ret s w)"

text \<open>Once the review is submitted the state changes, whether or not the notice is published.\<close>

definition ask_human :: "watchdog_env \<Rightarrow> string \<Rightarrow> answer \<Rightarrow> watchdog_state \<Rightarrow> (world, watchdog_state) exec" where
  "ask_human env scopeId result s =
     and_then (buildSituationSummary env scopeId)
       (\<lambda>si. and_then (submitFinalityReviewForScope (we_finality env) scopeId result)
         (\<lambda>submitted. if submitted
            then (let s' = s \<lparr> wd_hitlTriggered := True \<rparr> in
                  try_catch (and_then (publish ''swarm.events.watchdog_hitl'' (NoticeMsg (watchdog_notice env scopeId si)))
                      (\<lambda>_. ret s')) (\<lambda>_. ret s'))
            else ret s))"

definition check_finality :: "watchdog_env \<Rightarrow> watchdog_state \<Rightarrow> (world, watchdog_state) exec" where
  "check_finality env s w =
    (let scopeId = watchdogScopeId w in
     try_catch (and_then (evaluateFinality (we_finality env) scopeId)
         (\<lambda>result. case result of
            Some (FinalReview rq) \<Rightarrow> ask_human env scopeId result s
          | _ \<Rightarrow> ret s))
       (\<lambda>_. ret s) w)"

definition watchdog_tick :: "watchdog_env \<Rightarrow> bool \<Rightarrow> watchdog_state \<Rightarrow> (world, watchdog_state) exec" where
  "watchdog_tick env aborted s w =
    (if aborted \<or> w_now w - wd_lastProposalAt s < we_threshold env then ret s w
     else and_then (rearm s)
       (\<lambda>s1 w1. if wd_hitlTriggered s1 \<or> w_now w1 - wd_lastFinalityCheckAt s1 < we_threshold env then ret s1 w1
                else check_finality env (s1 \<lparr> wd_lastFinalityCheckAt := w_now w1 \<rparr>) w1) w)"

definition startWatchdog :: "world \<Rightarrow> watchdog_state" where
  "startWatchdog w = \<lparr> wd_lastProposalAt = w_now w, wd_lastFinalityCheckAt = 0, wd_hitlTriggered = False \<rparr>"

section \<open>Runs\<close>

text \<open>What can happen: a tick, a proposal handled by the governance loop, a step of the clock, and
  something that other parts of the program do to the world.\<close>

datatype watchdog_event = WdTick | WdProposal | WdTime int | WdOther "world \<Rightarrow> world"

fun watchdog_step :: "watchdog_env \<Rightarrow> watchdog_event \<Rightarrow> watchdog_state \<times> world \<Rightarrow> watchdog_state \<times> world" where
  "watchdog_step env WdTick (s, w) =
     (case watchdog_tick env False s w of (w', Inr s') \<Rightarrow> (s', w') | (w', Inl _) \<Rightarrow> (s, w'))"
| "watchdog_step env WdProposal (s, w) = (s \<lparr> wd_lastProposalAt := w_now w \<rparr>, w)"
| "watchdog_step env (WdTime t) (s, w) = (s, w \<lparr> w_now := w_now w + t \<rparr>)"
| "watchdog_step env (WdOther f) (s, w) = (s, f w)"

definition watchdog_run :: "watchdog_env \<Rightarrow> watchdog_event list \<Rightarrow> watchdog_state \<times> world \<Rightarrow> watchdog_state \<times> world" where
  "watchdog_run env es st = fold (watchdog_step env) es st"

end
