(* ===== verification/Watchdog_Safety.thy ===== *)
theory Watchdog_Safety
  imports Watchdog Finality_Examples
begin

text \<open>
  What the watchdog does to the queue of humans and to the bus over any run, and what it asks. The
  locale \<open>graph_order\<close> of the evaluation, interpreted on the surroundings, says that an evaluation and
  the questions change neither.
\<close>

section \<open>What a tick leaves alone\<close>

lemma surroundings_beside: "surroundings w' = surroundings w \<Longrightarrow> w_pending w' = w_pending w \<and> beside_queue w' = beside_queue w"
  by (auto simp: beside_queue_def)

lemma around_summary: "moves (\<lambda>w w'. surroundings w' = surroundings w) (buildSituationSummary env sc)"
proof -
  have "moves (\<lambda>w w'. surroundings w' = surroundings w) (contra_questions env sc s)"
    "moves (\<lambda>w w'. surroundings w' = surroundings w) (claim_questions env sc s)"
    "moves (\<lambda>w w'. surroundings w' = surroundings w) (goal_questions sc s)" for s
    unfolding contra_questions_def claim_questions_def goal_questions_def
    by (intro beside.g_intros)+
  then have "moves (\<lambda>w w'. surroundings w' = surroundings w) (buildRankedQuestions env sc)"
    unfolding buildRankedQuestions_def by (intro beside.g_and_then beside.g_ret around.g_snapshot)
  moreover have "moves (\<lambda>w w'. surroundings w' = surroundings w) (computeGoalScoreForScope e sc)" for e
    unfolding computeGoalScoreForScope_def scopeHasFinalityContent_def lookup_epoch_def loadState_def
    by (intro beside.g_intros around.g_snapshot)
  ultimately show ?thesis
    unfolding buildSituationSummary_def by (intro beside.g_and_then beside.g_ret)
qed

text \<open>A triggered watchdog whose review waits does nothing, also when its query fails.\<close>

lemma waiting_tick:
  assumes "wd_hitlTriggered s" "review_waits (watchdogScopeId w) w"
  shows "\<exists>k. watchdog_tick env aborted s w = (w \<lparr> w_tick := k \<rparr>, Inr s)"
proof -
  have "rearm s w = (tick w, Inr s)"
    using assms by (simp add: rearm_def has_review external_def try_catch_def and_then_def review_waits_def)
  then show ?thesis using assms(1)
    by (cases "aborted \<or> w_now w - wd_lastProposalAt s < we_threshold env")
      (auto simp: watchdog_tick_def and_then_def tick_def intro: exI[of _ "w_tick w"])
qed

text \<open>What a tick of a watchdog that is not triggered can do.\<close>

definition one_more :: "'a list \<Rightarrow> 'a list \<Rightarrow> bool" where
  "one_more l l' = (l' = l \<or> (\<exists>x. l' = l @ [x]))"

definition queue_grows :: "world \<Rightarrow> world \<Rightarrow> bool" where
  "queue_grows w w' = (w_pending w' = w_pending w \<or> (\<exists>k row. w_pending w' = map_set k row (w_pending w)))"

definition asked_once :: "string \<Rightarrow> world \<Rightarrow> watchdog_state \<times> world \<Rightarrow> bool" where
  "asked_once sc w0 st =
    (case st of (s, w) \<Rightarrow>
       watchdogScopeId w = sc
       \<and> (if wd_hitlTriggered s
          then review_waits sc w \<and> queue_grows w0 w \<and> one_more (w_bus w0) (w_bus w)
          else w_pending w = w_pending w0 \<and> w_bus w = w_bus w0))"

lemma scope_beside: "beside_queue w' = beside_queue w \<Longrightarrow> watchdogScopeId w' = watchdogScopeId w \<and> w_bus w' = w_bus w"
  by (simp add: beside_queue_def watchdogScopeId_def)

lemma ask_asks_once:
  assumes "\<not> wd_hitlTriggered s" "CHR 0x5C \<notin> set sc" "watchdogScopeId w = sc"
    "w_pending w = w_pending w0" "w_bus w = w_bus w0"
    "ask_human env sc (Some (FinalReview rq)) s w = (w', r)"
  shows "(\<exists>s'. r = Inr s' \<and> asked_once sc w0 (s', w'))
      \<or> (\<exists>e. r = Inl e) \<and> asked_once sc w0 (s, w')"
proof -
  obtain w1 r1 where b: "buildSituationSummary env sc w = (w1, r1)" by fastforce
  have k: "w_pending w1 = w_pending w0" "beside_queue w1 = beside_queue w"
    using surroundings_beside[OF movesD[OF around_summary b]] assms(4) by simp_all
  note w1 = scope_beside[OF k(2)]
  show ?thesis
  proof (cases r1)
    case (Inl e)
    then show ?thesis using b assms k(1) w1 by (auto simp: ask_human_def and_then_def asked_once_def)
  next
    case si: (Inr si)
    obtain w2 r2 where u: "submitFinalityReviewForScope (we_finality env) sc (Some (FinalReview rq)) w1 = (w2, r2)"
      by fastforce
    note c = submit_asked_cases[OF u assms(2)]
    have w2: "watchdogScopeId w2 = sc" "w_bus w2 = w_bus w0" using c scope_beside[of w2 w1] w1 assms(3,5) by auto
    show ?thesis
    proof (cases r2)
      case (Inl e)
      then show ?thesis using b si u c assms(1,6) k(1) w2
        by (auto simp: ask_human_def and_then_def asked_once_def)
    next
      case (Inr submitted)
      then have y: submitted "review_waits sc w2" "queue_grows w0 w2" using c k(1) by (auto simp: queue_grows_def)
      let ?s = "s \<lparr> wd_hitlTriggered := True \<rparr>"
      let ?m = "NoticeMsg (watchdog_notice env sc si)"
      have "ask_human env sc (Some (FinalReview rq)) s w
          = (if w_faults w2 (w_tick w2) then (tick w2, Inr ?s)
             else ((tick w2) \<lparr> w_bus := w_bus w2 @ [(''swarm.events.watchdog_hitl'', ?m)] \<rparr>, Inr ?s))"
        using b si u Inr y(1)
        by (simp add: ask_human_def and_then_def try_catch_def publish_def external_def Let_def)
      moreover have "asked_once sc w0 (?s, tick w2)"
        "asked_once sc w0 (?s, (tick w2) \<lparr> w_bus := w_bus w2 @ [(''swarm.events.watchdog_hitl'', ?m)] \<rparr>)"
        using y w2 by (auto simp: asked_once_def one_more_def queue_grows_def review_waits_def watchdogScopeId_def tick_def)
      ultimately show ?thesis using assms(6) by (auto split: if_splits)
    qed
  qed
qed

lemma check_asks_once:
  assumes "\<not> wd_hitlTriggered s" "CHR 0x5C \<notin> set sc" "asked_once sc w0 (s, w)"
  shows "\<exists>s' w'. check_finality env s w = (w', Inr s') \<and> asked_once sc w0 (s', w')"
proof -
  have a: "watchdogScopeId w = sc" "w_pending w = w_pending w0" "w_bus w = w_bus w0"
    using assms(1,3) by (simp_all add: asked_once_def)
  obtain w1 x where e: "evaluateFinality (we_finality env) sc w = (w1, Inr x)" using evaluation_answers by blast
  have k: "w_pending w1 = w_pending w0" "beside_queue w1 = beside_queue w"
    using surroundings_beside[OF movesD[OF around.g_evaluate e]] a(2) by simp_all
  note w1 = scope_beside[OF k(2)]
  have same: "asked_once sc w0 (s, w1)" using assms(1) k(1) w1 a by (simp add: asked_once_def)
  show ?thesis
  proof (cases "\<exists>rq. x = Some (FinalReview rq)")
    case True
    then obtain rq where x: "x = Some (FinalReview rq)" by blast
    obtain w2 r where u: "ask_human env sc (Some (FinalReview rq)) s w1 = (w2, r)" by fastforce
    have "watchdogScopeId w1 = sc" "w_bus w1 = w_bus w0" using w1 a by simp_all
    from ask_asks_once[OF assms(1,2) this(1) k(1) this(2) u]
    consider s' where "r = Inr s'" "asked_once sc w0 (s', w2)" | er where "r = Inl er" "asked_once sc w0 (s, w2)" by blast
    then show ?thesis
      using a(1) e x u by cases (simp_all add: check_finality_def Let_def try_catch_def and_then_def)
  next
    case False
    then have "check_finality env s w = (w1, Inr s)"
      using a(1) e by (auto simp: check_finality_def Let_def try_catch_def and_then_def split: option.split finality_result.split)
    then show ?thesis using same by blast
  qed
qed

lemma asked_step:
  assumes "CHR 0x5C \<notin> set sc" "\<And>f. e \<noteq> WdOther f" "asked_once sc w0 (s, w)"
  shows "asked_once sc w0 (watchdog_step env e (s, w))"
proof (cases e)
  case WdTick
  show ?thesis
  proof (cases "wd_hitlTriggered s")
    case True
    then have "review_waits (watchdogScopeId w) w" using assms(3) by (simp add: asked_once_def)
    from waiting_tick[OF True this] obtain k where "watchdog_tick env False s w = (w \<lparr> w_tick := k \<rparr>, Inr s)" by blast
    then show ?thesis using assms(3) WdTick
      by (auto simp: asked_once_def watchdogScopeId_def review_waits_def queue_grows_def)
  next
    case False
    let ?s = "s \<lparr> wd_lastFinalityCheckAt := w_now w \<rparr>"
    have "asked_once sc w0 (?s, w)" using assms(3) by (simp add: asked_once_def)
    from check_asks_once[OF _ assms(1) this, of env] False
    obtain s' w' where c: "check_finality env ?s w = (w', Inr s')" "asked_once sc w0 (s', w')" by auto
    then show ?thesis using False WdTick assms(3)
      by (simp add: watchdog_tick_def rearm_def and_then_def)
  qed
next
  case WdProposal
  then show ?thesis using assms(3) by (simp add: asked_once_def)
next
  case (WdTime t)
  have "watchdogScopeId (w \<lparr> w_now := t' \<rparr>) = watchdogScopeId w" "review_waits sc (w \<lparr> w_now := t' \<rparr>) = review_waits sc w"
    "queue_grows w0 (w \<lparr> w_now := t' \<rparr>) = queue_grows w0 w" for t'
    by (simp_all add: watchdogScopeId_def review_waits_def queue_grows_def)
  then show ?thesis using assms(3) WdTime by (simp add: asked_once_def)
next
  case (WdOther f)
  then show ?thesis using assms(2) by blast
qed


section \<open>What is asked\<close>

lemma ranked_sorted: "sorted (map (\<lambda>q. PHASE_ORDER (qu_dimension q)) (ranked qs))"
proof -
  have "sorted (map (\<lambda>q. (PHASE_ORDER (qu_dimension q), - qu_gain q)) (ranked qs))"
    unfolding ranked_def by (rule sorted_sort_key)
  then show ?thesis by (auto simp: sorted_map less_eq_prod_def elim!: sorted_wrt_mono_rel[rotated])
qed

lemma contra_asked:
  assumes "contra_questions env sc s w = (w', Inr qs)" "1 - contra_score s > 1 / 100" "fs_contra_unresolved s > 0"
  shows "qs \<noteq> [] \<and> (\<forall>q \<in> set qs. qu_dimension q = ''contradiction_resolution'' \<and> qu_priority q = ''critical'')"
  using assms by (auto simp: contra_questions_def and_then_eq_Inr contra_question_def split: if_splits)

text \<open>
  While a scope has unresolved contradictions the first question to the human is about one of them,
  and critical.
\<close>

theorem contradictions_asked_first:
  assumes "buildRankedQuestions env sc w = (w', Inr qs)"
    and "loadFinalitySnapshot (fv_schema (we_finality env)) sc w = (w1, Inr s)"
    and "1 - contra_score s > 1 / 100" "fs_contra_unresolved s > 0"
  shows "qs \<noteq> [] \<and> qu_dimension (hd qs) = ''contradiction_resolution''"
proof -
  obtain w2 cs ls gs where c: "contra_questions env sc s w1 = (w2, Inr cs)" and qs: "qs = ranked (cs @ ls @ gs)"
    using assms(1,2) by (auto simp: buildRankedQuestions_def and_then_eq_Inr)
  have "cs \<noteq> []" "PHASE_ORDER (qu_dimension (hd cs)) = 0"
    using contra_asked[OF c assms(3,4)] by (auto simp: PHASE_ORDER_def)
  moreover from this(1) have "hd cs \<in> set qs" by (simp add: qs ranked_def)
  ultimately obtain q where q: "q \<in> set qs" "PHASE_ORDER (qu_dimension q) = 0" by blast
  then obtain q0 qr where q0: "qs = q0 # qr" by (cases qs) auto
  have "sorted (map (\<lambda>q. PHASE_ORDER (qu_dimension q)) (q0 # qr))" using ranked_sorted qs q0 by metis
  then have "PHASE_ORDER (qu_dimension q0) = 0" using q q0 by auto
  then show ?thesis using q0 by (simp add: PHASE_ORDER_def split: if_splits)
qed

text \<open>
  Claims between the threshold of a question and the confidence that counts as full are asked about
  by nobody: without contradictions and open goals the list is empty and the summary says that all
  dimensions are healthy, whatever the score.
\<close>

theorem weak_claims_unasked:
  assumes "buildRankedQuestions env sc w = (w', Inr qs)"
    and "loadFinalitySnapshot (fv_schema (we_finality env)) sc w = (w1, Inr s)"
    and "fs_contra_unresolved s = 0" "fs_goals_ratio s = 1"
    and "\<And>n. n \<in> set (type_rows sc ''claim'' [''active''] w) \<Longrightarrow> we_claims env \<le> nd_confidence n"
  shows "qs = [] \<and> top_blocker qs = ''none''"
proof -
  have "keeps (\<lambda>w. (w_nodes w, w_now w)) (loadFinalitySnapshot (fv_schema (we_finality env)) sc)"
    by (rule keeps_snapshot) simp
  then have same: "w_nodes w1 = w_nodes w" "w_now w1 = w_now w" using assms(2) by (auto dest: keepsD)
  have "filter (\<lambda>n. nd_confidence n < we_claims env) (type_rows sc ''claim'' [''active''] w) = []"
    using assms(5) by (auto simp: filter_empty_conv not_less)
  moreover have "type_rows sc ''claim'' [''active''] (tick w1) = type_rows sc ''claim'' [''active''] w"
    by (simp add: type_rows_def same)
  ultimately have "low_claims (we_claims env) sc (tick w1) = []" by (simp add: low_claims_def)
  then have "qs = ranked []"
    using assms(1-4)
    by (auto simp: buildRankedQuestions_def and_then_eq_Inr contra_questions_def claim_questions_def
        goal_questions_def external_def split: if_splits)
  then show ?thesis by (simp add: ranked_def top_blocker_def)
qed

section \<open>Witnesses\<close>

definition sample_watchdog :: watchdog_env where
  "sample_watchdog =
     \<lparr> we_finality = shipped_env, we_threshold = 30000, we_claims = 65 / 100, we_number = (\<lambda>_. ''n''),
       we_pick = (\<lambda>ps. ps) \<rparr>"

definition quiet_minutes :: "watchdog_event list" where
  "quiet_minutes = [WdTime 40000, WdTick, WdTime 40000, WdTick, WdProposal, WdTime 40000, WdTick]"


end
