(* ===== verification/Deltas.thy ===== *)
theory Deltas
  imports Drift_Agent
begin

text \<open>
  The deltas agent, \<open>src/agents/deltasAgent.ts\<close>: the material entries of the evidence state as deltas
  with a valid time and a transaction time, and the join of two deltas of one role, dimension and
  channel. Times are milliseconds; the text of a time is an argument, and the dates of a payload are
  valid and written as \<open>toISOString\<close> writes them. The metric and the log line are left out.
\<close>

section \<open>Intervals and deltas\<close>

record time_interval =
  ti_start :: int
  ti_end :: "int option"

record delta =
  dl_role :: string
  dl_dimension :: string
  dl_channel :: string
  dl_value :: rat
  dl_vtime :: time_interval
  dl_ttime :: int

definition MATERIAL_THRESHOLD :: rat where
  "MATERIAL_THRESHOLD = 5 / 100"

text \<open>No end is infinity.\<close>

fun min_end :: "int option \<Rightarrow> int option \<Rightarrow> int option" where
  "min_end None y = y"
| "min_end x None = x"
| "min_end (Some a) (Some b) = Some (min a b)"

definition intersectInterval :: "time_interval \<Rightarrow> time_interval \<Rightarrow> time_interval option" where
  "intersectInterval a b =
    (let s = max (ti_start a) (ti_start b); e = min_end (ti_end a) (ti_end b) in
     case e of
       Some t \<Rightarrow> if t < s then None else Some \<lparr> ti_start = s, ti_end = e \<rparr>
     | None \<Rightarrow> Some \<lparr> ti_start = s, ti_end = None \<rparr>)"

definition key_of :: "string \<Rightarrow> string \<Rightarrow> string \<Rightarrow> string" where
  "key_of role dn channel = role @ ''|'' @ dn @ ''|'' @ channel"

definition deltaKey :: "delta \<Rightarrow> string" where
  "deltaKey d = key_of (dl_role d) (dl_dimension d) (dl_channel d)"

definition larger :: "rat \<Rightarrow> rat \<Rightarrow> rat" where
  "larger current incoming = (if \<bar>incoming\<bar> > \<bar>current\<bar> then incoming else current)"

definition joinDelta :: "delta \<Rightarrow> delta \<Rightarrow> js_error + delta" where
  "joinDelta current incoming =
    (if deltaKey current \<noteq> deltaKey incoming
     then Inl (JsError ''delta join requires identical role_id/dimension/channel'')
     else case intersectInterval (dl_vtime current) (dl_vtime incoming) of
       None \<Rightarrow> Inl (JsError ''delta join rejected: non-overlapping v_time intervals'')
     | Some i \<Rightarrow> Inr (current \<lparr> dl_value := larger (dl_value current) (dl_value incoming), dl_vtime := i \<rparr>))"

section \<open>Extraction\<close>

type_synonym delta_map = "(string, delta) jsmap"

definition pushDelta :: "delta_map \<Rightarrow> delta \<Rightarrow> js_error + delta_map" where
  "pushDelta merged d =
    (case map_get merged (deltaKey d) of
       None \<Rightarrow> Inr (map_set (deltaKey d) d merged)
     | Some existing \<Rightarrow>
        (case joinDelta existing d of
           Inl e \<Rightarrow> Inl e
         | Inr j \<Rightarrow> Inr (map_set (deltaKey d) j merged)))"

fun push_all :: "delta_map \<Rightarrow> delta list \<Rightarrow> js_error + delta_map" where
  "push_all m [] = Inr m"
| "push_all m (d # ds) = (case pushDelta m d of Inl e \<Rightarrow> Inl e | Inr m' \<Rightarrow> push_all m' ds)"

definition at_index :: "rat list \<Rightarrow> nat \<Rightarrow> rat" where
  "at_index xs d = (if d < length xs then xs ! d else 0)"

text \<open>The deltas in the order of the loops over roles and dimensions.\<close>

definition deltas_of :: "rat \<Rightarrow> time_interval \<Rightarrow> int \<Rightarrow> string \<Rightarrow> string \<Rightarrow> rat \<Rightarrow> rat \<Rightarrow> delta list" where
  "deltas_of threshold vTime tTime role dn s r =
    (let new = (\<lambda>channel v. \<lparr> dl_role = role, dl_dimension = dn, dl_channel = channel, dl_value = v,
                             dl_vtime = vTime, dl_ttime = tTime \<rparr>) in
     (if \<bar>s\<bar> > threshold then [new ''support'' s] else [])
     @ (if \<bar>r\<bar> > threshold then [new ''refutation'' r] else []))"

definition role_deltas :: "rat \<Rightarrow> time_interval \<Rightarrow> int \<Rightarrow> string list \<Rightarrow> role_evidence \<Rightarrow> delta list" where
  "role_deltas threshold vTime tTime dims role =
     concat (map (\<lambda>d. deltas_of threshold vTime tTime (pe_role role) (dims ! d)
                        (at_index (pe_support role) d) (at_index (pe_refutation role) d))
              [0..<length dims])"

definition extractDeltas ::
  "role_evidence list \<Rightarrow> string list \<Rightarrow> rat \<Rightarrow> time_interval \<Rightarrow> int \<Rightarrow> js_error + delta list" where
  "extractDeltas perRole dims threshold vTime tTime =
    (case push_all [] (concat (map (role_deltas threshold vTime tTime dims) perRole)) of
       Inl e \<Rightarrow> Inl e
     | Inr merged \<Rightarrow> Inr (map snd merged))"

section \<open>The run\<close>

record deltas_payload =
  ds_scope :: "string option"
  ds_valid_from :: "int option"
  ds_valid_to :: "int option"
  ds_cascade_stable :: "bool option"
  ds_finality_reachable :: "bool option"

definition interval_json :: "(int \<Rightarrow> string) \<Rightarrow> time_interval \<Rightarrow> json" where
  "interval_json show_time i =
     JObj [(''start'', JStr (show_time (ti_start i))),
           (''end'', case ti_end i of None \<Rightarrow> JNull | Some t \<Rightarrow> JStr (show_time t))]"

definition delta_json :: "(int \<Rightarrow> string) \<Rightarrow> delta \<Rightarrow> json" where
  "delta_json show_time d =
     JObj [(''role_id'', JStr (dl_role d)), (''dimension'', JStr (dl_dimension d)),
           (''channel'', JStr (dl_channel d)), (''value'', JNum (dl_value d)),
           (''v_time'', interval_json show_time (dl_vtime d)), (''t_time'', JStr (show_time (dl_ttime d)))]"

definition deltas_summary :: "(int \<Rightarrow> string) \<Rightarrow> int \<Rightarrow> string \<Rightarrow> deltas_payload \<Rightarrow> delta list \<Rightarrow> int \<Rightarrow> json" where
  "deltas_summary show_time epoch scopeId p ds now =
     JObj [(''epoch'', JNum (of_int epoch)), (''scope_id'', JStr scopeId),
           (''delta_count'', JNum (of_nat (length ds))), (''deltas'', JArr (map (delta_json show_time) ds)),
           (''cascade_stable'', JBool (coalesce (ds_cascade_stable p) True)),
           (''finality_reachable'', JBool (coalesce (ds_finality_reachable p) False)),
           (''timestamp'', JStr (show_time now))]"

definition runDeltasAgent ::
  "drift_env \<Rightarrow> string list \<Rightarrow> deltas_payload \<Rightarrow> (runtime, delta list \<times> string list) exec" where
  "runDeltasAgent env dims p r0 =
    (let scopeId = coalesce (or_else (ds_scope p) (w_env_scope (rt_world r0))) ''default'' in
     and_then (on_world (loadLatestEvidenceStates scopeId))
       (\<lambda>latest r. case latest of
          None \<Rightarrow> ret ([], []) r
        | Some (epoch, perRole) \<Rightarrow>
            (let now = w_now (rt_world r);
                 vTime = \<lparr> ti_start = coalesce (ds_valid_from p) now, ti_end = ds_valid_to p \<rparr> in
             case extractDeltas perRole dims MATERIAL_THRESHOLD vTime now of
               Inl e \<Rightarrow> raise e r
             | Inr ds \<Rightarrow>
                and_then (s3PutJson env (scopeDeltasKey scopeId)
                            (deltas_summary (dr_iso env) epoch scopeId p ds now))
                  (\<lambda>_. ret (ds, [scopeDeltasKey scopeId])) r)) r0)"

section \<open>The join\<close>

lemma min_end_assoc: "min_end (min_end a b) c = min_end a (min_end b c)"
  by (cases a; cases b; cases c) auto

lemma larger_assoc: "larger (larger a b) c = larger a (larger b c)"
  by (auto simp: larger_def)

lemma larger_self: "larger a a = a"
  by (simp add: larger_def)

definition overlap3 :: "time_interval \<Rightarrow> time_interval \<Rightarrow> time_interval \<Rightarrow> time_interval option" where
  "overlap3 a b c =
    (case intersectInterval a b of None \<Rightarrow> None | Some i \<Rightarrow> intersectInterval i c)"

lemma overlap3_assoc:
  "overlap3 a b c = (case intersectInterval b c of None \<Rightarrow> None | Some i \<Rightarrow> intersectInterval a i)"
  by (cases "ti_end a"; cases "ti_end b"; cases "ti_end c")
    (auto simp: overlap3_def intersectInterval_def Let_def max.assoc min.assoc)

lemma joinDelta_key: "joinDelta a b = Inr j \<Longrightarrow> deltaKey j = deltaKey a"
  by (auto simp: joinDelta_def deltaKey_def split: if_splits option.splits)

definition join_then :: "js_error + delta \<Rightarrow> (delta \<Rightarrow> js_error + delta) \<Rightarrow> js_error + delta" where
  "join_then x f = (case x of Inl e \<Rightarrow> Inl e | Inr d \<Rightarrow> f d)"

text \<open>
  For deltas of one key the join is associative, errors included: whichever two are joined first, the
  result is the same delta, or the same rejection.
\<close>

theorem joinDelta_associative:
  assumes "deltaKey a = deltaKey b" "deltaKey b = deltaKey c"
  shows "join_then (joinDelta a b) (\<lambda>d. joinDelta d c) = join_then (joinDelta b c) (joinDelta a)"
proof -
  have key: "deltaKey (d \<lparr> dl_value := v, dl_vtime := i \<rparr>) = deltaKey d" for d v i by (simp add: deltaKey_def)
  have "join_then (joinDelta a b) (\<lambda>d. joinDelta d c)
      = (case overlap3 (dl_vtime a) (dl_vtime b) (dl_vtime c) of
           None \<Rightarrow> Inl (JsError ''delta join rejected: non-overlapping v_time intervals'')
         | Some i \<Rightarrow> Inr (a \<lparr> dl_value := larger (larger (dl_value a) (dl_value b)) (dl_value c), dl_vtime := i \<rparr>))"
    using assms by (simp add: join_then_def joinDelta_def overlap3_def key split: option.split)
  also have "\<dots> = join_then (joinDelta b c) (joinDelta a)"
    unfolding overlap3_assoc larger_assoc
    using assms by (simp add: join_then_def joinDelta_def key split: option.split)
  finally show ?thesis .
qed

section \<open>What is extracted\<close>

definition material :: "rat \<Rightarrow> time_interval \<Rightarrow> int \<Rightarrow> string list \<Rightarrow> role_evidence list \<Rightarrow> delta list" where
  "material threshold vTime tTime dims perRole = concat (map (role_deltas threshold vTime tTime dims) perRole)"

lemma push_distinct:
  "distinct (map fst m @ map deltaKey ds) \<Longrightarrow> push_all m ds = Inr (m @ map (\<lambda>d. (deltaKey d, d)) ds)"
proof (induction ds arbitrary: m)
  case (Cons d ds)
  then have "map_get m (deltaKey d) = None" by (simp add: map_get_None_iff map_keys_def)
  then have "pushDelta m d = Inr (m @ [(deltaKey d, d)])" by (simp add: pushDelta_def map_set_fresh)
  then show ?case using Cons.IH[of "m @ [(deltaKey d, d)]"] Cons.prems by simp
qed simp

text \<open>Names without the separator make a key determine its parts.\<close>

definition plain_name :: "string \<Rightarrow> bool" where
  "plain_name s = (CHR ''|'' \<notin> set s)"

lemma split_at_bar:
  "plain_name a \<Longrightarrow> plain_name b \<Longrightarrow> a @ ''|'' @ s = b @ ''|'' @ t \<Longrightarrow> a = b \<and> s = t"
proof (induction a arbitrary: b)
  case Nil
  then show ?case by (cases b) (auto simp: plain_name_def)
next
  case (Cons x a)
  then show ?case by (cases b) (auto simp: plain_name_def)
qed

lemma key_of_inj:
  assumes "plain_name r" "plain_name r'" "plain_name d" "plain_name d'" "key_of r d c = key_of r' d' c'"
  shows "r = r' \<and> d = d' \<and> c = c'"
  using split_at_bar[OF assms(1,2), of "d @ ''|'' @ c" "d' @ ''|'' @ c'"] split_at_bar[OF assms(3,4), of c c'] assms(5)
  by (auto simp: key_of_def)

lemma role_deltas_of:
  "d \<in> set (role_deltas th v t dims role) \<Longrightarrow> dl_role d = pe_role role \<and> dl_dimension d \<in> set dims
     \<and> dl_channel d \<in> {''support'', ''refutation''}"
  by (auto simp: role_deltas_def deltas_of_def Let_def split: if_splits)

lemma deltas_of_keys:
  "distinct (map deltaKey (deltas_of th v t role dn s r))
   \<and> (\<forall>d \<in> set (deltas_of th v t role dn s r). dl_role d = role \<and> dl_dimension d = dn)"
  by (auto simp: deltas_of_def Let_def deltaKey_def key_of_def)

lemma distinct_concat_keys:
  assumes "\<And>x. x \<in> set xs \<Longrightarrow> distinct (map deltaKey (f x))" "distinct xs"
    "\<And>x y a b. x \<in> set xs \<Longrightarrow> y \<in> set xs \<Longrightarrow> x \<noteq> y \<Longrightarrow> a \<in> set (f x) \<Longrightarrow> b \<in> set (f y) \<Longrightarrow> deltaKey a \<noteq> deltaKey b"
  shows "distinct (map deltaKey (concat (map f xs)))"
  using assms
proof (induction xs)
  case (Cons x xs)
  have "deltaKey a \<noteq> deltaKey b" if "a \<in> set (f x)" "y \<in> set xs" "b \<in> set (f y)" for a b y
    using Cons.prems(3)[of x y a b] that Cons.prems(2) by auto
  moreover have "distinct (map deltaKey (concat (map f xs)))"
  proof (rule Cons.IH)
    show "distinct (map deltaKey (f y))" if "y \<in> set xs" for y using Cons.prems(1) that by simp
    show "deltaKey a \<noteq> deltaKey b" if "y \<in> set xs" "z \<in> set xs" "y \<noteq> z" "a \<in> set (f y)" "b \<in> set (f z)" for y z a b
      using Cons.prems(3)[of y z a b] that by simp
  qed (use Cons.prems(2) in simp)
  moreover have "distinct (map deltaKey (f x))" using Cons.prems(1) by simp
  ultimately show ?case by fastforce
qed simp

lemma role_deltas_distinct:
  assumes "distinct dims" "plain_name (pe_role role)" "\<And>d. d \<in> set dims \<Longrightarrow> plain_name d"
  shows "distinct (map deltaKey (role_deltas th v t dims role))"
  unfolding role_deltas_def
proof (rule distinct_concat_keys)
  fix i j a b
  assume ij: "i \<in> set [0..<length dims]" "j \<in> set [0..<length dims]" "i \<noteq> j"
    and a: "a \<in> set (deltas_of th v t (pe_role role) (dims ! i) (at_index (pe_support role) i) (at_index (pe_refutation role) i))"
    and b: "b \<in> set (deltas_of th v t (pe_role role) (dims ! j) (at_index (pe_support role) j) (at_index (pe_refutation role) j))"
  have n: "dl_role a = pe_role role" "dl_role b = pe_role role" "dl_dimension a = dims ! i" "dl_dimension b = dims ! j"
    using deltas_of_keys a b by blast+
  have "dims ! i \<noteq> dims ! j" using ij assms(1) by (simp add: nth_eq_iff_index_eq)
  moreover have "plain_name (dims ! i)" "plain_name (dims ! j)" using ij assms(3) by auto
  ultimately show "deltaKey a \<noteq> deltaKey b"
    using key_of_inj[OF assms(2) assms(2)] n unfolding deltaKey_def by metis
qed (simp_all add: deltas_of_keys)

lemma material_distinct:
  assumes "distinct (map pe_role perRole)" "distinct dims"
    "\<And>r. r \<in> set perRole \<Longrightarrow> plain_name (pe_role r)" "\<And>d. d \<in> set dims \<Longrightarrow> plain_name d"
  shows "distinct (map deltaKey (material threshold vTime tTime dims perRole))"
  unfolding material_def
proof (rule distinct_concat_keys)
  fix x y a b
  assume xy: "x \<in> set perRole" "y \<in> set perRole" "x \<noteq> y"
    and a: "a \<in> set (role_deltas threshold vTime tTime dims x)" and b: "b \<in> set (role_deltas threshold vTime tTime dims y)"
  have "pe_role x \<noteq> pe_role y" using xy assms(1) by (auto simp: distinct_map inj_on_def)
  then show "deltaKey a \<noteq> deltaKey b"
    using key_of_inj[of "dl_role a" "dl_role b" "dl_dimension a" "dl_dimension b"] role_deltas_of[OF a] role_deltas_of[OF b]
      assms(3,4) xy unfolding deltaKey_def by metis
next
  show "distinct perRole" using assms(1) by (simp add: distinct_map)
qed (use role_deltas_distinct assms in blast)

text \<open>
  Extraction is exact. For distinct roles and dimensions whose names have no vertical bar it never
  raises, and it yields exactly the entries above the threshold, one delta for each role, dimension and
  channel, with its value and the times of the run.
\<close>

theorem extraction_exact:
  assumes "distinct (map pe_role perRole)" "distinct dims"
    "\<And>r. r \<in> set perRole \<Longrightarrow> plain_name (pe_role r)" "\<And>d. d \<in> set dims \<Longrightarrow> plain_name d"
  shows "\<exists>ds. extractDeltas perRole dims threshold vTime tTime = Inr ds \<and> distinct (map deltaKey ds)
    \<and> (\<forall>d. d \<in> set ds \<longleftrightarrow> (\<exists>r \<in> set perRole. \<exists>i < length dims.
         d = \<lparr> dl_role = pe_role r, dl_dimension = dims ! i, dl_channel = ''support'',
               dl_value = at_index (pe_support r) i, dl_vtime = vTime, dl_ttime = tTime \<rparr>
           \<and> \<bar>at_index (pe_support r) i\<bar> > threshold
         \<or> d = \<lparr> dl_role = pe_role r, dl_dimension = dims ! i, dl_channel = ''refutation'',
               dl_value = at_index (pe_refutation r) i, dl_vtime = vTime, dl_ttime = tTime \<rparr>
           \<and> \<bar>at_index (pe_refutation r) i\<bar> > threshold))"
proof (intro exI conjI)
  let ?ds = "material threshold vTime tTime dims perRole"
  show d: "distinct (map deltaKey ?ds)" by (rule material_distinct[OF assms])
  show "extractDeltas perRole dims threshold vTime tTime = Inr ?ds"
    using push_distinct[of "[]" ?ds] d by (simp add: extractDeltas_def material_def comp_def)
qed (auto simp: material_def role_deltas_def deltas_of_def Let_def split: if_splits, fastforce+)

definition weighed_roles :: "role_evidence list" where
  "weighed_roles =
     [\<lparr> pe_role = ''facts'', pe_support = [1 / 2, 1 / 100], pe_refutation = [0, 1 / 4] \<rparr>,
      \<lparr> pe_role = ''drift'', pe_support = [1 / 100], pe_refutation = [] \<rparr>]"

theorem extraction_exact_witness:
  "\<exists>ds. extractDeltas weighed_roles [''claims'', ''goals''] MATERIAL_THRESHOLD \<lparr> ti_start = 1, ti_end = None \<rparr> 1 = Inr ds
     \<and> distinct (map deltaKey ds)"
proof -
  have "distinct (map pe_role weighed_roles)" "distinct [''claims'', ''goals'']"
    "\<And>r. r \<in> set weighed_roles \<Longrightarrow> plain_name (pe_role r)" "\<And>d. d \<in> set [''claims'', ''goals''] \<Longrightarrow> plain_name d"
    by (auto simp: weighed_roles_def plain_name_def)
  from extraction_exact[OF this] show ?thesis by blast
qed

end
