(* ===== verification/Resolver.thy ===== *)
theory Resolver
  imports Drift_Agent Finality_Evaluator Governance_Agent Causal_Dag
begin

text \<open>
  The resolver agent, \<open>src/agents/resolverAgent.ts\<close>: the active contradictions of a scope are shown to
  a language model in batches, its judgments are collected, and each judged contradiction is marked
  resolved, put before a human, or left alone.

  The model is what it does: for the facts, the drift report and a batch, a list of tool calls and
  perhaps a failure. The node, content and reason of a queued request are read by no code; of its
  payload the scope is kept. Log lines and token counts are left out. An early return, which carries
  no count of human requests, is the record of zeros.
\<close>

section \<open>What the model sees and says\<close>

record contradiction_info =
  cx_node :: string
  cx_content :: string
  cx_related :: "string list"

record judged =
  ju_id :: string
  ju_judgment :: string
  ju_reason :: string
  ju_hitl :: bool

datatype resolver_call = ReadContradictions | WriteResolutions "judged list"

record resolver_env =
  re_drift :: drift_env
  re_canon :: "string \<Rightarrow> string"
  re_emb :: "string \<Rightarrow> rat list"
  re_sha :: content_sha
  re_model :: "(json option \<Rightarrow> json option \<Rightarrow> contradiction_info list \<Rightarrow> resolver_call llm_run) option"

definition RESOLVER_BATCH_SIZE :: nat where
  "RESOLVER_BATCH_SIZE = 15"

definition loadActiveContradictions :: "string \<Rightarrow> (world, contradiction_info list) exec" where
  "loadActiveContradictions scopeId =
     and_then (loadUnresolvedContradictionDetails scopeId)
       (\<lambda>details. ret (map (\<lambda>d. \<lparr> cx_node = cd_node d, cx_content = cd_content d,
                                   cx_related = coalesce (cd_related d) [] \<rparr>) details))"

section \<open>The batches\<close>

fun resolver_tool :: "resolver_call \<Rightarrow> (judged list, unit) exec" where
  "resolver_tool ReadContradictions acc = (acc, Inr ())"
| "resolver_tool (WriteResolutions rs) acc = (acc @ rs, Inr ())"

function batches :: "nat \<Rightarrow> 'a list \<Rightarrow> 'a list list" where
  "batches n xs = (if xs = [] \<or> n = 0 then [] else take n xs # batches n (drop n xs))"
  by pat_completeness auto
termination by (relation "measure (\<lambda>(n, xs). length xs)") auto

declare batches.simps [simp del]

text \<open>A failing model keeps what its tools have written.\<close>

definition run_batch_model ::
  "(contradiction_info list \<Rightarrow> resolver_call llm_run) \<Rightarrow> contradiction_info list \<Rightarrow> judged list \<Rightarrow> judged list" where
  "run_batch_model model batch acc = fst (run_tools resolver_tool (model batch) acc)"

definition judgments :: "(contradiction_info list \<Rightarrow> resolver_call llm_run) \<Rightarrow> contradiction_info list \<Rightarrow> judged list" where
  "judgments model cs = fold (run_batch_model model) (batches RESOLVER_BATCH_SIZE cs) []"

section \<open>Acting on the judgments\<close>

record resolver_counts =
  rn_resolved :: nat
  rn_noise :: nat
  rn_confirmed :: nat
  rn_hitl :: nat

definition no_counts :: resolver_counts where
  "no_counts = \<lparr> rn_resolved = 0, rn_noise = 0, rn_confirmed = 0, rn_hitl = 0 \<rparr>"

definition hitl_id :: "contradiction_info \<Rightarrow> world \<Rightarrow> string" where
  "hitl_id c w = ''hitl-resolver-'' @ cx_node c @ ''-'' @ show_int (w_now w)"

definition hitl_payload :: "string \<Rightarrow> payload" where
  "hitl_payload scopeId = empty_payload \<lparr> p_scope_id := Some scopeId \<rparr>"

definition hitl_proposal :: "string \<Rightarrow> contradiction_info \<Rightarrow> string \<Rightarrow> proposal" where
  "hitl_proposal scopeId c proposalId =
     \<lparr> pp_id = proposalId, pp_agent = ''resolver-agent'', pp_action = ''resolve_contradiction'',
       pp_target_node = cx_node c, pp_payload = hitl_payload scopeId, pp_mode = Some ''MITL'' \<rparr>"

definition resolver_emit :: "resolver_env \<Rightarrow> json_obj \<Rightarrow> (world, unit) exec" where
  "resolver_emit env content w =
     and_then (emitContribution (re_sha env) ''resolver-agent'' ''resolution'' (dr_print (re_drift env) (JObj content))
        (Some 1) None (coalesce (w_env_scope w) ''default'') []) (\<lambda>_. ret ()) w"

definition ask_resolution :: "resolver_env \<Rightarrow> string \<Rightarrow> contradiction_info \<Rightarrow> judged \<Rightarrow> (world, unit) exec" where
  "ask_resolution env scopeId c r w =
    (let proposalId = hitl_id c w in
     try_catch
       (and_then (addPending proposalId (hitl_proposal scopeId c proposalId) (hitl_payload scopeId))
          (\<lambda>_. resolver_emit env [(''type'', JStr ''resolver_hitl_requested''), (''proposal_id'', JStr proposalId),
                 (''node_id'', JStr (cx_node c)), (''reason'', JStr (ju_reason r))]))
       (\<lambda>_. ret ()) w)"

definition carry_out :: "resolver_env \<Rightarrow> string \<Rightarrow> contradiction_info \<Rightarrow> judged \<Rightarrow> (world, unit) exec" where
  "carry_out env scopeId c r =
     and_then
       (try_catch (and_then (markResolved (re_canon env) (re_emb env) True (cx_node c) (Some scopeId)
                     (Some (ju_judgment r)) (Some (ju_reason r))) (\<lambda>_. ret ()))
          (\<lambda>_. ret ()))
       (\<lambda>_. resolver_emit env [(''type'', JStr ''contradiction_resolved''), (''node_id'', JStr (cx_node c)),
              (''judgment'', JStr (ju_judgment r)), (''reason'', JStr (ju_reason r))])"

definition apply_judgment ::
  "resolver_env \<Rightarrow> string \<Rightarrow> contradiction_info list \<Rightarrow> judged \<Rightarrow> resolver_counts \<Rightarrow> (world, resolver_counts) exec" where
  "apply_judgment env scopeId cs r n =
    (case List.find (\<lambda>c. cx_node c = ju_id r) cs of
       None \<Rightarrow> ret n
     | Some c \<Rightarrow>
        if ju_hitl r
        then and_then (ask_resolution env scopeId c r)
               (\<lambda>_. ret (n \<lparr> rn_hitl := rn_hitl n + 1, rn_confirmed := rn_confirmed n + 1 \<rparr>))
        else if ju_judgment r = ''resolved'' \<or> ju_judgment r = ''noise''
        then and_then (carry_out env scopeId c r)
               (\<lambda>_. ret (if ju_judgment r = ''resolved'' then n \<lparr> rn_resolved := rn_resolved n + 1 \<rparr>
                         else n \<lparr> rn_noise := rn_noise n + 1 \<rparr>))
        else ret (n \<lparr> rn_confirmed := rn_confirmed n + 1 \<rparr>))"

definition runResolverAgent :: "resolver_env \<Rightarrow> (runtime, resolver_counts) exec" where
  "runResolverAgent env r0 =
    (let scopeId = w_scope (rt_world r0) in
     case re_model env of
       None \<Rightarrow> ret no_counts r0
     | Some model \<Rightarrow>
        and_then (on_world (loadActiveContradictions scopeId))
          (\<lambda>cs. if cs = [] then ret no_counts
                else and_then (read_json (re_drift env) (scopeFactsKey scopeId))
                 (\<lambda>facts. and_then (read_json (re_drift env) (scopeDriftKey scopeId))
                   (\<lambda>drift. on_world (for_each (apply_judgment env scopeId cs)
                                       (judgments (model facts drift) cs) no_counts)))) r0)"

end
