(* ===== verification/Resolver_Safety.thy ===== *)
theory Resolver_Safety
  imports Resolver Finality_Effects
begin

text \<open>
  What becomes of the resolver's requests: every request it queues is approved without effect, since
  the only action an approval publishes is an advance of the pipeline and the request carries no epoch.
\<close>

section \<open>The batches\<close>

lemma batches_cover: "0 < n \<Longrightarrow> concat (batches n xs) = xs \<and> (\<forall>b \<in> set (batches n xs). length b \<le> n)"
proof (induction n xs rule: batches.induct)
  case (1 n xs)
  then show ?case by (cases "xs = []") (subst (1 2) batches.simps; simp)+
qed

section \<open>What is counted\<close>

definition counted :: "contradiction_info list \<Rightarrow> judged \<Rightarrow> resolver_counts \<Rightarrow> resolver_counts" where
  "counted cs r n =
    (if ju_id r \<notin> cx_node ` set cs then n
     else if ju_hitl r then n \<lparr> rn_hitl := rn_hitl n + 1, rn_confirmed := rn_confirmed n + 1 \<rparr>
     else if ju_judgment r = ''resolved'' then n \<lparr> rn_resolved := rn_resolved n + 1 \<rparr>
     else if ju_judgment r = ''noise'' then n \<lparr> rn_noise := rn_noise n + 1 \<rparr>
     else n \<lparr> rn_confirmed := rn_confirmed n + 1 \<rparr>)"

text \<open>A computation that ends with a value in every state, whatever calls fail.\<close>

definition always_yields :: "('s, 'a) exec \<Rightarrow> 'a \<Rightarrow> bool" where
  "always_yields m x = (\<forall>w. snd (m w) = Inr x)"

lemma yields_ret: "always_yields (ret x) x"
  by (simp add: always_yields_def)

lemma yields_then: "always_yields m x \<Longrightarrow> always_yields (g x) y \<Longrightarrow> always_yields (and_then m g) y"
  by (simp add: always_yields_def and_then_def split: prod.split) (metis snd_conv sum.case(2))

lemma yields_handled: "always_yields (try_catch m (\<lambda>_. ret ())) ()"
  by (auto simp: always_yields_def try_catch_def split: prod.split sum.split)

lemma yields_emit: "always_yields (resolver_emit env c) ()"
proof -
  have "snd (and_then (emitContribution sha r k p t m sc ps) (\<lambda>_. ret ()) w) = Inr ()" for sha r k p t m sc ps w
    unfolding emitContribution_def by (auto simp: and_then_def try_catch_def split: prod.split sum.split)
  then show ?thesis by (simp add: always_yields_def resolver_emit_def)
qed

lemma yields_judgment: "always_yields (apply_judgment env sc cs r n) (counted cs r n)"
proof (cases "List.find (\<lambda>c. cx_node c = ju_id r) cs")
  case None
  then have "ju_id r \<notin> cx_node ` set cs" by (auto simp: find_None_iff)
  then show ?thesis using None by (simp add: apply_judgment_def counted_def yields_ret)
next
  case (Some c)
  have c: "ju_id r \<in> cx_node ` set cs"
    using Some by (metis (mono_tags, lifting) find_Some_iff imageI nth_mem)
  have "always_yields (ask_resolution env sc c r) ()"
    by (simp add: always_yields_def ask_resolution_def Let_def yields_handled[unfolded always_yields_def])
  moreover have "always_yields (carry_out env sc c r) ()"
    unfolding carry_out_def by (rule yields_then[OF yields_handled yields_emit])
  ultimately show ?thesis
    using Some c by (simp add: apply_judgment_def counted_def yields_ret yields_then)
qed

text \<open>
  The report of a run counts what the model said: however many of the calls that mark a contradiction
  or queue a request fail, the counts are the same.
\<close>

theorem resolver_counts_judgments:
  "snd (for_each (apply_judgment env sc cs) js n w) = Inr (fold (counted cs) js n)"
proof -
  have "always_yields (for_each (apply_judgment env sc cs) js n) (fold (counted cs) js n)"
  proof (induction js arbitrary: n)
    case (Cons r js)
    then show ?case by (simp add: yields_then[OF yields_judgment])
  qed (simp add: yields_ret)
  then show ?thesis by (simp add: always_yields_def)
qed

section \<open>What is queued\<close>

definition resolution_request :: "pending_row \<Rightarrow> bool" where
  "resolution_request row = (pr_status row = StatusPending \<and> (\<exists>s. pr_payload row = Some (hitl_payload s)))"

definition new_requests :: "world \<Rightarrow> world \<Rightarrow> bool" where
  "new_requests w w' =
     (\<forall>k row. map_get (w_pending w') k = Some row
        \<longrightarrow> map_get (w_pending w) k = Some row \<or> resolution_request row)"

interpretation asked: graph_writer new_requests
proof (unfold_locales, goal_cases)
  case (2 s t u)
  then show ?case unfolding new_requests_def by blast
next
  case (5 P f)
  show ?case by (simp add: moves_def update_statement_def external_def update_nodes_def new_requests_def)
qed (simp_all add: moves_def appendNode_def appendEdge_def external_def Let_def new_requests_def)

lemma asked_same: "(\<And>w. w_pending (fst (m w)) = w_pending w) \<Longrightarrow> moves new_requests m"
  by (simp add: moves_def new_requests_def)

lemma asked_emit: "moves new_requests (resolver_emit env c)"
proof -
  have "keeps w_pending (emitContribution sha r k p t m sc ps)" for sha r k p t m sc ps
    by (rule keeps_emit) simp_all
  then have "moves new_requests (emitContribution sha r k p t m sc ps)" for sha r k p t m sc ps
    by (intro asked_same) (simp add: keeps_def)
  then have "moves new_requests (and_then (emitContribution sha r k p t m sc ps) (\<lambda>_. ret ()))" for sha r k p t m sc ps
    by (intro asked.g_and_then asked.g_ret)
  then have "moves new_requests (\<lambda>w. and_then (emitContribution sha r k p t m (f w) ps) (\<lambda>_. ret ()) w)" for sha r k p t m f ps
    by (rule asked.mv_state)
  then show ?thesis unfolding resolver_emit_def[abs_def] .
qed

lemma asked_request: "moves new_requests (ask_resolution env sc c r)"
proof -
  have "moves new_requests (addPending k (hitl_proposal sc c k) (hitl_payload sc))" for k
    unfolding addPending_def
    by (rule asked.g_external) (auto simp: new_requests_def map_get_set resolution_request_def)
  then have "moves new_requests (try_catch (and_then (addPending k (hitl_proposal sc c k) (hitl_payload sc))
          (\<lambda>_. resolver_emit env (content k))) (\<lambda>_. ret ()))" for k content
    by (intro asked.g_try asked.g_and_then asked_emit asked.g_ret)
  then have "moves new_requests (\<lambda>w. try_catch
       (and_then (addPending (hitl_id c w) (hitl_proposal sc c (hitl_id c w)) (hitl_payload sc))
          (\<lambda>_. resolver_emit env (content (hitl_id c w)))) (\<lambda>_. ret ()) w)" for content
    by (rule asked.mv_state)
  then show ?thesis unfolding ask_resolution_def[abs_def] Let_def .
qed

lemma asked_carry_out: "moves new_requests (carry_out env sc c r)"
  unfolding carry_out_def markResolved_def
  by (intro asked.gw_steps asked.gw_mark asked_emit)

lemma asked_judgment: "moves new_requests (apply_judgment env sc cs r n)"
  unfolding apply_judgment_def by (intro asked.gw_steps asked_request asked_carry_out)

text \<open>The same over the runtime, whose world the steps run in.\<close>

definition new_requests_in :: "runtime \<Rightarrow> runtime \<Rightarrow> bool" where
  "new_requests_in r r' = new_requests (rt_world r) (rt_world r')"

interpretation asked_in: effect_order new_requests_in
  by unfold_locales (auto simp: new_requests_in_def asked.le_refl intro: asked.le_trans)

lemma asked_on_world: "moves new_requests m \<Longrightarrow> moves new_requests_in (on_world m)"
  by (auto simp: moves_def new_requests_in_def on_world_def split: prod.split) (metis fst_conv)

lemma asked_read: "moves new_requests_in (read_json env key)"
proof -
  have "moves new_requests_in (s3_text key)"
    by (auto simp: moves_def new_requests_in_def new_requests_def s3_text_def db_def Let_def try_catch_def
        split: option.split prod.split sum.split)
  then show ?thesis unfolding read_json_def
    by (intro asked_in.mv_intros) (auto intro!: asked_in.mv_intros split: option.split)
qed

lemma asked_run:
  "moves new_requests_in (and_then (on_world (loadActiveContradictions sc))
     (\<lambda>cs. if cs = [] then ret no_counts
           else and_then (read_json e k) (\<lambda>facts. and_then (read_json e k')
             (\<lambda>drift. on_world (for_each (apply_judgment env sc cs) (js facts drift cs) no_counts)))))"
  unfolding loadActiveContradictions_def
  by (intro asked_in.mv_intros asked_read asked_on_world asked.g_for_each asked_judgment asked.gw_details
      asked.g_and_then asked.g_ret)

lemma resolver_requests:
  assumes "runResolverAgent env r0 = (r1, x)"
  shows "new_requests (rt_world r0) (rt_world r1)"
proof (cases "re_model env")
  case None
  then show ?thesis using assms by (simp add: runResolverAgent_def asked.le_refl)
next
  case (Some model)
  let ?sc = "w_scope (rt_world r0)"
  have "new_requests_in r0 r1"
    using asked_run[where sc = ?sc and e = "re_drift env" and k = "scopeFactsKey ?sc" and k' = "scopeDriftKey ?sc"
        and env = env and js = "\<lambda>facts drift. judgments (model facts drift)"]
      assms Some by (auto simp: runResolverAgent_def Let_def dest: movesD)
  then show ?thesis by (simp add: new_requests_in_def)
qed

section \<open>What an approval of a request does\<close>

text \<open>Nothing but the count of calls changes.\<close>

definition only_ticks :: "world \<Rightarrow> world \<Rightarrow> bool" where
  "only_ticks w w' = (\<exists>n. w' = w \<lparr> w_tick := n \<rparr>)"

interpretation ticking: world_order only_ticks
proof
  show "only_ticks w w" for w unfolding only_ticks_def by (intro exI[of _ "w_tick w"]) simp
  show "only_ticks w v \<Longrightarrow> only_ticks v u \<Longrightarrow> only_ticks w u" for w v u by (auto simp: only_ticks_def)
  show "only_ticks w (w \<lparr> w_tick := n \<rparr>)" for w n by (auto simp: only_ticks_def)
qed

text \<open>Without an epoch an advance reads the row and gives up, whatever calls fail, and the tool of the
  model variant refuses the payload.\<close>

lemma ticking_load: "moves only_ticks (and_then (loadState sc) (\<lambda>x. ret y))"
  unfolding loadState_def by (intro ticking.g_intros)

lemma ticking_drift: "moves only_ticks (and_then (read_drift sc) (\<lambda>x. ret y))"
proof -
  have "moves only_ticks (s3_get key)" for key
    by (auto simp: moves_def only_ticks_def s3_get_def external_def tick_def split: option.split)
  then show ?thesis
    unfolding read_drift_def by (intro ticking.g_intros) (auto intro!: ticking.g_intros split: s3_doc.split)
qed

lemma no_epoch_inline:
  assumes "ac_payload a = Some p" "p_expectedEpoch p = None" "ac_approved_by a = ''human''"
  shows "moves only_ticks (executeActionInline a)"
proof -
  have "moves only_ticks (and_then (advance_expected None (scope_only sc)) (after_advance sc))" for sc
  proof -
    have "and_then (advance_expected None (scope_only sc)) (after_advance sc)
        = and_then (loadState (advance_scope (scope_only sc))) (\<lambda>_. and_then (loadState sc) (\<lambda>_. ret ()))"
      by (simp add: fun_eq_iff advance_expected_def after_advance_def and_then_def split: prod.split sum.split)
    then show ?thesis unfolding loadState_def by (simp only:) (intro ticking.g_intros)
  qed
  then have "moves only_ticks (\<lambda>w. and_then (advance_for a p) (after_advance (action_scope (Some p) w)) w)"
    using assms by (simp add: moves_def advance_for_def and_then_def)
  then show ?thesis
    using assms(1) ticking.le_refl by (simp add: moves_def executeActionInline_def)
qed

lemma no_epoch_tool:
  assumes "ac_payload a = Some p" "p_expectedEpoch p = None"
  shows "moves only_ticks (executor_tool a c)"
proof (cases c)
  case CallReadRow
  then show ?thesis by (simp add: moves_def ticking_load[unfolded moves_def])
next
  case CallReadDriftOf
  then show ?thesis by (simp add: moves_def ticking_drift[unfolded moves_def])
next
  case CallExecute
  then show ?thesis using assms ticking.le_refl by (simp add: moves_def executeAdvance_tool_def and_then_def)
qed (simp_all add: ticking.g_ret)

lemma no_epoch_agent:
  assumes "ac_payload a = Some p" "p_expectedEpoch p = None" "ac_approved_by a = ''human''"
  shows "moves only_ticks (processActionWithAgent a llm)"
  unfolding processActionWithAgent_def run_tools_def
  by (intro ticking.g_intros ticking.g_in_order no_epoch_inline[OF assms])
    (auto intro: no_epoch_tool[OF assms(1,2)])

text \<open>
  C16. A human's approval of a resolution the resolver asked for does nothing. When a run of the resolver
  queues a request, approving it removes it from the queue and publishes one action, an advance of
  the pipeline without an epoch; executing that action, by the handler or by the executor's model
  whatever its tools, changes no table, no object and no message, in any later state: the
  contradiction stays as it was.
\<close>

theorem resolver_approval_does_nothing:
  assumes "runResolverAgent env r0 = (r1, x)"
    and "map_get (w_pending (rt_world r0)) k = None" "map_get (w_pending (rt_world r1)) k = Some row"
    and "map_get (w_pending w) k = Some row" "approvePending k w = (w', Inr res)"
  shows "\<exists>a. res = mitl_done \<and> w_nodes w' = w_nodes w \<and> map_get (w_pending w') k = None
     \<and> w_bus w' = w_bus w @ [(''swarm.actions.advance_state'', ActionMsg a)]
     \<and> (\<forall>canon llm v. \<exists>i j. fst (handle_action canon a v) = v \<lparr> w_tick := i \<rparr>
          \<and> fst (processActionWithAgent a llm v) = v \<lparr> w_tick := j \<rparr>)"
proof -
  have "resolution_request row"
    using resolver_requests[OF assms(1)] assms(2,3) unfolding new_requests_def by (metis option.distinct(1))
  then obtain s where row: "pr_status row = StatusPending" "pr_payload row = Some (hitl_payload s)"
    unfolding resolution_request_def by blast
  let ?p = "hitl_payload s" and ?a = "human_approval k (hitl_payload s)"
  have p: "p_expectedEpoch ?p = None" "p_type ?p = None" by (simp_all add: hitl_payload_def empty_payload_def)
  have a: "ac_payload ?a = Some ?p" "ac_approved_by ?a = ''human''" "ac_action_type ?a = Some ''advance_state''"
    by (simp_all add: human_approval_def)
  have "publish_and_remove k ''swarm.actions.advance_state'' (ActionMsg ?a) (tick w) = (w', Inr res)"
    using assms(4,5) row p
    by (auto simp: approvePending_def getPendingItem_def is_pending_def external_def and_then_def split: if_splits)
  then have "res = mitl_done \<and> w_nodes w' = w_nodes w \<and> map_get (w_pending w') k = None
     \<and> w_bus w' = w_bus w @ [(''swarm.actions.advance_state'', ActionMsg ?a)]"
    by (auto simp: publish_and_remove_def and_then_def publish_def removePending_def external_def map_get_delete
        split: if_splits)
  moreover have "\<exists>n. fst (executeActionInline ?a v) = v \<lparr> w_tick := n \<rparr>"
      "\<exists>n. fst (processActionWithAgent ?a llm v) = v \<lparr> w_tick := n \<rparr>" for llm v
    using no_epoch_inline[OF a(1) p(1) a(2)] no_epoch_agent[OF a(1) p(1) a(2)]
    unfolding moves_def only_ticks_def by blast+
  moreover have "handle_action canon ?a = executeActionInline ?a" for canon
    by (simp add: handle_action_def a equivalence_action_def)
  ultimately show ?thesis by metis
qed


definition flagging :: "contradiction_info list \<Rightarrow> resolver_call llm_run" where
  "flagging cs = \<lparr> lr_calls = [ReadContradictions, WriteResolutions (map (\<lambda>c. \<lparr> ju_id = cx_node c,
       ju_judgment = ''resolved'', ju_reason = ''r'', ju_hitl = True \<rparr>) cs)], lr_failure = None \<rparr>"

definition sample_resolver :: resolver_env where
  "sample_resolver = \<lparr> re_drift = \<lparr> dr_parse = (\<lambda>_. None), dr_print = (\<lambda>_. ''j''), dr_number = (\<lambda>_. []),
       dr_iso = (\<lambda>_. []) \<rparr>, re_canon = (\<lambda>x. x), re_emb = (\<lambda>_. []), re_sha = (\<lambda>_ _ _. ''h''),
     re_model = Some (\<lambda>_ _. flagging) \<rparr>"

definition open_runtime :: runtime where
  "open_runtime = \<lparr> rt_world = empty_world \<lparr> w_scope := ''s'', w_nodes := [new_node \<lparr> ni_scope = ''s'',
       ni_type = ''contradiction'', ni_content = ''a'', ni_confidence = None, ni_status = Some ''active'', ni_source = [],
       ni_meta = [], ni_by = None, ni_embedding = None, ni_valid_from = None, ni_valid_to = None \<rparr> ''c'' 0] \<rparr>,
     rt_filters = [], rt_memory = [], rt_objects = [], rt_delivery = [] \<rparr>"

theorem resolver_approval_does_nothing_witness:
  "let w = rt_world (fst (runResolverAgent sample_resolver open_runtime)); k = ''hitl-resolver-c-0'' in
     \<exists>a. w_bus (fst (approvePending k w)) = w_bus w @ [(''swarm.actions.advance_state'', ActionMsg a)]
       \<and> (\<forall>canon v. \<exists>i. fst (handle_action canon a v) = v \<lparr> w_tick := i \<rparr>)"
proof -
  let ?run = "runResolverAgent sample_resolver open_runtime" and ?k = "''hitl-resolver-c-0''"
  let ?w = "rt_world (fst ?run)"
  have n: "map_get (w_pending (rt_world open_runtime)) ?k = None" by code_simp
  have "map_get (w_pending ?w) ?k \<noteq> None" by code_simp
  then obtain row where row: "map_get (w_pending ?w) ?k = Some row" by blast
  have "case snd (approvePending ?k ?w) of Inl _ \<Rightarrow> False | Inr _ \<Rightarrow> True" by code_simp
  then obtain w' res where a: "approvePending ?k ?w = (w', Inr res)"
    by (metis (no_types, lifting) prod.collapse sum.case_eq_if sum.collapse(2))
  have "?run = (fst ?run, snd ?run)" by simp
  from resolver_approval_does_nothing[OF this n row row a] show ?thesis
    unfolding Let_def a fst_conv by blast
qed

end
