(* ===== verification/Facts_Agent.thy ===== *)
theory Facts_Agent
  imports Drift_Agent Wal_Queries Facts_Sync Governance_Agent Causal_Dag
begin

text \<open>
  The facts agent, \<open>src/agents/factsAgent.ts\<close>: its three tools read the recent events of a scope and
  its stored facts, have the worker extract new facts, and write them to the object store, the semantic
  graph and the causal graph; the direct pipeline runs the three in order, and the model-driven agent
  in any order a model chooses.

  The worker is a function from the request to facts and a drift report, both objects, as the tool's
  output schema says. Titles are strings, and dates are read by \<open>fa_date\<close>. A tool that fails is an
  answer to the model, which goes on. The copy sent to the studio is one call whose failure is
  swallowed.
\<close>

section \<open>The environment\<close>

record facts_env =
  fa_store :: drift_env
  fa_url :: "string option"
  fa_extract :: "string \<Rightarrow> json list \<Rightarrow> json option \<Rightarrow> json list \<Rightarrow> js_error + json_obj \<times> json_obj"
  fa_ts :: "int \<Rightarrow> string"
  fa_date :: "string \<Rightarrow> int option"
  fa_sync :: sync_env
  fa_embed :: bool
  fa_sha :: content_sha

record last_facts =
  lf_wrote :: "string list"
  lf_hash :: "string option"
  lf_candidates :: "equivalence_candidate list option"

type_synonym tool_state = "runtime \<times> last_facts option"

definition on_runtime :: "(runtime, 'a) exec \<Rightarrow> (tool_state, 'a) exec" where
  "on_runtime m s = (case m (fst s) of (r, x) \<Rightarrow> ((r, snd s), x))"

definition set_last :: "(last_facts option \<Rightarrow> last_facts option) \<Rightarrow> (tool_state, unit) exec" where
  "set_last f s = ((fst s, f (snd s)), Inr ())"

section \<open>The scope\<close>

definition resolveFactsWriteScopeId :: "wal_row list \<Rightarrow> world \<Rightarrow> string" where
  "resolveFactsWriteScopeId recent w =
    (if str_trim (w_scope w) \<noteq> [] then str_trim (w_scope w)
     else case List.map_filter (\<lambda>(_, d). scopeIdFromEventData (Some (JObj d))) (rev recent) of
       s # _ \<Rightarrow> s
     | [] \<Rightarrow> (case w_env_scope w of Some s \<Rightarrow> if s \<noteq> [] then s else ''default'' | None \<Rightarrow> ''default''))"

definition facts_scope :: "(runtime, string) exec" where
  "facts_scope =
     and_then (on_world (tailEvents 20)) (\<lambda>recent r. ret (resolveFactsWriteScopeId recent (rt_world r)) r)"

section \<open>Reading and extracting\<close>

text \<open>\<open>{ seq, ts, ...data }\<close>\<close>

definition context_event :: "facts_env \<Rightarrow> wal_row \<Rightarrow> json" where
  "context_event env row =
    (case row of (i, d) \<Rightarrow>
       JObj (fold (\<lambda>(k, v). map_set k v) d [(''seq'', JNum (of_int i)), (''ts'', JStr (fa_ts env i))]))"

definition readContext :: "facts_env \<Rightarrow> nat \<Rightarrow> (runtime, json list \<times> json option) exec" where
  "readContext env limit =
     and_then facts_scope
       (\<lambda>scopeId. and_then (on_world (tailEventsForScope scopeId limit))
         (\<lambda>events. and_then (read_json (fa_store env) (scopeFactsKey scopeId))
           (\<lambda>previous. ret (map (context_event env) events, previous))))"

text \<open>The contents of the resolved contradictions; whatever the object is, a failure means none.\<close>

definition resolved_contents_of :: "json option \<Rightarrow> json list" where
  "resolved_contents_of j =
    (case map_get (json_object j) ''resolved_contradictions'' of
       Some (JArr rs) \<Rightarrow>
         if JNull \<in> set rs then []
         else map (\<lambda>r. coalesce (map_get (json_object (Some r)) ''content'') JNull) rs
     | _ \<Rightarrow> [])"

definition extractFacts ::
  "facts_env \<Rightarrow> json list \<Rightarrow> json option \<Rightarrow> (runtime, json_obj \<times> json_obj) exec" where
  "extractFacts env context previous =
     and_then facts_scope
       (\<lambda>scopeId. and_then
          (try_catch (and_then (read_json (fa_store env) (scopeResolutionsKey scopeId))
                        (\<lambda>j. ret (resolved_contents_of j))) (\<lambda>_. ret []))
          (\<lambda>resolved. case fa_url env of
             None \<Rightarrow> raise (JsError ''FACTS_WORKER_URL is required for facts agent'')
           | Some url \<Rightarrow>
              if url = [] then raise (JsError ''FACTS_WORKER_URL is required for facts agent'')
              else db (\<lambda>r. (r, fa_extract env url context previous resolved))))"

section \<open>The payload of the sync\<close>

definition items_of :: "json_obj \<Rightarrow> string \<Rightarrow> json list" where
  "items_of fs key = (case map_get fs key of Some (JArr xs) \<Rightarrow> xs | _ \<Rightarrow> [])"

definition structured_item :: "json \<Rightarrow> (string \<times> string) option" where
  "structured_item j =
    (case (json_str (map_get (json_object (Some j)) ''dimension''), json_str (map_get (json_object (Some j)) ''content'')) of
       (Some d, Some c) \<Rightarrow> Some (d, c) | _ \<Rightarrow> None)"

definition json_int :: "json option \<Rightarrow> int option" where
  "json_int j = (case j of Some (JNum q) \<Rightarrow> Some \<lfloor>q\<rfloor> | _ \<Rightarrow> None)"

definition provenance_of :: "json \<Rightarrow> provenance" where
  "provenance_of j =
    (let fs = json_object (Some j) in
     \<lparr> pv_seq = json_int (map_get fs ''document_seq''),
       pv_seqs = List.map_filter (\<lambda>x. json_int (Some x)) (items_of fs ''document_seqs''),
       pv_title = json_str (map_get fs ''document_title''),
       pv_hash = json_str (map_get fs ''document_content_hash'') \<rparr>)"

definition facts_payload_of :: "(string \<Rightarrow> int option) \<Rightarrow> json_obj \<Rightarrow> facts_payload" where
  "facts_payload_of date fs =
    (let prov = json_object (map_get fs ''provenance'');
         date_of = (\<lambda>k. Option.bind (json_str (map_get fs k)) date);
         provs = (\<lambda>k. map provenance_of (items_of prov k)) in
     \<lparr> fp_structured = List.map_filter structured_item (items_of fs ''structured_claims''),
       fp_claims = strings_of (map_get fs ''claims''), fp_goals = strings_of (map_get fs ''goals''),
       fp_risks = strings_of (map_get fs ''risks''), fp_contradictions = strings_of (map_get fs ''contradictions''),
       fp_confidence = (case map_get fs ''confidence'' of Some (JNum q) \<Rightarrow> Some q | _ \<Rightarrow> None),
       fp_valid_from = date_of ''valid_from'', fp_valid_to = date_of ''valid_to'',
       fp_claim_prov = provs ''claims'', fp_structured_prov = provs ''structured_claims'',
       fp_goal_prov = provs ''goals'', fp_risk_prov = provs ''risks'', fp_contra_prov = provs ''contradictions'' \<rparr>)"

section \<open>Writing\<close>

definition is_doc :: "wal_row \<Rightarrow> bool" where
  "is_doc row = (json_text (snd row) ''type'' = Some ''context_doc'')"

definition doc_title :: "json_obj \<Rightarrow> string" where
  "doc_title d =
     coalesce (or_else (json_text (json_fields (map_get d ''payload'')) ''title'') (json_text d ''title'')) ''document''"

definition last_doc :: "wal_row list \<Rightarrow> wal_row option" where
  "last_doc events = List.find is_doc (rev events)"

text \<open>The three objects, in the order of the puts.\<close>

definition store_facts ::
  "facts_env \<Rightarrow> string \<Rightarrow> string \<Rightarrow> json_obj \<Rightarrow> json_obj \<Rightarrow> (runtime, string list) exec" where
  "store_facts env scopeId ts facts drift =
     and_then (s3PutJson (fa_store env) (scopeFactsKey scopeId) (JObj facts))
       (\<lambda>_. and_then (s3PutJson (fa_store env) (scopeDriftKey scopeId) (JObj drift))
         (\<lambda>_. and_then (s3PutJson (fa_store env) (scopeFactsHistoryKey scopeId ts) (JObj facts))
           (\<lambda>_. ret [scopeFactsKey scopeId, scopeDriftKey scopeId, scopeFactsHistoryKey scopeId ts])))"

definition sync_facts ::
  "facts_env \<Rightarrow> string \<Rightarrow> json_obj \<Rightarrow> wal_row option \<Rightarrow> (world, sync_state) exec" where
  "sync_facts env scopeId facts doc =
     syncFactsToSemanticGraph ((fa_sync env) \<lparr> sx_scope := scopeId \<rparr>) (facts_payload_of (fa_date env) facts)
       (fa_embed env) (Some (case doc of None \<Rightarrow> ''document'' | Some (_, d) \<Rightarrow> doc_title d)) (map_option fst doc)"

definition mark_docs :: "string \<Rightarrow> wal_row list \<Rightarrow> sync_state \<Rightarrow> (world, unit) exec" where
  "mark_docs scopeId events st =
    (let docs = map (\<lambda>(i, d). (doc_title d, i)) (filter is_doc events) in
     markContextDocsAnalyzed scopeId docs (map snd (ss_claims st))
       (if 1 < length docs then \<lparr> mo_claim_seq = None, mo_attach_all = True \<rparr>
        else \<lparr> mo_claim_seq = map_option fst (last_doc events), mo_attach_all = False \<rparr>))"

definition facts_contribution :: "json_obj \<Rightarrow> sync_state option \<Rightarrow> json" where
  "facts_contribution facts st =
    (let num = (\<lambda>f. JNum (case st of None \<Rightarrow> 0 | Some s \<Rightarrow> of_nat (f s))) in
     JObj [(''facts_hash'', coalesce (map_get facts ''hash'') JNull), (''nodes_created'', num ss_created),
           (''edges_created'', num ss_edges), (''nodes_updated'', num ss_updated),
           (''contradictions_extracted'', JNum (of_nat (length (items_of facts ''contradictions''))))])"

text \<open>What follows the puts; every failure in it is caught.\<close>

definition publish_facts ::
  "facts_env \<Rightarrow> string \<Rightarrow> json_obj \<Rightarrow> wal_row list \<Rightarrow> (world, equivalence_candidate list) exec" where
  "publish_facts env scopeId facts events =
     and_then (try_catch (and_then (sync_facts env scopeId facts (last_doc events)) (\<lambda>st. ret (Some st)))
                 (\<lambda>_. ret None))
       (\<lambda>st. and_then (case st of
                None \<Rightarrow> ret ()
              | Some s \<Rightarrow> try_catch (mark_docs scopeId events s) (\<lambda>_. ret ()))
         (\<lambda>_. and_then (emitContribution (fa_sha env) ''facts-agent'' ''claim''
                  (dr_print (fa_store env) (facts_contribution facts st)) None None scopeId [])
           (\<lambda>_. and_then (try_catch (external (\<lambda>w. (w, Inr ()))) (\<lambda>_. ret ()))
             (\<lambda>_. ret (case st of None \<Rightarrow> [] | Some s \<Rightarrow> ss_candidates s)))))"

definition writeFacts :: "facts_env \<Rightarrow> json_obj \<Rightarrow> json_obj \<Rightarrow> (tool_state, unit) exec" where
  "writeFacts env facts drift s =
    (let ts = dr_iso (fa_store env) (w_now (rt_world (fst s))) in
     and_then (on_runtime facts_scope)
       (\<lambda>scopeId. and_then (on_runtime (on_world (tailEventsForScope scopeId 50)))
         (\<lambda>events. and_then (on_runtime (store_facts env scopeId ts facts drift))
           (\<lambda>wrote. and_then (set_last (\<lambda>_. Some \<lparr> lf_wrote = wrote, lf_hash = json_text facts ''hash'',
                                                    lf_candidates = None \<rparr>))
             (\<lambda>_. and_then (on_runtime (on_world (publish_facts env scopeId facts events)))
               (\<lambda>cs. set_last (map_option (\<lambda>l. l \<lparr> lf_candidates := Some cs \<rparr>))))))) s)"

section \<open>The runs\<close>

definition runFactsPipelineDirect :: "facts_env \<Rightarrow> (runtime, last_facts) exec" where
  "runFactsPipelineDirect env r =
    (case and_then (on_runtime (readContext env 200))
            (\<lambda>(context, previous). and_then (on_runtime (extractFacts env context previous))
              (\<lambda>(facts, drift). writeFacts env facts drift)) (r, None) of
       (s, Inl e) \<Rightarrow> (fst s, Inl e)
     | (s, Inr _) \<Rightarrow> (fst s, Inr (case snd s of
           None \<Rightarrow> \<lparr> lf_wrote = [], lf_hash = None, lf_candidates = Some [] \<rparr>
         | Some l \<Rightarrow> l \<lparr> lf_candidates := Some (coalesce (lf_candidates l) []) \<rparr>)))"

datatype facts_call =
    ReadContext nat
  | ExtractFacts "json list" "json option"
  | WriteFacts json_obj json_obj

fun facts_tool :: "facts_env \<Rightarrow> facts_call \<Rightarrow> (tool_state, unit) exec" where
  "facts_tool env (ReadContext limit) = on_runtime (and_then (readContext env limit) (\<lambda>_. ret ()))"
| "facts_tool env (ExtractFacts context previous) =
     on_runtime (and_then (extractFacts env context previous) (\<lambda>_. ret ()))"
| "facts_tool env (WriteFacts facts drift) = writeFacts env facts drift"

definition unreachable_service :: "string \<Rightarrow> bool" where
  "unreachable_service msg =
     list_ex (\<lambda>p. str_includes (str_lower msg) p) [''timeout'', ''econnrefused'', ''api'', ''fetch failed'']"

text \<open>The model runs only when it is switched on and has a key: \<open>None\<close> otherwise.\<close>

definition runFactsAgent :: "facts_env \<Rightarrow> facts_call llm_run option \<Rightarrow> (runtime, last_facts) exec" where
  "runFactsAgent env model r =
    (case model of
       None \<Rightarrow> runFactsPipelineDirect env r
     | Some run \<Rightarrow>
        (case in_order (map (\<lambda>c. try_catch (facts_tool env c) (\<lambda>_. ret ())) (lr_calls run)) (r, None) of
           (s, Inl e) \<Rightarrow> (fst s, Inl e)
         | (s, Inr _) \<Rightarrow>
            (case lr_failure run of
               None \<Rightarrow> (fst s, Inr (coalesce (snd s) \<lparr> lf_wrote = [], lf_hash = None, lf_candidates = None \<rparr>))
             | Some (JsError msg) \<Rightarrow>
                if unreachable_service msg then runFactsPipelineDirect env (fst s) else (fst s, Inl (JsError msg)))))"

end
