(* ===== verification/Facts_Safety.thy ===== *)
theory Facts_Safety
  imports Facts_Agent Resolver_Safety
begin

text \<open>
  The outcome of a facts run: the graph is written after the objects and only by the sync of the facts
  stored, and a run that answers has stored the facts but need not have synced them.
\<close>

section \<open>What leaves the graph alone\<close>

definition same_graph :: "runtime \<Rightarrow> runtime \<Rightarrow> bool" where
  "same_graph r r' = (w_nodes (rt_world r') = w_nodes (rt_world r) \<and> w_edges (rt_world r') = w_edges (rt_world r))"

interpretation off_graph: effect_order same_graph
  by unfold_locales (auto simp: same_graph_def)

text \<open>A step over the tool state does on its runtime what it does there.\<close>

lemma on_runtime_eq: "on_runtime m (r, l) = (s', x) \<longleftrightarrow> (\<exists>r'. m r = (r', x) \<and> s' = (r', l))"
  by (auto simp: on_runtime_def split: prod.splits)

lemma off_graph_world:
  "(\<And>w. w_nodes (fst (m w)) = w_nodes w \<and> w_edges (fst (m w)) = w_edges w) \<Longrightarrow> moves same_graph (on_world m)"
  by (auto simp: moves_def same_graph_def on_world_def split: prod.split) (metis fst_conv)+

lemma off_graph_tails: "moves same_graph (on_world (tailEvents n))" "moves same_graph (on_world (tailEventsForScope sc n))"
  by (rule off_graph_world; simp add: tailEvents_def tailEventsForScope_def external_def)+

lemma off_graph_scope: "moves same_graph facts_scope"
proof -
  have "moves same_graph (\<lambda>r. ret (resolveFactsWriteScopeId recent (rt_world r)) r)" for recent
    by (rule off_graph.mv_state) (rule off_graph.mv_ret)
  then show ?thesis unfolding facts_scope_def by (intro off_graph.mv_and_then off_graph_tails)
qed

lemma off_graph_read: "moves same_graph (read_json env key)"
proof -
  have "moves same_graph (s3_text key)"
    by (auto simp: moves_def same_graph_def s3_text_def db_def Let_def split: option.split)
  then show ?thesis unfolding read_json_def
    by (intro off_graph.mv_intros) (auto intro!: off_graph.mv_intros split: option.split)
qed

lemma off_graph_put: "moves same_graph (s3PutJson env k j)"
  by (auto simp: moves_def same_graph_def s3PutJson_def db_def put_object_def Let_def)

lemma off_graph_context: "moves same_graph (readContext env n)"
  unfolding readContext_def by (intro off_graph.mv_intros off_graph_scope off_graph_tails off_graph_read)

lemma off_graph_extract: "moves same_graph (extractFacts env c p)"
proof -
  have "moves same_graph (db (\<lambda>r. (r, x)))" for x :: "js_error + json_obj \<times> json_obj"
    by (simp add: moves_def same_graph_def db_def Let_def)
  then show ?thesis unfolding extractFacts_def
    by (intro off_graph.mv_intros off_graph_scope off_graph_read)
qed

lemma off_graph_store: "moves same_graph (store_facts env sc ts f d)"
  unfolding store_facts_def by (intro off_graph.mv_intros off_graph_put)

section \<open>The stored objects\<close>

definition facts_stored :: "facts_env \<Rightarrow> string \<Rightarrow> string \<Rightarrow> json_obj \<Rightarrow> json_obj \<Rightarrow> runtime \<Rightarrow> bool" where
  "facts_stored env sc ts facts drift r =
    (map_get (rt_objects r) (scopeFactsKey sc) = Some (dr_print (fa_store env) (JObj facts))
     \<and> map_get (rt_objects r) (scopeDriftKey sc) = Some (dr_print (fa_store env) (JObj drift))
     \<and> map_get (rt_objects r) (scopeFactsHistoryKey sc ts) = Some (dr_print (fa_store env) (JObj facts)))"

lemma put_Inr: "s3PutJson env k j r = (r', Inr ()) \<Longrightarrow> rt_objects r' = map_set k (dr_print env j) (rt_objects r)"
  by (auto simp: s3PutJson_def db_def put_object_def Let_def split: if_splits)

lemma fact_keys_differ:
  "scopeFactsKey sc \<noteq> scopeDriftKey sc" "scopeFactsKey sc \<noteq> scopeFactsHistoryKey sc ts"
  "scopeDriftKey sc \<noteq> scopeFactsHistoryKey sc ts"
  by (simp_all add: scopeFactsKey_def scopeDriftKey_def scopeFactsHistoryKey_def scopeStorageKey_eq)

lemma store_facts_Inr:
  assumes "store_facts env sc ts f d r = (r', Inr wrote)"
  shows "facts_stored env sc ts f d r'
    \<and> wrote = [scopeFactsKey sc, scopeDriftKey sc, scopeFactsHistoryKey sc ts]"
proof -
  obtain r1 r2 where "s3PutJson (fa_store env) (scopeFactsKey sc) (JObj f) r = (r1, Inr ())"
      "s3PutJson (fa_store env) (scopeDriftKey sc) (JObj d) r1 = (r2, Inr ())"
      "s3PutJson (fa_store env) (scopeFactsHistoryKey sc ts) (JObj f) r2 = (r', Inr ())"
    and w: "wrote = [scopeFactsKey sc, scopeDriftKey sc, scopeFactsHistoryKey sc ts]"
    using assms by (auto simp: store_facts_def and_then_eq_Inr)
  from this(1-3)[THEN put_Inr] w show ?thesis
    by (simp add: facts_stored_def map_get_set fact_keys_differ)
qed

section \<open>The sync\<close>

lemma yields_in_order: "(\<And>m. m \<in> set ms \<Longrightarrow> always_yields m ()) \<Longrightarrow> always_yields (in_order ms) ()"
proof (induction ms)
  case (Cons m ms)
  have "in_order (m # ms) = and_then m (\<lambda>_. in_order ms)" by (rule ext) (simp add: and_then_def)
  then show ?case using Cons yields_then[of m "()" "\<lambda>_. in_order ms"] by simp
qed (simp add: always_yields_def)

lemma transaction_Inl: "runInTransaction m w = (v, Inl e) \<Longrightarrow> \<exists>n. v = w \<lparr> w_tick := n \<rparr>"
  by (auto simp: runInTransaction_def split: prod.splits sum.splits js_error.splits if_splits)

text \<open>A sync that raises has changed nothing: only its transaction can raise.\<close>

lemma failed_sync_changes_nothing:
  assumes "syncFactsToSemanticGraph env fp b d s w = (v, Inl e)"
  shows "\<exists>n. v = w \<lparr> w_tick := n \<rparr>"
proof -
  have "always_yields (embed_claims en st) ()" for en st
    unfolding embed_claims_def by (rule yields_in_order) (auto intro: yields_handled)
  then have "always_yields (and_then (if_so c (embed_claims en st)) (\<lambda>_. ret st)) st" for c en st
    by (intro yields_then yields_ret) (simp add: if_so_def yields_ret)
  then have e: "snd (and_then (if_so c (embed_claims en st)) (\<lambda>_. ret st) u) \<noteq> Inl x" for c en st u x
    unfolding always_yields_def by simp
  let ?t = "runInTransaction (sync_body (env_for env fp) fp d s)"
  obtain u y where t: "?t w = (u, y)" by fastforce
  show ?thesis
  proof (cases y)
    case (Inl x)
    then show ?thesis using assms t transaction_Inl[of _ w u x] by (auto simp: syncFactsToSemanticGraph_def and_then_def)
  next
    case (Inr st)
    then have "and_then (if_so (b \<and> ss_created st > 0) (embed_claims env st)) (\<lambda>_. ret st) u = (v, Inl e)"
      using assms t unfolding syncFactsToSemanticGraph_def and_then_def[of ?t] by simp
    then show ?thesis using e by (metis snd_conv)
  qed
qed

text \<open>The graph has the sync of these facts in it.\<close>

definition graph_synced :: "facts_env \<Rightarrow> string \<Rightarrow> json_obj \<Rightarrow> runtime \<Rightarrow> runtime \<Rightarrow> bool" where
  "graph_synced env sc facts r r' =
    (\<exists>doc v v' st. w_nodes v = w_nodes (rt_world r) \<and> w_edges v = w_edges (rt_world r)
       \<and> sync_facts env sc facts doc v = (v', Inr st) \<and> graph_le v' (rt_world r'))"

lemma graph_marks: "moves graph_le (mark_docs sc events st)"
  unfolding mark_docs_def markContextDocsAnalyzed_def upsertDocMarker_def Let_def
  by (intro graph_steps graph.g_in_order) (auto intro!: graph_steps graph.gw_put_doc)

lemma emission_keeps_graph: "keeps (\<lambda>w. (w_nodes w, w_edges w)) (emitContribution sha r k p t m sc ps)"
  by (rule keeps_emit) simp_all

definition after_sync :: "facts_env \<Rightarrow> string \<Rightarrow> json_obj \<Rightarrow> wal_row list \<Rightarrow> sync_state option
    \<Rightarrow> (world, equivalence_candidate list) exec" where
  "after_sync env scopeId facts events st =
     and_then (case st of None \<Rightarrow> ret () | Some s \<Rightarrow> try_catch (mark_docs scopeId events s) (\<lambda>_. ret ()))
       (\<lambda>_. and_then (emitContribution (fa_sha env) ''facts-agent'' ''claim''
                (dr_print (fa_store env) (facts_contribution facts st)) None None scopeId [])
         (\<lambda>_. and_then (try_catch (external (\<lambda>w. (w, Inr ()))) (\<lambda>_. ret ()))
           (\<lambda>_. ret (case st of None \<Rightarrow> [] | Some s \<Rightarrow> ss_candidates s))))"

lemma publish_facts_sync:
  "publish_facts env sc facts events w =
    (case sync_facts env sc facts (last_doc events) w of
       (v, Inl e) \<Rightarrow> after_sync env sc facts events None v
     | (v, Inr st) \<Rightarrow> after_sync env sc facts events (Some st) v)"
  by (simp add: publish_facts_def after_sync_def and_then_def try_catch_def split: prod.split sum.split)

lemma emission_answers: "\<exists>rid. snd (emitContribution sha r k p t m sc ps w) = Inr rid"
  unfolding emitContribution_def by (auto simp: try_catch_def split: prod.split sum.split)

lemma yields_after_any:
  assumes "\<And>w. \<exists>x. snd (m w) = Inr x" "\<And>x. always_yields (g x) y"
  shows "always_yields (and_then m g) y"
  unfolding always_yields_def
proof
  fix w
  obtain x where "snd (m w) = Inr x" using assms(1) by blast
  then show "snd (and_then m g w) = Inr y"
    using assms(2) by (cases "m w") (simp add: and_then_def always_yields_def)
qed

lemma after_sync_answers:
  "snd (after_sync env sc facts events st w) = Inr (case st of None \<Rightarrow> [] | Some s \<Rightarrow> ss_candidates s)"
proof -
  have h: "always_yields (try_catch m (\<lambda>_. ret ())) ()" for m :: "(world, unit) exec" by (rule yields_handled)
  have "always_yields (and_then (try_catch (external (\<lambda>w. (w, Inr ()))) (\<lambda>_. ret ())) (\<lambda>_. ret y)) y" for y :: "equivalence_candidate list"
    by (rule yields_then[OF h yields_ret])
  then have rest: "always_yields (and_then (emitContribution sha r k p t m s' ps) (\<lambda>_. and_then
          (try_catch (external (\<lambda>w. (w, Inr ()))) (\<lambda>_. ret ())) (\<lambda>_. ret y))) y"
    for sha r k p t m s' ps and y :: "equivalence_candidate list"
    by (rule yields_after_any[OF emission_answers])
  have "always_yields (case st of None \<Rightarrow> ret () | Some s \<Rightarrow> try_catch (mark_docs sc events s) (\<lambda>_. ret ())) ()"
    by (simp add: h yields_ret split: option.split)
  then have "always_yields (after_sync env sc facts events st) (case st of None \<Rightarrow> [] | Some s \<Rightarrow> ss_candidates s)"
    unfolding after_sync_def by (rule yields_then) (rule rest)
  then show ?thesis by (simp add: always_yields_def)
qed

text \<open>What the graph is after the puts: unchanged when the sync fails, else what the sync made and its
  document markers.\<close>

lemma after_sync_graph:
  "graph_le w (fst (after_sync env sc facts events st w))"
  "w_nodes (fst (after_sync env sc facts events None w)) = w_nodes w
   \<and> w_edges (fst (after_sync env sc facts events None w)) = w_edges w"
proof -
  have "moves graph_le (emitContribution sha r k p t m sc ps)" for sha r k p t m sc ps
    using emission_keeps_graph unfolding keeps_def moves_def by (auto intro!: graph_le_append[where new = "[]" and es = "[]"])
  then have "moves graph_le (after_sync env sc facts events st)"
    unfolding after_sync_def by (intro graph_steps graph_marks)
  then show "graph_le w (fst (after_sync env sc facts events st w))" by (simp add: moves_def)
  have "keeps (\<lambda>w. (w_nodes w, w_edges w)) (external (\<lambda>w. (w, Inr ())))"
    by (rule keeps_external) (simp_all add: keeps_def)
  then have "keeps (\<lambda>w. (w_nodes w, w_edges w)) (after_sync env sc facts events None)"
    unfolding after_sync_def option.case
    by (intro keeps_and_then keeps_ret keeps_try_catch emission_keeps_graph)
  then show "w_nodes (fst (after_sync env sc facts events None w)) = w_nodes w
      \<and> w_edges (fst (after_sync env sc facts events None w)) = w_edges w"
    by (simp add: keeps_def)
qed

lemma published_graph:
  assumes "on_world (publish_facts env sc facts events) r = (r', x)"
  shows "(\<exists>cs. x = Inr cs) \<and> rt_objects r' = rt_objects r \<and> (same_graph r r' \<or> graph_synced env sc facts r r')"
proof -
  obtain w' where p: "publish_facts env sc facts events (rt_world r) = (w', x)" and r': "r' = r \<lparr> rt_world := w' \<rparr>"
    using assms by (auto simp: on_world_def split: prod.splits)
  obtain v y where s: "sync_facts env sc facts (last_doc events) (rt_world r) = (v, y)" by fastforce
  show ?thesis
  proof (cases y)
    case (Inl e)
    then have "w' = fst (after_sync env sc facts events None v)" "x = snd (after_sync env sc facts events None v)"
      using p s by (simp_all add: publish_facts_sync)
    moreover obtain n where "v = rt_world r \<lparr> w_tick := n \<rparr>"
      using s Inl failed_sync_changes_nothing unfolding sync_facts_def by blast
    ultimately show ?thesis using after_sync_graph(2) by (auto simp: r' same_graph_def after_sync_answers)
  next
    case (Inr st)
    then have w': "w' = fst (after_sync env sc facts events (Some st) v)" "x = snd (after_sync env sc facts events (Some st) v)"
      using p s by (simp_all add: publish_facts_sync)
    then have "graph_le v (rt_world r')" using after_sync_graph(1) by (simp add: r')
    then have "graph_synced env sc facts r r'"
      using s Inr unfolding graph_synced_def by blast
    then show ?thesis using w' by (simp add: r' after_sync_answers)
  qed
qed

section \<open>The outcome of a run\<close>

lemma same_graph_synced: "same_graph r r1 \<Longrightarrow> graph_synced env sc facts r1 r2 \<Longrightarrow> graph_synced env sc facts r r2"
  by (simp add: same_graph_def graph_synced_def)

text \<open>A write that raises has changed nothing in the graph, one that ends has stored the facts.\<close>

definition written :: "facts_env \<Rightarrow> json_obj \<Rightarrow> json_obj \<Rightarrow> runtime \<Rightarrow> tool_state \<Rightarrow> bool" where
  "written env facts drift r s' =
    (\<exists>sc ts cs. snd s' = Some \<lparr> lf_wrote = [scopeFactsKey sc, scopeDriftKey sc, scopeFactsHistoryKey sc ts],
         lf_hash = json_text facts ''hash'', lf_candidates = Some cs \<rparr>
       \<and> facts_stored env sc ts facts drift (fst s')
       \<and> (same_graph r (fst s') \<or> graph_synced env sc facts r (fst s')))"

lemma tool_then_Inr:
  "and_then (on_runtime m) f (r, l) = (s', Inr y) \<longleftrightarrow> (\<exists>r1 x. m r = (r1, Inr x) \<and> f x (r1, l) = (s', Inr y))"
  by (auto simp: and_then_eq_Inr on_runtime_eq)

lemma tool_then_Inl:
  "and_then (on_runtime m) f (r, l) = (s', Inl e) \<longleftrightarrow>
     (\<exists>r1. m r = (r1, Inl e) \<and> s' = (r1, l)) \<or> (\<exists>r1 x. m r = (r1, Inr x) \<and> f x (r1, l) = (s', Inl e))"
proof (cases "m r")
  case (Pair r1 y)
  then show ?thesis by (cases y) (auto simp: and_then_def on_runtime_def)
qed

lemma set_last_then: "and_then (set_last g) f (r, l) = f () (r, g l)"
  by (simp add: and_then_def set_last_def)

lemmas write_simps = writeFacts_def Let_def tool_then_Inr tool_then_Inl set_last_then

lemma writeFacts_Inl:
  assumes "writeFacts env facts drift (r, l) = (s', Inl e)"
  shows "same_graph r (fst s')"
proof -
  have p: "on_world (publish_facts env sc facts events) r1 \<noteq> (r2, Inl e)" for sc events r1 r2
    using published_graph by fastforce
  have scope: "same_graph r r1" if "facts_scope r = (r1, x)" for r1 x using movesD[OF off_graph_scope that] .
  have tail: "same_graph r1 r2" if "on_world (tailEventsForScope sc 50) r1 = (r2, x)" for sc r1 r2 x
    using movesD[OF off_graph_tails(2) that] .
  have store: "same_graph r1 r2" if "store_facts env sc ts facts drift r1 = (r2, x)" for sc ts r1 r2 x
    using movesD[OF off_graph_store that] .
  show ?thesis
    using assms p by (auto simp: write_simps set_last_def dest!: scope tail store) (blast intro: off_graph.R_trans)+
qed

lemma writeFacts_Inr:
  assumes "writeFacts env facts drift (r, l) = (s', Inr y)"
  shows "written env facts drift r s'"
proof -
  let ?ts = "dr_iso (fa_store env) (w_now (rt_world r))"
  obtain r1 sc r2 events r3 wrote r4 cs where a: "facts_scope r = (r1, Inr sc)"
      "on_world (tailEventsForScope sc 50) r1 = (r2, Inr events)"
      "store_facts env sc ?ts facts drift r2 = (r3, Inr wrote)"
      "on_world (publish_facts env sc facts events) r3 = (r4, Inr cs)"
    and s': "s' = (r4, Some \<lparr> lf_wrote = wrote, lf_hash = json_text facts ''hash'', lf_candidates = Some cs \<rparr>)"
    using assms by (auto simp: write_simps) (simp add: set_last_def)
  have "same_graph r r3"
    using movesD[OF off_graph_scope a(1)] movesD[OF off_graph_tails(2) a(2)] movesD[OF off_graph_store a(3)]
      off_graph.R_trans by blast
  then have "same_graph r r4 \<or> graph_synced env sc facts r r4"
    using published_graph[OF a(4)] same_graph_synced off_graph.R_trans by blast
  then show ?thesis
    using store_facts_Inr[OF a(3)] published_graph[OF a(4)] unfolding written_def s'
    by (auto simp: facts_stored_def)
qed

lemma extracted:
  "extractFacts env c p r = (r', Inr (facts, drift)) \<Longrightarrow> \<exists>url resolved. fa_extract env url c p resolved = Inr (facts, drift)"
  by (auto simp: extractFacts_def and_then_eq_Inr db_def Let_def raise_def split: option.splits if_splits)

text \<open>
  C15. The outcome of the direct facts pipeline, whatever calls fail. If it raises, no node and no edge
  has changed. If it answers, facts and a drift report the worker gave are stored under the current keys
  of one scope and in its history, which are the keys it answers; the graph is either exactly as
  before or has the sync of these very facts, and the answer is the same in both cases but for the
  candidates: a failed sync shows nowhere.
\<close>

theorem facts_run_outcome:
  assumes "runFactsPipelineDirect env r = (r', x)"
  shows "case x of
      Inl _ \<Rightarrow> same_graph r r'
    | Inr out \<Rightarrow> \<exists>sc ts facts drift url context previous resolved.
        fa_extract env url context previous resolved = Inr (facts, drift)
        \<and> lf_wrote out = [scopeFactsKey sc, scopeDriftKey sc, scopeFactsHistoryKey sc ts]
        \<and> lf_hash out = json_text facts ''hash'' \<and> facts_stored env sc ts facts drift r'
        \<and> (same_graph r r' \<or> graph_synced env sc facts r r')"
proof -
  obtain s y where b: "and_then (on_runtime (readContext env 200))
            (\<lambda>(context, previous). and_then (on_runtime (extractFacts env context previous))
              (\<lambda>(facts, drift). writeFacts env facts drift)) (r, None) = (s, y)" by fastforce
  have ctx: "same_graph r r1" if "readContext env 200 r = (r1, x)" for r1 x using movesD[OF off_graph_context that] .
  have extr: "same_graph r1 r2" if "extractFacts env c p r1 = (r2, x)" for c p r1 r2 x
    using movesD[OF off_graph_extract that] .
  show ?thesis
  proof (cases y)
    case (Inl e)
    then have "same_graph r (fst s)"
      using b by (auto simp: tool_then_Inl split: prod.splits dest!: ctx extr writeFacts_Inl)
        (blast intro: off_graph.R_trans)+
    moreover have "r' = fst s" "x = Inl e" using assms b Inl by (auto simp: runFactsPipelineDirect_def)
    ultimately show ?thesis by simp
  next
    case (Inr u)
    then obtain r1 c p r2 facts drift where
        a: "readContext env 200 r = (r1, Inr (c, p))" "extractFacts env c p r1 = (r2, Inr (facts, drift))"
      and w: "writeFacts env facts drift (r2, None) = (s, Inr u)"
      using b by (auto simp: tool_then_Inr split: prod.splits)
    have "same_graph r r2" using ctx[OF a(1)] extr[OF a(2)] off_graph.R_trans by blast
    moreover have "\<exists>url resolved. fa_extract env url c p resolved = Inr (facts, drift)"
      using extracted[OF a(2)] .
    ultimately show ?thesis
      using writeFacts_Inr[OF w] assms b Inr same_graph_synced off_graph.R_trans
      by (auto simp: runFactsPipelineDirect_def written_def) blast+
  qed
qed

section \<open>A worker with one claim\<close>

definition sample_facts :: facts_env where
  "sample_facts = \<lparr> fa_store = re_drift sample_resolver, fa_url = Some ''u'',
     fa_extract = (\<lambda>_ _ _ _. Inr ([(''claims'', JArr [JStr ''revenue grew''])], [(''level'', JStr ''none'')])),
     fa_ts = (\<lambda>_. ''t''), fa_date = (\<lambda>_. None),
     fa_sync = \<lparr> sx_scope = [], sx_canon = (\<lambda>x. x), sx_min = 65 / 100, sx_embed = (\<lambda>_. []),
       sx_cosine = (\<lambda>_ _. 0), sx_confidence = 1, sx_valid_from = None, sx_valid_to = None \<rparr>,
     fa_embed = False, fa_sha = (\<lambda>_ _ _. ''h'') \<rparr>"

definition facts_world :: "(nat \<Rightarrow> bool) \<Rightarrow> runtime" where
  "facts_world faults = \<lparr> rt_world = empty_world \<lparr> w_scope := ''s'',
       w_uuid := (\<lambda>n. replicate n (CHR ''u'')), w_faults := faults \<rparr>, rt_filters = [], rt_memory = [], rt_objects = [], rt_delivery = [] \<rparr>"

theorem facts_run_outcome_witness:
  "\<exists>sc. map_get (rt_objects (fst (runFactsPipelineDirect sample_facts (facts_world (\<lambda>_. False))))) (scopeFactsKey sc)
     = Some ''j''"
proof -
  let ?run = "runFactsPipelineDirect sample_facts (facts_world (\<lambda>_. False))"
  have "case snd ?run of Inl _ \<Rightarrow> False | Inr _ \<Rightarrow> True" by code_simp
  then obtain out where r: "?run = (fst ?run, Inr out)" by (cases ?run) (auto split: sum.splits)
  have print: "dr_print (fa_store sample_facts) j = ''j''" for j by (simp add: sample_facts_def sample_resolver_def)
  from facts_run_outcome[OF r] show ?thesis unfolding facts_stored_def print by auto
qed

text \<open>One failing call of the sync: the run answers what it answers without it, and the graph stays empty.\<close>

theorem lost_sync_shows_nowhere:
  "let good = runFactsPipelineDirect sample_facts (facts_world (\<lambda>_. False));
       bad = runFactsPipelineDirect sample_facts (facts_world (\<lambda>n. n = 11)) in
     snd bad = snd good \<and> rt_objects (fst bad) = rt_objects (fst good)
     \<and> w_nodes (rt_world (fst good)) \<noteq> [] \<and> w_nodes (rt_world (fst bad)) = []"
  by code_simp

end
