(* ===== verification/Reporting_Agents.thy ===== *)
theory Reporting_Agents
  imports Facts_Safety Goals
begin

text \<open>
  The planner and the status agent, \<open>src/agents/plannerAgent.ts\<close> and \<open>src/agents/statusAgent.ts\<close>. The
  planner reads the drift report, answers the actions of the policy or of a model, and evaluates the
  goals; the status agent writes a card, and with a model briefings, to the log of events.

  A model is its tool calls and its answer or failure; a tool that fails is an answer to the model. The
  error of an aborted call carries the word in its message. A stored report has a string as its level
  and strings as types; \<open>read_json\<close> takes a stored \<open>null\<close> for no object.
\<close>

section \<open>The planner\<close>

record planner_env =
  pl_store :: drift_env
  pl_goals :: goal_model

datatype planner_call = ReadPlannerDrift | ReadPlannerFacts | ReadPlannerRules

record planner_answer =
  pn_drift :: drift_input
  pn_actions :: "json list"
  pn_reasoning :: "string option"

definition drift_of_report :: "json option \<Rightarrow> drift_input" where
  "drift_of_report j =
    (case j of
       None \<Rightarrow> \<lparr> di_level = ''none'', di_types = [] \<rparr>
     | Some d \<Rightarrow> \<lparr> di_level = coalesce (json_str (map_get (json_object j) ''level'')) [],
                   di_types = strings_of (map_get (json_object j) ''types'') \<rparr>)"

text \<open>The evaluation of the goals; its failure is logged.\<close>

definition planner_goals :: "planner_env \<Rightarrow> (runtime, unit) exec" where
  "planner_goals env =
     on_world (\<lambda>w. try_catch (and_then (evaluateGoalsAgainstEvidence (pl_goals env) (env_scope w)) (\<lambda>_. ret ()))
                     (\<lambda>_. ret ()) w)"

definition planner_rules :: "planner_env \<Rightarrow> string \<Rightarrow> (runtime, planner_answer) exec" where
  "planner_rules env sid =
     and_then (read_json (pl_store env) (scopeDriftKey sid))
       (\<lambda>j. and_then (on_world (\<lambda>w. scope_config (env_scope w) w))
         (\<lambda>config. and_then (planner_goals env)
           (\<lambda>_. ret \<lparr> pn_drift = drift_of_report j,
                       pn_actions = map JStr (evaluateRules (drift_of_report j) config),
                       pn_reasoning = None \<rparr>)))"

definition planner_tool :: "planner_env \<Rightarrow> string \<Rightarrow> planner_call \<Rightarrow> (runtime, unit) exec" where
  "planner_tool env sid c =
    (case c of
       ReadPlannerDrift \<Rightarrow> and_then (read_json (pl_store env) (scopeDriftKey sid)) (\<lambda>_. ret ())
     | ReadPlannerFacts \<Rightarrow> and_then (read_json (pl_store env) (scopeFactsKey sid)) (\<lambda>_. ret ())
     | ReadPlannerRules \<Rightarrow> and_then (on_world (\<lambda>w. scope_config (env_scope w) w)) (\<lambda>_. ret ()))"

definition planner_model_run ::
  "planner_env \<Rightarrow> string \<Rightarrow> planner_call list \<Rightarrow> js_error + json_obj option \<Rightarrow> (runtime, planner_answer) exec" where
  "planner_model_run env sid calls answer =
     and_then (in_order (map (\<lambda>c. try_catch (planner_tool env sid c) (\<lambda>_. ret ())) calls))
       (\<lambda>_. case answer of
          Inl e \<Rightarrow> raise e
        | Inr obj \<Rightarrow>
            and_then (read_json (pl_store env) (scopeDriftKey sid))
              (\<lambda>j. and_then (planner_goals env)
                (\<lambda>_. ret \<lparr> pn_drift = drift_of_report j,
                            pn_actions = (case obj of None \<Rightarrow> [] | Some fs \<Rightarrow> items_of fs ''actions''),
                            pn_reasoning = Some (case obj of None \<Rightarrow> []
                              | Some fs \<Rightarrow> coalesce (json_str (map_get fs ''reasoning'')) []) \<rparr>)))"

definition retryable :: "string \<Rightarrow> bool" where
  "retryable msg =
     list_ex (\<lambda>p. str_includes (str_lower msg) p) [''timeout'', ''econnrefused'', ''api'', ''fetch failed'', ''aborted'']"

definition runPlannerAgent ::
  "planner_env \<Rightarrow> (planner_call list \<times> (js_error + json_obj option)) option \<Rightarrow> (runtime, planner_answer) exec" where
  "runPlannerAgent env model r =
    (let sid = resolveStorageScopeId None (rt_world r) in
     case model of
       None \<Rightarrow> planner_rules env sid r
     | Some (calls, answer) \<Rightarrow>
        try_catch (planner_model_run env sid calls answer)
          (\<lambda>e. case e of JsError msg \<Rightarrow> if retryable msg then planner_rules env sid else raise e) r)"

section \<open>The status agent\<close>

record status_env =
  st_store :: drift_env
  st_sha :: content_sha
  st_hash :: "string \<Rightarrow> string"

datatype status_call = ReadStatusFacts | ReadStatusDrift | ReadStatusEvents nat | WriteBriefing string bool

text \<open>An event of the status agent in the log.\<close>

definition append_status :: "string \<Rightarrow> json_obj \<Rightarrow> (world, unit) exec" where
  "append_status type payload w =
     and_then fresh_uuid
       (\<lambda>_. appendEvent (event_to_json (createSwarmEvent type payload (no_opts \<lparr> eo_source := Some ''status_agent'' \<rparr>)
               (w_tenant w) (w_scope w) (next_fresh w)))) w"

definition status_emit :: "status_env \<Rightarrow> json_obj \<Rightarrow> (world, unit) exec" where
  "status_emit env content w =
     and_then (emitContribution (st_sha env) ''status-agent'' ''assessment'' (dr_print (st_store env) (JObj content))
        None None (env_scope w) []) (\<lambda>_. ret ()) w"

definition briefing_type :: "bool \<Rightarrow> string" where
  "briefing_type full = (if full then ''briefing_full'' else ''briefing_short'')"

definition writeBriefing :: "status_env \<Rightarrow> string \<Rightarrow> bool \<Rightarrow> (world, unit) exec" where
  "writeBriefing env summary full w =
     and_then (append_status (briefing_type full)
        [(''summary'', JStr summary), (''ts'', JStr (dr_iso (st_store env) (w_now w)))])
       (\<lambda>_. status_emit env [(''type'', JStr (briefing_type full)),
              (''summary_hash'', JStr (take 16 (st_hash env summary)))]) w"

definition status_tool :: "status_env \<Rightarrow> string \<Rightarrow> status_call \<Rightarrow> (runtime, unit) exec" where
  "status_tool env sid c =
    (case c of
       ReadStatusFacts \<Rightarrow> and_then (read_json (st_store env) (scopeFactsKey sid)) (\<lambda>_. ret ())
     | ReadStatusDrift \<Rightarrow> and_then (read_json (st_store env) (scopeDriftKey sid)) (\<lambda>_. ret ())
     | ReadStatusEvents n \<Rightarrow> and_then (on_world (tailEvents n)) (\<lambda>_. ret ())
     | WriteBriefing summary full \<Rightarrow> on_world (writeBriefing env summary full))"

definition field_or :: "json option \<Rightarrow> string \<Rightarrow> json \<Rightarrow> json" where
  "field_or j key otherwise = coalesce (nullish (map_get (json_object j) key)) otherwise"

text \<open>The fields of a card from the two objects; the last one is the kind of the briefing or the notes.\<close>

definition status_fields :: "string \<Rightarrow> json option \<Rightarrow> json option \<Rightarrow> string \<times> json \<Rightarrow> json_obj" where
  "status_fields ts facts drift extra =
     [(''ts'', JStr ts), (''drift_level'', field_or drift ''level'' (JStr ''unknown'')),
      (''drift_types'', field_or drift ''types'' (JArr [])), (''confidence'', field_or facts ''confidence'' JNull),
      (''goals'', field_or facts ''goals'' (JArr [])), extra]"

definition parse_raw :: "status_env \<Rightarrow> string option \<Rightarrow> (runtime, json option) exec" where
  "parse_raw env raw =
    (case raw of
       None \<Rightarrow> ret None
     | Some s \<Rightarrow>
        if s = [] then ret None
        else (case dr_parse (st_store env) s of
            None \<Rightarrow> raise (JsError ''SyntaxError'') | Some j \<Rightarrow> ret (if j = JNull then None else Some j)))"

definition status_card ::
  "status_env \<Rightarrow> string \<Rightarrow> (json option \<Rightarrow> string \<times> json) \<Rightarrow> bool \<Rightarrow> (runtime, json_obj) exec" where
  "status_card env sid extra briefed =
     and_then (s3_text (scopeFactsKey sid))
       (\<lambda>factsRaw. and_then (s3_text (scopeDriftKey sid))
         (\<lambda>driftRaw. and_then (parse_raw env factsRaw)
           (\<lambda>facts. and_then (parse_raw env driftRaw)
             (\<lambda>drift r.
               (let card = status_fields (dr_iso (st_store env) (w_now (rt_world r))) facts drift (extra drift);
                    keys = [''drift_level'', ''drift_types'', ''confidence''] @ (if briefed then [''briefing_type''] else []) in
                and_then (on_world (append_status ''status_card'' card))
                  (\<lambda>_. and_then (on_world (status_emit env ((''type'', JStr ''status_card'') #
                            filter (\<lambda>(k, v). k \<in> set keys) card)))
                    (\<lambda>_. ret ((''type'', JStr ''status_card'') # card))) r)))))"

record status_payload =
  sp_elapsed :: "rat option"
  sp_next_full :: "rat option"

definition is_full :: "status_payload \<Rightarrow> bool" where
  "is_full p = (coalesce (sp_elapsed p) 0 \<ge> coalesce (sp_next_full p) 600000)"

definition status_rules :: "status_env \<Rightarrow> string \<Rightarrow> (runtime, json_obj) exec" where
  "status_rules env sid = status_card env sid (\<lambda>drift. (''notes'', field_or drift ''notes'' (JArr []))) False"

definition status_model_run ::
  "status_env \<Rightarrow> string \<Rightarrow> status_payload \<Rightarrow> status_call llm_run \<Rightarrow> (runtime, json_obj) exec" where
  "status_model_run env sid p run =
     and_then (in_order (map (\<lambda>c. try_catch (status_tool env sid c) (\<lambda>_. ret ())) (lr_calls run)))
       (\<lambda>_. case lr_failure run of
          Some e \<Rightarrow> raise e
        | None \<Rightarrow> status_card env sid
            (\<lambda>_. (''briefing_type'', JStr (if is_full p then ''full'' else ''short''))) True)"

definition runStatusAgent ::
  "status_env \<Rightarrow> status_payload \<Rightarrow> status_call llm_run option \<Rightarrow> (runtime, json_obj) exec" where
  "runStatusAgent env p model r =
    (let sid = resolveStorageScopeId None (rt_world r) in
     case model of
       None \<Rightarrow> status_rules env sid r
     | Some run \<Rightarrow>
        try_catch (status_model_run env sid p run)
          (\<lambda>e. case e of JsError msg \<Rightarrow> if unreachable_service msg then status_rules env sid else raise e) r)"

section \<open>The planner only advises\<close>

definition advised :: "runtime \<Rightarrow> runtime \<Rightarrow> bool" where
  "advised r r' = (surroundings (rt_world r') = surroundings (rt_world r) \<and> rt_objects r' = rt_objects r)"

lemma beside_world:
  "moves (\<lambda>w w'. surroundings w' = surroundings w) m
   \<Longrightarrow> moves advised (on_world m)"
  by (auto simp: moves_def on_world_def advised_def split: prod.split) (metis fst_conv)+

interpretation advice: effect_order advised
  by unfold_locales (auto simp: advised_def)

lemma advice_read:
  "moves advised (read_json env k)"
proof -
  have "moves advised (s3_text k)"
    by (auto simp: moves_def advised_def s3_text_def db_def Let_def split: option.split)
  then show ?thesis unfolding read_json_def
    by (intro advice.mv_intros) (auto intro!: advice.mv_intros split: option.split)
qed

lemma beside_goals:
  "moves (\<lambda>w w'. surroundings w' = surroundings w) (evaluateGoalsAgainstEvidence gm sc)"
proof -
  have "moves (\<lambda>w w'. surroundings w' = surroundings w) (update_goals ref ms)" for ref ms
    unfolding update_goals_def update_goal_def Let_def
    by (intro beside.g_intros beside.g_in_order) (auto simp: moves_def update_statement_def external_def update_nodes_def)
  moreover have "moves (\<lambda>w w'. surroundings w' = surroundings w) (with_fallback a t g)" for a t g
    unfolding with_fallback_def by (auto simp del: surroundings_def intro!: beside.g_intros split: sum.split option.split)
  ultimately show ?thesis
    unfolding evaluateGoalsAgainstEvidence_def by (intro beside.g_intros)
qed

lemma beside_config: "moves (\<lambda>w w'. surroundings w' = surroundings w) (scope_config sc)"
proof -
  have "moves (\<lambda>w w'. surroundings w' = surroundings w) load_policy_config"
    by (auto simp: moves_def load_policy_config_def split: option.split)
  then show ?thesis unfolding scope_config_def by (intro beside.g_intros)
qed

text \<open>
  Whatever calls fail and whatever the model calls and answers, a run of the planner stores no object,
  publishes no message, queues nothing for a human and moves no row of the pipeline: what it plans is
  an answer and nothing else.
\<close>

theorem planner_only_advises:
  assumes "runPlannerAgent env model r = (r', x)"
  shows "w_bus (rt_world r') = w_bus (rt_world r) \<and> w_pending (rt_world r') = w_pending (rt_world r)
    \<and> w_states (rt_world r') = w_states (rt_world r) \<and> rt_objects r' = rt_objects r"
proof -
  have config: "moves advised (on_world (\<lambda>w. scope_config (env_scope w) w))"
    by (rule beside_world) (rule beside.mv_state[OF beside_config])
  have goals: "moves advised (planner_goals env)"
    unfolding planner_goals_def
    by (rule beside_world, rule beside.mv_state) (intro beside.g_try beside.g_and_then beside.g_ret beside_goals)
  have rules: "moves advised (planner_rules env sid)" for sid
    unfolding planner_rules_def by (intro advice.mv_and_then advice.mv_ret advice_read config goals)
  have tool: "moves advised (planner_tool env sid c)" for sid c
    by (cases c) (auto simp: planner_tool_def intro!: advice.mv_and_then advice.mv_ret advice_read config)
  have "moves advised (planner_model_run env sid calls answer)" for sid calls answer
    unfolding planner_model_run_def
    by (intro advice.mv_and_then advice.mv_in_order)
      (auto intro!: advice.mv_intros tool advice_read goals split: sum.split)
  then have "moves advised (try_catch (planner_model_run env sid calls answer)
      (\<lambda>e. case e of JsError msg \<Rightarrow> if retryable msg then planner_rules env sid else raise e))" for sid calls answer
    by (intro advice.mv_try_catch) (auto intro!: advice.mv_intros rules split: js_error.split)
  then have "advised r r'"
    using assms rules by (cases model) (auto simp: runPlannerAgent_def Let_def dest!: movesD)
  then show ?thesis by (simp add: advised_def)
qed

section \<open>One card\<close>

definition cards :: "runtime \<Rightarrow> nat" where
  "cards r = length (filter (\<lambda>d. json_text d ''type'' = Some ''status_card'') (w_wal (rt_world r)))"

definition same_cards :: "runtime \<Rightarrow> runtime \<Rightarrow> bool" where
  "same_cards r r' = (cards r' = cards r)"

interpretation carded: effect_order same_cards
  by unfold_locales (auto simp: same_cards_def)

lemma append_status_wal:
  "append_status type payload w = (w', x) \<Longrightarrow>
   (x = Inr () \<and> (\<exists>d. w_wal w' = w_wal w @ [d] \<and> json_text d ''type'' = Some type)) \<or> (\<exists>e. x = Inl e) \<and> w_wal w' = w_wal w"
  by (auto simp: append_status_def and_then_def fresh_uuid_def appendEvent_def external_def json_text_def
      event_to_json_def createSwarmEvent_def Let_def split: if_splits)

lemma status_emit_wal: "\<exists>w'. status_emit env c w = (w', Inr ()) \<and> w_wal w' = w_wal w"
proof -
  have "keeps w_wal (emitContribution sha r k p t m sc ps)" for sha r k p t m sc ps by (rule keeps_emit) simp_all
  then have "w_wal (fst (emitContribution sha r k p t m sc ps w)) = w_wal w" for sha r k p t m sc ps
    by (simp add: keeps_def)
  then show ?thesis
    using emission_answers by (auto simp: status_emit_def and_then_def split: prod.split sum.split)
      (metis fst_conv snd_conv sum.distinct(1))+
qed

lemma carded_text: "moves same_cards (s3_text k)"
  by (auto simp: moves_def same_cards_def cards_def s3_text_def db_def Let_def split: option.split)

lemma carded_parse: "moves same_cards (parse_raw env raw)"
  unfolding parse_raw_def by (auto intro!: carded.mv_intros split: option.split)

lemma carded_read: "moves same_cards (read_json env k)"
  unfolding read_json_def
  by (intro carded.mv_and_then carded_text) (auto intro!: carded.mv_intros split: option.split)

lemma carded_tool: "moves same_cards (status_tool env sid c)"
proof -
  have tail: "moves same_cards (on_world (tailEvents n))" for n
    by (simp add: moves_def same_cards_def cards_def on_world_def tailEvents_def external_def)
  have brief: "moves same_cards (on_world (writeBriefing env summary full))" for summary full
    unfolding moves_def
  proof
    fix r :: runtime
    obtain w1 x where a: "append_status (briefing_type full) [(''summary'', JStr summary),
        (''ts'', JStr (dr_iso (st_store env) (w_now (rt_world r))))] (rt_world r) = (w1, x)" by fastforce
    have "filter (\<lambda>d. json_text d ''type'' = Some ''status_card'') (w_wal w1)
        = filter (\<lambda>d. json_text d ''type'' = Some ''status_card'') (w_wal (rt_world r))"
      using append_status_wal[OF a] by (auto simp: briefing_type_def)
    moreover obtain w2 where "status_emit env [(''type'', JStr (briefing_type full)),
        (''summary_hash'', JStr (take 16 (st_hash env summary)))] w1 = (w2, Inr ())" "w_wal w2 = w_wal w1"
      using status_emit_wal by blast
    ultimately show "same_cards r (fst (on_world (writeBriefing env summary full) r))"
      using a by (cases x) (auto simp: same_cards_def cards_def on_world_def writeBriefing_def and_then_def)
  qed
  show ?thesis
    by (cases c) (auto simp: status_tool_def intro!: carded.mv_intros carded_read tail brief)
qed

lemma card_written:
  assumes "status_card env sid extra briefed r = (r', x)"
  shows "case x of Inl _ \<Rightarrow> cards r' = cards r | Inr _ \<Rightarrow> cards r' = cards r + 1"
proof -
  have raw: "cards r2 = cards r1" if "s3_text k r1 = (r2, y)" for k r1 r2 y
    using movesD[OF carded_text that] by (simp add: same_cards_def)
  have parse: "cards r2 = cards r1" if "parse_raw env raw r1 = (r2, y)" for raw r1 r2 y
    using movesD[OF carded_parse that] by (simp add: same_cards_def)
  have app: "case y of Inl _ \<Rightarrow> cards r2 = cards r1 | Inr _ \<Rightarrow> cards r2 = cards r1 + 1"
    if "on_world (append_status ''status_card'' card) r1 = (r2, y)" for card r1 r2 y
    using that append_status_wal[of "''status_card''" card "rt_world r1"]
    by (fastforce simp: on_world_def cards_def split: prod.splits)
  have emit: "cards r2 = cards r1 \<and> y = Inr ()" if "on_world (status_emit env c) r1 = (r2, y)" for c r1 r2 y
    using that status_emit_wal[of env c "rt_world r1"] by (auto simp: on_world_def cards_def)
  show ?thesis
  proof (cases x)
    case (Inl e)
    then show ?thesis using assms
      by (auto simp: status_card_def and_then_def Let_def split: prod.splits sum.splits dest!: raw parse app emit)
  next
    case (Inr card)
    then show ?thesis using assms
      by (auto simp: status_card_def and_then_eq_Inr Let_def dest!: raw parse app emit)
  qed
qed

text \<open>
  Exactly one card: whatever calls fail, whatever the model calls and however it ends, a run of the status
  agent that answers has appended one status card to the log of events, also when it fell back after
  the model failed, and a run that raises none.
\<close>

theorem one_status_card:
  assumes "runStatusAgent env p model r = (r', x)"
  shows "case x of Inl _ \<Rightarrow> cards r' = cards r | Inr _ \<Rightarrow> cards r' = cards r + 1"
proof (cases model)
  case None
  then show ?thesis using assms card_written by (simp add: runStatusAgent_def status_rules_def Let_def)
next
  case (Some run)
  let ?sid = "resolveStorageScopeId None (rt_world r)"
  obtain r1 y where m: "status_model_run env ?sid p run r = (r1, y)" by fastforce
  have tools: "moves same_cards (in_order (map (\<lambda>c. try_catch (status_tool env ?sid c) (\<lambda>_. ret ())) (lr_calls run)))"
    by (rule carded.mv_in_order) (auto intro!: carded.mv_intros carded_tool)
  have y: "case y of Inl _ \<Rightarrow> cards r1 = cards r | Inr _ \<Rightarrow> cards r1 = cards r + 1"
    using m movesD[OF tools] card_written
    by (fastforce simp: status_model_run_def and_then_def same_cards_def split: prod.splits sum.splits option.splits)
  show ?thesis
  proof (cases y)
    case (Inr card)
    then show ?thesis using assms m y Some by (auto simp: runStatusAgent_def Let_def try_catch_def)
  next
    case (Inl e)
    obtain msg where e: "e = JsError msg" by (cases e)
    show ?thesis
    proof (cases "unreachable_service msg")
      case True
      then have "status_rules env ?sid r1 = (r', x)"
        using assms m Inl Some e by (simp add: runStatusAgent_def Let_def try_catch_def)
      from card_written[OF this[unfolded status_rules_def]] y Inl show ?thesis by (simp split: sum.splits)
    next
      case False
      then show ?thesis using assms m y Inl Some e by (auto simp: runStatusAgent_def Let_def try_catch_def)
    qed
  qed
qed

end
