(* ===== verification/Spec2Isabelle.thy ===== *)
theory Spec2Isabelle
  imports Executor_Safety Evidence_Safety Convergence Finality_Examples Agent_Loop_Events Event_Bus Hatchery_Examples Gset_Safety Vote_Safety State_Diff Goals_Safety Scope_Reset Drift_Safety Watchdog_Safety Deltas Resolver_Safety Facts_Safety Reporting_Agents
begin

text \<open>
  A governed swarm of agents (TypeScript under \<open>src/\<close>, the reduction kernel in Rust under
  \<open>sgrs-core/src\<close>). Agents extract facts, measure drift and propose transitions of a pipeline; a
  governance agent judges each proposal; an executor carries out what was approved; a semantic graph
  collects claims, goals and contradictions; and a finality evaluation decides when a scope may be
  closed. This development translates that program into HOL and proves what it guarantees - and,
  where the code does not do what its documentation says, what it does instead.

  \<^bold>\<open>How the program is represented.\<close> Pure functions are HOL functions. Effectful code is a computation
  \<open>('state, 'a) exec\<close> from a state to a state and either an error or a value (\<open>Swarm_Prelude\<close>:
  \<open>ret\<close>, \<open>raise\<close>, \<open>and_then\<close>, \<open>try_catch\<close>, \<open>for_each\<close>). The shared state is the record \<open>world\<close> of
  \<open>Swarm_World\<close>: the tables of the database, the objects of the object store the decision paths
  read, the messages published, the metrics, the configuration and the clock. Every call to a
  service is one step \<open>external\<close>; the field \<open>w_faults\<close> tells by position which calls fail. A
  property that does not constrain it holds for every pattern of failures, so each prefix of each
  handler's effects is covered. A transaction that raises restores the tables. Language models,
  HTTP answers, hashes, signatures, JSON parsing and logarithms are arguments of the definitions; no
  law about them is assumed beyond what a statement names. Times are milliseconds and scores exact
  rationals; where the code has IEEE numbers the theory that uses them says what is rounded away.

  \<^bold>\<open>Governance.\<close> \<open>Governance_Lattice\<close> and \<open>Policy_Kernel\<close> are the reduction kernel (drift levels,
  convergence ranks, policy rules, modes), the policy configuration with scope overrides, the YAML
  policy engine, the combining algorithms and the obligations; the locale \<open>policy_engine\<close> is the
  engine's interface. \<open>Access_Control\<close> is the permission check, \<open>Mitl_Server\<close> the queue of human
  decisions (locale \<open>approval_queue\<close>), \<open>State_Graph\<close> and \<open>State_Concurrency\<close> the persisted pipeline
  state with its compare-and-set on the epoch (locale \<open>epoch_cas\<close>: at most one winner per epoch).
  \<open>Governance_Decision\<close> and \<open>Governance_Agent\<close> are the rule-based and the model-driven half of
  \<open>src/agents/governanceAgent.ts\<close>; \<open>Governance_Safety\<close>, \<open>Governance_Agent_Safety\<close> and
  \<open>Governance_Messages\<close> show what an approval means on each path, that a run publishes at most one
  outcome, and that redelivery is harmless (locale \<open>redelivery\<close>, interpreted here and for the
  executor). \<open>Action_Executor\<close> and \<open>Executor_Safety\<close> carry an approved action out and show what one
  call's failure between commit and announcement loses.

  \<^bold>\<open>The bus and the agents.\<close> \<open>Activation_Filters\<close>, \<open>Agent_Loop\<close>, \<open>Agent_Loop_Safety\<close> and
  \<open>Agent_Loop_Events\<close> are the batch loop every agent runs in, its filters and the tuner; the agent
  itself is any function. \<open>Event_Bus\<close> is the JetStream client, \<open>Resilience\<close> the retries and the two
  circuit breakers (locale \<open>circuit_breaker\<close>). \<open>Hatchery_Scaling\<close>, \<open>Hatchery\<close>, \<open>Hatchery_Safety\<close> and
  \<open>Hatchery_Examples\<close> are the process that starts and scales agents: methods, timers and exits
  interleave at every \<open>await\<close>, as threads of the segments between them.

  \<^bold>\<open>Knowledge.\<close> \<open>Dimension_Schema\<close>, \<open>Claim_Text\<close>, \<open>Number_Text\<close> and \<open>Equivalence\<close> compare texts and
  typed values; \<open>Semantic_Graph\<close>, \<open>Contradictions\<close>, \<open>Equivalence_Trace\<close>, \<open>Facts_Sync\<close> and \<open>Goals\<close>
  are the writers of the node and edge tables; \<open>Effect_Order\<close> (locale \<open>effect_order\<close>) and
  \<open>Graph_Growth\<close> (locales \<open>world_order\<close>, \<open>persistent\<close>, \<open>detail_loader\<close>, \<open>graph_writer\<close>) prove
  once that an order every step climbs is climbed by every computation, and \<open>Graph_Safety\<close> and \<open>Goals_Safety\<close> apply it. \<open>Effect_Logs\<close> is the
  dual calculus for fields a computation keeps. \<open>Wal_Queries\<close> reads the log of events, \<open>Facts_Agent\<close>
  and \<open>Facts_Safety\<close> turn them into stored facts and a synchronised graph,
  \<open>Drift_Agent\<close> and \<open>Drift_Safety\<close> measure the drift of the facts and block the pipeline by it,
  \<open>Deltas\<close> extracts the material evidence, \<open>Resolver\<close> and \<open>Resolver_Safety\<close> let a model judge the open
  contradictions and show what becomes of its requests to humans, \<open>Reporting_Agents\<close> are the
  planner, which only advises, and the status agent, which writes one card a run;
  \<open>Scope_Storage\<close> names the objects of a scope and \<open>Scope_Reset\<close> deletes it. \<open>Causal_Dag\<close> and
  \<open>Causal_Safety\<close> are the content-addressed contributions with their causal cones.

  \<^bold>\<open>Evidence and finality.\<close> \<open>Sheaf_Diffusion\<close>, \<open>Evidence_State\<close> and \<open>Evidence_Safety\<close> are the
  propagation of evidence between roles and its tables; \<open>Convergence\<close> the convergence history.
  \<open>Graph_Snapshot\<close>, \<open>Finality_Gates\<close>, \<open>Finality_Input\<close>, \<open>Finality_Evaluator\<close> and \<open>Certificates\<close> are
  the evaluation of finality from the rows it reads to the certificate it signs;
  \<open>Finality_Safety\<close>, \<open>Finality_Effects\<close> (locales \<open>graph_order\<close>, \<open>check_order\<close>) and
  \<open>Finality_Examples\<close> say which scopes it can resolve and what it writes. \<open>Watchdog\<close> and
  \<open>Watchdog_Safety\<close> are the timer that evaluates a quiet scope and asks a human once.

  \<^bold>\<open>Baselines.\<close> \<open>Gset_Baseline\<close>, \<open>Vote_Baseline\<close> and \<open>State_Diff\<close> with \<open>Gset_Safety\<close> (locale
  \<open>grow_only\<close>) and \<open>Vote_Safety\<close> are the coordinators the experiments compare with.

  \<^bold>\<open>Bounds and fuel.\<close> The loops of the program that may run for ever are structural recursions on
  what the environment gives: the batches of an agent loop, the answers of a JetStream, the tool calls
  of a model, the pages of a listing. No definition carries fuel. Retries recurse on the
  attempts left, and the depth-first search of a causal cone on the identifiers not yet seen, with
  proved termination.

  \<^bold>\<open>Not modelled.\<close> Log lines, prompts, the HTML studio and the experiment scripts; the HTTP servers,
  whose routes parse a request and call the operations above; the native bindings of the kernel, of
  which the Rust code behind them is modelled; the client packages and the Python workers. Regular
  expressions are written out as functions where they decide something, and named where one is an
  argument. The manifest lists the parts with the reason for each.
\<close>

end
